(* ===== verification/Prelude.thy ===== *)
theory Prelude
  imports Main
begin

text \<open>
  Shared vocabulary of the development.

  The Go services keep their state in PostgreSQL and every mutation runs in one database
  transaction. A statement sequence inside a transaction is a state transformer that may fail,
  \<open>'s \<Rightarrow> 'e + 'a \<times> 's\<close>; a failing statement makes the Go code return the error, and the
  deferred \<open>tx.Rollback\<close> discards the intermediate state, which \<open>transaction\<close> models.
  The theory also holds the table primitives (a table is the list of its rows) and a locale
  for invariants of transition systems.
\<close>

named_theorems tx_simps \<open>unfolding rules of the transaction combinators\<close>
named_theorems balance_simps \<open>how a ledger operation changes every balance\<close>
named_theorems frame_simps \<open>tables an operation leaves unchanged\<close>

section \<open>Transactions\<close>

type_synonym ('s, 'e, 'a) tx = "'s \<Rightarrow> 'e + 'a \<times> 's"

definition returnT :: "'a \<Rightarrow> ('s, 'e, 'a) tx" where
  "returnT x s = Inr (x, s)"

definition failT :: "'e \<Rightarrow> ('s, 'e, 'a) tx" where
  "failT e s = Inl e"

definition bindT :: "('s, 'e, 'a) tx \<Rightarrow> ('a \<Rightarrow> ('s, 'e, 'b) tx) \<Rightarrow> ('s, 'e, 'b) tx" where
  "bindT m f s = (case m s of Inl e \<Rightarrow> Inl e | Inr (x, s') \<Rightarrow> f x s')"

text \<open>\<open>ensureT b e\<close> is the early return \<open>if !b { return e }\<close>.\<close>

definition ensureT :: "bool \<Rightarrow> 'e \<Rightarrow> ('s, 'e, unit) tx" where
  "ensureT b e = (if b then returnT () else failT e)"

definition queryT :: "('s \<Rightarrow> 'a) \<Rightarrow> ('s, 'e, 'a) tx" where
  "queryT q s = Inr (q s, s)"

definition execT :: "('s \<Rightarrow> 's) \<Rightarrow> ('s, 'e, unit) tx" where
  "execT f s = Inr ((), f s)"

text \<open>\<open>rowT q e\<close> is \<open>QueryRow(...).Scan\<close> with \<open>pgx.ErrNoRows\<close> turned into \<open>e\<close>.\<close>

definition rowT :: "('s \<Rightarrow> 'a option) \<Rightarrow> 'e \<Rightarrow> ('s, 'e, 'a) tx" where
  "rowT q e s = (case q s of None \<Rightarrow> Inl e | Some x \<Rightarrow> Inr (x, s))"

definition liftT :: "'e + 'a \<Rightarrow> ('s, 'e, 'a) tx" where
  "liftT r s = (case r of Inl e \<Rightarrow> Inl e | Inr x \<Rightarrow> Inr (x, s))"

fun forT :: "('a \<Rightarrow> ('s, 'e, unit) tx) \<Rightarrow> 'a list \<Rightarrow> ('s, 'e, unit) tx" where
  "forT f [] = returnT ()"
| "forT f (x # xs) = bindT (f x) (\<lambda>_. forT f xs)"

fun mapT :: "('a \<Rightarrow> ('s, 'e, 'b) tx) \<Rightarrow> 'a list \<Rightarrow> ('s, 'e, 'b list) tx" where
  "mapT f [] = returnT []"
| "mapT f (x # xs) = bindT (f x) (\<lambda>y. bindT (mapT f xs) (\<lambda>ys. returnT (y # ys)))"

text \<open>
  \<open>transaction\<close> is \<open>BeginTx ... defer Rollback ... Commit\<close>: the state changes only when
  the body succeeds. \<open>transactionE\<close> is the variant whose body may commit and still return
  an error value.
\<close>

definition transaction :: "('s, 'e, 'a) tx \<Rightarrow> 's \<Rightarrow> ('e + 'a) \<times> 's" where
  "transaction m s = (case m s of Inl e \<Rightarrow> (Inl e, s) | Inr (x, s') \<Rightarrow> (Inr x, s'))"

definition transactionE :: "('s, 'e, 'e + 'a) tx \<Rightarrow> 's \<Rightarrow> ('e + 'a) \<times> 's" where
  "transactionE m s = (case m s of Inl e \<Rightarrow> (Inl e, s) | Inr (r, s') \<Rightarrow> (r, s'))"

lemma returnT_simps [tx_simps]: "returnT x s = Inr r \<longleftrightarrow> r = (x, s)" "returnT x s \<noteq> Inl e"
  by (auto simp: returnT_def)

lemma failT_simps [tx_simps]: "failT e s \<noteq> Inr r" "failT e s = Inl e' \<longleftrightarrow> e' = e"
  by (auto simp: failT_def)

lemma bindT_Inr [tx_simps]:
  "bindT m f s = Inr r \<longleftrightarrow> (\<exists>x s'. m s = Inr (x, s') \<and> f x s' = Inr r)"
  by (auto simp: bindT_def split: sum.splits prod.splits)

lemma ensureT_simps [tx_simps]:
  "ensureT b e s = Inr r \<longleftrightarrow> b \<and> r = ((), s)" "ensureT b e s = Inl e' \<longleftrightarrow> \<not> b \<and> e' = e"
  by (auto simp: ensureT_def returnT_def failT_def)

lemma queryT_simps [tx_simps]: "queryT q s = Inr r \<longleftrightarrow> r = (q s, s)" "queryT q s \<noteq> Inl e"
  by (auto simp: queryT_def)

lemma execT_simps [tx_simps]: "execT f s = Inr r \<longleftrightarrow> r = ((), f s)" "execT f s \<noteq> Inl e"
  by (auto simp: execT_def)

lemma rowT_simps [tx_simps]:
  "rowT q e s = Inr r \<longleftrightarrow> (\<exists>x. q s = Some x \<and> r = (x, s))" "rowT q e s = Inl e' \<longleftrightarrow> q s = None \<and> e' = e"
  by (auto simp: rowT_def split: option.splits)

lemma liftT_simps [tx_simps]:
  "liftT r s = Inr r' \<longleftrightarrow> (\<exists>x. r = Inr x \<and> r' = (x, s))" "liftT r s = Inl e \<longleftrightarrow> r = Inl e"
  by (auto simp: liftT_def split: sum.splits)

text \<open>Step-by-step execution of a transaction on a known state.\<close>

lemma bindT_step: "m s = Inr (x, s') \<Longrightarrow> bindT m f s = f x s'"
  by (simp add: bindT_def)

lemma bindT_fail: "m s = Inl e \<Longrightarrow> bindT m f s = Inl e"
  by (simp add: bindT_def)

lemmas tx_defs = returnT_def failT_def bindT_def ensureT_def queryT_def execT_def rowT_def liftT_def

lemma transaction_Inr: "transaction m s = (Inr x, s') \<longleftrightarrow> m s = Inr (x, s')"
  by (auto simp: transaction_def split: sum.splits prod.splits)

lemma transaction_Inl: "transaction m s = (Inl e, s') \<longleftrightarrow> m s = Inl e \<and> s' = s"
  by (auto simp: transaction_def split: sum.splits prod.splits)

text \<open>An invariant of every statement of a transaction is an invariant of the transaction.\<close>

definition preserves :: "('s \<Rightarrow> bool) \<Rightarrow> ('s, 'e, 'a) tx \<Rightarrow> bool" where
  "preserves P m \<longleftrightarrow> (\<forall>s x s'. P s \<longrightarrow> m s = Inr (x, s') \<longrightarrow> P s')"

lemma preservesI: "(\<And>s x s'. P s \<Longrightarrow> m s = Inr (x, s') \<Longrightarrow> P s') \<Longrightarrow> preserves P m"
  by (auto simp: preserves_def)

lemma preservesD: "preserves P m \<Longrightarrow> P s \<Longrightarrow> m s = Inr (x, s') \<Longrightarrow> P s'"
  by (auto simp: preserves_def)

lemma preserves_bindT: "preserves P m \<Longrightarrow> (\<And>x. preserves P (f x)) \<Longrightarrow> preserves P (bindT m f)"
  unfolding preserves_def bindT_Inr by blast

lemma preserves_pure:
  "preserves P (returnT x)" "preserves P (failT e)" "preserves P (ensureT b e)"
  "preserves P (queryT q)" "preserves P (rowT r e)" "preserves P (liftT l)"
  by (auto simp: preserves_def tx_simps)

lemma preserves_execT: "(\<And>s. P s \<Longrightarrow> P (f s)) \<Longrightarrow> preserves P (execT f)"
  by (auto simp: preserves_def tx_simps)

lemma preserves_forT: "(\<And>x. x \<in> set xs \<Longrightarrow> preserves P (f x)) \<Longrightarrow> preserves P (forT f xs)"
  by (induction xs) (auto intro: preserves_bindT preserves_pure)

lemma preserves_mapT: "(\<And>x. x \<in> set xs \<Longrightarrow> preserves P (f x)) \<Longrightarrow> preserves P (mapT f xs)"
  by (induction xs) (auto intro!: preserves_bindT preserves_pure)

lemma preserves_if: "preserves P m \<Longrightarrow> preserves P n \<Longrightarrow> preserves P (if b then m else n)"
  by simp

lemma preserves_transaction: "preserves P m \<Longrightarrow> P s \<Longrightarrow> P (snd (transaction m s))"
  by (auto simp: preserves_def transaction_def split: sum.splits prod.splits)

lemma preserves_transactionE: "preserves P m \<Longrightarrow> P s \<Longrightarrow> P (snd (transactionE m s))"
  by (auto simp: preserves_def transactionE_def split: sum.splits prod.splits)

text \<open>
  A reflexive and transitive relation between states that every statement of a transaction
  respects is respected by the transaction, committed or rolled back.
\<close>

definition tx_respects :: "('s \<Rightarrow> 's \<Rightarrow> bool) \<Rightarrow> ('s, 'e, 'a) tx \<Rightarrow> bool" where
  "tx_respects R m \<longleftrightarrow> (\<forall>s x s'. m s = Inr (x, s') \<longrightarrow> R s s')"

lemma respectsI: "(\<And>s x s'. m s = Inr (x, s') \<Longrightarrow> R s s') \<Longrightarrow> tx_respects R m"
  by (auto simp: tx_respects_def)

lemma respectsD: "tx_respects R m \<Longrightarrow> m s = Inr (x, s') \<Longrightarrow> R s s'"
  by (auto simp: tx_respects_def)

text \<open>The same from a state where \<open>P\<close> holds.\<close>

definition tx_from :: "('s \<Rightarrow> bool) \<Rightarrow> ('s \<Rightarrow> 's \<Rightarrow> bool) \<Rightarrow> ('s, 'e, 'a) tx \<Rightarrow> bool" where
  "tx_from P R m \<longleftrightarrow> (\<forall>s x s'. P s \<longrightarrow> m s = Inr (x, s') \<longrightarrow> R s s')"

lemma fromD: "tx_from P R m \<Longrightarrow> P s \<Longrightarrow> m s = Inr (x, s') \<Longrightarrow> R s s'"
  by (simp add: tx_from_def)

lemma respects_from: "tx_from (\<lambda>_. True) R m \<Longrightarrow> tx_respects R m"
  by (simp add: tx_from_def tx_respects_def)

locale tx_relation =
  fixes R :: "'s \<Rightarrow> 's \<Rightarrow> bool"
  assumes R_refl: "R s s"
    and R_trans: "R s t \<Longrightarrow> R t u \<Longrightarrow> R s u"
begin

lemma bind: "tx_respects R m \<Longrightarrow> (\<And>x. tx_respects R (f x)) \<Longrightarrow> tx_respects R (bindT m f)"
  unfolding tx_respects_def bindT_Inr by (blast intro: R_trans)

lemma pure:
  "tx_respects R (returnT x)" "tx_respects R (failT e)" "tx_respects R (ensureT b e)"
  "tx_respects R (queryT q)" "tx_respects R (rowT r e)" "tx_respects R (liftT l)"
  by (auto simp: tx_respects_def tx_simps R_refl)

lemma bind_lift: "(\<And>x. r = Inr x \<Longrightarrow> tx_respects R (f x)) \<Longrightarrow> tx_respects R (bindT (liftT r) f)"
  by (auto simp: tx_respects_def tx_simps)

lemma bind_ensure: "(b \<Longrightarrow> tx_respects R (f ())) \<Longrightarrow> tx_respects R (bindT (ensureT b e) f)"
  by (auto simp: tx_respects_def tx_simps)

lemma exec: "(\<And>s. R s (f s)) \<Longrightarrow> tx_respects R (execT f)"
  by (auto simp: tx_respects_def tx_simps)

lemma for_each: "(\<And>x. x \<in> set xs \<Longrightarrow> tx_respects R (f x)) \<Longrightarrow> tx_respects R (forT f xs)"
  by (induction xs) (auto intro: bind pure)

lemma map_each: "(\<And>x. x \<in> set xs \<Longrightarrow> tx_respects R (f x)) \<Longrightarrow> tx_respects R (mapT f xs)"
  by (induction xs) (auto intro!: bind pure)

lemma from_respects: "tx_respects R m \<Longrightarrow> tx_from P R m"
  by (simp add: tx_from_def tx_respects_def)

lemma from_bind:
  assumes "tx_from P R m" "\<And>s x s'. P s \<Longrightarrow> m s = Inr (x, s') \<Longrightarrow> Q x s'" "\<And>x. tx_from (Q x) R (f x)"
  shows "tx_from P R (bindT m f)"
  unfolding tx_from_def bindT_Inr
proof (intro allI impI, elim exE conjE)
  fix s y s' x t assume "P s" "m s = Inr (x, t)" "f x t = Inr (y, s')"
  then show "R s s'" using assms unfolding tx_from_def by (blast intro: R_trans)
qed

lemma from_query: "(\<And>x. tx_from (\<lambda>s. P s \<and> q s = x) R (f x)) \<Longrightarrow> tx_from P R (bindT (queryT q) f)"
  by (auto simp: tx_from_def tx_simps)

lemma from_row: "(\<And>x. tx_from (\<lambda>s. P s \<and> q s = Some x) R (f x)) \<Longrightarrow> tx_from P R (bindT (rowT q e) f)"
  by (auto simp: tx_from_def tx_simps)

lemma from_return: "tx_from P R (f x) \<Longrightarrow> tx_from P R (bindT (returnT x) f)"
  by (simp add: tx_from_def tx_simps)

lemma from_ensure: "(b \<Longrightarrow> tx_from P R (f ())) \<Longrightarrow> tx_from P R (bindT (ensureT b e) f)"
  by (auto simp: tx_from_def tx_simps)

lemma from_if: "(b \<Longrightarrow> tx_from P R m) \<Longrightarrow> (\<not> b \<Longrightarrow> tx_from P R n) \<Longrightarrow> tx_from P R (if b then m else n)"
  by simp

lemma from_mono: "tx_from Q R m \<Longrightarrow> (\<And>s. P s \<Longrightarrow> Q s) \<Longrightarrow> tx_from P R m"
  by (simp add: tx_from_def)

lemma committed: "tx_respects R m \<Longrightarrow> R s (snd (transaction m s))"
  by (auto simp: tx_respects_def transaction_def R_refl split: sum.splits prod.splits)

lemma committedE: "tx_respects R m \<Longrightarrow> R s (snd (transactionE m s))"
  by (auto simp: tx_respects_def transactionE_def R_refl split: sum.splits prod.splits)

end

section \<open>Tables\<close>

text \<open>\<open>UPDATE t SET ... WHERE p\<close>.\<close>

definition update_where :: "('r \<Rightarrow> bool) \<Rightarrow> ('r \<Rightarrow> 'r) \<Rightarrow> 'r list \<Rightarrow> 'r list" where
  "update_where p f rows = map (\<lambda>r. if p r then f r else r) rows"

lemma update_where_simps [simp]:
  "update_where p f [] = []"
  "update_where p f (r # rows) = (if p r then f r else r) # update_where p f rows"
  by (simp_all add: update_where_def)

lemma set_update_where:
  "r \<in> set (update_where p f rows) \<longleftrightarrow> (\<exists>r0 \<in> set rows. r = (if p r0 then f r0 else r0))"
  by (auto simp: update_where_def)

lemma update_where_hit:
  assumes "r \<in> set (update_where (\<lambda>x. k x = c) f rows)" "k r = c"
  shows "\<exists>r0 \<in> set rows. k r0 = c \<and> r = f r0"
proof -
  obtain r0 where r0: "r0 \<in> set rows" "r = (if k r0 = c then f r0 else r0)"
    using assms(1) by (auto simp: set_update_where)
  with assms(2) have "k r0 = c" by (metis (full_types))
  with r0 show ?thesis by auto
qed

lemma map_update_where:
  "(\<And>r. p r \<Longrightarrow> g (f r) = g r) \<Longrightarrow> map g (update_where p f rows) = map g rows"
  by (induction rows) auto

lemma find_update_where:
  "(\<And>r. p r \<Longrightarrow> q (f r) = q r) \<Longrightarrow>
   find q (update_where p f rows) = map_option (\<lambda>r. if p r then f r else r) (find q rows)"
  by (induction rows) auto

lemma find_append: "find p (xs @ ys) = (case find p xs of None \<Rightarrow> find p ys | Some x \<Rightarrow> Some x)"
  by (induction xs) auto

lemma find_SomeD: "find p xs = Some x \<Longrightarrow> x \<in> set xs \<and> p x"
  by (induction xs) (auto split: if_splits)

lemma sum_list_filter_append:
  "sum_list (map f (filter p (xs @ ys))) = sum_list (map f (filter p xs)) + (sum_list (map f (filter p ys)) :: int)"
  by simp

text \<open>A row that a unique key identifies is the one \<open>find\<close> returns.\<close>

lemma find_unique_key:
  "distinct (map k rows) \<Longrightarrow> r \<in> set rows \<Longrightarrow> find (\<lambda>x. k x = k r) rows = Some r"
  by (induction rows) (auto simp: image_iff)

text \<open>An update that hits one row changes a sum over the table by that row's difference.\<close>

lemma sum_update_where_unique:
  assumes "distinct (map k rows)" "r \<in> set rows" "\<And>x. x \<in> set rows \<Longrightarrow> p x \<longleftrightarrow> k x = k r"
  shows "(\<Sum>x\<leftarrow>update_where p f rows. g x) = (\<Sum>x\<leftarrow>rows. g x) - g r + (g (f r) :: int)"
  using assms
proof (induction rows)
  case (Cons y ys)
  show ?case
  proof (cases "y = r")
    case True
    then have "\<forall>x \<in> set ys. \<not> p x" using Cons.prems by (auto simp: image_iff)
    then have "update_where p f ys = ys" by (induction ys) auto
    with True Cons.prems show ?thesis by simp
  next
    case False
    then have "r \<in> set ys" using Cons.prems(2) by simp
    moreover have "\<not> p y" using Cons.prems \<open>r \<in> set ys\<close> by (auto simp: image_iff)
    ultimately show ?thesis using Cons by simp
  qed
qed simp

lemma sum_list_unique_key:
  assumes "distinct (map k rows)" "r \<in> set rows"
  shows "(\<Sum>x\<leftarrow>rows. if k x = k r then g x else 0) = (g r :: int)"
  using assms
proof (induction rows)
  case (Cons y ys)
  show ?case
  proof (cases "y = r")
    case True
    then have "\<forall>x \<in> set ys. k x \<noteq> k r" using Cons.prems by (auto simp: image_iff)
    then have "(\<Sum>x\<leftarrow>ys. if k x = k r then g x else 0) = 0" by (induction ys) auto
    with True show ?thesis by simp
  next
    case False
    then have "r \<in> set ys" using Cons.prems(2) by simp
    moreover have "k y \<noteq> k r" using Cons.prems(1) \<open>r \<in> set ys\<close> by (auto simp: image_iff)
    ultimately show ?thesis using Cons by simp
  qed
qed simp

section \<open>Transition systems\<close>

text \<open>
  A component seen from outside is a set of initial states and a step relation. An inductive
  invariant holds in every state a run reaches.
\<close>

locale transition_system =
  fixes init :: "'s \<Rightarrow> bool"
    and step :: "'s \<Rightarrow> 's \<Rightarrow> bool"
    and inv :: "'s \<Rightarrow> bool"
  assumes inv_init: "init s \<Longrightarrow> inv s"
    and inv_step: "inv s \<Longrightarrow> step s t \<Longrightarrow> inv t"
begin

lemma inv_run: "step\<^sup>*\<^sup>* s t \<Longrightarrow> inv s \<Longrightarrow> inv t"
  by (induction rule: rtranclp_induct) (auto intro: inv_step)

lemma inv_reachable: "init s \<Longrightarrow> step\<^sup>*\<^sup>* s t \<Longrightarrow> inv t"
  using inv_init inv_run by blast

end

section \<open>Results\<close>

text \<open>Sequencing of calls that return an error or a value, without state.\<close>

definition bindE :: "'e + 'a \<Rightarrow> ('a \<Rightarrow> 'e + 'b) \<Rightarrow> 'e + 'b" where
  "bindE r f = (case r of Inl e \<Rightarrow> Inl e | Inr x \<Rightarrow> f x)"

end
