(* ===== verification/Go_Strings.thy ===== *)
theory Go_Strings
  imports Prelude "HOL-Library.Word" "HOL-Library.List_Lexorder" "HOL-Library.Char_ord"
begin

text \<open>
  Go strings are byte sequences, modelled as \<open>string\<close> (a \<open>char\<close> is a byte). This theory
  models what the services use of the packages \<open>strings\<close>, \<open>strconv\<close> and \<open>math/big\<close>:
  \<open>TrimSpace\<close>, \<open>ToUpper\<close>, \<open>ToLower\<close>, \<open>HasPrefix\<close>, \<open>Join\<close>, \<open>FormatUint\<close>,
  \<open>ParseUint\<close>, \<open>big.Int.String\<close> and \<open>big.Int.SetString\<close> in base 10. The
  locale \<open>decimal_codec\<close> is the contract of a text rendering that can be read back; every
  number the services store or hash as text goes through an interpretation of it.
\<close>

type_synonym u64 = "64 word"
type_synonym i64 = "64 word"
type_synonym i16 = "16 word"
type_synonym u32 = "32 word"
type_synonym u8 = "8 word"

abbreviation byte :: "char \<Rightarrow> nat" where
  "byte c \<equiv> of_char c"

lemma char_numeral_eq:
  "char_of (numeral n :: nat) = c \<longleftrightarrow> numeral n mod 256 = byte c"
  "c = char_of (numeral n :: nat) \<longleftrightarrow> byte c = numeral n mod 256"
  using char_of_eq_iff [of "numeral n" c] by (auto simp: take_bit_eq_mod)

section \<open>White space\<close>

text \<open>
  The UTF-8 encodings of the code points for which \<open>unicode.IsSpace\<close> holds. A string
  begins (ends) with a white-space rune exactly when one of these byte sequences is a prefix
  (suffix) of it: each starts with a rune-start byte and continues with continuation bytes.
\<close>

definition space_runes :: "nat list list" where
  "space_runes =
     [[9], [10], [11], [12], [13], [32], [0xC2, 0x85], [0xC2, 0xA0], [0xE1, 0x9A, 0x80],
      [0xE2, 0x80, 0x80], [0xE2, 0x80, 0x81], [0xE2, 0x80, 0x82], [0xE2, 0x80, 0x83],
      [0xE2, 0x80, 0x84], [0xE2, 0x80, 0x85], [0xE2, 0x80, 0x86], [0xE2, 0x80, 0x87],
      [0xE2, 0x80, 0x88], [0xE2, 0x80, 0x89], [0xE2, 0x80, 0x8A], [0xE2, 0x80, 0xA8],
      [0xE2, 0x80, 0xA9], [0xE2, 0x80, 0xAF], [0xE2, 0x81, 0x9F], [0xE3, 0x80, 0x80]]"

definition space_encodings :: "string list" where
  "space_encodings = map (map char_of) space_runes"

text \<open>Remove leading occurrences of the patterns, as \<open>TrimLeftFunc\<close> does.\<close>

definition starts_with :: "'a list list \<Rightarrow> 'a list \<Rightarrow> 'a list option" where
  "starts_with ps s = find (\<lambda>p. p \<noteq> [] \<and> take (length p) s = p) ps"

function strip :: "'a list list \<Rightarrow> 'a list \<Rightarrow> 'a list" where
  "strip ps s = (case starts_with ps s of None \<Rightarrow> s | Some p \<Rightarrow> strip ps (drop (length p) s))"
  by pat_completeness auto
termination
proof (relation "measure (\<lambda>(ps, s). length s)", goal_cases)
  case 1
  then show ?case by simp
next
  case (2 ps s p)
  then have "p \<noteq> []" and "take (length p) s = p"
    by (auto simp: starts_with_def dest: find_SomeD)
  then have "s \<noteq> []" by (metis take_eq_Nil)
  with \<open>p \<noteq> []\<close> show ?case by simp
qed

declare strip.simps [simp del]

definition TrimSpace :: "string \<Rightarrow> string" where
  "TrimSpace s = rev (strip (map rev space_encodings) (rev (strip space_encodings s)))"

lemma starts_with_strip: "starts_with ps (strip ps s) = None"
proof (induction ps s rule: strip.induct)
  case (1 ps s)
  show ?case
  proof (cases "starts_with ps s")
    case None
    then show ?thesis by (simp add: strip.simps [of ps s])
  next
    case (Some p)
    with 1 show ?thesis by (simp add: strip.simps [of ps s])
  qed
qed

lemma strip_id: "starts_with ps s = None \<Longrightarrow> strip ps s = s"
  by (simp add: strip.simps [of ps s])

lemma strip_suffix: "\<exists>k. strip ps s = drop k s"
proof (induction ps s rule: strip.induct)
  case (1 ps s)
  show ?case
  proof (cases "starts_with ps s")
    case None
    then show ?thesis by (auto simp: strip.simps [of ps s] intro: exI [of _ 0])
  next
    case (Some p)
    with 1 obtain k where "strip ps (drop (length p) s) = drop k (drop (length p) s)" by blast
    with Some show ?thesis by (auto simp: strip.simps [of ps s])
  qed
qed

lemma starts_with_take: "starts_with ps s = None \<Longrightarrow> starts_with ps (take k s) = None"
  by (fastforce simp: starts_with_def find_None_iff min_def split: if_splits)

lemma TrimSpace_idem [simp]: "TrimSpace (TrimSpace s) = TrimSpace s"
proof -
  let ?l = "strip space_encodings s"
  let ?r = "strip (map rev space_encodings) (rev ?l)"
  obtain k where k: "?r = drop k (rev ?l)" using strip_suffix by blast
  have "rev ?r = take (length ?l - k) ?l" by (simp add: k rev_drop)
  then have "starts_with space_encodings (rev ?r) = None"
    by (simp add: starts_with_take starts_with_strip)
  then have "strip space_encodings (rev ?r) = rev ?r" by (rule strip_id)
  then show ?thesis by (simp add: TrimSpace_def strip_id starts_with_strip)
qed

lemma starts_with_Nil [simp]: "starts_with ps [] = None"
  by (auto simp: starts_with_def find_None_iff)

lemma TrimSpace_Nil [simp]: "TrimSpace [] = []"
  by (simp add: TrimSpace_def strip_id)

section \<open>Case mapping\<close>

text \<open>
  On an ASCII string \<open>ToUpper\<close> and \<open>ToLower\<close> map bytes. On any other string Go consults
  the Unicode tables; that mapping is the parameter of the model.
\<close>

definition ascii :: "string \<Rightarrow> bool" where
  "ascii s \<longleftrightarrow> (\<forall>c \<in> set s. byte c < 128)"

definition upper_byte :: "char \<Rightarrow> char" where
  "upper_byte c = (if 97 \<le> byte c \<and> byte c \<le> 122 then char_of (byte c - 32) else c)"

definition lower_byte :: "char \<Rightarrow> char" where
  "lower_byte c = (if 65 \<le> byte c \<and> byte c \<le> 90 then char_of (byte c + 32) else c)"

definition ToUpper :: "(string \<Rightarrow> string) \<Rightarrow> string \<Rightarrow> string" where
  "ToUpper uni s = (if ascii s then map upper_byte s else uni s)"

definition ToLower :: "(string \<Rightarrow> string) \<Rightarrow> string \<Rightarrow> string" where
  "ToLower uni s = (if ascii s then map lower_byte s else uni s)"

definition is_upper :: "char \<Rightarrow> bool" where
  "is_upper c \<longleftrightarrow> 65 \<le> byte c \<and> byte c \<le> 90"

lemma ToUpper_upper:
  assumes "\<forall>c \<in> set s. is_upper c"
  shows "ToUpper uni s = s"
proof -
  have "ascii s" using assms by (auto simp: ascii_def is_upper_def)
  moreover have "map upper_byte s = map id s"
    using assms by (intro map_cong) (auto simp: upper_byte_def is_upper_def)
  ultimately show ?thesis by (simp add: ToUpper_def)
qed

definition HasPrefix :: "string \<Rightarrow> string \<Rightarrow> bool" where
  "HasPrefix s p \<longleftrightarrow> take (length p) s = p"

fun Join :: "string list \<Rightarrow> string \<Rightarrow> string" where
  "Join [] sep = []"
| "Join [x] sep = x"
| "Join (x # y # xs) sep = x @ sep @ Join (y # xs) sep"

definition FormatBool :: "bool \<Rightarrow> string" where
  "FormatBool b = (if b then ''true'' else ''false'')"

section \<open>Decimal numbers\<close>

definition is_digit :: "char \<Rightarrow> bool" where
  "is_digit c \<longleftrightarrow> 48 \<le> byte c \<and> byte c \<le> 57"

definition digit_val :: "char \<Rightarrow> nat" where
  "digit_val c = byte c - 48"

definition digit :: "nat \<Rightarrow> char" where
  "digit n = char_of (48 + n)"

fun digits_of :: "nat \<Rightarrow> string" where
  "digits_of n = (if n < 10 then [digit n] else digits_of (n div 10) @ [digit (n mod 10)])"

declare digits_of.simps [simp del]

definition digits_val :: "string \<Rightarrow> nat" where
  "digits_val s = foldl (\<lambda>n c. 10 * n + digit_val c) 0 s"

definition all_digits :: "string \<Rightarrow> bool" where
  "all_digits s \<longleftrightarrow> s \<noteq> [] \<and> (\<forall>c \<in> set s. is_digit c)"

lemma digit_simps [simp]: "n < 10 \<Longrightarrow> is_digit (digit n)" "n < 10 \<Longrightarrow> digit_val (digit n) = n"
  by (auto simp: is_digit_def digit_val_def digit_def)

lemma digits_of_nonempty [simp]: "digits_of n \<noteq> []"
  by (subst digits_of.simps) simp

lemma set_digits_of: "c \<in> set (digits_of n) \<Longrightarrow> is_digit c"
proof (induction n rule: digits_of.induct)
  case (1 n)
  then show ?case by (cases "n < 10") (auto simp: digits_of.simps [of n])
qed

lemma all_digits_digits_of [simp]: "all_digits (digits_of n)"
  by (auto simp: all_digits_def set_digits_of)

lemma digits_val_snoc [simp]: "digits_val (s @ [c]) = 10 * digits_val s + digit_val c"
  by (simp add: digits_val_def)

lemma digits_val_digits_of [simp]: "digits_val (digits_of n) = n"
proof (induction n rule: digits_of.induct)
  case (1 n)
  show ?case
  proof (cases "n < 10")
    case True
    then show ?thesis by (simp add: digits_of.simps [of n] digits_val_def)
  next
    case False
    with 1 show ?thesis by (simp add: digits_of.simps [of n])
  qed
qed

text \<open>\<open>strconv.FormatUint(n, 10)\<close> and \<open>strconv.ParseUint(s, 10, 64)\<close>.\<close>

definition FormatUint :: "u64 \<Rightarrow> string" where
  "FormatUint n = digits_of (unat n)"

definition ParseUint :: "string \<Rightarrow> u64 option" where
  "ParseUint s =
     (if all_digits s \<and> digits_val s < 2 ^ 64 then Some (of_nat (digits_val s)) else None)"

text \<open>\<open>big.Int.String()\<close> and \<open>big.Int.SetString(s, 10)\<close>.\<close>

definition BigString :: "int \<Rightarrow> string" where
  "BigString n = (if n < 0 then CHR ''-'' # digits_of (nat (- n)) else digits_of (nat n))"

definition SetString :: "string \<Rightarrow> int option" where
  "SetString s =
     (case s of
        [] \<Rightarrow> None
      | c # cs \<Rightarrow>
          if c = CHR ''-'' then (if all_digits cs then Some (- int (digits_val cs)) else None)
          else if c = CHR ''+'' then (if all_digits cs then Some (int (digits_val cs)) else None)
          else if all_digits s then Some (int (digits_val s)) else None)"

lemma digits_not_sign: "all_digits (c # cs) \<Longrightarrow> c \<noteq> CHR ''-'' \<and> c \<noteq> CHR ''+''"
  by (auto simp: all_digits_def is_digit_def)

lemma SetString_digits: "all_digits s \<Longrightarrow> SetString s = Some (int (digits_val s))"
  by (cases s) (auto simp: SetString_def dest: digits_not_sign, simp add: all_digits_def)

locale decimal_codec =
  fixes format :: "'n \<Rightarrow> string"
    and parse :: "string \<Rightarrow> 'n option"
  assumes parse_format: "parse (format n) = Some n"
begin

lemma format_inj: "format m = format n \<longleftrightarrow> m = n"
  by (metis parse_format option.inject)

lemma format_nonempty_if: "parse [] = None \<Longrightarrow> format n \<noteq> []"
  using parse_format [of n] by auto

end

interpretation uint_text: decimal_codec FormatUint ParseUint
proof
  fix n :: u64
  have "unat n < 2 ^ 64" using unsigned_less [of n, where ?'a = nat] by simp
  then show "ParseUint (FormatUint n) = Some n"
    by (simp add: ParseUint_def FormatUint_def)
qed

interpretation big_text: decimal_codec BigString SetString
proof
  fix n :: int
  show "SetString (BigString n) = Some n"
  proof (cases "n < 0")
    case True
    then show ?thesis by (simp add: BigString_def SetString_def)
  next
    case False
    then show ?thesis by (simp add: BigString_def SetString_digits)
  qed
qed

lemmas number_text [simp] = uint_text.parse_format big_text.parse_format

lemma FormatUint_BigString: "SetString (FormatUint n) = Some (uint n)"
  by (simp add: FormatUint_def SetString_digits)

lemma number_text_nonempty [simp]: "FormatUint m \<noteq> []" "BigString n \<noteq> []"
  by (simp_all add: FormatUint_def BigString_def)

text \<open>White-space trimming does not touch a text of graphic ASCII characters.\<close>

definition graphic :: "char \<Rightarrow> bool" where
  "graphic c \<longleftrightarrow> 33 \<le> byte c \<and> byte c \<le> 126"

lemma not_space_graphic: "p \<in> set space_encodings \<Longrightarrow> c \<in> set p \<Longrightarrow> \<not> graphic c"
  by (auto simp: space_encodings_def space_runes_def graphic_def)

lemma starts_with_graphic:
  assumes "\<And>p c. p \<in> set ps \<Longrightarrow> c \<in> set p \<Longrightarrow> \<not> graphic c" and "\<forall>c \<in> set s. graphic c"
  shows "starts_with ps s = None"
proof (rule ccontr)
  assume "starts_with ps s \<noteq> None"
  then obtain p where p: "p \<in> set ps" "p \<noteq> []" "take (length p) s = p"
    unfolding starts_with_def by (auto dest: find_SomeD)
  then obtain c where c: "c \<in> set p" by fastforce
  then have "c \<in> set s" using p(3) set_take_subset [of "length p" s] by auto
  with assms p(1) c show False by blast
qed

lemma TrimSpace_graphic: "list_all graphic s \<Longrightarrow> TrimSpace s = s"
proof -
  assume "list_all graphic s"
  then have g: "\<forall>c \<in> set s. graphic c" by (simp add: list_all_iff)
  have "strip space_encodings s = s"
    by (rule strip_id, rule starts_with_graphic [OF not_space_graphic g])
  moreover have "strip (map rev space_encodings) (rev s) = rev s"
    by (rule strip_id, rule starts_with_graphic) (use g not_space_graphic in auto)
  ultimately show ?thesis by (simp add: TrimSpace_def)
qed

lemma TrimSpace_leading_space: "list_all graphic s \<Longrightarrow> TrimSpace (CHR 0x20 # s) = s"
proof -
  assume g: "list_all graphic s"
  then have "strip space_encodings s = s"
    by (intro strip_id starts_with_graphic [OF not_space_graphic]) (auto simp: list_all_iff)
  moreover have "starts_with space_encodings (CHR 0x20 # s) = Some [CHR 0x20]"
    by (simp add: starts_with_def space_encodings_def space_runes_def char_numeral_eq)
  ultimately have "strip space_encodings (CHR 0x20 # s) = strip space_encodings s"
    by (simp add: strip.simps [of _ "CHR 0x20 # s"])
  then have "TrimSpace (CHR 0x20 # s) = TrimSpace s" by (simp add: TrimSpace_def)
  with g show ?thesis by (simp add: TrimSpace_graphic)
qed

lemma graphic_if: "is_digit c \<Longrightarrow> graphic c" "is_upper c \<Longrightarrow> graphic c"
  by (auto simp: graphic_def is_digit_def is_upper_def)

lemma TrimSpace_FormatUint [simp]: "TrimSpace (FormatUint n) = FormatUint n"
  by (intro TrimSpace_graphic) (auto simp: FormatUint_def list_all_iff dest: set_digits_of intro: graphic_if)

end
