(* ===== verification/Ledger.thy ===== *)
theory Ledger
  imports Go_Strings "HOL-Library.AList"
begin

text \<open>
  The package \<open>internal/ledger\<close>: journals of postings and \<open>Journal.Validate\<close>. Amounts
  are \<open>int64\<close>, and the per-asset totals that \<open>Validate\<close> compares are \<open>int64\<close>
  sums, so they are kept as 64-bit words and wrap around as Go's do.
\<close>

record posting =
  AccountID :: string
  AssetID :: string
  Direction :: string
  Amount :: i64

record journal =
  ID :: string
  IdempotencyKey :: string
  ReferenceType :: string
  ReferenceID :: string
  CreatedAt :: int
  Postings :: "posting list"

datatype ledger_error =
    JournalIdentityRequired
  | JournalNeedsTwoPostings
  | PostingIdentityRequired
  | ErrInvalidAmount
  | InvalidDirection string
  | ErrDuplicateAccount
  | ErrUnbalanced

definition Debit :: string where "Debit = ''debit''"
definition Credit :: string where "Credit = ''credit''"

text \<open>\<open>AccountAssetLockKey\<close> and the key of the duplicate check in \<open>Validate\<close>.\<close>

definition AccountAssetLockKey :: "string \<Rightarrow> string \<Rightarrow> string" where
  "AccountAssetLockKey accountID assetID = accountID @ '':'' @ assetID"

definition posting_key :: "posting \<Rightarrow> string" where
  "posting_key p = AccountID p @ '':'' @ AssetID p @ '':'' @ Direction p"

type_synonym totals = "(string \<times> i64 \<times> i64) list"

definition total_of :: "totals \<Rightarrow> string \<Rightarrow> i64 \<times> i64" where
  "total_of t asset = (case map_of t asset of None \<Rightarrow> (0, 0) | Some dc \<Rightarrow> dc)"

definition add_posting :: "posting \<Rightarrow> totals \<Rightarrow> totals" where
  "add_posting p t =
     (case total_of t (AssetID p) of (d, c) \<Rightarrow>
        AList.update (AssetID p)
          (if Direction p = Debit then (d + Amount p, c) else (d, c + Amount p)) t)"

text \<open>The loop of \<open>Validate\<close> over \<open>j.Postings\<close>.\<close>

fun validate_loop :: "posting list \<Rightarrow> totals \<Rightarrow> string list \<Rightarrow> ledger_error + totals" where
  "validate_loop [] t seen = Inr t"
| "validate_loop (p # ps) t seen =
     (if AccountID p = [] \<or> AssetID p = [] then Inl PostingIdentityRequired
      else if sint (Amount p) \<le> 0 then Inl ErrInvalidAmount
      else if Direction p \<noteq> Debit \<and> Direction p \<noteq> Credit then Inl (InvalidDirection (Direction p))
      else if posting_key p \<in> set seen then Inl ErrDuplicateAccount
      else validate_loop ps (add_posting p t) (posting_key p # seen))"

definition Validate :: "journal \<Rightarrow> ledger_error + unit" where
  "Validate j =
     (if ID j = [] \<or> IdempotencyKey j = [] \<or> ReferenceType j = [] \<or> ReferenceID j = []
      then Inl JournalIdentityRequired
      else if length (Postings j) < 2 then Inl JournalNeedsTwoPostings
      else case validate_loop (Postings j) [] [] of
        Inl e \<Rightarrow> Inl e
      | Inr t \<Rightarrow> if list_all (\<lambda>(asset, d, c). d = c) t then Inr () else Inl ErrUnbalanced)"

section \<open>What Validate accepts\<close>

definition well_formed_posting :: "posting \<Rightarrow> bool" where
  "well_formed_posting p \<longleftrightarrow>
     AccountID p \<noteq> [] \<and> AssetID p \<noteq> [] \<and> 0 < sint (Amount p) \<and>
     (Direction p = Debit \<or> Direction p = Credit)"

definition well_formed_journal :: "journal \<Rightarrow> bool" where
  "well_formed_journal j \<longleftrightarrow>
     ID j \<noteq> [] \<and> IdempotencyKey j \<noteq> [] \<and> ReferenceType j \<noteq> [] \<and> ReferenceID j \<noteq> [] \<and>
     2 \<le> length (Postings j) \<and> list_all well_formed_posting (Postings j) \<and>
     distinct (map posting_key (Postings j))"

text \<open>The exact sums over the integers that double-entry bookkeeping compares.\<close>

definition debit_sum :: "string \<Rightarrow> posting list \<Rightarrow> int" where
  "debit_sum asset ps =
     sum_list (map (\<lambda>p. sint (Amount p)) (filter (\<lambda>p. AssetID p = asset \<and> Direction p = Debit) ps))"

definition credit_sum :: "string \<Rightarrow> posting list \<Rightarrow> int" where
  "credit_sum asset ps =
     sum_list (map (\<lambda>p. sint (Amount p)) (filter (\<lambda>p. AssetID p = asset \<and> Direction p \<noteq> Debit) ps))"

definition balanced :: "journal \<Rightarrow> bool" where
  "balanced j \<longleftrightarrow> (\<forall>asset. debit_sum asset (Postings j) = credit_sum asset (Postings j))"

definition totals_fit_int64 :: "journal \<Rightarrow> bool" where
  "totals_fit_int64 j \<longleftrightarrow>
     (\<forall>asset. debit_sum asset (Postings j) < 2 ^ 63 \<and> credit_sum asset (Postings j) < 2 ^ 63)"

lemma validate_loop_ok:
  "validate_loop ps t seen = Inr t' \<longleftrightarrow>
     list_all well_formed_posting ps \<and> distinct (map posting_key ps) \<and>
     set (map posting_key ps) \<inter> set seen = {} \<and> t' = fold add_posting ps t"
proof (induction ps arbitrary: t seen)
  case (Cons p ps)
  show ?case
    by (auto simp: Cons.IH well_formed_posting_def)
qed auto

lemma total_of_add_posting:
  "total_of (add_posting p t) a =
     (if AssetID p = a then
        (if Direction p = Debit then (fst (total_of t a) + Amount p, snd (total_of t a))
         else (fst (total_of t a), snd (total_of t a) + Amount p))
      else total_of t a)"
  by (auto simp: add_posting_def total_of_def update_conv split: prod.splits option.splits)

lemma total_of_fold:
  "total_of (fold add_posting ps t) a =
     (fst (total_of t a) + of_int (debit_sum a ps), snd (total_of t a) + of_int (credit_sum a ps))"
  by (induction ps arbitrary: t)
     (auto simp: total_of_add_posting debit_sum_def credit_sum_def)

lemma distinct_fold_add_posting:
  "distinct (map fst t) \<Longrightarrow> distinct (map fst (fold add_posting ps t))"
  by (induction ps arbitrary: t) (auto simp: add_posting_def distinct_update split: prod.splits)

lemma totals_all_iff:
  assumes "distinct (map fst t)"
  shows "list_all (\<lambda>(a, d, c). d = c) t \<longleftrightarrow> (\<forall>a. fst (total_of t a) = snd (total_of t a))"
    (is "?l \<longleftrightarrow> ?r")
proof
  assume ?l
  then show ?r
    by (auto simp: total_of_def list_all_iff dest!: map_of_SomeD split: option.splits)
next
  assume r: ?r
  show ?l
    unfolding list_all_iff
  proof (clarify)
    fix a d c assume "(a, d, c) \<in> set t"
    then have "map_of t a = Some (d, c)" using assms by (simp add: map_of_is_SomeI)
    then show "d = c" using r [THEN spec, of a] by (simp add: total_of_def)
  qed
qed

lemma sums_nonneg:
  "list_all well_formed_posting ps \<Longrightarrow> 0 \<le> debit_sum a ps \<and> 0 \<le> credit_sum a ps"
  unfolding debit_sum_def credit_sum_def
  by (intro conjI sum_list_nonneg) (auto simp: list_all_iff well_formed_posting_def)

lemma word_of_small_int:
  assumes "0 \<le> x" "x < 2 ^ 63" "0 \<le> y" "y < 2 ^ 63"
  shows "(of_int x :: i64) = of_int y \<longleftrightarrow> x = y"
proof -
  have "take_bit 64 x = x" "take_bit 64 y = y"
    using assms by (auto simp: take_bit_int_eq_self_iff)
  then show ?thesis by (simp add: word_of_int_eq_iff)
qed

lemma Validate_accepts:
  "Validate j = Inr () \<longleftrightarrow>
     well_formed_journal j \<and>
     (\<forall>a. (of_int (debit_sum a (Postings j)) :: i64) = of_int (credit_sum a (Postings j)))"
  (is "?l \<longleftrightarrow> ?r")
proof (cases "validate_loop (Postings j) [] []")
  case (Inl e)
  then have "\<not> (list_all well_formed_posting (Postings j) \<and> distinct (map posting_key (Postings j)))"
    using validate_loop_ok [of "Postings j" "[]" "[]"] by auto
  with Inl show ?thesis by (auto simp: Validate_def well_formed_journal_def)
next
  case (Inr t)
  then have t: "t = fold add_posting (Postings j) []"
    and wf: "list_all well_formed_posting (Postings j)" "distinct (map posting_key (Postings j))"
    by (auto simp: validate_loop_ok)
  have "distinct (map fst t)" by (simp add: t distinct_fold_add_posting)
  then have "list_all (\<lambda>(a, d, c). d = c) t \<longleftrightarrow>
      (\<forall>a. (of_int (debit_sum a (Postings j)) :: i64) = of_int (credit_sum a (Postings j)))"
    unfolding t by (simp add: totals_all_iff total_of_fold) (simp add: total_of_def)
  with Inr wf show ?thesis by (auto simp: Validate_def well_formed_journal_def)
qed

text \<open>
  C1: as long as the per-asset totals fit in \<open>int64\<close>, \<open>Journal.Validate\<close> accepts a
  journal exactly when its identity fields are set, it has at least two postings, every posting
  names an account and an asset with a positive amount and a valid direction, no
  account/asset/direction key repeats, and for every asset the debits equal the credits.
\<close>

theorem Validate_iff_balanced:
  assumes "totals_fit_int64 j"
  shows "Validate j = Inr () \<longleftrightarrow> well_formed_journal j \<and> balanced j"
proof -
  have "(of_int (debit_sum a (Postings j)) :: i64) = of_int (credit_sum a (Postings j)) \<longleftrightarrow>
      debit_sum a (Postings j) = credit_sum a (Postings j)" if "well_formed_journal j" for a
    using assms that sums_nonneg [of "Postings j" a]
    by (intro word_of_small_int) (auto simp: totals_fit_int64_def well_formed_journal_def)
  then show ?thesis by (auto simp: Validate_accepts balanced_def)
qed

definition example_journal :: journal where
  "example_journal =
     \<lparr>ID = ''j_1'', IdempotencyKey = ''transfer:1'', ReferenceType = ''transfer'',
      ReferenceID = ''t_1'', CreatedAt = 0,
      Postings = [\<lparr>AccountID = ''a'', AssetID = ''USDT'', Direction = Credit, Amount = 1000000\<rparr>,
                  \<lparr>AccountID = ''b'', AssetID = ''USDT'', Direction = Debit, Amount = 1000000\<rparr>]\<rparr>"

theorem Validate_iff_balanced_witness:
  "totals_fit_int64 example_journal \<and> Validate example_journal = Inr () \<and> balanced example_journal"
proof -
  have fit: "totals_fit_int64 example_journal"
    by (simp add: totals_fit_int64_def example_journal_def debit_sum_def credit_sum_def Debit_def Credit_def)
  have ok: "Validate example_journal = Inr ()" by code_simp
  show ?thesis using Validate_iff_balanced [OF fit] fit ok by simp
qed

definition overflow_journal :: journal where
  "overflow_journal = example_journal
     \<lparr>Postings := map (\<lambda>a. \<lparr>AccountID = a, AssetID = ''X'', Direction = Debit, Amount = 2 ^ 62\<rparr>)
                     [''a'', ''b'', ''c'', ''d'']
               @ [\<lparr>AccountID = ''e'', AssetID = ''X'', Direction = Debit, Amount = 5\<rparr>,
                  \<lparr>AccountID = ''f'', AssetID = ''X'', Direction = Credit, Amount = 5\<rparr>]\<rparr>"

text \<open>
  Without that bound the check is unsound. The totals are \<open>int64\<close> sums, so four debits
  of \<open>2^62\<close> and one of 5 wrap around to 5 and \<open>Validate\<close> accepts a journal that credits
  5 units against debits of \<open>2^64 + 5\<close>.
\<close>

theorem Validate_accepts_wrapped_totals:
  "Validate overflow_journal = Inr () \<and> \<not> balanced overflow_journal"
proof
  show "Validate overflow_journal = Inr ()" by code_simp
  have "debit_sum ''X'' (Postings overflow_journal) \<noteq> credit_sum ''X'' (Postings overflow_journal)"
    by code_simp
  then show "\<not> balanced overflow_journal" by (auto simp: balanced_def)
qed

end
