(* ===== verification/Ledger_DB.thy ===== *)
theory Ledger_DB
  imports Ledger
begin

text \<open>
  The ledger tables every service shares (migrations/000001_core.up.sql) and the statements the
  Go stores run on them: inserting a journal with its postings, reading a bucket balance and
  taking an account/asset advisory lock (\<open>ledger.LockAccountAsset\<close>). The tables are the
  base record of the database state; the trading and the P2P stores extend it with their own.

  The locale \<open>ledger_account\<close> is the contract the stores rely on: what posting a journal
  does to every balance. Its lemmas on holds and releases are proved once and used by the order
  store, the settlement store and the P2P escrow.
\<close>

section \<open>Tables\<close>

text \<open>A failed statement returns a PostgreSQL error with its SQLSTATE, a failed check of the
  Go code an application error.\<close>

datatype 'e failure = Pg string | App 'e

abbreviation unique_violation :: "'e failure" where "unique_violation \<equiv> Pg ''23505''"
abbreviation check_violation :: "'e failure" where "check_violation \<equiv> Pg ''23514''"
abbreviation foreign_key_violation :: "'e failure" where "foreign_key_violation \<equiv> Pg ''23503''"

datatype bucket = Available | Held | Pending | Locked
datatype direction = DebitSide | CreditSide
datatype journal_status = Posted | Reversed
datatype json = JString string | JUint u64 | JTime int | JInt int | JBool bool | JList "json list" | JObject "(string \<times> json) list"

record user_row =
  u_id :: string
  u_status :: string

record account_row =
  ac_id :: string
  ac_user_id :: "string option"
  ac_kind :: string
  ac_name :: string
  ac_status :: string

record asset_row =
  as_id :: string
  as_symbol :: string
  as_network :: string
  as_decimals :: int
  as_status :: string

record journal_row =
  j_id :: string
  j_idempotency_key :: string
  j_reference_type :: string
  j_reference_id :: string
  j_status :: journal_status

record posting_leg =
  l_account :: string
  l_asset :: string
  l_bucket :: bucket
  l_direction :: direction
  l_amount :: int

record posting_row = posting_leg +
  p_journal :: string

record outbox_row =
  ob_event_type :: string
  ob_aggregate_type :: string
  ob_aggregate_id :: string
  ob_payload :: "(string \<times> json) list"

record audit_row =
  au_actor :: string
  au_action :: string
  au_resource :: string
  au_reason :: string
  au_metadata :: "(string \<times> json) list"

record ledger_db =
  users :: "user_row list"
  accounts :: "account_row list"
  assets :: "asset_row list"
  user_roles :: "(string \<times> string) list"
  journals :: "journal_row list"
  postings :: "posting_row list"
  outbox_events :: "outbox_row list"
  audit_events :: "audit_row list"
  uuid_source :: "nat \<Rightarrow> string"
  uuid_next :: nat
  pg_now :: int
  locks_taken :: "string list"

type_synonym ('r, 'e, 'a) ledger_tx = "('r ledger_db_scheme, 'e failure, 'a) tx"

section \<open>Statements\<close>

text \<open>\<open>gen_random_uuid()\<close>: the next value of an unknown source.\<close>

definition gen_random_uuid :: "('r, 'e, string) ledger_tx" where
  "gen_random_uuid s = Inr (uuid_source s (uuid_next s), s\<lparr>uuid_next := Suc (uuid_next s)\<rparr>)"

text \<open>\<open>ledger.LockAccountAsset\<close>: the advisory locks a transaction takes, in order.\<close>

definition advisory_lock :: "string \<Rightarrow> ('r, 'e, unit) ledger_tx" where
  "advisory_lock key = execT (\<lambda>s. s\<lparr>locks_taken := locks_taken s @ [key]\<rparr>)"

definition LockAccountAsset :: "'e \<Rightarrow> string \<Rightarrow> string \<Rightarrow> ('r, 'e, unit) ledger_tx" where
  "LockAccountAsset err accountID assetID =
     (if accountID = [] \<or> assetID = [] then failT (App err)
      else advisory_lock (AccountAssetLockKey accountID assetID))"

lemma LockAccountAsset_Inr [tx_simps]:
  "LockAccountAsset err a x s = Inr r \<longleftrightarrow>
     a \<noteq> [] \<and> x \<noteq> [] \<and> r = ((), s\<lparr>locks_taken := locks_taken s @ [AccountAssetLockKey a x]\<rparr>)"
  by (auto simp: LockAccountAsset_def advisory_lock_def tx_simps)

lemma forT_locks [tx_simps]:
  "forT (\<lambda>(a, x). LockAccountAsset err a x) ts s = Inr r \<longleftrightarrow>
     list_all (\<lambda>(a, x). a \<noteq> [] \<and> x \<noteq> []) ts \<and>
     r = ((), s\<lparr>locks_taken := locks_taken s @ map (\<lambda>(a, x). AccountAssetLockKey a x) ts\<rparr>)"
  by (induction ts arbitrary: s) (auto simp: tx_simps)

text \<open>\<open>INSERT INTO journals(...) VALUES(...) RETURNING id\<close>: id and idempotency key are unique.\<close>

definition insert_journal :: "string \<Rightarrow> string \<Rightarrow> string \<Rightarrow> ('r, 'e, string) ledger_tx" where
  "insert_journal key rtype rid =
     bindT gen_random_uuid (\<lambda>jid.
     bindT (queryT journals) (\<lambda>js.
     bindT (ensureT (jid \<notin> j_id ` set js \<and> key \<notin> j_idempotency_key ` set js) unique_violation) (\<lambda>_.
     bindT (execT (\<lambda>s. s\<lparr>journals := journals s @
       [\<lparr>j_id = jid, j_idempotency_key = key, j_reference_type = rtype, j_reference_id = rid,
         j_status = Posted\<rparr>]\<rparr>)) (\<lambda>_.
     returnT jid))))"

text \<open>\<open>INSERT INTO postings(...)\<close>: the column check requires a positive amount.\<close>

definition posting_of :: "string \<Rightarrow> posting_leg \<Rightarrow> posting_row" where
  "posting_of jid l = posting_leg.extend l (posting_row.fields jid)"

definition insert_posting :: "string \<Rightarrow> posting_leg \<Rightarrow> ('r, 'e, unit) ledger_tx" where
  "insert_posting jid l =
     bindT (ensureT (0 < l_amount l) check_violation) (\<lambda>_.
     execT (\<lambda>s. s\<lparr>postings := postings s @ [posting_of jid l]\<rparr>))"

definition post_journal :: "string \<Rightarrow> string \<Rightarrow> string \<Rightarrow> posting_leg list \<Rightarrow> ('r, 'e, string) ledger_tx" where
  "post_journal key rtype rid legs =
     bindT (insert_journal key rtype rid) (\<lambda>jid.
     bindT (forT (insert_posting jid) legs) (\<lambda>_.
     returnT jid))"

definition append_outbox :: "string \<Rightarrow> string \<Rightarrow> string \<Rightarrow> (string \<times> json) list \<Rightarrow> ('r, 'e, unit) ledger_tx" where
  "append_outbox etype atype aid payload =
     execT (\<lambda>s. s\<lparr>outbox_events := outbox_events s @
       [\<lparr>ob_event_type = etype, ob_aggregate_type = atype, ob_aggregate_id = aid, ob_payload = payload\<rparr>]\<rparr>)"

section \<open>Balances\<close>

definition signed_amount :: "'x posting_leg_scheme \<Rightarrow> int" where
  "signed_amount l = (case l_direction l of CreditSide \<Rightarrow> l_amount l | DebitSide \<Rightarrow> - l_amount l)"

definition leg_at :: "string \<Rightarrow> string \<Rightarrow> bucket \<Rightarrow> 'x posting_leg_scheme \<Rightarrow> bool" where
  "leg_at a x b l \<longleftrightarrow> l_account l = a \<and> l_asset l = x \<and> l_bucket l = b"

definition legs_sum :: "('x posting_leg_scheme \<Rightarrow> bool) \<Rightarrow> 'x posting_leg_scheme list \<Rightarrow> int" where
  "legs_sum p ls = sum_list (map signed_amount (filter p ls))"

text \<open>\<open>SELECT COALESCE(SUM(CASE direction WHEN 'credit' ...),0) FROM postings WHERE ...\<close>; the
  second form joins the posted journals, as \<open>availableBalance\<close> and the P2P store do.\<close>

definition bucket_sum :: "'r ledger_db_scheme \<Rightarrow> string \<Rightarrow> string \<Rightarrow> bucket \<Rightarrow> int" where
  "bucket_sum s a x b = legs_sum (leg_at a x b) (postings s)"

definition posted_journal :: "'r ledger_db_scheme \<Rightarrow> string \<Rightarrow> bool" where
  "posted_journal s jid \<longleftrightarrow> (\<exists>j \<in> set (journals s). j_id j = jid \<and> j_status j = Posted)"

definition posted_bucket_sum :: "'r ledger_db_scheme \<Rightarrow> string \<Rightarrow> string \<Rightarrow> bucket \<Rightarrow> int" where
  "posted_bucket_sum s a x b =
     legs_sum (\<lambda>p. leg_at a x b p \<and> posted_journal s (p_journal p)) (postings s)"

text \<open>Well-formed ledgers: ids and keys are unique, postings refer to journals, amounts are
  positive, and every journal balances in every asset.\<close>

definition journal_net :: "'r ledger_db_scheme \<Rightarrow> string \<Rightarrow> string \<Rightarrow> int" where
  "journal_net s jid x = legs_sum (\<lambda>p. p_journal p = jid \<and> l_asset p = x) (postings s)"

definition ledger_balanced :: "'r ledger_db_scheme \<Rightarrow> bool" where
  "ledger_balanced s \<longleftrightarrow> (\<forall>jid x. journal_net s jid x = 0)"

definition asset_total :: "'r ledger_db_scheme \<Rightarrow> string \<Rightarrow> int" where
  "asset_total s x = legs_sum (\<lambda>p. l_asset p = x) (postings s)"

definition ledger_wf :: "'r ledger_db_scheme \<Rightarrow> bool" where
  "ledger_wf s \<longleftrightarrow>
     distinct (map j_id (journals s)) \<and> distinct (map j_idempotency_key (journals s)) \<and>
     (\<forall>j \<in> set (journals s). j_status j = Posted) \<and>
     (\<forall>p \<in> set (postings s). 0 < l_amount p \<and> p_journal p \<in> j_id ` set (journals s))"

definition legs_balanced :: "posting_leg list \<Rightarrow> bool" where
  "legs_balanced legs \<longleftrightarrow> (\<forall>x. legs_sum (\<lambda>l. l_asset l = x) legs = 0)"

definition leg_delta :: "posting_leg list \<Rightarrow> string \<Rightarrow> string \<Rightarrow> bucket \<Rightarrow> int" where
  "leg_delta legs a x b = legs_sum (leg_at a x b) legs"

lemma legs_sum_simps [simp]:
  "legs_sum p [] = 0"
  "legs_sum p (l # ls) = (if p l then signed_amount l else 0) + legs_sum p ls"
  "legs_sum p (ls @ ms) = legs_sum p ls + legs_sum p ms"
  by (simp_all add: legs_sum_def)

lemma posting_of_simps [simp]:
  "l_account (posting_of jid l) = l_account l" "l_asset (posting_of jid l) = l_asset l"
  "l_bucket (posting_of jid l) = l_bucket l" "l_direction (posting_of jid l) = l_direction l"
  "l_amount (posting_of jid l) = l_amount l" "p_journal (posting_of jid l) = jid"
  "signed_amount (posting_of jid l) = signed_amount l" "leg_at a x b (posting_of jid l) = leg_at a x b l"
  by (simp_all add: posting_of_def posting_leg.defs posting_row.defs signed_amount_def leg_at_def
      split: direction.splits)

lemma legs_sum_postings [simp]:
  "legs_sum p (map (posting_of jid) legs) = legs_sum (\<lambda>l. p (posting_of jid l)) legs"
  by (induction legs) auto

lemma legs_sum_cong:
  "(\<And>l. l \<in> set ls \<Longrightarrow> p l = q l) \<Longrightarrow> legs_sum p ls = legs_sum q ls"
  by (simp add: legs_sum_def cong: filter_cong)

lemma legs_sum_False [simp]: "legs_sum (\<lambda>l. False) ls = 0"
  by (simp add: legs_sum_def)

section \<open>What posting a journal does\<close>

lemma forT_insert_posting:
  "forT (insert_posting jid) legs s = Inr (u, s') \<longleftrightarrow>
     list_all (\<lambda>l. 0 < l_amount l) legs \<and> s' = s\<lparr>postings := postings s @ map (posting_of jid) legs\<rparr>"
  by (induction legs arbitrary: s) (auto simp: tx_simps insert_posting_def)

lemma insert_journal_Inr:
  "insert_journal key rtype rid s = Inr (jid, s') \<longleftrightarrow>
     jid = uuid_source s (uuid_next s) \<and> jid \<notin> j_id ` set (journals s) \<and>
     key \<notin> j_idempotency_key ` set (journals s) \<and>
     s' = s\<lparr>uuid_next := Suc (uuid_next s), journals := journals s @
       [\<lparr>j_id = jid, j_idempotency_key = key, j_reference_type = rtype, j_reference_id = rid,
         j_status = Posted\<rparr>]\<rparr>"
  by (auto simp: insert_journal_def gen_random_uuid_def tx_simps)

lemma post_journal_Inr:
  "post_journal key rtype rid legs s = Inr (jid, s') \<longleftrightarrow>
     jid = uuid_source s (uuid_next s) \<and> jid \<notin> j_id ` set (journals s) \<and>
     key \<notin> j_idempotency_key ` set (journals s) \<and> list_all (\<lambda>l. 0 < l_amount l) legs \<and>
     s' = s\<lparr>uuid_next := Suc (uuid_next s),
       journals := journals s @
         [\<lparr>j_id = jid, j_idempotency_key = key, j_reference_type = rtype, j_reference_id = rid,
           j_status = Posted\<rparr>],
       postings := postings s @ map (posting_of jid) legs\<rparr>"
  by (auto simp: post_journal_def tx_simps insert_journal_Inr forT_insert_posting)

lemma post_journal_bucket_sum:
  "post_journal key rtype rid legs s = Inr (jid, s') \<Longrightarrow>
   bucket_sum s' a x b = bucket_sum s a x b + leg_delta legs a x b"
  by (auto simp: post_journal_Inr bucket_sum_def leg_delta_def)

lemma posted_eq_bucket_sum: "ledger_wf s \<Longrightarrow> posted_bucket_sum s a x b = bucket_sum s a x b"
  unfolding posted_bucket_sum_def bucket_sum_def
  by (rule legs_sum_cong) (fastforce simp: ledger_wf_def posted_journal_def image_iff)

lemma post_journal_wf:
  "post_journal key rtype rid legs s = Inr (jid, s') \<Longrightarrow> ledger_wf s \<Longrightarrow> ledger_wf s'"
  by (auto simp: post_journal_Inr ledger_wf_def list_all_iff)

lemma journal_net_fresh:
  "ledger_wf s \<Longrightarrow> jid \<notin> j_id ` set (journals s) \<Longrightarrow> journal_net s jid x = 0"
  unfolding journal_net_def
  by (subst legs_sum_cong [where q = "\<lambda>_. False"]) (auto simp: ledger_wf_def)

lemma post_journal_balanced:
  assumes "post_journal key rtype rid legs s = Inr (jid, s')"
    and "ledger_balanced s" "legs_balanced legs"
  shows "ledger_balanced s'"
  unfolding ledger_balanced_def
proof (intro allI)
  fix i x
  show "journal_net s' i x = 0"
    using assms by (cases "i = jid")
      (auto simp: post_journal_Inr ledger_balanced_def journal_net_def legs_balanced_def)
qed

lemma post_journal_total:
  "post_journal key rtype rid legs s = Inr (jid, s') \<Longrightarrow> legs_balanced legs \<Longrightarrow>
   asset_total s' x = asset_total s x"
  by (auto simp: post_journal_Inr asset_total_def legs_balanced_def)

section \<open>The ledger contract\<close>

definition hold_legs :: "string \<Rightarrow> string \<Rightarrow> int \<Rightarrow> posting_leg list" where
  "hold_legs a x n =
     [\<lparr>l_account = a, l_asset = x, l_bucket = Available, l_direction = DebitSide, l_amount = n\<rparr>,
      \<lparr>l_account = a, l_asset = x, l_bucket = Held, l_direction = CreditSide, l_amount = n\<rparr>]"

definition release_legs :: "string \<Rightarrow> string \<Rightarrow> string \<Rightarrow> int \<Rightarrow> posting_leg list" where
  "release_legs a c x n =
     [\<lparr>l_account = a, l_asset = x, l_bucket = Held, l_direction = DebitSide, l_amount = n\<rparr>,
      \<lparr>l_account = c, l_asset = x, l_bucket = Available, l_direction = CreditSide, l_amount = n\<rparr>]"

lemma hold_release_balanced [simp]:
  "legs_balanced (hold_legs a x n)" "legs_balanced (release_legs a c x n)"
  by (auto simp: legs_balanced_def hold_legs_def release_legs_def signed_amount_def)

text \<open>The balance an operation on the held bucket of one account changes.\<close>

definition bump :: "string \<Rightarrow> string \<Rightarrow> bucket \<Rightarrow> int \<Rightarrow> string \<Rightarrow> string \<Rightarrow> bucket \<Rightarrow> int" where
  "bump a x b n a' x' b' = (if a' = a \<and> x' = x \<and> b' = b then n else 0)"

lemma hold_delta [balance_simps]:
  "leg_delta (hold_legs a x n) a' x' b' = bump a x Available (- n) a' x' b' + bump a x Held n a' x' b'"
  by (auto simp: leg_delta_def hold_legs_def signed_amount_def leg_at_def bump_def)

lemma release_delta [balance_simps]:
  "leg_delta (release_legs a c x n) a' x' b' = bump a x Held (- n) a' x' b' + bump c x Available n a' x' b'"
  by (auto simp: leg_delta_def release_legs_def signed_amount_def leg_at_def bump_def)

locale ledger_account =
  fixes invar :: "'s \<Rightarrow> bool"
    and bal :: "'s \<Rightarrow> string \<Rightarrow> string \<Rightarrow> bucket \<Rightarrow> int"
    and post :: "string \<Rightarrow> string \<Rightarrow> string \<Rightarrow> posting_leg list \<Rightarrow> ('s, 'e, string) tx"
  assumes invar_post: "invar s \<Longrightarrow> post k t r legs s = Inr (j, s') \<Longrightarrow> invar s'"
    and bal_post: "invar s \<Longrightarrow> post k t r legs s = Inr (j, s') \<Longrightarrow>
      bal s' a x b = bal s a x b + leg_delta legs a x b"
    and post_positive: "post k t r legs s = Inr (j, s') \<Longrightarrow> list_all (\<lambda>l. 0 < l_amount l) legs"
begin

lemma bal_hold:
  assumes "invar s" "post k t r (hold_legs a x n) s = Inr (j, s')"
  shows "bal s' a' x' b' = bal s a' x' b' + bump a x Available (- n) a' x' b' + bump a x Held n a' x' b'"
  using bal_post [OF assms] by (simp add: balance_simps)

lemma bal_release:
  assumes "invar s" "post k t r (release_legs a c x n) s = Inr (j, s')"
  shows "bal s' a' x' b' = bal s a' x' b' + bump a x Held (- n) a' x' b' + bump c x Available n a' x' b'"
  using bal_post [OF assms] by (simp add: balance_simps)

text \<open>Holding an amount and releasing it to the same account restores every balance.\<close>

lemma hold_release_restores:
  assumes "invar s" "post k t r (hold_legs a x n) s = Inr (j, s1)"
    and "invar s2" "\<And>a' x' b'. bal s2 a' x' b' = bal s1 a' x' b'"
    and "post k' t' r' (release_legs a a x n) s2 = Inr (j', s3)"
  shows "bal s3 a' x' b' = bal s a' x' b'"
  using bal_release [OF assms(3,5), of a' x' b'] bal_hold [OF assms(1,2), of a' x' b'] assms(4)
  by (auto simp: bump_def)

text \<open>A hold within the available balance, or a release within the held balance, keeps every
  balance of every account non-negative that was non-negative before.\<close>

lemma hold_nonneg:
  assumes "invar s" "post k t r (hold_legs a x n) s = Inr (j, s')"
    and "n \<le> bal s a x Available" "0 \<le> bal s a' x' b'"
  shows "0 \<le> bal s' a' x' b'"
proof -
  have "0 < n" using post_positive [OF assms(2)] by (simp add: hold_legs_def)
  then show ?thesis
    using assms(3,4) bal_hold [OF assms(1,2), of a' x' b'] by (auto simp: bump_def)
qed

lemma release_nonneg:
  assumes "invar s" "post k t r (release_legs a c x n) s = Inr (j, s')"
    and "n \<le> bal s a x Held" "0 \<le> bal s a' x' b'"
  shows "0 \<le> bal s' a' x' b'"
proof -
  have "0 < n" using post_positive [OF assms(2)] by (simp add: release_legs_def)
  then show ?thesis
    using assms(3,4) bal_release [OF assms(1,2), of a' x' b'] by (auto simp: bump_def)
qed

end

interpretation raw_ledger: ledger_account "\<lambda>_. True" bucket_sum post_journal
  by unfold_locales (simp_all add: post_journal_Inr bucket_sum_def leg_delta_def)

interpretation posted_ledger: ledger_account ledger_wf posted_bucket_sum post_journal
proof (unfold_locales, goal_cases)
  case (1 s k t r legs j s')
  then show ?case by (blast intro: post_journal_wf)
next
  case (2 s k t r legs j s' a x b)
  then have "ledger_wf s'" by (blast intro: post_journal_wf)
  with 2 show ?case by (simp add: posted_eq_bucket_sum post_journal_bucket_sum)
next
  case (3 k t r legs s j s')
  then show ?case by (simp add: post_journal_Inr)
qed

text \<open>Statements that only touch other tables keep the whole ledger.\<close>

definition same_ledger :: "'r ledger_db_scheme \<Rightarrow> 'r ledger_db_scheme \<Rightarrow> bool" where
  "same_ledger s t \<longleftrightarrow> journals t = journals s \<and> postings t = postings s"

lemma same_ledgerD:
  assumes "same_ledger s t"
  shows "bucket_sum t = bucket_sum s" "posted_bucket_sum t = posted_bucket_sum s"
    "ledger_wf t = ledger_wf s" "ledger_balanced t = ledger_balanced s" "asset_total t = asset_total s"
  using assms
  by (auto simp: same_ledger_def bucket_sum_def posted_bucket_sum_def posted_journal_def
      ledger_wf_def ledger_balanced_def journal_net_def asset_total_def fun_eq_iff)

end
