(* ===== verification/Amounts.thy ===== *)
theory Amounts
  imports Prelude "HOL-Library.Signed_Division"
begin

text \<open>
  Exact integer arithmetic on \<open>big.Int\<close>. \<open>Quo\<close> and \<open>QuoRem\<close> truncate towards zero
  (\<open>sdiv\<close>, \<open>smod\<close>). Three packages carry their own ceiling division; the locale
  \<open>ceiling_division\<close> is what their callers rely on, and each is an interpretation of it.
\<close>

section \<open>Truncated and floor division\<close>

lemma sdiv_nonneg: "0 \<le> a \<Longrightarrow> 0 \<le> b \<Longrightarrow> a sdiv b = (a div b :: int)"
  by (cases "a = 0"; cases "b = 0") (auto simp: signed_divide_int_def sgn_if)

lemma smod_nonneg: "0 \<le> a \<Longrightarrow> 0 \<le> b \<Longrightarrow> a smod b = (a mod b :: int)"
  by (simp add: smod_int_alt_def sgn_if sdiv_nonneg minus_div_mult_eq_mod)

lemma le_zdiv_iff: "0 < d \<Longrightarrow> k \<le> m div d \<longleftrightarrow> k * d \<le> (m :: int)"
proof
  assume d: "0 < d" and "k \<le> m div d"
  then have "k * d \<le> m div d * d" by simp
  also have "\<dots> \<le> m" using pos_mod_sign [OF d, of m] div_mult_mod_eq [of m d] by linarith
  finally show "k * d \<le> m" .
next
  assume d: "0 < d" and "k * d \<le> m"
  then have "(k * d) div d \<le> m div d" by (intro zdiv_mono1)
  with d show "k \<le> m div d" by simp
qed

lemma floor_mult_le: "0 < d \<Longrightarrow> m div d * d \<le> (m :: int)"
  using le_zdiv_iff [of d "m div d" m] by simp

lemma sdiv_nonpos: "b \<le> 0 \<Longrightarrow> 0 < t \<Longrightarrow> b sdiv t \<le> (0 :: int)"
  by (cases "b = 0") (auto simp: signed_divide_int_def sgn_if pos_imp_zdiv_nonneg_iff)

text \<open>Rounding each summand down loses at most what rounding the sum down loses.\<close>

lemma sum_list_div_le:
  assumes "0 < (d :: int)" "\<And>x. x \<in> set xs \<Longrightarrow> 0 \<le> f x"
  shows "(\<Sum>x\<leftarrow>xs. f x div d) \<le> (\<Sum>x\<leftarrow>xs. f x) div d"
  using assms(2)
proof (induction xs)
  case (Cons x xs)
  have "f x div d + (\<Sum>y\<leftarrow>xs. f y) div d \<le> (f x + (\<Sum>y\<leftarrow>xs. f y)) div d"
    using assms(1) by (metis add_le_cancel_left div_add1_eq le_add_same_cancel1 pos_imp_zdiv_nonneg_iff
        add_nonneg_nonneg pos_mod_sign order_less_imp_le)
  moreover have "(\<Sum>y\<leftarrow>xs. f y div d) \<le> (\<Sum>y\<leftarrow>xs. f y) div d" using Cons by simp
  ultimately show ?case by simp
qed simp

section \<open>Ceiling division\<close>

definition ceil_div :: "int \<Rightarrow> int \<Rightarrow> int" where
  "ceil_div n d = - ((- n) div d)"

lemma ceil_div_le_iff: "0 < d \<Longrightarrow> ceil_div n d \<le> k \<longleftrightarrow> n \<le> k * d"
proof -
  assume d: "0 < d"
  have "- k \<le> (- n) div d \<longleftrightarrow> - k * d \<le> - n" using d by (rule le_zdiv_iff)
  then show ?thesis by (auto simp: ceil_div_def)
qed

lemma ceil_div_alt: "0 < d \<Longrightarrow> ceil_div n d = (if n mod d = 0 then n div d else n div d + 1)"
  by (simp add: ceil_div_def zdiv_zminus1_eq_if)

lemma ceil_div_shift: "0 < d \<Longrightarrow> ceil_div n d = (n + (d - 1)) div d"
proof -
  assume d: "0 < d"
  have "ceil_div n d \<le> k \<longleftrightarrow> (n + (d - 1)) div d \<le> k" for k
  proof -
    have "(n + (d - 1)) div d \<le> k \<longleftrightarrow> \<not> k + 1 \<le> (n + (d - 1)) div d" by auto
    also have "\<dots> \<longleftrightarrow> n + (d - 1) < (k + 1) * d" using d by (simp only: le_zdiv_iff not_le)
    also have "\<dots> \<longleftrightarrow> n \<le> k * d" by (auto simp: algebra_simps)
    finally show ?thesis using d by (simp add: ceil_div_le_iff)
  qed
  then show ?thesis by (meson order_antisym order_refl)
qed

locale ceiling_division =
  fixes cdiv :: "int \<Rightarrow> int \<Rightarrow> int"
  assumes cdiv_eq: "0 \<le> n \<Longrightarrow> 0 < d \<Longrightarrow> cdiv n d = ceil_div n d"
begin

lemma cdiv_covers: "0 \<le> n \<Longrightarrow> 0 < d \<Longrightarrow> n \<le> cdiv n d * d"
  using ceil_div_le_iff [of d n "ceil_div n d"] by (simp add: cdiv_eq)

lemma cdiv_least: "0 \<le> n \<Longrightarrow> 0 < d \<Longrightarrow> n \<le> k * d \<Longrightarrow> cdiv n d \<le> k"
  by (simp add: cdiv_eq ceil_div_le_iff)

lemma cdiv_exact: "0 \<le> k \<Longrightarrow> 0 < d \<Longrightarrow> cdiv (k * d) d = k"
  using cdiv_eq [of "k * d" d] by (simp add: ceil_div_alt)

lemma cdiv_nonneg: "0 \<le> n \<Longrightarrow> 0 < d \<Longrightarrow> 0 \<le> cdiv n d"
  using cdiv_covers [of n d] by (metis order_trans zero_le_mult_iff not_less)

lemma cdiv_mono: "0 \<le> m \<Longrightarrow> m \<le> n \<Longrightarrow> 0 < d \<Longrightarrow> cdiv m d \<le> cdiv n d"
  using cdiv_covers [of n d] by (intro cdiv_least) auto

lemma floor_le_cdiv: "0 \<le> n \<Longrightarrow> 0 < d \<Longrightarrow> n div d \<le> cdiv n d"
  by (simp add: cdiv_eq ceil_div_alt)

lemma cdiv_le_floor_Suc: "0 \<le> n \<Longrightarrow> 0 < d \<Longrightarrow> cdiv n d \<le> n div d + 1"
  by (simp add: cdiv_eq ceil_div_alt)

end

text \<open>\<open>ceilBigProductDiv\<close> of internal/trading/service.go, \<open>ceilDiv\<close> of
  internal/testmoney/policy.go and \<open>ceilQuo\<close> of internal/marketmaker/service.go.\<close>

definition ceilBigProductDiv :: "int \<Rightarrow> int \<Rightarrow> int \<Rightarrow> int" where
  "ceilBigProductDiv left right divisor =
     (let product = left * right; quotient = product sdiv divisor; remainder = product smod divisor
      in if remainder \<noteq> 0 then quotient + 1 else quotient)"

definition ceilDiv :: "int \<Rightarrow> int \<Rightarrow> int" where
  "ceilDiv n d = (let q = n sdiv d; r = n smod d in if r \<noteq> 0 then q + 1 else q)"

definition ceilQuo :: "int \<Rightarrow> int \<Rightarrow> int" where
  "ceilQuo numerator denominator = (numerator + (denominator - 1)) sdiv denominator"

interpretation trading_ceil: ceiling_division "\<lambda>n d. ceilBigProductDiv n 1 d"
  by unfold_locales (simp add: ceilBigProductDiv_def sdiv_nonneg smod_nonneg ceil_div_alt)

interpretation testmoney_ceil: ceiling_division ceilDiv
  by unfold_locales (simp add: ceilDiv_def Let_def sdiv_nonneg smod_nonneg ceil_div_alt)

interpretation maker_ceil: ceiling_division ceilQuo
  by unfold_locales (simp add: ceilQuo_def sdiv_nonneg ceil_div_shift)

lemma ceilBigProductDiv_mult: "ceilBigProductDiv l r d = ceilBigProductDiv (l * r) 1 d"
  by (simp add: ceilBigProductDiv_def)

text \<open>
  The three independently written ceiling divisions (trading, test money, market maker)
  compute the same value on every non-negative numerator and positive denominator: the least
  integer whose product with the denominator covers the numerator.
\<close>

theorem ceiling_divisions_agree:
  assumes "0 \<le> n" "0 < d"
  shows "ceilBigProductDiv n 1 d = ceilDiv n d \<and> ceilDiv n d = ceilQuo n d \<and>
    n \<le> ceilQuo n d * d \<and> (ceilQuo n d - 1) * d < n"
proof -
  have "\<not> ceilQuo n d \<le> ceilQuo n d - 1" by simp
  then have "\<not> n \<le> (ceilQuo n d - 1) * d" using maker_ceil.cdiv_least [OF assms] by blast
  then show ?thesis
    using assms trading_ceil.cdiv_eq testmoney_ceil.cdiv_eq maker_ceil.cdiv_eq maker_ceil.cdiv_covers
    by simp
qed

theorem ceiling_divisions_agree_witness:
  "ceilBigProductDiv 7 1 2 = 4 \<and> ceilDiv 7 2 = 4 \<and> ceilQuo 7 2 = 4"
proof -
  have "ceilBigProductDiv 7 1 2 = ceilDiv 7 2 \<and> ceilDiv 7 2 = ceilQuo 7 2"
    using ceiling_divisions_agree [of 7 2] by simp
  moreover have "ceilQuo 7 2 = 4" by (simp add: ceilQuo_def)
  ultimately show ?thesis by simp
qed

end
