(* ===== verification/Orders.thy ===== *)
theory Orders
  imports Ledger_DB Amounts
begin

text \<open>
  Order intake: the types of internal/trading/order.go and the pure part of
  internal/trading/service.go (\<open>normalizeOrder\<close>, \<open>parseAtomic\<close>, \<open>validPair\<close>, the
  trigger rules and \<open>requestHash\<close>). The parameter \<open>go_env\<close> holds what is not code of the
  repository: the Unicode case tables and SHA-256.
\<close>

record go_env =
  uni_upper :: "string \<Rightarrow> string"
  uni_lower :: "string \<Rightarrow> string"
  sha256 :: "string \<Rightarrow> string"

section \<open>Types of order.go\<close>

datatype trading_error =
    ErrInvalidOrder string
  | ErrIdempotencyRequired
  | ErrIdempotencyConflict
  | ErrInsufficientBalance
  | ErrTradingAccountRequired
  | ErrPairUnavailable
  | ErrEngineUnavailable string
  | ErrEngineResponse string
  | ErrOrderNotFound
  | ErrOrderAlreadyFilled
  | ErrOrderNotCancelable
  | ErrSequenceGap string u64 u64
  | ErrSequenceConflict
  | ErrSettlementInvalid string
  | ErrNoRows
  | ErrOther string

type_synonym trading_failure = "trading_error failure"

record PlaceOrderInput =
  in_UserID :: string
  in_AccountID :: string
  in_AccountKind :: string
  in_IdempotencyKey :: string
  in_Pair :: string
  in_Side :: string
  in_Type :: string
  in_Price :: string
  in_TriggerPrice :: string
  in_Quantity :: string
  in_TimeInForce :: string
  in_PostOnly :: bool
  in_ReduceOnly :: bool

record FeeTier =
  ft_Level :: int
  ft_MakerFeeBPS :: int
  ft_TakerFeeBPS :: int

record Order =
  o_ID :: string
  o_UserID :: string
  o_AccountID :: string
  o_Pair :: string
  o_Side :: string
  o_Type :: string
  o_Price :: string
  o_TriggerPrice :: string
  o_Quantity :: string
  o_FilledQuantity :: string
  o_RemainingQuantity :: string
  o_AvgPrice :: string
  o_TimeInForce :: string
  o_Status :: string
  o_PostOnly :: bool
  o_ReduceOnly :: bool
  o_FeeTier :: int
  o_Duplicate :: bool
  o_EnginePayload :: string
  o_CreatedAt :: int
  o_UpdatedAt :: int

record CreateOrderCommand =
  c_OrderID :: string
  c_UserID :: string
  c_AccountID :: string
  c_Pair :: string
  c_Side :: string
  c_Type :: string
  c_Price :: u64
  c_Quantity :: u64
  c_TimeInForce :: string
  c_PostOnly :: bool
  c_ReduceOnly :: bool
  c_FeeTier :: int
  c_IdempotencyKey :: string
  c_RequestHash :: string
  c_HoldAmount :: string
  c_HoldAllAvailable :: bool
  c_Conditional :: bool
  c_TriggerPrice :: u64
  c_TriggerDirection :: string
  c_EnginePayload :: string

record OrderFilter =
  f_Status :: string
  f_Pair :: string
  f_History :: bool
  f_Limit :: int
  f_Offset :: int

record PairRules =
  r_PriceScale :: int
  r_QuantityScale :: int
  r_QuoteScale :: int

record CancelOrderInput =
  ci_UserID :: string
  ci_AccountID :: string
  ci_OrderID :: string
  ci_IdempotencyKey :: string

record CancelOrderCommand =
  cc_UserID :: string
  cc_AccountID :: string
  cc_OrderID :: string
  cc_CommandID :: string
  cc_IdempotencyKey :: string
  cc_Payload :: string

section \<open>Normalisation\<close>

definition isConditionalType :: "string \<Rightarrow> bool" where
  "isConditionalType t \<longleftrightarrow> t = ''STOP_LIMIT'' \<or> t = ''STOP_MARKET'' \<or> t = ''TAKE_PROFIT_LIMIT''"

definition effectiveOrderType :: "string \<Rightarrow> string" where
  "effectiveOrderType t =
     (if t = ''STOP_MARKET'' then ''MARKET'' else if isConditionalType t then ''LIMIT'' else t)"

definition triggerDirection :: "string \<Rightarrow> string \<Rightarrow> string" where
  "triggerDirection t side =
     (if \<not> isConditionalType t then ''''
      else if t = ''TAKE_PROFIT_LIMIT'' then (if side = ''BUY'' then ''DOWN'' else ''UP'')
      else if side = ''BUY'' then ''UP'' else ''DOWN'')"

definition parseAtomic :: "string \<Rightarrow> bool \<Rightarrow> trading_error + u64" where
  "parseAtomic value allowEmpty =
     (let v = TrimSpace value in
      if v = [] \<and> allowEmpty then Inr 0
      else if v = [] \<or> HasPrefix v ''+'' \<or> HasPrefix v ''-'' then Inl (ErrInvalidOrder '''')
      else case ParseUint v of
        None \<Rightarrow> Inl (ErrInvalidOrder '''')
      | Some amount \<Rightarrow> if amount = 0 \<and> \<not> allowEmpty then Inl (ErrInvalidOrder '''') else Inr amount)"

definition validPair :: "string \<Rightarrow> bool" where
  "validPair value \<longleftrightarrow> 6 \<le> length value \<and> length value \<le> 20 \<and> list_all is_upper value"

definition validOrderStatus :: "string \<Rightarrow> bool" where
  "validOrderStatus v \<longleftrightarrow> v \<in> set [''CONDITIONAL'', ''PENDING'', ''PENDING_CANCEL'', ''OPEN'',
     ''PARTIALLY_FILLED'', ''FILLED'', ''CANCELED'', ''REJECTED'']"

text \<open>The trimming and case mapping that opens \<open>normalizeOrder\<close>, and its default for
  an absent \<open>time_in_force\<close>.\<close>

definition trimmed :: "go_env \<Rightarrow> PlaceOrderInput \<Rightarrow> PlaceOrderInput" where
  "trimmed env i = i\<lparr>in_UserID := TrimSpace (in_UserID i),
     in_AccountID := TrimSpace (in_AccountID i),
     in_AccountKind := ToLower (uni_lower env) (TrimSpace (in_AccountKind i)),
     in_IdempotencyKey := TrimSpace (in_IdempotencyKey i),
     in_Pair := ToUpper (uni_upper env) (TrimSpace (in_Pair i)),
     in_Side := ToUpper (uni_upper env) (TrimSpace (in_Side i)),
     in_Type := ToUpper (uni_upper env) (TrimSpace (in_Type i)),
     in_TimeInForce := ToUpper (uni_upper env) (TrimSpace (in_TimeInForce i))\<rparr>"

definition default_tif :: "PlaceOrderInput \<Rightarrow> PlaceOrderInput" where
  "default_tif i =
     (if in_TimeInForce i = [] then
        i\<lparr>in_TimeInForce := (if effectiveOrderType (in_Type i) = ''MARKET'' then ''IOC'' else ''GTC'')\<rparr>
      else i)"

definition validType :: "string \<Rightarrow> bool" where
  "validType t \<longleftrightarrow> t = ''LIMIT'' \<or> t = ''MARKET'' \<or> t = ''STOP_LIMIT'' \<or> t = ''STOP_MARKET'' \<or> t = ''TAKE_PROFIT_LIMIT''"

definition validTIF :: "string \<Rightarrow> bool" where
  "validTIF t \<longleftrightarrow> t = ''GTC'' \<or> t = ''IOC'' \<or> t = ''FOK''"

definition parse_amounts :: "PlaceOrderInput \<Rightarrow> trading_error + PlaceOrderInput \<times> u64 \<times> u64 \<times> u64" where
  "parse_amounts i =
     (let market = (effectiveOrderType (in_Type i) = ''MARKET''); cond = isConditionalType (in_Type i) in
      case parseAtomic (in_Price i) market of
        Inl _ \<Rightarrow> Inl (ErrInvalidOrder ''price is invalid'')
      | Inr price \<Rightarrow>
          if market \<and> price \<noteq> 0 then Inl (ErrInvalidOrder ''market orders cannot specify price'')
          else case parseAtomic (in_TriggerPrice i) (\<not> cond) of
            Inl _ \<Rightarrow> Inl (ErrInvalidOrder ''trigger_price is invalid'')
          | Inr trigger \<Rightarrow>
              if cond \<and> trigger = 0 \<or> \<not> cond \<and> trigger \<noteq> 0
              then Inl (ErrInvalidOrder ''trigger_price is invalid'')
              else case parseAtomic (in_Quantity i) False of
                Inl _ \<Rightarrow> Inl (ErrInvalidOrder ''quantity is invalid'')
              | Inr quantity \<Rightarrow>
                  Inr (i\<lparr>in_Price := FormatUint price, in_TriggerPrice := FormatUint trigger,
                         in_Quantity := FormatUint quantity\<rparr>, price, trigger, quantity))"

definition normalizeOrder :: "go_env \<Rightarrow> PlaceOrderInput \<Rightarrow> trading_error + PlaceOrderInput \<times> u64 \<times> u64 \<times> u64" where
  "normalizeOrder env input =
     (let i = trimmed env input in
      if in_UserID i = [] \<or> in_AccountID i = [] then Inl (ErrInvalidOrder ''account identity is required'')
      else if in_AccountKind i \<noteq> ''uta'' \<and> in_AccountKind i \<noteq> ''subaccount'' then Inl ErrTradingAccountRequired
      else if in_IdempotencyKey i = [] then Inl ErrIdempotencyRequired
      else if length (in_IdempotencyKey i) > 255 then Inl (ErrInvalidOrder ''idempotency key is too long'')
      else if \<not> validPair (in_Pair i) then Inl (ErrInvalidOrder ''pair is invalid'')
      else if in_Side i \<noteq> ''BUY'' \<and> in_Side i \<noteq> ''SELL'' then Inl (ErrInvalidOrder ''side is invalid'')
      else if \<not> validType (in_Type i) then Inl (ErrInvalidOrder ''type is invalid'')
      else let j = default_tif i in
        if \<not> validTIF (in_TimeInForce j) then Inl (ErrInvalidOrder ''time_in_force is invalid'')
        else if in_PostOnly j \<and> effectiveOrderType (in_Type j) \<noteq> ''LIMIT''
        then Inl (ErrInvalidOrder ''post_only requires a limit order'')
        else parse_amounts j)"

definition canonical_request :: "PlaceOrderInput \<Rightarrow> string list" where
  "canonical_request i =
     [in_UserID i, in_AccountID i, in_Pair i, in_Side i, in_Type i, in_Price i, in_TriggerPrice i,
      in_Quantity i, in_TimeInForce i, FormatBool (in_PostOnly i), FormatBool (in_ReduceOnly i)]"

definition unit_separator :: char where
  "unit_separator = char_of (31 :: nat)"

definition requestHash :: "go_env \<Rightarrow> PlaceOrderInput \<Rightarrow> string" where
  "requestHash env i = sha256 env (Join (canonical_request i) [unit_separator])"

section \<open>What normalisation guarantees\<close>

definition normalized :: "PlaceOrderInput \<Rightarrow> u64 \<Rightarrow> u64 \<Rightarrow> u64 \<Rightarrow> bool" where
  "normalized n price trigger quantity \<longleftrightarrow>
     in_UserID n \<noteq> [] \<and> TrimSpace (in_UserID n) = in_UserID n \<and>
     in_AccountID n \<noteq> [] \<and> TrimSpace (in_AccountID n) = in_AccountID n \<and>
     (in_AccountKind n = ''uta'' \<or> in_AccountKind n = ''subaccount'') \<and>
     in_IdempotencyKey n \<noteq> [] \<and> length (in_IdempotencyKey n) \<le> 255 \<and>
     TrimSpace (in_IdempotencyKey n) = in_IdempotencyKey n \<and>
     validPair (in_Pair n) \<and> (in_Side n = ''BUY'' \<or> in_Side n = ''SELL'') \<and>
     validType (in_Type n) \<and> validTIF (in_TimeInForce n) \<and>
     (in_PostOnly n \<longrightarrow> effectiveOrderType (in_Type n) = ''LIMIT'') \<and>
     (price = 0 \<longleftrightarrow> effectiveOrderType (in_Type n) = ''MARKET'') \<and>
     (trigger = 0 \<longleftrightarrow> \<not> isConditionalType (in_Type n)) \<and> quantity \<noteq> 0 \<and>
     in_Price n = FormatUint price \<and> in_TriggerPrice n = FormatUint trigger \<and>
     in_Quantity n = FormatUint quantity"

lemma parseAtomic_positive: "parseAtomic v False = Inr n \<Longrightarrow> n \<noteq> 0"
  by (auto simp: parseAtomic_def Let_def split: if_splits option.splits)

lemma not_sign_FormatUint: "\<not> HasPrefix (FormatUint n) ''+''" "\<not> HasPrefix (FormatUint n) ''-''"
proof -
  have "all_digits (FormatUint n)" by (simp add: FormatUint_def)
  then show "\<not> HasPrefix (FormatUint n) ''+''" "\<not> HasPrefix (FormatUint n) ''-''"
    by (cases "FormatUint n"; auto simp: HasPrefix_def dest: digits_not_sign)+
qed

lemma parseAtomic_FormatUint: "n \<noteq> 0 \<or> allow \<Longrightarrow> parseAtomic (FormatUint n) allow = Inr n"
  by (auto simp: parseAtomic_def Let_def not_sign_FormatUint)

lemma parse_amounts_Inr:
  "parse_amounts i = Inr (n, price, trigger, quantity) \<longleftrightarrow>
     parseAtomic (in_Price i) (effectiveOrderType (in_Type i) = ''MARKET'') = Inr price \<and>
     (effectiveOrderType (in_Type i) = ''MARKET'' \<longrightarrow> price = 0) \<and>
     parseAtomic (in_TriggerPrice i) (\<not> isConditionalType (in_Type i)) = Inr trigger \<and>
     (trigger = 0 \<longleftrightarrow> \<not> isConditionalType (in_Type i)) \<and>
     parseAtomic (in_Quantity i) False = Inr quantity \<and>
     n = i\<lparr>in_Price := FormatUint price, in_TriggerPrice := FormatUint trigger,
           in_Quantity := FormatUint quantity\<rparr>"
  by (auto simp: parse_amounts_def Let_def split: sum.splits if_splits)

lemma normalizeOrder_Inr:
  "normalizeOrder env input = Inr r \<longleftrightarrow>
     (let i = trimmed env input; j = default_tif i in
      in_UserID i \<noteq> [] \<and> in_AccountID i \<noteq> [] \<and>
      (in_AccountKind i = ''uta'' \<or> in_AccountKind i = ''subaccount'') \<and>
      in_IdempotencyKey i \<noteq> [] \<and> length (in_IdempotencyKey i) \<le> 255 \<and> validPair (in_Pair i) \<and>
      (in_Side i = ''BUY'' \<or> in_Side i = ''SELL'') \<and> validType (in_Type i) \<and>
      validTIF (in_TimeInForce j) \<and> (in_PostOnly j \<longrightarrow> effectiveOrderType (in_Type j) = ''LIMIT'') \<and>
      parse_amounts j = Inr r)"
  by (auto simp: normalizeOrder_def Let_def not_less)

lemma default_tif_simps [simp]:
  "in_UserID (default_tif i) = in_UserID i" "in_AccountID (default_tif i) = in_AccountID i"
  "in_AccountKind (default_tif i) = in_AccountKind i" "in_IdempotencyKey (default_tif i) = in_IdempotencyKey i"
  "in_Pair (default_tif i) = in_Pair i" "in_Side (default_tif i) = in_Side i"
  "in_Type (default_tif i) = in_Type i" "in_Price (default_tif i) = in_Price i"
  "in_TriggerPrice (default_tif i) = in_TriggerPrice i" "in_Quantity (default_tif i) = in_Quantity i"
  "in_PostOnly (default_tif i) = in_PostOnly i" "in_ReduceOnly (default_tif i) = in_ReduceOnly i"
  by (simp_all add: default_tif_def)

lemma normalizeOrder_normalized:
  assumes "normalizeOrder env input = Inr (n, price, trigger, quantity)"
  shows "normalized n price trigger quantity"
proof -
  let ?i = "trimmed env input"
  have p: "price = 0 \<longleftrightarrow> effectiveOrderType (in_Type ?i) = ''MARKET''"
  proof
    assume "price = 0"
    then show "effectiveOrderType (in_Type ?i) = ''MARKET''"
      using assms parseAtomic_positive [of "in_Price ?i" price]
      by (cases "effectiveOrderType (in_Type ?i) = ''MARKET''")
         (simp_all add: normalizeOrder_Inr Let_def parse_amounts_Inr)
  next
    assume "effectiveOrderType (in_Type ?i) = ''MARKET''"
    then show "price = 0" using assms by (simp add: normalizeOrder_Inr Let_def parse_amounts_Inr)
  qed
  have "quantity \<noteq> 0"
    using assms parseAtomic_positive [of "in_Quantity ?i" quantity]
    by (simp add: normalizeOrder_Inr Let_def parse_amounts_Inr)
  then show ?thesis
    using assms p unfolding normalized_def
    by (simp add: normalizeOrder_Inr Let_def parse_amounts_Inr) (simp add: trimmed_def)
qed

lemma TrimSpace_upper: "list_all is_upper s \<Longrightarrow> TrimSpace s = s"
  by (rule TrimSpace_graphic) (auto simp: list_all_iff graphic_if)

text \<open>The fixed words of the protocol are not changed by trimming and case mapping.\<close>

definition stable_upper :: "string \<Rightarrow> bool" where
  "stable_upper s \<longleftrightarrow> list_all graphic s \<and> ascii s \<and> map upper_byte s = s"

lemma stable_words:
  "validType t \<Longrightarrow> stable_upper t" "validTIF t \<Longrightarrow> stable_upper t"
  "t = ''BUY'' \<or> t = ''SELL'' \<Longrightarrow> stable_upper t"
  by (auto simp: validType_def validTIF_def stable_upper_def ascii_def upper_byte_def graphic_def)

lemma stable_kinds:
  "k = ''uta'' \<or> k = ''subaccount'' \<Longrightarrow> ToLower uni (TrimSpace k) = k"
proof -
  assume k: "k = ''uta'' \<or> k = ''subaccount''"
  then have "list_all graphic k" by (auto simp: graphic_def)
  with k show ?thesis by (auto simp: TrimSpace_graphic ToLower_def ascii_def lower_byte_def)
qed

lemma stable_upperD: "stable_upper s \<Longrightarrow> ToUpper uni (TrimSpace s) = s"
  by (simp add: stable_upper_def ToUpper_def TrimSpace_graphic)

lemma trimmed_normalized:
  assumes "normalized n price trigger quantity"
  shows "trimmed env n = n"
proof -
  have "ToUpper (uni_upper env) (TrimSpace (in_Pair n)) = in_Pair n"
    using assms TrimSpace_upper ToUpper_upper
    by (auto simp: normalized_def validPair_def list_all_iff)
  moreover have "stable_upper (in_Side n)" "stable_upper (in_Type n)" "stable_upper (in_TimeInForce n)"
    using assms stable_words by (auto simp: normalized_def)
  moreover have "ToLower (uni_lower env) (TrimSpace (in_AccountKind n)) = in_AccountKind n"
    using assms stable_kinds by (auto simp: normalized_def)
  ultimately show ?thesis
    using assms by (simp add: trimmed_def normalized_def stable_upperD)
qed

lemma normalized_normalizeOrder:
  assumes "normalized n price trigger quantity"
  shows "normalizeOrder env n = Inr (n, price, trigger, quantity)"
proof -
  have tif: "default_tif n = n"
    using assms by (auto simp: default_tif_def normalized_def validTIF_def)
  have "parse_amounts n = Inr (n, price, trigger, quantity)"
    using assms by (auto simp: parse_amounts_Inr normalized_def parseAtomic_FormatUint)
  then show ?thesis
    using assms by (simp add: normalizeOrder_Inr Let_def trimmed_normalized tif) (auto simp: normalized_def)
qed

text \<open>
  C2: \<open>normalizeOrder\<close> accepts only well-formed orders (known side, type and time in force,
  a pair of 6 to 20 capital letters, a positive quantity, a price exactly when the order that
  reaches the engine is not a market order, a trigger price exactly when it is conditional,
  post-only only on limit orders), and its result is a fixed point: normalising it again returns
  it unchanged with the same numbers.
\<close>

theorem normalizeOrder_sound_idempotent:
  assumes "normalizeOrder env input = Inr (n, price, trigger, quantity)"
  shows "normalized n price trigger quantity \<and>
    normalizeOrder env n = Inr (n, price, trigger, quantity)"
  using normalizeOrder_normalized [OF assms] normalized_normalizeOrder by blast

definition plain_env :: go_env where
  "plain_env = \<lparr>uni_upper = id, uni_lower = id, sha256 = id\<rparr>"

definition raw_limit_buy :: PlaceOrderInput where
  "raw_limit_buy =
     \<lparr>in_UserID = '' u1'', in_AccountID = ''acc1'', in_AccountKind = ''UTA'', in_IdempotencyKey = ''key-1'',
      in_Pair = '' btcusdt'', in_Side = ''buy'', in_Type = ''Limit'', in_Price = ''005000'',
      in_TriggerPrice = [], in_Quantity = ''100'', in_TimeInForce = [], in_PostOnly = True,
      in_ReduceOnly = False\<rparr>"

definition clean_limit_buy :: PlaceOrderInput where
  "clean_limit_buy =
     \<lparr>in_UserID = ''u1'', in_AccountID = ''acc1'', in_AccountKind = ''uta'', in_IdempotencyKey = ''key-1'',
      in_Pair = ''BTCUSDT'', in_Side = ''BUY'', in_Type = ''LIMIT'', in_Price = ''5000'',
      in_TriggerPrice = ''0'', in_Quantity = ''100'', in_TimeInForce = ''GTC'', in_PostOnly = True,
      in_ReduceOnly = False\<rparr>"

lemma trimmed_raw_limit_buy:
  "default_tif (trimmed plain_env raw_limit_buy) =
     clean_limit_buy\<lparr>in_Price := ''005000'', in_TriggerPrice := []\<rparr>"
  by (simp add: trimmed_def raw_limit_buy_def clean_limit_buy_def TrimSpace_leading_space
      TrimSpace_graphic graphic_def ToUpper_def ToLower_def ascii_def upper_byte_def lower_byte_def
      default_tif_def effectiveOrderType_def isConditionalType_def char_numeral_eq)

lemma parse_raw_limit_buy:
  "parse_amounts (clean_limit_buy\<lparr>in_Price := ''005000'', in_TriggerPrice := []\<rparr>) =
     Inr (clean_limit_buy, 5000, 0, 100)"
  by (simp add: parse_amounts_def clean_limit_buy_def effectiveOrderType_def isConditionalType_def
      parseAtomic_def TrimSpace_graphic graphic_def HasPrefix_def ParseUint_def all_digits_def
      is_digit_def digits_val_def digit_val_def FormatUint_def digits_of.simps digit_def char_numeral_eq)

lemma normalize_raw_limit_buy:
  "normalizeOrder plain_env raw_limit_buy = Inr (clean_limit_buy, 5000, 0, 100)"
proof -
  let ?i = "trimmed plain_env raw_limit_buy"
  have "in_UserID ?i = ''u1''" "in_AccountID ?i = ''acc1''" "in_AccountKind ?i = ''uta''"
    "in_IdempotencyKey ?i = ''key-1''" "in_Pair ?i = ''BTCUSDT''" "in_Side ?i = ''BUY''"
    "in_Type ?i = ''LIMIT''"
    using arg_cong [OF trimmed_raw_limit_buy, of in_UserID] arg_cong [OF trimmed_raw_limit_buy, of in_AccountID]
      arg_cong [OF trimmed_raw_limit_buy, of in_AccountKind] arg_cong [OF trimmed_raw_limit_buy, of in_Pair]
      arg_cong [OF trimmed_raw_limit_buy, of in_IdempotencyKey] arg_cong [OF trimmed_raw_limit_buy, of in_Side]
      arg_cong [OF trimmed_raw_limit_buy, of in_Type]
    by (simp_all add: clean_limit_buy_def)
  then show ?thesis
    by (simp add: normalizeOrder_Inr Let_def trimmed_raw_limit_buy parse_raw_limit_buy)
      (simp add: clean_limit_buy_def validPair_def is_upper_def validType_def validTIF_def
        effectiveOrderType_def isConditionalType_def)
qed

theorem normalizeOrder_sound_idempotent_witness:
  "normalized clean_limit_buy 5000 0 100 \<and>
   normalizeOrder plain_env clean_limit_buy = Inr (clean_limit_buy, 5000, 0, 100)"
  using normalizeOrder_sound_idempotent [OF normalize_raw_limit_buy] .

section \<open>The request hash\<close>

lemma append_sep_inj:
  assumes "c \<notin> set xs" "c \<notin> set ys" "xs @ c # us = ys @ c # vs"
  shows "xs = ys \<and> us = vs"
  using assms
proof (induction xs arbitrary: ys)
  case Nil
  then show ?case by (cases ys) auto
next
  case (Cons x xs)
  then show ?case by (cases ys) auto
qed

lemma Join_inj:
  assumes "length xs = length ys" "\<forall>x \<in> set xs. c \<notin> set x" "\<forall>y \<in> set ys. c \<notin> set y"
    and "Join xs [c] = Join ys [c]"
  shows "xs = ys"
  using assms
proof (induction xs "[c]" arbitrary: ys rule: Join.induct)
  case 1
  then show ?case by simp
next
  case (2 x)
  then show ?case by (cases ys) auto
next
  case (3 x y zs)
  then obtain x' y' zs' where ys: "ys = x' # y' # zs'" by (cases ys; cases "tl ys") auto
  have "x @ c # Join (y # zs) [c] = x' @ c # Join (y' # zs') [c]" using 3 ys by simp
  then have "x = x' \<and> Join (y # zs) [c] = Join (y' # zs') [c]"
    using 3 ys by (intro append_sep_inj [of c]) auto
  moreover from this have "y # zs = y' # zs'" using 3(2-4) ys by (intro 3(1)) auto
  ultimately show ?case using ys by simp
qed

lemma unit_separator_not_graphic: "\<not> graphic unit_separator"
  by (simp add: graphic_def unit_separator_def)

lemma graphic_no_separator: "list_all graphic x \<Longrightarrow> unit_separator \<notin> set x"
  using unit_separator_not_graphic by (auto simp: list_all_iff)

lemma canonical_no_separator:
  assumes "normalized n price trigger quantity"
    and "unit_separator \<notin> set (in_UserID n)" "unit_separator \<notin> set (in_AccountID n)"
  shows "\<forall>x \<in> set (canonical_request n). unit_separator \<notin> set x"
proof -
  have "list_all graphic (FormatUint m)" for m
    by (auto simp: FormatUint_def list_all_iff dest: set_digits_of intro: graphic_if)
  moreover have "list_all graphic (FormatBool b)" for b
    by (simp add: FormatBool_def graphic_def)
  moreover have "validPair (in_Pair n)" "in_Side n = ''BUY'' \<or> in_Side n = ''SELL''"
    "validType (in_Type n)" "validTIF (in_TimeInForce n)" "in_Price n = FormatUint price"
    "in_TriggerPrice n = FormatUint trigger" "in_Quantity n = FormatUint quantity"
    using assms(1) by (simp_all add: normalized_def)
  moreover from this have "list_all graphic (in_Pair n)"
    by (auto simp: validPair_def list_all_iff graphic_if)
  moreover from calculation have "list_all graphic (in_Side n)" "list_all graphic (in_Type n)"
    "list_all graphic (in_TimeInForce n)"
    using stable_words by (simp_all only: stable_upper_def)
  ultimately show ?thesis
    using assms(2,3) graphic_no_separator by (simp add: canonical_request_def)
qed

lemma canonical_request_inj:
  "canonical_request m = canonical_request n \<Longrightarrow>
   m = n\<lparr>in_AccountKind := in_AccountKind m, in_IdempotencyKey := in_IdempotencyKey m\<rparr>"
  by (cases m; cases n) (auto simp: canonical_request_def FormatBool_def split: if_splits)

text \<open>
  The idempotency fingerprint is exact. If SHA-256 does not collide on the two requests and
  user and account ids contain no unit separator, two normalised orders have the same
  \<open>requestHash\<close> only when they agree in every field but the account kind and the
  idempotency key, so a reused key with a different order is always detected.
\<close>

theorem requestHash_exact:
  assumes "normalized m p1 t1 q1" "normalized n p2 t2 q2"
    and "\<forall>i \<in> {m, n}. unit_separator \<notin> set (in_UserID i) \<and> unit_separator \<notin> set (in_AccountID i)"
    and collision_free: "sha256 env (Join (canonical_request m) [unit_separator]) =
        sha256 env (Join (canonical_request n) [unit_separator]) \<Longrightarrow>
      Join (canonical_request m) [unit_separator] = Join (canonical_request n) [unit_separator]"
    and "requestHash env m = requestHash env n"
  shows "m = n\<lparr>in_AccountKind := in_AccountKind m, in_IdempotencyKey := in_IdempotencyKey m\<rparr> \<and>
    p1 = p2 \<and> t1 = t2 \<and> q1 = q2"
proof -
  have "Join (canonical_request m) [unit_separator] = Join (canonical_request n) [unit_separator]"
    by (rule collision_free) (use assms(5) in \<open>simp add: requestHash_def\<close>)
  moreover have "\<forall>x \<in> set (canonical_request m). unit_separator \<notin> set x"
    using assms(3) by (intro canonical_no_separator [OF assms(1)]) simp_all
  moreover have "\<forall>x \<in> set (canonical_request n). unit_separator \<notin> set x"
    using assms(3) by (intro canonical_no_separator [OF assms(2)]) simp_all
  moreover have "length (canonical_request m) = length (canonical_request n)"
    by (simp add: canonical_request_def)
  ultimately have eq: "canonical_request m = canonical_request n" by (intro Join_inj) assumption+
  have "in_Price m = in_Price n" "in_TriggerPrice m = in_TriggerPrice n" "in_Quantity m = in_Quantity n"
    using eq by (simp_all add: canonical_request_def)
  moreover have "in_Price m = FormatUint p1" "in_TriggerPrice m = FormatUint t1" "in_Quantity m = FormatUint q1"
    "in_Price n = FormatUint p2" "in_TriggerPrice n = FormatUint t2" "in_Quantity n = FormatUint q2"
    using assms(1,2) by (simp_all add: normalized_def)
  ultimately have "p1 = p2 \<and> t1 = t2 \<and> q1 = q2" by (simp add: uint_text.format_inj)
  then show ?thesis using canonical_request_inj [OF eq] by simp
qed

theorem requestHash_exact_witness:
  "requestHash plain_env clean_limit_buy = requestHash plain_env (clean_limit_buy\<lparr>in_IdempotencyKey := ''key-2''\<rparr>) \<and>
   clean_limit_buy = clean_limit_buy\<lparr>in_IdempotencyKey := ''key-2'', in_IdempotencyKey := ''key-1''\<rparr>"
proof -
  let ?m = clean_limit_buy and ?n = "clean_limit_buy\<lparr>in_IdempotencyKey := ''key-2''\<rparr>"
  have m: "normalized ?m 5000 0 100"
    by (rule normalizeOrder_normalized [OF normalize_raw_limit_buy])
  have n: "normalized ?n 5000 0 100"
    using m by (simp add: normalized_def TrimSpace_graphic graphic_def)
  have sep: "\<forall>i \<in> {?m, ?n}. unit_separator \<notin> set (in_UserID i) \<and> unit_separator \<notin> set (in_AccountID i)"
    by (simp add: clean_limit_buy_def unit_separator_def char_numeral_eq)
  have same: "requestHash plain_env ?m = requestHash plain_env ?n"
    by (simp add: requestHash_def canonical_request_def)
  have "?m = ?n\<lparr>in_AccountKind := in_AccountKind ?m, in_IdempotencyKey := in_IdempotencyKey ?m\<rparr>"
    using requestHash_exact [OF m n sep _ same] by (simp add: plain_env_def canonical_request_def)
  then show ?thesis using same by (simp add: clean_limit_buy_def)
qed

end
