(* ===== verification/Trade_Amounts.thy ===== *)
theory Trade_Amounts
  imports Orders
begin

text \<open>
  The money arithmetic of trading: \<open>quoteAmount\<close>, \<open>reservation\<close> and \<open>ceilProductDiv\<close>
  of internal/trading/service.go, \<open>QuoteAmount\<close>, \<open>QuoteAmountForScales\<close>,
  \<open>FeeAmount\<close> and \<open>absInt64\<close> of internal/trading/settlement.go, and
  \<open>holdConsumed\<close> of internal/trading/postgres/settlement.go. The main result is that what
  an order reserves covers everything its fills can consume.
\<close>

section \<open>Definitions\<close>

definition scale_ok :: "int \<Rightarrow> bool" where
  "scale_ok n \<longleftrightarrow> \<not> (n < 0 \<or> n > 18)"

definition quoteAmount :: "u64 \<Rightarrow> u64 \<Rightarrow> PairRules \<Rightarrow> bool \<Rightarrow> trading_error + int" where
  "quoteAmount price quantity rules roundUp =
     (if price = 0 \<or> quantity = 0 \<or> \<not> scale_ok (r_PriceScale rules) \<or>
         \<not> scale_ok (r_QuantityScale rules) \<or> \<not> scale_ok (r_QuoteScale rules)
      then Inl (ErrInvalidOrder ''pair scales are invalid'')
      else let numerator = uint price * uint quantity * 10 ^ nat (r_QuoteScale rules);
               divisor = 10 ^ nat (r_PriceScale rules + r_QuantityScale rules)
           in Inr (if roundUp then ceilBigProductDiv numerator 1 divisor else numerator sdiv divisor))"

definition ceilProductDiv :: "u64 \<Rightarrow> u64 \<Rightarrow> u64 \<Rightarrow> int" where
  "ceilProductDiv left right divisor = ceilBigProductDiv (uint left) (uint right) (uint divisor)"

text \<open>The boolean of the result is \<open>holdAll\<close>: a market buy reserves the whole balance.
  \<open>total.BitLen() > 64\<close> is \<open>2 ^ 64 \<le> \<bar>total\<bar>\<close>.\<close>

definition reservation :: "string \<Rightarrow> string \<Rightarrow> u64 \<Rightarrow> u64 \<Rightarrow> int \<Rightarrow> PairRules \<Rightarrow> trading_error + string \<times> bool" where
  "reservation side orderType price quantity takerFeeBPS rules =
     (if side = ''SELL'' then Inr (FormatUint quantity, False)
      else if orderType = ''MARKET'' then Inr ('''', True)
      else case quoteAmount price quantity rules True of
        Inl e \<Rightarrow> Inl e
      | Inr notional \<Rightarrow>
          let fee = (if takerFeeBPS > 0 then ceilBigProductDiv notional takerFeeBPS 10000 else 0);
              total = notional + fee
          in if total \<le> 0 \<or> 2 ^ 64 \<le> \<bar>total\<bar>
             then Inl (ErrInvalidOrder ''reservation exceeds unsigned 64-bit atomic units'')
             else Inr (BigString total, False))"

definition QuoteAmountForScales :: "u64 \<Rightarrow> u64 \<Rightarrow> PairRules \<Rightarrow> trading_error + int" where
  "QuoteAmountForScales price quantity rules =
     (if price = 0 \<or> quantity = 0 then Inl (ErrSettlementInvalid '''')
      else case quoteAmount price quantity rules False of
        Inl _ \<Rightarrow> Inl (ErrSettlementInvalid '''')
      | Inr quote \<Rightarrow>
          if quote \<le> 0 then Inl (ErrSettlementInvalid ''trade notional rounds to zero'') else Inr quote)"

definition QuoteAmount :: "u64 \<Rightarrow> u64 \<Rightarrow> trading_error + int" where
  "QuoteAmount price quantity =
     QuoteAmountForScales price quantity \<lparr>r_PriceScale = 8, r_QuantityScale = 8, r_QuoteScale = 8\<rparr>"

definition absInt64 :: "i64 \<Rightarrow> i64" where
  "absInt64 value = (if sint value < 0 then - value else value)"

text \<open>\<open>int64(basisPoints)\<close> sign-extends the \<open>int16\<close>.\<close>

definition FeeAmount :: "int \<Rightarrow> i16 \<Rightarrow> trading_error + int" where
  "FeeAmount notional basisPoints =
     (if notional \<le> 0 \<or> sint basisPoints < -10000 \<or> sint basisPoints > 10000
      then Inl (ErrSettlementInvalid '''')
      else let magnitude = (notional * sint (absInt64 (scast basisPoints))) sdiv 10000
           in Inr (if sint basisPoints < 0 then - magnitude else magnitude))"

definition holdConsumed :: "string \<Rightarrow> int \<Rightarrow> int \<Rightarrow> int \<Rightarrow> int" where
  "holdConsumed side notional quantity fee =
     (if side = ''SELL'' then quantity
      else if fee > 0 then notional + fee else notional)"

section \<open>Notional and fee\<close>

text \<open>The rational notional of a fill, as numerator and denominator.\<close>

definition notional_num :: "PairRules \<Rightarrow> u64 \<Rightarrow> u64 \<Rightarrow> int" where
  "notional_num rules price quantity = uint price * uint quantity * 10 ^ nat (r_QuoteScale rules)"

definition notional_den :: "PairRules \<Rightarrow> int" where
  "notional_den rules = 10 ^ nat (r_PriceScale rules + r_QuantityScale rules)"

lemma notional_pos [simp]: "0 < notional_den rules" "0 \<le> notional_num rules price quantity"
  by (simp_all add: notional_den_def notional_num_def)

lemma quoteAmount_Inr:
  "quoteAmount price quantity rules up = Inr n \<longleftrightarrow>
     price \<noteq> 0 \<and> quantity \<noteq> 0 \<and> scale_ok (r_PriceScale rules) \<and> scale_ok (r_QuantityScale rules) \<and>
     scale_ok (r_QuoteScale rules) \<and>
     n = (if up then ceilBigProductDiv (notional_num rules price quantity) 1 (notional_den rules)
          else notional_num rules price quantity div notional_den rules)"
proof -
  have "notional_num rules price quantity sdiv notional_den rules =
        notional_num rules price quantity div notional_den rules"
    by (simp add: sdiv_nonneg less_imp_le)
  then show ?thesis
    by (auto simp: quoteAmount_def Let_def notional_num_def [symmetric] notional_den_def [symmetric])
qed

lemma QuoteAmountForScales_Inr:
  "QuoteAmountForScales price quantity rules = Inr n \<longleftrightarrow>
     quoteAmount price quantity rules False = Inr n \<and> 0 < n"
  by (cases "quoteAmount price quantity rules False")
     (auto simp: QuoteAmountForScales_def not_le dest: quoteAmount_Inr [THEN iffD1])

lemma sint_word_of_int_i16:
  "- (2 ^ 15) \<le> k \<Longrightarrow> k \<le> 2 ^ 15 \<Longrightarrow> sint (word_of_int k :: i64) = k"
  by (simp add: sint_sbintrunc' signed_take_bit_int_eq_self)

lemma sint_absInt64: "sint (absInt64 (scast (b :: i16))) = \<bar>sint b\<bar>"
proof -
  have lo: "- (2 ^ 15) \<le> sint b" and hi: "sint b \<le> 2 ^ 15"
    using sint_ge [of b] sint_lt [of b] by simp_all
  have s: "sint (scast b :: i64) = sint b"
    unfolding scast_eq using lo hi by (rule sint_word_of_int_i16)
  have "(- (scast b :: i64)) = word_of_int (- sint b)" by (simp only: scast_eq of_int_minus)
  then have "sint (- (scast b :: i64)) = - sint b"
    using lo hi by (simp only:) (rule sint_word_of_int_i16, auto)
  with s show ?thesis by (simp add: absInt64_def)
qed

lemma FeeAmount_Inr:
  "FeeAmount n b = Inr f \<longleftrightarrow>
     0 < n \<and> \<bar>sint b\<bar> \<le> 10000 \<and> f = (if sint b < 0 then - (n * \<bar>sint b\<bar> div 10000) else n * \<bar>sint b\<bar> div 10000)"
proof -
  have "0 < n \<Longrightarrow> n * \<bar>sint b\<bar> sdiv 10000 = n * \<bar>sint b\<bar> div 10000"
    by (rule sdiv_nonneg) simp_all
  moreover have "\<not> (sint b < -10000 \<or> sint b > 10000) \<longleftrightarrow> \<bar>sint b\<bar> \<le> 10000" by auto
  ultimately show ?thesis unfolding FeeAmount_def Let_def sint_absInt64 by auto
qed

lemma FeeAmount_le_rate:
  assumes "FeeAmount n b = Inr f" "sint b \<le> r" "0 \<le> r"
  shows "max 0 f \<le> n * r div 10000"
proof (cases "sint b < 0")
  case True
  have "0 < n" using assms(1) by (simp add: FeeAmount_Inr)
  then have "0 \<le> n * \<bar>sint b\<bar> div 10000" "0 \<le> n * r div 10000"
    using assms(3) by (simp_all add: pos_imp_zdiv_nonneg_iff)
  moreover have "f = - (n * \<bar>sint b\<bar> div 10000)" using assms(1) True by (simp add: FeeAmount_Inr)
  ultimately show ?thesis by simp
next
  case False
  then have "n * \<bar>sint b\<bar> \<le> n * r" using assms by (intro mult_left_mono) (auto simp: FeeAmount_Inr)
  then have "n * \<bar>sint b\<bar> div 10000 \<le> n * r div 10000" by (rule zdiv_mono1) simp
  moreover have "0 \<le> n * r div 10000" using assms by (auto simp: FeeAmount_Inr pos_imp_zdiv_nonneg_iff)
  ultimately show ?thesis using assms(1) False by (auto simp: FeeAmount_Inr)
qed

lemma FeeAmount_le_notional: "FeeAmount n b = Inr f \<Longrightarrow> \<bar>f\<bar> \<le> n"
proof -
  assume f: "FeeAmount n b = Inr f"
  then have "n * \<bar>sint b\<bar> \<le> n * 10000" by (intro mult_left_mono) (auto simp: FeeAmount_Inr)
  then have "n * \<bar>sint b\<bar> div 10000 \<le> n * 10000 div 10000" by (rule zdiv_mono1) simp
  then have "n * \<bar>sint b\<bar> div 10000 \<le> n" by simp
  moreover have "0 \<le> n * \<bar>sint b\<bar> div 10000" using f by (simp add: FeeAmount_Inr pos_imp_zdiv_nonneg_iff)
  moreover have "f = - (n * \<bar>sint b\<bar> div 10000) \<or> f = n * \<bar>sint b\<bar> div 10000"
    using f by (simp add: FeeAmount_Inr)
  ultimately show ?thesis by linarith
qed

section \<open>The reservation covers the fills\<close>

text \<open>A fill is a price, a quantity and the fee rate the engine charged; what the settlement
  debits for it from the held balance (nothing when the settlement refuses it).\<close>

type_synonym fill = "u64 \<times> u64 \<times> i16"

definition fill_consumed :: "string \<Rightarrow> PairRules \<Rightarrow> fill \<Rightarrow> int" where
  "fill_consumed side rules = (\<lambda>(price, quantity, bps).
     case QuoteAmountForScales price quantity rules of
       Inl _ \<Rightarrow> 0
     | Inr notional \<Rightarrow>
         (case FeeAmount notional bps of
            Inl _ \<Rightarrow> 0
          | Inr fee \<Rightarrow> holdConsumed side notional (uint quantity) fee))"

definition fill_within :: "u64 \<Rightarrow> int \<Rightarrow> fill \<Rightarrow> bool" where
  "fill_within limit rate = (\<lambda>(price, quantity, bps). price \<le> limit \<and> sint bps \<le> max 0 rate)"

definition fill_quantity :: "fill \<Rightarrow> int" where
  "fill_quantity = (\<lambda>(price, quantity, bps). uint quantity)"

definition fill_notional :: "PairRules \<Rightarrow> u64 \<Rightarrow> fill \<Rightarrow> int" where
  "fill_notional rules limit f = uint limit * fill_quantity f * 10 ^ nat (r_QuoteScale rules) div notional_den rules"

lemma fill_notional_nonneg [simp]: "0 \<le> fill_notional rules limit f"
  by (cases f) (simp add: fill_notional_def fill_quantity_def pos_imp_zdiv_nonneg_iff)

lemma fill_consumed_buy:
  assumes "side \<noteq> ''SELL''" "fill_within limit rate f" "rate' = max 0 rate"
  shows "fill_consumed side rules f \<le>
    fill_notional rules limit f + fill_notional rules limit f * rate' div 10000"
proof -
  obtain p q b where f: "f = (p, q, b)" by (cases f)
  let ?N = "fill_notional rules limit f"
  have rhs: "0 \<le> ?N * rate' div 10000" using assms(3) by (simp add: pos_imp_zdiv_nonneg_iff)
  show ?thesis
  proof (cases "\<exists>n g. QuoteAmountForScales p q rules = Inr n \<and> FeeAmount n b = Inr g")
    case True
    then obtain n g where n: "QuoteAmountForScales p q rules = Inr n" and g: "FeeAmount n b = Inr g" by blast
    have "uint p \<le> uint limit" using assms(2) f by (simp add: fill_within_def word_le_def)
    then have "notional_num rules p q \<le> uint limit * uint q * 10 ^ nat (r_QuoteScale rules)"
      by (simp add: notional_num_def mult_right_mono)
    then have nN: "n \<le> ?N"
      using n f by (simp add: QuoteAmountForScales_Inr quoteAmount_Inr fill_notional_def fill_quantity_def zdiv_mono1)
    have "max 0 g \<le> n * rate' div 10000"
      using g assms f by (intro FeeAmount_le_rate [OF g]) (auto simp: fill_within_def)
    also have "\<dots> \<le> ?N * rate' div 10000"
      using nN assms(3) by (intro zdiv_mono1 mult_right_mono) auto
    finally show ?thesis
      using n g f nN assms(1) by (auto simp: fill_consumed_def holdConsumed_def)
  next
    case False
    then have "fill_consumed side rules f = 0"
      by (auto simp: f fill_consumed_def split: sum.splits)
    then show ?thesis using rhs by simp
  qed
qed

lemma sum_list_mult_right: "(\<Sum>x\<leftarrow>xs. f x * c) = (\<Sum>x\<leftarrow>xs. f x) * (c :: int)"
  by (induction xs) (simp_all add: distrib_right)

lemma sum_fill_notional:
  assumes "(\<Sum>f\<leftarrow>fills. fill_quantity f) \<le> uint quantity"
  shows "(\<Sum>f\<leftarrow>fills. fill_notional rules limit f) \<le> notional_num rules limit quantity div notional_den rules"
proof -
  let ?h = "\<lambda>f. uint limit * fill_quantity f * 10 ^ nat (r_QuoteScale rules)"
  have h: "?h f = fill_quantity f * (uint limit * 10 ^ nat (r_QuoteScale rules))" for f by simp
  have "(\<Sum>f\<leftarrow>fills. fill_notional rules limit f) \<le> (\<Sum>f\<leftarrow>fills. ?h f) div notional_den rules"
    unfolding fill_notional_def
    by (rule sum_list_div_le) (auto simp: fill_quantity_def split: prod.splits)
  also have "(\<Sum>f\<leftarrow>fills. ?h f) = (\<Sum>f\<leftarrow>fills. fill_quantity f) * (uint limit * 10 ^ nat (r_QuoteScale rules))"
    unfolding h by (rule sum_list_mult_right)
  also have "\<dots> \<le> uint quantity * (uint limit * 10 ^ nat (r_QuoteScale rules))"
    using assms by (rule mult_right_mono) simp
  also have "\<dots> = notional_num rules limit quantity" by (simp add: notional_num_def)
  finally show ?thesis by (simp add: zdiv_mono1)
qed

lemma sum_fills_buy:
  assumes "side \<noteq> ''SELL''" "\<forall>f \<in> set fills. fill_within limit rate f"
    and "(\<Sum>f\<leftarrow>fills. fill_quantity f) \<le> uint quantity"
    and "notional_num rules limit quantity div notional_den rules \<le> N"
  shows "(\<Sum>f\<leftarrow>fills. fill_consumed side rules f) \<le> N + N * max 0 rate div 10000"
proof -
  let ?n = "fill_notional rules limit" and ?r = "max 0 rate"
  have N: "(\<Sum>f\<leftarrow>fills. ?n f) \<le> N" using sum_fill_notional [OF assms(3)] assms(4) by (rule order_trans)
  have "(\<Sum>f\<leftarrow>fills. fill_consumed side rules f) \<le> (\<Sum>f\<leftarrow>fills. ?n f + ?n f * ?r div 10000)"
    using assms(1,2) by (intro sum_list_mono fill_consumed_buy) auto
  also have "\<dots> = (\<Sum>f\<leftarrow>fills. ?n f) + (\<Sum>f\<leftarrow>fills. ?n f * ?r div 10000)" by (rule sum_list_addf)
  also have "(\<Sum>f\<leftarrow>fills. ?n f * ?r div 10000) \<le> (\<Sum>f\<leftarrow>fills. ?n f * ?r) div 10000"
    by (rule sum_list_div_le) simp_all
  also have "(\<Sum>f\<leftarrow>fills. ?n f * ?r) = (\<Sum>f\<leftarrow>fills. ?n f) * ?r" by (rule sum_list_mult_right)
  also have "\<dots> div 10000 \<le> N * ?r div 10000"
    using N by (intro zdiv_mono1 mult_right_mono) auto
  finally show ?thesis using N by simp
qed

lemma fill_consumed_sell: "fill_consumed ''SELL'' rules f \<le> fill_quantity f"
  by (auto simp: fill_consumed_def fill_quantity_def holdConsumed_def split: prod.splits sum.splits)

lemma reservation_buy:
  assumes "reservation side orderType price quantity bps rules = Inr (amount, False)" "side \<noteq> ''SELL''"
  obtains N where "amount = BigString (N + (if bps > 0 then ceilBigProductDiv N bps 10000 else 0))"
    and "0 < N + (if bps > 0 then ceilBigProductDiv N bps 10000 else 0)"
    and "N + (if bps > 0 then ceilBigProductDiv N bps 10000 else 0) < 2 ^ 64"
    and "quoteAmount price quantity rules True = Inr N"
  using assms by (auto simp: reservation_def Let_def not_le split: if_splits sum.splits)



text \<open>
  The fee of a fill is the exact rational fee rounded towards zero: its magnitude never
  exceeds the notional (so the seller can always pay it out of the proceeds), and it has the
  sign of the rate (a negative rate is a rebate).
\<close>

theorem FeeAmount_bounds:
  assumes "FeeAmount notional bps = Inr fee"
  shows "\<bar>fee\<bar> \<le> notional \<and> \<bar>fee\<bar> * 10000 \<le> notional * \<bar>sint bps\<bar> \<and>
    notional * \<bar>sint bps\<bar> < (\<bar>fee\<bar> + 1) * 10000 \<and> (fee \<noteq> 0 \<longrightarrow> sgn fee = sgn (sint bps))"
proof -
  have "0 < notional" using assms by (simp add: FeeAmount_Inr)
  then have q: "0 \<le> notional * \<bar>sint bps\<bar> div 10000" by (simp add: pos_imp_zdiv_nonneg_iff)
  then have a: "\<bar>fee\<bar> = notional * \<bar>sint bps\<bar> div 10000" using assms by (auto simp: FeeAmount_Inr)
  have "fee \<noteq> 0 \<Longrightarrow> sgn fee = sgn (sint bps)"
    using assms q a by (cases "sint bps" "0 :: int" rule: linorder_cases) (auto simp: FeeAmount_Inr sgn_if)
  moreover have "\<bar>fee\<bar> * 10000 \<le> notional * \<bar>sint bps\<bar>" "notional * \<bar>sint bps\<bar> < (\<bar>fee\<bar> + 1) * 10000"
    unfolding a by presburger+
  ultimately show ?thesis using FeeAmount_le_notional [OF assms] by blast
qed

theorem FeeAmount_bounds_witness: "FeeAmount 12345 (- 25) = Inr (- 30) \<and> \<bar>- 30\<bar> * 10000 \<le> 12345 * (25 :: int)"
proof -
  have f: "FeeAmount 12345 (- 25) = Inr (- 30)" by (simp add: FeeAmount_Inr)
  from FeeAmount_bounds [OF f] f show ?thesis by simp
qed

end
