(* ===== verification/Protocol.thy ===== *)
theory Protocol
  imports Go_Strings
begin

text \<open>
  The messages exchanged with the matching engine (internal/trading/protocol): their fields,
  their \<open>Validate\<close> methods and the encoders and decoders. The FlatBuffers runtime and the
  accessors generated for it are the parameter \<open>wire\<close>; a reader that panics returns
  \<open>None\<close>, which \<open>decodeSafely\<close> turns into an error. A \<open>Validate\<close> method
  returns the error text, \<open>None\<close> for \<open>nil\<close>.
\<close>

section \<open>Messages\<close>

definition MaxWireMessageBytes :: nat where "MaxWireMessageBytes = 8388608"
definition MaxIdentifierBytes :: nat where "MaxIdentifierBytes = 128"
definition MaxPairBytes :: nat where "MaxPairBytes = 20"

abbreviation OrderSideBuy :: u8 where "OrderSideBuy \<equiv> 0"
abbreviation OrderSideSell :: u8 where "OrderSideSell \<equiv> 1"
abbreviation OrderTypeLimit :: u8 where "OrderTypeLimit \<equiv> 0"
abbreviation OrderTypeMarket :: u8 where "OrderTypeMarket \<equiv> 1"
abbreviation OrderTypeStopLimit :: u8 where "OrderTypeStopLimit \<equiv> 2"
abbreviation TimeInForceGTC :: u8 where "TimeInForceGTC \<equiv> 0"
abbreviation TimeInForceIOC :: u8 where "TimeInForceIOC \<equiv> 1"
abbreviation TimeInForceFOK :: u8 where "TimeInForceFOK \<equiv> 2"
abbreviation OrderStatusOpen :: u8 where "OrderStatusOpen \<equiv> 0"
abbreviation OrderStatusPartial :: u8 where "OrderStatusPartial \<equiv> 1"
abbreviation OrderStatusFilled :: u8 where "OrderStatusFilled \<equiv> 2"
abbreviation OrderStatusCanceled :: u8 where "OrderStatusCanceled \<equiv> 3"
abbreviation OrderStatusRejected :: u8 where "OrderStatusRejected \<equiv> 4"

record OrderIngress =
  oi_ID :: string
  oi_UserID :: string
  oi_Pair :: string
  oi_Side :: u8
  oi_OrderType :: u8
  oi_Price :: u64
  oi_Quantity :: u64
  oi_TimeInForce :: u8
  oi_PostOnly :: bool
  oi_ReduceOnly :: bool
  oi_TimestampNS :: u64
  oi_FeeTier :: u8

record TradeEvent =
  te_SequenceID :: u64
  te_TimestampNS :: u64
  te_Pair :: string
  te_MakerOrderID :: string
  te_TakerOrderID :: string
  te_MakerUserID :: string
  te_TakerUserID :: string
  te_Price :: u64
  te_Quantity :: u64
  te_MakerFeeBPS :: i16
  te_TakerFeeBPS :: i16

record OrderStatusEvent =
  se_SequenceID :: u64
  se_OrderID :: string
  se_Status :: u8
  se_FilledQuantity :: u64
  se_RemainingQuantity :: u64
  se_AvgPrice :: u64

record ControlCancelCommand =
  xc_CommandID :: string
  xc_OrderID :: string
  xc_Pair :: string
  xc_TimestampNS :: u64

record ReplayRequest =
  rr_CommandID :: string
  rr_Pair :: string
  rr_FromSequence :: u64
  rr_TimestampNS :: u64

record SnapshotRequest =
  sr_CommandID :: string
  sr_Pair :: string
  sr_TimestampNS :: u64

record ControlAck =
  ka_CommandID :: string
  ka_Accepted :: bool
  ka_SequenceID :: u64
  ka_Reason :: string
  ka_TimestampNS :: u64

section \<open>Validation\<close>

definition OrderIngress_Validate :: "OrderIngress \<Rightarrow> string option" where
  "OrderIngress_Validate o1 =
     (if oi_ID o1 = [] then Some ''order ingress id is required''
      else if oi_UserID o1 = [] then Some ''order ingress user_id is required''
      else if oi_Pair o1 = [] then Some ''order ingress pair is required''
      else if length (oi_ID o1) > MaxIdentifierBytes \<or> length (oi_UserID o1) > MaxIdentifierBytes
      then Some ''order ingress identifier exceeds 128 bytes''
      else if length (oi_Pair o1) > MaxPairBytes then Some ''order ingress pair exceeds 20 bytes''
      else if oi_Quantity o1 = 0 then Some ''order ingress quantity must be positive''
      else if oi_Side o1 \<notin> {OrderSideBuy, OrderSideSell}
      then Some (''order ingress side '' @ digits_of (unat (oi_Side o1)) @ '' is invalid'')
      else if oi_OrderType o1 \<notin> {OrderTypeLimit, OrderTypeMarket, OrderTypeStopLimit}
      then Some (''order ingress order_type '' @ digits_of (unat (oi_OrderType o1)) @ '' is invalid'')
      else if oi_OrderType o1 \<noteq> OrderTypeMarket \<and> oi_Price o1 = 0
      then Some ''order ingress price must be positive for non-market orders''
      else if oi_TimeInForce o1 \<notin> {TimeInForceGTC, TimeInForceIOC, TimeInForceFOK}
      then Some (''order ingress time_in_force '' @ digits_of (unat (oi_TimeInForce o1)) @ '' is invalid'')
      else None)"

definition TradeEvent_Validate :: "TradeEvent \<Rightarrow> string option" where
  "TradeEvent_Validate e =
     (if te_SequenceID e = 0 then Some ''trade event sequence_id must be positive''
      else if te_Pair e = [] \<or> length (te_Pair e) > MaxPairBytes then Some ''trade event pair is invalid''
      else if te_MakerOrderID e = [] \<or> te_TakerOrderID e = [] \<or> te_MakerUserID e = [] \<or> te_TakerUserID e = []
      then Some ''trade event order and user identifiers are required''
      else if length (te_MakerOrderID e) > MaxIdentifierBytes \<or> length (te_TakerOrderID e) > MaxIdentifierBytes \<or>
        length (te_MakerUserID e) > MaxIdentifierBytes \<or> length (te_TakerUserID e) > MaxIdentifierBytes
      then Some ''trade event identifier exceeds 128 bytes''
      else if te_Price e = 0 \<or> te_Quantity e = 0
      then Some ''trade event price and quantity must be positive''
      else None)"

definition OrderStatusEvent_Validate :: "OrderStatusEvent \<Rightarrow> string option" where
  "OrderStatusEvent_Validate e =
     (if se_SequenceID e = 0 then Some ''order status event sequence_id must be positive''
      else if se_OrderID e = [] \<or> length (se_OrderID e) > MaxIdentifierBytes
      then Some ''order status event order_id is invalid''
      else if se_Status e \<notin> {OrderStatusOpen, OrderStatusPartial, OrderStatusFilled, OrderStatusCanceled, OrderStatusRejected}
      then Some (''order status event status '' @ digits_of (unat (se_Status e)) @ '' is invalid'')
      else None)"

definition validControlIdentifier :: "string \<Rightarrow> bool" where
  "validControlIdentifier value \<longleftrightarrow> value \<noteq> [] \<and> length value \<le> MaxIdentifierBytes"

definition ControlCancelCommand_Validate :: "ControlCancelCommand \<Rightarrow> string option" where
  "ControlCancelCommand_Validate c =
     (if \<not> validControlIdentifier (xc_CommandID c) \<or> \<not> validControlIdentifier (xc_OrderID c)
      then Some ''cancel command identifiers are invalid''
      else if xc_Pair c = [] \<or> length (xc_Pair c) > MaxPairBytes then Some ''cancel command pair is invalid''
      else None)"

definition ReplayRequest_Validate :: "ReplayRequest \<Rightarrow> string option" where
  "ReplayRequest_Validate r =
     (if \<not> validControlIdentifier (rr_CommandID r) \<or> rr_Pair r = [] \<or> length (rr_Pair r) > MaxPairBytes \<or>
         rr_FromSequence r = 0
      then Some ''replay request is invalid'' else None)"

definition SnapshotRequest_Validate :: "SnapshotRequest \<Rightarrow> string option" where
  "SnapshotRequest_Validate r =
     (if \<not> validControlIdentifier (sr_CommandID r) \<or> sr_Pair r = [] \<or> length (sr_Pair r) > MaxPairBytes
      then Some ''snapshot request is invalid'' else None)"

definition ControlAck_Validate :: "ControlAck \<Rightarrow> string option" where
  "ControlAck_Validate a =
     (if \<not> validControlIdentifier (ka_CommandID a) \<or> length (ka_Reason a) > 1000
      then Some ''control acknowledgement is invalid''
      else if ka_Accepted a \<and> ka_SequenceID a = 0
      then Some ''accepted control acknowledgement requires a sequence''
      else if \<not> ka_Accepted a \<and> ka_Reason a = []
      then Some ''rejected control acknowledgement requires a reason''
      else None)"

section \<open>The wire\<close>

text \<open>
  The order topic carries bare tables, the control topic an envelope (command id, timestamp,
  payload type, payload table). Tables and buffers are byte strings.
\<close>

type_synonym envelope = "string \<times> u64 \<times> u8 \<times> string option"

record wire =
  w_ingress :: "OrderIngress \<Rightarrow> string"
  r_ingress :: "string \<Rightarrow> OrderIngress option"
  w_trade :: "TradeEvent \<Rightarrow> string"
  r_trade :: "string \<Rightarrow> TradeEvent option"
  w_status :: "OrderStatusEvent \<Rightarrow> string"
  r_status :: "string \<Rightarrow> OrderStatusEvent option"
  w_cancel :: "string \<Rightarrow> string \<Rightarrow> string"
  r_cancel :: "string \<Rightarrow> (string \<times> string) option"
  w_replay :: "string \<Rightarrow> u64 \<Rightarrow> string"
  r_replay :: "string \<Rightarrow> (string \<times> u64) option"
  w_snapshot :: "string \<Rightarrow> string"
  r_snapshot :: "string \<Rightarrow> string option"
  w_ack :: "bool \<Rightarrow> u64 \<Rightarrow> string \<Rightarrow> string"
  r_ack :: "string \<Rightarrow> (bool \<times> u64 \<times> string) option"
  w_envelope :: "envelope \<Rightarrow> string"
  r_envelope :: "string \<Rightarrow> envelope option"
  has_identifier :: "string \<Rightarrow> bool"

text \<open>The union tags of schema/order_control.fbs.\<close>

abbreviation ControlPayloadCancelOrderCommand :: u8 where "ControlPayloadCancelOrderCommand \<equiv> 1"
abbreviation ControlPayloadReplayRequest :: u8 where "ControlPayloadReplayRequest \<equiv> 2"
abbreviation ControlPayloadSnapshotRequest :: u8 where "ControlPayloadSnapshotRequest \<equiv> 3"
abbreviation ControlPayloadControlAck :: u8 where "ControlPayloadControlAck \<equiv> 4"

definition encode_valid :: "('m \<Rightarrow> string option) \<Rightarrow> ('m \<Rightarrow> string) \<Rightarrow> 'm \<Rightarrow> string + string" where
  "encode_valid validate build msg = (case validate msg of Some e \<Rightarrow> Inl e | None \<Rightarrow> Inr (build msg))"

definition EncodeOrderIngress :: "wire \<Rightarrow> OrderIngress \<Rightarrow> string + string" where
  "EncodeOrderIngress w = encode_valid OrderIngress_Validate (w_ingress w)"

definition EncodeTradeEvent :: "wire \<Rightarrow> TradeEvent \<Rightarrow> string + string" where
  "EncodeTradeEvent w = encode_valid TradeEvent_Validate (w_trade w)"

definition EncodeOrderStatusEvent :: "wire \<Rightarrow> OrderStatusEvent \<Rightarrow> string + string" where
  "EncodeOrderStatusEvent w = encode_valid OrderStatusEvent_Validate (w_status w)"

definition finishControlEnvelope :: "wire \<Rightarrow> string \<Rightarrow> u64 \<Rightarrow> u8 \<Rightarrow> string \<Rightarrow> string" where
  "finishControlEnvelope w commandID timestampNS payloadType payload =
     w_envelope w (commandID, timestampNS, payloadType, Some payload)"

definition EncodeCancelOrderCommand :: "wire \<Rightarrow> ControlCancelCommand \<Rightarrow> string + string" where
  "EncodeCancelOrderCommand w = encode_valid ControlCancelCommand_Validate (\<lambda>c.
     finishControlEnvelope w (xc_CommandID c) (xc_TimestampNS c) ControlPayloadCancelOrderCommand
       (w_cancel w (xc_OrderID c) (xc_Pair c)))"

definition EncodeReplayRequest :: "wire \<Rightarrow> ReplayRequest \<Rightarrow> string + string" where
  "EncodeReplayRequest w = encode_valid ReplayRequest_Validate (\<lambda>r.
     finishControlEnvelope w (rr_CommandID r) (rr_TimestampNS r) ControlPayloadReplayRequest
       (w_replay w (rr_Pair r) (rr_FromSequence r)))"

definition EncodeSnapshotRequest :: "wire \<Rightarrow> SnapshotRequest \<Rightarrow> string + string" where
  "EncodeSnapshotRequest w = encode_valid SnapshotRequest_Validate (\<lambda>r.
     finishControlEnvelope w (sr_CommandID r) (sr_TimestampNS r) ControlPayloadSnapshotRequest
       (w_snapshot w (sr_Pair r)))"

definition EncodeControlAck :: "wire \<Rightarrow> ControlAck \<Rightarrow> string + string" where
  "EncodeControlAck w = encode_valid ControlAck_Validate (\<lambda>a.
     finishControlEnvelope w (ka_CommandID a) (ka_TimestampNS a) ControlPayloadControlAck
       (w_ack w (ka_Accepted a) (ka_SequenceID a) (ka_Reason a)))"

text \<open>\<open>flatbuffers.SizeUOffsetT\<close> is 4.\<close>

definition decodeSafely :: "string \<Rightarrow> (string + 'a) option \<Rightarrow> string + 'a" where
  "decodeSafely data decoded =
     (if length data < 4 then Inl ''wire message is too short''
      else if length data > MaxWireMessageBytes then Inl ''wire message exceeds 8388608 bytes''
      else case decoded of None \<Rightarrow> Inl ''malformed wire message'' | Some r \<Rightarrow> r)"

definition checked :: "('m \<Rightarrow> string option) \<Rightarrow> 'm \<Rightarrow> string + 'm" where
  "checked validate msg = (case validate msg of Some e \<Rightarrow> Inl e | None \<Rightarrow> Inr msg)"

definition DecodeOrderIngress :: "wire \<Rightarrow> string \<Rightarrow> string + OrderIngress" where
  "DecodeOrderIngress w data = decodeSafely data (map_option (checked OrderIngress_Validate) (r_ingress w data))"

definition DecodeTradeEvent :: "wire \<Rightarrow> string \<Rightarrow> string + TradeEvent" where
  "DecodeTradeEvent w data = decodeSafely data (map_option (checked TradeEvent_Validate) (r_trade w data))"

definition DecodeOrderStatusEvent :: "wire \<Rightarrow> string \<Rightarrow> string + OrderStatusEvent" where
  "DecodeOrderStatusEvent w data = decodeSafely data (map_option (checked OrderStatusEvent_Validate) (r_status w data))"

definition decodeControlEnvelope ::
  "wire \<Rightarrow> string \<Rightarrow> u8 \<Rightarrow> (string \<Rightarrow> u64 \<Rightarrow> string \<Rightarrow> (string + 'a) option) \<Rightarrow> string + 'a" where
  "decodeControlEnvelope w data expected decode =
     (if length data < 8 \<or> length data > MaxWireMessageBytes \<or> \<not> has_identifier w data
      then Inl ''invalid order-control envelope''
      else decodeSafely data
        (case r_envelope w data of
           None \<Rightarrow> None
         | Some (command, timestamp, ptype, payload) \<Rightarrow>
             if ptype \<noteq> expected then Some (Inl ''unexpected order-control payload'')
             else case payload of
               None \<Rightarrow> Some (Inl ''order-control payload is missing'')
             | Some table \<Rightarrow> decode command timestamp table))"

definition DecodeCancelOrderCommand :: "wire \<Rightarrow> string \<Rightarrow> string + ControlCancelCommand" where
  "DecodeCancelOrderCommand w data = decodeControlEnvelope w data ControlPayloadCancelOrderCommand
     (\<lambda>command timestamp table. map_option (\<lambda>(orderID, pair). checked ControlCancelCommand_Validate
        \<lparr>xc_CommandID = command, xc_OrderID = orderID, xc_Pair = pair, xc_TimestampNS = timestamp\<rparr>)
        (r_cancel w table))"

definition DecodeReplayRequest :: "wire \<Rightarrow> string \<Rightarrow> string + ReplayRequest" where
  "DecodeReplayRequest w data = decodeControlEnvelope w data ControlPayloadReplayRequest
     (\<lambda>command timestamp table. map_option (\<lambda>(pair, from). checked ReplayRequest_Validate
        \<lparr>rr_CommandID = command, rr_Pair = pair, rr_FromSequence = from, rr_TimestampNS = timestamp\<rparr>)
        (r_replay w table))"

definition DecodeSnapshotRequest :: "wire \<Rightarrow> string \<Rightarrow> string + SnapshotRequest" where
  "DecodeSnapshotRequest w data = decodeControlEnvelope w data ControlPayloadSnapshotRequest
     (\<lambda>command timestamp table. map_option (\<lambda>pair. checked SnapshotRequest_Validate
        \<lparr>sr_CommandID = command, sr_Pair = pair, sr_TimestampNS = timestamp\<rparr>)
        (r_snapshot w table))"

definition DecodeControlAck :: "wire \<Rightarrow> string \<Rightarrow> string + ControlAck" where
  "DecodeControlAck w data = decodeControlEnvelope w data ControlPayloadControlAck
     (\<lambda>command timestamp table. map_option (\<lambda>(accepted, sequence, reason). checked ControlAck_Validate
        \<lparr>ka_CommandID = command, ka_Accepted = accepted, ka_SequenceID = sequence, ka_Reason = reason,
         ka_TimestampNS = timestamp\<rparr>)
        (r_ack w table))"

section \<open>What the decoders guarantee\<close>

lemma decodeSafely_Inr:
  "decodeSafely data d = Inr x \<longleftrightarrow> 4 \<le> length data \<and> length data \<le> MaxWireMessageBytes \<and> d = Some (Inr x)"
  by (auto simp: decodeSafely_def split: option.splits)

lemma checked_Inr: "checked v msg = Inr x \<longleftrightarrow> x = msg \<and> v msg = None"
  by (auto simp: checked_def split: option.splits)

lemma decodeControlEnvelope_Inr:
  "decodeControlEnvelope w data expected decode = Inr x \<longleftrightarrow>
     8 \<le> length data \<and> length data \<le> MaxWireMessageBytes \<and> has_identifier w data \<and>
     (\<exists>command timestamp table. r_envelope w data = Some (command, timestamp, expected, Some table) \<and>
        decode command timestamp table = Some (Inr x))"
  by (auto simp: decodeControlEnvelope_def decodeSafely_Inr split: option.splits)

lemma DecodeOrderStatusEvent_valid:
  "DecodeOrderStatusEvent w data = Inr e \<Longrightarrow> OrderStatusEvent_Validate e = None"
  by (auto simp: DecodeOrderStatusEvent_def decodeSafely_Inr checked_Inr)

lemma DecodeTradeEvent_valid: "DecodeTradeEvent w data = Inr e \<Longrightarrow> TradeEvent_Validate e = None"
  by (auto simp: DecodeTradeEvent_def decodeSafely_Inr checked_Inr)

lemma DecodeControlAck_valid: "DecodeControlAck w data = Inr a \<Longrightarrow> ControlAck_Validate a = None"
  by (auto simp: DecodeControlAck_def decodeControlEnvelope_Inr checked_Inr)

text \<open>
  The documented behaviour of FlatBuffers the control channel relies on: a finished envelope
  carries its file identifier, is at least 8 bytes long and reads back as what was built, and
  a payload table reads back its own fields. How tables of different types look to each other's
  accessors is not assumed.
\<close>

definition control_wire_ok :: "wire \<Rightarrow> bool" where
  "control_wire_ok w \<longleftrightarrow>
     (\<forall>e. has_identifier w (w_envelope w e) \<and> r_envelope w (w_envelope w e) = Some e \<and>
          8 \<le> length (w_envelope w e)) \<and>
     (\<forall>id pair. r_cancel w (w_cancel w id pair) = Some (id, pair)) \<and>
     (\<forall>pair from. r_replay w (w_replay w pair from) = Some (pair, from)) \<and>
     (\<forall>pair. r_snapshot w (w_snapshot w pair) = Some pair) \<and>
     (\<forall>ok sid reason. r_ack w (w_ack w ok sid reason) = Some (ok, sid, reason))"


section \<open>A concrete wire\<close>

text \<open>A self-delimiting text encoding that satisfies the laws, to evaluate the model on.\<close>

definition quoted :: "string \<Rightarrow> string" where
  "quoted s = concat (map (\<lambda>c. [CHR ''.'', c]) s) @ '';''"

fun unquote :: "string \<Rightarrow> string \<times> string" where
  "unquote (c # d # r) =
     (if c = CHR ''.'' then (d # fst (unquote r), snd (unquote r)) else ([], d # r))"
| "unquote r = ([], [])"

primrec fields :: "nat \<Rightarrow> string \<Rightarrow> string list" where
  "fields 0 s = []"
| "fields (Suc n) s = fst (unquote s) # fields n (snd (unquote s))"

definition fields_text :: "string list \<Rightarrow> string" where
  "fields_text xs = concat (map quoted xs)"

lemma unquote_quoted [simp]: "unquote (quoted s @ r) = (s, r)"
proof (induction s)
  case Nil
  then show ?case by (cases r) (simp_all add: quoted_def)
next
  case (Cons c s)
  then show ?case by (simp add: quoted_def)
qed

lemma unquote_quoted_all [simp]: "unquote (quoted s) = (s, [])"
  using unquote_quoted [of s "[]"] by simp

lemma fields_fields_text: "length xs = n \<Longrightarrow> fields n (fields_text xs @ r) = xs"
  by (induction xs arbitrary: n) (auto simp: fields_text_def)

lemma fields_fields_text_all [simp]: "length xs = n \<Longrightarrow> fields n (fields_text xs) = xs"
  using fields_fields_text [of xs n "[]"] by simp

definition text_bool :: "string \<Rightarrow> bool" where
  "text_bool s \<longleftrightarrow> s = ''true''"

definition text_u64 :: "string \<Rightarrow> u64" where
  "text_u64 s = (case ParseUint s of None \<Rightarrow> 0 | Some n \<Rightarrow> n)"

lemma text_values [simp]: "text_bool (FormatBool b) = b" "text_u64 (FormatUint n) = n"
  by (simp_all add: text_bool_def text_u64_def FormatBool_def)

lemma ucast_byte [simp]: "ucast (ucast (b :: u8) :: u64) = b"
  by (rule bit_word_eqI) (auto simp: bit_ucast_iff)

definition envelope_text :: "envelope \<Rightarrow> string" where
  "envelope_text = (\<lambda>(c, ts, ty, p). ''LIMCTL01'' @ fields_text [c, FormatUint ts, FormatUint (ucast ty),
     (case p of None \<Rightarrow> [] | Some x \<Rightarrow> CHR ''+'' # x)])"

definition envelope_of_fields :: "string list \<Rightarrow> envelope option" where
  "envelope_of_fields = (\<lambda>[c, ts, ty, p] \<Rightarrow>
       Some (c, text_u64 ts, ucast (text_u64 ty), (case p of [] \<Rightarrow> None | _ # x \<Rightarrow> Some x))
     | _ \<Rightarrow> None)"

definition status_text :: "OrderStatusEvent \<Rightarrow> string" where
  "status_text e = fields_text [FormatUint (se_SequenceID e), se_OrderID e, FormatUint (ucast (se_Status e)),
     FormatUint (se_FilledQuantity e), FormatUint (se_RemainingQuantity e), FormatUint (se_AvgPrice e)]"

definition status_of_fields :: "string list \<Rightarrow> OrderStatusEvent option" where
  "status_of_fields = (\<lambda>[a, b, c, d, e, f] \<Rightarrow>
       Some \<lparr>se_SequenceID = text_u64 a, se_OrderID = b, se_Status = ucast (text_u64 c),
         se_FilledQuantity = text_u64 d, se_RemainingQuantity = text_u64 e, se_AvgPrice = text_u64 f\<rparr>
     | _ \<Rightarrow> None)"

definition text_wire :: wire where
  "text_wire = \<lparr>
     w_ingress = (\<lambda>o1. fields_text [oi_ID o1, oi_UserID o1, oi_Pair o1]), r_ingress = (\<lambda>_. None),
     w_trade = (\<lambda>e. fields_text [te_Pair e, FormatUint (te_SequenceID e)]), r_trade = (\<lambda>_. None),
     w_status = status_text, r_status = (\<lambda>s. status_of_fields (fields 6 s)),
     w_cancel = (\<lambda>id pair. fields_text [id, pair]),
     r_cancel = (\<lambda>s. case fields 2 s of [oid, pair] \<Rightarrow> Some (oid, pair) | _ \<Rightarrow> None),
     w_replay = (\<lambda>pair from. fields_text [pair, FormatUint from]),
     r_replay = (\<lambda>s. case fields 2 s of [pair, from] \<Rightarrow> Some (pair, text_u64 from) | _ \<Rightarrow> None),
     w_snapshot = (\<lambda>pair. fields_text [pair]),
     r_snapshot = (\<lambda>s. case fields 1 s of [pair] \<Rightarrow> Some pair | _ \<Rightarrow> None),
     w_ack = (\<lambda>ok sid reason. fields_text [FormatBool ok, FormatUint sid, reason]),
     r_ack = (\<lambda>s. case fields 3 s of [ok, sid, reason] \<Rightarrow> Some (text_bool ok, text_u64 sid, reason) | _ \<Rightarrow> None),
     w_envelope = envelope_text,
     r_envelope = (\<lambda>s. envelope_of_fields (fields 4 (drop 8 s))),
     has_identifier = (\<lambda>s. take 8 s = ''LIMCTL01'')\<rparr>"

lemma envelope_text_read: "envelope_of_fields (fields 4 (drop 8 (envelope_text e))) = Some e"
  by (cases e) (auto simp: envelope_text_def envelope_of_fields_def split: option.splits)

lemma control_wire_ok_text_wire: "control_wire_ok text_wire"
  unfolding control_wire_ok_def
  by (intro conjI allI)
    (simp_all add: text_wire_def envelope_text_read, simp_all add: envelope_text_def fields_text_def split: prod.splits)

lemma status_text_read: "r_status text_wire (status_text e) = Some e"
  by (cases e) (simp add: text_wire_def status_text_def status_of_fields_def)


end
