(* ===== verification/Trading_DB.thy ===== *)
theory Trading_DB
  imports Trade_Amounts Protocol "HOL-Library.Product_Lexorder"
begin

text \<open>
  The tables of the trading schema (migrations 54 to 58) as an extension of the ledger tables,
  with the column and table checks that the statements of the order and settlement stores can
  run into. \<open>NUMERIC\<close> columns are \<open>int\<close>, nullable columns are options. Trades recorded
  before the engine existed have no sequence or order ids; no statement modelled here reads them,
  so the table holds the engine's trades only.
\<close>

record pair_row =
  pr_symbol :: string
  pr_base :: string
  pr_quote :: string
  pr_price_scale :: int
  pr_quantity_scale :: int
  pr_min :: int
  pr_max :: int
  pr_tick :: int
  pr_step :: int
  pr_status :: string

record order_row =
  od_id :: string
  od_user :: string
  od_account :: string
  od_pair :: string
  od_side :: string
  od_type :: string
  od_price :: "int option"
  od_trigger_price :: "int option"
  od_trigger_direction :: "string option"
  od_quantity :: int
  od_filled :: int
  od_remaining :: int
  od_avg_price :: int
  od_tif :: string
  od_status :: string
  od_post_only :: bool
  od_reduce_only :: bool
  od_fee_tier :: int
  od_key :: string
  od_hash :: string
  od_hold_journal :: "string option"
  od_hold_asset :: "string option"
  od_hold_amount :: "int option"
  od_released_at :: "int option"
  od_triggered_at :: "int option"
  od_engine_sequence :: "int option"
  od_created_at :: int
  od_updated_at :: int

record command_row =
  ec_order :: string
  ec_payload :: string
  ec_status :: string
  ec_attempts :: int
  ec_last_error :: string
  ec_dispatched_at :: "int option"

record control_row =
  ct_id :: string
  ct_order :: string
  ct_user :: string
  ct_key :: string
  ct_payload :: string
  ct_status :: string
  ct_attempts :: int
  ct_last_error :: string
  ct_sequence :: "int option"

record sequence_row =
  sq_pair :: string
  sq_last :: int
  sq_mode :: string
  sq_replay_through :: int
  sq_halted_by_gap :: bool

record inbox_row =
  ib_pair :: string
  ib_sequence :: int
  ib_hash :: string
  ib_processed_at :: "int option"

record trade_row =
  tr_id :: string
  tr_pair :: string
  tr_sequence :: int
  tr_timestamp :: int
  tr_maker_order :: string
  tr_taker_order :: string
  tr_maker_user :: string
  tr_taker_user :: string
  tr_price :: int
  tr_quantity :: int
  tr_quote :: int

record participant_row =
  tp_trade :: string
  tp_order :: string
  tp_user :: string
  tp_account :: string
  tp_role :: string
  tp_side :: string
  tp_fee_bps :: int
  tp_fee :: int
  tp_hold_consumed :: int

record accrual_row =
  fa_trade :: string
  fa_order :: string
  fa_user :: string
  fa_asset :: string
  fa_fee_bps :: int
  fa_amount :: int

record trading_db = ledger_db +
  trading_pairs :: "pair_row list"
  orders :: "order_row list"
  engine_commands :: "command_row list"
  engine_control_commands :: "control_row list"
  engine_symbol_sequences :: "sequence_row list"
  engine_trade_inbox :: "inbox_row list"
  trades :: "trade_row list"
  trade_participants :: "participant_row list"
  trade_fee_accruals :: "accrual_row list"
  trading_fee_accounts :: "(string \<times> string) list"

type_synonym 'a trading_tx = "(trading_db, trading_failure, 'a) tx"

abbreviation post_trading_journal :: "string \<Rightarrow> string \<Rightarrow> string \<Rightarrow> posting_leg list \<Rightarrow> string trading_tx" where
  "post_trading_journal \<equiv> post_journal"

abbreviation numeric_overflow :: "'e failure" where "numeric_overflow \<equiv> Pg ''22003''"

section \<open>Orders\<close>

definition terminal_status :: "string \<Rightarrow> bool" where
  "terminal_status st \<longleftrightarrow> st = ''FILLED'' \<or> st = ''CANCELED'' \<or> st = ''REJECTED''"

text \<open>The checks of the \<open>orders\<close> table (migrations 54 and 55).\<close>

definition order_checks :: "order_row \<Rightarrow> bool" where
  "order_checks o1 \<longleftrightarrow>
     (od_side o1 = ''BUY'' \<or> od_side o1 = ''SELL'') \<and> validType (od_type o1) \<and> validTIF (od_tif o1) \<and>
     validOrderStatus (od_status o1) \<and> pred_option (\<lambda>p. 0 < p) (od_price o1) \<and> 0 < od_quantity o1 \<and>
     0 \<le> od_filled o1 \<and> 0 \<le> od_remaining o1 \<and> 0 \<le> od_avg_price o1 \<and>
     od_filled o1 + od_remaining o1 = od_quantity o1 \<and> 0 \<le> od_fee_tier o1 \<and> od_fee_tier o1 \<le> 255 \<and>
     pred_option (\<lambda>a. 0 < a) (od_hold_amount o1) \<and> pred_option (\<lambda>n. 0 < n) (od_engine_sequence o1) \<and>
     (od_hold_journal o1 = None \<longleftrightarrow> od_hold_asset o1 = None) \<and>
     (od_hold_asset o1 = None \<longleftrightarrow> od_hold_amount o1 = None) \<and>
     pred_option (\<lambda>p. 0 < p) (od_trigger_price o1) \<and>
     pred_option (\<lambda>d. d = ''UP'' \<or> d = ''DOWN'') (od_trigger_direction o1) \<and>
     (isConditionalType (od_type o1) \<longleftrightarrow> od_trigger_price o1 \<noteq> None) \<and>
     (od_trigger_price o1 = None \<longleftrightarrow> od_trigger_direction o1 = None)"

definition update_orders :: "(order_row \<Rightarrow> bool) \<Rightarrow> (order_row \<Rightarrow> order_row) \<Rightarrow> unit trading_tx" where
  "update_orders p f =
     bindT (queryT orders) (\<lambda>rows.
     bindT (ensureT (list_all (\<lambda>r. p r \<longrightarrow> order_checks (f r)) rows) check_violation) (\<lambda>_.
     execT (\<lambda>s. s\<lparr>orders := update_where p f (orders s)\<rparr>)))"

definition insert_order :: "order_row \<Rightarrow> unit trading_tx" where
  "insert_order row =
     bindT (queryT orders) (\<lambda>rows.
     bindT (ensureT (order_checks row) check_violation) (\<lambda>_.
     bindT (ensureT (\<forall>r \<in> set rows. od_id r \<noteq> od_id row \<and>
        \<not> (od_user r = od_user row \<and> od_key r = od_key row)) unique_violation) (\<lambda>_.
     execT (\<lambda>s. s\<lparr>orders := orders s @ [row]\<rparr>))))"

text \<open>\<open>FROM orders o JOIN engine_commands c ON c.order_id=o.id\<close>.\<close>

definition orders_with_commands :: "trading_db \<Rightarrow> (order_row \<times> command_row) list" where
  "orders_with_commands s =
     concat (map (\<lambda>o1. map (Pair o1) (filter (\<lambda>c. ec_order c = od_id o1) (engine_commands s))) (orders s))"

text \<open>\<open>orderScanTargets\<close> over the selected columns.\<close>

definition scan_order :: "order_row \<Rightarrow> string \<Rightarrow> Order" where
  "scan_order o1 payload = \<lparr>o_ID = od_id o1, o_UserID = od_user o1, o_AccountID = od_account o1,
     o_Pair = od_pair o1, o_Side = od_side o1, o_Type = od_type o1,
     o_Price = BigString (case od_price o1 of None \<Rightarrow> 0 | Some p \<Rightarrow> p),
     o_TriggerPrice = (case od_trigger_price o1 of None \<Rightarrow> [] | Some p \<Rightarrow> BigString p),
     o_Quantity = BigString (od_quantity o1), o_FilledQuantity = BigString (od_filled o1),
     o_RemainingQuantity = BigString (od_remaining o1), o_AvgPrice = BigString (od_avg_price o1),
     o_TimeInForce = od_tif o1, o_Status = od_status o1, o_PostOnly = od_post_only o1,
     o_ReduceOnly = od_reduce_only o1, o_FeeTier = od_fee_tier o1, o_Duplicate = False,
     o_EnginePayload = payload, o_CreatedAt = od_created_at o1, o_UpdatedAt = od_updated_at o1\<rparr>"

definition scan_joined :: "order_row \<times> command_row \<Rightarrow> Order" where
  "scan_joined = (\<lambda>(o1, c). scan_order o1 (ec_payload c))"

section \<open>Balances as the stores read them\<close>

definition bucketBalance :: "string \<Rightarrow> string \<Rightarrow> bucket \<Rightarrow> int trading_tx" where
  "bucketBalance accountID assetID b =
     bindT (queryT (\<lambda>s. BigString (bucket_sum s accountID assetID b))) (\<lambda>raw.
     case SetString raw of None \<Rightarrow> failT (App (ErrOther ''invalid bucket balance'')) | Some v \<Rightarrow> returnT v)"

definition availableBalance :: "string \<Rightarrow> string \<Rightarrow> int trading_tx" where
  "availableBalance accountID assetID =
     bindT (queryT (\<lambda>s. BigString (posted_bucket_sum s accountID assetID Available))) (\<lambda>raw.
     case SetString raw of None \<Rightarrow> failT (App (ErrOther ''invalid available balance'')) | Some v \<Rightarrow> returnT v)"

lemma bucketBalance_Inr [tx_simps]:
  "bucketBalance a x b s = Inr r \<longleftrightarrow> r = (bucket_sum s a x b, s)"
  by (simp add: bucketBalance_def tx_simps)

lemma availableBalance_Inr [tx_simps]:
  "availableBalance a x s = Inr r \<longleftrightarrow> r = (posted_bucket_sum s a x Available, s)"
  by (simp add: availableBalance_def tx_simps)

lemma update_orders_Inr [tx_simps]:
  "update_orders p f s = Inr r \<longleftrightarrow>
     list_all (\<lambda>r. p r \<longrightarrow> order_checks (f r)) (orders s) \<and>
     r = ((), s\<lparr>orders := update_where p f (orders s)\<rparr>)"
  by (auto simp: update_orders_def tx_simps)

lemma insert_order_Inr [tx_simps]:
  "insert_order row s = Inr r \<longleftrightarrow>
     order_checks row \<and>
     (\<forall>r \<in> set (orders s). od_id r \<noteq> od_id row \<and> \<not> (od_user r = od_user row \<and> od_key r = od_key row)) \<and>
     r = ((), s\<lparr>orders := orders s @ [row]\<rparr>)"
  by (auto simp: insert_order_def tx_simps)

text \<open>The tables a journal posting leaves alone.\<close>

lemma post_journal_frame:
  assumes "post_trading_journal k t r legs s = Inr (j, s')"
  shows "orders s' = orders s" "engine_commands s' = engine_commands s" "outbox_events s' = outbox_events s"
    "engine_control_commands s' = engine_control_commands s" "trading_pairs s' = trading_pairs s"
    "engine_symbol_sequences s' = engine_symbol_sequences s" "engine_trade_inbox s' = engine_trade_inbox s"
    "trades s' = trades s" "trade_participants s' = trade_participants s" "pg_now s' = pg_now s"
    "trading_fee_accounts s' = trading_fee_accounts s" "accounts s' = accounts s"
    "trade_fee_accruals s' = trade_fee_accruals s" "locks_taken s' = locks_taken s"
  using assms by (auto simp: post_journal_Inr)

end
