(* ===== verification/Order_Store.thy ===== *)
theory Order_Store
  imports Trading_DB
begin

text \<open>
  The order store, internal/trading/postgres/store.go. Every method that opens a transaction is a
  transaction body here (\<open>..._tx\<close>) and a state function that commits or rolls back. A row
  lock (\<open>FOR UPDATE\<close>) has no effect on a serial execution and is not written; the advisory
  locks are recorded in the state.
\<close>

section \<open>Pure helpers\<close>

definition withinPairLimits :: "u64 \<Rightarrow> u64 \<Rightarrow> string \<Rightarrow> string \<Rightarrow> string \<Rightarrow> string \<Rightarrow> bool" where
  "withinPairLimits quantity price minimum maximum priceTick quantityStep =
     (case (SetString minimum, SetString maximum, SetString priceTick, SetString quantityStep) of
        (Some minv, Some maxv, Some tick, Some step) \<Rightarrow>
          if tick \<le> 0 \<or> step \<le> 0 then False
          else if uint quantity < minv \<or> uint quantity > maxv \<or> uint quantity mod step \<noteq> 0 then False
          else price = 0 \<or> uint price mod tick = 0
      | _ \<Rightarrow> False)"

definition quantitiesBalance :: "string \<Rightarrow> u64 \<Rightarrow> u64 \<Rightarrow> bool" where
  "quantitiesBalance quantity filled remaining =
     (case SetString quantity of None \<Rightarrow> False | Some whole \<Rightarrow> whole = uint filled + uint remaining)"

definition statusName :: "u8 \<Rightarrow> string" where
  "statusName st =
     (if st = OrderStatusOpen then ''OPEN''
      else if st = OrderStatusPartial then ''PARTIALLY_FILLED''
      else if st = OrderStatusFilled then ''FILLED''
      else if st = OrderStatusCanceled then ''CANCELED''
      else if st = OrderStatusRejected then ''REJECTED''
      else '''')"

definition validTransition :: "string \<Rightarrow> string \<Rightarrow> bool" where
  "validTransition current nxt =
     (if current = nxt then True
      else if current = ''PENDING'' then
        nxt = ''OPEN'' \<or> nxt = ''PARTIALLY_FILLED'' \<or> nxt = ''FILLED'' \<or> nxt = ''CANCELED'' \<or> nxt = ''REJECTED''
      else if current = ''OPEN'' then
        nxt = ''PARTIALLY_FILLED'' \<or> nxt = ''FILLED'' \<or> nxt = ''CANCELED'' \<or> nxt = ''REJECTED''
      else if current = ''PARTIALLY_FILLED'' then nxt = ''FILLED'' \<or> nxt = ''CANCELED''
      else if current = ''PENDING_CANCEL'' then nxt = ''FILLED'' \<or> nxt = ''CANCELED''
      else False)"

section \<open>Queries\<close>

definition find_joined :: "(order_row \<times> command_row \<Rightarrow> bool) \<Rightarrow> trading_db \<Rightarrow> (order_row \<times> command_row) option" where
  "find_joined p s = find p (orders_with_commands s)"

definition findOwnedByID :: "string \<Rightarrow> string \<Rightarrow> string \<Rightarrow> Order trading_tx" where
  "findOwnedByID userID accountID orderID =
     rowT (\<lambda>s. map_option scan_joined (find_joined (\<lambda>(o1, c). od_id o1 = orderID \<and> od_user o1 = userID \<and>
       (accountID = [] \<or> od_account o1 = accountID)) s)) (App ErrOrderNotFound)"

definition findByID :: "string \<Rightarrow> Order trading_tx" where
  "findByID orderID =
     rowT (\<lambda>s. map_option scan_joined (find_joined (\<lambda>(o1, c). od_id o1 = orderID) s)) (App ErrNoRows)"

definition findByIdempotencyKey :: "string \<Rightarrow> string \<Rightarrow> (Order \<times> string) option trading_tx" where
  "findByIdempotencyKey userID key =
     queryT (\<lambda>s. map_option (\<lambda>oc. (scan_joined oc, od_hash (fst oc)))
       (find_joined (\<lambda>(o1, c). od_user o1 = userID \<and> od_key o1 = key) s))"

definition appendOrderEvent :: "string \<Rightarrow> string \<Rightarrow> (string \<times> json) list \<Rightarrow> unit trading_tx" where
  "appendOrderEvent orderID eventType payload = append_outbox eventType ''order'' orderID payload"

definition pair_rules_of :: "trading_db \<Rightarrow> string \<Rightarrow> (pair_row \<times> asset_row) option" where
  "pair_rules_of s pair =
     find (\<lambda>(p, q). pr_symbol p = pair \<and> as_id q = pr_quote p) (List.product (trading_pairs s) (assets s))"

definition PairRules_tx :: "string \<Rightarrow> PairRules trading_tx" where
  "PairRules_tx pair =
     rowT (\<lambda>s. map_option (\<lambda>(p, q). \<lparr>r_PriceScale = pr_price_scale p, r_QuantityScale = pr_quantity_scale p,
       r_QuoteScale = as_decimals q\<rparr>) (pair_rules_of s pair)) (App ErrPairUnavailable)"

definition ListOrders_tx :: "string \<Rightarrow> string \<Rightarrow> OrderFilter \<Rightarrow> Order list trading_tx" where
  "ListOrders_tx userID accountID flt =
     bindT (ensureT (userID \<noteq> [] \<and> accountID \<noteq> []) (App ErrTradingAccountRequired)) (\<lambda>_.
     queryT (\<lambda>s. map scan_joined (take (nat (f_Limit flt)) (drop (nat (f_Offset flt))
       (rev (sort_key (\<lambda>(o1, c). (od_created_at o1, od_id o1))
         (filter (\<lambda>(o1, c). od_user o1 = userID \<and> od_account o1 = accountID \<and>
            (f_History flt \<and> od_status o1 \<in> set [''FILLED'', ''CANCELED'', ''REJECTED''] \<or>
             \<not> f_History flt \<and> od_status o1 \<in> set [''CONDITIONAL'', ''PENDING'', ''PENDING_CANCEL'', ''OPEN'', ''PARTIALLY_FILLED'']) \<and>
            (f_Status flt = [] \<or> od_status o1 = f_Status flt) \<and> (f_Pair flt = [] \<or> od_pair o1 = f_Pair flt))
           (orders_with_commands s))))))))"

definition GetOrder_tx :: "string \<Rightarrow> string \<Rightarrow> string \<Rightarrow> Order trading_tx" where
  "GetOrder_tx userID accountID orderID =
     bindT (ensureT (userID \<noteq> [] \<and> accountID \<noteq> [] \<and> orderID \<noteq> []) (App ErrOrderNotFound)) (\<lambda>_.
     rowT (\<lambda>s. map_option scan_joined (find_joined (\<lambda>(o1, c). od_id o1 = orderID \<and> od_user o1 = userID \<and>
       od_account o1 = accountID) s)) (App ErrOrderNotFound))"

section \<open>Releasing a hold\<close>

definition consumed_hold :: "trading_db \<Rightarrow> string \<Rightarrow> int" where
  "consumed_hold s orderID =
     sum_list (map tp_hold_consumed (filter (\<lambda>p. tp_order p = orderID) (trade_participants s)))"

definition open_hold :: "string \<Rightarrow> order_row \<Rightarrow> bool" where
  "open_hold orderID o1 \<longleftrightarrow> od_id o1 = orderID \<and> od_released_at o1 = None \<and> od_hold_asset o1 \<noteq> None"

definition releaseOrderHold :: "string \<Rightarrow> unit trading_tx" where
  "releaseOrderHold orderID =
     bindT (queryT (\<lambda>s. find (open_hold orderID) (orders s))) (\<lambda>found.
     case found of None \<Rightarrow> returnT ()
     | Some o1 \<Rightarrow>
       bindT (returnT (od_account o1, the (od_hold_asset o1),
         case od_hold_amount o1 of None \<Rightarrow> [] | Some a \<Rightarrow> BigString a)) (\<lambda>(accountID, assetID, originalRaw).
       bindT (LockAccountAsset (ErrOther ''account and asset are required for ledger lock'') accountID assetID) (\<lambda>_.
       bindT (queryT (\<lambda>s. BigString (consumed_hold s orderID))) (\<lambda>consumedRaw.
       case (SetString originalRaw, SetString consumedRaw) of
         (Some original, Some consumed) \<Rightarrow>
           bindT (returnT (original - consumed)) (\<lambda>remaining.
           bindT (bucketBalance accountID assetID Held) (\<lambda>heldBalance.
           bindT (ensureT (\<not> (remaining < 0 \<or> heldBalance < remaining))
             (App (ErrSettlementInvalid ''order held balance is inconsistent''))) (\<lambda>_.
           bindT (queryT pg_now) (\<lambda>now.
           bindT (update_orders (\<lambda>r. od_id r = orderID \<and> od_released_at r = None)
             (\<lambda>r. r\<lparr>od_released_at := Some now, od_updated_at := now\<rparr>)) (\<lambda>_.
           if remaining = 0 then returnT ()
           else bindT (post_journal (''order-release:'' @ orderID) ''order_release'' orderID
               (release_legs accountID accountID assetID remaining)) (\<lambda>_. returnT ()))))))
       | _ \<Rightarrow> failT (App (ErrSettlementInvalid ''order hold accounting is invalid''))))))"

section \<open>Creating an order\<close>

definition pair_for_order :: "trading_db \<Rightarrow> string \<Rightarrow> pair_row option" where
  "pair_for_order s pair = find (\<lambda>p. pr_symbol p = pair \<and> pr_status p = ''active'' \<and>
     (\<exists>b \<in> set (assets s). as_id b = pr_base p \<and> as_status b = ''enabled'') \<and>
     (\<exists>q \<in> set (assets s). as_id q = pr_quote p \<and> as_status q = ''enabled'')) (trading_pairs s)"

definition new_order_row :: "CreateOrderCommand \<Rightarrow> string \<Rightarrow> int \<Rightarrow> order_row" where
  "new_order_row i initialStatus now =
     \<lparr>od_id = c_OrderID i, od_user = c_UserID i, od_account = c_AccountID i, od_pair = c_Pair i,
      od_side = c_Side i, od_type = c_Type i,
      od_price = (if c_Price i = 0 then None else Some (uint (c_Price i))),
      od_trigger_price = (if c_TriggerPrice i = 0 then None else Some (uint (c_TriggerPrice i))),
      od_trigger_direction = (if c_TriggerDirection i = [] then None else Some (c_TriggerDirection i)),
      od_quantity = uint (c_Quantity i), od_filled = 0, od_remaining = uint (c_Quantity i), od_avg_price = 0,
      od_tif = c_TimeInForce i, od_status = initialStatus, od_post_only = c_PostOnly i,
      od_reduce_only = c_ReduceOnly i, od_fee_tier = c_FeeTier i, od_key = c_IdempotencyKey i,
      od_hash = c_RequestHash i, od_hold_journal = None, od_hold_asset = None, od_hold_amount = None,
      od_released_at = None, od_triggered_at = None, od_engine_sequence = None,
      od_created_at = now, od_updated_at = now\<rparr>"

text \<open>\<open>INSERT INTO engine_commands\<close>: the order id is the primary key, the payload not empty.\<close>

definition insert_engine_command :: "string \<Rightarrow> string \<Rightarrow> string \<Rightarrow> unit trading_tx" where
  "insert_engine_command orderID payload st =
     bindT (queryT engine_commands) (\<lambda>rows.
     bindT (ensureT (payload \<noteq> []) check_violation) (\<lambda>_.
     bindT (ensureT (\<forall>r \<in> set rows. ec_order r \<noteq> orderID) unique_violation) (\<lambda>_.
     execT (\<lambda>s. s\<lparr>engine_commands := engine_commands s @
       [\<lparr>ec_order = orderID, ec_payload = payload, ec_status = st, ec_attempts = 0, ec_last_error = [],
         ec_dispatched_at = None\<rparr>]\<rparr>))))"

text \<open>The account checks at the head of the transaction.\<close>

definition require_trading_account :: "string \<Rightarrow> string \<Rightarrow> unit trading_tx" where
  "require_trading_account userID accountID =
     bindT (rowT (\<lambda>s. find (\<lambda>u. u_id u = userID) (users s)) (App ErrTradingAccountRequired)) (\<lambda>u.
     bindT (ensureT (u_status u = ''active'') (App ErrTradingAccountRequired)) (\<lambda>_.
     bindT (rowT (\<lambda>s. find (\<lambda>a. ac_id a = accountID \<and> ac_user_id a = Some userID) (accounts s))
       (App ErrTradingAccountRequired)) (\<lambda>a.
     ensureT (\<not> (ac_status a \<noteq> ''active'' \<or> ac_kind a \<noteq> ''uta'' \<and> ac_kind a \<noteq> ''subaccount''))
       (App ErrTradingAccountRequired))))"

text \<open>The rest of the transaction once the pair is known: hold, order, command and event.\<close>

definition place_new_order :: "CreateOrderCommand \<Rightarrow> pair_row \<Rightarrow> Order trading_tx" where
  "place_new_order i p =
     bindT (returnT (if c_Side i = ''BUY'' then pr_quote p else pr_base p)) (\<lambda>holdAssetID.
     bindT (LockAccountAsset (ErrOther ''account and asset are required for ledger lock'') (c_AccountID i) holdAssetID) (\<lambda>_.
     bindT (availableBalance (c_AccountID i) holdAssetID) (\<lambda>available.
     bindT (rowT (\<lambda>_. SetString (if c_HoldAllAvailable i then BigString available else c_HoldAmount i))
       (App ErrInsufficientBalance)) (\<lambda>hold.
     bindT (ensureT (0 < hold) (App ErrInsufficientBalance)) (\<lambda>_.
     bindT (ensureT (\<not> available < hold) (App ErrInsufficientBalance)) (\<lambda>_.
     bindT (returnT (if c_Conditional i then ''CONDITIONAL'' else ''PENDING'')) (\<lambda>initialStatus.
     bindT (queryT pg_now) (\<lambda>now.
     bindT (insert_order (new_order_row i initialStatus now)) (\<lambda>_.
     bindT (post_journal (''order-hold:'' @ c_OrderID i) ''order_hold'' (c_OrderID i)
       (hold_legs (c_AccountID i) holdAssetID hold)) (\<lambda>journalID.
     bindT (ensureT (hold < 10 ^ 20) numeric_overflow) (\<lambda>_.
     bindT (update_orders (\<lambda>r. od_id r = c_OrderID i)
       (\<lambda>r. r\<lparr>od_hold_journal := Some journalID, od_hold_asset := Some holdAssetID, od_hold_amount := Some hold\<rparr>)) (\<lambda>_.
     bindT (insert_engine_command (c_OrderID i) (c_EnginePayload i)
       (if c_Conditional i then ''blocked'' else ''pending'')) (\<lambda>_.
     bindT (append_outbox (if c_Conditional i then ''order.conditional'' else ''order.pending'') ''order'' (c_OrderID i)
       [(''order_id'', JString (c_OrderID i)), (''user_id'', JString (c_UserID i)),
        (''account_id'', JString (c_AccountID i)), (''status'', JString initialStatus)]) (\<lambda>_.
     returnT (scan_order (new_order_row i initialStatus now) (c_EnginePayload i))))))))))))))))"

definition CreateOrder_tx :: "CreateOrderCommand \<Rightarrow> Order trading_tx" where
  "CreateOrder_tx i =
     bindT (ensureT (\<not> (c_OrderID i = [] \<or> c_UserID i = [] \<or> c_AccountID i = [] \<or> c_IdempotencyKey i = [] \<or>
        c_EnginePayload i = [])) (App (ErrInvalidOrder ''incomplete persistence command''))) (\<lambda>_.
     bindT (require_trading_account (c_UserID i) (c_AccountID i)) (\<lambda>_.
     bindT (findByIdempotencyKey (c_UserID i) (c_IdempotencyKey i)) (\<lambda>existing.
     case existing of
       Some (order, storedHash) \<Rightarrow>
         bindT (ensureT (storedHash = c_RequestHash i) (App ErrIdempotencyConflict)) (\<lambda>_.
         returnT (order\<lparr>o_Duplicate := True\<rparr>))
     | None \<Rightarrow>
         bindT (rowT (\<lambda>s. pair_for_order s (c_Pair i)) (App ErrPairUnavailable)) (\<lambda>p.
         bindT (ensureT (withinPairLimits (c_Quantity i) (c_Price i) (BigString (pr_min p)) (BigString (pr_max p))
             (BigString (pr_tick p)) (BigString (pr_step p)))
           (App (ErrInvalidOrder ''order violates pair quantity or tick limits''))) (\<lambda>_.
         bindT (ensureT (c_Conditional i \<longrightarrow> withinPairLimits (c_Quantity i) (c_TriggerPrice i) (BigString (pr_min p))
             (BigString (pr_max p)) (BigString (pr_tick p)) (BigString (pr_step p)))
           (App (ErrInvalidOrder ''trigger price violates pair tick limits''))) (\<lambda>_.
         place_new_order i p))))))"

section \<open>Engine acknowledgements\<close>

text \<open>The writes of an acknowledgement that changes the order.\<close>

definition write_engine_status :: "string \<Rightarrow> OrderStatusEvent \<Rightarrow> string \<Rightarrow> unit trading_tx" where
  "write_engine_status orderID event nextStatus =
     bindT (queryT pg_now) (\<lambda>now.
     bindT (update_orders (\<lambda>r. od_id r = orderID)
       (\<lambda>r. r\<lparr>od_status := nextStatus, od_filled := uint (se_FilledQuantity event),
              od_remaining := uint (se_RemainingQuantity event), od_avg_price := uint (se_AvgPrice event),
              od_engine_sequence := Some (uint (se_SequenceID event)), od_updated_at := now\<rparr>)) (\<lambda>_.
     bindT (execT (\<lambda>s. s\<lparr>engine_commands := update_where (\<lambda>c. ec_order c = orderID)
       (\<lambda>c. c\<lparr>ec_status := ''dispatched'', ec_attempts := ec_attempts c + 1, ec_last_error := [],
              ec_dispatched_at := Some now\<rparr>) (engine_commands s)\<rparr>)) (\<lambda>_.
     bindT (if nextStatus = ''REJECTED'' \<or> nextStatus = ''CANCELED'' then releaseOrderHold orderID else returnT ()) (\<lambda>_.
     append_outbox ''order.status_changed'' ''order'' orderID
       [(''order_id'', JString orderID), (''status'', JString nextStatus), (''sequence_id'', JUint (se_SequenceID event))]))))"

definition ApplyEngineStatus_tx :: "string \<Rightarrow> OrderStatusEvent \<Rightarrow> Order trading_tx" where
  "ApplyEngineStatus_tx orderID event =
     bindT (ensureT (\<not> (orderID = [] \<or> se_OrderID event \<noteq> orderID)) (App (ErrEngineResponse []))) (\<lambda>_.
     bindT (rowT (\<lambda>s. find (\<lambda>o1. od_id o1 = orderID) (orders s)) (App ErrNoRows)) (\<lambda>o1.
     bindT (returnT (od_status o1, statusName (se_Status event))) (\<lambda>(currentStatus, nextStatus).
     bindT (ensureT (\<not> (nextStatus = [] \<or> \<not> validTransition currentStatus nextStatus)) (App (ErrEngineResponse []))) (\<lambda>_.
     bindT (ensureT (quantitiesBalance (BigString (od_quantity o1)) (se_FilledQuantity event) (se_RemainingQuantity event))
       (App (ErrEngineResponse ''filled and remaining quantities do not equal order quantity''))) (\<lambda>_.
     bindT (if currentStatus \<noteq> nextStatus \<or> \<not> terminal_status currentStatus
       then write_engine_status orderID event nextStatus else returnT ()) (\<lambda>_.
     findByID orderID))))))"

definition RecordDispatchFailure_tx :: "string \<Rightarrow> string \<Rightarrow> unit trading_tx" where
  "RecordDispatchFailure_tx orderID reason =
     bindT (ensureT (orderID \<noteq> []) (App (ErrInvalidOrder ''''))) (\<lambda>_.
     bindT (returnT (take 1000 (TrimSpace reason))) (\<lambda>text.
     bindT (queryT (\<lambda>s. length (filter (\<lambda>c. ec_order c = orderID \<and> ec_status c = ''pending'') (engine_commands s)))) (\<lambda>affected.
     bindT (execT (\<lambda>s. s\<lparr>engine_commands := update_where (\<lambda>c. ec_order c = orderID \<and> ec_status c = ''pending'')
       (\<lambda>c. c\<lparr>ec_attempts := ec_attempts c + 1, ec_last_error := text\<rparr>) (engine_commands s)\<rparr>)) (\<lambda>_.
     if affected = 0 then
       execT (\<lambda>s. s\<lparr>engine_control_commands := update_where (\<lambda>c. ct_order c = orderID \<and> ct_status c = ''pending'')
         (\<lambda>c. c\<lparr>ct_attempts := ct_attempts c + 1, ct_last_error := text\<rparr>) (engine_control_commands s)\<rparr>)
     else returnT ()))))"

section \<open>Cancellation\<close>

text \<open>\<open>INSERT INTO engine_control_commands\<close>: unique id and unique (user, idempotency key).\<close>

definition insert_control_command :: "Orders.CancelOrderCommand \<Rightarrow> unit trading_tx" where
  "insert_control_command cmd =
     bindT (queryT engine_control_commands) (\<lambda>rows.
     bindT (ensureT (cc_Payload cmd \<noteq> []) check_violation) (\<lambda>_.
     bindT (ensureT (\<forall>r \<in> set rows. ct_id r \<noteq> cc_CommandID cmd \<and>
        \<not> (ct_user r = cc_UserID cmd \<and> ct_key r = cc_IdempotencyKey cmd)) unique_violation) (\<lambda>_.
     execT (\<lambda>s. s\<lparr>engine_control_commands := engine_control_commands s @
       [\<lparr>ct_id = cc_CommandID cmd, ct_order = cc_OrderID cmd, ct_user = cc_UserID cmd, ct_key = cc_IdempotencyKey cmd,
         ct_payload = cc_Payload cmd, ct_status = ''pending'', ct_attempts = 0, ct_last_error = [], ct_sequence = None\<rparr>]\<rparr>))))"

definition request_cancel :: "Orders.CancelOrderCommand \<Rightarrow> Order \<Rightarrow> Order trading_tx" where
  "request_cancel cmd order =
     bindT (insert_control_command cmd) (\<lambda>_.
     bindT (queryT pg_now) (\<lambda>now.
     bindT (if o_Status order = ''CONDITIONAL'' then
         bindT (releaseOrderHold (o_ID order)) (\<lambda>_.
         bindT (update_orders (\<lambda>r. od_id r = o_ID order)
           (\<lambda>r. r\<lparr>od_status := ''CANCELED'', od_remaining := od_quantity r, od_updated_at := now\<rparr>)) (\<lambda>_.
         bindT (execT (\<lambda>s. s\<lparr>engine_commands := update_where (\<lambda>c. ec_order c = o_ID order \<and> ec_status c = ''blocked'')
           (\<lambda>c. c\<lparr>ec_status := ''canceled''\<rparr>) (engine_commands s)\<rparr>)) (\<lambda>_.
         execT (\<lambda>s. s\<lparr>engine_control_commands := update_where (\<lambda>c. ct_id c = cc_CommandID cmd)
           (\<lambda>c. c\<lparr>ct_status := ''dispatched''\<rparr>) (engine_control_commands s)\<rparr>))))
       else update_orders (\<lambda>r. od_id r = o_ID order)
         (\<lambda>r. r\<lparr>od_status := ''PENDING_CANCEL'', od_updated_at := now\<rparr>)) (\<lambda>_.
     bindT (appendOrderEvent (o_ID order) ''order.cancel_requested''
       [(''order_id'', JString (o_ID order)), (''command_id'', JString (cc_CommandID cmd))]) (\<lambda>_.
     findByID (o_ID order)))))"

definition PrepareCancel_tx :: "Orders.CancelOrderCommand \<Rightarrow> Order trading_tx" where
  "PrepareCancel_tx cmd =
     bindT (ensureT (\<not> (cc_UserID cmd = [] \<or> cc_AccountID cmd = [] \<or> cc_OrderID cmd = [] \<or> cc_CommandID cmd = [] \<or>
        cc_IdempotencyKey cmd = [] \<or> cc_Payload cmd = [])) (App (ErrInvalidOrder ''''))) (\<lambda>_.
     bindT (queryT (\<lambda>s. find (\<lambda>r. ct_user r = cc_UserID cmd \<and> ct_key r = cc_IdempotencyKey cmd)
        (engine_control_commands s))) (\<lambda>existing.
     case existing of
       Some r \<Rightarrow>
         bindT (ensureT (ct_order r = cc_OrderID cmd) (App ErrIdempotencyConflict)) (\<lambda>_.
         bindT (findOwnedByID (cc_UserID cmd) (cc_AccountID cmd) (cc_OrderID cmd)) (\<lambda>order.
         returnT (order\<lparr>o_Duplicate := True\<rparr>)))
     | None \<Rightarrow>
         bindT (findOwnedByID (cc_UserID cmd) (cc_AccountID cmd) (cc_OrderID cmd)) (\<lambda>order.
         if o_Status order = ''FILLED'' then failT (App ErrOrderAlreadyFilled)
         else if o_Status order = ''CANCELED'' then returnT (order\<lparr>o_Duplicate := True\<rparr>)
         else if o_Status order = ''REJECTED'' then failT (App ErrOrderNotCancelable)
         else if o_Status order = ''PENDING_CANCEL'' then returnT (order\<lparr>o_Duplicate := True\<rparr>)
         else request_cancel cmd order)))"

definition ApplyCancelAck_tx :: "string \<Rightarrow> string \<Rightarrow> ControlAck \<Rightarrow> Order trading_tx" where
  "ApplyCancelAck_tx userID orderID ack =
     bindT (ensureT (\<not> (userID = [] \<or> orderID = [] \<or> \<not> ka_Accepted ack)) (App (ErrEngineResponse ''''))) (\<lambda>_.
     bindT (rowT (\<lambda>s. find (\<lambda>r. ct_id r = ka_CommandID ack \<and> ct_order r = orderID \<and> ct_user r = userID)
        (engine_control_commands s)) (App (ErrEngineResponse ''''))) (\<lambda>r.
     bindT (findOwnedByID userID [] orderID) (\<lambda>order.
     if ct_status r = ''dispatched'' \<and> o_Status order = ''CANCELED'' then returnT (order\<lparr>o_Duplicate := True\<rparr>)
     else
       bindT (ensureT (o_Status order = ''PENDING_CANCEL'') (App ErrOrderNotCancelable)) (\<lambda>_.
       bindT (releaseOrderHold (o_ID order)) (\<lambda>_.
       bindT (queryT pg_now) (\<lambda>now.
       bindT (update_orders (\<lambda>r. od_id r = o_ID order)
         (\<lambda>r. r\<lparr>od_status := ''CANCELED'', od_engine_sequence := Some (uint (ka_SequenceID ack)), od_updated_at := now\<rparr>)) (\<lambda>_.
       bindT (ensureT (ka_SequenceID ack \<noteq> 0) check_violation) (\<lambda>_.
       bindT (execT (\<lambda>s. s\<lparr>engine_control_commands := update_where (\<lambda>c. ct_id c = ka_CommandID ack)
         (\<lambda>c. c\<lparr>ct_status := ''dispatched'', ct_sequence := Some (uint (ka_SequenceID ack)),
               ct_attempts := ct_attempts c + 1, ct_last_error := []\<rparr>) (engine_control_commands s)\<rparr>)) (\<lambda>_.
       bindT (appendOrderEvent (o_ID order) ''order.status_changed''
         [(''order_id'', JString (o_ID order)), (''status'', JString ''CANCELED''), (''sequence_id'', JUint (ka_SequenceID ack))]) (\<lambda>_.
       findByID (o_ID order)))))))))))"

section \<open>Conditional orders\<close>

definition triggered_by :: "string \<Rightarrow> u64 \<Rightarrow> order_row \<Rightarrow> bool" where
  "triggered_by pair markPrice o1 \<longleftrightarrow>
     od_pair o1 = pair \<and> od_status o1 = ''CONDITIONAL'' \<and>
     (case od_trigger_price o1 of
        None \<Rightarrow> False
      | Some t \<Rightarrow> od_trigger_direction o1 = Some ''UP'' \<and> t \<le> uint markPrice \<or>
                  od_trigger_direction o1 = Some ''DOWN'' \<and> uint markPrice \<le> t)"

definition activate_one :: "u64 \<Rightarrow> string \<Rightarrow> Order trading_tx" where
  "activate_one markPrice orderID =
     bindT (queryT pg_now) (\<lambda>now.
     bindT (update_orders (\<lambda>r. od_id r = orderID \<and> od_status r = ''CONDITIONAL'')
       (\<lambda>r. r\<lparr>od_status := ''PENDING'', od_triggered_at := Some now, od_updated_at := now\<rparr>)) (\<lambda>_.
     bindT (execT (\<lambda>s. s\<lparr>engine_commands := update_where (\<lambda>c. ec_order c = orderID \<and> ec_status c = ''blocked'')
       (\<lambda>c. c\<lparr>ec_status := ''pending''\<rparr>) (engine_commands s)\<rparr>)) (\<lambda>_.
     bindT (appendOrderEvent orderID ''order.triggered''
       [(''order_id'', JString orderID), (''mark_price'', JUint markPrice)]) (\<lambda>_.
     findByID orderID))))"

definition ActivateConditionalOrders_tx :: "string \<Rightarrow> u64 \<Rightarrow> int \<Rightarrow> Order list trading_tx" where
  "ActivateConditionalOrders_tx pair markPrice limit =
     bindT (ensureT (\<not> (pair = [] \<or> markPrice = 0)) (App (ErrInvalidOrder ''''))) (\<lambda>_.
     bindT (returnT (if limit \<le> 0 \<or> limit > 500 then 100 else limit)) (\<lambda>limit'.
     bindT (queryT (\<lambda>s. map od_id (take (nat limit') (sort_key (\<lambda>o1. (od_created_at o1, od_id o1))
       (filter (triggered_by pair markPrice) (orders s)))))) (\<lambda>ids.
     mapT (activate_one markPrice) ids)))"

section \<open>The store's methods\<close>

definition CreateOrder :: "CreateOrderCommand \<Rightarrow> trading_db \<Rightarrow> (trading_failure + Order) \<times> trading_db" where
  "CreateOrder i = transaction (CreateOrder_tx i)"

definition ApplyEngineStatus :: "string \<Rightarrow> OrderStatusEvent \<Rightarrow> trading_db \<Rightarrow> (trading_failure + Order) \<times> trading_db" where
  "ApplyEngineStatus orderID event = transaction (ApplyEngineStatus_tx orderID event)"

definition RecordDispatchFailure :: "string \<Rightarrow> string \<Rightarrow> trading_db \<Rightarrow> (trading_failure + unit) \<times> trading_db" where
  "RecordDispatchFailure orderID reason = transaction (RecordDispatchFailure_tx orderID reason)"

definition PrepareCancel :: "Orders.CancelOrderCommand \<Rightarrow> trading_db \<Rightarrow> (trading_failure + Order) \<times> trading_db" where
  "PrepareCancel cmd = transaction (PrepareCancel_tx cmd)"

definition ApplyCancelAck :: "string \<Rightarrow> string \<Rightarrow> ControlAck \<Rightarrow> trading_db \<Rightarrow> (trading_failure + Order) \<times> trading_db" where
  "ApplyCancelAck userID orderID ack = transaction (ApplyCancelAck_tx userID orderID ack)"

definition ActivateConditionalOrders :: "string \<Rightarrow> u64 \<Rightarrow> int \<Rightarrow> trading_db \<Rightarrow> (trading_failure + Order list) \<times> trading_db" where
  "ActivateConditionalOrders pair markPrice limit = transaction (ActivateConditionalOrders_tx pair markPrice limit)"

end
