(* ===== verification/Settlement_Store.thy ===== *)
theory Settlement_Store
  imports Order_Store
begin

text \<open>
  Trade settlement, internal/trading/postgres/settlement.go. \<open>settleTradeOnce\<close> is one
  serializable transaction: it orders the trades of a pair by the engine's sequence numbers,
  moves the funds in one journal, updates both orders and releases what a filled order did not
  use. A gap in the sequence halts the pair and is committed together with the error it returns,
  so the transaction body returns a value of the sum type and \<open>transactionE\<close> commits it.
\<close>

section \<open>Types\<close>

record settlementOrder =
  so_id :: string
  so_userID :: string
  so_accountID :: string
  so_pair :: string
  so_side :: string
  so_status :: string
  so_quantity :: string
  so_holdAssetID :: string

record Trade =
  t_ID :: string
  t_Pair :: string
  t_SequenceID :: u64
  t_MakerOrderID :: string
  t_TakerOrderID :: string
  t_PriceAtomic :: string
  t_QuantityAtomic :: string
  t_QuoteAtomic :: string
  t_MakerFeeAtomic :: string
  t_TakerFeeAtomic :: string
  t_Duplicate :: bool
  t_SettlementState :: string

definition app_result :: "trading_error + 'a \<Rightarrow> trading_failure + 'a" where
  "app_result r = map_sum App id r"

abbreviation settlement_invalid :: trading_failure where
  "settlement_invalid \<equiv> App (ErrSettlementInvalid [])"

section \<open>Helpers\<close>

definition settleableStatus :: "string \<Rightarrow> bool" where
  "settleableStatus st \<longleftrightarrow> st = ''PENDING'' \<or> st = ''PENDING_CANCEL'' \<or> st = ''OPEN'' \<or>
     st = ''PARTIALLY_FILLED'' \<or> st = ''FILLED''"

definition parseSequence :: "string \<Rightarrow> trading_failure + u64" where
  "parseSequence raw = (case ParseUint raw of None \<Rightarrow> Inl (App (ErrOther ''invalid engine sequence'')) | Some v \<Rightarrow> Inr v)"

definition settlement_order_of :: "order_row \<Rightarrow> settlementOrder" where
  "settlement_order_of o1 = \<lparr>so_id = od_id o1, so_userID = od_user o1, so_accountID = od_account o1,
     so_pair = od_pair o1, so_side = od_side o1, so_status = od_status o1,
     so_quantity = BigString (od_quantity o1), so_holdAssetID = (case od_hold_asset o1 of None \<Rightarrow> [] | Some x \<Rightarrow> x)\<rparr>"

definition lockSettlementOrders :: "string \<Rightarrow> string \<Rightarrow> (string \<rightharpoonup> settlementOrder) trading_tx" where
  "lockSettlementOrders makerOrderID takerOrderID =
     bindT (queryT (\<lambda>s. filter (\<lambda>o1. od_id o1 \<in> set [makerOrderID, takerOrderID]) (orders s))) (\<lambda>rows.
     bindT (ensureT (length (remdups (map od_id rows)) = 2) settlement_invalid) (\<lambda>_.
     returnT (map_of (map (\<lambda>o1. (od_id o1, settlement_order_of o1)) rows))))"

definition ensureTradingFeeAccount :: "string \<Rightarrow> string trading_tx" where
  "ensureTradingFeeAccount assetID =
     bindT (advisory_lock (''trading-fee-account:'' @ assetID)) (\<lambda>_.
     bindT (queryT (\<lambda>s. map_of (trading_fee_accounts s) assetID)) (\<lambda>found.
     case found of
       Some accountID \<Rightarrow> returnT accountID
     | None \<Rightarrow>
         bindT gen_random_uuid (\<lambda>accountID.
         bindT (queryT accounts) (\<lambda>rows.
         bindT (ensureT (\<forall>a \<in> set rows. ac_id a \<noteq> accountID \<and>
            \<not> (ac_kind a = ''system'' \<and> ac_name a = ''trading-fees-'' @ assetID)) unique_violation) (\<lambda>_.
         bindT (execT (\<lambda>s. s\<lparr>accounts := accounts s @ [\<lparr>ac_id = accountID, ac_user_id = None, ac_kind = ''system'',
            ac_name = ''trading-fees-'' @ assetID, ac_status = ''active''\<rparr>]\<rparr>)) (\<lambda>_.
         bindT (queryT trading_fee_accounts) (\<lambda>fees.
         bindT (ensureT (accountID \<notin> snd ` set fees) unique_violation) (\<lambda>_.
         bindT (execT (\<lambda>s. s\<lparr>trading_fee_accounts := trading_fee_accounts s @ [(assetID, accountID)]\<rparr>)) (\<lambda>_.
         returnT accountID)))))))))"

text \<open>The trades of an order, and the sums \<open>SUM(quantity_atomic)\<close> and
  \<open>SUM(price_atomic*quantity_atomic)\<close> over them.\<close>

definition order_trades :: "trading_db \<Rightarrow> string \<Rightarrow> trade_row list" where
  "order_trades s orderID = filter (\<lambda>t. tr_maker_order t = orderID \<or> tr_taker_order t = orderID) (trades s)"

definition traded_quantity :: "trading_db \<Rightarrow> string \<Rightarrow> int" where
  "traded_quantity s orderID = sum_list (map tr_quantity (order_trades s orderID))"

definition traded_value :: "trading_db \<Rightarrow> string \<Rightarrow> int" where
  "traded_value s orderID = sum_list (map (\<lambda>t. tr_price t * tr_quantity t) (order_trades s orderID))"

definition ensureOrderSettlementCapacity :: "settlementOrder \<Rightarrow> u64 \<Rightarrow> unit trading_tx" where
  "ensureOrderSettlementCapacity order fillQuantity =
     bindT (queryT (\<lambda>s. BigString (traded_quantity s (so_id order)))) (\<lambda>settledRaw.
     ensureT (case (SetString settledRaw, SetString (so_quantity order)) of
        (Some settled, Some quantity) \<Rightarrow> \<not> settled + uint fillQuantity > quantity
      | _ \<Rightarrow> False) settlement_invalid)"

definition insert_trade :: "TradeEvent \<Rightarrow> int \<Rightarrow> string trading_tx" where
  "insert_trade event notional =
     bindT gen_random_uuid (\<lambda>tradeID.
     bindT (queryT trades) (\<lambda>rows.
     bindT (ensureT (0 < uint (te_SequenceID event) \<and> 0 < uint (te_TimestampNS event) \<and> 0 < uint (te_Price event) \<and>
        0 < uint (te_Quantity event) \<and> 0 < notional \<and> te_MakerOrderID event \<noteq> te_TakerOrderID event) check_violation) (\<lambda>_.
     bindT (ensureT (\<forall>t \<in> set rows. tr_id t \<noteq> tradeID \<and>
        \<not> (tr_pair t = te_Pair event \<and> tr_sequence t = uint (te_SequenceID event))) unique_violation) (\<lambda>_.
     bindT (execT (\<lambda>s. s\<lparr>trades := trades s @
       [\<lparr>tr_id = tradeID, tr_pair = te_Pair event, tr_sequence = uint (te_SequenceID event),
         tr_timestamp = uint (te_TimestampNS event), tr_maker_order = te_MakerOrderID event,
         tr_taker_order = te_TakerOrderID event, tr_maker_user = te_MakerUserID event,
         tr_taker_user = te_TakerUserID event, tr_price = uint (te_Price event),
         tr_quantity = uint (te_Quantity event), tr_quote = notional\<rparr>]\<rparr>)) (\<lambda>_.
     returnT tradeID)))))"

definition insertTradeParticipant ::
  "string \<Rightarrow> settlementOrder \<Rightarrow> string \<Rightarrow> i16 \<Rightarrow> int \<Rightarrow> int \<Rightarrow> string \<Rightarrow> unit trading_tx" where
  "insertTradeParticipant tradeID order role feeBPS fee holdAmount quoteAssetID =
     bindT (queryT trade_participants) (\<lambda>rows.
     bindT (ensureT (0 < holdAmount) check_violation) (\<lambda>_.
     bindT (ensureT (\<forall>p \<in> set rows. \<not> (tp_trade p = tradeID \<and> (tp_order p = so_id order \<or> tp_role p = role))) unique_violation) (\<lambda>_.
     bindT (execT (\<lambda>s. s\<lparr>trade_participants := trade_participants s @
       [\<lparr>tp_trade = tradeID, tp_order = so_id order, tp_user = so_userID order, tp_account = so_accountID order,
         tp_role = role, tp_side = so_side order, tp_fee_bps = sint feeBPS, tp_fee = fee,
         tp_hold_consumed = holdAmount\<rparr>]\<rparr>)) (\<lambda>_.
     bindT (queryT trade_fee_accruals) (\<lambda>accruals.
     bindT (ensureT (\<forall>a \<in> set accruals. \<not> (fa_trade a = tradeID \<and> fa_order a = so_id order)) unique_violation) (\<lambda>_.
     execT (\<lambda>s. s\<lparr>trade_fee_accruals := trade_fee_accruals s @
       [\<lparr>fa_trade = tradeID, fa_order = so_id order, fa_user = so_userID order, fa_asset = quoteAssetID,
         fa_fee_bps = sint feeBPS, fa_amount = fee\<rparr>]\<rparr>)))))))"

definition appendFeePostings :: "posting_leg list \<Rightarrow> string \<Rightarrow> string \<Rightarrow> string \<Rightarrow> bucket \<Rightarrow> int \<Rightarrow> posting_leg list" where
  "appendFeePostings legs payerAccountID feeAccountID assetID payerBucket fee =
     (if fee > 0 then legs @
        [\<lparr>l_account = payerAccountID, l_asset = assetID, l_bucket = payerBucket, l_direction = DebitSide, l_amount = fee\<rparr>,
         \<lparr>l_account = feeAccountID, l_asset = assetID, l_bucket = Available, l_direction = CreditSide, l_amount = fee\<rparr>]
      else if fee < 0 then legs @
        [\<lparr>l_account = feeAccountID, l_asset = assetID, l_bucket = Available, l_direction = DebitSide, l_amount = \<bar>fee\<bar>\<rparr>,
         \<lparr>l_account = payerAccountID, l_asset = assetID, l_bucket = Available, l_direction = CreditSide, l_amount = \<bar>fee\<bar>\<rparr>]
      else legs)"

definition settlement_legs :: "string \<Rightarrow> string \<Rightarrow> string \<Rightarrow> string \<Rightarrow> string \<Rightarrow> int \<Rightarrow> int \<Rightarrow> int \<Rightarrow> int \<Rightarrow> posting_leg list" where
  "settlement_legs buyer seller feeAccount base quote quantity notional buyerFee sellerFee =
     appendFeePostings
       (appendFeePostings
         [\<lparr>l_account = seller, l_asset = base, l_bucket = Held, l_direction = DebitSide, l_amount = quantity\<rparr>,
          \<lparr>l_account = buyer, l_asset = base, l_bucket = Available, l_direction = CreditSide, l_amount = quantity\<rparr>,
          \<lparr>l_account = buyer, l_asset = quote, l_bucket = Held, l_direction = DebitSide, l_amount = notional\<rparr>,
          \<lparr>l_account = seller, l_asset = quote, l_bucket = Available, l_direction = CreditSide, l_amount = notional\<rparr>]
         buyer feeAccount quote Held buyerFee)
       seller feeAccount quote Available sellerFee"

definition updateOrderFromSettledTrades :: "settlementOrder \<Rightarrow> u64 \<Rightarrow> bool trading_tx" where
  "updateOrderFromSettledTrades order sequenceID =
     bindT (queryT (\<lambda>s. (BigString (traded_quantity s (so_id order)), BigString (traded_value s (so_id order))))) (\<lambda>(qraw, vraw).
     case (SetString qraw, SetString vraw, SetString (so_quantity order)) of
       (Some filled, Some priceQuantity, Some quantity) \<Rightarrow>
         bindT (ensureT (\<not> (filled \<le> 0 \<or> filled > quantity)) settlement_invalid) (\<lambda>_.
         bindT (returnT (quantity - filled, priceQuantity sdiv filled)) (\<lambda>(remaining, average).
         bindT (returnT (if remaining = 0 then ''FILLED'' else ''PARTIALLY_FILLED'')) (\<lambda>status.
         bindT (queryT pg_now) (\<lambda>now.
         bindT (update_orders (\<lambda>r. od_id r = so_id order)
           (\<lambda>r. r\<lparr>od_filled := filled, od_remaining := remaining, od_avg_price := average, od_status := status,
                  od_engine_sequence := Some (uint sequenceID), od_updated_at := now\<rparr>)) (\<lambda>_.
         returnT (status = ''FILLED''))))))
     | _ \<Rightarrow> failT settlement_invalid)"

definition findTradeBySequence :: "string \<Rightarrow> u64 \<Rightarrow> Trade trading_tx" where
  "findTradeBySequence pair sequenceID =
     bindT (rowT (\<lambda>s. find (\<lambda>(t, mk, tk). tr_pair t = pair \<and> tr_sequence t = uint sequenceID \<and>
          tp_trade mk = tr_id t \<and> tp_role mk = ''maker'' \<and> tp_trade tk = tr_id t \<and> tp_role tk = ''taker'')
        (List.product (trades s) (List.product (trade_participants s) (trade_participants s)))) (App ErrNoRows)) (\<lambda>(t, mk, tk).
     bindT (liftT (parseSequence (BigString (tr_sequence t)))) (\<lambda>sid.
     returnT \<lparr>t_ID = tr_id t, t_Pair = tr_pair t, t_SequenceID = sid, t_MakerOrderID = tr_maker_order t,
       t_TakerOrderID = tr_taker_order t, t_PriceAtomic = BigString (tr_price t),
       t_QuantityAtomic = BigString (tr_quantity t), t_QuoteAtomic = BigString (tr_quote t),
       t_MakerFeeAtomic = BigString (tp_fee mk), t_TakerFeeAtomic = BigString (tp_fee tk),
       t_Duplicate = False, t_SettlementState = []\<rparr>))"

section \<open>The settlement transaction\<close>

text \<open>The sequence row of the pair; the foreign key refuses an unknown pair.\<close>

definition sequence_row_of :: "string \<Rightarrow> sequence_row trading_tx" where
  "sequence_row_of pair =
     bindT (queryT (\<lambda>s. find (\<lambda>r. sq_pair r = pair) (engine_symbol_sequences s))) (\<lambda>found.
     bindT (case found of
         Some _ \<Rightarrow> returnT ()
       | None \<Rightarrow>
           bindT (queryT trading_pairs) (\<lambda>pairs.
           bindT (ensureT (pair \<in> pr_symbol ` set pairs) foreign_key_violation) (\<lambda>_.
           execT (\<lambda>s. s\<lparr>engine_symbol_sequences := engine_symbol_sequences s @
             [\<lparr>sq_pair = pair, sq_last = 0, sq_mode = ''active'', sq_replay_through = 0, sq_halted_by_gap = False\<rparr>]\<rparr>)))) (\<lambda>_.
     rowT (\<lambda>s. find (\<lambda>r. sq_pair r = pair) (engine_symbol_sequences s)) (App ErrNoRows)))"

definition set_pair_status :: "string \<Rightarrow> string \<Rightarrow> string \<Rightarrow> trading_db \<Rightarrow> trading_db" where
  "set_pair_status pair from to s = s\<lparr>trading_pairs := update_where (\<lambda>p. pr_symbol p = pair \<and> pr_status p = from)
     (\<lambda>p. p\<lparr>pr_status := to\<rparr>) (trading_pairs s)\<rparr>"

definition update_sequence :: "string \<Rightarrow> (sequence_row \<Rightarrow> sequence_row) \<Rightarrow> trading_db \<Rightarrow> trading_db" where
  "update_sequence pair f s = s\<lparr>engine_symbol_sequences := update_where (\<lambda>r. sq_pair r = pair) f (engine_symbol_sequences s)\<rparr>"

text \<open>A sequence number beyond the expected one: halt the pair and ask for a replay.\<close>

definition record_gap :: "TradeEvent \<Rightarrow> u64 \<Rightarrow> u64 \<Rightarrow> bool \<Rightarrow> (trading_failure + Trade) trading_tx" where
  "record_gap event expected replayThrough haltedByGap =
     bindT (queryT (\<lambda>s. filter (\<lambda>p. pr_symbol p = te_Pair event \<and> pr_status p = ''active'') (trading_pairs s))) (\<lambda>active.
     bindT (execT (set_pair_status (te_Pair event) ''active'' ''halted'')) (\<lambda>_.
     bindT (execT (update_sequence (te_Pair event) (\<lambda>r. r\<lparr>sq_mode := ''replay_required'',
       sq_replay_through := uint (if te_SequenceID event > replayThrough then te_SequenceID event else replayThrough),
       sq_halted_by_gap := haltedByGap \<or> active \<noteq> []\<rparr>))) (\<lambda>_.
     returnT (Inl (App (ErrSequenceGap (te_Pair event) expected (te_SequenceID event)))))))"

text \<open>Lock, check and move the funds of the trade; the result is the trade id.\<close>

definition sides :: "settlementOrder \<Rightarrow> settlementOrder \<Rightarrow> int \<Rightarrow> int \<Rightarrow>
    settlementOrder \<times> settlementOrder \<times> int \<times> int" where
  "sides maker taker makerFee takerFee =
     (if so_side maker = ''SELL'' then (taker, maker, takerFee, makerFee) else (maker, taker, makerFee, takerFee))"

definition lock_targets :: "string \<Rightarrow> string \<Rightarrow> string \<Rightarrow> string \<Rightarrow> string \<Rightarrow> (string \<times> string) list" where
  "lock_targets buyer seller feeAccount base quote =
     sort_key (\<lambda>(a, x). AccountAssetLockKey a x)
       [(buyer, quote), (buyer, base), (seller, base), (seller, quote), (feeAccount, quote)]"

definition settle_funds ::
  "TradeEvent \<Rightarrow> string \<Rightarrow> string \<Rightarrow> settlementOrder \<Rightarrow> settlementOrder \<Rightarrow> int \<Rightarrow> int \<Rightarrow> int \<Rightarrow> string \<Rightarrow> string trading_tx" where
  "settle_funds event base quote maker taker notional makerFee takerFee feeAccountID =
     (let (buyer, seller, buyerFee, sellerFee) = sides maker taker makerFee takerFee in
     bindT (ensureT (\<not> (so_holdAssetID buyer \<noteq> quote \<or> so_holdAssetID seller \<noteq> base)) settlement_invalid) (\<lambda>_.
     bindT (forT (\<lambda>(a, x). LockAccountAsset (ErrOther ''account and asset are required for ledger lock'') a x)
       (lock_targets (so_accountID buyer) (so_accountID seller) feeAccountID base quote)) (\<lambda>_.
     bindT (bucketBalance (so_accountID buyer) quote Held) (\<lambda>buyerHeld.
     bindT (bucketBalance (so_accountID seller) base Held) (\<lambda>sellerHeld.
     bindT (ensureT (\<not> (buyerHeld < notional + (if buyerFee > 0 then buyerFee else 0) \<or>
        sellerHeld < uint (te_Quantity event))) (App ErrInsufficientBalance)) (\<lambda>_.
     bindT (ensureOrderSettlementCapacity maker (te_Quantity event)) (\<lambda>_.
     bindT (ensureOrderSettlementCapacity taker (te_Quantity event)) (\<lambda>_.
     bindT (insert_trade event notional) (\<lambda>tradeID.
     bindT (insertTradeParticipant tradeID maker ''maker'' (te_MakerFeeBPS event) makerFee
       (holdConsumed (so_side maker) notional (uint (te_Quantity event)) makerFee) quote) (\<lambda>_.
     bindT (insertTradeParticipant tradeID taker ''taker'' (te_TakerFeeBPS event) takerFee
       (holdConsumed (so_side taker) notional (uint (te_Quantity event)) takerFee) quote) (\<lambda>_.
     bindT (post_journal (''trade-settlement:'' @ te_Pair event @ '':'' @ FormatUint (te_SequenceID event))
       ''trade_settlement'' tradeID
       (settlement_legs (so_accountID buyer) (so_accountID seller) feeAccountID base quote
         (uint (te_Quantity event)) notional buyerFee sellerFee)) (\<lambda>_.
     returnT tradeID))))))))))))"

text \<open>Update both orders and release the rest of a filled order's hold.\<close>

definition settle_orders :: "settlementOrder \<Rightarrow> settlementOrder \<Rightarrow> u64 \<Rightarrow> unit trading_tx" where
  "settle_orders maker taker sequenceID =
     bindT (updateOrderFromSettledTrades maker sequenceID) (\<lambda>makerFilled.
     bindT (updateOrderFromSettledTrades taker sequenceID) (\<lambda>takerFilled.
     bindT (if makerFilled then releaseOrderHold (so_id maker) else returnT ()) (\<lambda>_.
     if takerFilled then releaseOrderHold (so_id taker) else returnT ())))"

text \<open>Close the sequence step: leave replay mode when the gap is closed, mark the inbox entry.\<close>

definition finish_sequence :: "TradeEvent \<Rightarrow> string \<Rightarrow> u64 \<Rightarrow> bool \<Rightarrow> string trading_tx" where
  "finish_sequence event mode replayThrough haltedByGap =
     bindT (returnT (mode = ''replay_required'' \<and> te_SequenceID event \<ge> replayThrough)) (\<lambda>closed.
     bindT (if closed \<and> haltedByGap then execT (set_pair_status (te_Pair event) ''halted'' ''active'') else returnT ()) (\<lambda>_.
     bindT (queryT pg_now) (\<lambda>now.
     bindT (execT (\<lambda>s. s\<lparr>engine_trade_inbox := update_where
       (\<lambda>r. ib_pair r = te_Pair event \<and> ib_sequence r = uint (te_SequenceID event))
       (\<lambda>r. r\<lparr>ib_processed_at := Some now\<rparr>) (engine_trade_inbox s)\<rparr>)) (\<lambda>_.
     bindT (execT (update_sequence (te_Pair event) (\<lambda>r. r\<lparr>sq_last := uint (te_SequenceID event),
       sq_mode := (if closed then ''active'' else mode),
       sq_replay_through := uint (if closed then 0 else replayThrough),
       sq_halted_by_gap := (if closed \<and> haltedByGap then False else haltedByGap)\<rparr>))) (\<lambda>_.
     returnT (if closed then ''active'' else mode))))))"

definition insert_inbox :: "TradeEvent \<Rightarrow> string \<Rightarrow> unit trading_tx" where
  "insert_inbox event payloadHash =
     bindT (queryT engine_trade_inbox) (\<lambda>rows.
     bindT (ensureT (0 < uint (te_SequenceID event)) check_violation) (\<lambda>_.
     bindT (ensureT (\<forall>r \<in> set rows. \<not> (ib_pair r = te_Pair event \<and> ib_sequence r = uint (te_SequenceID event))) unique_violation) (\<lambda>_.
     execT (\<lambda>s. s\<lparr>engine_trade_inbox := engine_trade_inbox s @
       [\<lparr>ib_pair = te_Pair event, ib_sequence = uint (te_SequenceID event), ib_hash = payloadHash, ib_processed_at = None\<rparr>]\<rparr>))))"

text \<open>The checks on both orders and the money movement, for the rules of the pair.\<close>

definition settle_pair :: "TradeEvent \<Rightarrow> string \<Rightarrow> u64 \<Rightarrow> bool \<Rightarrow> pair_row \<Rightarrow> asset_row \<Rightarrow> Trade trading_tx" where
  "settle_pair event mode replayThrough haltedByGap p q =
     bindT (lockSettlementOrders (te_MakerOrderID event) (te_TakerOrderID event)) (\<lambda>locked.
     bindT (rowT (\<lambda>_. locked (te_MakerOrderID event)) settlement_invalid) (\<lambda>maker.
     bindT (rowT (\<lambda>_. locked (te_TakerOrderID event)) settlement_invalid) (\<lambda>taker.
     bindT (ensureT (\<not> (so_userID maker \<noteq> te_MakerUserID event \<or> so_userID taker \<noteq> te_TakerUserID event \<or>
        so_pair maker \<noteq> te_Pair event \<or> so_pair taker \<noteq> te_Pair event \<or> so_side maker = so_side taker)) settlement_invalid) (\<lambda>_.
     bindT (ensureT (settleableStatus (so_status maker) \<and> settleableStatus (so_status taker)) settlement_invalid) (\<lambda>_.
     bindT (liftT (app_result (QuoteAmountForScales (te_Price event) (te_Quantity event)
       \<lparr>r_PriceScale = pr_price_scale p, r_QuantityScale = pr_quantity_scale p, r_QuoteScale = as_decimals q\<rparr>))) (\<lambda>notional.
     bindT (liftT (app_result (FeeAmount notional (te_MakerFeeBPS event)))) (\<lambda>makerFee.
     bindT (liftT (app_result (FeeAmount notional (te_TakerFeeBPS event)))) (\<lambda>takerFee.
     bindT (ensureTradingFeeAccount (pr_quote p)) (\<lambda>feeAccountID.
     bindT (settle_funds event (pr_base p) (pr_quote p) maker taker notional makerFee takerFee feeAccountID) (\<lambda>tradeID.
     bindT (settle_orders maker taker (te_SequenceID event)) (\<lambda>_.
     bindT (finish_sequence event mode replayThrough haltedByGap) (\<lambda>nextMode.
     bindT (append_outbox ''trade.settled'' ''trade'' tradeID
       [(''trade_id'', JString tradeID), (''pair'', JString (te_Pair event)), (''sequence_id'', JUint (te_SequenceID event)),
        (''maker_order_id'', JString (te_MakerOrderID event)), (''taker_order_id'', JString (te_TakerOrderID event))]) (\<lambda>_.
     returnT \<lparr>t_ID = tradeID, t_Pair = te_Pair event, t_SequenceID = te_SequenceID event,
       t_MakerOrderID = te_MakerOrderID event, t_TakerOrderID = te_TakerOrderID event,
       t_PriceAtomic = FormatUint (te_Price event), t_QuantityAtomic = FormatUint (te_Quantity event),
       t_QuoteAtomic = BigString notional, t_MakerFeeAtomic = BigString makerFee,
       t_TakerFeeAtomic = BigString takerFee, t_Duplicate = False, t_SettlementState = nextMode\<rparr>)))))))))))))"

definition settle_next :: "TradeEvent \<Rightarrow> string \<Rightarrow> string \<Rightarrow> u64 \<Rightarrow> bool \<Rightarrow> Trade trading_tx" where
  "settle_next event payloadHash mode replayThrough haltedByGap =
     bindT (insert_inbox event payloadHash) (\<lambda>_.
     bindT (rowT (\<lambda>s. pair_rules_of s (te_Pair event)) (App ErrNoRows)) (\<lambda>(p, q).
     settle_pair event mode replayThrough haltedByGap p q))"

definition settle_tx :: "TradeEvent \<Rightarrow> string \<Rightarrow> (trading_failure + Trade) trading_tx" where
  "settle_tx event payloadHash =
     bindT (ensureT (TradeEvent_Validate event = None) settlement_invalid) (\<lambda>_.
     bindT (sequence_row_of (te_Pair event)) (\<lambda>row.
     bindT (liftT (parseSequence (BigString (sq_last row)))) (\<lambda>last.
     bindT (liftT (parseSequence (BigString (sq_replay_through row)))) (\<lambda>replayThrough.
     bindT (queryT (\<lambda>s. find (\<lambda>r. ib_pair r = te_Pair event \<and> ib_sequence r = uint (te_SequenceID event))
       (engine_trade_inbox s))) (\<lambda>inbox.
     bindT (ensureT (case inbox of None \<Rightarrow> True | Some r \<Rightarrow> ib_hash r = payloadHash) (App ErrSequenceConflict)) (\<lambda>_.
     if (case inbox of None \<Rightarrow> False | Some r \<Rightarrow> ib_processed_at r \<noteq> None)
     then bindT (findTradeBySequence (te_Pair event) (te_SequenceID event)) (\<lambda>trade.
       returnT (Inr (trade\<lparr>t_Duplicate := True\<rparr>)))
     else if te_SequenceID event \<noteq> last + 1
     then if te_SequenceID event < last + 1 then failT (App ErrSequenceConflict)
       else record_gap event (last + 1) replayThrough (sq_halted_by_gap row)
     else bindT (settle_next event payloadHash (sq_mode row) replayThrough (sq_halted_by_gap row)) (\<lambda>trade.
       returnT (Inr trade))))))))"

definition settleTradeOnce :: "TradeEvent \<Rightarrow> string \<Rightarrow> trading_db \<Rightarrow> (trading_failure + Trade) \<times> trading_db" where
  "settleTradeOnce event payloadHash = transactionE (settle_tx event payloadHash)"

text \<open>
  \<open>SettleTrade\<close> tries three times. Whether PostgreSQL aborts an attempt with a
  serialization failure depends on the other transactions, not on this one; \<open>aborted k\<close>
  says that it does so in attempt \<open>k\<close>.
\<close>

abbreviation serialization_failure :: "'e failure" where "serialization_failure \<equiv> Pg ''40001''"

fun settle_attempts :: "(nat \<Rightarrow> bool) \<Rightarrow> TradeEvent \<Rightarrow> string \<Rightarrow> nat list \<Rightarrow> trading_db \<Rightarrow> (trading_failure + Trade) \<times> trading_db" where
  "settle_attempts aborted event payloadHash [] s =
     (Inl (App (ErrOther ''trade settlement serialization retries exhausted'')), s)"
| "settle_attempts aborted event payloadHash (k # ks) s =
     (case (if aborted k then (Inl serialization_failure, s) else settleTradeOnce event payloadHash s) of
        (Inl e, s') \<Rightarrow> if e = serialization_failure then settle_attempts aborted event payloadHash ks s' else (Inl e, s')
      | (Inr trade, s') \<Rightarrow> (Inr trade, s'))"

definition SettleTrade :: "(nat \<Rightarrow> bool) \<Rightarrow> TradeEvent \<Rightarrow> string \<Rightarrow> trading_db \<Rightarrow> (trading_failure + Trade) \<times> trading_db" where
  "SettleTrade aborted event payloadHash = settle_attempts aborted event payloadHash [0, 1, 2]"

end
