(* ===== verification/Trading_Safety.thy ===== *)
theory Trading_Safety
  imports Settlement_Store
begin

text \<open>
  Safety of the money: what the methods of the order and settlement stores do to the ledger.
  \<open>ledger_step\<close> relates the states before and after: journals stay balanced, no asset is
  created or destroyed, and no balance of an account other than the exchange's own fee accounts
  becomes negative. The relation is an interpretation of \<open>tx_relation\<close>, so it is proved
  statement by statement.
\<close>

section \<open>The ledger relation\<close>

definition fee_accounts :: "trading_db \<Rightarrow> string set" where
  "fee_accounts s = snd ` set (trading_fee_accounts s)"

definition keeps_nonneg :: "trading_db \<Rightarrow> trading_db \<Rightarrow> bool" where
  "keeps_nonneg s s' \<longleftrightarrow>
     (\<forall>a x b. a \<notin> fee_accounts s' \<longrightarrow> 0 \<le> bucket_sum s a x b \<longrightarrow> 0 \<le> bucket_sum s' a x b)"

definition pairs_distinct_assets :: "trading_db \<Rightarrow> bool" where
  "pairs_distinct_assets s \<longleftrightarrow> (\<forall>p \<in> set (trading_pairs s). pr_base p \<noteq> pr_quote p)"

definition ledger_ok :: "trading_db \<Rightarrow> bool" where
  "ledger_ok s \<longleftrightarrow> ledger_wf s \<and> ledger_balanced s \<and> pairs_distinct_assets s"

definition ledger_step :: "trading_db \<Rightarrow> trading_db \<Rightarrow> bool" where
  "ledger_step s s' \<longleftrightarrow> (ledger_ok s \<longrightarrow>
     ledger_ok s' \<and> fee_accounts s \<subseteq> fee_accounts s' \<and> asset_total s' = asset_total s \<and> keeps_nonneg s s')"

interpretation ledger_rel: tx_relation ledger_step
  by unfold_locales (auto simp: ledger_step_def keeps_nonneg_def)

text \<open>Statements that leave journals, postings and fee accounts alone.\<close>

lemma ledger_step_same:
  assumes "same_ledger s s'" "fee_accounts s \<subseteq> fee_accounts s'"
    and "pairs_distinct_assets s \<Longrightarrow> pairs_distinct_assets s'"
  shows "ledger_step s s'"
  using assms same_ledgerD [OF assms(1)] by (auto simp: ledger_step_def ledger_ok_def keeps_nonneg_def)

lemma ledger_step_frame [intro]:
  "ledger_step s (s\<lparr>orders := x1\<rparr>)" "ledger_step s (s\<lparr>engine_commands := x2\<rparr>)"
  "ledger_step s (s\<lparr>engine_control_commands := x3\<rparr>)" "ledger_step s (s\<lparr>engine_symbol_sequences := x4\<rparr>)"
  "ledger_step s (s\<lparr>engine_trade_inbox := x5\<rparr>)" "ledger_step s (s\<lparr>trades := x6\<rparr>)"
  "ledger_step s (s\<lparr>trade_participants := x7\<rparr>)" "ledger_step s (s\<lparr>trade_fee_accruals := x8\<rparr>)"
  "ledger_step s (s\<lparr>trading_fee_accounts := trading_fee_accounts s @ x9\<rparr>)"
  "ledger_step s (s\<lparr>accounts := x10\<rparr>)" "ledger_step s (s\<lparr>outbox_events := x11\<rparr>)"
  "ledger_step s (s\<lparr>locks_taken := x12\<rparr>)" "ledger_step s (s\<lparr>uuid_next := x13\<rparr>)"
  by (rule ledger_step_same; auto simp: same_ledger_def fee_accounts_def pairs_distinct_assets_def)+

lemma ledger_step_pair_status [intro]: "ledger_step s (set_pair_status pair from to s)"
  by (rule ledger_step_same)
    (auto simp: same_ledger_def fee_accounts_def pairs_distinct_assets_def set_pair_status_def set_update_where split: if_splits)

lemma ledger_step_update_sequence [intro]: "ledger_step s (update_sequence pair f s)"
  unfolding update_sequence_def by (rule ledger_step_frame)

text \<open>Posting a balanced journal that overdraws no customer balance.\<close>

lemma ledger_step_post:
  assumes "post_trading_journal key rtype rid legs s = Inr (jid, s')" "legs_balanced legs"
    and "\<And>a x b. a \<notin> fee_accounts s \<Longrightarrow> 0 \<le> bucket_sum s a x b \<Longrightarrow> 0 \<le> bucket_sum s a x b + leg_delta legs a x b"
  shows "ledger_step s s'"
proof -
  have "trading_fee_accounts s' = trading_fee_accounts s" "trading_pairs s' = trading_pairs s"
    using post_journal_frame [OF assms(1)] by simp_all
  then show ?thesis
    using assms(3) post_journal_wf [OF assms(1)] post_journal_balanced [OF assms(1) _ assms(2)]
      post_journal_total [OF assms(1,2)] post_journal_bucket_sum [OF assms(1)]
    by (auto simp: ledger_step_def ledger_ok_def keeps_nonneg_def pairs_distinct_assets_def
        fee_accounts_def fun_eq_iff)
qed

lemma ledger_step_hold:
  assumes "post_trading_journal key rtype rid (hold_legs a x n) s = Inr (jid, s')" "n \<le> bucket_sum s a x Available"
  shows "ledger_step s s'"
  using assms(1)
proof (rule ledger_step_post)
  fix a' x' b'
  assume "0 \<le> bucket_sum s a' x' b'"
  then show "0 \<le> bucket_sum s a' x' b' + leg_delta (hold_legs a x n) a' x' b'"
    using raw_ledger.hold_nonneg [OF _ assms] by (simp add: post_journal_bucket_sum [OF assms(1), symmetric])
qed simp

lemma ledger_step_release:
  assumes "post_trading_journal key rtype rid (release_legs a c x n) s = Inr (jid, s')" "n \<le> bucket_sum s a x Held"
  shows "ledger_step s s'"
  using assms(1)
proof (rule ledger_step_post)
  fix a' x' b'
  assume "0 \<le> bucket_sum s a' x' b'"
  then show "0 \<le> bucket_sum s a' x' b' + leg_delta (release_legs a c x n) a' x' b'"
    using raw_ledger.release_nonneg [OF _ assms] by (simp add: post_journal_bucket_sum [OF assms(1), symmetric])
qed simp

section \<open>The order store\<close>

lemma respects_statements:
  "tx_respects ledger_step (update_orders p f)" "tx_respects ledger_step (insert_order row)"
  "tx_respects ledger_step (append_outbox a b c d)" "tx_respects ledger_step (appendOrderEvent e g h)"
  "tx_respects ledger_step (LockAccountAsset err acc asset)" "tx_respects ledger_step (advisory_lock k)"
  "tx_respects ledger_step gen_random_uuid" "tx_respects ledger_step (insert_engine_command i j k1)"
  "tx_respects ledger_step (insert_control_command cmd)" "tx_respects ledger_step (findByID oid)"
  "tx_respects ledger_step (findOwnedByID u acc oid)" "tx_respects ledger_step (findByIdempotencyKey u key)"
  "tx_respects ledger_step (availableBalance acc asset)" "tx_respects ledger_step (bucketBalance acc asset bk)"
  "tx_respects ledger_step (require_trading_account u acc)"
  by (auto intro!: respectsI ledger_step_frame ledger_rel.R_refl
      simp: tx_simps append_outbox_def appendOrderEvent_def LockAccountAsset_def advisory_lock_def
        gen_random_uuid_def insert_engine_command_def insert_control_command_def findByID_def
        findOwnedByID_def findByIdempotencyKey_def require_trading_account_def split: if_splits)

lemmas ledger_rel_intros = ledger_rel.bind ledger_rel.pure respects_statements

lemma releaseOrderHold_Inr [consumes 1, case_names none some]:
  assumes "releaseOrderHold orderID s = Inr (u, s')"
  obtains (none) "find (open_hold orderID) (orders s) = None" "s' = s"
  | (some) o1 x n s1 where "find (open_hold orderID) (orders s) = Some o1"
      "od_hold_asset o1 = Some x" "od_hold_amount o1 = Some n" "0 \<le> n - consumed_hold s orderID"
      "n - consumed_hold s orderID \<le> bucket_sum s (od_account o1) x Held"
      "s1 = s\<lparr>locks_taken := locks_taken s @ [AccountAssetLockKey (od_account o1) x],
              orders := update_where (\<lambda>r. od_id r = orderID \<and> od_released_at r = None)
                (\<lambda>r. r\<lparr>od_released_at := Some (pg_now s), od_updated_at := pg_now s\<rparr>) (orders s)\<rparr>"
      "n - consumed_hold s orderID = 0 \<longrightarrow> s' = s1"
      "n - consumed_hold s orderID \<noteq> 0 \<longrightarrow> (\<exists>j. post_trading_journal (''order-release:'' @ orderID) ''order_release'' orderID
         (release_legs (od_account o1) (od_account o1) x (n - consumed_hold s orderID)) s1 = Inr (j, s'))"
proof (cases "find (open_hold orderID) (orders s)")
  case None
  then show ?thesis using assms none by (simp add: releaseOrderHold_def tx_simps)
next
  case (Some o1)
  then obtain x where x: "od_hold_asset o1 = Some x"
    by (cases "od_hold_asset o1") (auto dest!: find_SomeD simp: open_hold_def)
  have "SetString [] = None" by (simp add: SetString_def)
  then obtain n where "od_hold_amount o1 = Some n"
    using assms Some by (cases "od_hold_amount o1") (auto simp: releaseOrderHold_def tx_simps)
  then show ?thesis
    using assms Some x
    by (intro some [of o1 x n])
      (auto simp: releaseOrderHold_def tx_simps LockAccountAsset_def advisory_lock_def consumed_hold_def
        bucket_sum_def split: if_splits)
qed

lemma releaseOrderHold_ledger: "tx_respects ledger_step (releaseOrderHold orderID)"
proof (rule respectsI)
  fix s u s' assume release: "releaseOrderHold orderID s = Inr (u, s')"
  then show "ledger_step s s'"
  proof (cases rule: releaseOrderHold_Inr)
    case none
    then show ?thesis by (simp add: ledger_rel.R_refl)
  next
    case (some o1 x n s1)
    have s1: "ledger_step s s1"
      unfolding some(6) by (blast intro: ledger_rel.R_trans)
    have "bucket_sum s1 = bucket_sum s" by (simp add: some(6) bucket_sum_def fun_eq_iff)
    then have "ledger_step s1 s'"
      using some(5,7,8) by (cases "n - consumed_hold s orderID = 0")
        (auto intro: ledger_step_release ledger_rel.R_refl)
    with s1 show ?thesis by (rule ledger_rel.R_trans)
  qed
qed

text \<open>What a successful new order does to the state.\<close>

definition hold_asset_of :: "CreateOrderCommand \<Rightarrow> pair_row \<Rightarrow> string" where
  "hold_asset_of i p = (if c_Side i = ''BUY'' then pr_quote p else pr_base p)"

definition initial_status :: "CreateOrderCommand \<Rightarrow> string" where
  "initial_status i = (if c_Conditional i then ''CONDITIONAL'' else ''PENDING'')"

definition held_order_row :: "CreateOrderCommand \<Rightarrow> pair_row \<Rightarrow> int \<Rightarrow> string \<Rightarrow> int \<Rightarrow> order_row" where
  "held_order_row i p now jid hold = (new_order_row i (initial_status i) now)
     \<lparr>od_hold_journal := Some jid, od_hold_asset := Some (hold_asset_of i p), od_hold_amount := Some hold\<rparr>"

definition with_command :: "CreateOrderCommand \<Rightarrow> trading_db \<Rightarrow> trading_db" where
  "with_command i s = s\<lparr>engine_commands := engine_commands s @
       [\<lparr>ec_order = c_OrderID i, ec_payload = c_EnginePayload i,
         ec_status = (if c_Conditional i then ''blocked'' else ''pending''), ec_attempts = 0, ec_last_error = [],
         ec_dispatched_at = None\<rparr>],
     outbox_events := outbox_events s @
       [\<lparr>ob_event_type = (if c_Conditional i then ''order.conditional'' else ''order.pending''),
         ob_aggregate_type = ''order'', ob_aggregate_id = c_OrderID i,
         ob_payload = [(''order_id'', JString (c_OrderID i)), (''user_id'', JString (c_UserID i)),
           (''account_id'', JString (c_AccountID i)), (''status'', JString (initial_status i))]\<rparr>]\<rparr>"

lemma update_where_new_row:
  "\<forall>r \<in> set rows. \<not> p r \<Longrightarrow> update_where p f (rows @ [row]) = rows @ [if p row then f row else row]"
  by (induction rows) auto

definition order_placed :: "CreateOrderCommand \<Rightarrow> pair_row \<Rightarrow> trading_db \<Rightarrow> Order \<Rightarrow> trading_db \<Rightarrow>
    int \<Rightarrow> string \<Rightarrow> trading_db \<Rightarrow> trading_db \<Rightarrow> bool" where
  "order_placed i p s order s' hold j s1 s2 \<longleftrightarrow>
     post_trading_journal (''order-hold:'' @ c_OrderID i) ''order_hold'' (c_OrderID i)
       (hold_legs (c_AccountID i) (hold_asset_of i p) hold) s1 = Inr (j, s2) \<and>
     s1 = s\<lparr>locks_taken := locks_taken s @ [AccountAssetLockKey (c_AccountID i) (hold_asset_of i p)],
            orders := orders s @ [new_order_row i (initial_status i) (pg_now s)]\<rparr> \<and>
     s' = with_command i (s2\<lparr>orders := orders s @ [held_order_row i p (pg_now s) j hold]\<rparr>) \<and>
     order = scan_order (new_order_row i (initial_status i) (pg_now s)) (c_EnginePayload i) \<and>
     0 < hold \<and> hold < 10 ^ 20 \<and> hold \<le> posted_bucket_sum s (c_AccountID i) (hold_asset_of i p) Available \<and>
     (\<forall>r \<in> set (orders s). od_id r \<noteq> c_OrderID i \<and> \<not> (od_user r = c_UserID i \<and> od_key r = c_IdempotencyKey i)) \<and>
     order_checks (held_order_row i p (pg_now s) j hold) \<and>
     SetString (if c_HoldAllAvailable i
       then BigString (posted_bucket_sum s (c_AccountID i) (hold_asset_of i p) Available)
       else c_HoldAmount i) = Some hold"

lemma new_order_row_keys [simp]:
  "od_id (new_order_row i st n) = c_OrderID i" "od_user (new_order_row i st n) = c_UserID i"
  "od_key (new_order_row i st n) = c_IdempotencyKey i"
  by (simp_all add: new_order_row_def)

lemma posted_bucket_sum_locks [simp]:
  "posted_bucket_sum (s\<lparr>locks_taken := l\<rparr>) a x b = posted_bucket_sum s a x b"
  by (simp add: posted_bucket_sum_def posted_journal_def)

lemma order_placedI:
  assumes post: "post_trading_journal (''order-hold:'' @ c_OrderID i) ''order_hold'' (c_OrderID i)
      (hold_legs (c_AccountID i) (hold_asset_of i p) hold)
      (s\<lparr>locks_taken := locks_taken s @ [AccountAssetLockKey (c_AccountID i) (hold_asset_of i p)],
         orders := orders s @ [new_order_row i (initial_status i) (pg_now s)]\<rparr>) = Inr (j, s2)"
    and fresh: "\<forall>r \<in> set (orders s). od_id r \<noteq> c_OrderID i \<and> (od_user r = c_UserID i \<longrightarrow> od_key r \<noteq> c_IdempotencyKey i)"
    and chk: "list_all (\<lambda>r. od_id r = c_OrderID i \<longrightarrow> order_checks (r\<lparr>od_hold_journal := Some j,
      od_hold_asset := Some (hold_asset_of i p), od_hold_amount := Some hold\<rparr>)) (orders s2)"
    and s': "s' = with_command i (s2\<lparr>orders := update_where (\<lambda>r. od_id r = c_OrderID i)
      (\<lambda>r. r\<lparr>od_hold_journal := Some j, od_hold_asset := Some (hold_asset_of i p), od_hold_amount := Some hold\<rparr>)
      (orders s2)\<rparr>)"
    and rest: "order = scan_order (new_order_row i (initial_status i) (pg_now s)) (c_EnginePayload i)"
      "0 < hold" "hold < 10 ^ 20" "hold \<le> posted_bucket_sum s (c_AccountID i) (hold_asset_of i p) Available"
      "SetString (if c_HoldAllAvailable i then BigString (posted_bucket_sum
         (s\<lparr>locks_taken := locks_taken s @ [AccountAssetLockKey (c_AccountID i) (hold_asset_of i p)]\<rparr>)
         (c_AccountID i) (hold_asset_of i p) Available) else c_HoldAmount i) = Some hold"
  shows "\<exists>hold j s1 s2. order_placed i p s order s' hold j s1 s2"
proof -
  let ?row = "new_order_row i (initial_status i) (pg_now s)"
  have frame: "orders s2 = orders s @ [?row]" using post_journal_frame(1) [OF post] by simp
  have "update_where (\<lambda>r. od_id r = c_OrderID i) (\<lambda>r. r\<lparr>od_hold_journal := Some j,
       od_hold_asset := Some (hold_asset_of i p), od_hold_amount := Some hold\<rparr>) (orders s2)
     = orders s @ [held_order_row i p (pg_now s) j hold]"
    unfolding frame using fresh by (subst update_where_new_row) (auto simp: held_order_row_def)
  moreover have "order_checks (held_order_row i p (pg_now s) j hold)"
    using chk frame by (simp add: held_order_row_def)
  ultimately have "order_placed i p s order s' hold j
      (s\<lparr>locks_taken := locks_taken s @ [AccountAssetLockKey (c_AccountID i) (hold_asset_of i p)], orders := orders s @ [?row]\<rparr>) s2"
    using post fresh rest unfolding order_placed_def s' posted_bucket_sum_locks by simp
  then show ?thesis by blast
qed

lemma place_new_order_Inr:
  assumes "place_new_order i p s = Inr (order, s')"
  shows "\<exists>hold j s1 s2. order_placed i p s order s' hold j s1 s2"
proof -
  have h: "(if c_Side i = ''BUY'' then pr_quote p else pr_base p) = hold_asset_of i p"
    "(if c_Conditional i then ''CONDITIONAL'' else ''PENDING'') = initial_status i"
    by (simp_all add: hold_asset_of_def initial_status_def)
  from assms show ?thesis
    by (clarsimp simp: place_new_order_def tx_simps h insert_engine_command_def append_outbox_def not_less
        simp del: append.simps split del: if_split)
      (rule order_placedI, assumption, assumption, assumption, simp add: with_command_def split del: if_split, simp_all split del: if_split)
qed

lemma place_new_order_ledger: "tx_respects ledger_step (place_new_order i p)"
proof (rule respectsI)
  fix s order s'
  let ?x = "hold_asset_of i p"
  assume "place_new_order i p s = Inr (order, s')"
  then obtain hold j s1 s2 where o: "order_placed i p s order s' hold j s1 s2"
    using place_new_order_Inr by blast
  show "ledger_step s s'"
  proof (cases "ledger_wf s")
    case True
    have s1: "s1 = s\<lparr>locks_taken := locks_taken s @ [AccountAssetLockKey (c_AccountID i) ?x],
        orders := orders s @ [new_order_row i (initial_status i) (pg_now s)]\<rparr>"
      and s': "s' = with_command i (s2\<lparr>orders := orders s @ [held_order_row i p (pg_now s) j hold]\<rparr>)"
      and post: "post_trading_journal (''order-hold:'' @ c_OrderID i) ''order_hold'' (c_OrderID i)
        (hold_legs (c_AccountID i) ?x hold) s1 = Inr (j, s2)"
      and hold: "hold \<le> posted_bucket_sum s (c_AccountID i) ?x Available"
      using o by (auto simp: order_placed_def)
    have "bucket_sum s1 = bucket_sum s" by (simp add: s1 bucket_sum_def fun_eq_iff)
    then have "hold \<le> bucket_sum s1 (c_AccountID i) ?x Available"
      using hold posted_eq_bucket_sum [OF True] by simp
    with post have "ledger_step s1 s2" by (rule ledger_step_hold)
    moreover have "ledger_step s s1" unfolding s1
      by (rule ledger_step_same) (simp_all add: same_ledger_def fee_accounts_def pairs_distinct_assets_def)
    moreover have "ledger_step s2 s'" unfolding s' with_command_def
      by (rule ledger_step_same) (simp_all add: same_ledger_def fee_accounts_def pairs_distinct_assets_def)
    ultimately show ?thesis by (blast intro: ledger_rel.R_trans)
  next
    case False
    then show ?thesis by (simp add: ledger_step_def ledger_ok_def)
  qed
qed

lemma CreateOrder_ledger: "tx_respects ledger_step (CreateOrder_tx i)"
  unfolding CreateOrder_tx_def
  by (auto intro!: ledger_rel_intros place_new_order_ledger split: option.splits)

lemma ApplyEngineStatus_ledger: "tx_respects ledger_step (ApplyEngineStatus_tx orderID event)"
  unfolding ApplyEngineStatus_tx_def write_engine_status_def
  by (auto intro!: ledger_rel_intros ledger_rel.exec releaseOrderHold_ledger split: prod.splits)

lemma RecordDispatchFailure_ledger: "tx_respects ledger_step (RecordDispatchFailure_tx orderID reason)"
  unfolding RecordDispatchFailure_tx_def by (auto intro!: ledger_rel_intros ledger_rel.exec)

lemma PrepareCancel_ledger: "tx_respects ledger_step (PrepareCancel_tx cmd)"
  unfolding PrepareCancel_tx_def request_cancel_def
  by (auto intro!: ledger_rel_intros ledger_rel.exec ledger_step_frame releaseOrderHold_ledger split: option.splits)

lemma ApplyCancelAck_ledger: "tx_respects ledger_step (ApplyCancelAck_tx userID orderID ack)"
  unfolding ApplyCancelAck_tx_def
  by (auto intro!: ledger_rel_intros ledger_rel.exec releaseOrderHold_ledger)

lemma ActivateConditionalOrders_ledger:
  "tx_respects ledger_step (ActivateConditionalOrders_tx pair markPrice limit)"
  unfolding ActivateConditionalOrders_tx_def activate_one_def
  by (auto intro!: ledger_rel_intros ledger_rel.exec ledger_rel.map_each)

section \<open>The settlement store\<close>

lemma appendFee_delta:
  "leg_delta (appendFeePostings legs payer feeAcc x pb fee) a y b =
     leg_delta legs a y b +
     (if fee > 0 then bump payer x pb (- fee) a y b + bump feeAcc x Available fee a y b
      else if fee < 0 then bump feeAcc x Available fee a y b + bump payer x Available (- fee) a y b else 0)"
  by (simp add: appendFeePostings_def leg_delta_def signed_amount_def leg_at_def bump_def)

lemma appendFee_balanced: "legs_balanced legs \<Longrightarrow> legs_balanced (appendFeePostings legs payer feeAcc x pb fee)"
  by (auto simp: appendFeePostings_def legs_balanced_def signed_amount_def)

lemma settlement_legs_balanced: "legs_balanced (settlement_legs buyer seller feeAcc base quote q n bf sf)"
  unfolding settlement_legs_def
  by (intro appendFee_balanced) (simp add: legs_balanced_def signed_amount_def)

lemma settlement_delta:
  "a \<noteq> feeAcc \<Longrightarrow> leg_delta (settlement_legs buyer seller feeAcc base quote q n bf sf) a y b =
     bump seller base Held (- q) a y b + bump buyer base Available q a y b +
     bump buyer quote Held (- (n + max bf 0)) a y b + bump buyer quote Available (max (- bf) 0) a y b +
     bump seller quote Available (n - sf) a y b"
  by (auto simp: settlement_legs_def appendFee_delta)
    (auto simp: leg_delta_def signed_amount_def leg_at_def bump_def)

lemma settlement_nonneg:
  assumes "base \<noteq> quote" "0 \<le> q" "\<bar>sf\<bar> \<le> n" "a \<noteq> feeAcc"
    and "q \<le> bucket_sum s seller base Held" "n + max bf 0 \<le> bucket_sum s buyer quote Held"
    and "0 \<le> bucket_sum s a y b"
  shows "0 \<le> bucket_sum s a y b + leg_delta (settlement_legs buyer seller feeAcc base quote q n bf sf) a y b"
  unfolding settlement_delta [OF assms(4)] using assms(1-3,5-7) by (auto simp: bump_def)

text \<open>What a successful \<open>settle_funds\<close> has checked and done.\<close>

definition trade_row_of :: "TradeEvent \<Rightarrow> int \<Rightarrow> string \<Rightarrow> trade_row" where
  "trade_row_of event notional tid =
     \<lparr>tr_id = tid, tr_pair = te_Pair event, tr_sequence = uint (te_SequenceID event),
      tr_timestamp = uint (te_TimestampNS event), tr_maker_order = te_MakerOrderID event,
      tr_taker_order = te_TakerOrderID event, tr_maker_user = te_MakerUserID event,
      tr_taker_user = te_TakerUserID event, tr_price = uint (te_Price event),
      tr_quantity = uint (te_Quantity event), tr_quote = notional\<rparr>"

definition participant_of :: "string \<Rightarrow> settlementOrder \<Rightarrow> string \<Rightarrow> i16 \<Rightarrow> int \<Rightarrow> int \<Rightarrow> participant_row" where
  "participant_of tid order role bps fee hold =
     \<lparr>tp_trade = tid, tp_order = so_id order, tp_user = so_userID order, tp_account = so_accountID order,
      tp_role = role, tp_side = so_side order, tp_fee_bps = sint bps, tp_fee = fee, tp_hold_consumed = hold\<rparr>"

definition accrual_of :: "string \<Rightarrow> settlementOrder \<Rightarrow> string \<Rightarrow> i16 \<Rightarrow> int \<Rightarrow> accrual_row" where
  "accrual_of tid order asset bps fee =
     \<lparr>fa_trade = tid, fa_order = so_id order, fa_user = so_userID order, fa_asset = asset,
      fa_fee_bps = sint bps, fa_amount = fee\<rparr>"

lemma insert_trade_Inr [tx_simps]:
  "insert_trade event notional s = Inr (tid, s') \<longleftrightarrow>
     tid = uuid_source s (uuid_next s) \<and> 0 < uint (te_SequenceID event) \<and> 0 < uint (te_TimestampNS event) \<and>
     0 < uint (te_Price event) \<and> 0 < uint (te_Quantity event) \<and> 0 < notional \<and>
     te_MakerOrderID event \<noteq> te_TakerOrderID event \<and>
     (\<forall>t \<in> set (trades s). tr_id t \<noteq> tid \<and> \<not> (tr_pair t = te_Pair event \<and> tr_sequence t = uint (te_SequenceID event))) \<and>
     s' = s\<lparr>uuid_next := Suc (uuid_next s), trades := trades s @ [trade_row_of event notional tid]\<rparr>"
  by (auto simp: insert_trade_def tx_simps gen_random_uuid_def trade_row_of_def)

lemma insertTradeParticipant_Inr [tx_simps]:
  "insertTradeParticipant tid order role bps fee hold asset s = Inr r \<longleftrightarrow>
     0 < hold \<and>
     (\<forall>p \<in> set (trade_participants s). \<not> (tp_trade p = tid \<and> (tp_order p = so_id order \<or> tp_role p = role))) \<and>
     (\<forall>a \<in> set (trade_fee_accruals s). \<not> (fa_trade a = tid \<and> fa_order a = so_id order)) \<and>
     r = ((), s\<lparr>trade_participants := trade_participants s @ [participant_of tid order role bps fee hold],
               trade_fee_accruals := trade_fee_accruals s @ [accrual_of tid order asset bps fee]\<rparr>)"
  by (auto simp: insertTradeParticipant_def tx_simps participant_of_def accrual_of_def)

lemma ensureOrderSettlementCapacity_Inr [tx_simps]:
  "ensureOrderSettlementCapacity order fill s = Inr r \<longleftrightarrow>
     (\<exists>quantity. SetString (so_quantity order) = Some quantity \<and>
        traded_quantity s (so_id order) + uint fill \<le> quantity) \<and> r = ((), s)"
  by (auto simp: ensureOrderSettlementCapacity_def tx_simps split: option.splits)

definition funds_settled where
  "funds_settled event base quote maker taker notional makerFee takerFee feeAcc s tid s' s1 \<longleftrightarrow>
     (case sides maker taker makerFee takerFee of (buyer, seller, buyerFee, sellerFee) \<Rightarrow>
       (\<exists>j. post_trading_journal (''trade-settlement:'' @ te_Pair event @ '':'' @ FormatUint (te_SequenceID event))
         ''trade_settlement'' tid (settlement_legs (so_accountID buyer) (so_accountID seller) feeAcc base quote
           (uint (te_Quantity event)) notional buyerFee sellerFee) s1 = Inr (j, s')) \<and>
       so_holdAssetID buyer = quote \<and> so_holdAssetID seller = base \<and>
       list_all (\<lambda>(a, x). a \<noteq> [] \<and> x \<noteq> [])
         (lock_targets (so_accountID buyer) (so_accountID seller) feeAcc base quote) \<and>
       notional + max buyerFee 0 \<le> bucket_sum s (so_accountID buyer) quote Held \<and>
       uint (te_Quantity event) \<le> bucket_sum s (so_accountID seller) base Held \<and>
       s1 = s\<lparr>locks_taken := locks_taken s @ map (\<lambda>(a, x). AccountAssetLockKey a x)
           (lock_targets (so_accountID buyer) (so_accountID seller) feeAcc base quote),
         uuid_next := Suc (uuid_next s),
         trades := trades s @ [trade_row_of event notional tid],
         trade_participants := trade_participants s @
           [participant_of tid maker ''maker'' (te_MakerFeeBPS event) makerFee
              (holdConsumed (so_side maker) notional (uint (te_Quantity event)) makerFee)] @
           [participant_of tid taker ''taker'' (te_TakerFeeBPS event) takerFee
              (holdConsumed (so_side taker) notional (uint (te_Quantity event)) takerFee)],
         trade_fee_accruals := trade_fee_accruals s @
           [accrual_of tid maker quote (te_MakerFeeBPS event) makerFee] @
           [accrual_of tid taker quote (te_TakerFeeBPS event) takerFee]\<rparr>) \<and>
     tid = uuid_source s (uuid_next s) \<and> te_MakerOrderID event \<noteq> te_TakerOrderID event \<and>
     0 < uint (te_Quantity event) \<and>
     (\<forall>t \<in> set (trades s). tr_id t \<noteq> tid \<and> \<not> (tr_pair t = te_Pair event \<and> tr_sequence t = uint (te_SequenceID event))) \<and>
     (\<exists>quantity. SetString (so_quantity maker) = Some quantity \<and>
        traded_quantity s (so_id maker) + uint (te_Quantity event) \<le> quantity) \<and>
     (\<exists>quantity. SetString (so_quantity taker) = Some quantity \<and>
        traded_quantity s (so_id taker) + uint (te_Quantity event) \<le> quantity)"

lemma settle_funds_Inr:
  assumes "settle_funds event base quote maker taker notional makerFee takerFee feeAcc s = Inr (tid, s')"
  shows "\<exists>s1. funds_settled event base quote maker taker notional makerFee takerFee feeAcc s tid s' s1"
proof -
  obtain buyer seller bf sf where sd: "sides maker taker makerFee takerFee = (buyer, seller, bf, sf)"
    by (metis prod_cases4)
  have m: "notional + (if bf > 0 then bf else 0) = notional + max bf 0" by simp
  show ?thesis
    using assms unfolding settle_funds_def sd Let_def prod.case
    by (clarsimp simp: tx_simps not_less m funds_settled_def sd bucket_sum_def traded_quantity_def order_trades_def
        simp del: append.simps)
qed

lemma sides_fees:
  "sides maker taker makerFee takerFee = (buyer, seller, buyerFee, sellerFee) \<Longrightarrow>
   {buyerFee, sellerFee} \<subseteq> {makerFee, takerFee}"
  by (auto simp: sides_def split: if_splits)

lemma settle_funds_ledger:
  assumes "base \<noteq> quote" "\<bar>makerFee\<bar> \<le> notional" "\<bar>takerFee\<bar> \<le> notional"
    and run: "settle_funds event base quote maker taker notional makerFee takerFee feeAcc s = Inr (tid, s')"
    and fee: "feeAcc \<in> fee_accounts s"
  shows "ledger_step s s'"
proof -
  obtain buyer seller bf sf where sd: "sides maker taker makerFee takerFee = (buyer, seller, bf, sf)"
    by (metis prod_cases4)
  obtain s1 where "funds_settled event base quote maker taker notional makerFee takerFee feeAcc s tid s' s1"
    using settle_funds_Inr [OF run] by blast
  then obtain j where post: "post_trading_journal (''trade-settlement:'' @ te_Pair event @ '':'' @ FormatUint (te_SequenceID event))
         ''trade_settlement'' tid (settlement_legs (so_accountID buyer) (so_accountID seller) feeAcc base quote
           (uint (te_Quantity event)) notional bf sf) s1 = Inr (j, s')"
    and held: "notional + max bf 0 \<le> bucket_sum s (so_accountID buyer) quote Held"
      "uint (te_Quantity event) \<le> bucket_sum s (so_accountID seller) base Held"
    and same: "same_ledger s s1" "trading_fee_accounts s1 = trading_fee_accounts s" "trading_pairs s1 = trading_pairs s"
    unfolding funds_settled_def sd by (auto simp: same_ledger_def)
  have s1: "ledger_step s s1"
    by (rule ledger_step_same) (use same in \<open>simp_all add: fee_accounts_def pairs_distinct_assets_def\<close>)
  have sf: "\<bar>sf\<bar> \<le> notional" using sides_fees [OF sd] assms(2,3) by auto
  have "ledger_step s1 s'"
  proof (rule ledger_step_post [OF post settlement_legs_balanced])
    fix a y b
    assume "a \<notin> fee_accounts s1" "0 \<le> bucket_sum s1 a y b"
    moreover from this have "a \<noteq> feeAcc" using fee same(2) by (auto simp: fee_accounts_def)
    ultimately show "0 \<le> bucket_sum s1 a y b + leg_delta (settlement_legs (so_accountID buyer) (so_accountID seller)
        feeAcc base quote (uint (te_Quantity event)) notional bf sf) a y b"
      using held assms(1) sf same_ledgerD(1) [OF same(1)] by (intro settlement_nonneg) simp_all
  qed
  with s1 show ?thesis by (rule ledger_rel.R_trans)
qed

lemma ensureTradingFeeAccount_ledger: "tx_respects ledger_step (ensureTradingFeeAccount x)"
  unfolding ensureTradingFeeAccount_def
  by (auto intro!: ledger_rel_intros ledger_rel.exec ledger_step_frame split: option.splits)

lemma ensureTradingFeeAccount_account:
  "ensureTradingFeeAccount x s = Inr (acc, s') \<Longrightarrow> acc \<in> fee_accounts s'"
  by (auto simp: ensureTradingFeeAccount_def advisory_lock_def tx_simps fee_accounts_def
      split: option.splits dest!: map_of_SomeD intro: rev_image_eqI)

lemma fee_then_funds_ledger:
  assumes "base \<noteq> quote" "\<bar>makerFee\<bar> \<le> notional" "\<bar>takerFee\<bar> \<le> notional" "\<And>tid. tx_respects ledger_step (k tid)"
  shows "tx_respects ledger_step (bindT (ensureTradingFeeAccount quote) (\<lambda>feeAcc.
    bindT (settle_funds event base quote maker taker notional makerFee takerFee feeAcc) k))"
proof (rule respectsI)
  fix s r s'
  assume "bindT (ensureTradingFeeAccount quote) (\<lambda>feeAcc.
    bindT (settle_funds event base quote maker taker notional makerFee takerFee feeAcc) k) s = Inr (r, s')"
  then obtain acc s1 tid s2 where 1: "ensureTradingFeeAccount quote s = Inr (acc, s1)"
    and 2: "settle_funds event base quote maker taker notional makerFee takerFee acc s1 = Inr (tid, s2)"
    and 3: "k tid s2 = Inr (r, s')"
    by (auto simp: tx_simps)
  show "ledger_step s s'"
    using respectsD [OF ensureTradingFeeAccount_ledger 1] respectsD [OF assms(4) 3]
      settle_funds_ledger [OF assms(1-3) 2 ensureTradingFeeAccount_account [OF 1]]
    by (blast intro: ledger_rel.R_trans)
qed

lemma respects_settlement:
  "tx_respects ledger_step (lockSettlementOrders mk tk)"
  "tx_respects ledger_step (updateOrderFromSettledTrades order sid)"
  "tx_respects ledger_step (finish_sequence event mode rt hg)"
  "tx_respects ledger_step (insert_inbox event hash)"
  "tx_respects ledger_step (sequence_row_of pair)"
  "tx_respects ledger_step (findTradeBySequence pair sid)"
  "tx_respects ledger_step (record_gap event expected rt hg)"
  unfolding lockSettlementOrders_def updateOrderFromSettledTrades_def finish_sequence_def insert_inbox_def
    sequence_row_of_def findTradeBySequence_def record_gap_def
  by (auto intro!: ledger_rel_intros ledger_rel.exec ledger_step_frame ledger_step_pair_status
      ledger_step_update_sequence split: option.splits prod.splits)

lemma settle_orders_ledger: "tx_respects ledger_step (settle_orders maker taker sid)"
  unfolding settle_orders_def
  by (auto intro!: ledger_rel_intros respects_settlement releaseOrderHold_ledger)

lemma app_result_Inr: "app_result r = Inr x \<longleftrightarrow> r = Inr x"
  by (cases r) (auto simp: app_result_def)

lemma settle_pair_ledger:
  assumes "pr_base p \<noteq> pr_quote p"
  shows "tx_respects ledger_step (settle_pair event mode rt hg p q)"
  unfolding settle_pair_def
  by (intro ledger_rel.bind_lift ledger_rel.bind [OF respects_settlement(1)]
      ledger_rel.bind [OF ledger_rel.pure(5)] ledger_rel.bind [OF ledger_rel.pure(3)]
      fee_then_funds_ledger [OF assms] FeeAmount_le_notional)
    (auto simp: app_result_Inr intro!: ledger_rel_intros settle_orders_ledger respects_settlement)

lemma pair_rules_of_pair: "pair_rules_of s pair = Some (p, q) \<Longrightarrow> p \<in> set (trading_pairs s)"
  by (auto simp: pair_rules_of_def dest!: find_SomeD)

lemma settle_next_ledger: "tx_respects ledger_step (settle_next event hash mode rt hg)"
proof (rule respectsI)
  fix s r s'
  assume "settle_next event hash mode rt hg s = Inr (r, s')"
  then obtain s1 p q where 1: "insert_inbox event hash s = Inr ((), s1)"
    and 2: "pair_rules_of s1 (te_Pair event) = Some (p, q)"
    and 3: "settle_pair event mode rt hg p q s1 = Inr (r, s')"
    by (auto simp: settle_next_def tx_simps split: prod.splits)
  have 4: "ledger_step s s1" using respectsD [OF respects_settlement(4) 1] .
  show "ledger_step s s'"
  proof (cases "ledger_ok s")
    case True
    then have "ledger_ok s1" using 4 by (simp add: ledger_step_def)
    then have "pr_base p \<noteq> pr_quote p"
      using pair_rules_of_pair [OF 2] by (auto simp: ledger_ok_def pairs_distinct_assets_def)
    then have "ledger_step s1 s'" using respectsD [OF settle_pair_ledger 3] by blast
    with 4 show ?thesis by (rule ledger_rel.R_trans)
  next
    case False
    then show ?thesis by (simp add: ledger_step_def)
  qed
qed

lemma settle_tx_ledger: "tx_respects ledger_step (settle_tx event hash)"
  unfolding settle_tx_def
  by (auto intro!: ledger_rel_intros respects_settlement settle_next_ledger)

end
