(* ===== verification/Trading_System.thy ===== *)
theory Trading_System
  imports Trading_Safety
begin

text \<open>
  The exchange core as a transition system: every committed call of a store method is a step, in
  any order and with any arguments, and the database clock may advance between steps. The steps
  of concurrent requests are serialised by the row and advisory locks the methods take.
\<close>

section \<open>Steps\<close>

inductive trading_step :: "trading_db \<Rightarrow> trading_db \<Rightarrow> bool" where
  create: "trading_step s (snd (CreateOrder i s))"
| engine_status: "trading_step s (snd (ApplyEngineStatus orderID event s))"
| dispatch_failure: "trading_step s (snd (RecordDispatchFailure orderID reason s))"
| prepare_cancel: "trading_step s (snd (PrepareCancel cmd s))"
| cancel_ack: "trading_step s (snd (ApplyCancelAck userID orderID ack s))"
| activate: "trading_step s (snd (ActivateConditionalOrders pair markPrice limit s))"
| settle: "trading_step s (snd (SettleTrade aborted trade hash s))"
| clock: "pg_now s \<le> t \<Longrightarrow> trading_step s (s\<lparr>pg_now := t\<rparr>)"

inductive_cases trading_stepE: "trading_step s t"

text \<open>
  A relation between database states that every store transaction respects is respected by every
  sequence of store calls.
\<close>

locale store_relation = tx_relation R for R :: "trading_db \<Rightarrow> trading_db \<Rightarrow> bool" +
  assumes create_respects: "tx_respects R (CreateOrder_tx i)"
    and status_respects: "tx_respects R (ApplyEngineStatus_tx orderID event)"
    and failure_respects: "tx_respects R (RecordDispatchFailure_tx orderID reason)"
    and prepare_respects: "tx_respects R (PrepareCancel_tx cmd)"
    and ack_respects: "tx_respects R (ApplyCancelAck_tx userID orderID ack)"
    and activate_respects: "tx_respects R (ActivateConditionalOrders_tx pair markPrice limit)"
    and settle_respects: "tx_respects R (settle_tx trade hash)"
    and clock_respects: "R s (s\<lparr>pg_now := t\<rparr>)"
begin

lemma settle_attempts_R: "R s (snd (settle_attempts aborted trade hash ks s))"
proof (induction ks arbitrary: s)
  case Nil
  then show ?case by (simp add: R_refl)
next
  case (Cons k ks)
  have "R s (snd (settleTradeOnce trade hash s))"
    unfolding settleTradeOnce_def by (rule committedE [OF settle_respects])
  then show ?case using Cons by (auto intro: R_trans split: prod.splits sum.splits)
qed

lemma settle_R: "R s (snd (SettleTrade aborted trade hash s))"
  unfolding SettleTrade_def by (rule settle_attempts_R)

lemma step_R: "trading_step s t \<Longrightarrow> R s t"
  by (induction rule: trading_step.induct)
    (auto simp: CreateOrder_def ApplyEngineStatus_def RecordDispatchFailure_def PrepareCancel_def
      ApplyCancelAck_def ActivateConditionalOrders_def
      intro: committed create_respects status_respects failure_respects prepare_respects ack_respects
        activate_respects settle_R clock_respects)

lemma run_R: "trading_step\<^sup>*\<^sup>* s t \<Longrightarrow> R s t"
  by (induction rule: rtranclp_induct) (auto intro: R_refl R_trans step_R)

end

interpretation ledger_store: store_relation ledger_step
proof unfold_locales
  show "ledger_step s (s\<lparr>pg_now := t\<rparr>)" for s t
    by (rule ledger_step_same) (auto simp: same_ledger_def fee_accounts_def pairs_distinct_assets_def)
qed (rule CreateOrder_ledger ApplyEngineStatus_ledger RecordDispatchFailure_ledger PrepareCancel_ledger
    ApplyCancelAck_ledger ActivateConditionalOrders_ledger settle_tx_ledger)+

interpretation ledger_system: transition_system ledger_ok trading_step ledger_ok
  by unfold_locales (auto dest: ledger_store.step_R simp: ledger_step_def)

section \<open>An example exchange\<close>

definition demo_db :: trading_db where
  "demo_db = \<lparr>
     users = [\<lparr>u_id = ''u1'', u_status = ''active''\<rparr>, \<lparr>u_id = ''u2'', u_status = ''active''\<rparr>],
     accounts = [\<lparr>ac_id = ''a1'', ac_user_id = Some ''u1'', ac_kind = ''uta'', ac_name = ''main'', ac_status = ''active''\<rparr>,
                 \<lparr>ac_id = ''a2'', ac_user_id = Some ''u2'', ac_kind = ''uta'', ac_name = ''main'', ac_status = ''active''\<rparr>],
     assets = [\<lparr>as_id = ''btc'', as_symbol = ''BTC'', as_network = ''n'', as_decimals = 8, as_status = ''enabled''\<rparr>,
               \<lparr>as_id = ''usdt'', as_symbol = ''USDT'', as_network = ''n'', as_decimals = 6, as_status = ''enabled''\<rparr>],
     user_roles = [],
     journals = [\<lparr>j_id = ''j0'', j_idempotency_key = ''deposit'', j_reference_type = ''deposit'', j_reference_id = ''d'',
                  j_status = Posted\<rparr>],
     postings = map (posting_of ''j0'')
       [\<lparr>l_account = ''vault'', l_asset = ''usdt'', l_bucket = Available, l_direction = DebitSide, l_amount = 1000\<rparr>,
        \<lparr>l_account = ''a1'', l_asset = ''usdt'', l_bucket = Available, l_direction = CreditSide, l_amount = 1000\<rparr>,
        \<lparr>l_account = ''vault'', l_asset = ''btc'', l_bucket = Available, l_direction = DebitSide, l_amount = 500\<rparr>,
        \<lparr>l_account = ''a2'', l_asset = ''btc'', l_bucket = Available, l_direction = CreditSide, l_amount = 500\<rparr>],
     outbox_events = [], audit_events = [],
     uuid_source = (\<lambda>n. CHR ''g'' # replicate n CHR ''0''), uuid_next = 0, pg_now = 100, locks_taken = [],
     trading_pairs = [\<lparr>pr_symbol = ''BTCUSDT'', pr_base = ''btc'', pr_quote = ''usdt'', pr_price_scale = 0,
       pr_quantity_scale = 6, pr_min = 1, pr_max = 1000, pr_tick = 1, pr_step = 1, pr_status = ''active''\<rparr>],
     orders = [], engine_commands = [], engine_control_commands = [], engine_symbol_sequences = [],
     engine_trade_inbox = [], trades = [], trade_participants = [], trade_fee_accruals = [],
     trading_fee_accounts = []\<rparr>"

definition demo_buy :: CreateOrderCommand where
  "demo_buy = \<lparr>c_OrderID = ''o1'', c_UserID = ''u1'', c_AccountID = ''a1'', c_Pair = ''BTCUSDT'', c_Side = ''BUY'',
     c_Type = ''LIMIT'', c_Price = 3, c_Quantity = 100, c_TimeInForce = ''GTC'', c_PostOnly = False,
     c_ReduceOnly = False, c_FeeTier = 0, c_IdempotencyKey = ''k1'', c_RequestHash = ''h1'',
     c_HoldAmount = ''301'', c_HoldAllAvailable = False, c_Conditional = False, c_TriggerPrice = 0,
     c_TriggerDirection = [], c_EnginePayload = ''p1''\<rparr>"

definition demo_after_buy :: trading_db where
  "demo_after_buy = snd (CreateOrder demo_buy demo_db)"

lemma demo_ledger_ok: "ledger_ok demo_db"
  by (auto simp: ledger_ok_def ledger_wf_def ledger_balanced_def journal_net_def pairs_distinct_assets_def
      demo_db_def signed_amount_def)

lemma demo_hold: "SetString ''301'' = Some 301"
  by (simp add: SetString_def all_digits_def is_digit_def digits_val_def digit_val_def)

lemma demo_buy_accepted:
  "\<exists>order. fst (CreateOrder demo_buy demo_db) = Inr order \<and> o_Status order = ''PENDING''"
  by (simp add: CreateOrder_def transaction_def CreateOrder_tx_def demo_db_def demo_buy_def tx_defs
      require_trading_account_def findByIdempotencyKey_def find_joined_def orders_with_commands_def
      pair_for_order_def withinPairLimits_def place_new_order_def LockAccountAsset_def advisory_lock_def
      availableBalance_def posted_bucket_sum_def posted_journal_def leg_at_def signed_amount_def
      demo_hold insert_order_def order_checks_def
      new_order_row_def validType_def validTIF_def validOrderStatus_def isConditionalType_def
      post_journal_def insert_journal_def gen_random_uuid_def insert_posting_def hold_legs_def
      update_orders_def insert_engine_command_def append_outbox_def scan_order_def)

text \<open>
  C5: the money of the exchange is safe under every sequence of store calls. From a ledger whose
  journals balance, any sequence of order placements, engine acknowledgements, cancellations,
  trigger activations and trade settlements, accepted or refused, leads to a ledger in which
  every journal balances in every asset, the total of every asset is unchanged, and every balance
  that was not negative is still not negative, except on the exchange's own fee accounts.
\<close>

theorem trading_conserves_funds:
  assumes "ledger_ok s" "trading_step\<^sup>*\<^sup>* s t"
  shows "(\<forall>jid x. journal_net t jid x = 0) \<and> (\<forall>x. asset_total t x = asset_total s x) \<and>
    (\<forall>a x b. a \<notin> fee_accounts t \<longrightarrow> 0 \<le> bucket_sum s a x b \<longrightarrow> 0 \<le> bucket_sum t a x b)"
  using ledger_store.run_R [OF assms(2)] assms(1)
  by (simp add: ledger_step_def ledger_ok_def ledger_balanced_def keeps_nonneg_def)

theorem trading_conserves_funds_witness:
  "(\<exists>order. fst (CreateOrder demo_buy demo_db) = Inr order) \<and> trading_step demo_db demo_after_buy \<and> asset_total demo_after_buy ''usdt'' = 0 \<and>
   (\<forall>b. 0 \<le> bucket_sum demo_after_buy ''a1'' ''btc'' b \<or> ''a1'' \<in> fee_accounts demo_after_buy)"
proof -
  have step: "trading_step demo_db demo_after_buy"
    unfolding demo_after_buy_def by (rule trading_step.create)
  then have run: "trading_step\<^sup>*\<^sup>* demo_db demo_after_buy" by blast
  have "asset_total demo_db ''usdt'' = 0" "\<forall>b. 0 \<le> bucket_sum demo_db ''a1'' ''btc'' b"
    by (simp_all add: asset_total_def bucket_sum_def leg_at_def demo_db_def signed_amount_def)
  with trading_conserves_funds [OF demo_ledger_ok run] step demo_buy_accepted show ?thesis by metis
qed

end
