(* ===== verification/Hold_Accounting.thy ===== *)
theory Hold_Accounting
  imports Trading_System
begin

text \<open>
  Hold accounting: for every account and asset, the held balance that trading manages equals the
  sum, over the orders whose hold is not released, of what was reserved minus what fills have
  consumed. Other subsystems (P2P escrow, withdrawals) also use the held bucket, so the statement
  is that the difference between the two never changes.
\<close>

section \<open>Outstanding holds\<close>

definition hold_left :: "trading_db \<Rightarrow> order_row \<Rightarrow> int" where
  "hold_left s o1 = (case od_hold_amount o1 of None \<Rightarrow> 0 | Some n \<Rightarrow> n) - consumed_hold s (od_id o1)"

definition holds_at :: "string \<Rightarrow> string \<Rightarrow> order_row \<Rightarrow> bool" where
  "holds_at a x o1 \<longleftrightarrow> od_released_at o1 = None \<and> od_account o1 = a \<and> od_hold_asset o1 = Some x"

definition outstanding :: "trading_db \<Rightarrow> string \<Rightarrow> string \<Rightarrow> int" where
  "outstanding s a x = (\<Sum>o1\<leftarrow>orders s. if holds_at a x o1 then hold_left s o1 else 0)"

definition held_gap :: "trading_db \<Rightarrow> string \<Rightarrow> string \<Rightarrow> int" where
  "held_gap s a x = bucket_sum s a x Held - outstanding s a x"

text \<open>The primary key and the row checks of the orders and the foreign key of the participants.\<close>

definition keys_ok :: "trading_db \<Rightarrow> bool" where
  "keys_ok s \<longleftrightarrow> distinct (map od_id (orders s)) \<and> list_all order_checks (orders s) \<and>
     (\<forall>p \<in> set (trade_participants s). tp_order p \<in> od_id ` set (orders s))"

definition gap_step :: "trading_db \<Rightarrow> trading_db \<Rightarrow> bool" where
  "gap_step s s' \<longleftrightarrow> (keys_ok s \<longrightarrow> keys_ok s' \<and> held_gap s' = held_gap s)"

interpretation gap_rel: tx_relation gap_step
  by unfold_locales (auto simp: gap_step_def)

lemma hold_left_cong: "trade_participants s' = trade_participants s \<Longrightarrow> hold_left s' = hold_left s"
  by (simp add: hold_left_def consumed_hold_def fun_eq_iff)

lemma gap_step_frame:
  assumes "orders s' = orders s" "trade_participants s' = trade_participants s" "postings s' = postings s"
  shows "gap_step s s'"
proof -
  have "held_gap s' = held_gap s"
    unfolding held_gap_def outstanding_def bucket_sum_def hold_left_cong [OF assms(2)] assms ..
  then show ?thesis using assms by (simp add: gap_step_def keys_ok_def)
qed

text \<open>Updates of order rows that do not touch the hold columns.\<close>

definition hold_columns where
  "hold_columns o1 = (od_id o1, od_account o1, od_hold_asset o1, od_hold_amount o1, od_released_at o1)"

lemma gap_step_orders:
  assumes "\<And>r. hold_columns (f r) = hold_columns r"
    and "list_all (\<lambda>r. p r \<longrightarrow> order_checks (f r)) (orders s)"
  shows "gap_step s (s\<lparr>orders := update_where p f (orders s)\<rparr>)"
proof -
  let ?s = "s\<lparr>orders := update_where p f (orders s)\<rparr>"
  have c: "od_id (f r) = od_id r" "od_account (f r) = od_account r" "od_hold_asset (f r) = od_hold_asset r"
    "od_hold_amount (f r) = od_hold_amount r" "od_released_at (f r) = od_released_at r" for r
    using assms(1) [of r] by (simp_all add: hold_columns_def)
  have ids: "map od_id (orders ?s) = map od_id (orders s)" by (simp add: map_update_where c)
  have left: "hold_left ?s = hold_left s" by (rule hold_left_cong) simp
  have "outstanding ?s a x = outstanding s a x" for a x
  proof -
    have "map (\<lambda>r. if holds_at a x r then hold_left s r else 0) (update_where p f (orders s)) =
        map (\<lambda>r. if holds_at a x r then hold_left s r else 0) (orders s)"
      by (rule map_update_where) (simp add: holds_at_def hold_left_def c)
    then show ?thesis unfolding outstanding_def left by simp
  qed
  moreover have "bucket_sum ?s = bucket_sum s" by (simp add: bucket_sum_def fun_eq_iff)
  moreover have "od_id ` set (orders ?s) = od_id ` set (orders s)" using ids by (metis image_set)
  moreover have "list_all order_checks (orders ?s)" if "list_all order_checks (orders s)"
    using assms(2) that by (auto simp: list_all_iff set_update_where)
  ultimately show ?thesis using ids by (simp add: gap_step_def keys_ok_def held_gap_def fun_eq_iff)
qed

lemma update_orders_gap:
  "(\<And>r. hold_columns (f r) = hold_columns r) \<Longrightarrow> tx_respects gap_step (update_orders p f)"
  by (auto intro!: respectsI gap_step_orders simp: tx_simps)

lemma gap_statements:
  "tx_respects gap_step (append_outbox a b c d)" "tx_respects gap_step (appendOrderEvent e g h)"
  "tx_respects gap_step (LockAccountAsset err acc asset)" "tx_respects gap_step (advisory_lock k)"
  "tx_respects gap_step gen_random_uuid" "tx_respects gap_step (insert_engine_command i j k1)"
  "tx_respects gap_step (insert_control_command cmd)" "tx_respects gap_step (findByID oid)"
  "tx_respects gap_step (findOwnedByID u acc oid)" "tx_respects gap_step (findByIdempotencyKey u key)"
  "tx_respects gap_step (availableBalance acc asset)" "tx_respects gap_step (bucketBalance acc asset bk)"
  "tx_respects gap_step (require_trading_account u acc)"
  by (auto intro!: respectsI gap_step_frame
      simp: tx_simps append_outbox_def appendOrderEvent_def advisory_lock_def
        gen_random_uuid_def insert_engine_command_def insert_control_command_def findByID_def
        findOwnedByID_def findByIdempotencyKey_def require_trading_account_def split: if_splits)

lemmas gap_rel_intros = gap_rel.bind gap_rel.pure gap_statements

section \<open>Release\<close>

lemma open_hold_unique:
  assumes "distinct (map od_id (orders s))" "find (open_hold orderID) (orders s) = Some o1"
  shows "o1 \<in> set (orders s)" "od_id o1 = orderID" "od_released_at o1 = None" "od_hold_asset o1 \<noteq> None"
    "\<And>r. r \<in> set (orders s) \<Longrightarrow> (od_id r = orderID \<and> od_released_at r = None) = (od_id r = od_id o1)"
proof -
  show o1: "o1 \<in> set (orders s)" "od_id o1 = orderID" "od_released_at o1 = None" "od_hold_asset o1 \<noteq> None"
    using find_SomeD [OF assms(2)] by (auto simp: open_hold_def)
  fix r assume "r \<in> set (orders s)"
  then show "(od_id r = orderID \<and> od_released_at r = None) = (od_id r = od_id o1)"
    using o1 assms(1) by (metis distinct_map inj_onD)
qed

lemma optional_post_frame:
  assumes "c = (0 :: int) \<longrightarrow> s' = s1" "c \<noteq> 0 \<longrightarrow> (\<exists>j. post_trading_journal k t r legs s1 = Inr (j, s'))"
  shows "orders s' = orders s1" "trades s' = trades s1" "pg_now s' = pg_now s1"
    "trade_participants s' = trade_participants s1" "engine_commands s' = engine_commands s1"
    "engine_control_commands s' = engine_control_commands s1"
  using assms by (cases "c = 0"; auto dest: post_journal_frame)+

lemma releaseOrderHold_gap: "tx_respects gap_step (releaseOrderHold orderID)"
proof (rule respectsI)
  fix s u s'
  assume "releaseOrderHold orderID s = Inr (u, s')"
  then show "gap_step s s'"
  proof (cases rule: releaseOrderHold_Inr)
    case none
    then show ?thesis by (simp add: gap_rel.R_refl)
  next
    case (some o1 x n s1)
    show ?thesis
    proof (cases "keys_ok s")
      case True
      let ?p = "\<lambda>r. od_id r = orderID \<and> od_released_at r = None"
      let ?f = "\<lambda>r. r\<lparr>od_released_at := Some (pg_now s), od_updated_at := pg_now s\<rparr>"
      have d: "distinct (map od_id (orders s))" using True by (simp add: keys_ok_def)
      note o1 = open_hold_unique [OF d some(1)]
      have orders': "orders s' = update_where ?p ?f (orders s)" "trade_participants s' = trade_participants s"
        using optional_post_frame [OF some(7,8)] by (simp_all add: some(6))
      have ids: "map od_id (orders s') = map od_id (orders s)" unfolding orders' by (simp add: map_update_where)
      have "outstanding s' a y = outstanding s a y - (if holds_at a y o1 then hold_left s o1 else 0)" for a y
      proof -
        have "(\<Sum>r\<leftarrow>update_where ?p ?f (orders s). if holds_at a y r then hold_left s r else 0) =
            outstanding s a y - (if holds_at a y o1 then hold_left s o1 else 0) +
            (if holds_at a y (?f o1) then hold_left s (?f o1) else 0)"
          unfolding outstanding_def by (rule sum_update_where_unique [OF d o1(1,5)])
        moreover have "\<not> holds_at a y (?f o1)" by (simp add: holds_at_def)
        ultimately show ?thesis
          unfolding outstanding_def orders'(1) hold_left_cong [OF orders'(2)] by simp
      qed
      moreover have "bucket_sum s' a y Held = bucket_sum s a y Held -
          (if od_account o1 = a \<and> x = y then n - consumed_hold s orderID else 0)" for a y
      proof -
        have s1: "bucket_sum s1 = bucket_sum s" by (simp add: some(6) bucket_sum_def fun_eq_iff)
        show ?thesis
        proof (cases "n - consumed_hold s orderID = 0")
          case True
          then show ?thesis using some(7) s1 by simp
        next
          case False
          then obtain j where "post_trading_journal (''order-release:'' @ orderID) ''order_release'' orderID
              (release_legs (od_account o1) (od_account o1) x (n - consumed_hold s orderID)) s1 = Inr (j, s')"
            using some(8) by blast
          from post_journal_bucket_sum [OF this, of a y Held] show ?thesis
            by (simp add: s1 release_delta bump_def)
        qed
      qed
      ultimately have "held_gap s' = held_gap s"
        using o1 some(2,3) by (auto simp: held_gap_def holds_at_def hold_left_def fun_eq_iff)
      moreover have "order_checks (?f r) = order_checks r" for r by (simp add: order_checks_def)
      then have "list_all order_checks (orders s')"
        using True unfolding orders'(1) keys_ok_def by (auto simp: list_all_iff set_update_where)
      then have "keys_ok s'"
        using True ids orders'(2) unfolding keys_ok_def by (metis image_set)
      ultimately show ?thesis by (simp add: gap_step_def)
    next
      case False
      then show ?thesis by (simp add: gap_step_def)
    qed
  qed
qed

section \<open>Order store\<close>

lemma held_order_row_simps [simp]:
  "od_id (held_order_row i p now j n) = c_OrderID i" "od_account (held_order_row i p now j n) = c_AccountID i"
  "od_released_at (held_order_row i p now j n) = None"
  "od_hold_asset (held_order_row i p now j n) = Some (hold_asset_of i p)"
  "od_hold_amount (held_order_row i p now j n) = Some n"
  "od_status (held_order_row i p now j n) = initial_status i"
  by (simp_all add: held_order_row_def new_order_row_def)

lemma order_placed_frame:
  assumes "order_placed i p s order s' hold j s1 s2"
  shows "orders s' = orders s @ [held_order_row i p (pg_now s) j hold]"
    "trade_participants s' = trade_participants s" "trades s' = trades s"
    "bucket_sum s' a x b = bucket_sum s a x b + bump (c_AccountID i) (hold_asset_of i p) Available (- hold) a x b +
       bump (c_AccountID i) (hold_asset_of i p) Held hold a x b"
    "engine_commands s' = engine_commands s @ [\<lparr>ec_order = c_OrderID i, ec_payload = c_EnginePayload i,
         ec_status = (if c_Conditional i then ''blocked'' else ''pending''), ec_attempts = 0, ec_last_error = [],
         ec_dispatched_at = None\<rparr>]"
proof -
  have post: "post_trading_journal (''order-hold:'' @ c_OrderID i) ''order_hold'' (c_OrderID i)
       (hold_legs (c_AccountID i) (hold_asset_of i p) hold) s1 = Inr (j, s2)"
    and s1: "s1 = s\<lparr>locks_taken := locks_taken s @ [AccountAssetLockKey (c_AccountID i) (hold_asset_of i p)],
            orders := orders s @ [new_order_row i (initial_status i) (pg_now s)]\<rparr>"
    and s': "s' = with_command i (s2\<lparr>orders := orders s @ [held_order_row i p (pg_now s) j hold]\<rparr>)"
    using assms unfolding order_placed_def by blast+
  show "orders s' = orders s @ [held_order_row i p (pg_now s) j hold]" by (simp add: s' with_command_def)
  show "trade_participants s' = trade_participants s" "trades s' = trades s"
    using post_journal_frame [OF post] by (simp_all add: s' with_command_def s1)
  show "engine_commands s' = engine_commands s @ [\<lparr>ec_order = c_OrderID i, ec_payload = c_EnginePayload i,
         ec_status = (if c_Conditional i then ''blocked'' else ''pending''), ec_attempts = 0, ec_last_error = [],
         ec_dispatched_at = None\<rparr>]"
    using post_journal_frame(2) [OF post] by (simp add: s' with_command_def s1)
  have "bucket_sum s' = bucket_sum s2" by (simp add: s' with_command_def bucket_sum_def fun_eq_iff)
  moreover have "bucket_sum s1 = bucket_sum s" by (simp add: s1 bucket_sum_def fun_eq_iff)
  ultimately show "bucket_sum s' a x b = bucket_sum s a x b +
      bump (c_AccountID i) (hold_asset_of i p) Available (- hold) a x b +
      bump (c_AccountID i) (hold_asset_of i p) Held hold a x b"
    using post_journal_bucket_sum [OF post] by (simp add: hold_delta)
qed

lemma place_new_order_gap: "tx_respects gap_step (place_new_order i p)"
proof (rule respectsI)
  fix s order s'
  assume "place_new_order i p s = Inr (order, s')"
  then obtain hold j s1 s2 where o: "order_placed i p s order s' hold j s1 s2"
    using place_new_order_Inr by blast
  note frame = order_placed_frame [OF o]
  show "gap_step s s'"
  proof (cases "keys_ok s")
    case True
    let ?row = "held_order_row i p (pg_now s) j hold"
    have fresh: "\<forall>r \<in> set (orders s). od_id r \<noteq> c_OrderID i" and row: "order_checks ?row"
      using o by (auto simp: order_placed_def)
    then have "\<forall>p \<in> set (trade_participants s). tp_order p \<noteq> c_OrderID i"
      using True by (auto simp: keys_ok_def)
    then have "consumed_hold s (c_OrderID i) = 0" by (simp add: consumed_hold_def)
    then have "outstanding s' a x = outstanding s a x + (if a = c_AccountID i \<and> x = hold_asset_of i p then hold else 0)" for a x
      unfolding outstanding_def frame(1) hold_left_cong [OF frame(2)]
      by (auto simp: holds_at_def hold_left_def)
    then have "held_gap s' = held_gap s"
      by (auto simp: held_gap_def frame(4) bump_def fun_eq_iff)
    moreover have "keys_ok s'"
      using True fresh row by (auto simp: keys_ok_def frame)
    ultimately show ?thesis by (simp add: gap_step_def)
  next
    case False
    then show ?thesis by (simp add: gap_step_def)
  qed
qed

lemma exec_gap:
  "(\<And>s. orders (f s) = orders s) \<Longrightarrow> (\<And>s. trade_participants (f s) = trade_participants s) \<Longrightarrow>
   (\<And>s. postings (f s) = postings s) \<Longrightarrow> tx_respects gap_step (execT f)"
  by (auto intro!: gap_rel.exec gap_step_frame)

lemmas gap_intros = gap_rel_intros exec_gap update_orders_gap releaseOrderHold_gap gap_rel.map_each

lemma CreateOrder_gap: "tx_respects gap_step (CreateOrder_tx i)"
  unfolding CreateOrder_tx_def
  by (auto intro!: gap_intros place_new_order_gap split: option.splits)

lemma ApplyEngineStatus_gap: "tx_respects gap_step (ApplyEngineStatus_tx orderID event)"
  unfolding ApplyEngineStatus_tx_def write_engine_status_def
  by (auto intro!: gap_intros simp: hold_columns_def split: prod.splits)

lemma RecordDispatchFailure_gap: "tx_respects gap_step (RecordDispatchFailure_tx orderID reason)"
  unfolding RecordDispatchFailure_tx_def by (auto intro!: gap_intros)

lemma PrepareCancel_gap: "tx_respects gap_step (PrepareCancel_tx cmd)"
  unfolding PrepareCancel_tx_def request_cancel_def
  by (auto intro!: gap_intros simp: hold_columns_def split: option.splits)

lemma ApplyCancelAck_gap: "tx_respects gap_step (ApplyCancelAck_tx userID orderID ack)"
  unfolding ApplyCancelAck_tx_def by (auto intro!: gap_intros simp: hold_columns_def)

lemma ActivateConditionalOrders_gap:
  "tx_respects gap_step (ActivateConditionalOrders_tx pair markPrice limit)"
  unfolding ActivateConditionalOrders_tx_def activate_one_def
  by (auto intro!: gap_intros simp: hold_columns_def)

section \<open>Settlement\<close>

lemma settlement_delta_held:
  "leg_delta (settlement_legs buyer seller feeAcc base quote q n bf sf) a y Held =
     bump seller base Held (- q) a y Held + bump buyer quote Held (- (n + max bf 0)) a y Held"
  by (auto simp: settlement_legs_def appendFee_delta bump_def)
    (auto simp: leg_delta_def signed_amount_def leg_at_def)

text \<open>The two orders of a trade: existing rows with an open hold and opposite sides.\<close>

definition open_row :: "trading_db \<Rightarrow> settlementOrder \<Rightarrow> order_row \<Rightarrow> bool" where
  "open_row s order r \<longleftrightarrow> r \<in> set (orders s) \<and> order = settlement_order_of r \<and> od_released_at r = None \<and>
     so_holdAssetID order \<noteq> []"

lemma open_row_simps:
  assumes "open_row s order r"
  shows "so_id order = od_id r" "so_accountID order = od_account r" "od_hold_asset r = Some (so_holdAssetID order)"
    "so_side order = od_side r"
  using assms by (auto simp: open_row_def settlement_order_of_def split: option.splits)

definition consumed_by :: "settlementOrder \<Rightarrow> int \<Rightarrow> u64 \<Rightarrow> int \<Rightarrow> int" where
  "consumed_by order notional quantity fee = holdConsumed (so_side order) notional (uint quantity) fee"

lemma outstanding_consume:
  assumes "keys_ok s" "open_row s maker m" "open_row s taker k" "so_id maker \<noteq> so_id taker"
    and "orders s1 = orders s"
    and "trade_participants s1 = trade_participants s @
      [participant_of tid maker r1 b1 f1 c1] @ [participant_of tid taker r2 b2 f2 c2]"
  shows "outstanding s1 a y = outstanding s a y -
    (if so_accountID maker = a \<and> so_holdAssetID maker = y then c1 else 0) -
    (if so_accountID taker = a \<and> so_holdAssetID taker = y then c2 else 0)"
proof -
  note m = open_row_simps [OF assms(2)] and k = open_row_simps [OF assms(3)]
  have d: "distinct (map od_id (orders s))" using assms(1) by (simp add: keys_ok_def)
  have mk: "m \<in> set (orders s)" "k \<in> set (orders s)" "od_released_at m = None" "od_released_at k = None"
    using assms(2,3) by (simp_all add: open_row_def)
  have "consumed_hold s1 i = consumed_hold s i + (if i = od_id m then c1 else 0) + (if i = od_id k then c2 else 0)" for i
    using m k by (auto simp: consumed_hold_def assms(6) participant_of_def)
  then have "(if holds_at a y r then hold_left s1 r else 0) = (if holds_at a y r then hold_left s r else 0) -
      (if od_id r = od_id m then if holds_at a y r then c1 else 0 else 0) -
      (if od_id r = od_id k then if holds_at a y r then c2 else 0 else 0)" for r
    by (simp add: hold_left_def)
  then have "outstanding s1 a y = (\<Sum>r\<leftarrow>orders s. (if holds_at a y r then hold_left s r else 0) -
      (if od_id r = od_id m then if holds_at a y r then c1 else 0 else 0) -
      (if od_id r = od_id k then if holds_at a y r then c2 else 0 else 0))"
    by (simp only: outstanding_def assms(5))
  also have "\<dots> = outstanding s a y - (if holds_at a y m then c1 else 0) - (if holds_at a y k then c2 else 0)"
    by (simp only: sum_list_subtractf sum_list_unique_key [OF d mk(1)] sum_list_unique_key [OF d mk(2)] outstanding_def)
  finally show ?thesis using m k mk by (auto simp: holds_at_def)
qed

lemma settle_funds_gap:
  assumes run: "settle_funds event base quote maker taker notional makerFee takerFee feeAcc s = Inr (tid, s')"
    and open_rows: "open_row s maker m" "open_row s taker k" and ids: "so_id maker \<noteq> so_id taker"
    and side: "so_side maker \<noteq> so_side taker"
  shows "gap_step s s'"
proof (cases "keys_ok s")
  case True
  note m = open_row_simps [OF open_rows(1)] and k = open_row_simps [OF open_rows(2)]
  have "order_checks m" "order_checks k"
    using True open_rows by (auto simp: keys_ok_def open_row_def list_all_iff)
  then have s12: "so_side maker \<in> {''BUY'', ''SELL''}" "so_side taker \<in> {''BUY'', ''SELL''}"
    using m k by (auto simp: order_checks_def)
  obtain buyer seller bf sf where sd: "sides maker taker makerFee takerFee = (buyer, seller, bf, sf)"
    by (metis prod_cases4)
  obtain s1 where fs: "funds_settled event base quote maker taker notional makerFee takerFee feeAcc s tid s' s1"
    using settle_funds_Inr [OF run] by blast
  let ?q = "uint (te_Quantity event)"
  let ?cm = "holdConsumed (so_side maker) notional ?q makerFee"
    and ?ct = "holdConsumed (so_side taker) notional ?q takerFee"
  obtain j where post: "post_trading_journal (''trade-settlement:'' @ te_Pair event @ '':'' @ FormatUint (te_SequenceID event))
         ''trade_settlement'' tid (settlement_legs (so_accountID buyer) (so_accountID seller) feeAcc base quote
           ?q notional bf sf) s1 = Inr (j, s')"
    and assets: "so_holdAssetID buyer = quote" "so_holdAssetID seller = base"
    and frame: "orders s1 = orders s" "postings s1 = postings s" "trade_participants s1 = trade_participants s @
       [participant_of tid maker ''maker'' (te_MakerFeeBPS event) makerFee ?cm] @
       [participant_of tid taker ''taker'' (te_TakerFeeBPS event) takerFee ?ct]"
    using fs unfolding funds_settled_def sd by auto
  note frame' = post_journal_frame [OF post]
  have out: "outstanding s' a y = outstanding s a y -
      (if so_accountID maker = a \<and> so_holdAssetID maker = y then ?cm else 0) -
      (if so_accountID taker = a \<and> so_holdAssetID taker = y then ?ct else 0)" for a y
    using frame frame' by (intro outstanding_consume [OF True open_rows ids]) simp_all
  have held: "bucket_sum s' a y Held = bucket_sum s a y Held +
      bump (so_accountID seller) base Held (- ?q) a y Held + bump (so_accountID buyer) quote Held (- (notional + max bf 0)) a y Held" for a y
    using post_journal_bucket_sum [OF post] frame(2) by (simp add: settlement_delta_held bucket_sum_def)
  have "(buyer, seller, bf) = (if so_side maker = ''SELL'' then (taker, maker, takerFee) else (maker, taker, makerFee))"
    using sd by (auto simp: sides_def split: if_splits)
  then have "held_gap s' a y = held_gap s a y" for a y
    using s12 side assets unfolding held_gap_def out held
    by (cases "so_side maker = ''SELL''") (auto simp: holdConsumed_def bump_def max_def)
  moreover have "keys_ok s'"
    using True open_rows m(1) k(1) frame frame' by (auto simp: keys_ok_def open_row_def participant_of_def)
  ultimately show ?thesis by (simp add: gap_step_def fun_eq_iff)
next
  case False
  then show ?thesis by (simp add: gap_step_def)
qed

text \<open>A released order is closed: canceled, rejected or completely traded. The set \<open>ex\<close>
  exempts the orders that the rest of a transaction still has to close.\<close>

definition closed :: "trading_db \<Rightarrow> order_row \<Rightarrow> bool" where
  "closed s r \<longleftrightarrow> od_status r = ''CANCELED'' \<or> od_status r = ''REJECTED'' \<or> traded_quantity s (od_id r) = od_quantity r"

definition released_ok :: "string set \<Rightarrow> trading_db \<Rightarrow> bool" where
  "released_ok ex s \<longleftrightarrow> (\<forall>r \<in> set (orders s). od_id r \<notin> ex \<longrightarrow> od_released_at r \<noteq> None \<longrightarrow> closed s r)"

lemma released_ok_frame:
  assumes "orders s' = orders s" "trades s' = trades s"
  shows "released_ok ex s' = released_ok ex s"
proof -
  have "closed s' = closed s"
    by (simp add: closed_def traded_quantity_def order_trades_def assms(2) fun_eq_iff)
  then show ?thesis by (simp add: released_ok_def assms(1))
qed

lemma released_ok_update:
  assumes "released_ok ex s"
    and "\<And>r. r \<in> set (orders s) \<Longrightarrow> p r \<Longrightarrow> od_id (f r) \<notin> ex' \<Longrightarrow> od_released_at (f r) \<noteq> None \<Longrightarrow> closed s (f r)"
    and "\<And>r. r \<in> set (orders s) \<Longrightarrow> \<not> p r \<Longrightarrow> od_id r \<in> ex \<Longrightarrow> od_id r \<in> ex'"
  shows "released_ok ex' (s\<lparr>orders := update_where p f (orders s)\<rparr>)"
proof -
  have "closed (s\<lparr>orders := update_where p f (orders s)\<rparr>) = closed s"
    by (simp add: closed_def traded_quantity_def order_trades_def fun_eq_iff)
  moreover have "closed s r" if "r \<in> set (orders s)" "\<not> p r" "od_id r \<notin> ex'" "od_released_at r \<noteq> None" for r
    using assms(1) assms(3) [OF that(1,2)] that by (auto simp: released_ok_def)
  ultimately show ?thesis
    using assms(2) by (auto simp: released_ok_def set_update_where)
qed

lemma releaseOrderHold_released:
  assumes "releaseOrderHold orderID s = Inr (u, s')" "released_ok ex s"
    and "orderID \<in> ex \<or> (\<forall>r \<in> set (orders s). od_id r = orderID \<longrightarrow> closed s r)"
  shows "released_ok ex s'"
  using assms(1)
proof (cases rule: releaseOrderHold_Inr)
  case none
  then show ?thesis using assms(2) by simp
next
  case (some o1 x n s1)
  have "orders s' = orders s1 \<and> trades s' = trades s1"
    using optional_post_frame [OF some(7,8)] by simp
  moreover have "released_ok ex s1"
  proof -
    have "released_ok ex (s\<lparr>orders := orders s1\<rparr>)"
      unfolding some(6) using assms(2,3)
      by (auto intro!: released_ok_update [where ex = ex] simp: closed_def)
    then show ?thesis using released_ok_frame [of s1 "s\<lparr>orders := orders s1\<rparr>"] by (simp add: some(6))
  qed
  ultimately show ?thesis using released_ok_frame by blast
qed

lemma releaseOrderHold_rows:
  assumes "releaseOrderHold orderID s = Inr (u, s')"
  shows "trades s' = trades s" "pg_now s' = pg_now s"
    "map (\<lambda>r. (od_id r, od_status r, od_quantity r)) (orders s') = map (\<lambda>r. (od_id r, od_status r, od_quantity r)) (orders s)"
  using assms
proof (atomize (full), cases rule: releaseOrderHold_Inr)
  case none
  then show "trades s' = trades s \<and> pg_now s' = pg_now s \<and>
    map (\<lambda>r. (od_id r, od_status r, od_quantity r)) (orders s') = map (\<lambda>r. (od_id r, od_status r, od_quantity r)) (orders s)"
    by simp
next
  case (some o1 x n s1)
  have "orders s' = orders s1 \<and> trades s' = trades s1 \<and> pg_now s' = pg_now s1"
    using optional_post_frame [OF some(7,8)] by simp
  then show "trades s' = trades s \<and> pg_now s' = pg_now s \<and>
    map (\<lambda>r. (od_id r, od_status r, od_quantity r)) (orders s') = map (\<lambda>r. (od_id r, od_status r, od_quantity r)) (orders s)"
    unfolding some(6) by (simp add: map_update_where)
qed

lemma same_row: "keys_ok s \<Longrightarrow> r \<in> set (orders s) \<Longrightarrow> r' \<in> set (orders s) \<Longrightarrow> od_id r = od_id r' \<Longrightarrow> r = r'"
  by (auto simp: keys_ok_def distinct_map dest: inj_onD)

lemma findOwnedByID_Inr:
  assumes "findOwnedByID userID accountID orderID s = Inr (order, s')"
  obtains r where "s' = s" "r \<in> set (orders s)" "od_id r = orderID" "od_user r = userID"
    "o_ID order = orderID" "o_Status order = od_status r"
  using assms
  by (auto simp: findOwnedByID_def tx_simps find_joined_def orders_with_commands_def scan_joined_def scan_order_def
      dest!: find_SomeD)

definition hold_ok :: "trading_db \<Rightarrow> bool" where
  "hold_ok s \<longleftrightarrow> keys_ok s \<and> released_ok {} s"

definition hold_step :: "trading_db \<Rightarrow> trading_db \<Rightarrow> bool" where
  "hold_step s s' \<longleftrightarrow> (hold_ok s \<longrightarrow> hold_ok s' \<and> held_gap s' = held_gap s)"

interpretation hold_rel: tx_relation hold_step
  by unfold_locales (auto simp: hold_step_def)

lemma hold_stepI:
  assumes "tx_respects gap_step m"
    and "\<And>s x s'. keys_ok s \<Longrightarrow> released_ok {} s \<Longrightarrow> m s = Inr (x, s') \<Longrightarrow> released_ok {} s'"
  shows "tx_respects hold_step m"
  using assms by (auto simp: tx_respects_def hold_step_def hold_ok_def gap_step_def)

lemma frame_hold_step:
  assumes "\<And>s. orders (f s) = orders s" "\<And>s. trade_participants (f s) = trade_participants s"
    "\<And>s. postings (f s) = postings s" "\<And>s. trades (f s) = trades s"
  shows "tx_respects hold_step (execT f)"
proof (rule hold_stepI [OF exec_gap])
  fix s :: trading_db and x s'
  assume "released_ok {} s" "execT f s = Inr (x, s')"
  then show "released_ok {} s'" using released_ok_frame [OF assms(1,4)] by (simp add: tx_simps)
qed (use assms in simp_all)

lemma hold_statements:
  "tx_respects hold_step (append_outbox a b c d)" "tx_respects hold_step (appendOrderEvent e g h)"
  "tx_respects hold_step (findByID oid)" "tx_respects hold_step (findOwnedByID u acc oid)"
  "tx_respects hold_step (findByIdempotencyKey u key)" "tx_respects hold_step (require_trading_account u acc)"
  "tx_respects hold_step (insert_control_command cmd)"
  unfolding append_outbox_def appendOrderEvent_def findByID_def findOwnedByID_def findByIdempotencyKey_def
    require_trading_account_def insert_control_command_def
  by (intro hold_rel.bind hold_rel.pure frame_hold_step; simp)+

lemmas hold_intros = hold_rel.bind hold_rel.pure hold_statements frame_hold_step hold_rel.map_each

lemma place_new_order_hold: "tx_respects hold_step (place_new_order i p)"
proof (rule hold_stepI [OF place_new_order_gap])
  fix s order s'
  assume rel: "released_ok {} s" and "place_new_order i p s = Inr (order, s')"
  then obtain hold j s1 s2 where "order_placed i p s order s' hold j s1 s2"
    using place_new_order_Inr by blast
  note frame = order_placed_frame(1,3) [OF this]
  have "closed s' = closed s" by (simp add: closed_def traded_quantity_def order_trades_def frame(2) fun_eq_iff)
  with rel show "released_ok {} s'" by (auto simp: released_ok_def frame(1))
qed

lemma CreateOrder_hold: "tx_respects hold_step (CreateOrder_tx i)"
  unfolding CreateOrder_tx_def
  by (auto intro!: hold_intros place_new_order_hold split: option.splits)

text \<open>Closing an order: release its hold and set a closing status, in either order.\<close>

lemma release_then_cancel:
  assumes "releaseOrderHold orderID s = Inr (u, s1)" "released_ok {} s"
    and "\<And>r. od_status (f r) = ''CANCELED'' \<and> od_id (f r) = od_id r"
  shows "released_ok {} (s1\<lparr>orders := update_where (\<lambda>r. od_id r = orderID) f (orders s1)\<rparr>)"
proof (rule released_ok_update)
  show "released_ok {orderID} s1"
    using assms(2) by (intro releaseOrderHold_released [OF assms(1)]) (auto simp: released_ok_def)
qed (use assms(3) in \<open>auto simp: closed_def\<close>)

lemma write_engine_status_released:
  assumes "released_ok {} (s\<lparr>orders := update_where (\<lambda>r. od_id r = orderID)
      (\<lambda>r. r\<lparr>od_status := nxt, od_filled := uint (se_FilledQuantity event),
              od_remaining := uint (se_RemainingQuantity event), od_avg_price := uint (se_AvgPrice event),
              od_engine_sequence := Some (uint (se_SequenceID event)), od_updated_at := pg_now s\<rparr>) (orders s)\<rparr>)"
      (is "released_ok {} ?s1")
    and run: "write_engine_status orderID event nxt s = Inr (u, s')"
  shows "released_ok {} s'"
proof -
  from run obtain X v s3 where step: "(if nxt = ''REJECTED'' \<or> nxt = ''CANCELED'' then releaseOrderHold orderID
        else returnT ()) (?s1\<lparr>engine_commands := X\<rparr>) = Inr (v, s3)"
    and s': "orders s' = orders s3" "trades s' = trades s3"
    by (auto simp: write_engine_status_def tx_simps append_outbox_def split del: if_split)
  have s1: "released_ok {} (?s1\<lparr>engine_commands := X\<rparr>)"
    using assms(1) released_ok_frame [of "?s1\<lparr>engine_commands := X\<rparr>" ?s1] by simp
  have "released_ok {} s3"
  proof (cases "nxt = ''REJECTED'' \<or> nxt = ''CANCELED''")
    case True
    then have run: "releaseOrderHold orderID (?s1\<lparr>engine_commands := X\<rparr>) = Inr (v, s3)" using step by simp
    have "closed (?s1\<lparr>engine_commands := X\<rparr>) r"
      if "r \<in> set (orders (?s1\<lparr>engine_commands := X\<rparr>))" "od_id r = orderID" for r
    proof -
      have "od_status r = nxt" using update_where_hit [where k = od_id, OF _ that(2)] that(1) by fastforce
      with True show ?thesis by (auto simp: closed_def)
    qed
    then show ?thesis by (intro releaseOrderHold_released [OF run s1]) blast
  next
    case False
    then show ?thesis using step s1 by (simp add: tx_simps)
  qed
  then show ?thesis using released_ok_frame [OF s'] by simp
qed

lemma ApplyEngineStatus_hold: "tx_respects hold_step (ApplyEngineStatus_tx orderID event)"
proof (rule hold_stepI [OF ApplyEngineStatus_gap])
  fix s :: trading_db and order s'
  let ?next = "statusName (se_Status event)"
  let ?f = "\<lambda>r. r\<lparr>od_status := ?next, od_filled := uint (se_FilledQuantity event),
     od_remaining := uint (se_RemainingQuantity event), od_avg_price := uint (se_AvgPrice event),
     od_engine_sequence := Some (uint (se_SequenceID event)), od_updated_at := pg_now s\<rparr>"
  assume k: "keys_ok s" and rel: "released_ok {} s" and run: "ApplyEngineStatus_tx orderID event s = Inr (order, s')"
  obtain o1 u where o1: "find (\<lambda>o1. od_id o1 = orderID) (orders s) = Some o1" "validTransition (od_status o1) ?next"
    and step: "(if od_status o1 \<noteq> ?next \<or> \<not> terminal_status (od_status o1)
       then write_engine_status orderID event ?next else returnT ()) s = Inr (u, s')"
    using run by (auto simp: ApplyEngineStatus_tx_def tx_simps findByID_def split del: if_split)
  then have row: "o1 \<in> set (orders s)" "od_id o1 = orderID" by (auto dest: find_SomeD)
  have "released_ok {} (s\<lparr>orders := update_where (\<lambda>r. od_id r = orderID) ?f (orders s)\<rparr>)"
  proof (rule released_ok_update [OF rel])
    fix r assume r: "r \<in> set (orders s)" "od_id r = orderID" "od_released_at (?f r) \<noteq> None"
    then have "r = o1" using row same_row [OF k] by simp
    then have "closed s o1" using rel r row by (auto simp: released_ok_def)
    then show "closed s (?f r)"
      using o1(2) \<open>r = o1\<close> by (auto simp: closed_def validTransition_def split: if_splits)
  qed simp
  then show "released_ok {} s'"
    using step rel write_engine_status_released by (auto simp: tx_simps split: if_splits)
qed

lemma RecordDispatchFailure_hold: "tx_respects hold_step (RecordDispatchFailure_tx orderID reason)"
  unfolding RecordDispatchFailure_tx_def by (auto intro!: hold_intros)

text \<open>A status change of one order that is not canceled or rejected keeps the invariant.\<close>

lemma reopen_released:
  assumes "keys_ok s" "released_ok {} s" "o1 \<in> set (orders s)"
    and "od_status o1 \<noteq> ''CANCELED'' \<and> od_status o1 \<noteq> ''REJECTED''"
    and "\<And>r. od_id (f r) = od_id r \<and> od_quantity (f r) = od_quantity r \<and> od_released_at (f r) = od_released_at r"
    and "\<And>r. p r \<Longrightarrow> od_id r = od_id o1"
  shows "released_ok {} (s\<lparr>orders := update_where p f (orders s)\<rparr>)"
proof (rule released_ok_update [OF assms(2)])
  fix r assume r: "r \<in> set (orders s)" "p r" "od_released_at (f r) \<noteq> None"
  have "r = o1" by (rule same_row [OF assms(1) r(1) assms(3) assms(6) [OF r(2)]])
  then have "closed s o1" using r assms(2,5) by (auto simp: released_ok_def)
  then show "closed s (f r)" using assms(4,5) \<open>r = o1\<close> by (simp add: closed_def)
qed simp

lemma request_cancel_released:
  assumes "keys_ok s" "released_ok {} s" "request_cancel cmd order s = Inr (order', s')"
    and "o1 \<in> set (orders s)" "od_id o1 = o_ID order" "od_status o1 = o_Status order"
    and "o_Status order \<noteq> ''CANCELED'' \<and> o_Status order \<noteq> ''REJECTED''"
  shows "released_ok {} s'"
proof -
  from assms(3) obtain s1 s2 where s1: "insert_control_command cmd s = Inr ((), s1)"
    and step: "(if o_Status order = ''CONDITIONAL'' then
         bindT (releaseOrderHold (o_ID order)) (\<lambda>_.
         bindT (update_orders (\<lambda>r. od_id r = o_ID order)
           (\<lambda>r. r\<lparr>od_status := ''CANCELED'', od_remaining := od_quantity r, od_updated_at := pg_now s1\<rparr>)) (\<lambda>_.
         bindT (execT (\<lambda>s. s\<lparr>engine_commands := update_where (\<lambda>c. ec_order c = o_ID order \<and> ec_status c = ''blocked'')
           (\<lambda>c. c\<lparr>ec_status := ''canceled''\<rparr>) (engine_commands s)\<rparr>)) (\<lambda>_.
         execT (\<lambda>s. s\<lparr>engine_control_commands := update_where (\<lambda>c. ct_id c = cc_CommandID cmd)
           (\<lambda>c. c\<lparr>ct_status := ''dispatched''\<rparr>) (engine_control_commands s)\<rparr>))))
       else update_orders (\<lambda>r. od_id r = o_ID order)
         (\<lambda>r. r\<lparr>od_status := ''PENDING_CANCEL'', od_updated_at := pg_now s1\<rparr>)) s1 = Inr ((), s2)"
    and s': "orders s' = orders s2" "trades s' = trades s2"
    unfolding request_cancel_def by (auto simp: bindT_Inr queryT_simps appendOrderEvent_def append_outbox_def
        findByID_def execT_simps rowT_simps)
  have frame: "orders s1 = orders s" "trades s1 = trades s" "trade_participants s1 = trade_participants s"
    using s1 by (auto simp: insert_control_command_def tx_simps)
  have ok: "keys_ok s1" "released_ok {} s1"
    using assms(1,2) released_ok_frame [OF frame(1,2)] by (simp_all add: keys_ok_def frame)
  have "released_ok {} s2"
  proof (cases "o_Status order = ''CONDITIONAL''")
    case True
    then obtain u s3 where rel: "releaseOrderHold (o_ID order) s1 = Inr (u, s3)"
      and s2: "orders s2 = update_where (\<lambda>r. od_id r = o_ID order)
        (\<lambda>r. r\<lparr>od_status := ''CANCELED'', od_remaining := od_quantity r, od_updated_at := pg_now s1\<rparr>) (orders s3)"
        "trades s2 = trades s3"
      using step by (auto simp: tx_simps)
    have "released_ok {} (s3\<lparr>orders := update_where (\<lambda>r. od_id r = o_ID order)
        (\<lambda>r. r\<lparr>od_status := ''CANCELED'', od_remaining := od_quantity r, od_updated_at := pg_now s1\<rparr>) (orders s3)\<rparr>)"
      by (rule release_then_cancel [OF rel ok(2)]) simp
    then show ?thesis using released_ok_frame [of s2 "s3\<lparr>orders := orders s2\<rparr>"] s2 by simp
  next
    case False
    then have "s2 = s1\<lparr>orders := update_where (\<lambda>r. od_id r = o_ID order)
         (\<lambda>r. r\<lparr>od_status := ''PENDING_CANCEL'', od_updated_at := pg_now s1\<rparr>) (orders s1)\<rparr>"
      using step by (simp add: tx_simps)
    moreover have "released_ok {} (s1\<lparr>orders := update_where (\<lambda>r. od_id r = o_ID order)
         (\<lambda>r. r\<lparr>od_status := ''PENDING_CANCEL'', od_updated_at := pg_now s1\<rparr>) (orders s1)\<rparr>)"
      using assms(4-7) frame by (intro reopen_released [OF ok, of o1]) simp_all
    ultimately show ?thesis by simp
  qed
  then show ?thesis using released_ok_frame [OF s'] by simp
qed

lemma PrepareCancel_hold: "tx_respects hold_step (PrepareCancel_tx cmd)"
proof (rule hold_stepI [OF PrepareCancel_gap])
  fix s :: trading_db and order s'
  assume k: "keys_ok s" and rel: "released_ok {} s" and run: "PrepareCancel_tx cmd s = Inr (order, s')"
  have owned: "s1 = s" if "findOwnedByID a b c s = Inr (x, s1)" for a b c x s1
    using that by (auto simp: findOwnedByID_def tx_simps)
  have "s' = s \<or> (\<exists>order0. findOwnedByID (cc_UserID cmd) (cc_AccountID cmd) (cc_OrderID cmd) s = Inr (order0, s) \<and>
      o_Status order0 \<noteq> ''CANCELED'' \<and> o_Status order0 \<noteq> ''REJECTED'' \<and> request_cancel cmd order0 s = Inr (order, s'))"
    using run unfolding PrepareCancel_tx_def
    by (auto simp: tx_simps split: option.splits if_splits dest: owned)
  then show "released_ok {} s'"
  proof (elim disjE exE conjE)
    fix order0
    assume f: "findOwnedByID (cc_UserID cmd) (cc_AccountID cmd) (cc_OrderID cmd) s = Inr (order0, s)"
      and st: "o_Status order0 \<noteq> ''CANCELED''" "o_Status order0 \<noteq> ''REJECTED''"
      and r: "request_cancel cmd order0 s = Inr (order, s')"
    obtain o1 where "o1 \<in> set (orders s)" "od_id o1 = o_ID order0" "od_status o1 = o_Status order0"
      using f by (rule findOwnedByID_Inr) auto
    with request_cancel_released [OF k rel r] st show ?thesis by blast
  qed (use rel in simp)
qed

lemma ApplyCancelAck_hold: "tx_respects hold_step (ApplyCancelAck_tx userID orderID ack)"
proof (rule hold_stepI [OF ApplyCancelAck_gap])
  fix s :: trading_db and order s'
  assume rel: "released_ok {} s" and run: "ApplyCancelAck_tx userID orderID ack s = Inr (order, s')"
  have owned: "s1 = s" if "findOwnedByID a b c s = Inr (x, s1)" for a b c x s1
    using that by (auto simp: findOwnedByID_def tx_simps)
  have "s' = s \<or> (\<exists>oid u s1 f. releaseOrderHold oid s = Inr (u, s1) \<and> (\<forall>r. od_status (f r) = ''CANCELED'' \<and> od_id (f r) = od_id r) \<and>
      orders s' = update_where (\<lambda>r. od_id r = oid) f (orders s1) \<and> trades s' = trades s1)"
    using run unfolding ApplyCancelAck_tx_def
    by (auto simp: tx_simps appendOrderEvent_def append_outbox_def findByID_def split: if_splits dest!: owned)
      (fastforce)+
  then show "released_ok {} s'"
  proof (elim disjE exE conjE)
    fix oid u s1 f
    assume 1: "releaseOrderHold oid s = Inr (u, s1)" and f: "\<forall>r. od_status (f r) = ''CANCELED'' \<and> od_id (f r) = od_id r"
      and s': "orders s' = update_where (\<lambda>r. od_id r = oid) f (orders s1)" "trades s' = trades s1"
    have "released_ok {} (s1\<lparr>orders := update_where (\<lambda>r. od_id r = oid) f (orders s1)\<rparr>)"
      using f by (intro release_then_cancel [OF 1 rel]) blast
    then show ?thesis using released_ok_frame [of s' "s1\<lparr>orders := orders s'\<rparr>"] s' by simp
  qed (use rel in simp)
qed

lemma activate_one_hold: "tx_respects hold_step (activate_one markPrice orderID)"
proof (rule hold_stepI)
  show "tx_respects gap_step (activate_one markPrice orderID)"
    unfolding activate_one_def by (auto intro!: gap_intros simp: hold_columns_def)
next
  fix s :: trading_db and order s'
  let ?f = "\<lambda>r. r\<lparr>od_status := ''PENDING'', od_triggered_at := Some (pg_now s), od_updated_at := pg_now s\<rparr>"
  let ?p = "\<lambda>r. od_id r = orderID \<and> od_status r = ''CONDITIONAL''"
  assume k: "keys_ok s" and rel: "released_ok {} s" and run: "activate_one markPrice orderID s = Inr (order, s')"
  have s': "orders s' = update_where ?p ?f (orders s)" "trades s' = trades s"
    using run by (auto simp: activate_one_def tx_simps appendOrderEvent_def append_outbox_def findByID_def)
  have "released_ok {} (s\<lparr>orders := update_where ?p ?f (orders s)\<rparr>)"
  proof (rule released_ok_update [OF rel])
    fix r assume "r \<in> set (orders s)" "?p r" "od_released_at (?f r) \<noteq> None"
    then show "closed s (?f r)" using rel by (auto simp: released_ok_def closed_def)
  qed simp
  then show "released_ok {} s'" using released_ok_frame [of s' "s\<lparr>orders := orders s'\<rparr>"] s' by simp
qed

lemma ActivateConditionalOrders_hold:
  "tx_respects hold_step (ActivateConditionalOrders_tx pair markPrice limit)"
  unfolding ActivateConditionalOrders_tx_def by (auto intro!: hold_intros activate_one_hold)

section \<open>Settlement keeps the accounting\<close>

lemma lockSettlementOrders_Inr:
  assumes "lockSettlementOrders mk tk s = Inr (locked, s')"
  shows "s' = s" "locked i = Some order \<Longrightarrow> \<exists>r \<in> set (orders s). od_id r = i \<and> order = settlement_order_of r"
  using assms by (auto simp: lockSettlementOrders_def tx_simps dest!: map_of_SomeD)

lemma ensureTradingFeeAccount_frame:
  assumes "ensureTradingFeeAccount x s = Inr (acc, s')"
  shows "orders s' = orders s" "trades s' = trades s" "trade_participants s' = trade_participants s"
    "postings s' = postings s"
  using assms by (auto simp: ensureTradingFeeAccount_def advisory_lock_def gen_random_uuid_def tx_simps split: option.splits)

text \<open>Both orders of a trade that passes the capacity check have an open hold.\<close>

lemma lock_targets_nonempty:
  "list_all (\<lambda>(a, x). a \<noteq> [] \<and> x \<noteq> []) (lock_targets b se f base quote) \<Longrightarrow> base \<noteq> [] \<and> quote \<noteq> []"
  unfolding lock_targets_def list_all_iff set_sort by simp

lemma funds_settled_open:
  assumes fs: "funds_settled event base quote maker taker notional makerFee takerFee feeAcc s tid s' s1"
    and rel: "released_ok {} s" and r: "r \<in> set (orders s)" "order = settlement_order_of r"
    and order: "order = maker \<or> order = taker" and st: "settleableStatus (so_status order)"
  shows "open_row s order r"
proof -
  obtain buyer seller bf sf where sd: "sides maker taker makerFee takerFee = (buyer, seller, bf, sf)"
    by (metis prod_cases4)
  have "so_holdAssetID buyer = quote" "so_holdAssetID seller = base"
    and targets: "list_all (\<lambda>(a, x). a \<noteq> [] \<and> x \<noteq> []) (lock_targets (so_accountID buyer) (so_accountID seller) feeAcc base quote)"
    using fs unfolding funds_settled_def sd by simp_all
  moreover have "base \<noteq> []" "quote \<noteq> []" using lock_targets_nonempty [OF targets] by simp_all
  moreover have "order = buyer \<or> order = seller" using order sd by (auto simp: sides_def split: if_splits)
  ultimately have asset: "so_holdAssetID order \<noteq> []" by auto
  have "traded_quantity s (so_id order) + uint (te_Quantity event) \<le> od_quantity r" "0 < uint (te_Quantity event)"
    using fs order r(2) by (auto simp: funds_settled_def settlement_order_of_def)
  then have "traded_quantity s (od_id r) \<noteq> od_quantity r" using r(2) by (auto simp: settlement_order_of_def)
  moreover have "od_status r \<noteq> ''CANCELED''" "od_status r \<noteq> ''REJECTED''"
    using st r(2) by (auto simp: settleableStatus_def settlement_order_of_def)
  ultimately have "od_released_at r = None" using rel r(1) by (auto simp: released_ok_def closed_def)
  then show ?thesis using r asset by (simp add: open_row_def)
qed

lemma updateOrder_Inr:
  assumes "updateOrderFromSettledTrades order sid s = Inr (filled, s')"
  obtains f where "s' = s\<lparr>orders := update_where (\<lambda>r. od_id r = so_id order) f (orders s)\<rparr>"
    "\<forall>r. od_id (f r) = od_id r \<and> od_quantity (f r) = od_quantity r \<and> od_released_at (f r) = od_released_at r"
    "filled \<longrightarrow> SetString (so_quantity order) = Some (traded_quantity s (so_id order))"
proof -
  obtain q where q: "SetString (so_quantity order) = Some q"
    using assms by (auto simp: updateOrderFromSettledTrades_def tx_simps split: option.splits)
  let ?f = "\<lambda>r. r\<lparr>od_filled := traded_quantity s (so_id order), od_remaining := q - traded_quantity s (so_id order),
      od_avg_price := traded_value s (so_id order) sdiv traded_quantity s (so_id order),
      od_status := (if q - traded_quantity s (so_id order) = 0 then ''FILLED'' else ''PARTIALLY_FILLED''),
      od_engine_sequence := Some (uint sid), od_updated_at := pg_now s\<rparr>"
  have "s' = s\<lparr>orders := update_where (\<lambda>r. od_id r = so_id order) ?f (orders s)\<rparr>"
    "filled \<longleftrightarrow> q - traded_quantity s (so_id order) = 0"
    using assms q by (auto simp: updateOrderFromSettledTrades_def tx_simps)
  then show ?thesis using q by (intro that [of ?f]) auto
qed

lemma respects_settlement_gap:
  "tx_respects gap_step (updateOrderFromSettledTrades order sid)"
  "tx_respects gap_step (finish_sequence event mode rt hg)"
  "tx_respects gap_step (settle_orders maker taker sid)"
  unfolding settle_orders_def updateOrderFromSettledTrades_def finish_sequence_def set_pair_status_def update_sequence_def
  by (auto intro!: gap_intros simp: hold_columns_def split: option.splits prod.splits)

definition id_quantity :: "trading_db \<Rightarrow> (string \<times> int) list" where
  "id_quantity s = map (\<lambda>r. (od_id r, od_quantity r)) (orders s)"

lemma releaseOrderHold_id_quantity:
  assumes "releaseOrderHold orderID s = Inr (u, s')"
  shows "id_quantity s' = id_quantity s" "trades s' = trades s"
proof -
  have "map (\<lambda>(i, st, q). (i, q)) (map (\<lambda>r. (od_id r, od_status r, od_quantity r)) (orders s')) =
        map (\<lambda>(i, st, q). (i, q)) (map (\<lambda>r. (od_id r, od_status r, od_quantity r)) (orders s))"
    by (simp only: releaseOrderHold_rows(3) [OF assms])
  then show "id_quantity s' = id_quantity s" by (simp add: id_quantity_def comp_def)
qed (rule releaseOrderHold_rows(1) [OF assms])

text \<open>When the trades of an order fill it, every row with its id is closed.\<close>

lemma filled_closed:
  assumes "keys_ok s" "m \<in> set (orders s)" "id_quantity t = id_quantity s" "trades t = trades s"
    and "traded_quantity s (od_id m) = od_quantity m" "r \<in> set (orders t)" "od_id r = od_id m"
  shows "closed t r"
proof -
  have "(od_id r, od_quantity r) \<in> set (id_quantity s)"
    unfolding assms(3) [symmetric] using assms(6) by (auto simp: id_quantity_def)
  then obtain r0 where r0: "r0 \<in> set (orders s)" "od_id r0 = od_id m" "od_quantity r0 = od_quantity r"
    using assms(7) by (auto simp: id_quantity_def)
  then have "od_quantity r = od_quantity m" using same_row [OF assms(1) r0(1) assms(2) r0(2)] by simp
  moreover have "traded_quantity t (od_id r) = traded_quantity s (od_id m)"
    by (simp add: traded_quantity_def order_trades_def assms(4,7))
  ultimately show ?thesis using assms(5) by (simp add: closed_def)
qed

lemma updateOrder_step:
  assumes run: "updateOrderFromSettledTrades order sid s = Inr (filled, s')"
    and rel: "released_ok {} s" and unreleased: "\<forall>r \<in> set (orders s). od_id r = so_id order \<longrightarrow> od_released_at r = None"
  shows "released_ok {} s'" "id_quantity s' = id_quantity s" "trades s' = trades s"
    "map (\<lambda>r. (od_id r, od_released_at r)) (orders s') = map (\<lambda>r. (od_id r, od_released_at r)) (orders s)"
    "filled \<longrightarrow> SetString (so_quantity order) = Some (traded_quantity s (so_id order))"
proof -
  obtain f where s': "s' = s\<lparr>orders := update_where (\<lambda>r. od_id r = so_id order) f (orders s)\<rparr>"
    and f: "\<forall>r. od_id (f r) = od_id r \<and> od_quantity (f r) = od_quantity r \<and> od_released_at (f r) = od_released_at r"
    and full: "filled \<longrightarrow> SetString (so_quantity order) = Some (traded_quantity s (so_id order))"
    using run by (rule updateOrder_Inr) blast
  show "released_ok {} s'"
    unfolding s' by (rule released_ok_update [OF rel]) (use f unreleased in auto)
  show "id_quantity s' = id_quantity s" unfolding s' id_quantity_def by (simp add: map_update_where f)
  show "trades s' = trades s" by (simp add: s')
  show "map (\<lambda>r. (od_id r, od_released_at r)) (orders s') = map (\<lambda>r. (od_id r, od_released_at r)) (orders s)"
    unfolding s' by (simp add: map_update_where f)
  show "filled \<longrightarrow> SetString (so_quantity order) = Some (traded_quantity s (so_id order))" by (rule full)
qed

lemma settle_orders_released:
  assumes k: "keys_ok s" and rel: "released_ok {} s" and rows: "open_row s maker m" "open_row s taker t"
    and run: "settle_orders maker taker sid s = Inr (u, s')"
  shows "released_ok {} s'"
proof -
  from run obtain f1 s1 f2 s2 u3 s3 u4 where 1: "updateOrderFromSettledTrades maker sid s = Inr (f1, s1)"
    and 2: "updateOrderFromSettledTrades taker sid s1 = Inr (f2, s2)"
    and 3: "(if f1 then releaseOrderHold (so_id maker) else returnT ()) s2 = Inr (u3, s3)"
    and 4: "(if f2 then releaseOrderHold (so_id taker) else returnT ()) s3 = Inr (u4, s')"
    unfolding settle_orders_def bindT_Inr by blast
  have mt: "m \<in> set (orders s)" "t \<in> set (orders s)" using rows by (simp_all add: open_row_def)
  have un: "od_released_at m = None" "od_released_at t = None" using rows by (simp_all add: open_row_def)
  have un1: "\<forall>r \<in> set (orders s). od_id r = so_id maker \<longrightarrow> od_released_at r = None"
    using same_row [OF k _ mt(1)] open_row_simps(1) [OF rows(1)] un by auto
  have un2: "\<forall>r \<in> set (orders s). od_id r = so_id taker \<longrightarrow> od_released_at r = None"
    using same_row [OF k _ mt(2)] open_row_simps(1) [OF rows(2)] un by auto
  note u1 = updateOrder_step [OF 1 rel un1]
  have un3: "\<forall>r \<in> set (orders s1). od_id r = so_id taker \<longrightarrow> od_released_at r = None"
  proof (intro ballI impI)
    fix r assume that: "r \<in> set (orders s1)" "od_id r = so_id taker"
    have "(od_id r, od_released_at r) \<in> set (map (\<lambda>r. (od_id r, od_released_at r)) (orders s1))"
      using that(1) by auto
    then have "(od_id r, od_released_at r) \<in> set (map (\<lambda>r. (od_id r, od_released_at r)) (orders s))"
      by (simp only: u1(4))
    then obtain r0 where "r0 \<in> set (orders s)" "od_id r0 = od_id r" "od_released_at r0 = od_released_at r" by auto
    then show "od_released_at r = None" using un2 that(2) by simp
  qed
  note u2 = updateOrder_step [OF 2 u1(1) un3]
  have qty: "SetString (so_quantity maker) = Some (od_quantity m)" "SetString (so_quantity taker) = Some (od_quantity t)"
    using rows by (simp_all add: open_row_def settlement_order_of_def)
  have s3: "released_ok {} s3 \<and> id_quantity s3 = id_quantity s \<and> trades s3 = trades s"
  proof (cases f1)
    case True
    then have r: "releaseOrderHold (so_id maker) s2 = Inr (u3, s3)" using 3 by simp
    have "traded_quantity s (od_id m) = od_quantity m"
      using u1(5) True qty(1) open_row_simps(1) [OF rows(1)] by simp
    note full = filled_closed [OF k mt(1) _ _ this]
    have "\<forall>r \<in> set (orders s2). od_id r = so_id maker \<longrightarrow> closed s2 r"
      using u1(2,3) u2(2,3) open_row_simps(1) [OF rows(1)] by (intro ballI impI full) simp_all
    then show ?thesis
      using releaseOrderHold_released [OF r u2(1)] releaseOrderHold_id_quantity [OF r] u1(2,3) u2(2,3) by simp
  next
    case False
    then show ?thesis using 3 u2(1) u1(2,3) u2(2,3) by (simp add: tx_simps)
  qed
  show ?thesis
  proof (cases f2)
    case True
    then have r: "releaseOrderHold (so_id taker) s3 = Inr (u4, s')" using 4 by simp
    have "traded_quantity s1 (so_id taker) = od_quantity t"
      using u2(5) True qty(2) by simp
    then have "traded_quantity s (od_id t) = od_quantity t"
      using u1(3) open_row_simps(1) [OF rows(2)] by (simp add: traded_quantity_def order_trades_def)
    note full = filled_closed [OF k mt(2) _ _ this]
    have "\<forall>r \<in> set (orders s3). od_id r = so_id taker \<longrightarrow> closed s3 r"
      using s3 open_row_simps(1) [OF rows(2)] by (intro ballI impI full) simp_all
    then show ?thesis using releaseOrderHold_released [OF r] s3 by blast
  next
    case False
    then show ?thesis using 4 s3 by (simp add: tx_simps)
  qed
qed

definition pair_settled ::
  "TradeEvent \<Rightarrow> string \<Rightarrow> u64 \<Rightarrow> bool \<Rightarrow> pair_row \<Rightarrow> trading_db \<Rightarrow> settlementOrder \<Rightarrow> settlementOrder \<Rightarrow> Trade \<Rightarrow> trading_db \<Rightarrow> bool" where
  "pair_settled event mode rt hg p s mk tk trade s' \<longleftrightarrow>
     (\<exists>notional mf tf feeAcc s1 tid s2 u s3 nm s4 v.
        ensureTradingFeeAccount (pr_quote p) s = Inr (feeAcc, s1) \<and>
        settle_funds event (pr_base p) (pr_quote p) mk tk notional mf tf feeAcc s1 = Inr (tid, s2) \<and>
        settle_orders mk tk (te_SequenceID event) s2 = Inr (u, s3) \<and>
        finish_sequence event mode rt hg s3 = Inr (nm, s4) \<and>
        (append_outbox ''trade.settled'' ''trade'' tid
          [(''trade_id'', JString tid), (''pair'', JString (te_Pair event)), (''sequence_id'', JUint (te_SequenceID event)),
           (''maker_order_id'', JString (te_MakerOrderID event)), (''taker_order_id'', JString (te_TakerOrderID event))]
           :: unit trading_tx) s4 = Inr (v, s') \<and>
        t_ID trade = tid \<and> \<not> t_Duplicate trade \<and> t_SettlementState trade = nm)"

lemma settle_pair_steps:
  assumes "settle_pair event mode rt hg p q s = Inr (trade, s')"
  shows "\<exists>locked s0 mk tk. lockSettlementOrders (te_MakerOrderID event) (te_TakerOrderID event) s = Inr (locked, s0) \<and>
    locked (te_MakerOrderID event) = Some mk \<and> locked (te_TakerOrderID event) = Some tk \<and>
    so_side mk \<noteq> so_side tk \<and> settleableStatus (so_status mk) \<and> settleableStatus (so_status tk) \<and>
    pair_settled event mode rt hg p s0 mk tk trade s'"
  using assms unfolding settle_pair_def bindT_Inr tx_simps de_Morgan_disj not_not
  by clarify (unfold pair_settled_def, intro exI conjI, (assumption | simp)+)

lemma settle_pair_Inr:
  assumes "settle_pair event mode rt hg p q s = Inr (trade, s')"
  obtains m k where
    "m \<in> set (orders s)" "od_id m = te_MakerOrderID event" "settleableStatus (od_status m)"
    "k \<in> set (orders s)" "od_id k = te_TakerOrderID event" "settleableStatus (od_status k)" "od_side m \<noteq> od_side k"
    "pair_settled event mode rt hg p s (settlement_order_of m) (settlement_order_of k) trade s'"
proof -
  from settle_pair_steps [OF assms] obtain locked s0 mk tk where
    lk: "lockSettlementOrders (te_MakerOrderID event) (te_TakerOrderID event) s = Inr (locked, s0)"
    and mk: "locked (te_MakerOrderID event) = Some mk" and tk: "locked (te_TakerOrderID event) = Some tk"
    and ok: "so_side mk \<noteq> so_side tk" "settleableStatus (so_status mk)" "settleableStatus (so_status tk)"
      "pair_settled event mode rt hg p s0 mk tk trade s'" by blast
  obtain m where m: "m \<in> set (orders s)" "od_id m = te_MakerOrderID event" "mk = settlement_order_of m"
    using lockSettlementOrders_Inr(2) [OF lk mk] by blast
  obtain k where k: "k \<in> set (orders s)" "od_id k = te_TakerOrderID event" "tk = settlement_order_of k"
    using lockSettlementOrders_Inr(2) [OF lk tk] by blast
  have "so_side mk = od_side m" "so_side tk = od_side k" "so_status mk = od_status m" "so_status tk = od_status k"
    by (simp_all add: m k settlement_order_of_def)
  then show ?thesis
    using m k ok lockSettlementOrders_Inr(1) [OF lk] by (intro that) simp_all
qed

lemma settle_funds_released:
  assumes k: "keys_ok s" and rel: "released_ok {} s"
    and rows: "open_row s maker m" "open_row s taker t" "so_id maker = te_MakerOrderID event" "so_id taker = te_TakerOrderID event"
    and frame: "orders s' = orders s" "trades s' = trades s @ [trade_row_of event notional tid]"
  shows "released_ok {} s'"
  unfolding released_ok_def
proof (intro ballI impI)
  fix r assume r: "r \<in> set (orders s')" "od_released_at r \<noteq> None"
  then have "closed s r" using rel frame(1) by (simp add: released_ok_def)
  moreover have "od_id r \<noteq> od_id m" "od_id r \<noteq> od_id t"
    using same_row [OF k, of r m] same_row [OF k, of r t] rows(1,2) r frame(1) by (auto simp: open_row_def)
  then have "traded_quantity s' (od_id r) = traded_quantity s (od_id r)"
    using rows(3,4) open_row_simps(1) [OF rows(1)] open_row_simps(1) [OF rows(2)]
    by (auto simp: traded_quantity_def order_trades_def frame(2) trade_row_of_def)
  ultimately show "closed s' r" by (simp add: closed_def)
qed

lemma finish_sequence_frame:
  assumes "finish_sequence event mode rt hg s = Inr (nm, s')"
  shows "orders s' = orders s" "trades s' = trades s"
  using assms by (auto simp: finish_sequence_def tx_simps set_pair_status_def update_sequence_def split: if_splits)

lemma settle_pair_hold: "tx_respects hold_step (settle_pair event mode rt hg p q)"
proof (rule respectsI)
  fix s :: trading_db and trade s'
  assume run: "settle_pair event mode rt hg p q s = Inr (trade, s')"
  show "hold_step s s'"
    unfolding hold_step_def
  proof (intro impI)
    assume ok: "hold_ok s"
    from run obtain m k where
      m: "m \<in> set (orders s)" "od_id m = te_MakerOrderID event" "settleableStatus (od_status m)"
      and k: "k \<in> set (orders s)" "od_id k = te_TakerOrderID event" "settleableStatus (od_status k)"
      and side: "od_side m \<noteq> od_side k"
      and steps: "pair_settled event mode rt hg p s (settlement_order_of m) (settlement_order_of k) trade s'"
      by (rule settle_pair_Inr)
    from steps obtain notional mf tf feeAcc s1 tid s2 u s3 nm s4 v outbox where
      1: "ensureTradingFeeAccount (pr_quote p) s = Inr (feeAcc, s1)"
      and 2: "settle_funds event (pr_base p) (pr_quote p) (settlement_order_of m) (settlement_order_of k) notional mf tf feeAcc s1 = Inr (tid, s2)"
      and 3: "settle_orders (settlement_order_of m) (settlement_order_of k) (te_SequenceID event) s2 = Inr (u, s3)"
      and 4: "finish_sequence event mode rt hg s3 = Inr (nm, s4)"
      and 5: "(append_outbox ''trade.settled'' ''trade'' tid outbox :: unit trading_tx) s4 = Inr (v, s')"
      unfolding pair_settled_def by blast
    let ?m = "settlement_order_of m" and ?k = "settlement_order_of k"
    note f1 = ensureTradingFeeAccount_frame [OF 1]
    have g1: "gap_step s s1" by (rule gap_step_frame) (use f1 in simp_all)
    have k1: "keys_ok s1" "released_ok {} s1" using ok g1 released_ok_frame [OF f1(1,2)] by (simp_all add: hold_ok_def gap_step_def)
    obtain t where fs: "funds_settled event (pr_base p) (pr_quote p) ?m ?k notional mf tf feeAcc s1 tid s2 t"
      using settle_funds_Inr [OF 2] by blast
    have in1: "m \<in> set (orders s1)" "k \<in> set (orders s1)" using m k f1(1) by simp_all
    have om: "open_row s1 ?m m" using m(3) by (intro funds_settled_open [OF fs k1(2) in1(1)]) (simp_all add: settlement_order_of_def)
    have ok': "open_row s1 ?k k" using k(3) by (intro funds_settled_open [OF fs k1(2) in1(2)]) (simp_all add: settlement_order_of_def)
    have ids: "so_id ?m = te_MakerOrderID event" "so_id ?k = te_TakerOrderID event" "so_id ?m \<noteq> so_id ?k"
      using m k fs by (simp_all add: settlement_order_of_def funds_settled_def)
    have g2: "gap_step s1 s2" by (rule settle_funds_gap [OF 2 om ok' ids(3)]) (use side in \<open>simp add: settlement_order_of_def\<close>)
    have f2: "orders s2 = orders s1" "trades s2 = trades s1 @ [trade_row_of event notional tid]"
      using fs unfolding funds_settled_def by (auto split: prod.splits dest: post_journal_frame)
    have k2: "keys_ok s2" "released_ok {} s2"
      using g2 k1 settle_funds_released [OF k1 om ok' ids(1,2) f2] by (simp_all add: gap_step_def)
    have rows2: "open_row s2 ?m m" "open_row s2 ?k k" using om ok' f2(1) by (simp_all add: open_row_def)
    have r3: "released_ok {} s3" by (rule settle_orders_released [OF k2 rows2 3])
    have g3: "gap_step s2 s3" "gap_step s3 s4" "gap_step s4 s'"
      using respectsD [OF respects_settlement_gap(3) 3] respectsD [OF respects_settlement_gap(2) 4]
        respectsD [OF gap_statements(1) 5] by blast+
    have "orders s' = orders s3" "trades s' = trades s3"
      using finish_sequence_frame [OF 4] 5 by (auto simp: append_outbox_def tx_simps)
    then have "released_ok {} s'" using r3 released_ok_frame by blast
    then show "hold_ok s' \<and> held_gap s' = held_gap s"
      using ok g1 g2 g3 by (simp add: hold_ok_def gap_step_def)
  qed
qed

end
