(* ===== verification/Hold_System.thy ===== *)
theory Hold_System
  imports Hold_Accounting
begin

text \<open>
  Hold accounting for the whole exchange core: every step of \<open>trading_step\<close> keeps the held
  balances equal to the outstanding reservations and releases only closed orders.
\<close>

lemma settlement_statements_hold:
  "tx_respects hold_step (insert_inbox event hash)" "tx_respects hold_step (sequence_row_of pair)"
  "tx_respects hold_step (findTradeBySequence pair sid)" "tx_respects hold_step (record_gap event expected rt hg)"
  unfolding insert_inbox_def sequence_row_of_def findTradeBySequence_def record_gap_def
  by (auto intro!: hold_rel.bind hold_rel.pure frame_hold_step simp: set_pair_status_def update_sequence_def
      split: option.splits prod.splits)

lemma settle_tx_hold: "tx_respects hold_step (settle_tx event hash)"
  unfolding settle_tx_def settle_next_def
  by (auto intro!: hold_rel.bind hold_rel.pure settlement_statements_hold settle_pair_hold)

interpretation hold_store: store_relation hold_step
proof unfold_locales
  fix s :: trading_db and t
  have "gap_step s (s\<lparr>pg_now := t\<rparr>)" by (rule gap_step_frame) simp_all
  moreover have "released_ok {} (s\<lparr>pg_now := t\<rparr>) = released_ok {} s" by (rule released_ok_frame) simp_all
  ultimately show "hold_step s (s\<lparr>pg_now := t\<rparr>)" by (simp add: hold_step_def hold_ok_def gap_step_def)
qed (rule CreateOrder_hold ApplyEngineStatus_hold RecordDispatchFailure_hold PrepareCancel_hold
    ApplyCancelAck_hold ActivateConditionalOrders_hold settle_tx_hold)+

interpretation hold_system: transition_system hold_ok trading_step hold_ok
  by unfold_locales (auto dest: hold_store.step_R simp: hold_step_def)

lemma demo_hold_ok: "hold_ok demo_db"
  by (simp add: hold_ok_def keys_ok_def released_ok_def demo_db_def)

text \<open>
  C6: held money is exactly accounted for. From a database that respects its keys and whose
  released orders are closed, any sequence of store calls keeps, for every account and asset, the
  held balance minus the outstanding reservations (reserved and not yet consumed by fills, over
  the orders whose hold is not released) unchanged, so every unit taken out of a held bucket by a
  settlement, a cancellation or a rejection is one that an order had reserved; and the hold of an
  order is released only when the order is canceled, rejected or completely traded.
\<close>

theorem holds_are_accounted:
  assumes "hold_ok s" "trading_step\<^sup>*\<^sup>* s t"
  shows "bucket_sum t a x Held - outstanding t a x = bucket_sum s a x Held - outstanding s a x \<and>
    (\<forall>r \<in> set (orders t). od_released_at r \<noteq> None \<longrightarrow>
       od_status r = ''CANCELED'' \<or> od_status r = ''REJECTED'' \<or> traded_quantity t (od_id r) = od_quantity r)"
proof -
  have "hold_ok t" using assms by (rule hold_system.inv_reachable)
  moreover have "held_gap t a x = held_gap s a x" using hold_store.run_R [OF assms(2)] assms(1) by (simp add: hold_step_def)
  ultimately show ?thesis
    by (simp add: hold_ok_def released_ok_def closed_def held_gap_def)
qed

theorem holds_are_accounted_witness:
  "trading_step demo_db demo_after_buy \<and>
   bucket_sum demo_after_buy ''a1'' ''usdt'' Held = outstanding demo_after_buy ''a1'' ''usdt''"
proof -
  have step: "trading_step demo_db demo_after_buy"
    unfolding demo_after_buy_def by (rule trading_step.create)
  have "bucket_sum demo_db ''a1'' ''usdt'' Held = outstanding demo_db ''a1'' ''usdt''"
    by (simp add: bucket_sum_def outstanding_def leg_at_def demo_db_def)
  with holds_are_accounted [OF demo_hold_ok, of demo_after_buy "''a1''" "''usdt''"] step show ?thesis by auto
qed

end
