(* ===== verification/Order_Lifecycle.thy ===== *)
theory Order_Lifecycle
  imports Hold_System
begin

text \<open>
  The life of an order record: what was accepted never changes, canceled and rejected are final,
  and a placement request with a used idempotency key never creates a second order.
\<close>

section \<open>Keys and final statuses\<close>

definition placed_columns where
  "placed_columns o1 = (od_id o1, od_user o1, od_account o1, od_pair o1, od_side o1, od_type o1, od_price o1,
     od_trigger_price o1, od_trigger_direction o1, od_quantity o1, od_tif o1, od_post_only o1, od_reduce_only o1,
     od_fee_tier o1, od_key o1, od_hash o1, od_created_at o1)"

definition final_status :: "string \<Rightarrow> bool" where
  "final_status st \<longleftrightarrow> st = ''CANCELED'' \<or> st = ''REJECTED''"

definition order_keys_ok :: "trading_db \<Rightarrow> bool" where
  "order_keys_ok s \<longleftrightarrow> distinct (map od_id (orders s)) \<and> distinct (map (\<lambda>r. (od_user r, od_key r)) (orders s))"

definition row_kept :: "order_row \<Rightarrow> order_row \<Rightarrow> bool" where
  "row_kept r r' \<longleftrightarrow> placed_columns r' = placed_columns r \<and> (final_status (od_status r) \<longrightarrow> od_status r' = od_status r)"

definition records_kept :: "trading_db \<Rightarrow> trading_db \<Rightarrow> bool" where
  "records_kept s s' \<longleftrightarrow> (\<forall>r \<in> set (orders s). \<exists>r' \<in> set (orders s'). row_kept r r') \<and>
     (\<forall>c \<in> set (engine_commands s). \<exists>c' \<in> set (engine_commands s'). ec_order c' = ec_order c \<and> ec_payload c' = ec_payload c)"

definition life_step :: "trading_db \<Rightarrow> trading_db \<Rightarrow> bool" where
  "life_step s s' \<longleftrightarrow> (order_keys_ok s \<longrightarrow> order_keys_ok s' \<and> records_kept s s')"

lemma row_kept_refl [simp]: "row_kept r r"
  by (simp add: row_kept_def)

lemma row_kept_trans: "row_kept r r' \<Longrightarrow> row_kept r' r'' \<Longrightarrow> row_kept r r''"
  by (simp add: row_kept_def)

lemma records_kept_refl [simp]: "records_kept s s"
  by (auto simp: records_kept_def intro: row_kept_refl)

lemma records_kept_trans: "records_kept s t \<Longrightarrow> records_kept t u \<Longrightarrow> records_kept s u"
  unfolding records_kept_def
proof (elim conjE, intro conjI ballI)
  fix r assume "\<forall>r \<in> set (orders s). \<exists>r' \<in> set (orders t). row_kept r r'"
    "\<forall>r \<in> set (orders t). \<exists>r' \<in> set (orders u). row_kept r r'" "r \<in> set (orders s)"
  then show "\<exists>r' \<in> set (orders u). row_kept r r'" by (blast intro: row_kept_trans)
next
  fix c assume "c \<in> set (engine_commands s)"
    and 1: "\<forall>c \<in> set (engine_commands s). \<exists>c' \<in> set (engine_commands t). ec_order c' = ec_order c \<and> ec_payload c' = ec_payload c"
    and 2: "\<forall>c \<in> set (engine_commands t). \<exists>c' \<in> set (engine_commands u). ec_order c' = ec_order c \<and> ec_payload c' = ec_payload c"
  then obtain c1 where "c1 \<in> set (engine_commands t)" "ec_order c1 = ec_order c \<and> ec_payload c1 = ec_payload c" by blast
  with 2 show "\<exists>c' \<in> set (engine_commands u). ec_order c' = ec_order c \<and> ec_payload c' = ec_payload c" by fastforce
qed

interpretation life_rel: tx_relation life_step
  by unfold_locales (auto simp: life_step_def intro: records_kept_trans)

lemma life_step_frame:
  "orders s' = orders s \<Longrightarrow> engine_commands s' = engine_commands s \<Longrightarrow> life_step s s'"
  by (auto simp: life_step_def order_keys_ok_def records_kept_def intro: row_kept_refl)

lemma life_step_update:
  assumes "\<forall>r \<in> set (orders s). p r \<longrightarrow> row_kept r (f r)"
  shows "life_step s (s\<lparr>orders := update_where p f (orders s)\<rparr>)"
proof -
  let ?g = "\<lambda>r. if p r then f r else r"
  have g: "row_kept r (?g r)" if "r \<in> set (orders s)" for r using assms that by simp
  then have "od_id (?g r) = od_id r" "(od_user (?g r), od_key (?g r)) = (od_user r, od_key r)" if "r \<in> set (orders s)" for r
    using that by (force simp: row_kept_def placed_columns_def)+
  then have "map od_id (map ?g (orders s)) = map od_id (orders s)"
    "map (\<lambda>r. (od_user r, od_key r)) (map ?g (orders s)) = map (\<lambda>r. (od_user r, od_key r)) (orders s)"
    by (auto simp del: prod.inject)
  moreover have "records_kept s (s\<lparr>orders := map ?g (orders s)\<rparr>)"
    unfolding records_kept_def
  proof (intro conjI ballI)
    fix r assume r: "r \<in> set (orders s)"
    then have "?g r \<in> set (orders (s\<lparr>orders := map ?g (orders s)\<rparr>))" by simp
    with g [OF r] show "\<exists>r' \<in> set (orders (s\<lparr>orders := map ?g (orders s)\<rparr>)). row_kept r r'" by blast
  qed auto
  ultimately show ?thesis
    unfolding update_where_def life_step_def order_keys_ok_def by (simp del: map_map map_eq_conv)
qed

lemma life_step_commands:
  assumes "\<forall>c. ec_order (f c) = ec_order c \<and> ec_payload (f c) = ec_payload c"
  shows "life_step s (s\<lparr>engine_commands := update_where p f (engine_commands s)\<rparr>)"
  using assms by (auto simp: life_step_def order_keys_ok_def records_kept_def update_where_def intro: row_kept_refl)

definition open_order :: "trading_db \<Rightarrow> string \<Rightarrow> bool" where
  "open_order s i \<longleftrightarrow> (\<forall>r \<in> set (orders s). od_id r = i \<longrightarrow> \<not> final_status (od_status r))"

lemma open_orderI:
  assumes "order_keys_ok s" "r \<in> set (orders s)" "od_id r = i" "\<not> final_status (od_status r)"
  shows "open_order s i"
  using assms by (auto simp: open_order_def order_keys_ok_def distinct_map dest: inj_onD)

definition may_update :: "string \<Rightarrow> trading_db \<Rightarrow> bool" where
  "may_update i s \<longleftrightarrow> (order_keys_ok s \<longrightarrow> open_order s i)"

lemma may_updateI: "r \<in> set (orders s) \<Longrightarrow> od_id r = i \<Longrightarrow> \<not> final_status (od_status r) \<Longrightarrow> may_update i s"
  by (auto simp: may_update_def intro: open_orderI)

lemma may_update_find:
  assumes "find (\<lambda>r. od_id r = i) (orders s) = Some o1" "\<not> final_status (od_status o1)"
  shows "may_update i s"
  using find_SomeD [OF assms(1)] assms(2) by (intro may_updateI [of o1]) simp_all

lemma may_update_cong: "orders s' = orders s \<Longrightarrow> may_update i s' = may_update i s"
  by (simp add: may_update_def open_order_def order_keys_ok_def)

lemma open_update_life:
  assumes "\<And>r. placed_columns (f r) = placed_columns r"
  shows "tx_from (may_update i) life_step (update_orders (\<lambda>r. od_id r = i) f)"
  unfolding tx_from_def
proof (intro allI impI)
  fix s x s'
  assume "may_update i s" "update_orders (\<lambda>r. od_id r = i) f s = Inr (x, s')"
  then have s': "s' = s\<lparr>orders := update_where (\<lambda>r. od_id r = i) f (orders s)\<rparr>" and "order_keys_ok s \<longrightarrow> open_order s i"
    by (simp_all add: tx_simps may_update_def)
  show "life_step s s'"
  proof (cases "order_keys_ok s")
    case True
    then have "open_order s i" using \<open>order_keys_ok s \<longrightarrow> open_order s i\<close> by simp
    then show ?thesis
      unfolding s' using assms by (intro life_step_update) (auto simp: row_kept_def open_order_def)
  qed (simp add: life_step_def)
qed

lemma update_orders_life:
  "(\<And>r. p r \<Longrightarrow> row_kept r (f r)) \<Longrightarrow> tx_respects life_step (update_orders p f)"
  by (auto intro!: respectsI life_step_update simp: tx_simps)

lemma life_frames:
  "(\<And>s. orders (f s) = orders s) \<Longrightarrow> (\<And>s. engine_commands (f s) = engine_commands s) \<Longrightarrow> tx_respects life_step (execT f)"
  by (auto intro!: life_rel.exec life_step_frame)

lemma commands_life:
  "(\<And>c. ec_order (f c) = ec_order c \<and> ec_payload (f c) = ec_payload c) \<Longrightarrow>
   tx_respects life_step (execT (\<lambda>s. s\<lparr>engine_commands := update_where p f (engine_commands s)\<rparr>))"
  by (intro life_rel.exec life_step_commands) blast

lemma life_statements:
  "tx_respects life_step (append_outbox a b c d)" "tx_respects life_step (appendOrderEvent e g h)"
  "tx_respects life_step (LockAccountAsset err acc asset)"
  "tx_respects life_step (findByID oid)" "tx_respects life_step (findOwnedByID u acc oid)"
  "tx_respects life_step (findByIdempotencyKey u key)" "tx_respects life_step (require_trading_account u acc)"
  "tx_respects life_step (insert_control_command cmd)" "tx_respects life_step (bucketBalance acc asset bk)"
  "tx_respects life_step (post_trading_journal k t r legs)"
  by (auto intro!: respectsI life_step_frame dest: post_journal_frame
      simp: tx_simps append_outbox_def appendOrderEvent_def findByID_def findOwnedByID_def findByIdempotencyKey_def
        require_trading_account_def insert_control_command_def split: if_splits)

lemmas life_intros = life_rel.bind life_rel.pure life_statements update_orders_life life_frames commands_life life_rel.map_each

lemma row_kept_columns: "placed_columns r' = placed_columns r \<Longrightarrow> od_status r' = od_status r \<Longrightarrow> row_kept r r'"
  by (simp add: row_kept_def)

lemma releaseOrderHold_life: "tx_respects life_step (releaseOrderHold i)"
  unfolding releaseOrderHold_def
  by (auto intro!: life_intros row_kept_columns simp: placed_columns_def split: option.splits)

lemma place_new_order_life: "tx_respects life_step (place_new_order i p)"
proof (rule respectsI)
  fix s order s'
  assume "place_new_order i p s = Inr (order, s')"
  then obtain hold j s1 s2 where o: "order_placed i p s order s' hold j s1 s2"
    using place_new_order_Inr by blast
  note frame = order_placed_frame(1,5) [OF o]
  have "\<forall>r \<in> set (orders s). od_id r \<noteq> c_OrderID i \<and> \<not> (od_user r = c_UserID i \<and> od_key r = c_IdempotencyKey i)"
    using o by (simp add: order_placed_def)
  then have "order_keys_ok s \<longrightarrow> order_keys_ok s'"
    by (auto simp: order_keys_ok_def frame held_order_row_def new_order_row_def)
  moreover have "records_kept s s'" by (auto simp: records_kept_def frame intro: row_kept_refl)
  ultimately show "life_step s s'" by (simp add: life_step_def)
qed

lemma CreateOrder_life: "tx_respects life_step (CreateOrder_tx i)"
  unfolding CreateOrder_tx_def by (auto intro!: life_intros place_new_order_life split: option.splits)


section \<open>The methods that change a status\<close>

lemma open_update_then_life:
  assumes "\<And>r. placed_columns (f r) = placed_columns r" "\<And>x. tx_respects life_step (k x)"
  shows "tx_from (may_update i) life_step (bindT (update_orders (\<lambda>r. od_id r = i) f) k)"
  by (rule life_rel.from_bind [OF open_update_life, where Q = "\<lambda>_ _. True"]) (use assms in \<open>auto intro: life_rel.from_respects\<close>)

lemma write_engine_status_life: "tx_from (may_update i) life_step (write_engine_status i event nxt)"
  unfolding write_engine_status_def
  by (rule life_rel.from_query, rule life_rel.from_mono [OF open_update_then_life])
    (auto intro!: life_intros releaseOrderHold_life simp: placed_columns_def)

lemma final_validTransition: "validTransition st nxt \<Longrightarrow> final_status st \<Longrightarrow> nxt = st"
  by (auto simp: validTransition_def final_status_def split: if_splits)

lemma final_terminal: "final_status st \<Longrightarrow> terminal_status st"
  by (auto simp: final_status_def terminal_status_def)

lemma ApplyEngineStatus_life: "tx_respects life_step (ApplyEngineStatus_tx i event)"
proof -
  let ?nxt = "statusName (se_Status event)"
  have "tx_from (\<lambda>s. find (\<lambda>r. od_id r = i) (orders s) = Some o1) life_step
    (if od_status o1 \<noteq> ?nxt \<or> \<not> terminal_status (od_status o1) then write_engine_status i event ?nxt else returnT ())"
    if "validTransition (od_status o1) ?nxt" for o1
  proof (rule life_rel.from_if)
    assume "od_status o1 \<noteq> ?nxt \<or> \<not> terminal_status (od_status o1)"
    then have "\<not> final_status (od_status o1)"
      using final_validTransition [OF that] final_terminal by metis
    then show "tx_from (\<lambda>s. find (\<lambda>r. od_id r = i) (orders s) = Some o1) life_step (write_engine_status i event ?nxt)"
      by (intro life_rel.from_mono [OF write_engine_status_life]) (rule may_update_find)
  qed (intro life_rel.from_respects life_rel.pure)
  note step = this
  show ?thesis
    unfolding ApplyEngineStatus_tx_def
    apply (rule respects_from)
    apply (rule life_rel.from_ensure)
    apply (rule life_rel.from_row)
    apply (rule life_rel.from_return)
    apply (simp only: prod.case)
    apply (rule life_rel.from_ensure)
    apply (rule life_rel.from_ensure)
    apply (rule life_rel.from_bind [where Q = "\<lambda>_ _. True"])
      apply (rule life_rel.from_mono [OF step])
       apply blast
      apply blast
     apply (rule TrueI)
    apply (rule life_rel.from_respects)
    apply (rule life_statements)
    done
qed

lemma RecordDispatchFailure_life: "tx_respects life_step (RecordDispatchFailure_tx i reason)"
  unfolding RecordDispatchFailure_tx_def by (auto intro!: life_intros)

lemma ActivateConditionalOrders_life: "tx_respects life_step (ActivateConditionalOrders_tx pair markPrice limit)"
  unfolding ActivateConditionalOrders_tx_def activate_one_def
  by (auto intro!: life_intros simp: row_kept_def placed_columns_def final_status_def)

lemma releaseOrderHold_map:
  assumes "releaseOrderHold i s = Inr (u, s')" "\<And>r x y. g (r\<lparr>od_released_at := x, od_updated_at := y\<rparr>) = g r"
  shows "map g (orders s') = map g (orders s)"
  using assms(1)
proof (cases rule: releaseOrderHold_Inr)
  case (some o1 x n s1)
  have "orders s' = orders s1" using optional_post_frame [OF some(7,8)] by simp
  then show ?thesis unfolding some(6) by (simp add: map_update_where assms(2))
qed simp

lemma map_fst_eq: "map f xs = map f ys \<Longrightarrow> map (g \<circ> f) xs = map (g \<circ> f) ys"
  by (metis map_map)

lemma release_may_update:
  assumes "releaseOrderHold k s = Inr (u, s')" "may_update i s"
  shows "may_update i s'"
proof -
  have m: "map (\<lambda>r. (od_id r, od_status r, od_user r, od_key r)) (orders s') = map (\<lambda>r. (od_id r, od_status r, od_user r, od_key r)) (orders s)"
    by (rule releaseOrderHold_map [OF assms(1)]) simp
  have "order_keys_ok s' = order_keys_ok s"
    using map_fst_eq [OF m, of fst] map_fst_eq [OF m, of "snd \<circ> snd"] by (simp add: order_keys_ok_def comp_def)
  moreover have "open_order t i \<longleftrightarrow> list_all (\<lambda>(x, st). x = i \<longrightarrow> \<not> final_status st) (map (\<lambda>r. (od_id r, od_status r)) (orders t))" for t
    by (auto simp: open_order_def list_all_iff)
  ultimately show ?thesis
    using assms(2) map_fst_eq [OF m, of "\<lambda>(a, b, c). (a, b)"] by (simp add: may_update_def comp_def)
qed

text \<open>Release the hold, then write the row.\<close>

lemma release_then_life:
  assumes "tx_from (may_update i) life_step m"
  shows "tx_from (may_update i) life_step (bindT (releaseOrderHold i) (\<lambda>_. m))"
  by (rule life_rel.from_bind [where Q = "\<lambda>_. may_update i"])
    (auto intro: life_rel.from_respects releaseOrderHold_life release_may_update assms)

lemma owned_order_life:
  assumes "\<And>order. tx_from (\<lambda>s. \<not> final_status (o_Status order) \<longrightarrow> may_update (o_ID order) s) life_step (k order)"
  shows "tx_respects life_step (bindT (findOwnedByID u a i) k)"
proof (rule respects_from, rule life_rel.from_bind [OF life_rel.from_respects [OF life_statements(5)] _ assms])
  fix s order s'
  assume "findOwnedByID u a i s = Inr (order, s')"
  then obtain r where "s' = s" "r \<in> set (orders s)" "od_id r = i" "o_ID order = i" "o_Status order = od_status r"
    by (rule findOwnedByID_Inr) blast
  then show "\<not> final_status (o_Status order) \<longrightarrow> may_update (o_ID order) s'"
    by (auto intro: may_updateI)
qed

lemma ApplyCancelAck_life: "tx_respects life_step (ApplyCancelAck_tx userID i ack)"
  unfolding ApplyCancelAck_tx_def
  apply (rule life_rel.bind [OF life_rel.pure(3)])
  apply (rule life_rel.bind [OF life_rel.pure(5)])
  apply (rule owned_order_life)
  apply (rule life_rel.from_if)
   apply (rule life_rel.from_respects [OF life_rel.pure(1)])
  apply (rule life_rel.from_ensure)
  apply (rule life_rel.from_mono [OF release_then_life])
   apply (rule life_rel.from_query)
   apply (rule life_rel.from_mono [OF open_update_then_life])
     apply (simp add: placed_columns_def)
    apply (intro life_intros; simp)
   apply blast
  apply (simp add: final_status_def)
  done

lemma request_cancel_life: 
  "\<not> final_status (o_Status order) \<Longrightarrow> tx_from (may_update (o_ID order)) life_step (request_cancel cmd order)"
  unfolding request_cancel_def
  apply (rule life_rel.from_bind [OF life_rel.from_respects [OF life_statements(8)], where Q = "\<lambda>_. may_update (o_ID order)"])
   apply (auto simp: insert_control_command_def tx_simps may_update_def open_order_def order_keys_ok_def)[1]
  apply (rule life_rel.from_query)
  apply (rule life_rel.from_bind [where Q = "\<lambda>_ _. True"])
    apply (rule life_rel.from_mono [where Q = "may_update (o_ID order)"])
     apply (rule life_rel.from_if)
      apply (rule release_then_life)
      apply (rule open_update_then_life)
       apply (simp add: placed_columns_def)
      apply (intro life_rel.bind commands_life life_frames; simp)
     apply (rule open_update_life)
     apply (simp add: placed_columns_def)
    apply blast
   apply (rule TrueI)
  apply (rule life_rel.from_respects)
  apply (intro life_intros)
  done

lemma PrepareCancel_life: "tx_respects life_step (PrepareCancel_tx cmd)"
proof -
  have "tx_from (\<lambda>s. \<not> final_status (o_Status order) \<longrightarrow> may_update (o_ID order) s) life_step
    (if o_Status order = ''FILLED'' then failT (App ErrOrderAlreadyFilled)
     else if o_Status order = ''CANCELED'' then returnT (order\<lparr>o_Duplicate := True\<rparr>)
     else if o_Status order = ''REJECTED'' then failT (App ErrOrderNotCancelable)
     else if o_Status order = ''PENDING_CANCEL'' then returnT (order\<lparr>o_Duplicate := True\<rparr>)
     else request_cancel cmd order)" for order
    by (intro life_rel.from_if life_rel.from_respects [OF life_rel.pure(1)] life_rel.from_respects [OF life_rel.pure(2)]
        life_rel.from_mono [OF request_cancel_life]) (auto simp: final_status_def)
  then show ?thesis
    unfolding PrepareCancel_tx_def
    by (auto intro!: life_rel.bind [OF life_rel.pure(3)] life_rel.bind [OF life_rel.pure(4)] owned_order_life
        life_rel.from_respects [OF life_rel.pure(1)] split: option.splits)
qed


section \<open>Settlement\<close>

lemma updateOrder_life:
  "tx_from (may_update (so_id order)) life_step (updateOrderFromSettledTrades order sid)"
  unfolding updateOrderFromSettledTrades_def
  by (rule life_rel.from_query)
    (auto intro!: life_rel.from_return life_rel.from_ensure life_rel.from_query life_rel.from_mono [OF open_update_then_life]
      life_rel.from_respects [OF life_rel.pure(2)] life_rel.pure simp: placed_columns_def split: option.splits)

lemma updateOrder_may_update:
  assumes "updateOrderFromSettledTrades order sid s = Inr (filled, s')" "may_update i s"
  shows "may_update i s'"
proof -
  obtain q where q: "SetString (so_quantity order) = Some q"
    using assms(1) by (auto simp: updateOrderFromSettledTrades_def tx_simps split: option.splits)
  obtain st where st: "\<not> final_status st" "st = (if q - traded_quantity s (so_id order) = 0 then ''FILLED'' else ''PARTIALLY_FILLED'')"
    by (simp add: final_status_def)
  obtain a b c where s': "s' = s\<lparr>orders := update_where (\<lambda>r. od_id r = so_id order)
      (\<lambda>r. r\<lparr>od_filled := a, od_remaining := b, od_avg_price := c, od_status := st,
        od_engine_sequence := Some (uint sid), od_updated_at := pg_now s\<rparr>) (orders s)\<rparr>"
    using assms(1) q unfolding st(2) by (auto simp: updateOrderFromSettledTrades_def tx_simps)
  have "open_order s i \<Longrightarrow> open_order s' i"
    using st(1) unfolding open_order_def s' by (auto simp: set_update_where split: if_splits)
  moreover have "order_keys_ok s' = order_keys_ok s"
    unfolding s' by (simp add: order_keys_ok_def map_update_where)
  ultimately show ?thesis using assms(2) by (simp add: may_update_def)
qed

lemma settle_orders_life:
  "tx_from (\<lambda>s. may_update (so_id maker) s \<and> may_update (so_id taker) s) life_step (settle_orders maker taker sid)"
  unfolding settle_orders_def
  apply (rule life_rel.from_bind [where Q = "\<lambda>_. may_update (so_id taker)"])
    apply (rule life_rel.from_mono [OF updateOrder_life], blast)
   apply (blast intro: updateOrder_may_update)
  apply (rule life_rel.from_bind [OF updateOrder_life, where Q = "\<lambda>_ _. True"])
   apply (rule TrueI)
  apply (rule life_rel.from_respects)
  apply (auto intro!: life_rel.bind life_rel.pure releaseOrderHold_life)
  done

lemma settle_frames:
  assumes "settle_funds event base quote mk tk notional mf tf feeAcc s = Inr (tid, s')"
  shows "orders s' = orders s" "engine_commands s' = engine_commands s"
proof -
  obtain buyer seller bf sf where sd: "sides mk tk mf tf = (buyer, seller, bf, sf)" by (metis prod_cases4)
  obtain s1 where "funds_settled event base quote mk tk notional mf tf feeAcc s tid s' s1"
    using settle_funds_Inr [OF assms] by blast
  then obtain j key legs where "post_trading_journal key ''trade_settlement'' tid legs s1 = Inr (j, s')"
    "orders s1 = orders s" "engine_commands s1 = engine_commands s"
    unfolding funds_settled_def sd by auto
  then show "orders s' = orders s" "engine_commands s' = engine_commands s" by (simp_all add: post_journal_frame)
qed

lemma fee_account_commands: "ensureTradingFeeAccount x s = Inr (acc, s') \<Longrightarrow> engine_commands s' = engine_commands s"
  by (auto simp: ensureTradingFeeAccount_def advisory_lock_def gen_random_uuid_def tx_simps split: option.splits)

lemma settle_pair_life: "tx_respects life_step (settle_pair event mode rt hg p q)"
proof (rule respectsI)
  fix s :: trading_db and trade s'
  assume "settle_pair event mode rt hg p q s = Inr (trade, s')"
  then obtain m k where m: "m \<in> set (orders s)" "settleableStatus (od_status m)"
    and k: "k \<in> set (orders s)" "settleableStatus (od_status k)"
    and steps: "pair_settled event mode rt hg p s (settlement_order_of m) (settlement_order_of k) trade s'"
    by (rule settle_pair_Inr)
  from steps obtain notional mf tf feeAcc s1 tid s2 u s3 nm s4 v outbox where
    1: "ensureTradingFeeAccount (pr_quote p) s = Inr (feeAcc, s1)"
    and 2: "settle_funds event (pr_base p) (pr_quote p) (settlement_order_of m) (settlement_order_of k) notional mf tf feeAcc s1 = Inr (tid, s2)"
    and 3: "settle_orders (settlement_order_of m) (settlement_order_of k) (te_SequenceID event) s2 = Inr (u, s3)"
    and 4: "finish_sequence event mode rt hg s3 = Inr (nm, s4)"
    and 5: "(append_outbox ''trade.settled'' ''trade'' tid outbox :: unit trading_tx) s4 = Inr (v, s')"
    unfolding pair_settled_def by blast
  have o2: "orders s2 = orders s" "engine_commands s2 = engine_commands s"
    using settle_frames [OF 2] ensureTradingFeeAccount_frame(1) [OF 1] fee_account_commands [OF 1] by simp_all
  have "\<not> final_status (od_status m)" "\<not> final_status (od_status k)"
    using m k by (auto simp: settleableStatus_def final_status_def)
  then have "may_update (od_id m) s2" "may_update (od_id k) s2"
    using m(1) k(1) o2(1) by (auto intro: may_updateI)
  then have "life_step s2 s3"
    by (intro fromD [OF settle_orders_life _ 3]) (simp add: settlement_order_of_def)
  moreover have "life_step s s2" by (rule life_step_frame [OF o2])
  moreover have "life_step s3 s4"
    using 4 by (intro life_step_frame)
      (auto simp: finish_sequence_def tx_simps set_pair_status_def update_sequence_def split: if_splits)
  moreover have "life_step s4 s'" by (rule respectsD [OF life_statements(1) 5])
  ultimately show "life_step s s'" by (blast intro: life_rel.R_trans)
qed

lemma settlement_statements_life:
  "tx_respects life_step (insert_inbox event hash)" "tx_respects life_step (sequence_row_of pair)"
  "tx_respects life_step (findTradeBySequence pair sid)" "tx_respects life_step (record_gap event expected rt hg)"
  unfolding insert_inbox_def sequence_row_of_def findTradeBySequence_def record_gap_def
  by (auto intro!: life_rel.bind life_rel.pure life_frames simp: set_pair_status_def update_sequence_def
      split: option.splits prod.splits)

lemma settle_tx_life: "tx_respects life_step (settle_tx event hash)"
  unfolding settle_tx_def settle_next_def
  by (auto intro!: life_rel.bind life_rel.pure settlement_statements_life settle_pair_life)

interpretation life_store: store_relation life_step
proof unfold_locales
  show "life_step s (s\<lparr>pg_now := t\<rparr>)" for s t by (rule life_step_frame) simp_all
qed (rule CreateOrder_life ApplyEngineStatus_life RecordDispatchFailure_life PrepareCancel_life
    ApplyCancelAck_life ActivateConditionalOrders_life settle_tx_life)+

interpretation life_system: transition_system order_keys_ok trading_step order_keys_ok
  by unfold_locales (auto dest: life_store.step_R simp: life_step_def)

section \<open>Immutability and idempotency\<close>

lemma demo_order_keys: "order_keys_ok demo_db"
  by (simp add: order_keys_ok_def demo_db_def)

text \<open>
  C7: an accepted order is a permanent record. Under any sequence of store calls no order
  disappears, the columns that describe what the user asked for (owner, account, pair, side, type,
  prices, quantity, flags, idempotency key and request hash) never change, and a canceled or
  rejected order keeps that status, whatever the engine, the user or a settlement sends later.
\<close>

theorem orders_are_permanent:
  assumes "order_keys_ok s" "trading_step\<^sup>*\<^sup>* s t" "r \<in> set (orders s)"
  shows "\<exists>r' \<in> set (orders t). placed_columns r' = placed_columns r \<and>
    (od_status r = ''CANCELED'' \<or> od_status r = ''REJECTED'' \<longrightarrow> od_status r' = od_status r)"
  using life_store.run_R [OF assms(2)] assms(1,3)
  by (auto simp: life_step_def records_kept_def row_kept_def final_status_def)

definition demo_canceled_row :: order_row where
  "demo_canceled_row = (new_order_row demo_buy ''CANCELED'' 90)"

definition demo_canceled_db :: trading_db where
  "demo_canceled_db = demo_db\<lparr>orders := [demo_canceled_row],
     engine_commands := [\<lparr>ec_order = ''o1'', ec_payload = ''p1'', ec_status = ''dispatched'', ec_attempts = 1,
       ec_last_error = [], ec_dispatched_at = Some 95\<rparr>]\<rparr>"

theorem orders_are_permanent_witness:
  "\<forall>cmd. \<exists>r' \<in> set (orders (snd (PrepareCancel cmd demo_canceled_db))). od_id r' = ''o1'' \<and> od_status r' = ''CANCELED''"
proof
  fix cmd
  have "trading_step\<^sup>*\<^sup>* demo_canceled_db (snd (PrepareCancel cmd demo_canceled_db))"
    by (rule r_into_rtranclp) (rule trading_step.prepare_cancel)
  moreover have "order_keys_ok demo_canceled_db" "demo_canceled_row \<in> set (orders demo_canceled_db)"
    by (simp_all add: order_keys_ok_def demo_canceled_db_def demo_db_def)
  ultimately show "\<exists>r' \<in> set (orders (snd (PrepareCancel cmd demo_canceled_db))). od_id r' = ''o1'' \<and> od_status r' = ''CANCELED''"
    using orders_are_permanent [of demo_canceled_db "snd (PrepareCancel cmd demo_canceled_db)" demo_canceled_row]
    by (auto simp: demo_canceled_row_def new_order_row_def placed_columns_def demo_buy_def)
qed

text \<open>The order a request with a used key refers to.\<close>

definition keyed_order :: "trading_db \<Rightarrow> string \<Rightarrow> string \<Rightarrow> string \<Rightarrow> string \<Rightarrow> bool" where
  "keyed_order s userID key i hash \<longleftrightarrow> (\<exists>r \<in> set (orders s). \<exists>c \<in> set (engine_commands s).
     od_user r = userID \<and> od_key r = key \<and> od_id r = i \<and> od_hash r = hash \<and> ec_order c = i)"

lemma joined_member: "oc \<in> set (orders_with_commands s) \<longleftrightarrow>
    fst oc \<in> set (orders s) \<and> snd oc \<in> set (engine_commands s) \<and> ec_order (snd oc) = od_id (fst oc)"
  by (cases oc) (auto simp: orders_with_commands_def)

lemma keyed_order_find:
  assumes "order_keys_ok s" "keyed_order s userID key i hash"
  obtains order where "findByIdempotencyKey userID key s = Inr (Some (order, hash), s)" "o_ID order = i"
proof -
  obtain r c where r: "r \<in> set (orders s)" "c \<in> set (engine_commands s)" "od_user r = userID" "od_key r = key"
    "od_id r = i" "od_hash r = hash" "ec_order c = i"
    using assms(2) by (auto simp: keyed_order_def)
  have "(r, c) \<in> set (orders_with_commands s)" using r by (simp add: joined_member)
  then have "\<exists>oc \<in> set (orders_with_commands s). (\<lambda>(o1, c). od_user o1 = userID \<and> od_key o1 = key) oc"
    using r by (intro bexI [of _ "(r, c)"]) auto
  then obtain oc where f: "find_joined (\<lambda>(o1, c). od_user o1 = userID \<and> od_key o1 = key) s = Some oc"
    unfolding find_joined_def by (metis find_None_iff not_Some_eq)
  then have "fst oc \<in> set (orders s)" "od_user (fst oc) = userID" "od_key (fst oc) = key"
    unfolding find_joined_def by (auto dest!: find_SomeD simp: joined_member)
  then have "fst oc = r"
    using r assms(1) unfolding order_keys_ok_def distinct_map inj_on_def by blast
  then show ?thesis
    using f r by (intro that [of "scan_joined oc"])
      (auto simp: findByIdempotencyKey_def tx_simps scan_joined_def scan_order_def split: prod.splits)
qed

lemma keyed_order_kept:
  assumes "life_step s t" "order_keys_ok s" "keyed_order s userID key i hash"
  shows "keyed_order t userID key i hash"
proof -
  have kept: "records_kept s t" using assms(1,2) by (simp add: life_step_def)
  obtain r c where r: "r \<in> set (orders s)" "c \<in> set (engine_commands s)" "od_user r = userID" "od_key r = key"
    "od_id r = i" "od_hash r = hash" "ec_order c = i"
    using assms(3) by (auto simp: keyed_order_def)
  obtain r' where "r' \<in> set (orders t)" "row_kept r r'" using kept r(1) by (auto simp: records_kept_def)
  moreover obtain c' where "c' \<in> set (engine_commands t)" "ec_order c' = i"
    using kept r(2,7) by (force simp: records_kept_def)
  ultimately show ?thesis using r by (auto simp: keyed_order_def row_kept_def placed_columns_def)
qed

lemma CreateOrder_keyed:
  assumes "CreateOrder_tx i s = Inr (order, s')"
  shows "keyed_order s' (c_UserID i) (c_IdempotencyKey i) (o_ID order) (c_RequestHash i)"
proof -
  obtain s0 found where req: "require_trading_account (c_UserID i) (c_AccountID i) s = Inr ((), s)"
    and f: "findByIdempotencyKey (c_UserID i) (c_IdempotencyKey i) s = Inr (found, s)"
    using assms by (auto simp: CreateOrder_tx_def tx_simps require_trading_account_def findByIdempotencyKey_def)
  show ?thesis
  proof (cases found)
    case (Some oh)
    then obtain o1 h where oh: "found = Some (o1, h)" by (cases oh) auto
    then have "h = c_RequestHash i" "order = o1\<lparr>o_Duplicate := True\<rparr>" "s' = s"
      using assms req f by (auto simp: CreateOrder_tx_def tx_simps bindT_Inr)
    moreover have "keyed_order s (c_UserID i) (c_IdempotencyKey i) (o_ID o1) h"
    proof -
      have "map_option (\<lambda>oc. (scan_joined oc, od_hash (fst oc))) (find_joined (\<lambda>(o1, c). od_user o1 = c_UserID i \<and>
          od_key o1 = c_IdempotencyKey i) s) = Some (o1, h)"
        using f oh by (simp add: findByIdempotencyKey_def tx_simps)
      then obtain oc where "find_joined (\<lambda>(o1, c). od_user o1 = c_UserID i \<and> od_key o1 = c_IdempotencyKey i) s = Some oc"
        and o1: "o1 = scan_joined oc" "h = od_hash (fst oc)" by auto
      then have "oc \<in> set (orders_with_commands s)" "od_user (fst oc) = c_UserID i" "od_key (fst oc) = c_IdempotencyKey i"
        unfolding find_joined_def by (auto dest!: find_SomeD)
      moreover have "o_ID o1 = od_id (fst oc)" by (simp add: o1 scan_joined_def scan_order_def split: prod.splits)
      ultimately show ?thesis by (auto simp: keyed_order_def joined_member o1(2))
    qed
    ultimately show ?thesis by simp
  next
    case None
    then obtain p where "place_new_order i p s = Inr (order, s')"
      using assms req f by (auto simp: CreateOrder_tx_def tx_simps bindT_Inr)
    then obtain hold j s1 s2 where o: "order_placed i p s order s' hold j s1 s2"
      using place_new_order_Inr by blast
    have "o_ID order = c_OrderID i" using o by (simp add: order_placed_def scan_order_def)
    with order_placed_frame(1,5) [OF o] show ?thesis
      by (auto simp: keyed_order_def held_order_row_def new_order_row_def)
  qed
qed


text \<open>A request the store would accept, apart from its key: complete and from an active account.\<close>

definition admissible :: "CreateOrderCommand \<Rightarrow> trading_db \<Rightarrow> bool" where
  "admissible j s \<longleftrightarrow> c_OrderID j \<noteq> [] \<and> c_UserID j \<noteq> [] \<and> c_AccountID j \<noteq> [] \<and> c_IdempotencyKey j \<noteq> [] \<and>
     c_EnginePayload j \<noteq> [] \<and> (\<exists>u. require_trading_account (c_UserID j) (c_AccountID j) s = Inr (u, s))"

lemma require_account_same: "require_trading_account u a s = Inr (x, s') \<Longrightarrow> s' = s"
  by (auto simp: require_trading_account_def tx_simps)

lemma CreateOrder_replay:
  assumes keys: "order_keys_ok t" and ko: "keyed_order t (c_UserID j) (c_IdempotencyKey j) i hash"
  shows "snd (CreateOrder j t) = t"
    "admissible j t \<Longrightarrow> hash = c_RequestHash j \<Longrightarrow>
       \<exists>order. fst (CreateOrder j t) = Inr order \<and> o_ID order = i \<and> o_Duplicate order"
    "admissible j t \<Longrightarrow> hash \<noteq> c_RequestHash j \<Longrightarrow> fst (CreateOrder j t) = Inl (App ErrIdempotencyConflict)"
proof -
  obtain order where f: "findByIdempotencyKey (c_UserID j) (c_IdempotencyKey j) t = Inr (Some (order, hash), t)" "o_ID order = i"
    using keys ko by (rule keyed_order_find)
  have same: "s' = t" if "CreateOrder_tx j t = Inr (x, s')" for x s'
    using that f(1) by (auto simp: CreateOrder_tx_def bindT_Inr tx_simps dest!: require_account_same)
  then show "snd (CreateOrder j t) = t"
    by (auto simp: CreateOrder_def transaction_def split: sum.splits prod.splits)
  have run: "CreateOrder_tx j t = (if hash = c_RequestHash j then Inr (order\<lparr>o_Duplicate := True\<rparr>, t) else Inl (App ErrIdempotencyConflict))"
    if "admissible j t"
    using that f(1) by (auto simp: admissible_def CreateOrder_tx_def bindT_def tx_simps ensureT_def returnT_def failT_def)
  show "\<exists>order. fst (CreateOrder j t) = Inr order \<and> o_ID order = i \<and> o_Duplicate order"
    if "admissible j t" "hash = c_RequestHash j"
    using run [OF that(1)] that(2) f(2) by (auto simp: CreateOrder_def transaction_def)
  show "fst (CreateOrder j t) = Inl (App ErrIdempotencyConflict)" if "admissible j t" "hash \<noteq> c_RequestHash j"
    using run [OF that(1)] that(2) by (auto simp: CreateOrder_def transaction_def)
qed

text \<open>
  C8: placing an order is idempotent. Once a placement has been accepted, any later request of
  the same user with the same idempotency key, after any sequence of other store calls, changes
  nothing in the database: if it is the same request (same hash) it returns the same order, marked
  as a duplicate, and if it is a different request it is refused with the idempotency conflict
  error. So a client that retries can neither reserve funds twice nor send a second order.
\<close>

theorem placement_is_idempotent:
  assumes "order_keys_ok s" "CreateOrder i s = (Inr order, s')" "trading_step\<^sup>*\<^sup>* s' t"
    and "c_UserID j = c_UserID i" "c_IdempotencyKey j = c_IdempotencyKey i"
  shows "snd (CreateOrder j t) = t \<and>
    (admissible j t \<longrightarrow>
       (if c_RequestHash j = c_RequestHash i
        then \<exists>again. fst (CreateOrder j t) = Inr again \<and> o_ID again = o_ID order \<and> o_Duplicate again
        else fst (CreateOrder j t) = Inl (App ErrIdempotencyConflict)))"
proof -
  have run: "CreateOrder_tx i s = Inr (order, s')"
    using assms(2) by (auto simp: CreateOrder_def transaction_def split: sum.splits prod.splits)
  have "order_keys_ok s'"
    using respectsD [OF CreateOrder_life run] assms(1) by (simp add: life_step_def)
  moreover note life = life_store.run_R [OF assms(3)]
  ultimately have "order_keys_ok t" "keyed_order t (c_UserID j) (c_IdempotencyKey j) (o_ID order) (c_RequestHash i)"
    using keyed_order_kept [OF life _ CreateOrder_keyed [OF run]] assms(4,5) by (simp_all add: life_step_def)
  from CreateOrder_replay [OF this] show ?thesis by auto
qed

theorem placement_is_idempotent_witness:
  "(\<exists>order. fst (CreateOrder demo_buy demo_db) = Inr order) \<and> snd (CreateOrder demo_buy demo_after_buy) = demo_after_buy"
proof -
  obtain order where "fst (CreateOrder demo_buy demo_db) = Inr order" using demo_buy_accepted by blast
  then have run: "CreateOrder demo_buy demo_db = (Inr order, demo_after_buy)"
    by (simp add: demo_after_buy_def prod_eq_iff)
  with placement_is_idempotent [OF demo_order_keys run rtranclp.rtrancl_refl refl refl] show ?thesis by simp
qed

end
