(* ===== verification/Settlement_Sequence.thy ===== *)
theory Settlement_Sequence
  imports Order_Lifecycle
begin

text \<open>
  Settlement follows the engine's sequence numbers: the trades of a pair are recorded as 1, 2, 3,
  ... without a gap or a repetition, whatever the message bus repeats, reorders or loses.
\<close>

section \<open>The books of the settlement\<close>

definition same_books :: "trading_db \<Rightarrow> trading_db \<Rightarrow> bool" where
  "same_books s s' \<longleftrightarrow> trades s' = trades s \<and> trade_participants s' = trade_participants s \<and>
     engine_trade_inbox s' = engine_trade_inbox s \<and> engine_symbol_sequences s' = engine_symbol_sequences s"

interpretation books_rel: tx_relation same_books
  by unfold_locales (auto simp: same_books_def)

lemma same_books_orders: "same_books s (s\<lparr>orders := x\<rparr>)"
  by (simp add: same_books_def)

lemma books_frame:
  "(\<And>s. trades (f s) = trades s) \<Longrightarrow> (\<And>s. trade_participants (f s) = trade_participants s) \<Longrightarrow>
   (\<And>s. engine_trade_inbox (f s) = engine_trade_inbox s) \<Longrightarrow>
   (\<And>s. engine_symbol_sequences (f s) = engine_symbol_sequences s) \<Longrightarrow> tx_respects same_books (execT f)"
  by (intro books_rel.exec) (simp add: same_books_def)

lemma books_statements:
  "tx_respects same_books (update_orders p f)" "tx_respects same_books (insert_order row)"
  "tx_respects same_books (append_outbox a b c d)" "tx_respects same_books (appendOrderEvent e g h)"
  "tx_respects same_books (LockAccountAsset err acc asset)"
  "tx_respects same_books (findByID oid)" "tx_respects same_books (findOwnedByID u acc oid)"
  "tx_respects same_books (findByIdempotencyKey u key)" "tx_respects same_books (require_trading_account u acc)"
  "tx_respects same_books (insert_control_command cmd)" "tx_respects same_books (insert_engine_command i j k)"
  "tx_respects same_books (bucketBalance acc asset bk)" "tx_respects same_books (availableBalance acc asset)"
  "tx_respects same_books (post_trading_journal k t r legs)"
  by (auto intro!: respectsI dest: post_journal_frame
      simp: same_books_def tx_simps append_outbox_def appendOrderEvent_def findByID_def findOwnedByID_def
        findByIdempotencyKey_def require_trading_account_def insert_control_command_def
        insert_engine_command_def split: if_splits)

lemmas books_intros = books_rel.bind books_rel.pure books_statements books_frame books_rel.map_each

lemma releaseOrderHold_books: "tx_respects same_books (releaseOrderHold i)"
  unfolding releaseOrderHold_def by (auto intro!: books_intros split: option.splits)

lemma order_methods_books:
  "tx_respects same_books (CreateOrder_tx i)" "tx_respects same_books (ApplyEngineStatus_tx oid event)"
  "tx_respects same_books (RecordDispatchFailure_tx oid reason)" "tx_respects same_books (PrepareCancel_tx cmd)"
  "tx_respects same_books (ApplyCancelAck_tx u oid ack)" "tx_respects same_books (ActivateConditionalOrders_tx pair mp limit)"
proof -
  show "tx_respects same_books (CreateOrder_tx i)"
    unfolding CreateOrder_tx_def place_new_order_def by (auto intro!: books_intros split: option.splits)
  show "tx_respects same_books (ApplyEngineStatus_tx oid event)"
    unfolding ApplyEngineStatus_tx_def write_engine_status_def by (auto intro!: books_intros releaseOrderHold_books)
  show "tx_respects same_books (RecordDispatchFailure_tx oid reason)"
    unfolding RecordDispatchFailure_tx_def by (auto intro!: books_intros)
  show "tx_respects same_books (PrepareCancel_tx cmd)"
    unfolding PrepareCancel_tx_def request_cancel_def
    by (auto intro!: books_intros releaseOrderHold_books split: option.splits)
  show "tx_respects same_books (ApplyCancelAck_tx u oid ack)"
    unfolding ApplyCancelAck_tx_def by (auto intro!: books_intros releaseOrderHold_books)
  show "tx_respects same_books (ActivateConditionalOrders_tx pair mp limit)"
    unfolding ActivateConditionalOrders_tx_def activate_one_def by (auto intro!: books_intros)
qed

lemma settle_orders_books: "tx_respects same_books (settle_orders maker taker sid)"
  unfolding settle_orders_def updateOrderFromSettledTrades_def
  by (auto intro!: books_intros releaseOrderHold_books split: option.splits prod.splits)

lemma fee_account_books: "tx_respects same_books (ensureTradingFeeAccount x)"
  unfolding ensureTradingFeeAccount_def advisory_lock_def gen_random_uuid_def
  by (auto intro!: books_intros respectsI [where m = "\<lambda>s. Inr (f s, g s)" for f g] simp: same_books_def split: option.splits)

text \<open>What a settled trade writes.\<close>

definition settled_books :: "TradeEvent \<Rightarrow> string \<Rightarrow> string \<Rightarrow> u64 \<Rightarrow> bool \<Rightarrow> trading_db \<Rightarrow> string \<Rightarrow> trading_db \<Rightarrow> bool" where
  "settled_books event hash mode rt hg s tid s' \<longleftrightarrow>
     (\<exists>row mk tk. trades s' = trades s @ [row] \<and> tr_id row = tid \<and> tr_pair row = te_Pair event \<and>
        tr_sequence row = uint (te_SequenceID event) \<and>
        trade_participants s' = trade_participants s @ [mk, tk] \<and> tp_trade mk = tid \<and> tp_trade tk = tid \<and>
        tp_role mk = ''maker'' \<and> tp_role tk = ''taker'') \<and>
     (\<exists>now. engine_trade_inbox s' = update_where (\<lambda>r. ib_pair r = te_Pair event \<and> ib_sequence r = uint (te_SequenceID event))
        (\<lambda>r. r\<lparr>ib_processed_at := Some now\<rparr>) (engine_trade_inbox s @
          [\<lparr>ib_pair = te_Pair event, ib_sequence = uint (te_SequenceID event), ib_hash = hash, ib_processed_at = None\<rparr>])) \<and>
     (\<exists>md rep h. engine_symbol_sequences s' = update_where (\<lambda>r. sq_pair r = te_Pair event)
        (\<lambda>r. r\<lparr>sq_last := uint (te_SequenceID event), sq_mode := md, sq_replay_through := uint (rep :: u64), sq_halted_by_gap := h\<rparr>)
        (engine_symbol_sequences s)) \<and>
     (\<forall>t \<in> set (trades s). tr_id t \<noteq> tid) \<and>
     (\<forall>r \<in> set (engine_trade_inbox s). \<not> (ib_pair r = te_Pair event \<and> ib_sequence r = uint (te_SequenceID event)))"

definition gap_closed :: "string \<Rightarrow> TradeEvent \<Rightarrow> u64 \<Rightarrow> bool" where
  "gap_closed mode event rt \<longleftrightarrow> mode = ''replay_required'' \<and> rt \<le> te_SequenceID event"

lemma finish_sequence_Inr:
  assumes "finish_sequence event mode rt hg s = Inr (nm, s')"
  shows "nm = (if gap_closed mode event rt then ''active'' else mode)"
    "trades s' = trades s" "trade_participants s' = trade_participants s"
    "engine_trade_inbox s' = update_where (\<lambda>r. ib_pair r = te_Pair event \<and> ib_sequence r = uint (te_SequenceID event))
        (\<lambda>r. r\<lparr>ib_processed_at := Some (pg_now s)\<rparr>) (engine_trade_inbox s)"
    "engine_symbol_sequences s' = update_where (\<lambda>r. sq_pair r = te_Pair event)
        (\<lambda>r. r\<lparr>sq_last := uint (te_SequenceID event), sq_mode := nm,
           sq_replay_through := uint (if gap_closed mode event rt then 0 else rt),
           sq_halted_by_gap := (if gap_closed mode event rt \<and> hg then False else hg)\<rparr>) (engine_symbol_sequences s)"
    "trading_pairs s' = (if gap_closed mode event rt \<and> hg
       then update_where (\<lambda>p. pr_symbol p = te_Pair event \<and> pr_status p = ''halted'') (\<lambda>p. p\<lparr>pr_status := ''active''\<rparr>) (trading_pairs s)
       else trading_pairs s)"
proof -
  have gc: "mode = ''replay_required'' \<and> rt \<le> te_SequenceID event \<longleftrightarrow> gap_closed mode event rt" by (simp add: gap_closed_def)
  note run = assms [unfolded finish_sequence_def gc bindT_Inr tx_simps set_pair_status_def update_sequence_def]
  show "nm = (if gap_closed mode event rt then ''active'' else mode)" using run by (auto simp: tx_simps)
  show "trades s' = trades s" "trade_participants s' = trade_participants s"
    "engine_trade_inbox s' = update_where (\<lambda>r. ib_pair r = te_Pair event \<and> ib_sequence r = uint (te_SequenceID event))
        (\<lambda>r. r\<lparr>ib_processed_at := Some (pg_now s)\<rparr>) (engine_trade_inbox s)"
    using run by (auto simp: tx_simps split: if_splits)
  show "engine_symbol_sequences s' = update_where (\<lambda>r. sq_pair r = te_Pair event)
        (\<lambda>r. r\<lparr>sq_last := uint (te_SequenceID event), sq_mode := nm,
           sq_replay_through := uint (if gap_closed mode event rt then 0 else rt),
           sq_halted_by_gap := (if gap_closed mode event rt \<and> hg then False else hg)\<rparr>) (engine_symbol_sequences s)"
    using run by (cases "gap_closed mode event rt"; cases hg) (auto simp: tx_simps)
  show "trading_pairs s' = (if gap_closed mode event rt \<and> hg
       then update_where (\<lambda>p. pr_symbol p = te_Pair event \<and> pr_status p = ''halted'') (\<lambda>p. p\<lparr>pr_status := ''active''\<rparr>) (trading_pairs s)
       else trading_pairs s)"
    using run by (cases "gap_closed mode event rt"; cases hg) (auto simp: tx_simps)
qed

lemma settle_next_books:
  assumes "settle_next event hash mode rt hg s = Inr (trade, s')"
  shows "settled_books event hash mode rt hg s (t_ID trade) s' \<and> \<not> t_Duplicate trade"
proof -
  let ?new = "\<lparr>ib_pair = te_Pair event, ib_sequence = uint (te_SequenceID event), ib_hash = hash, ib_processed_at = None\<rparr>"
  from assms obtain s0 p q where s0: "s0 = s\<lparr>engine_trade_inbox := engine_trade_inbox s @ [?new]\<rparr>"
    and fresh: "\<forall>r \<in> set (engine_trade_inbox s). \<not> (ib_pair r = te_Pair event \<and> ib_sequence r = uint (te_SequenceID event))"
    and run: "settle_pair event mode rt hg p q s0 = Inr (trade, s')"
    by (auto simp: settle_next_def insert_inbox_def tx_simps split: prod.splits)
  obtain m k where "pair_settled event mode rt hg p s0 (settlement_order_of m) (settlement_order_of k) trade s'"
    using run by (rule settle_pair_Inr)
  then obtain notional mf tf feeAcc s1 s2 u s3 nm s4 v outbox where
    1: "ensureTradingFeeAccount (pr_quote p) s0 = Inr (feeAcc, s1)"
    and 2: "settle_funds event (pr_base p) (pr_quote p) (settlement_order_of m) (settlement_order_of k) notional mf tf feeAcc s1 = Inr (t_ID trade, s2)"
    and 3: "settle_orders (settlement_order_of m) (settlement_order_of k) (te_SequenceID event) s2 = Inr (u, s3)"
    and 4: "finish_sequence event mode rt hg s3 = Inr (nm, s4)"
    and 5: "(append_outbox ''trade.settled'' ''trade'' (t_ID trade) outbox :: unit trading_tx) s4 = Inr (v, s')"
    and dup: "\<not> t_Duplicate trade"
    unfolding pair_settled_def by blast
  obtain buyer seller bf sf where sd: "sides (settlement_order_of m) (settlement_order_of k) mf tf = (buyer, seller, bf, sf)"
    by (metis prod_cases4)
  obtain t where "funds_settled event (pr_base p) (pr_quote p) (settlement_order_of m) (settlement_order_of k) notional mf tf feeAcc s1 (t_ID trade) s2 t"
    using settle_funds_Inr [OF 2] by blast
  then obtain j key legs mk tk where post: "post_trading_journal key ''trade_settlement'' (t_ID trade) legs t = Inr (j, s2)"
    and t: "trades t = trades s1 @ [trade_row_of event notional (t_ID trade)]"
      "trade_participants t = trade_participants s1 @ [mk, tk]" "tp_trade mk = t_ID trade" "tp_trade tk = t_ID trade"
      "tp_role mk = ''maker''" "tp_role tk = ''taker''" "engine_trade_inbox t = engine_trade_inbox s1"
      "engine_symbol_sequences t = engine_symbol_sequences s1" "\<forall>t \<in> set (trades s1). tr_id t \<noteq> t_ID trade"
    unfolding funds_settled_def sd participant_of_def by auto
  have b: "same_books s0 s1" "same_books s2 s3" "same_books s4 s'"
    using respectsD [OF fee_account_books 1] respectsD [OF settle_orders_books 3] respectsD [OF books_statements(3) 5] by blast+
  note f = finish_sequence_Inr [OF 4]
  have "\<exists>md rep h. engine_symbol_sequences s4 = update_where (\<lambda>r. sq_pair r = te_Pair event)
        (\<lambda>r. r\<lparr>sq_last := uint (te_SequenceID event), sq_mode := md, sq_replay_through := uint (rep :: u64), sq_halted_by_gap := h\<rparr>)
        (engine_symbol_sequences s3)"
    unfolding f(5) by blast
  with t post_journal_frame [OF post] b dup fresh f(2-4) show ?thesis
    unfolding settled_books_def same_books_def by (auto simp: s0 trade_row_of_def)
qed


section \<open>Gapless sequences\<close>

definition last_of :: "trading_db \<Rightarrow> string \<Rightarrow> int" where
  "last_of s pair = (case find (\<lambda>r. sq_pair r = pair) (engine_symbol_sequences s) of None \<Rightarrow> 0 | Some r \<Rightarrow> sq_last r)"

definition pair_sequence :: "trading_db \<Rightarrow> string \<Rightarrow> int list" where
  "pair_sequence s pair = map tr_sequence (filter (\<lambda>t. tr_pair t = pair) (trades s))"

definition inbox_key where "inbox_key b = (ib_pair b, ib_sequence b)"

definition has_sides :: "participant_row list \<Rightarrow> trade_row \<Rightarrow> bool" where
  "has_sides ps t \<longleftrightarrow> (\<exists>p \<in> set ps. tp_trade p = tr_id t \<and> tp_role p = ''maker'') \<and>
     (\<exists>p \<in> set ps. tp_trade p = tr_id t \<and> tp_role p = ''taker'')"

definition sequence_row_ok :: "sequence_row \<Rightarrow> bool" where
  "sequence_row_ok r \<longleftrightarrow> sq_last r \<in> range (uint :: u64 \<Rightarrow> int) \<and> sq_replay_through r \<in> range (uint :: u64 \<Rightarrow> int)"

definition sequence_ok :: "trading_db \<Rightarrow> bool" where
  "sequence_ok s \<longleftrightarrow> (\<forall>pair. pair_sequence s pair = [1 .. last_of s pair]) \<and>
     (\<forall>b \<in> set (engine_trade_inbox s). ib_processed_at b \<noteq> None \<and> 1 \<le> ib_sequence b \<and> ib_sequence b \<le> last_of s (ib_pair b)) \<and>
     distinct (map inbox_key (engine_trade_inbox s)) \<and> list_all (has_sides (trade_participants s)) (trades s) \<and>
     list_all sequence_row_ok (engine_symbol_sequences s)"

definition books_kept :: "trading_db \<Rightarrow> trading_db \<Rightarrow> bool" where
  "books_kept s s' \<longleftrightarrow> (\<exists>rest. trades s' = trades s @ rest) \<and> (\<exists>rest. trade_participants s' = trade_participants s @ rest) \<and>
     set (engine_trade_inbox s) \<subseteq> set (engine_trade_inbox s') \<and> (\<forall>pair. last_of s pair \<le> last_of s' pair)"

definition books_step :: "trading_db \<Rightarrow> trading_db \<Rightarrow> bool" where
  "books_step s s' \<longleftrightarrow> (sequence_ok s \<longrightarrow> sequence_ok s' \<and> books_kept s s')"

lemma books_kept_refl [simp]: "books_kept s s"
  by (auto simp: books_kept_def)

lemma books_kept_trans: "books_kept s t \<Longrightarrow> books_kept t u \<Longrightarrow> books_kept s u"
  unfolding books_kept_def by (auto intro: order_trans)

lemma books_step_refl [simp]: "books_step s s"
  by (simp add: books_step_def)

lemma books_step_trans: "books_step s t \<Longrightarrow> books_step t u \<Longrightarrow> books_step s u"
  by (auto simp: books_step_def intro: books_kept_trans)

text \<open>A change that keeps the books and the last sequence numbers.\<close>

lemma books_step_last:
  assumes "trades s' = trades s" "trade_participants s' = trade_participants s"
    "engine_trade_inbox s' = engine_trade_inbox s" "last_of s' = last_of s"
    "list_all sequence_row_ok (engine_symbol_sequences s) \<Longrightarrow> list_all sequence_row_ok (engine_symbol_sequences s')"
  shows "books_step s s'"
  using assms by (simp add: books_step_def sequence_ok_def books_kept_def pair_sequence_def)

lemma same_books_step: "same_books s s' \<Longrightarrow> books_step s s'"
  by (rule books_step_last) (simp_all add: same_books_def last_of_def fun_eq_iff)

lemma same_books_respects: "tx_respects same_books m \<Longrightarrow> tx_respects books_step m"
  by (auto simp: tx_respects_def intro: same_books_step)

lemma last_of_update:
  assumes "engine_symbol_sequences s' = update_where (\<lambda>r. sq_pair r = pair) f (engine_symbol_sequences s)"
    and "\<And>r. sq_pair (f r) = sq_pair r"
  shows "last_of s' x = (if x = pair \<and> find (\<lambda>r. sq_pair r = pair) (engine_symbol_sequences s) \<noteq> None
    then sq_last (f (the (find (\<lambda>r. sq_pair r = pair) (engine_symbol_sequences s)))) else last_of s x)"
proof -
  have f: "find (\<lambda>r. sq_pair r = x) (engine_symbol_sequences s') =
      map_option (\<lambda>r. if sq_pair r = pair then f r else r) (find (\<lambda>r. sq_pair r = x) (engine_symbol_sequences s))"
    unfolding assms(1) by (rule find_update_where) (simp add: assms(2))
  show ?thesis
  proof (cases "find (\<lambda>r. sq_pair r = x) (engine_symbol_sequences s)")
    case None
    then show ?thesis by (auto simp: last_of_def f)
  next
    case (Some r)
    then have "sq_pair r = x" using find_SomeD by fastforce
    with Some show ?thesis by (auto simp: last_of_def f)
  qed
qed

lemma settled_books_step:
  assumes sb: "settled_books event hash mode rt hg s tid s'"
    and row: "find (\<lambda>r. sq_pair r = te_Pair event) (engine_symbol_sequences s) = Some row"
    and seq: "uint (te_SequenceID event) = last_of s (te_Pair event) + 1" and last: "0 \<le> last_of s (te_Pair event)"
  shows "books_step s s'"
  unfolding books_step_def
proof (intro impI)
  assume ok: "sequence_ok s"
  let ?n = "uint (te_SequenceID event)" and ?p = "te_Pair event"
  from sb obtain tr mk tk where tr: "trades s' = trades s @ [tr]" "tr_id tr = tid" "tr_pair tr = ?p" "tr_sequence tr = ?n"
    and parts: "trade_participants s' = trade_participants s @ [mk, tk]" "tp_trade mk = tid" "tp_trade tk = tid"
      "tp_role mk = ''maker''" "tp_role tk = ''taker''"
    by (auto simp: settled_books_def)
  from sb obtain now where inbox: "engine_trade_inbox s' = update_where (\<lambda>r. ib_pair r = ?p \<and> ib_sequence r = ?n)
        (\<lambda>r. r\<lparr>ib_processed_at := Some now\<rparr>) (engine_trade_inbox s @
          [\<lparr>ib_pair = ?p, ib_sequence = ?n, ib_hash = hash, ib_processed_at = None\<rparr>])"
    by (auto simp: settled_books_def)
  from sb have fresh: "\<forall>r \<in> set (engine_trade_inbox s). \<not> (ib_pair r = ?p \<and> ib_sequence r = ?n)"
    by (simp add: settled_books_def)
  then have inbox': "engine_trade_inbox s' = engine_trade_inbox s @
      [\<lparr>ib_pair = ?p, ib_sequence = ?n, ib_hash = hash, ib_processed_at = Some now\<rparr>]"
    unfolding inbox by (auto simp: update_where_def intro!: map_idI)
  from sb obtain md h and rep :: u64 where sq: "engine_symbol_sequences s' = update_where (\<lambda>r. sq_pair r = ?p)
        (\<lambda>r. r\<lparr>sq_last := ?n, sq_mode := md, sq_replay_through := uint rep, sq_halted_by_gap := h\<rparr>) (engine_symbol_sequences s)"
    by (auto simp: settled_books_def)
  have "list_all sequence_row_ok (engine_symbol_sequences s')"
    using ok by (auto simp: sq sequence_ok_def list_all_iff set_update_where sequence_row_ok_def)
  moreover from last_of_update [OF sq] have lasts: "last_of s' x = (if x = ?p then ?n else last_of s x)" for x
    using row by auto
  moreover have "pair_sequence s' x = [1 .. last_of s' x]" for x
    using ok tr(1,3,4) seq last by (auto simp: sequence_ok_def pair_sequence_def lasts upto_rec2)
  moreover have "list_all (has_sides (trade_participants s')) (trades s')"
    using ok tr parts by (auto simp: sequence_ok_def has_sides_def list_all_iff)
  moreover have "ib_processed_at b \<noteq> None \<and> 1 \<le> ib_sequence b \<and> ib_sequence b \<le> last_of s' (ib_pair b)"
    if "b \<in> set (engine_trade_inbox s')" for b
    using that ok seq last unfolding inbox' lasts by (force simp: sequence_ok_def)
  moreover have "distinct (map inbox_key (engine_trade_inbox s'))"
    using ok fresh by (auto simp: inbox' sequence_ok_def inbox_key_def)
  ultimately have "sequence_ok s'" by (simp add: sequence_ok_def)
  moreover have "books_kept s s'" using tr(1) parts(1) seq by (auto simp: books_kept_def inbox' lasts)
  ultimately show "sequence_ok s' \<and> books_kept s s'" ..
qed

lemma parseSequence_BigString: "parseSequence (BigString n) = Inr v \<Longrightarrow> uint v = n \<and> 0 \<le> n"
proof -
  assume "parseSequence (BigString n) = Inr v"
  then have p: "ParseUint (BigString n) = Some v" by (auto simp: parseSequence_def split: option.splits)
  then have "\<not> n < 0" by (auto simp: ParseUint_def BigString_def all_digits_def is_digit_def split: if_splits)
  then show ?thesis using p by (auto simp: ParseUint_def BigString_def uint_word_of_int split: if_splits)
qed

lemma sequence_row_of_Inr:
  assumes "sequence_row_of pair s = Inr (row, s1)"
  shows "find (\<lambda>r. sq_pair r = pair) (engine_symbol_sequences s1) = Some row"
    "last_of s1 pair = sq_last row" "last_of s1 = last_of s"
    "s1 = s\<lparr>engine_symbol_sequences := engine_symbol_sequences s1\<rparr>"
    "find (\<lambda>r. sq_pair r = pair) (engine_symbol_sequences s) \<noteq> None \<Longrightarrow> s1 = s"
proof -
  have found: "find (\<lambda>r. sq_pair r = pair) (engine_symbol_sequences s1) = Some row"
    using assms by (auto simp: sequence_row_of_def tx_simps split: option.splits)
  then show "find (\<lambda>r. sq_pair r = pair) (engine_symbol_sequences s1) = Some row" .
  then show "last_of s1 pair = sq_last row" by (simp add: last_of_def)
  show "s1 = s" if "find (\<lambda>r. sq_pair r = pair) (engine_symbol_sequences s) \<noteq> None"
    using assms that by (auto simp: sequence_row_of_def tx_simps)
  have "s1 = s \<or> find (\<lambda>r. sq_pair r = pair) (engine_symbol_sequences s) = None \<and>
     s1 = s\<lparr>engine_symbol_sequences := engine_symbol_sequences s @
       [\<lparr>sq_pair = pair, sq_last = 0, sq_mode = ''active'', sq_replay_through = 0, sq_halted_by_gap = False\<rparr>]\<rparr>"
    using assms by (auto simp: sequence_row_of_def tx_simps split: option.splits)
  then show "last_of s1 = last_of s" "s1 = s\<lparr>engine_symbol_sequences := engine_symbol_sequences s1\<rparr>"
    by (auto simp: last_of_def fun_eq_iff find_append split: option.splits if_splits)
qed

lemma gap_books_step:
  assumes "record_gap event expected rt hg s = Inr (res, s')"
  shows "books_step s s'"
proof -
  obtain md h and rep :: u64 where sq: "engine_symbol_sequences s' = update_where (\<lambda>r. sq_pair r = te_Pair event)
      (\<lambda>r. r\<lparr>sq_mode := md, sq_replay_through := uint rep, sq_halted_by_gap := h\<rparr>) (engine_symbol_sequences s)"
    and frame: "trades s' = trades s" "trade_participants s' = trade_participants s" "engine_trade_inbox s' = engine_trade_inbox s"
    using assms by (auto simp: record_gap_def tx_simps set_pair_status_def update_sequence_def)
  from last_of_update [OF sq] have "last_of s' = last_of s"
    by (auto simp: fun_eq_iff last_of_def)
  with frame show ?thesis
    by (rule books_step_last) (auto simp: sq list_all_iff set_update_where sequence_row_ok_def)
qed

lemma findTradeBySequence_same: "findTradeBySequence pair sid s = Inr (trade, s') \<Longrightarrow> s' = s"
  by (auto simp: findTradeBySequence_def tx_simps split: prod.splits)

text \<open>The ways a settlement transaction commits.\<close>

lemma settle_tx_cases:
  assumes "settle_tx event hash s = Inr (res, s')"
  obtains (duplicate) s1 row trade where "sequence_row_of (te_Pair event) s = Inr (row, s1)" "s' = s1"
      "findTradeBySequence (te_Pair event) (te_SequenceID event) s1 = Inr (trade, s1)" "res = Inr (trade\<lparr>t_Duplicate := True\<rparr>)"
      "find (\<lambda>r. ib_pair r = te_Pair event \<and> ib_sequence r = uint (te_SequenceID event)) (engine_trade_inbox s1) \<noteq> None"
  | (gap) s1 row last rt where "sequence_row_of (te_Pair event) s = Inr (row, s1)"
      "uint last = sq_last row" "last + 1 < te_SequenceID event"
      "record_gap event (last + 1) rt (sq_halted_by_gap row) s1 = Inr (res, s')"
  | (settled) s1 row last rt trade where "sequence_row_of (te_Pair event) s = Inr (row, s1)"
      "uint last = sq_last row" "te_SequenceID event = last + 1" "te_SequenceID event \<noteq> 0"
      "settle_next event hash (sq_mode row) rt (sq_halted_by_gap row) s1 = Inr (trade, s')" "res = Inr trade"
      "uint rt = sq_replay_through row"
proof -
  let ?inbox = "\<lambda>s. find (\<lambda>r. ib_pair r = te_Pair event \<and> ib_sequence r = uint (te_SequenceID event)) (engine_trade_inbox s)"
  from assms obtain row s1 last rt where ev: "TradeEvent_Validate event = None"
    and row: "sequence_row_of (te_Pair event) s = Inr (row, s1)"
    and last: "parseSequence (BigString (sq_last row)) = Inr last"
    and rt: "parseSequence (BigString (sq_replay_through row)) = Inr rt"
    and run: "(if (case ?inbox s1 of None \<Rightarrow> False | Some r \<Rightarrow> ib_processed_at r \<noteq> None)
     then bindT (findTradeBySequence (te_Pair event) (te_SequenceID event)) (\<lambda>trade.
       returnT (Inr (trade\<lparr>t_Duplicate := True\<rparr>)))
     else if te_SequenceID event \<noteq> last + 1
     then if te_SequenceID event < last + 1 then failT (App ErrSequenceConflict)
       else record_gap event (last + 1) rt (sq_halted_by_gap row)
     else bindT (settle_next event hash (sq_mode row) rt (sq_halted_by_gap row)) (\<lambda>trade.
       returnT (Inr trade))) s1 = Inr (res, s')"
    unfolding settle_tx_def bindT_Inr tx_simps by blast
  have nz: "te_SequenceID event \<noteq> 0" using ev by (auto simp: TradeEvent_Validate_def split: if_splits)
  have l: "uint last = sq_last row" using parseSequence_BigString [OF last] by simp
  show ?thesis
  proof (cases "case ?inbox s1 of None \<Rightarrow> False | Some r \<Rightarrow> ib_processed_at r \<noteq> None")
    case True
    then obtain trade s2 where f: "findTradeBySequence (te_Pair event) (te_SequenceID event) s1 = Inr (trade, s2)"
      and res: "res = Inr (trade\<lparr>t_Duplicate := True\<rparr>)" "s' = s2"
      using run unfolding if_P [OF True] bindT_Inr tx_simps by blast
    have "?inbox s1 \<noteq> None" using True by (cases "?inbox s1") simp_all
    with row f res show ?thesis using findTradeBySequence_same [OF f] by (intro duplicate [of row s1 trade]) simp_all
  next
    case False
    note run = run [unfolded if_not_P [OF False]]
    consider "te_SequenceID event = last + 1" | "te_SequenceID event \<noteq> last + 1" "\<not> te_SequenceID event < last + 1"
      using run by (auto simp: tx_simps split: if_splits)
    then show ?thesis
    proof cases
      case 1
      then show ?thesis using run row l nz parseSequence_BigString [OF rt]
        by (auto simp: bindT_Inr tx_simps intro: settled)
    next
      case 2
      then show ?thesis using run row l by (intro gap [of row s1 last rt]) auto
    qed
  qed
qed

lemma uint_succ: "n + 1 \<noteq> (0 :: u64) \<Longrightarrow> uint (n + 1) = uint n + 1"
proof -
  assume n: "n + 1 \<noteq> 0"
  have u: "uint (n + 1) = (uint n + 1) mod 2 ^ 64" by (simp add: uint_word_ariths)
  have b: "0 \<le> uint n" "uint n < 2 ^ 64" using uint_lt2p [of n] by simp_all
  have "uint n + 1 \<noteq> 2 ^ 64"
  proof
    assume "uint n + 1 = 2 ^ 64"
    then have "uint (n + 1) = 0" using u by simp
    then show False using n by (simp add: word_uint_eqI)
  qed
  then show ?thesis using u b by (simp add: mod_pos_pos_trivial)
qed

lemma new_sequence_row_step:
  assumes "sequence_row_of pair s = Inr (row, s1)"
  shows "books_step s s1"
proof -
  note r = sequence_row_of_Inr [OF assms]
  have "trades s1 = trades s" "trade_participants s1 = trade_participants s" "engine_trade_inbox s1 = engine_trade_inbox s"
    by (subst r(4), simp)+
  then show ?thesis
  proof (rule books_step_last [OF _ _ _ r(3)])
    show "list_all sequence_row_ok (engine_symbol_sequences s) \<Longrightarrow> list_all sequence_row_ok (engine_symbol_sequences s1)"
      using assms by (auto simp: sequence_row_of_def tx_simps sequence_row_ok_def range_eqI [of 0 uint 0] split: option.splits)
  qed
qed

lemma settle_tx_books: "tx_respects books_step (settle_tx event hash)"
proof (rule respectsI)
  fix s res s'
  assume "settle_tx event hash s = Inr (res, s')"
  then show "books_step s s'"
  proof (cases rule: settle_tx_cases)
    case (duplicate s1 row trade)
    then show ?thesis using new_sequence_row_step by simp
  next
    case (gap s1 row last rt)
    then show ?thesis by (blast intro: books_step_trans new_sequence_row_step gap_books_step)
  next
    case (settled s1 row last rt trade)
    note r = sequence_row_of_Inr [OF settled(1)]
    have "uint (te_SequenceID event) = sq_last row + 1"
      using uint_succ [of last] settled(2-4) by simp
    moreover have "0 \<le> last_of s1 (te_Pair event)" unfolding r(2) settled(2) [symmetric] by simp
    moreover have "settled_books event hash (sq_mode row) rt (sq_halted_by_gap row) s1 (t_ID trade) s'"
      using settle_next_books [OF settled(5)] ..
    ultimately have "books_step s1 s'" using settled_books_step [OF _ r(1)] r(2) by simp
    then show ?thesis using new_sequence_row_step [OF settled(1)] by (blast intro: books_step_trans)
  qed
qed

interpretation books_store: store_relation books_step
proof unfold_locales
  show "books_step s s" for s by (rule books_step_refl)
  show "books_step s t \<Longrightarrow> books_step t u \<Longrightarrow> books_step s u" for s t u by (rule books_step_trans)
  show "books_step s (s\<lparr>pg_now := t\<rparr>)" for s t by (rule same_books_step) (simp add: same_books_def)
qed (rule order_methods_books [THEN same_books_respects] settle_tx_books)+

interpretation sequence_system: transition_system sequence_ok trading_step sequence_ok
  by unfold_locales (auto dest: books_store.step_R simp: books_step_def)

section \<open>Properties\<close>

lemma demo_sequence_ok: "sequence_ok demo_db"
  by (simp add: sequence_ok_def pair_sequence_def last_of_def demo_db_def)

text \<open>
  C9: the trades of every pair are recorded in the engine's order, without a gap and without a
  repetition. After any sequence of store calls, with trade events delivered in any order and any
  number of times, the sequence numbers of a pair's trades are exactly 1, 2, ..., n, where n is
  the last sequence number the store has recorded for the pair; the list of trades only grows.
\<close>

theorem settled_trades_are_gapless:
  assumes "sequence_ok s" "trading_step\<^sup>*\<^sup>* s t"
  shows "map tr_sequence (filter (\<lambda>r. tr_pair r = pair) (trades t)) = [1 .. last_of t pair] \<and>
    (\<exists>rest. trades t = trades s @ rest)"
proof -
  have "sequence_ok t" using assms by (rule sequence_system.inv_reachable)
  then show ?thesis
    using books_store.run_R [OF assms(2)] assms(1)
    by (simp add: sequence_ok_def pair_sequence_def books_step_def books_kept_def)
qed

theorem settled_trades_are_gapless_witness:
  "map tr_sequence (filter (\<lambda>r. tr_pair r = ''BTCUSDT'') (trades demo_after_buy)) = [1 .. last_of demo_after_buy ''BTCUSDT'']"
proof -
  have "trading_step\<^sup>*\<^sup>* demo_db demo_after_buy"
    unfolding demo_after_buy_def by (rule r_into_rtranclp) (rule trading_step.create)
  with settled_trades_are_gapless [OF demo_sequence_ok] show ?thesis by blast
qed

text \<open>What the store remembers of a settled trade.\<close>

definition settled_record :: "TradeEvent \<Rightarrow> string \<Rightarrow> string \<Rightarrow> trading_db \<Rightarrow> bool" where
  "settled_record event hash tid s \<longleftrightarrow>
     (\<exists>row \<in> set (trades s). tr_pair row = te_Pair event \<and> tr_sequence row = uint (te_SequenceID event) \<and> tr_id row = tid) \<and>
     (\<exists>b \<in> set (engine_trade_inbox s). ib_pair b = te_Pair event \<and> ib_sequence b = uint (te_SequenceID event) \<and> ib_hash b = hash)"

lemma settled_record_kept: "books_kept s t \<Longrightarrow> settled_record event hash tid s \<Longrightarrow> settled_record event hash tid t"
  unfolding books_kept_def settled_record_def by auto

lemma findTradeBySequence_Inr:
  assumes "findTradeBySequence pair sid s = Inr (trade, s')"
  shows "\<exists>row \<in> set (trades s). tr_pair row = pair \<and> tr_sequence row = uint sid \<and> tr_id row = t_ID trade"
proof -
  let ?p = "\<lambda>(t, mk, tk). tr_pair t = pair \<and> tr_sequence t = uint sid \<and>
          tp_trade mk = tr_id t \<and> tp_role mk = ''maker'' \<and> tp_trade tk = tr_id t \<and> tp_role tk = ''taker''"
  let ?l = "List.product (trades s) (List.product (trade_participants s) (trade_participants s))"
  obtain t mk tk where x: "find ?p ?l = Some (t, mk, tk)" and "tr_id t = t_ID trade"
    using assms by (auto simp: findTradeBySequence_def tx_simps)
  moreover have "t \<in> set (trades s)" "tr_pair t = pair" "tr_sequence t = uint sid"
    using find_SomeD [OF x] by simp_all
  ultimately show ?thesis by blast
qed

lemma inbox_hash_checked:
  assumes "settle_tx event hash s = Inr (res, s')" "sequence_row_of (te_Pair event) s = Inr (row, s1)"
    "find (\<lambda>r. ib_pair r = te_Pair event \<and> ib_sequence r = uint (te_SequenceID event)) (engine_trade_inbox s1) = Some b"
  shows "ib_hash b = hash"
  using assms by (auto simp: settle_tx_def bindT_Inr tx_simps)

lemma settle_tx_record:
  assumes run: "settle_tx event hash s = Inr (Inr trade, s')"
  shows "settled_record event hash (t_ID trade) s'"
  using run
proof (cases rule: settle_tx_cases)
  case (duplicate s1 row trade0)
  then obtain b where b: "find (\<lambda>r. ib_pair r = te_Pair event \<and> ib_sequence r = uint (te_SequenceID event)) (engine_trade_inbox s1) = Some b"
    by auto
  have "ib_hash b = hash" by (rule inbox_hash_checked [OF run duplicate(1) b])
  then show ?thesis
    using findTradeBySequence_Inr [OF duplicate(3)] duplicate(2,4) find_SomeD [OF b] by (auto simp: settled_record_def)
next
  case (gap s1 row last rt)
  then show ?thesis by (auto simp: record_gap_def tx_simps)
next
  case (settled s1 row last rt trade0)
  then have "settled_books event hash (sq_mode row) rt (sq_halted_by_gap row) s1 (t_ID trade) s'"
    using settle_next_books by blast
  then show ?thesis
    by (auto simp: settled_books_def settled_record_def update_where_def)
qed

lemma parse_sequence_ok: "x \<in> range (uint :: u64 \<Rightarrow> int) \<Longrightarrow> \<exists>v. parseSequence (BigString x) = Inr v"
proof -
  have "BigString (uint n) = FormatUint n" for n :: u64 by (simp add: BigString_def FormatUint_def)
  then have "parseSequence (BigString (uint n)) = Inr n" for n :: u64 by (simp add: parseSequence_def)
  then show "x \<in> range (uint :: u64 \<Rightarrow> int) \<Longrightarrow> \<exists>v. parseSequence (BigString x) = Inr v" by blast
qed

lemma find_exists: "x \<in> set l \<Longrightarrow> p x \<Longrightarrow> \<exists>y. find p l = Some y"
  by (cases "find p l") (auto simp: find_None_iff)

lemma findTradeBySequence_total:
  assumes ok: "sequence_ok s" and row: "row \<in> set (trades s)" "tr_pair row = pair" "tr_sequence row = uint sid"
  shows "\<exists>trade. findTradeBySequence pair sid s = Inr (trade, s) \<and> t_ID trade = tr_id row"
proof -
  let ?p = "\<lambda>(t, mk, tk). tr_pair t = pair \<and> tr_sequence t = uint sid \<and>
          tp_trade mk = tr_id t \<and> tp_role mk = ''maker'' \<and> tp_trade tk = tr_id t \<and> tp_role tk = ''taker''"
  let ?l = "List.product (trades s) (List.product (trade_participants s) (trade_participants s))"
  have "has_sides (trade_participants s) row" using ok row(1) by (simp add: sequence_ok_def list_all_iff)
  then obtain mk tk where "mk \<in> set (trade_participants s)" "tp_trade mk = tr_id row" "tp_role mk = ''maker''"
    "tk \<in> set (trade_participants s)" "tp_trade tk = tr_id row" "tp_role tk = ''taker''"
    by (auto simp: has_sides_def)
  then have "(row, mk, tk) \<in> set ?l" "?p (row, mk, tk)" using row by simp_all
  then obtain x where x: "find ?p ?l = Some x" using find_exists [of "(row, mk, tk)" ?l ?p] by blast
  obtain t mk' tk' where xt: "x = (t, mk', tk')" by (cases x)
  have t: "t \<in> set (trades s)" "tr_pair t = pair" "tr_sequence t = uint sid"
    using find_SomeD [OF x] unfolding xt by auto
  have "distinct (map tr_sequence (filter (\<lambda>t. tr_pair t = pair) (trades s)))"
    using ok by (simp add: sequence_ok_def pair_sequence_def)
  then have "t = row"
    using t row unfolding distinct_map inj_on_def by auto
  moreover obtain v where "parseSequence (BigString (tr_sequence t)) = Inr v" using parse_sequence_ok t(3) by blast
  ultimately show ?thesis using x unfolding xt by (simp add: findTradeBySequence_def bindT_def rowT_def liftT_def returnT_def)
qed

end
