(* ===== verification/Trading_Service.thy ===== *)
theory Trading_Service
  imports Settlement_Store
begin

text \<open>
  The trading service, internal/trading/service.go, and the settlement consumer,
  internal/trading/settlement.go: the code that talks to the store and to the matching engine.
  A service method is not one transaction. Its state is the database together with the requests
  already sent to the engine, and an error leaves that state where it is. The engine's reply is a
  parameter: a function of the requests it has received before and of the request, or
  \<open>None\<close> for the nil interface. Fee tiers, the clock and the random bytes are parameters too.
\<close>

unbundle bit_operations_syntax

section \<open>The state of a service call\<close>

record service_world =
  sw_db :: trading_db
  sw_sent :: "string list"

type_synonym engine = "string list \<Rightarrow> string \<Rightarrow> string + string"

record service =
  sv_env :: go_env
  sv_wire :: wire
  sv_fees :: "string \<Rightarrow> string \<Rightarrow> trading_failure + FeeTier"
  sv_engine :: "engine option"
  sv_control :: "engine option"
  sv_now :: int
  sv_random :: "string + u8 list"

type_synonym 'a svc = "service_world \<Rightarrow> (trading_failure + 'a) \<times> service_world"

definition returnS :: "'a \<Rightarrow> 'a svc" where
  "returnS x w = (Inr x, w)"

definition failS :: "trading_error \<Rightarrow> 'a svc" where
  "failS e w = (Inl (App e), w)"

definition bindS :: "'a svc \<Rightarrow> ('a \<Rightarrow> 'b svc) \<Rightarrow> 'b svc" where
  "bindS m f w = (case m w of (Inl e, w') \<Rightarrow> (Inl e, w') | (Inr x, w') \<Rightarrow> f x w')"

definition liftS :: "trading_failure + 'a \<Rightarrow> 'a svc" where
  "liftS r w = (r, w)"

text \<open>A method of the store.\<close>

definition storeS :: "(trading_db \<Rightarrow> (trading_failure + 'a) \<times> trading_db) \<Rightarrow> 'a svc" where
  "storeS m w = (let (r, s) = m (sw_db w) in (r, w\<lparr>sw_db := s\<rparr>))"

text \<open>\<open>_ = service.store.RecordDispatchFailure(...)\<close>: the error is dropped.\<close>

definition ignoreS :: "'a svc \<Rightarrow> unit svc" where
  "ignoreS m w = (Inr (), snd (m w))"

text \<open>\<open>Engine.Request\<close>: the reply or the transport error is a value for the caller to inspect.\<close>

definition requestS :: "engine \<Rightarrow> string \<Rightarrow> (string + string) svc" where
  "requestS engine payload w = (Inr (engine (sw_sent w) payload), w\<lparr>sw_sent := sw_sent w @ [payload]\<rparr>)"

definition other_error :: "string + 'a \<Rightarrow> trading_failure + 'a" where
  "other_error r = map_sum (\<lambda>e. App (ErrOther e)) id r"

section \<open>Conversions to the wire\<close>

definition protocolSide :: "string \<Rightarrow> u8" where
  "protocolSide value = (if value = ''SELL'' then OrderSideSell else OrderSideBuy)"

definition protocolOrderType :: "string \<Rightarrow> u8" where
  "protocolOrderType value =
     (if value = ''MARKET'' then OrderTypeMarket else if value = ''STOP_LIMIT'' then OrderTypeStopLimit else OrderTypeLimit)"

definition protocolTimeInForce :: "string \<Rightarrow> u8" where
  "protocolTimeInForce value =
     (if value = ''IOC'' then TimeInForceIOC else if value = ''FOK'' then TimeInForceFOK else TimeInForceGTC)"

text \<open>\<open>%x\<close> of a byte slice, and the version 4 UUID of sixteen random bytes.\<close>

definition hex_digit :: "u8 \<Rightarrow> char" where
  "hex_digit n = (if n < 10 then char_of (48 + unat n) else char_of (87 + unat n))"

definition hex_bytes :: "u8 list \<Rightarrow> string" where
  "hex_bytes bs = concat (map (\<lambda>b. [hex_digit (b div 16), hex_digit (b mod 16)]) bs)"

definition stamp_uuid :: "u8 list \<Rightarrow> u8 list" where
  "stamp_uuid value = value[6 := (value ! 6 AND 15) OR 64, 8 := (value ! 8 AND 63) OR 128]"

definition format_uuid :: "u8 list \<Rightarrow> string" where
  "format_uuid v = hex_bytes (take 4 v) @ ''-'' @ hex_bytes (take 2 (drop 4 v)) @ ''-'' @ hex_bytes (take 2 (drop 6 v)) @
     ''-'' @ hex_bytes (take 2 (drop 8 v)) @ ''-'' @ hex_bytes (take 6 (drop 10 v))"

definition randomUUID :: "string + u8 list \<Rightarrow> trading_failure + string" where
  "randomUUID random = (case random of Inl e \<Rightarrow> Inl (App (ErrOther e)) | Inr value \<Rightarrow> Inr (format_uuid (stamp_uuid value)))"

section \<open>Placing an order\<close>

definition tier_fits_wire :: "FeeTier \<Rightarrow> bool" where
  "tier_fits_wire t \<longleftrightarrow> \<not> (ft_Level t < 0 \<or> ft_Level t > 255 \<or> ft_MakerFeeBPS t < - 32768 \<or> ft_MakerFeeBPS t > 32767 \<or>
     ft_TakerFeeBPS t < - 32768 \<or> ft_TakerFeeBPS t > 32767)"

definition order_ingress :: "service \<Rightarrow> string \<Rightarrow> PlaceOrderInput \<Rightarrow> u64 \<Rightarrow> u64 \<Rightarrow> FeeTier \<Rightarrow> OrderIngress" where
  "order_ingress sv orderID n price quantity tier =
     \<lparr>oi_ID = orderID, oi_UserID = in_UserID n, oi_Pair = in_Pair n, oi_Side = protocolSide (in_Side n),
      oi_OrderType = protocolOrderType (effectiveOrderType (in_Type n)), oi_Price = price, oi_Quantity = quantity,
      oi_TimeInForce = protocolTimeInForce (in_TimeInForce n), oi_PostOnly = in_PostOnly n,
      oi_ReduceOnly = in_ReduceOnly n, oi_TimestampNS = word_of_int (sv_now sv),
      oi_FeeTier = word_of_int (ft_Level tier)\<rparr>"

definition order_command :: "service \<Rightarrow> string \<Rightarrow> PlaceOrderInput \<Rightarrow> u64 \<Rightarrow> u64 \<Rightarrow> u64 \<Rightarrow> FeeTier \<Rightarrow>
    string \<Rightarrow> bool \<Rightarrow> string \<Rightarrow> CreateOrderCommand" where
  "order_command sv orderID n price triggerPrice quantity tier holdAmount holdAll payload =
     \<lparr>c_OrderID = orderID, c_UserID = in_UserID n, c_AccountID = in_AccountID n, c_Pair = in_Pair n,
      c_Side = in_Side n, c_Type = in_Type n, c_Price = price, c_Quantity = quantity,
      c_TimeInForce = in_TimeInForce n, c_PostOnly = in_PostOnly n, c_ReduceOnly = in_ReduceOnly n,
      c_FeeTier = ft_Level tier, c_IdempotencyKey = in_IdempotencyKey n, c_RequestHash = requestHash (sv_env sv) n,
      c_HoldAmount = holdAmount, c_HoldAllAvailable = holdAll, c_Conditional = isConditionalType (in_Type n),
      c_TriggerPrice = triggerPrice, c_TriggerDirection = triggerDirection (in_Type n) (in_Side n),
      c_EnginePayload = payload\<rparr>"

text \<open>Sending an order to the engine and storing what it answers.\<close>

definition dispatchOrder :: "service \<Rightarrow> Order \<Rightarrow> Order svc" where
  "dispatchOrder sv order =
     (case sv_engine sv of
        None \<Rightarrow> failS (ErrEngineUnavailable [])
      | Some engine \<Rightarrow>
          bindS (requestS engine (o_EnginePayload order)) (\<lambda>reply.
          case reply of
            Inl err \<Rightarrow> bindS (ignoreS (storeS (RecordDispatchFailure (o_ID order) err))) (\<lambda>_. failS (ErrEngineUnavailable err))
          | Inr data \<Rightarrow>
              (let decoded = DecodeOrderStatusEvent (sv_wire sv) data;
                   failed = (\<lambda>reason. bindS (ignoreS (storeS (RecordDispatchFailure (o_ID order) reason)))
                     (\<lambda>_. failS (ErrEngineResponse reason))) in
               case decoded of
                 Inl err \<Rightarrow> failed err
               | Inr status \<Rightarrow>
                   if se_OrderID status \<noteq> o_ID order then failed ''order acknowledgement did not match the request''
                   else bindS (storeS (ApplyEngineStatus (o_ID order) status)) (\<lambda>updated.
                     returnS (updated\<lparr>o_Duplicate := o_Duplicate order\<rparr>)))))"

definition PlaceOrder :: "service \<Rightarrow> PlaceOrderInput \<Rightarrow> Order svc" where
  "PlaceOrder sv input =
     bindS (liftS (app_result (normalizeOrder (sv_env sv) input))) (\<lambda>(n, price, triggerPrice, quantity).
     bindS (liftS (sv_fees sv (in_UserID n) (in_Pair n))) (\<lambda>tier.
     if \<not> tier_fits_wire tier then failS (ErrInvalidOrder ''fee tier is outside the wire contract'')
     else
     bindS (storeS (transaction (PairRules_tx (in_Pair n)))) (\<lambda>rules.
     bindS (liftS (app_result (reservation (in_Side n) (effectiveOrderType (in_Type n)) price quantity
       (ft_TakerFeeBPS tier) rules))) (\<lambda>(holdAmount, holdAll).
     bindS (liftS (randomUUID (sv_random sv))) (\<lambda>orderID.
     bindS (liftS (other_error (EncodeOrderIngress (sv_wire sv) (order_ingress sv orderID n price quantity tier)))) (\<lambda>payload.
     bindS (storeS (CreateOrder (order_command sv orderID n price triggerPrice quantity tier holdAmount holdAll payload))) (\<lambda>order.
     if o_Status order \<noteq> ''PENDING'' then returnS order else dispatchOrder sv order)))))))"

section \<open>Reading orders\<close>

definition clean_filter :: "go_env \<Rightarrow> OrderFilter \<Rightarrow> OrderFilter" where
  "clean_filter env flt = flt\<lparr>f_Status := ToUpper (uni_upper env) (TrimSpace (f_Status flt)),
     f_Pair := ToUpper (uni_upper env) (TrimSpace (f_Pair flt))\<rparr>"

definition ListOrders :: "service \<Rightarrow> string \<Rightarrow> string \<Rightarrow> OrderFilter \<Rightarrow> Order list svc" where
  "ListOrders sv userID accountID flt0 =
     (let flt = clean_filter (sv_env sv) flt0 in
      if f_Status flt \<noteq> [] \<and> \<not> validOrderStatus (f_Status flt) then failS (ErrInvalidOrder ''status filter is invalid'')
      else if f_Pair flt \<noteq> [] \<and> \<not> validPair (f_Pair flt) then failS (ErrInvalidOrder ''pair filter is invalid'')
      else if f_Offset flt < 0 then failS (ErrInvalidOrder ''offset cannot be negative'')
      else storeS (transaction (ListOrders_tx (TrimSpace userID) (TrimSpace accountID)
        (flt\<lparr>f_Limit := (if f_Limit flt \<le> 0 \<or> f_Limit flt > 200 then 50 else f_Limit flt)\<rparr>))))"

definition GetOrder :: "string \<Rightarrow> string \<Rightarrow> string \<Rightarrow> Order svc" where
  "GetOrder userID accountID orderID =
     (if TrimSpace orderID = [] then failS ErrOrderNotFound
      else storeS (transaction (GetOrder_tx (TrimSpace userID) (TrimSpace accountID) (TrimSpace orderID))))"

section \<open>Cancelling an order\<close>

text \<open>The exchange on the control socket that follows \<open>PrepareCancel\<close>.\<close>

definition control_cancel :: "service \<Rightarrow> string \<Rightarrow> string \<Rightarrow> string \<Rightarrow> string \<Rightarrow> Order \<Rightarrow> Order svc" where
  "control_cancel sv userID orderID commandID payload order =
     (case sv_control sv of
        None \<Rightarrow> failS (ErrEngineUnavailable [])
      | Some engine \<Rightarrow>
          bindS (requestS engine payload) (\<lambda>reply.
          case reply of
            Inl err \<Rightarrow> bindS (ignoreS (storeS (RecordDispatchFailure (o_ID order) err))) (\<lambda>_. failS (ErrEngineUnavailable err))
          | Inr data \<Rightarrow>
              (case DecodeControlAck (sv_wire sv) data of
                 Inl err \<Rightarrow> failS (ErrEngineResponse err)
               | Inr ack \<Rightarrow>
                   if ka_CommandID ack \<noteq> commandID \<or> \<not> ka_Accepted ack
                   then failS (ErrEngineResponse (''control command rejected: '' @ ka_Reason ack))
                   else storeS (ApplyCancelAck userID orderID ack))))"

definition CancelOrder :: "service \<Rightarrow> CancelOrderInput \<Rightarrow> Order svc" where
  "CancelOrder sv input =
     (let userID = TrimSpace (ci_UserID input); accountID = TrimSpace (ci_AccountID input);
          orderID = TrimSpace (ci_OrderID input); key = TrimSpace (ci_IdempotencyKey input) in
      if key = [] then failS ErrIdempotencyRequired
      else if userID = [] \<or> accountID = [] \<or> orderID = [] \<or> length key > 255 then failS (ErrInvalidOrder [])
      else
      bindS (liftS (randomUUID (sv_random sv))) (\<lambda>commandID.
      bindS (storeS (transaction (GetOrder_tx userID accountID orderID))) (\<lambda>existing.
      bindS (liftS (other_error (EncodeCancelOrderCommand (sv_wire sv)
        \<lparr>xc_CommandID = commandID, xc_OrderID = orderID, xc_Pair = o_Pair existing,
         xc_TimestampNS = word_of_int (sv_now sv)\<rparr>))) (\<lambda>payload.
      bindS (storeS (PrepareCancel \<lparr>cc_UserID = userID, cc_AccountID = accountID, cc_OrderID = orderID,
        cc_CommandID = commandID, cc_IdempotencyKey = key, cc_Payload = payload\<rparr>)) (\<lambda>order.
      if o_Status order = ''CANCELED'' then returnS order
      else control_cancel sv userID orderID commandID payload order)))))"

section \<open>Conditional orders\<close>

text \<open>\<open>orders[:index], err\<close>: the orders dispatched so far are returned with the error.\<close>

fun dispatch_all :: "service \<Rightarrow> Order list \<Rightarrow> service_world \<Rightarrow> Order list \<times> trading_failure option \<times> service_world" where
  "dispatch_all sv [] w = ([], None, w)"
| "dispatch_all sv (order # rest) w =
     (case dispatchOrder sv order w of
        (Inl e, w') \<Rightarrow> ([], Some e, w')
      | (Inr updated, w') \<Rightarrow>
          (let (done, err, w'') = dispatch_all sv rest w' in (updated # done, err, w'')))"

definition TriggerConditionalOrders :: "service \<Rightarrow> string \<Rightarrow> u64 \<Rightarrow> int \<Rightarrow> service_world \<Rightarrow>
    Order list \<times> trading_failure option \<times> service_world" where
  "TriggerConditionalOrders sv pair markPrice limit w =
     (let symbol = ToUpper (uni_upper (sv_env sv)) (TrimSpace pair) in
      if markPrice = 0 \<or> \<not> validPair symbol then ([], Some (App (ErrInvalidOrder [])), w)
      else case storeS (ActivateConditionalOrders symbol markPrice limit) w of
        (Inl e, w') \<Rightarrow> ([], Some e, w')
      | (Inr activated, w') \<Rightarrow> dispatch_all sv activated w')"

section \<open>The settlement consumer\<close>

text \<open>\<open>ControlReplayRequester.RequestReplay\<close>.\<close>

definition RequestReplay :: "service \<Rightarrow> string \<Rightarrow> u64 \<Rightarrow> unit svc" where
  "RequestReplay sv pair fromSequence =
     (case sv_control sv of
        None \<Rightarrow> failS (ErrEngineUnavailable [])
      | Some engine \<Rightarrow>
          bindS (liftS (randomUUID (sv_random sv))) (\<lambda>commandID.
          bindS (liftS (other_error (EncodeReplayRequest (sv_wire sv)
            \<lparr>rr_CommandID = commandID, rr_Pair = pair, rr_FromSequence = fromSequence,
             rr_TimestampNS = word_of_int (sv_now sv)\<rparr>))) (\<lambda>payload.
          bindS (requestS engine payload) (\<lambda>reply.
          case reply of
            Inl err \<Rightarrow> failS (ErrEngineUnavailable err)
          | Inr data \<Rightarrow>
              (case DecodeControlAck (sv_wire sv) data of
                 Inl err \<Rightarrow> failS (ErrEngineResponse ''replay acknowledgement is invalid'')
               | Inr ack \<Rightarrow>
                   if ka_CommandID ack \<noteq> commandID \<or> \<not> ka_Accepted ack
                   then failS (ErrEngineResponse ''replay acknowledgement is invalid'')
                   else returnS ())))))"

text \<open>\<open>requester\<close> is \<open>None\<close> for a consumer without a replay requester;
  \<open>aborted\<close> are the attempts PostgreSQL aborts (see \<open>SettleTrade\<close>).\<close>

definition ProcessPayload :: "service \<Rightarrow> service option \<Rightarrow> (nat \<Rightarrow> bool) \<Rightarrow> string \<Rightarrow> Trade svc" where
  "ProcessPayload sv requester aborted payload w =
     (case DecodeTradeEvent (sv_wire sv) payload of
        Inl err \<Rightarrow> failS (ErrSettlementInvalid (''decode trade event: '' @ err)) w
      | Inr event \<Rightarrow>
          (case storeS (SettleTrade aborted event (sha256 (sv_env sv) payload)) w of
             (Inr trade, w') \<Rightarrow> (Inr trade, w')
           | (Inl e, w') \<Rightarrow>
               (case (e, requester) of
                  (App (ErrSequenceGap pair expected received), Some rq) \<Rightarrow>
                    (case RequestReplay rq pair expected w' of
                       (Inl replayErr, w'') \<Rightarrow> (Inl replayErr, w'')
                     | (Inr _, w'') \<Rightarrow> (Inl e, w''))
                | _ \<Rightarrow> (Inl e, w'))))"

text \<open>
  One turn of the consumer's loop: what \<open>ctx.Err()\<close> says before and after \<open>Receive\<close>
  and what \<open>Receive\<close> returns, a topic and a payload or a transport error; and the settlement
  attempts aborted in this turn.
\<close>

record consumer_turn =
  tn_cancelled :: "string option"
  tn_received :: "string + string \<times> string"
  tn_cancelled_after :: "string option"
  tn_aborted :: "nat \<Rightarrow> bool"

definition TopicTrade :: string where "TopicTrade = ''trade''"

definition is_sequence_gap :: "trading_failure \<Rightarrow> bool" where
  "is_sequence_gap e = (case e of App (ErrSequenceGap _ _ _) \<Rightarrow> True | _ \<Rightarrow> False)"

text \<open>The loop over the turns so far; \<open>None\<close> means that it has not returned and waits for
  the next turn.\<close>

fun consumer_loop :: "service \<Rightarrow> service option \<Rightarrow> consumer_turn list \<Rightarrow> service_world \<Rightarrow> trading_failure option \<times> service_world" where
  "consumer_loop sv requester [] w = (None, w)"
| "consumer_loop sv requester (t # rest) w =
     (case tn_cancelled t of
        Some e \<Rightarrow> (Some (App (ErrOther e)), w)
      | None \<Rightarrow>
          (case tn_received t of
             Inl err \<Rightarrow> (Some (App (ErrOther (case tn_cancelled_after t of Some e \<Rightarrow> e | None \<Rightarrow> err))), w)
           | Inr (topic, payload) \<Rightarrow>
               if topic \<noteq> TopicTrade then consumer_loop sv requester rest w
               else case ProcessPayload sv requester (tn_aborted t) payload w of
                 (Inr _, w') \<Rightarrow> consumer_loop sv requester rest w'
               | (Inl e, w') \<Rightarrow> if is_sequence_gap e then consumer_loop sv requester rest w' else (Some e, w')))"

definition Run :: "bool \<Rightarrow> service \<Rightarrow> service option \<Rightarrow> consumer_turn list \<Rightarrow> service_world \<Rightarrow> trading_failure option \<times> service_world" where
  "Run dependencies sv requester turns w =
     (if \<not> dependencies then (Some (App (ErrSettlementInvalid ''settlement consumer dependencies are required'')), w)
      else consumer_loop sv requester turns w)"

section \<open>Identifiers\<close>

lemma length_hex_bytes [simp]: "length (hex_bytes bs) = 2 * length bs"
  by (induction bs) (simp_all add: hex_bytes_def)

lemma length_format_uuid: "length v = 16 \<Longrightarrow> length (format_uuid v) = 36"
  by (simp add: format_uuid_def)

lemma length_stamp_uuid [simp]: "length (stamp_uuid v) = length v"
  by (simp add: stamp_uuid_def)

end
