(* ===== verification/Service_Refinement.thy ===== *)
theory Service_Refinement
  imports Settlement_Sequence Trading_Service
begin

text \<open>
  What the store guarantees holds through the service: every service method is a sequence of store
  steps whatever the engine answers, a retried placement sends the stored command again and never
  a second one, and where a retried cancellation ends.
\<close>

section \<open>Service calls as sequences of store steps\<close>

abbreviation store_run :: "trading_db \<Rightarrow> trading_db \<Rightarrow> bool" where
  "store_run \<equiv> trading_step\<^sup>*\<^sup>*"

text \<open>\<open>runs P m\<close>: \<open>m\<close> moves the database along store steps and what it sends satisfies
  \<open>P\<close>.\<close>

definition runs :: "(string \<Rightarrow> bool) \<Rightarrow> 'a svc \<Rightarrow> bool" where
  "runs P m \<longleftrightarrow> (\<forall>w. store_run (sw_db w) (sw_db (snd (m w))) \<and>
     (\<exists>new. sw_sent (snd (m w)) = sw_sent w @ new \<and> length new \<le> 1 \<and> list_all P new))"

definition quiet :: "'a svc \<Rightarrow> bool" where
  "quiet m \<longleftrightarrow> (\<forall>w. store_run (sw_db w) (sw_db (snd (m w))) \<and> sw_sent (snd (m w)) = sw_sent w)"

lemma quiet_runs: "quiet m \<Longrightarrow> runs P m"
  by (auto simp: quiet_def runs_def)

lemma runs_mono: "runs P m \<Longrightarrow> (\<And>p. P p \<Longrightarrow> Q p) \<Longrightarrow> runs Q m"
  unfolding runs_def by (metis (no_types, lifting) list.pred_mono_strong)

lemma bindS_snd: "snd (bindS m f w) = (case m w of (Inl e, w') \<Rightarrow> w' | (Inr x, w') \<Rightarrow> snd (f x w'))"
  by (auto simp: bindS_def split: sum.splits prod.splits)

lemma quiet_bindS: "quiet m \<Longrightarrow> (\<And>x. quiet (f x)) \<Longrightarrow> quiet (bindS m f)"
  unfolding quiet_def
proof (intro allI)
  fix w
  assume 1: "\<forall>w. store_run (sw_db w) (sw_db (snd (m w))) \<and> sw_sent (snd (m w)) = sw_sent w"
    and 2: "\<And>x. \<forall>w. store_run (sw_db w) (sw_db (snd (f x w))) \<and> sw_sent (snd (f x w)) = sw_sent w"
  obtain r w' where "m w = (r, w')" by (cases "m w")
  with 1 [rule_format, of w] 2
  show "store_run (sw_db w) (sw_db (snd (bindS m f w))) \<and> sw_sent (snd (bindS m f w)) = sw_sent w"
    by (cases r) (auto simp: bindS_snd intro: rtranclp_trans)
qed

lemma runs_after: "quiet m \<Longrightarrow> (\<And>w x w'. m w = (Inr x, w') \<Longrightarrow> runs P (f x)) \<Longrightarrow> runs P (bindS m f)"
  unfolding runs_def
proof (intro allI)
  fix w
  assume q: "quiet m"
    and 2: "\<And>w x w'. m w = (Inr x, w') \<Longrightarrow> \<forall>w. store_run (sw_db w) (sw_db (snd (f x w))) \<and>
      (\<exists>new. sw_sent (snd (f x w)) = sw_sent w @ new \<and> length new \<le> 1 \<and> list_all P new)"
  obtain r w' where m: "m w = (r, w')" by (cases "m w")
  have 1: "store_run (sw_db w) (sw_db w')" "sw_sent w' = sw_sent w" using q m by (auto simp: quiet_def dest!: spec [of _ w])
  show "store_run (sw_db w) (sw_db (snd (bindS m f w))) \<and>
     (\<exists>new. sw_sent (snd (bindS m f w)) = sw_sent w @ new \<and> length new \<le> 1 \<and> list_all P new)"
  proof (cases r)
    case (Inl e)
    with 1 m show ?thesis by (auto simp: bindS_snd)
  next
    case (Inr x)
    with 2 [OF m [unfolded Inr], rule_format, of w'] 1 m show ?thesis
      by (auto simp: bindS_snd intro: rtranclp_trans)
  qed
qed

lemma runs_request: "P p \<Longrightarrow> (\<And>x. quiet (f x)) \<Longrightarrow> runs P (bindS (requestS engine p) f)"
  unfolding runs_def quiet_def
proof (intro allI)
  fix w
  assume p: "P p" and 2: "\<And>x. \<forall>w. store_run (sw_db w) (sw_db (snd (f x w))) \<and> sw_sent (snd (f x w)) = sw_sent w"
  show "store_run (sw_db w) (sw_db (snd (bindS (requestS engine p) f w))) \<and>
     (\<exists>new. sw_sent (snd (bindS (requestS engine p) f w)) = sw_sent w @ new \<and> length new \<le> 1 \<and> list_all P new)"
    using p 2 [rule_format, of "w\<lparr>sw_sent := sw_sent w @ [p]\<rparr>" "engine (sw_sent w) p"]
    by (simp add: bindS_snd requestS_def)
qed

lemma quiet_basic: "quiet (returnS x)" "quiet (failS e)" "quiet (liftS r)"
  by (auto simp: quiet_def returnS_def failS_def liftS_def)

lemma quiet_ignoreS: "quiet m \<Longrightarrow> quiet (ignoreS m)"
  by (simp add: quiet_def ignoreS_def)

lemma quiet_storeS: "(\<And>s. store_run s (snd (m s))) \<Longrightarrow> quiet (storeS m)"
  unfolding quiet_def storeS_def Let_def by (auto split: prod.splits) (metis snd_conv)

lemma quiet_read: "(\<And>s x s'. m s = Inr (x, s') \<Longrightarrow> s' = s) \<Longrightarrow> quiet (storeS (transaction m))"
proof (rule quiet_storeS)
  fix s assume "\<And>s x s'. m s = Inr (x, s') \<Longrightarrow> s' = s"
  then have "snd (transaction m s) = s" by (auto simp: transaction_def split: sum.splits)
  then show "store_run s (snd (transaction m s))" by simp
qed

lemma quiet_store_methods:
  "quiet (storeS (CreateOrder cmd))" "quiet (storeS (ApplyEngineStatus i st))"
  "quiet (storeS (RecordDispatchFailure i reason))" "quiet (storeS (PrepareCancel cc))"
  "quiet (storeS (ApplyCancelAck u i ack))" "quiet (storeS (ActivateConditionalOrders pair mp lim))"
  "quiet (storeS (SettleTrade aborted event hash))"
  by (intro quiet_storeS r_into_rtranclp trading_step.intros)+

lemma quiet_queries:
  "quiet (storeS (transaction (PairRules_tx pair)))" "quiet (storeS (transaction (GetOrder_tx u a i)))"
  "quiet (storeS (transaction (ListOrders_tx u a flt)))"
  by (rule quiet_read; auto simp: PairRules_tx_def GetOrder_tx_def ListOrders_tx_def tx_simps)+

lemmas quiet_intros = quiet_bindS quiet_basic quiet_ignoreS quiet_store_methods quiet_queries

lemma dispatchOrder_runs: "runs (\<lambda>p. p = o_EnginePayload order) (dispatchOrder sv order)"
  unfolding dispatchOrder_def Let_def
  by (auto intro!: quiet_runs [OF quiet_basic(2)] runs_request quiet_intros split: option.splits sum.splits)

lemma control_cancel_runs: "runs (\<lambda>p. p = payload) (control_cancel sv u i cid payload order)"
  unfolding control_cancel_def
  by (auto intro!: quiet_runs [OF quiet_basic(2)] runs_request quiet_intros split: option.splits sum.splits)

lemma RequestReplay_runs: "runs (\<lambda>_. True) (RequestReplay sv pair from)"
  unfolding RequestReplay_def
  by (auto intro!: quiet_runs [OF quiet_basic(2)] runs_after [OF quiet_basic(3)] runs_request quiet_intros
      split: option.splits sum.splits)

lemma PlaceOrder_runs: "runs (\<lambda>_. True) (PlaceOrder sv input)"
  unfolding PlaceOrder_def
  by (auto intro!: runs_after [OF quiet_basic(3)] runs_after [OF quiet_queries(1)] runs_after [OF quiet_store_methods(1)]
      quiet_runs [OF quiet_basic(1)] quiet_runs [OF quiet_basic(2)] runs_mono [OF dispatchOrder_runs] split: prod.splits)

lemma CancelOrder_runs: "runs (\<lambda>_. True) (CancelOrder sv input)"
  unfolding CancelOrder_def Let_def
  by (auto intro!: runs_after [OF quiet_basic(3)] runs_after [OF quiet_queries(2)] runs_after [OF quiet_store_methods(4)]
      quiet_runs [OF quiet_basic(1)] quiet_runs [OF quiet_basic(2)] runs_mono [OF control_cancel_runs])

lemma runs_store: "runs P m \<Longrightarrow> m w = (r, w') \<Longrightarrow> store_run (sw_db w) (sw_db w')"
  by (metis runs_def snd_conv)

lemma dispatch_all_run: "dispatch_all sv os w = (done, err, w') \<Longrightarrow> store_run (sw_db w) (sw_db w')"
proof (induction os arbitrary: w "done")
  case (Cons order os)
  obtain r w1 where d: "dispatchOrder sv order w = (r, w1)" by (cases "dispatchOrder sv order w")
  note 1 = runs_store [OF dispatchOrder_runs d]
  show ?case
  proof (cases r)
    case (Inl e)
    with Cons.prems d 1 show ?thesis by simp
  next
    case (Inr o1)
    obtain d2 e2 w2 where "dispatch_all sv os w1 = (d2, e2, w2)" by (metis prod_cases3)
    with Cons.prems d Inr Cons.IH [of w1 d2] 1 show ?thesis by (auto intro: rtranclp_trans)
  qed
qed simp

lemma Trigger_run:
  assumes "TriggerConditionalOrders sv pair mp lim w = (done, err, w')"
  shows "store_run (sw_db w) (sw_db w')"
proof -
  let ?sym = "ToUpper (uni_upper (sv_env sv)) (TrimSpace pair)"
  obtain r w1 where a: "storeS (ActivateConditionalOrders ?sym mp lim) w = (r, w1)"
    by (cases "storeS (ActivateConditionalOrders ?sym mp lim) w")
  have 1: "store_run (sw_db w) (sw_db w1)"
    using quiet_store_methods(6) a unfolding quiet_def by (metis snd_conv)
  show ?thesis
    using assms a 1 by (auto simp: TriggerConditionalOrders_def Let_def split: if_splits sum.splits
      dest!: dispatch_all_run intro: rtranclp_trans)
qed

lemma ProcessPayload_run:
  assumes "ProcessPayload sv rq aborted payload w = (r, w')"
  shows "store_run (sw_db w) (sw_db w')"
proof (cases "DecodeTradeEvent (sv_wire sv) payload")
  case (Inl e)
  with assms show ?thesis by (simp add: ProcessPayload_def failS_def)
next
  case (Inr event)
  let ?m = "storeS (SettleTrade aborted event (sha256 (sv_env sv) payload))"
  obtain r1 w1 where a: "?m w = (r1, w1)" by (cases "?m w")
  have 1: "store_run (sw_db w) (sw_db w1)"
    using quiet_store_methods(7) a unfolding quiet_def by (metis snd_conv)
  have "w' = w1 \<or> (\<exists>q pair from r2. RequestReplay q pair from w1 = (r2, w'))"
    using assms Inr a by (auto simp: ProcessPayload_def split: sum.splits failure.splits trading_error.splits option.splits prod.splits)
  with 1 show ?thesis by (auto dest!: runs_store [OF RequestReplay_runs] intro: rtranclp_trans)
qed

lemma consumer_loop_run: "consumer_loop sv rq turns w = (e, w') \<Longrightarrow> store_run (sw_db w) (sw_db w')"
proof (induction turns arbitrary: w)
  case (Cons t turns)
  show ?case
  proof (cases "tn_cancelled t = None \<and> (\<exists>p. tn_received t = Inr (TopicTrade, p))")
    case True
    then obtain p where p: "tn_cancelled t = None" "tn_received t = Inr (TopicTrade, p)" by blast
    obtain r w1 where s: "ProcessPayload sv rq (tn_aborted t) p w = (r, w1)" by (cases "ProcessPayload sv rq (tn_aborted t) p w")
    with Cons.prems p have "w' = w1 \<or> consumer_loop sv rq turns w1 = (e, w')" by (auto split: sum.splits if_splits)
    with Cons.IH [of w1] ProcessPayload_run [OF s] show ?thesis by (auto intro: rtranclp_trans)
  next
    case False
    then have "w' = w \<or> consumer_loop sv rq turns w = (e, w')"
      using Cons.prems by (auto split: option.splits sum.splits prod.splits if_splits)
    with Cons.IH [of w] show ?thesis by auto
  qed
qed simp

text \<open>One call of the service or of the settlement consumer, for any engine, wire, clock, fee
  table and random source.\<close>

inductive service_step :: "service_world \<Rightarrow> service_world \<Rightarrow> bool" where
  place: "PlaceOrder sv input w = (r, w') \<Longrightarrow> service_step w w'"
| cancel: "CancelOrder sv ci w = (r, w') \<Longrightarrow> service_step w w'"
| trigger: "TriggerConditionalOrders sv pair mp lim w = (done, err, w') \<Longrightarrow> service_step w w'"
| consume: "Run ok sv rq turns w = (e, w') \<Longrightarrow> service_step w w'"
| list_orders: "ListOrders sv u a flt w = (rs, w') \<Longrightarrow> service_step w w'"
| get_order: "GetOrder u a i w = (r, w') \<Longrightarrow> service_step w w'"

lemma service_step_run: "service_step w w' \<Longrightarrow> store_run (sw_db w) (sw_db w')"
proof (induction rule: service_step.induct)
  case (place sv input w r w')
  then show ?case by (rule runs_store [OF PlaceOrder_runs])
next
  case (cancel sv ci w r w')
  then show ?case by (rule runs_store [OF CancelOrder_runs])
next
  case (trigger sv pair mp lim w d err w')
  then show ?case by (rule Trigger_run)
next
  case (consume ok sv rq turns w e w')
  then show ?case by (auto simp: Run_def split: if_splits dest: consumer_loop_run)
next
  case (list_orders sv u a flt w rs w')
  have "quiet (ListOrders sv u a flt)" unfolding ListOrders_def Let_def by (auto intro!: quiet_intros)
  from runs_store [OF quiet_runs [OF this]] list_orders show ?case by blast
next
  case (get_order u a i w r w')
  have "quiet (GetOrder u a i)" unfolding GetOrder_def by (auto intro!: quiet_intros)
  from runs_store [OF quiet_runs [OF this]] get_order show ?case by blast
qed

section \<open>The commands stored for the engine\<close>

definition command_keys :: "trading_db \<Rightarrow> (string \<times> string) list" where
  "command_keys s = map (\<lambda>c. (ec_order c, ec_payload c)) (engine_commands s)"

definition cmd_step :: "trading_db \<Rightarrow> trading_db \<Rightarrow> bool" where
  "cmd_step s s' \<longleftrightarrow> (\<exists>new. command_keys s' = command_keys s @ new) \<and>
     (distinct (map fst (command_keys s)) \<longrightarrow> distinct (map fst (command_keys s')))"

interpretation cmd_rel: tx_relation cmd_step
  by unfold_locales (auto simp: cmd_step_def)

lemma cmd_same: "command_keys s' = command_keys s \<Longrightarrow> cmd_step s s'"
  by (simp add: cmd_step_def)

lemma cmd_frame: "(\<And>s. engine_commands (f s) = engine_commands s) \<Longrightarrow> tx_respects cmd_step (execT f)"
  by (auto intro!: cmd_rel.exec cmd_same simp: command_keys_def)

lemma cmd_update:
  "(\<And>c. ec_order (f c) = ec_order c \<and> ec_payload (f c) = ec_payload c) \<Longrightarrow>
   tx_respects cmd_step (execT (\<lambda>s. s\<lparr>engine_commands := update_where p f (engine_commands s)\<rparr>))"
  by (intro cmd_rel.exec cmd_same) (simp add: command_keys_def map_update_where)

lemma cmd_statements:
  "tx_respects cmd_step (update_orders p f)" "tx_respects cmd_step (insert_order row)"
  "tx_respects cmd_step (append_outbox a b c d)" "tx_respects cmd_step (appendOrderEvent e g h)"
  "tx_respects cmd_step (LockAccountAsset err acc asset)"
  "tx_respects cmd_step (findByID oid)" "tx_respects cmd_step (findOwnedByID u acc oid)"
  "tx_respects cmd_step (findByIdempotencyKey u key)" "tx_respects cmd_step (require_trading_account u acc)"
  "tx_respects cmd_step (insert_control_command cmd)"
  "tx_respects cmd_step (bucketBalance acc asset bk)" "tx_respects cmd_step (availableBalance acc asset)"
  "tx_respects cmd_step (post_trading_journal k t r legs)"
  by (auto intro!: respectsI cmd_same dest: post_journal_frame
      simp: command_keys_def tx_simps append_outbox_def appendOrderEvent_def findByID_def findOwnedByID_def
        findByIdempotencyKey_def require_trading_account_def insert_control_command_def split: if_splits)

lemma insert_command_cmd: "tx_respects cmd_step (insert_engine_command i j k)"
  by (auto intro!: respectsI simp: insert_engine_command_def tx_simps cmd_step_def command_keys_def)

lemmas cmd_intros = cmd_rel.bind cmd_rel.pure cmd_statements insert_command_cmd cmd_frame cmd_update cmd_rel.map_each cmd_rel.for_each

lemma releaseOrderHold_cmd: "tx_respects cmd_step (releaseOrderHold i)"
  unfolding releaseOrderHold_def by (auto intro!: cmd_intros split: option.splits)

lemma order_methods_cmd:
  "tx_respects cmd_step (CreateOrder_tx i)" "tx_respects cmd_step (ApplyEngineStatus_tx oid event)"
  "tx_respects cmd_step (RecordDispatchFailure_tx oid reason)" "tx_respects cmd_step (PrepareCancel_tx cmd)"
  "tx_respects cmd_step (ApplyCancelAck_tx u oid ack)" "tx_respects cmd_step (ActivateConditionalOrders_tx pair mp limit)"
proof -
  show "tx_respects cmd_step (CreateOrder_tx i)"
    unfolding CreateOrder_tx_def place_new_order_def by (auto intro!: cmd_intros split: option.splits)
  show "tx_respects cmd_step (ApplyEngineStatus_tx oid event)"
    unfolding ApplyEngineStatus_tx_def write_engine_status_def by (auto intro!: cmd_intros releaseOrderHold_cmd)
  show "tx_respects cmd_step (RecordDispatchFailure_tx oid reason)"
    unfolding RecordDispatchFailure_tx_def by (auto intro!: cmd_intros)
  show "tx_respects cmd_step (PrepareCancel_tx cmd)"
    unfolding PrepareCancel_tx_def request_cancel_def
    by (auto intro!: cmd_intros releaseOrderHold_cmd split: option.splits)
  show "tx_respects cmd_step (ApplyCancelAck_tx u oid ack)"
    unfolding ApplyCancelAck_tx_def by (auto intro!: cmd_intros releaseOrderHold_cmd)
  show "tx_respects cmd_step (ActivateConditionalOrders_tx pair mp limit)"
    unfolding ActivateConditionalOrders_tx_def activate_one_def by (auto intro!: cmd_intros)
qed

lemma settlement_cmd:
  "tx_respects cmd_step (ensureTradingFeeAccount x)" "tx_respects cmd_step (settle_orders mk tk sid)"
  "tx_respects cmd_step (finish_sequence event mode rt hg)" "tx_respects cmd_step (insert_inbox event hash)"
  "tx_respects cmd_step (sequence_row_of pair)" "tx_respects cmd_step (findTradeBySequence pair sid)"
  "tx_respects cmd_step (record_gap event expected rt hg)" "tx_respects cmd_step (lockSettlementOrders a b)"
proof -
  show "tx_respects cmd_step (ensureTradingFeeAccount x)"
    by (auto intro!: respectsI cmd_same dest: fee_account_commands simp: command_keys_def)
  show "tx_respects cmd_step (settle_orders mk tk sid)"
    unfolding settle_orders_def updateOrderFromSettledTrades_def
    by (auto intro!: cmd_intros releaseOrderHold_cmd split: option.splits prod.splits)
qed (auto intro!: cmd_intros simp: finish_sequence_def insert_inbox_def sequence_row_of_def findTradeBySequence_def
      record_gap_def lockSettlementOrders_def set_pair_status_def update_sequence_def Let_def split: option.splits prod.splits)

lemma settle_funds_cmd: "tx_respects cmd_step (settle_funds event base quote mk tk notional mf tf feeAcc)"
  by (auto intro!: respectsI cmd_same dest: settle_frames(2) simp: command_keys_def)

lemma settle_tx_cmd: "tx_respects cmd_step (settle_tx event hash)"
  unfolding settle_tx_def settle_next_def settle_pair_def
  by (auto intro!: cmd_rel.bind cmd_rel.pure settlement_cmd settle_funds_cmd cmd_statements split: prod.splits)

interpretation cmd_store: store_relation cmd_step
proof unfold_locales
  show "cmd_step s (s\<lparr>pg_now := t\<rparr>)" for s t by (rule cmd_same) (simp add: command_keys_def)
qed (rule order_methods_cmd settle_tx_cmd)+

section \<open>A retried placement\<close>

definition command_stored :: "trading_db \<Rightarrow> string \<Rightarrow> string \<Rightarrow> string \<Rightarrow> string \<Rightarrow> string \<Rightarrow> bool" where
  "command_stored s u key hash i p \<longleftrightarrow> keyed_order s u key i hash \<and> (i, p) \<in> set (command_keys s)"

lemma command_stored_kept:
  assumes "store_run s t" "order_keys_ok s" "command_stored s u key hash i p"
  shows "command_stored t u key hash i p"
  using keyed_order_kept [OF life_store.run_R [OF assms(1)] assms(2)] cmd_store.run_R [OF assms(1)] assms(3)
  by (auto simp: command_stored_def cmd_step_def)

lemma found_by_key:
  assumes "findByIdempotencyKey u key s = Inr (Some (order, hash), s')"
  shows "(o_ID order, o_EnginePayload order) \<in> set (command_keys s)"
proof -
  obtain oc where oc: "find_joined (\<lambda>(o1, c). od_user o1 = u \<and> od_key o1 = key) s = Some oc" "order = scan_joined oc"
    using assms by (cases "find_joined (\<lambda>(o1, c). od_user o1 = u \<and> od_key o1 = key) s")
      (auto simp: findByIdempotencyKey_def queryT_def)
  have "oc \<in> set (orders_with_commands s)" using oc(1) unfolding find_joined_def by (blast dest: find_SomeD)
  with oc(2) show ?thesis
    by (cases oc) (force simp: joined_member command_keys_def scan_joined_def scan_order_def)
qed

lemma find_stored:
  assumes keys: "order_keys_ok s" "distinct (map fst (command_keys s))" and st: "command_stored s u key hash i p"
  obtains order where "findByIdempotencyKey u key s = Inr (Some (order, hash), s)" "o_ID order = i" "o_EnginePayload order = p"
proof -
  obtain order where f: "findByIdempotencyKey u key s = Inr (Some (order, hash), s)" "o_ID order = i"
    using st keyed_order_find [OF keys(1)] unfolding command_stored_def by blast
  then have "(i, o_EnginePayload order) \<in> set (command_keys s)" using found_by_key by blast
  moreover have "(i, p) \<in> set (command_keys s)" using st by (simp add: command_stored_def)
  ultimately have "o_EnginePayload order = p" using keys(2) by (metis eq_key_imp_eq_value)
  with f that show ?thesis by blast
qed

lemma CreateOrder_stored:
  assumes "CreateOrder_tx cmd s = Inr (order, s')"
  shows "command_stored s' (c_UserID cmd) (c_IdempotencyKey cmd) (c_RequestHash cmd) (o_ID order) (o_EnginePayload order)"
proof -
  note k = CreateOrder_keyed [OF assms]
  have "(o_ID order, o_EnginePayload order) \<in> set (command_keys s')"
  proof -
    obtain found where req: "require_trading_account (c_UserID cmd) (c_AccountID cmd) s = Inr ((), s)"
      and f: "findByIdempotencyKey (c_UserID cmd) (c_IdempotencyKey cmd) s = Inr (found, s)"
      using assms by (auto simp: CreateOrder_tx_def tx_simps require_trading_account_def findByIdempotencyKey_def)
    show ?thesis
    proof (cases found)
      case (Some oh)
      then obtain o1 h where oh: "oh = (o1, h)" by (cases oh)
      then have "order = o1\<lparr>o_Duplicate := True\<rparr>" "s' = s"
        using assms req f Some by (auto simp: CreateOrder_tx_def tx_simps split: prod.splits)
      then show ?thesis using found_by_key f Some oh by auto
    next
      case None
      then obtain p where "place_new_order cmd p s = Inr (order, s')"
        using assms req f by (auto simp: CreateOrder_tx_def tx_simps bindT_Inr)
      then obtain hold j s1 s2 where o: "order_placed cmd p s order s' hold j s1 s2"
        using place_new_order_Inr by blast
      then have "o_ID order = c_OrderID cmd" "o_EnginePayload order = c_EnginePayload cmd"
        by (simp_all add: order_placed_def scan_order_def new_order_row_def)
      with order_placed_frame(5) [OF o] show ?thesis by (simp add: command_keys_def)
    qed
  qed
  with k show ?thesis by (simp add: command_stored_def)
qed

text \<open>The command a placement request turns into.\<close>

definition command_for :: "go_env \<Rightarrow> PlaceOrderInput \<Rightarrow> CreateOrderCommand \<Rightarrow> bool" where
  "command_for env input cmd \<longleftrightarrow> (\<exists>n price trigger quantity. normalizeOrder env input = Inr (n, price, trigger, quantity) \<and>
     c_UserID cmd = in_UserID n \<and> c_IdempotencyKey cmd = in_IdempotencyKey n \<and> c_RequestHash cmd = requestHash env n)"

lemma command_for_same: "command_for env input cmd \<Longrightarrow> command_for env input cmd' \<Longrightarrow>
    c_UserID cmd = c_UserID cmd' \<and> c_IdempotencyKey cmd = c_IdempotencyKey cmd' \<and> c_RequestHash cmd = c_RequestHash cmd'"
  by (auto simp: command_for_def)

lemma bindS_liftS: "bindS (liftS x) f w = (r, w') \<Longrightarrow> w' = w \<or> (\<exists>y. x = Inr y \<and> f y w = (r, w'))"
  by (cases x) (auto simp: bindS_def liftS_def)

lemma bindS_storeS: "bindS (storeS m) f w = (r, w') \<Longrightarrow>
    (\<exists>e s. m (sw_db w) = (Inl e, s) \<and> w' = w\<lparr>sw_db := s\<rparr>) \<or>
    (\<exists>y s. m (sw_db w) = (Inr y, s) \<and> f y (w\<lparr>sw_db := s\<rparr>) = (r, w'))"
  by (auto simp: bindS_def storeS_def Let_def split: sum.splits prod.splits)

lemma PairRules_same: "transaction (PairRules_tx pair) s = (x, s') \<Longrightarrow> s' = s"
  by (auto simp: transaction_def PairRules_tx_def rowT_def split: sum.splits option.splits)

lemma CreateOrder_refused: "CreateOrder cmd s = (Inl e, s') \<Longrightarrow> s' = s"
  by (simp add: CreateOrder_def transaction_Inl)

lemma PlaceOrder_cases:
  assumes "PlaceOrder sv input w = (r, w')"
  obtains (refused) "w' = w"
  | (stored) cmd order db1 where "command_for (sv_env sv) input cmd" "CreateOrder cmd (sw_db w) = (Inr order, db1)"
      "w' = w\<lparr>sw_db := db1\<rparr>"
  | (dispatched) cmd order db1 where "command_for (sv_env sv) input cmd" "CreateOrder cmd (sw_db w) = (Inr order, db1)"
      "dispatchOrder sv order (w\<lparr>sw_db := db1\<rparr>) = (r, w')"
proof (cases "w' = w")
  case False
  note peel = bindS_liftS [THEN disjE, OF _ notE [OF False]]
  let ?norm = "app_result (normalizeOrder (sv_env sv) input)"
  obtain n price trigger quantity where n: "normalizeOrder (sv_env sv) input = Inr (n, price, trigger, quantity)"
    using bindS_liftS [OF assms [unfolded PlaceOrder_def]] False
    by (cases "normalizeOrder (sv_env sv) input") (auto simp: app_result_def)
  obtain tier where t: "tier_fits_wire tier"
    and run1: "bindS (storeS (transaction (PairRules_tx (in_Pair n)))) (\<lambda>rules.
     bindS (liftS (app_result (reservation (in_Side n) (effectiveOrderType (in_Type n)) price quantity
       (ft_TakerFeeBPS tier) rules))) (\<lambda>(holdAmount, holdAll).
     bindS (liftS (randomUUID (sv_random sv))) (\<lambda>orderID.
     bindS (liftS (other_error (EncodeOrderIngress (sv_wire sv) (order_ingress sv orderID n price quantity tier)))) (\<lambda>payload.
     bindS (storeS (CreateOrder (order_command sv orderID n price trigger quantity tier holdAmount holdAll payload))) (\<lambda>order.
     if o_Status order \<noteq> ''PENDING'' then returnS order else dispatchOrder sv order))))) w = (r, w')"
    using assms False n unfolding PlaceOrder_def
    by (auto simp: app_result_def failS_def split: if_splits dest!: bindS_liftS)
  from bindS_storeS [OF run1] False obtain rules where
    run2: "bindS (liftS (app_result (reservation (in_Side n) (effectiveOrderType (in_Type n)) price quantity
       (ft_TakerFeeBPS tier) rules))) (\<lambda>(holdAmount, holdAll).
     bindS (liftS (randomUUID (sv_random sv))) (\<lambda>orderID.
     bindS (liftS (other_error (EncodeOrderIngress (sv_wire sv) (order_ingress sv orderID n price quantity tier)))) (\<lambda>payload.
     bindS (storeS (CreateOrder (order_command sv orderID n price trigger quantity tier holdAmount holdAll payload))) (\<lambda>order.
     if o_Status order \<noteq> ''PENDING'' then returnS order else dispatchOrder sv order)))) w = (r, w')"
    by (auto dest!: PairRules_same)
  obtain orderID holdAmount holdAll payload where
    run3: "bindS (storeS (CreateOrder (order_command sv orderID n price trigger quantity tier holdAmount holdAll payload))) (\<lambda>order.
     if o_Status order \<noteq> ''PENDING'' then returnS order else dispatchOrder sv order) w = (r, w')"
    using bindS_liftS [OF run2] False by (auto dest!: bindS_liftS)
  let ?cmd = "order_command sv orderID n price trigger quantity tier holdAmount holdAll payload"
  have c: "command_for (sv_env sv) input ?cmd" using n by (simp add: command_for_def order_command_def)
  from bindS_storeS [OF run3] False obtain order db1 where "CreateOrder ?cmd (sw_db w) = (Inr order, db1)"
    "(if o_Status order \<noteq> ''PENDING'' then returnS order else dispatchOrder sv order) (w\<lparr>sw_db := db1\<rparr>) = (r, w')"
    by (auto dest!: CreateOrder_refused)
  with c stored dispatched show ?thesis by (auto simp: returnS_def split: if_splits)
qed (rule refused)

lemma CreateOrder_again:
  assumes "order_keys_ok s" "distinct (map fst (command_keys s))"
    and "command_stored s (c_UserID cmd) (c_IdempotencyKey cmd) (c_RequestHash cmd) i p"
    and "CreateOrder cmd s = (Inr order, s')"
  shows "s' = s \<and> o_EnginePayload order = p"
proof -
  obtain o1 where f: "findByIdempotencyKey (c_UserID cmd) (c_IdempotencyKey cmd) s = Inr (Some (o1, c_RequestHash cmd), s)"
    "o_EnginePayload o1 = p" using find_stored [OF assms(1,2,3)] by blast
  have "CreateOrder_tx cmd s = Inr (order, s')" using assms(4) by (simp add: CreateOrder_def transaction_Inr)
  then show ?thesis
    using f by (auto simp: CreateOrder_tx_def bindT_Inr tx_simps dest!: require_account_same)
qed

text \<open>Dispatching an order creates none.\<close>

definition same_ids :: "trading_db \<Rightarrow> trading_db \<Rightarrow> bool" where
  "same_ids s s' \<longleftrightarrow> map od_id (orders s') = map od_id (orders s)"

interpretation ids_rel: tx_relation same_ids
  by unfold_locales (auto simp: same_ids_def)

lemma ids_statements:
  "tx_respects same_ids (append_outbox a b c d)" "tx_respects same_ids (LockAccountAsset err acc asset)"
  "tx_respects same_ids (findByID oid)" "tx_respects same_ids (bucketBalance acc asset bk)"
  "tx_respects same_ids (post_trading_journal k t r legs)"
  by (auto intro!: respectsI dest: post_journal_frame
      simp: same_ids_def tx_simps append_outbox_def findByID_def split: if_splits)

lemma ids_update: "(\<And>r. od_id (f r) = od_id r) \<Longrightarrow> tx_respects same_ids (update_orders p f)"
  by (auto intro!: respectsI simp: tx_simps same_ids_def map_update_where)

lemma ids_frame: "(\<And>s. orders (f s) = orders s) \<Longrightarrow> tx_respects same_ids (execT f)"
  by (intro ids_rel.exec) (simp add: same_ids_def)

lemmas ids_intros = ids_rel.bind ids_rel.pure ids_statements ids_update ids_frame

lemma dispatch_ids:
  "tx_respects same_ids (ApplyEngineStatus_tx oid event)" "tx_respects same_ids (RecordDispatchFailure_tx oid reason)"
  by (auto intro!: ids_intros simp: ApplyEngineStatus_tx_def write_engine_status_def RecordDispatchFailure_tx_def
      releaseOrderHold_def split: option.splits)

lemma dispatchOrder_ids: "dispatchOrder sv order w = (r, w') \<Longrightarrow> same_ids (sw_db w) (sw_db w')"
proof -
  have store: "same_ids s (snd (ApplyEngineStatus oid event s))" "same_ids s (snd (RecordDispatchFailure oid reason s))"
    for s oid event reason
    unfolding ApplyEngineStatus_def RecordDispatchFailure_def
    using ids_rel.committed dispatch_ids by blast+
  assume "dispatchOrder sv order w = (r, w')"
  then have "sw_db w' = sw_db w \<or> (\<exists>st. sw_db w' = snd (ApplyEngineStatus (o_ID order) st (sw_db w))) \<or>
      (\<exists>reason. sw_db w' = snd (RecordDispatchFailure (o_ID order) reason (sw_db w)))"
    unfolding dispatchOrder_def
    by (auto simp: failS_def bindS_def requestS_def ignoreS_def storeS_def Let_def returnS_def
        split: option.splits sum.splits if_splits prod.splits intro: sym)
      (metis snd_conv)+
  with store ids_rel.R_refl show ?thesis by metis
qed

lemma dispatchOrder_sent:
  "dispatchOrder sv order w = (r, w') \<Longrightarrow> sw_sent w' = sw_sent w \<or> sw_sent w' = sw_sent w @ [o_EnginePayload order]"
proof -
  assume d: "dispatchOrder sv order w = (r, w')"
  obtain new where "sw_sent w' = sw_sent w @ new" "length new \<le> 1" "list_all (\<lambda>p. p = o_EnginePayload order) new"
    using dispatchOrder_runs [of order sv] d unfolding runs_def by (metis snd_conv)
  then show ?thesis by (cases new) auto
qed

text \<open>What a placement that reached the engine leaves behind.\<close>

lemma PlaceOrder_sent:
  assumes "PlaceOrder sv input w = (r, w1)" "sw_sent w1 = sw_sent w @ [p]"
  obtains cmd i where "command_for (sv_env sv) input cmd"
    "order_keys_ok (sw_db w) \<Longrightarrow> command_stored (sw_db w1) (c_UserID cmd) (c_IdempotencyKey cmd) (c_RequestHash cmd) i p"
  using assms(1)
proof (cases rule: PlaceOrder_cases)
  case (dispatched cmd order db1)
  then have tx: "CreateOrder_tx cmd (sw_db w) = Inr (order, db1)" by (simp add: CreateOrder_def transaction_Inr)
  have p: "o_EnginePayload order = p"
    using dispatchOrder_sent [OF dispatched(3)] assms(2) by simp
  have run: "store_run db1 (sw_db w1)" using runs_store [OF dispatchOrder_runs dispatched(3)] by simp
  have "command_stored (sw_db w1) (c_UserID cmd) (c_IdempotencyKey cmd) (c_RequestHash cmd) (o_ID order) p"
    if "order_keys_ok (sw_db w)"
    using command_stored_kept [OF run _ CreateOrder_stored [OF tx]] respectsD [OF CreateOrder_life tx] that p
    by (simp add: life_step_def)
  with that dispatched(1) show ?thesis by blast
qed (use assms(2) in simp_all)

lemma ids_kept:
  assumes "records_kept s t" "r \<in> set (orders s)"
  shows "od_id r \<in> od_id ` set (orders t)"
proof -
  obtain r' where "r' \<in> set (orders t)" "row_kept r r'" using assms by (auto simp: records_kept_def)
  then show ?thesis by (auto simp: row_kept_def placed_columns_def image_iff intro!: bexI [of _ r'])
qed

lemma service_run: "service_step\<^sup>*\<^sup>* w w' \<Longrightarrow> store_run (sw_db w) (sw_db w')"
  by (induction rule: rtranclp_induct) (auto intro: rtranclp_trans service_step_run)

section \<open>Properties\<close>

definition demo_input :: PlaceOrderInput where
  "demo_input = \<lparr>in_UserID = ''u1'', in_AccountID = ''a1'', in_AccountKind = ''uta'', in_IdempotencyKey = ''k1'',
     in_Pair = ''BTCUSDT'', in_Side = ''BUY'', in_Type = ''LIMIT'', in_Price = FormatUint 3, in_TriggerPrice = FormatUint 0,
     in_Quantity = FormatUint 100, in_TimeInForce = ''GTC'', in_PostOnly = False, in_ReduceOnly = False\<rparr>"

text \<open>An engine that cannot be reached.\<close>

definition demo_service :: service where
  "demo_service = \<lparr>sv_env = plain_env, sv_wire = text_wire,
     sv_fees = (\<lambda>_ _. Inr \<lparr>ft_Level = 0, ft_MakerFeeBPS = 0, ft_TakerFeeBPS = 0\<rparr>),
     sv_engine = Some (\<lambda>_ _. Inl ''down''), sv_control = Some (\<lambda>_ _. Inl ''down''), sv_now = 7,
     sv_random = Inr (replicate 16 0)\<rparr>"

definition demo_world :: service_world where
  "demo_world = \<lparr>sw_db = demo_db, sw_sent = []\<rparr>"



text \<open>
  A placement that reached the engine is never sent as a different order. Suppose a placement
  sent the bytes \<open>p\<close>, whether or not the engine's answer arrived. If the client repeats the
  request later, after any other service calls, with a new random id, another clock and another
  fee tier, then either nothing is sent or exactly the bytes \<open>p\<close> again, and no order is added.
\<close>

theorem placement_retry_resends_command:
  assumes "order_keys_ok (sw_db w)" "distinct (map ec_order (engine_commands (sw_db w)))"
    and first: "PlaceOrder sv input w = (r, w1)" "sw_sent w1 = sw_sent w @ [p]"
    and between: "service_step\<^sup>*\<^sup>* w1 w2"
    and again: "PlaceOrder sv' input w2 = (r', w3)" "sv_env sv' = sv_env sv"
  shows "(sw_sent w3 = sw_sent w2 \<or> sw_sent w3 = sw_sent w2 @ [p]) \<and>
    map od_id (orders (sw_db w3)) = map od_id (orders (sw_db w2))"
proof -
  obtain cmd i where cmd: "command_for (sv_env sv) input cmd"
    and st1: "command_stored (sw_db w1) (c_UserID cmd) (c_IdempotencyKey cmd) (c_RequestHash cmd) i p"
    using PlaceOrder_sent [OF first] assms(1) by blast
  have run1: "store_run (sw_db w) (sw_db w1)" by (rule runs_store [OF PlaceOrder_runs first(1)])
  note run2 = service_run [OF between]
  have ok1: "order_keys_ok (sw_db w1)" using life_store.run_R [OF run1] assms(1) by (simp add: life_step_def)
  have ok2: "order_keys_ok (sw_db w2)" using life_store.run_R [OF run2] ok1 by (simp add: life_step_def)
  have "cmd_step (sw_db w) (sw_db w2)" using run1 run2 by (blast intro: cmd_store.run_R rtranclp_trans)
  then have d2: "distinct (map fst (command_keys (sw_db w2)))"
    using assms(2) by (simp add: cmd_step_def command_keys_def comp_def)
  note st2 = command_stored_kept [OF run2 ok1 st1]
  have again2: "s' = sw_db w2 \<and> o_EnginePayload order = p"
    if "command_for (sv_env sv') input cmd'" "CreateOrder cmd' (sw_db w2) = (Inr order, s')" for cmd' order s'
    using CreateOrder_again [OF ok2 d2 _ that(2)] command_for_same [OF cmd] that(1) st2 again(2) by metis
  show ?thesis
    using again(1)
  proof (cases rule: PlaceOrder_cases)
    case (stored cmd' order db1)
    with again2 [OF stored(1,2)] show ?thesis by simp
  next
    case (dispatched cmd' order db1)
    with again2 [OF dispatched(1,2)] dispatchOrder_sent [OF dispatched(3)] dispatchOrder_ids [OF dispatched(3)]
    show ?thesis by (simp add: same_ids_def)
  qed simp
qed

text \<open>The example order goes out once although the engine cannot be reached.\<close>

lemma demo_normal: "normalizeOrder plain_env demo_input = Inr (demo_input, 3, 0, 100)"
  by (rule normalized_normalizeOrder)
    (simp add: normalized_def demo_input_def TrimSpace_graphic graphic_def validPair_def is_upper_def
      validType_def validTIF_def effectiveOrderType_def isConditionalType_def)

lemma demo_rules: "transaction (PairRules_tx ''BTCUSDT'') demo_db =
    (Inr \<lparr>r_PriceScale = 0, r_QuantityScale = 6, r_QuoteScale = 6\<rparr>, demo_db)"
  by (simp add: transaction_def PairRules_tx_def rowT_def pair_rules_of_def demo_db_def)

lemma demo_reservation: "reservation ''BUY'' ''LIMIT'' 3 100 0 \<lparr>r_PriceScale = 0, r_QuantityScale = 6, r_QuoteScale = 6\<rparr> = Inr (''300'', False)"
  by (simp add: reservation_def quoteAmount_def scale_ok_def ceilBigProductDiv_def sdiv_nonneg smod_nonneg
        BigString_def digits_of.simps digit_def char_numeral_eq)

lemma demo_command_accepted:
  assumes "i \<noteq> []" "p \<noteq> []"
  shows "\<exists>order. fst (CreateOrder (demo_buy\<lparr>c_OrderID := i, c_RequestHash := h, c_HoldAmount := ''300'', c_EnginePayload := p\<rparr>) demo_db) = Inr order \<and>
    o_Status order = ''PENDING''"
proof -
  have h: "SetString ''300'' = Some 300"
    by (simp add: SetString_def all_digits_def is_digit_def digits_val_def digit_val_def)
  from assms show ?thesis
    by (simp add: CreateOrder_def transaction_def CreateOrder_tx_def demo_db_def demo_buy_def tx_defs
      require_trading_account_def findByIdempotencyKey_def find_joined_def orders_with_commands_def
      pair_for_order_def withinPairLimits_def place_new_order_def LockAccountAsset_def advisory_lock_def
      availableBalance_def posted_bucket_sum_def posted_journal_def leg_at_def signed_amount_def
      h insert_order_def order_checks_def
      new_order_row_def validType_def validTIF_def validOrderStatus_def isConditionalType_def
      post_journal_def insert_journal_def gen_random_uuid_def insert_posting_def hold_legs_def
      update_orders_def insert_engine_command_def append_outbox_def scan_order_def)
qed

lemma demo_placement_sends:
  "\<exists>p. sw_sent (snd (PlaceOrder demo_service demo_input demo_world)) = [p]"
proof -
  let ?i = "format_uuid (stamp_uuid (replicate 16 0))"
  let ?ing = "order_ingress demo_service ?i demo_input 3 100 \<lparr>ft_Level = 0, ft_MakerFeeBPS = 0, ft_TakerFeeBPS = 0\<rparr>"
  have i: "?i \<noteq> []" "length ?i = 36" by (auto simp: length_format_uuid dest: arg_cong [of _ _ length])
  have enc: "EncodeOrderIngress text_wire ?ing = Inr (w_ingress text_wire ?ing)"
    using i by (simp add: EncodeOrderIngress_def encode_valid_def OrderIngress_Validate_def order_ingress_def demo_input_def
        MaxIdentifierBytes_def MaxPairBytes_def protocolSide_def protocolOrderType_def protocolTimeInForce_def effectiveOrderType_def isConditionalType_def)
  have ne: "w_ingress text_wire ?ing \<noteq> []" by (simp add: text_wire_def fields_text_def quoted_def)
  let ?cmd = "order_command demo_service ?i demo_input 3 0 100 \<lparr>ft_Level = 0, ft_MakerFeeBPS = 0, ft_TakerFeeBPS = 0\<rparr>
    ''300'' False (w_ingress text_wire ?ing)"
  have cmd: "?cmd = demo_buy\<lparr>c_OrderID := ?i, c_RequestHash := requestHash plain_env demo_input, c_HoldAmount := ''300'',
      c_EnginePayload := w_ingress text_wire ?ing\<rparr>"
    by (simp add: order_command_def demo_buy_def demo_input_def demo_service_def isConditionalType_def triggerDirection_def)
  obtain order db1 where o: "CreateOrder ?cmd demo_db = (Inr order, db1)" "o_Status order = ''PENDING''"
    using demo_command_accepted [OF i(1) ne, of "requestHash plain_env demo_input"] unfolding cmd by (metis prod.collapse)
  have fields: "in_UserID demo_input = ''u1''" "in_Pair demo_input = ''BTCUSDT''" "in_Side demo_input = ''BUY''"
    "effectiveOrderType (in_Type demo_input) = ''LIMIT''"
    by (simp_all add: demo_input_def effectiveOrderType_def isConditionalType_def)
  have sv: "sv_env demo_service = plain_env" "sv_wire demo_service = text_wire" "sv_random demo_service = Inr (replicate 16 0)"
    "sv_fees demo_service u pr = Inr \<lparr>ft_Level = 0, ft_MakerFeeBPS = 0, ft_TakerFeeBPS = 0\<rparr>"
    "sv_engine demo_service = Some (\<lambda>_ _. Inl ''down'')" for u pr
    by (simp_all add: demo_service_def)
  have "snd (PlaceOrder demo_service demo_input demo_world) = snd (dispatchOrder demo_service order \<lparr>sw_db = db1, sw_sent = []\<rparr>)"
    using o enc demo_normal demo_rules demo_reservation
    by (simp add: PlaceOrder_def bindS_def liftS_def storeS_def demo_world_def app_result_def other_error_def
        tier_fits_wire_def randomUUID_def fields sv)
  then show ?thesis
    by (simp add: dispatchOrder_def sv bindS_def requestS_def ignoreS_def storeS_def failS_def Let_def split: prod.splits)
qed

theorem placement_retry_resends_command_witness:
  "\<exists>p. sw_sent (snd (PlaceOrder demo_service demo_input demo_world)) = [p] \<and>
     (let w = snd (PlaceOrder demo_service demo_input demo_world);
          again = snd (PlaceOrder (demo_service\<lparr>sv_now := 9, sv_random := Inr (replicate 16 1)\<rparr>) demo_input w) in
      sw_sent again = [p] \<or> sw_sent again = [p, p])"
proof -
  let ?sv' = "demo_service\<lparr>sv_now := 9, sv_random := Inr (replicate 16 1)\<rparr>"
  let ?w = "snd (PlaceOrder demo_service demo_input demo_world)"
  obtain p where p: "sw_sent ?w = [p]" using demo_placement_sends by blast
  have "order_keys_ok (sw_db demo_world)" "distinct (map ec_order (engine_commands (sw_db demo_world)))"
    using demo_order_keys by (simp_all add: demo_world_def demo_db_def)
  from placement_retry_resends_command [OF this, of demo_service demo_input
      "fst (PlaceOrder demo_service demo_input demo_world)" ?w p ?w ?sv' "fst (PlaceOrder ?sv' demo_input ?w)" "snd (PlaceOrder ?sv' demo_input ?w)"]
  have "sw_sent (snd (PlaceOrder ?sv' demo_input ?w)) = sw_sent ?w \<or> sw_sent (snd (PlaceOrder ?sv' demo_input ?w)) = sw_sent ?w @ [p]"
    using p by (simp add: demo_world_def)
  with p show ?thesis by (simp add: Let_def)
qed

section \<open>A retried cancellation\<close>

lemma find_pending:
  assumes "\<forall>r \<in> set (orders s). od_id r = i \<longrightarrow> od_status r = st" "findOwnedByID u a i s = Inr (order, s')"
  shows "s' = s \<and> o_Status order = st"
proof -
  obtain oc where oc: "find_joined (\<lambda>(o1, c). od_id o1 = i \<and> od_user o1 = u \<and> (a = [] \<or> od_account o1 = a)) s = Some oc"
    "order = scan_joined oc" "s' = s"
    using assms(2) by (auto simp: findOwnedByID_def tx_simps)
  then have "oc \<in> set (orders_with_commands s)" "od_id (fst oc) = i"
    unfolding find_joined_def by (auto dest!: find_SomeD)
  with assms(1) oc show ?thesis by (cases oc) (auto simp: joined_member scan_joined_def scan_order_def)
qed

lemma PrepareCancel_pending:
  assumes "\<forall>r \<in> set (orders s). od_id r = cc_OrderID cmd \<longrightarrow> od_status r = ''PENDING_CANCEL''"
    and "PrepareCancel cmd s = (x, s')"
  shows "s' = s \<and> (\<forall>order. x = Inr order \<longrightarrow> o_Status order = ''PENDING_CANCEL'')"
proof (cases x)
  case (Inl e)
  with assms(2) show ?thesis by (simp add: PrepareCancel_def transaction_Inl)
next
  case (Inr order)
  then have tx: "PrepareCancel_tx cmd s = Inr (order, s')" using assms(2) by (simp add: PrepareCancel_def transaction_Inr)
  then obtain o1 s1 where "findOwnedByID (cc_UserID cmd) (cc_AccountID cmd) (cc_OrderID cmd) s = Inr (o1, s1)"
    by (auto simp: PrepareCancel_tx_def tx_simps split: option.splits)
  moreover note find_pending [OF assms(1) this]
  ultimately show ?thesis using tx Inr
    by (auto simp: PrepareCancel_tx_def tx_simps split: option.splits if_splits)
qed

lemma ApplyCancelAck_unknown:
  "\<forall>r \<in> set (engine_control_commands s). ct_id r \<noteq> ka_CommandID ack \<Longrightarrow> \<exists>e. ApplyCancelAck u i ack s = (Inl e, s)"
proof -
  assume "\<forall>r \<in> set (engine_control_commands s). ct_id r \<noteq> ka_CommandID ack"
  then have "find (\<lambda>r. ct_id r = ka_CommandID ack \<and> ct_order r = i \<and> ct_user r = u) (engine_control_commands s) = None"
    by (auto simp: find_None_iff)
  then have "\<exists>e. ApplyCancelAck_tx u i ack s = Inl e"
    by (simp add: ApplyCancelAck_tx_def bindT_def ensureT_def returnT_def failT_def rowT_def)
  then show ?thesis by (auto simp: ApplyCancelAck_def transaction_def)
qed

lemma RecordDispatchFailure_frame:
  "orders (snd (RecordDispatchFailure i reason s)) = orders s" "postings (snd (RecordDispatchFailure i reason s)) = postings s"
  by (auto simp: RecordDispatchFailure_def transaction_def RecordDispatchFailure_tx_def tx_defs split: sum.splits if_splits prod.splits)

lemma control_cancel_unknown:
  assumes "\<forall>r \<in> set (engine_control_commands (sw_db w)). ct_id r \<noteq> commandID"
  shows "(\<exists>e. fst (control_cancel sv u i commandID payload order w) = Inl e) \<and>
    orders (sw_db (snd (control_cancel sv u i commandID payload order w))) = orders (sw_db w) \<and>
    postings (sw_db (snd (control_cancel sv u i commandID payload order w))) = postings (sw_db w)"
proof (cases "sv_control sv")
  case None
  then show ?thesis by (simp add: control_cancel_def failS_def)
next
  case (Some engine)
  show ?thesis
  proof (cases "engine (sw_sent w) payload")
    case (Inl e)
    with Some RecordDispatchFailure_frame show ?thesis
      by (auto simp: control_cancel_def bindS_def requestS_def ignoreS_def storeS_def failS_def Let_def split: prod.splits)
        (metis snd_conv)+
  next
    case (Inr data)
    note reply = this
    show ?thesis
    proof (cases "\<exists>ack. DecodeControlAck (sv_wire sv) data = Inr ack \<and> ka_CommandID ack = commandID \<and> ka_Accepted ack")
      case True
      then obtain ack where ack: "DecodeControlAck (sv_wire sv) data = Inr ack" "ka_CommandID ack = commandID" "ka_Accepted ack"
        by blast
      obtain e where "ApplyCancelAck u i ack (sw_db w) = (Inl e, sw_db w)"
        using ApplyCancelAck_unknown assms ack(2) by blast
      with Some reply ack show ?thesis by (simp add: control_cancel_def bindS_def requestS_def storeS_def)
    next
      case False
      with Some reply show ?thesis
        by (auto simp: control_cancel_def bindS_def requestS_def failS_def split: sum.splits)
    qed
  qed
qed

text \<open>
  C18: once an order is waiting for the acknowledgement of a cancellation (the engine's answer to
  the first request was lost), no repetition of the cancel request completes it. The retry draws a
  new command id, the store keeps the command of the first request, and the engine's acceptance of
  the new command is then refused as unknown: the call fails whatever the engine answers, and the
  order keeps its status and its hold.
\<close>

theorem cancel_retry_never_completes:
  assumes "\<forall>r \<in> set (orders (sw_db w)). od_id r = TrimSpace (ci_OrderID input) \<longrightarrow> od_status r = ''PENDING_CANCEL''"
    and "\<forall>commandID. randomUUID (sv_random sv) = Inr commandID \<longrightarrow>
      commandID \<notin> ct_id ` set (engine_control_commands (sw_db w))"
  shows "(\<exists>e. fst (CancelOrder sv input w) = Inl e) \<and>
    orders (sw_db (snd (CancelOrder sv input w))) = orders (sw_db w) \<and>
    postings (sw_db (snd (CancelOrder sv input w))) = postings (sw_db w)"
proof -
  let ?u = "TrimSpace (ci_UserID input)" and ?a = "TrimSpace (ci_AccountID input)"
  let ?i = "TrimSpace (ci_OrderID input)" and ?k = "TrimSpace (ci_IdempotencyKey input)"
  have same: "s' = sw_db w" if "transaction (GetOrder_tx ?u ?a ?i) (sw_db w) = (x, s')" for x s'
    using that by (auto simp: transaction_def GetOrder_tx_def tx_defs split: sum.splits if_splits option.splits)
  obtain x where g: "transaction (GetOrder_tx ?u ?a ?i) (sw_db w) = (x, sw_db w)"
    using same by (metis prod.collapse)
  have prep: "(\<exists>e. PrepareCancel cmd (sw_db w) = (Inl e, sw_db w)) \<or>
      (\<exists>order. PrepareCancel cmd (sw_db w) = (Inr order, sw_db w) \<and> o_Status order = ''PENDING_CANCEL'')"
    if "cc_OrderID cmd = ?i" for cmd
    using PrepareCancel_pending [of "sw_db w" cmd] assms(1) that
    by (cases "PrepareCancel cmd (sw_db w)"; cases "fst (PrepareCancel cmd (sw_db w))") auto
  show ?thesis
  proof (cases "?k = [] \<or> ?u = [] \<or> ?a = [] \<or> ?i = [] \<or> length ?k > 255 \<or> (\<exists>e. randomUUID (sv_random sv) = Inl e) \<or> (\<exists>e. x = Inl e)")
    case True
    then show ?thesis using g
      by (auto simp: CancelOrder_def Let_def failS_def bindS_def liftS_def storeS_def split: sum.splits)
  next
    case False
    then obtain cid existing where c: "randomUUID (sv_random sv) = Inr cid" "x = Inr existing"
      by (metis sum.exhaust)
    let ?x = "\<lparr>xc_CommandID = cid, xc_OrderID = ?i, xc_Pair = o_Pair existing, xc_TimestampNS = word_of_int (sv_now sv)\<rparr>"
    show ?thesis
    proof (cases "EncodeCancelOrderCommand (sv_wire sv) ?x")
      case (Inl e)
      with False c g show ?thesis
        by (simp add: CancelOrder_def Let_def bindS_def liftS_def storeS_def other_error_def)
    next
      case (Inr payload)
      let ?cmd = "\<lparr>cc_UserID = ?u, cc_AccountID = ?a, cc_OrderID = ?i, cc_CommandID = cid, cc_IdempotencyKey = ?k, cc_Payload = payload\<rparr>"
      have run: "CancelOrder sv input w = bindS (storeS (PrepareCancel ?cmd)) (\<lambda>order.
          if o_Status order = ''CANCELED'' then returnS order else control_cancel sv ?u ?i cid payload order) w"
        using False c g Inr by (simp add: CancelOrder_def Let_def bindS_def liftS_def storeS_def other_error_def)
      have fresh: "\<forall>r \<in> set (engine_control_commands (sw_db w)). ct_id r \<noteq> cid" using assms(2) c(1) by auto
      from prep [of ?cmd] show ?thesis
      proof
        assume "\<exists>e. PrepareCancel ?cmd (sw_db w) = (Inl e, sw_db w)"
        then show ?thesis unfolding run by (auto simp: bindS_def storeS_def)
      next
        assume "\<exists>order. PrepareCancel ?cmd (sw_db w) = (Inr order, sw_db w) \<and> o_Status order = ''PENDING_CANCEL''"
        then obtain order where "PrepareCancel ?cmd (sw_db w) = (Inr order, sw_db w)" "o_Status order = ''PENDING_CANCEL''"
          by blast
        then have "CancelOrder sv input w = control_cancel sv ?u ?i cid payload order w"
          unfolding run by (simp add: bindS_def storeS_def)
        with control_cancel_unknown [OF fresh] show ?thesis by simp
      qed simp
    qed
  qed
qed

definition demo_stuck_world :: service_world where
  "demo_stuck_world = \<lparr>sw_db = demo_db\<lparr>orders := [new_order_row demo_buy ''PENDING_CANCEL'' 90],
     engine_commands := [\<lparr>ec_order = ''o1'', ec_payload = ''p1'', ec_status = ''dispatched'', ec_attempts = 1,
       ec_last_error = [], ec_dispatched_at = Some 95\<rparr>],
     engine_control_commands := [\<lparr>ct_id = ''c1'', ct_order = ''o1'', ct_user = ''u1'', ct_key = ''k9'', ct_payload = ''x'',
       ct_status = ''pending'', ct_attempts = 1, ct_last_error = ''timeout'', ct_sequence = None\<rparr>]\<rparr>, sw_sent = []\<rparr>"

text \<open>The retry of the stuck cancellation, with the same key, against every possible engine.\<close>

theorem cancel_retry_never_completes_witness:
  "\<forall>engine. \<exists>e. fst (CancelOrder (demo_service\<lparr>sv_control := engine\<rparr>)
     \<lparr>ci_UserID = ''u1'', ci_AccountID = ''a1'', ci_OrderID = ''o1'', ci_IdempotencyKey = ''k9''\<rparr> demo_stuck_world) = Inl e"
proof
  fix engine
  let ?in = "\<lparr>ci_UserID = ''u1'', ci_AccountID = ''a1'', ci_OrderID = ''o1'', ci_IdempotencyKey = ''k9''\<rparr>"
  have "\<forall>r \<in> set (orders (sw_db demo_stuck_world)). od_id r = TrimSpace (ci_OrderID ?in) \<longrightarrow> od_status r = ''PENDING_CANCEL''"
    by (simp add: demo_stuck_world_def new_order_row_def)
  moreover have "\<forall>commandID. randomUUID (sv_random (demo_service\<lparr>sv_control := engine\<rparr>)) = Inr commandID \<longrightarrow>
      commandID \<notin> ct_id ` set (engine_control_commands (sw_db demo_stuck_world))"
    by (auto simp: demo_stuck_world_def demo_service_def randomUUID_def dest: arg_cong [of _ _ length] simp: length_format_uuid)
  ultimately show "\<exists>e. fst (CancelOrder (demo_service\<lparr>sv_control := engine\<rparr>) ?in demo_stuck_world) = Inl e"
    using cancel_retry_never_completes by blast
qed

end
