(* ===== verification/Settlement_Delivery.thy ===== *)
theory Settlement_Delivery
  imports Settlement_Sequence
begin

text \<open>
  Delivery of trade events: a settled trade is settled once however often it is delivered, an
  aborted transaction is retried, a gap stops the pair before any money moves, and the replay of
  the missing trades opens it again.
\<close>

section \<open>The retry loop\<close>

lemma settle_tx_error:
  assumes "settle_tx event hash s = Inr (Inl e, s')"
  shows "\<exists>expected. e = App (ErrSequenceGap (te_Pair event) expected (te_SequenceID event))"
  using assms by (cases rule: settle_tx_cases) (auto simp: record_gap_def tx_simps)

lemma settleTradeOnce_aborted: "settleTradeOnce event hash s = (Inl (Pg st), s') \<Longrightarrow> s' = s"
  by (auto simp: settleTradeOnce_def transactionE_def split: sum.splits prod.splits dest: settle_tx_error)

lemma settle_attempts_once:
  assumes "settleTradeOnce event hash s = (r, s1)" "r \<noteq> Inl serialization_failure"
  shows "settle_attempts aborted event hash ks s =
    (if \<exists>k \<in> set ks. \<not> aborted k then (r, s1)
     else (Inl (App (ErrOther ''trade settlement serialization retries exhausted'')), s))"
  using assms by (induction ks) (auto split: sum.splits)

lemma settle_attempts_Inr:
  "settle_attempts aborted event hash ks s = (Inr trade, s') \<Longrightarrow> settleTradeOnce event hash s = (Inr trade, s')"
proof (induction ks arbitrary: s)
  case (Cons k ks)
  obtain r s1 where o: "settleTradeOnce event hash s = (r, s1)" by (cases "settleTradeOnce event hash s")
  show ?case
  proof (cases "aborted k \<or> r = Inl serialization_failure")
    case True
    with o have "settle_attempts aborted event hash ks s = (Inr trade, s')"
      using Cons.prems settleTradeOnce_aborted [of event hash s] by (auto split: if_splits)
    then show ?thesis by (rule Cons.IH)
  next
    case False
    with o Cons.prems show ?thesis by (auto split: sum.splits if_splits)
  qed
qed simp

lemma settleTradeOnce_Inr: "settleTradeOnce event hash s = (Inr trade, s') \<longleftrightarrow> settle_tx event hash s = Inr (Inr trade, s')"
  by (auto simp: settleTradeOnce_def transactionE_def split: sum.splits prod.splits)

lemma SettleTrade_Inr: "SettleTrade aborted event hash s = (Inr trade, s') \<Longrightarrow> settle_tx event hash s = Inr (Inr trade, s')"
  unfolding SettleTrade_def settleTradeOnce_Inr [symmetric] by (rule settle_attempts_Inr)

lemma SettleTrade_once:
  assumes "settleTradeOnce event hash s = (r, s1)" "r \<noteq> Inl serialization_failure" "\<exists>k < 3. \<not> aborted k"
  shows "SettleTrade aborted event hash s = (r, s1)"
proof -
  have "\<exists>k \<in> set [0, 1, 2 :: nat]. \<not> aborted k"
    using assms(3) by (auto simp: numeral_3_eq_3 numeral_2_eq_2 less_Suc_eq)
  with assms show ?thesis unfolding SettleTrade_def by (simp only: settle_attempts_once [OF assms(1,2)] if_True simp_thms)
qed

section \<open>An example trade\<close>

text \<open>Two open orders on a pair that a gap has halted, and the missing trade between them.\<close>

definition demo_order :: "string \<Rightarrow> string \<Rightarrow> string \<Rightarrow> string \<Rightarrow> string \<Rightarrow> int \<Rightarrow> order_row" where
  "demo_order i u a side asset hold = (new_order_row demo_buy ''OPEN'' 90)\<lparr>od_id := i, od_user := u, od_account := a, od_side := side,
     od_key := i, od_hold_journal := Some i, od_hold_asset := Some asset, od_hold_amount := Some hold\<rparr>"

definition demo_gap_db :: trading_db where
  "demo_gap_db = demo_db\<lparr>
     postings := postings demo_db @ map (posting_of ''j0'')
       (hold_legs ''a1'' ''usdt'' 300 @ hold_legs ''a2'' ''btc'' 100),
     trading_pairs := map (\<lambda>p. p\<lparr>pr_status := ''halted''\<rparr>) (trading_pairs demo_db),
     orders := [demo_order ''o1'' ''u1'' ''a1'' ''BUY'' ''usdt'' 300, demo_order ''o2'' ''u2'' ''a2'' ''SELL'' ''btc'' 100],
     engine_symbol_sequences := [\<lparr>sq_pair = ''BTCUSDT'', sq_last = 0, sq_mode = ''replay_required'', sq_replay_through = 1, sq_halted_by_gap = True\<rparr>]\<rparr>"

definition demo_trade :: TradeEvent where
  "demo_trade = \<lparr>te_SequenceID = 1, te_TimestampNS = 5, te_Pair = ''BTCUSDT'', te_MakerOrderID = ''o2'', te_TakerOrderID = ''o1'',
     te_MakerUserID = ''u2'', te_TakerUserID = ''u1'', te_Price = 3, te_Quantity = 50, te_MakerFeeBPS = 0, te_TakerFeeBPS = 0\<rparr>"

lemma forT_locks_run:
  "list_all (\<lambda>(a, x). a \<noteq> [] \<and> x \<noteq> []) xs \<Longrightarrow>
   forT (\<lambda>(a, x). LockAccountAsset e a x) xs s = Inr ((), s\<lparr>locks_taken := locks_taken s @ map (\<lambda>(a, x). AccountAssetLockKey a x) xs\<rparr>)"
  by (induction xs arbitrary: s) (auto simp: LockAccountAsset_def advisory_lock_def tx_defs)

lemma demo_settles: "\<exists>trade s'. settle_tx demo_trade h demo_gap_db = Inr (Inr trade, s')"
proof -
  have p: "parseSequence (BigString 0) = Inr 0" "parseSequence (BigString 1) = Inr 1"
    by (simp_all add: parseSequence_def BigString_def digits_of.simps digit_def ParseUint_def all_digits_def is_digit_def digits_val_def digit_val_def char_numeral_eq)
  have q: "QuoteAmountForScales 3 50 \<lparr>r_PriceScale = 0, r_QuantityScale = 6, r_QuoteScale = 6\<rparr> = Inr 150"
    by (simp add: QuoteAmountForScales_def quoteAmount_def scale_ok_def)
  have f: "FeeAmount 150 0 = Inr 0" by (simp add: FeeAmount_Inr)
  have v: "TradeEvent_Validate demo_trade = None" by (simp add: demo_trade_def TradeEvent_Validate_def MaxPairBytes_def MaxIdentifierBytes_def)
  have 1: "sequence_row_of ''BTCUSDT'' demo_gap_db = Inr (\<lparr>sq_pair = ''BTCUSDT'', sq_last = 0, sq_mode = ''replay_required'', sq_replay_through = 1, sq_halted_by_gap = True\<rparr>, demo_gap_db)"
    by (simp add: sequence_row_of_def demo_gap_db_def tx_defs)
  have 2: "engine_trade_inbox demo_gap_db = []" by (simp add: demo_gap_db_def demo_db_def)
  have "\<exists>trade s'. settle_next demo_trade h ''replay_required'' 1 True demo_gap_db = Inr (trade, s')"
    apply (simp add: settle_next_def insert_inbox_def tx_defs 2 demo_trade_def)
    apply (simp add: pair_rules_of_def demo_gap_db_def demo_db_def)
    apply (simp add: settle_pair_def lockSettlementOrders_def tx_defs demo_order_def new_order_row_def settlement_order_of_def demo_buy_def settleableStatus_def)
    apply (simp add: q f app_result_def)
    apply (simp add: ensureTradingFeeAccount_def advisory_lock_def gen_random_uuid_def tx_defs)
    apply (simp add: settle_funds_def sides_def tx_defs)
    apply (subst forT_locks_run)
    apply (simp add: lock_targets_def list_all_iff)
    apply (simp add: tx_defs bucketBalance_def bucket_sum_def hold_legs_def leg_at_def signed_amount_def)
    apply (simp add: ensureOrderSettlementCapacity_def traded_quantity_def order_trades_def tx_defs)
    apply (simp add: insert_trade_def gen_random_uuid_def tx_defs)
    apply (simp add: insertTradeParticipant_def holdConsumed_def tx_defs)
    apply (simp add: post_journal_def insert_journal_def gen_random_uuid_def insert_posting_def settlement_legs_def appendFeePostings_def tx_defs)
    apply (simp add: settle_orders_def updateOrderFromSettledTrades_def traded_quantity_def traded_value_def order_trades_def update_orders_def order_checks_def validType_def validTIF_def validOrderStatus_def isConditionalType_def tx_defs)
    apply (simp add: finish_sequence_def set_pair_status_def update_sequence_def append_outbox_def tx_defs)
    done
  then show ?thesis
    using v 1 2 p by (auto simp: settle_tx_def tx_defs demo_trade_def)
qed

lemma demo_gap_ok: "sequence_ok demo_gap_db"
  by (simp add: sequence_ok_def pair_sequence_def last_of_def demo_gap_db_def demo_db_def sequence_row_ok_def image_iff)
    (metis unsigned_0 unsigned_1)

lemma demo_trade_valid: "TradeEvent_Validate demo_trade = None"
  by (simp add: demo_trade_def TradeEvent_Validate_def MaxPairBytes_def MaxIdentifierBytes_def)

lemma never_aborted: "\<exists>k < 3. \<not> (\<lambda>_ :: nat. False) k"
  by (rule exI [of _ 0]) simp

lemma demo_trade_settles: "\<exists>trade s'. SettleTrade (\<lambda>_. False) demo_trade h demo_gap_db = (Inr trade, s')"
proof -
  obtain trade s' where "settleTradeOnce demo_trade h demo_gap_db = (Inr trade, s')"
    using demo_settles settleTradeOnce_Inr by blast
  from SettleTrade_once [OF this _ never_aborted] show ?thesis by auto
qed

section \<open>A repeated delivery\<close>

lemma settled_row_exists:
  assumes "sequence_ok s" "settled_record event hash tid s"
  shows "find (\<lambda>r. sq_pair r = te_Pair event) (engine_symbol_sequences s) \<noteq> None"
proof
  assume "find (\<lambda>r. sq_pair r = te_Pair event) (engine_symbol_sequences s) = None"
  then have "last_of s (te_Pair event) = 0" by (simp add: last_of_def)
  moreover obtain b where "b \<in> set (engine_trade_inbox s)" "ib_pair b = te_Pair event"
    using assms(2) by (auto simp: settled_record_def)
  ultimately show False using assms(1) by (force simp: sequence_ok_def)
qed

lemma settled_inbox_row:
  assumes "sequence_ok s" "settled_record event hash tid s"
  obtains b where "find (\<lambda>r. ib_pair r = te_Pair event \<and> ib_sequence r = uint (te_SequenceID event)) (engine_trade_inbox s) = Some b"
    "ib_hash b = hash" "ib_processed_at b \<noteq> None"
proof -
  let ?p = "\<lambda>r. ib_pair r = te_Pair event \<and> ib_sequence r = uint (te_SequenceID event)"
  obtain b where b: "b \<in> set (engine_trade_inbox s)" "?p b" "ib_hash b = hash"
    using assms(2) by (auto simp: settled_record_def)
  then obtain b' where b': "find ?p (engine_trade_inbox s) = Some b'" using find_exists [of b _ ?p] by blast
  have "inj_on inbox_key (set (engine_trade_inbox s))" using assms(1) by (simp add: sequence_ok_def distinct_map)
  then have "b' = b" using find_SomeD [OF b'] b by (auto simp: inj_on_def inbox_key_def)
  moreover have "ib_processed_at b \<noteq> None" using assms(1) b(1) by (auto simp: sequence_ok_def)
  ultimately show ?thesis using that b' b(3) by blast
qed

lemma settle_tx_replay:
  assumes ok: "sequence_ok s" and rec: "settled_record event hash tid s" and valid: "TradeEvent_Validate event = None"
  shows "hash' = hash \<Longrightarrow> \<exists>trade. settle_tx event hash' s = Inr (Inr trade, s) \<and> t_ID trade = tid \<and> t_Duplicate trade"
    and "hash' \<noteq> hash \<Longrightarrow> settle_tx event hash' s = Inl (App ErrSequenceConflict)"
proof -
  obtain row where row: "find (\<lambda>r. sq_pair r = te_Pair event) (engine_symbol_sequences s) = Some row"
    using settled_row_exists [OF ok rec] by blast
  then have "sequence_row_ok row" using ok find_SomeD [OF row] by (simp add: sequence_ok_def list_all_iff)
  then obtain lst rt where p: "parseSequence (BigString (sq_last row)) = Inr lst" "parseSequence (BigString (sq_replay_through row)) = Inr rt"
    using parse_sequence_ok unfolding sequence_row_ok_def by blast
  obtain b where b: "find (\<lambda>r. ib_pair r = te_Pair event \<and> ib_sequence r = uint (te_SequenceID event)) (engine_trade_inbox s) = Some b"
    "ib_hash b = hash" "ib_processed_at b \<noteq> None"
    using settled_inbox_row [OF ok rec] by blast
  obtain tr where tr: "tr \<in> set (trades s)" "tr_pair tr = te_Pair event" "tr_sequence tr = uint (te_SequenceID event)" "tr_id tr = tid"
    using rec by (auto simp: settled_record_def)
  obtain trade where f: "findTradeBySequence (te_Pair event) (te_SequenceID event) s = Inr (trade, s)" "t_ID trade = tid"
    using findTradeBySequence_total [OF ok tr(1,2,3)] tr(4) by blast
  have sr: "sequence_row_of (te_Pair event) s = Inr (row, s)"
    using row by (simp add: sequence_row_of_def bindT_def queryT_def returnT_def rowT_def)
  note run = settle_tx_def bindT_def ensureT_def returnT_def failT_def queryT_def liftT_def
  show "hash' = hash \<Longrightarrow> \<exists>trade. settle_tx event hash' s = Inr (Inr trade, s) \<and> t_ID trade = tid \<and> t_Duplicate trade"
    using valid sr p b f by (simp add: run)
  show "hash' \<noteq> hash \<Longrightarrow> settle_tx event hash' s = Inl (App ErrSequenceConflict)"
    using valid sr p b by (simp add: run)
qed

lemma settled_record_cong:
  "te_Pair event' = te_Pair event \<Longrightarrow> te_SequenceID event' = te_SequenceID event \<Longrightarrow>
   settled_record event' hash tid s = settled_record event hash tid s"
  by (simp add: settled_record_def)

text \<open>
  C11: a trade is settled exactly once. After a trade event has been settled, any later delivery
  for the same pair and sequence number, after any other store calls and whatever attempts
  PostgreSQL aborts, leaves the database as it is. If the payload hash is the one already
  processed, the answer is the recorded trade, marked as a duplicate; a different payload under the
  same sequence number is refused as a conflict.
\<close>

theorem settlement_exactly_once:
  assumes "sequence_ok s" "SettleTrade aborted event hash s = (Inr trade, s')" "trading_step\<^sup>*\<^sup>* s' t"
    and "te_Pair event' = te_Pair event" "te_SequenceID event' = te_SequenceID event" "TradeEvent_Validate event' = None"
    and "\<exists>k < 3. \<not> aborted' k"
  shows "snd (SettleTrade aborted' event' hash' t) = t \<and>
    (if hash' = hash
     then \<exists>again. fst (SettleTrade aborted' event' hash' t) = Inr again \<and> t_ID again = t_ID trade \<and> t_Duplicate again
     else fst (SettleTrade aborted' event' hash' t) = Inl (App ErrSequenceConflict))"
proof -
  note run = SettleTrade_Inr [OF assms(2)]
  have ok': "sequence_ok s'" using respectsD [OF settle_tx_books run] assms(1) by (simp add: books_step_def)
  have ok: "sequence_ok t" using assms(3) ok' by (rule sequence_system.inv_reachable [rotated])
  have "books_kept s' t" using books_store.run_R [OF assms(3)] ok' by (simp add: books_step_def)
  then have "settled_record event' hash (t_ID trade) t"
    using settle_tx_record [OF run] settled_record_kept settled_record_cong [OF assms(4,5)] by blast
  note replay = settle_tx_replay [OF ok this assms(6), of hash']
  show ?thesis
  proof (cases "hash' = hash")
    case True
    with replay(1) obtain again where "settle_tx event' hash' t = Inr (Inr again, t)" "t_ID again = t_ID trade" "t_Duplicate again"
      by blast
    then show ?thesis using True SettleTrade_once [of event' hash' t "Inr again" t, OF _ _ assms(7)]
      by (auto simp: settleTradeOnce_Inr)
  next
    case False
    then have "settleTradeOnce event' hash' t = (Inl (App ErrSequenceConflict), t)"
      using replay(2) by (simp add: settleTradeOnce_def transactionE_def)
    then show ?thesis using False SettleTrade_once [OF _ _ assms(7)] by simp
  qed
qed

text \<open>The second delivery, whose first attempt is aborted, and a forged one.\<close>

theorem settlement_exactly_once_witness:
  "\<exists>trade s'. SettleTrade (\<lambda>_. False) demo_trade ''h'' demo_gap_db = (Inr trade, s') \<and>
     snd (SettleTrade (\<lambda>k. k = 0) demo_trade ''h'' s') = s' \<and>
     fst (SettleTrade (\<lambda>_. False) demo_trade ''forged'' s') = Inl (App ErrSequenceConflict)"
proof -
  obtain trade s' where run: "SettleTrade (\<lambda>_. False) demo_trade ''h'' demo_gap_db = (Inr trade, s')"
    using demo_trade_settles by blast
  note once = settlement_exactly_once [OF demo_gap_ok run rtranclp.rtrancl_refl refl refl demo_trade_valid]
  have "\<exists>k < 3. \<not> (k :: nat) = 0" by (rule exI [of _ 1]) simp
  with run once [of "\<lambda>k. k = 0" "''h''"] once [of "\<lambda>_. False" "''forged''"] show ?thesis by auto
qed

section \<open>Gaps and replay\<close>

lemma gap_run:
  assumes ok: "sequence_ok s" and valid: "TradeEvent_Validate event = None"
    and known: "te_Pair event \<in> pr_symbol ` set (trading_pairs s)"
    and ahead: "last_of s (te_Pair event) + 1 < uint (te_SequenceID event)"
  obtains row s1 last rt where "sequence_row_of (te_Pair event) s = Inr (row, s1)" "uint last = last_of s (te_Pair event)"
    "uint (last + 1) = last_of s (te_Pair event) + 1"
    "settle_tx event hash s = record_gap event (last + 1) rt (sq_halted_by_gap row) s1"
proof -
  let ?pair = "te_Pair event"
  obtain row s1 where sr: "sequence_row_of ?pair s = Inr (row, s1)"
  proof (cases "find (\<lambda>r. sq_pair r = ?pair) (engine_symbol_sequences s)")
    case None
    then show ?thesis using known that
      by (simp add: sequence_row_of_def bindT_def queryT_def ensureT_def returnT_def failT_def execT_def rowT_def find_append)
  next
    case (Some r)
    then show ?thesis using that by (simp add: sequence_row_of_def bindT_def queryT_def returnT_def rowT_def)
  qed
  note row = sequence_row_of_Inr [OF sr]
  have "books_step s s1" by (rule new_sequence_row_step [OF sr])
  then have ok1: "sequence_ok s1" using ok by (simp add: books_step_def)
  have "sequence_row_ok row" using ok1 find_SomeD [OF row(1)] by (simp add: sequence_ok_def list_all_iff)
  then obtain lst rt where p: "parseSequence (BigString (sq_last row)) = Inr lst" "parseSequence (BigString (sq_replay_through row)) = Inr rt"
    using parse_sequence_ok unfolding sequence_row_ok_def by blast
  have l: "uint lst = last_of s ?pair" using parseSequence_BigString [OF p(1)] row(2,3) by simp
  have inbox: "find (\<lambda>r. ib_pair r = ?pair \<and> ib_sequence r = uint (te_SequenceID event)) (engine_trade_inbox s1) = None"
  proof (rule ccontr)
    assume "find (\<lambda>r. ib_pair r = ?pair \<and> ib_sequence r = uint (te_SequenceID event)) (engine_trade_inbox s1) \<noteq> None"
    then obtain b where "b \<in> set (engine_trade_inbox s1)" "ib_pair b = ?pair" "ib_sequence b = uint (te_SequenceID event)"
      by (auto dest: find_SomeD)
    then have "uint (te_SequenceID event) \<le> last_of s1 ?pair" using ok1 by (auto simp: sequence_ok_def)
    with ahead row(3) show False by simp
  qed
  have "uint lst + 1 < 2 ^ 64" using ahead l uint_lt2p [of "te_SequenceID event"] by simp
  then have l1: "uint (lst + 1) = uint lst + 1" by (simp add: uint_word_ariths mod_pos_pos_trivial)
  have ne: "te_SequenceID event \<noteq> lst + 1" "\<not> te_SequenceID event < lst + 1"
    using ahead l l1 by (auto simp: word_less_def)
  have "settle_tx event hash s = record_gap event (lst + 1) rt (sq_halted_by_gap row) s1"
    using valid sr p inbox ne
    by (simp add: settle_tx_def bindT_def ensureT_def returnT_def failT_def queryT_def liftT_def)
  with sr l l1 that show ?thesis by simp
qed

text \<open>
  C12: an event that runs ahead of the sequence stops the pair and moves no money. It is refused
  with the sequence gap error naming the first missing number, the ledger, the orders and the
  trades are as before, the pair is halted and in replay mode, and no new order can be placed on
  it.
\<close>

theorem gap_halts_pair:
  assumes "sequence_ok s" "TradeEvent_Validate event = None" "te_Pair event \<in> pr_symbol ` set (trading_pairs s)"
    and "last_of s (te_Pair event) + 1 < uint (te_SequenceID event)" "\<exists>k < 3. \<not> aborted k"
  shows "\<exists>expected s'. SettleTrade aborted event hash s =
      (Inl (App (ErrSequenceGap (te_Pair event) expected (te_SequenceID event))), s') \<and>
    uint expected = last_of s (te_Pair event) + 1 \<and>
    postings s' = postings s \<and> journals s' = journals s \<and> orders s' = orders s \<and> trades s' = trades s \<and>
    pair_for_order s' (te_Pair event) = None \<and>
    (\<exists>row. find (\<lambda>r. sq_pair r = te_Pair event) (engine_symbol_sequences s') = Some row \<and> sq_mode row = ''replay_required'' \<and>
       uint (te_SequenceID event) \<le> sq_replay_through row)"
proof -
  let ?pair = "te_Pair event"
  obtain row s1 last rt where sr: "sequence_row_of ?pair s = Inr (row, s1)" and l: "uint (last + 1) = last_of s ?pair + 1"
    and run: "settle_tx event hash s = record_gap event (last + 1) rt (sq_halted_by_gap row) s1"
    using gap_run [OF assms(1-4)] by metis
  define seqs where "seqs = engine_symbol_sequences s1"
  have s1: "s1 = s\<lparr>engine_symbol_sequences := seqs\<rparr>" "find (\<lambda>r. sq_pair r = ?pair) seqs = Some row"
    using sequence_row_of_Inr(1,4) [OF sr] by (simp_all add: seqs_def)
  let ?upd = "\<lambda>r. r\<lparr>sq_mode := ''replay_required'',
       sq_replay_through := uint (if te_SequenceID event > rt then te_SequenceID event else rt),
       sq_halted_by_gap := sq_halted_by_gap row \<or> filter (\<lambda>p. pr_symbol p = ?pair \<and> pr_status p = ''active'') (trading_pairs s) \<noteq> []\<rparr>"
  let ?s' = "update_sequence ?pair ?upd (set_pair_status ?pair ''active'' ''halted'' s1)"
  have gap: "settle_tx event hash s = Inr (Inl (App (ErrSequenceGap ?pair (last + 1) (te_SequenceID event))), ?s')"
    unfolding run by (simp add: record_gap_def bindT_def queryT_def execT_def returnT_def s1(1))
  then have "settleTradeOnce event hash s = (Inl (App (ErrSequenceGap ?pair (last + 1) (te_SequenceID event))), ?s')"
    by (simp add: settleTradeOnce_def transactionE_def)
  then have "SettleTrade aborted event hash s = (Inl (App (ErrSequenceGap ?pair (last + 1) (te_SequenceID event))), ?s')"
    by (rule SettleTrade_once) (use assms(5) in simp_all)
  moreover have "pair_for_order ?s' ?pair = None"
    by (auto simp: pair_for_order_def find_None_iff update_sequence_def set_pair_status_def set_update_where split: if_splits)
  moreover have "find (\<lambda>r. sq_pair r = ?pair) (engine_symbol_sequences ?s') = Some (?upd row)"
    using s1(2) find_SomeD [OF s1(2)] by (simp add: update_sequence_def set_pair_status_def s1(1) find_update_where)
  moreover have "uint (te_SequenceID event) \<le> sq_replay_through (?upd row)" by (auto simp: word_less_def)
  ultimately show ?thesis
    using l by (intro exI [of _ "last + 1"] exI [of _ ?s']) (simp add: update_sequence_def set_pair_status_def s1(1))
qed

theorem gap_halts_pair_witness:
  "\<exists>expected s'. SettleTrade (\<lambda>_. False) (demo_trade\<lparr>te_SequenceID := 5\<rparr>) ''h'' demo_db =
      (Inl (App (ErrSequenceGap ''BTCUSDT'' expected 5)), s') \<and> uint expected = 1 \<and> postings s' = postings demo_db \<and>
      pair_for_order s' ''BTCUSDT'' = None"
proof -
  let ?e = "demo_trade\<lparr>te_SequenceID := 5\<rparr>"
  have "TradeEvent_Validate ?e = None"
    by (simp add: demo_trade_def TradeEvent_Validate_def MaxPairBytes_def MaxIdentifierBytes_def)
  moreover have "te_Pair ?e \<in> pr_symbol ` set (trading_pairs demo_db)" "last_of demo_db (te_Pair ?e) = 0"
    "te_Pair ?e = ''BTCUSDT''" "te_SequenceID ?e = 5"
    by (simp_all add: demo_trade_def demo_db_def last_of_def)
  ultimately show ?thesis
    using gap_halts_pair [OF demo_sequence_ok, of ?e "\<lambda>_. False" "''h''"] never_aborted by (simp, blast)
qed

text \<open>What settling the next trade does to the pair and to its sequence row.\<close>

definition same_pairs :: "trading_db \<Rightarrow> trading_db \<Rightarrow> bool" where
  "same_pairs s s' \<longleftrightarrow> trading_pairs s' = trading_pairs s"

interpretation pairs_rel: tx_relation same_pairs
  by unfold_locales (auto simp: same_pairs_def)

lemma pairs_statements:
  "tx_respects same_pairs (update_orders p f)" "tx_respects same_pairs (append_outbox a b c d)"
  "tx_respects same_pairs (LockAccountAsset err acc asset)" "tx_respects same_pairs (bucketBalance acc asset bk)"
  "tx_respects same_pairs (post_trading_journal k t r legs)" "tx_respects same_pairs gen_random_uuid"
  "tx_respects same_pairs (advisory_lock key)"
  by (auto intro!: respectsI dest: post_journal_frame
      simp: same_pairs_def tx_simps append_outbox_def gen_random_uuid_def advisory_lock_def split: if_splits)

lemma pairs_frame: "(\<And>s. trading_pairs (f s) = trading_pairs s) \<Longrightarrow> tx_respects same_pairs (execT f)"
  by (intro pairs_rel.exec) (simp add: same_pairs_def)

lemmas pairs_intros = pairs_rel.bind pairs_rel.pure pairs_statements pairs_frame pairs_rel.for_each

lemma settlement_pairs:
  "tx_respects same_pairs (ensureTradingFeeAccount x)" "tx_respects same_pairs (settle_orders mk tk sid)"
  "tx_respects same_pairs (settle_funds event base quote mk tk notional mf tf feeAcc)"
  by (auto intro!: pairs_intros simp: ensureTradingFeeAccount_def settle_orders_def updateOrderFromSettledTrades_def
      releaseOrderHold_def settle_funds_def ensureOrderSettlementCapacity_def insert_trade_def insertTradeParticipant_def Let_def
      split: option.splits prod.splits)

lemma settle_funds_sequences: "tx_respects (\<lambda>s s'. engine_symbol_sequences s' = engine_symbol_sequences s)
    (settle_funds event base quote mk tk notional mf tf feeAcc)"
proof (rule respectsI)
  fix s tid s'
  assume run: "settle_funds event base quote mk tk notional mf tf feeAcc s = Inr (tid, s')"
  obtain buyer seller bf sf where sd: "sides mk tk mf tf = (buyer, seller, bf, sf)" by (metis prod_cases4)
  obtain t where "funds_settled event base quote mk tk notional mf tf feeAcc s tid s' t"
    using settle_funds_Inr [OF run] by blast
  then obtain j key legs where "post_trading_journal key ''trade_settlement'' tid legs t = Inr (j, s')"
    "engine_symbol_sequences t = engine_symbol_sequences s" unfolding funds_settled_def sd by auto
  then show "engine_symbol_sequences s' = engine_symbol_sequences s" by (simp add: post_journal_frame)
qed

lemma settle_next_switch:
  assumes "settle_next event hash mode rt hg s = Inr (trade, s')"
  shows "trading_pairs s' = (if gap_closed mode event rt \<and> hg
       then update_where (\<lambda>p. pr_symbol p = te_Pair event \<and> pr_status p = ''halted'') (\<lambda>p. p\<lparr>pr_status := ''active''\<rparr>) (trading_pairs s)
       else trading_pairs s)"
    "engine_symbol_sequences s' = update_where (\<lambda>r. sq_pair r = te_Pair event)
        (\<lambda>r. r\<lparr>sq_last := uint (te_SequenceID event), sq_mode := (if gap_closed mode event rt then ''active'' else mode),
           sq_replay_through := uint (if gap_closed mode event rt then 0 else rt),
           sq_halted_by_gap := (if gap_closed mode event rt \<and> hg then False else hg)\<rparr>) (engine_symbol_sequences s)"
proof -
  define s0 where "s0 = s\<lparr>engine_trade_inbox := engine_trade_inbox s @
    [\<lparr>ib_pair = te_Pair event, ib_sequence = uint (te_SequenceID event), ib_hash = hash, ib_processed_at = None\<rparr>]\<rparr>"
  have s0: "trading_pairs s0 = trading_pairs s" "engine_symbol_sequences s0 = engine_symbol_sequences s"
    by (simp_all add: s0_def)
  obtain p q where run: "settle_pair event mode rt hg p q s0 = Inr (trade, s')"
    using assms by (auto simp: settle_next_def insert_inbox_def tx_simps s0_def split: prod.splits)
  obtain m k where "pair_settled event mode rt hg p s0 (settlement_order_of m) (settlement_order_of k) trade s'"
    using run by (rule settle_pair_Inr)
  then obtain notional mf tf feeAcc s1 tid s2 u s3 nm s4 v outbox where
    1: "ensureTradingFeeAccount (pr_quote p) s0 = Inr (feeAcc, s1)"
    and 2: "settle_funds event (pr_base p) (pr_quote p) (settlement_order_of m) (settlement_order_of k) notional mf tf feeAcc s1 = Inr (tid, s2)"
    and 3: "settle_orders (settlement_order_of m) (settlement_order_of k) (te_SequenceID event) s2 = Inr (u, s3)"
    and 4: "finish_sequence event mode rt hg s3 = Inr (nm, s4)"
    and 5: "(append_outbox ''trade.settled'' ''trade'' tid outbox :: unit trading_tx) s4 = Inr (v, s')"
    unfolding pair_settled_def by blast
  have p: "trading_pairs s3 = trading_pairs s" "trading_pairs s' = trading_pairs s4"
    using respectsD [OF settlement_pairs(1) 1] respectsD [OF settlement_pairs(3) 2] respectsD [OF settlement_pairs(2) 3]
      respectsD [OF pairs_statements(2) 5] s0 by (simp_all add: same_pairs_def)
  have q: "engine_symbol_sequences s3 = engine_symbol_sequences s" "engine_symbol_sequences s' = engine_symbol_sequences s4"
    using respectsD [OF fee_account_books 1] respectsD [OF settle_funds_sequences 2] respectsD [OF settle_orders_books 3]
      respectsD [OF books_statements(3) 5] s0 by (simp_all add: same_books_def)
  note f = finish_sequence_Inr [OF 4]
  show "trading_pairs s' = (if gap_closed mode event rt \<and> hg
       then update_where (\<lambda>p. pr_symbol p = te_Pair event \<and> pr_status p = ''halted'') (\<lambda>p. p\<lparr>pr_status := ''active''\<rparr>) (trading_pairs s)
       else trading_pairs s)" using f(6) p by simp
  show "engine_symbol_sequences s' = update_where (\<lambda>r. sq_pair r = te_Pair event)
        (\<lambda>r. r\<lparr>sq_last := uint (te_SequenceID event), sq_mode := (if gap_closed mode event rt then ''active'' else mode),
           sq_replay_through := uint (if gap_closed mode event rt then 0 else rt),
           sq_halted_by_gap := (if gap_closed mode event rt \<and> hg then False else hg)\<rparr>) (engine_symbol_sequences s)"
    using f(1,5) q by simp
qed

text \<open>A pair in replay mode after a gap.\<close>

definition replaying :: "trading_db \<Rightarrow> string \<Rightarrow> int \<Rightarrow> int \<Rightarrow> bool" where
  "replaying s pair lst through \<longleftrightarrow> (\<exists>row. find (\<lambda>r. sq_pair r = pair) (engine_symbol_sequences s) = Some row \<and>
     sq_last row = lst \<and> sq_mode row = ''replay_required'' \<and> sq_replay_through row = through \<and> sq_halted_by_gap row)"

definition reopened :: "trading_db \<Rightarrow> string \<Rightarrow> int \<Rightarrow> bool" where
  "reopened s pair lst \<longleftrightarrow> (\<exists>row. find (\<lambda>r. sq_pair r = pair) (engine_symbol_sequences s) = Some row \<and>
     sq_last row = lst \<and> sq_mode row = ''active'' \<and> \<not> sq_halted_by_gap row)"

lemma replay_step:
  assumes ok: "sequence_ok s" and rep: "replaying s pair lst through"
    and ev: "te_Pair event = pair" "uint (te_SequenceID event) = lst + 1"
    and run: "SettleTrade aborted event hash s = (Inr trade, s')"
  shows "sequence_ok s'"
    "lst + 1 < through \<Longrightarrow> replaying s' pair (lst + 1) through \<and> trading_pairs s' = trading_pairs s"
    "lst + 1 = through \<Longrightarrow> reopened s' pair through \<and>
       trading_pairs s' = update_where (\<lambda>p. pr_symbol p = pair \<and> pr_status p = ''halted'') (\<lambda>p. p\<lparr>pr_status := ''active''\<rparr>) (trading_pairs s)"
proof -
  note tx = SettleTrade_Inr [OF run]
  show "sequence_ok s'" using respectsD [OF settle_tx_books tx] ok by (simp add: books_step_def)
  obtain row where row: "find (\<lambda>r. sq_pair r = pair) (engine_symbol_sequences s) = Some row" "sq_last row = lst"
    "sq_mode row = ''replay_required''" "sq_replay_through row = through" "sq_halted_by_gap row"
    using rep by (auto simp: replaying_def)
  have same: "row1 = row \<and> s1 = s" if "sequence_row_of (te_Pair event) s = Inr (row1, s1)" for row1 s1
    using sequence_row_of_Inr(1,5) [OF that] row(1) ev(1) by simp
  have "\<exists>rt. uint rt = through \<and> settle_next event hash (sq_mode row) rt (sq_halted_by_gap row) s = Inr (trade, s')"
    using tx
  proof (cases rule: settle_tx_cases)
    case (duplicate s1 row1 trade0)
    with same [OF duplicate(1)] obtain b where
      "find (\<lambda>r. ib_pair r = te_Pair event \<and> ib_sequence r = uint (te_SequenceID event)) (engine_trade_inbox s) = Some b" by auto
    from find_SomeD [OF this] have "uint (te_SequenceID event) \<le> last_of s pair"
      using ok ev(1) by (auto simp: sequence_ok_def)
    then show ?thesis using row(1,2) ev(2) by (simp add: last_of_def)
  next
    case (gap s1 row1 last rt)
    then show ?thesis by (auto simp: record_gap_def tx_simps)
  next
    case (settled s1 row1 last rt trade0)
    with same [OF settled(1)] row(4) show ?thesis by auto
  qed
  then obtain rt where rt: "uint rt = through" and next1: "settle_next event hash ''replay_required'' rt True s = Inr (trade, s')"
    using row by auto
  have gc: "gap_closed ''replay_required'' event rt \<longleftrightarrow> through \<le> lst + 1"
    using rt ev(2) by (simp add: gap_closed_def word_le_def)
  note sw = settle_next_switch [OF next1, unfolded gc]
  have found: "find (\<lambda>r. sq_pair r = pair) (engine_symbol_sequences s') = Some
      (row\<lparr>sq_last := uint (te_SequenceID event), sq_mode := (if through \<le> lst + 1 then ''active'' else ''replay_required''),
           sq_replay_through := uint (if through \<le> lst + 1 then 0 else rt),
           sq_halted_by_gap := (if through \<le> lst + 1 \<and> True then False else True)\<rparr>)"
    using row(1) find_SomeD [OF row(1)] ev(1) by (simp add: sw(2) find_update_where)
  show "replaying s' pair (lst + 1) through \<and> trading_pairs s' = trading_pairs s" if "lst + 1 < through"
    using that found sw(1) ev(2) rt by (simp add: replaying_def)
  show "reopened s' pair through \<and>
       trading_pairs s' = update_where (\<lambda>p. pr_symbol p = pair \<and> pr_status p = ''halted'') (\<lambda>p. p\<lparr>pr_status := ''active''\<rparr>) (trading_pairs s)"
    if "lst + 1 = through" using that found sw(1) ev by (simp add: reopened_def)
qed

text \<open>Settling a list of events, each of which must be accepted.\<close>

fun settle_all :: "(TradeEvent \<times> string) list \<Rightarrow> trading_db \<Rightarrow> trading_db option" where
  "settle_all [] s = Some s"
| "settle_all ((event, hash) # rest) s =
     (case SettleTrade (\<lambda>_. False) event hash s of (Inr _, s') \<Rightarrow> settle_all rest s' | _ \<Rightarrow> None)"

lemma replay_run:
  assumes "sequence_ok s" "replaying s pair lst through" "lst < through"
    and "\<forall>(e, h) \<in> set es. te_Pair e = pair" "map (\<lambda>(e, h). uint (te_SequenceID e)) es = [lst + 1 .. through]"
    and "settle_all es s = Some s'"
  shows "reopened s' pair through \<and>
    trading_pairs s' = update_where (\<lambda>p. pr_symbol p = pair \<and> pr_status p = ''halted'') (\<lambda>p. p\<lparr>pr_status := ''active''\<rparr>) (trading_pairs s)"
  using assms
proof (induction es arbitrary: s lst)
  case Nil
  then show ?case by simp
next
  case (Cons x es)
  obtain e h where x: "x = (e, h)" by (cases x)
  have seq: "uint (te_SequenceID e) = lst + 1" "map (\<lambda>(e, h). uint (te_SequenceID e)) es = [lst + 1 + 1 .. through]"
    using Cons.prems(3,5) x upto_rec1 [of "lst + 1" through] by auto
  obtain trade s1 where st: "SettleTrade (\<lambda>_. False) e h s = (Inr trade, s1)" "settle_all es s1 = Some s'"
    using Cons.prems(6) x by (auto split: prod.splits sum.splits)
  have e: "te_Pair e = pair" using Cons.prems(4) x by auto
  note step = replay_step [OF Cons.prems(1,2) e seq(1) st(1)]
  show ?case
  proof (cases "lst + 1 = through")
    case True
    then have "es = []" using seq(2) by simp
    with st(2) step(3) True show ?thesis by simp
  next
    case False
    then have "lst + 1 < through" using Cons.prems(3) by simp
    with Cons.IH [of s1 "lst + 1"] step(1,2) seq(2) st(2) Cons.prems(4) show ?thesis by simp
  qed
qed

text \<open>
  C13: the replay of the missing trades opens the pair again. Let a pair be halted by a gap and
  waiting for the trades up to \<open>through\<close>. Once the trades from the first missing one up to
  \<open>through\<close> have been delivered in order and settled, and no earlier, the pair is out of
  replay mode, every pair row that the gap had halted is active again, and the recorded sequence
  has reached \<open>through\<close>.
\<close>

theorem replay_reopens_pair:
  assumes "sequence_ok s" "replaying s pair lst through" "lst < through"
    and "\<forall>(e, h) \<in> set es. te_Pair e = pair" "map (\<lambda>(e, h). uint (te_SequenceID e)) es = [lst + 1 .. n]" "n \<le> through"
    and "settle_all es s = Some s'"
  shows "if n = through
    then reopened s' pair through \<and>
      trading_pairs s' = update_where (\<lambda>p. pr_symbol p = pair \<and> pr_status p = ''halted'') (\<lambda>p. p\<lparr>pr_status := ''active''\<rparr>) (trading_pairs s)
    else lst \<le> n \<longrightarrow> replaying s' pair n through \<and> trading_pairs s' = trading_pairs s"
proof (cases "n = through")
  case True
  with replay_run [OF assms(1-4) _ assms(7)] assms(5) show ?thesis by simp
next
  case False
  have "replaying s' pair n through \<and> trading_pairs s' = trading_pairs s" if "lst \<le> n"
    using assms that False
  proof (induction es arbitrary: s lst)
    case (Cons x es)
    obtain e h where x: "x = (e, h)" by (cases x)
    have n: "lst + 1 \<le> n" using Cons.prems(5) by (cases "lst + 1 \<le> n") auto
    have seq: "uint (te_SequenceID e) = lst + 1" "map (\<lambda>(e, h). uint (te_SequenceID e)) es = [lst + 1 + 1 .. n]"
      using Cons.prems(5) x upto_rec1 [OF n] by auto
    obtain trade s1 where st: "SettleTrade (\<lambda>_. False) e h s = (Inr trade, s1)" "settle_all es s1 = Some s'"
      using Cons.prems(7) x by (auto split: prod.splits sum.splits)
    have e: "te_Pair e = pair" using Cons.prems(4) x by auto
    have "lst + 1 < through" using n Cons.prems(6,9) by simp
    with replay_step(1,2) [OF Cons.prems(1,2) e seq(1) st(1)] Cons.IH [of s1 "lst + 1"] seq(2) st(2) Cons.prems n
    show ?case by simp
  qed simp
  with False show ?thesis by simp
qed

theorem replay_reopens_pair_witness:
  "\<exists>s'. settle_all [(demo_trade, ''h'')] demo_gap_db = Some s' \<and> reopened s' ''BTCUSDT'' 1 \<and>
     map pr_status (trading_pairs s') = [''active'']"
proof -
  obtain trade s' where "SettleTrade (\<lambda>_. False) demo_trade ''h'' demo_gap_db = (Inr trade, s')"
    using demo_trade_settles by blast
  then have all: "settle_all [(demo_trade, ''h'')] demo_gap_db = Some s'" by simp
  have "replaying demo_gap_db ''BTCUSDT'' 0 1" by (simp add: replaying_def demo_gap_db_def)
  from replay_reopens_pair [OF demo_gap_ok this _ _ _ _ all, of 1] all show ?thesis
    by (simp add: demo_trade_def demo_gap_db_def demo_db_def)
qed

end
