(* ===== verification/P2P.thy ===== *)
theory P2P
  imports Orders Ledger_DB
begin

text \<open>
  Peer-to-peer escrow, internal/p2p: the types of model.go and the checks of service.go that turn
  a request into a store command. A service method trims and checks its input, asks for an id and
  the time (\<open>newID\<close> and \<open>now\<close>, parameters here) and calls the store. Times are integers
  in microseconds, the precision of the database; what \<open>time.Now\<close> adds below that is not
  modelled. SHA-256 and the Unicode case tables are the fields of \<open>go_env\<close>.
\<close>

section \<open>Types of model.go\<close>

datatype p2p_error =
    ErrInvalidRequest
  | ErrIdempotencyRequired
  | ErrIdempotencyConflict
  | ErrFundingAccountNeeded
  | ErrInsufficientBalance
  | ErrTradeNotFound
  | ErrInvalidTransition
  | ErrForbidden
  | ErrExpired
  | ErrApprovalRole
  | ErrSameApprover
  | ErrResolutionNotFound
  | ErrNoRows
  | ErrOther string

type_synonym p2p_failure = "p2p_error failure"

record P2PTrade =
  pt_ID :: string
  pt_SellerUserID :: string
  pt_SellerAccountID :: string
  pt_BuyerUserID :: string
  pt_BuyerAccountID :: string
  pt_AssetID :: string
  pt_AssetSymbol :: string
  pt_AssetNetwork :: string
  pt_AmountAtomic :: string
  pt_FiatCurrency :: string
  pt_FiatAmount :: string
  pt_PaymentMethod :: string
  pt_Status :: string
  pt_OfferExpiresAt :: int
  pt_PaymentDeadline :: "int option"
  pt_AcceptedAt :: "int option"
  pt_PaidAt :: "int option"
  pt_CompletedAt :: "int option"
  pt_CreatedAt :: int
  pt_UpdatedAt :: int
  pt_Duplicate :: bool

record Resolution =
  rs_ID :: string
  rs_TradeID :: string
  rs_Action :: string
  rs_Reason :: string
  rs_ProposedBy :: string
  rs_ApprovedBy :: string
  rs_Status :: string
  rs_CreatedAt :: int
  rs_DecidedAt :: "int option"
  rs_Duplicate :: bool

record CreateInput =
  ci_UserID :: string
  ci_AccountID :: string
  ci_AssetSymbol :: string
  ci_AssetNetwork :: string
  ci_AmountAtomic :: string
  ci_FiatCurrency :: string
  ci_FiatAmount :: string
  ci_PaymentMethod :: string
  ci_ExpiresInSeconds :: i64
  ci_IdempotencyKey :: string

record ActionInput =
  ai_UserID :: string
  ai_AccountID :: string
  ai_TradeID :: string
  ai_IdempotencyKey :: string

record ResolutionInput =
  ri_ActorID :: string
  ri_TradeID :: string
  ri_Action :: string
  ri_Reason :: string
  ri_IdempotencyKey :: string

record ApprovalInput =
  vi_ActorID :: string
  vi_ResolutionID :: string
  vi_IdempotencyKey :: string

record CreateCommand =
  cm_TradeID :: string
  cm_UserID :: string
  cm_AccountID :: string
  cm_AssetSymbol :: string
  cm_AssetNetwork :: string
  cm_AmountAtomic :: string
  cm_FiatCurrency :: string
  cm_FiatAmount :: string
  cm_PaymentMethod :: string
  cm_IdempotencyKey :: string
  cm_OfferExpiresAt :: int
  cm_Now :: int
  cm_RequestHash :: string

record ActionCommand =
  ax_UserID :: string
  ax_AccountID :: string
  ax_TradeID :: string
  ax_IdempotencyKey :: string
  ax_Now :: int
  ax_PaymentDeadline :: int
  ax_RequestHash :: string

record DisputeCommand = ActionCommand +
  dc_Reason :: string

record EvidenceCommand = ActionCommand +
  ev_EvidenceID :: string
  ev_EvidenceType :: string
  ev_ObjectKey :: string
  ev_SHA256Hex :: string

record ResolutionCommand =
  rc_ResolutionID :: string
  rc_ActorID :: string
  rc_TradeID :: string
  rc_Action :: string
  rc_Reason :: string
  rc_IdempotencyKey :: string
  rc_Now :: int
  rc_RequestHash :: string

record ApprovalCommand =
  vc_ActorID :: string
  vc_ResolutionID :: string
  vc_IdempotencyKey :: string
  vc_Now :: int
  vc_RequestHash :: string

section \<open>Checks of service.go\<close>

text \<open>The regular expressions \<open>^[0-9]+$\<close> (this is \<open>all_digits\<close>),
  \<open>^[0-9]+(\.[0-9]{1,8})?$\<close> and \<open>^[0-9a-f]{64}$\<close>.\<close>

definition fiatPattern :: "string \<Rightarrow> bool" where
  "fiatPattern s = (case (takeWhile is_digit s, dropWhile is_digit s) of (whole, rest) \<Rightarrow>
     whole \<noteq> [] \<and> (case rest of [] \<Rightarrow> True
       | c # frac \<Rightarrow> c = CHR ''.'' \<and> all_digits frac \<and> length frac \<le> 8))"

definition is_hex :: "char \<Rightarrow> bool" where
  "is_hex c \<longleftrightarrow> is_digit c \<or> 97 \<le> byte c \<and> byte c \<le> 102"

definition hexPattern :: "string \<Rightarrow> bool" where
  "hexPattern s \<longleftrightarrow> length s = 64 \<and> list_all is_hex s"

definition validateIdempotency :: "string \<Rightarrow> p2p_error option" where
  "validateIdempotency key =
     (if TrimSpace key = [] then Some ErrIdempotencyRequired
      else if length key > 255 then Some ErrInvalidRequest
      else None)"

definition p2p_requestHash :: "go_env \<Rightarrow> string list \<Rightarrow> string" where
  "p2p_requestHash env parts = sha256 env (Join parts [char_of (0 :: nat)])"

definition trim_create :: "go_env \<Rightarrow> CreateInput \<Rightarrow> CreateInput" where
  "trim_create env i = i\<lparr>ci_UserID := TrimSpace (ci_UserID i), ci_AccountID := TrimSpace (ci_AccountID i),
     ci_AssetSymbol := TrimSpace (ci_AssetSymbol i), ci_AssetNetwork := TrimSpace (ci_AssetNetwork i),
     ci_AmountAtomic := TrimSpace (ci_AmountAtomic i), ci_FiatAmount := TrimSpace (ci_FiatAmount i),
     ci_FiatCurrency := ToUpper (uni_upper env) (TrimSpace (ci_FiatCurrency i)),
     ci_PaymentMethod := TrimSpace (ci_PaymentMethod i), ci_IdempotencyKey := TrimSpace (ci_IdempotencyKey i)\<rparr>"

definition valid_create :: "CreateInput \<Rightarrow> bool" where
  "valid_create i \<longleftrightarrow>
     \<not> (ci_UserID i = [] \<or> ci_AccountID i = [] \<or> ci_AssetSymbol i = [] \<or> ci_AssetNetwork i = [] \<or>
        \<not> all_digits (ci_AmountAtomic i) \<or>
        (case SetString (ci_AmountAtomic i) of None \<Rightarrow> True | Some amount \<Rightarrow> amount \<le> 0) \<or>
        length (ci_FiatCurrency i) \<noteq> 3 \<or> \<not> fiatPattern (ci_FiatAmount i) \<or>
        length (ci_PaymentMethod i) < 2 \<or> length (ci_PaymentMethod i) > 100 \<or>
        sint (ci_ExpiresInSeconds i) < 300 \<or> sint (ci_ExpiresInSeconds i) > 7 * 24 * 60 * 60)"

abbreviation second :: int where "second \<equiv> 1000000"

text \<open>\<open>Service.Create\<close> up to the call of the store.\<close>

definition create_command :: "go_env \<Rightarrow> p2p_error + string \<Rightarrow> int \<Rightarrow> CreateInput \<Rightarrow> p2p_error + CreateCommand" where
  "create_command env newID now input =
     (let i = trim_create env input in
      case validateIdempotency (ci_IdempotencyKey i) of
        Some e \<Rightarrow> Inl e
      | None \<Rightarrow>
        if \<not> valid_create i then Inl ErrInvalidRequest
        else case newID of
          Inl e \<Rightarrow> Inl e
        | Inr tradeID \<Rightarrow> Inr
          \<lparr>cm_TradeID = tradeID, cm_UserID = ci_UserID i, cm_AccountID = ci_AccountID i,
           cm_AssetSymbol = ci_AssetSymbol i, cm_AssetNetwork = ci_AssetNetwork i, cm_AmountAtomic = ci_AmountAtomic i,
           cm_FiatCurrency = ci_FiatCurrency i, cm_FiatAmount = ci_FiatAmount i, cm_PaymentMethod = ci_PaymentMethod i,
           cm_IdempotencyKey = ci_IdempotencyKey i, cm_OfferExpiresAt = now + sint (ci_ExpiresInSeconds i) * second,
           cm_Now = now,
           cm_RequestHash = p2p_requestHash env [''create'', ci_UserID i, ci_AccountID i, ci_AssetSymbol i,
             ci_AssetNetwork i, ci_AmountAtomic i, ci_FiatCurrency i, ci_FiatAmount i, ci_PaymentMethod i,
             BigString (sint (ci_ExpiresInSeconds i))]\<rparr>)"

text \<open>\<open>Service.action\<close>, shared by the actions of the two parties; the payment deadline is the
  zero time until \<open>Accept\<close> sets it (no other action reads it).\<close>

definition zero_time :: int where "zero_time = - 62135596800 * second"

definition action :: "go_env \<Rightarrow> int \<Rightarrow> string \<Rightarrow> ActionInput \<Rightarrow> p2p_error + ActionCommand" where
  "action env now operation input =
     (let user = TrimSpace (ai_UserID input); account = TrimSpace (ai_AccountID input);
          trade = TrimSpace (ai_TradeID input); key = TrimSpace (ai_IdempotencyKey input) in
      case validateIdempotency key of
        Some e \<Rightarrow> Inl e
      | None \<Rightarrow>
        if user = [] \<or> account = [] \<or> trade = [] then Inl ErrInvalidRequest
        else Inr \<lparr>ax_UserID = user, ax_AccountID = account, ax_TradeID = trade, ax_IdempotencyKey = key,
          ax_Now = now, ax_PaymentDeadline = zero_time,
          ax_RequestHash = p2p_requestHash env [operation, user, account, trade]\<rparr>)"

definition accept_command :: "go_env \<Rightarrow> int \<Rightarrow> ActionInput \<Rightarrow> p2p_error + ActionCommand" where
  "accept_command env now input =
     map_sum id (\<lambda>c. c\<lparr>ax_PaymentDeadline := ax_Now c + 30 * 60 * second\<rparr>) (action env now ''accept'' input)"

definition dispute_command :: "go_env \<Rightarrow> int \<Rightarrow> ActionInput \<Rightarrow> string \<Rightarrow> p2p_error + DisputeCommand" where
  "dispute_command env now input reason0 =
     (let reason = TrimSpace reason0 in
      case action env now ''dispute'' input of
        Inl e \<Rightarrow> Inl e
      | Inr c \<Rightarrow>
        if length reason < 8 \<or> length reason > 1000 then Inl ErrInvalidRequest
        else Inr (ActionCommand.extend
          (c\<lparr>ax_RequestHash := p2p_requestHash env [''dispute'', ax_UserID c, ax_AccountID c, ax_TradeID c, reason]\<rparr>)
          (DisputeCommand.fields reason)))"

definition evidence_command ::
  "go_env \<Rightarrow> p2p_error + string \<Rightarrow> int \<Rightarrow> ActionInput \<Rightarrow> string \<Rightarrow> string \<Rightarrow> string \<Rightarrow> p2p_error + EvidenceCommand" where
  "evidence_command env newID now input type0 key0 sha0 =
     (let etype = TrimSpace type0; okey = TrimSpace key0; sha = ToLower (uni_lower env) (TrimSpace sha0) in
      case action env now ''evidence'' input of
        Inl e \<Rightarrow> Inl e
      | Inr c \<Rightarrow>
        if length etype < 2 \<or> length etype > 40 \<or> length okey < 3 \<or> length okey > 500 \<or> \<not> hexPattern sha
        then Inl ErrInvalidRequest
        else case newID of
          Inl e \<Rightarrow> Inl e
        | Inr evidenceID \<Rightarrow> Inr (ActionCommand.extend
            (c\<lparr>ax_RequestHash := p2p_requestHash env [''evidence'', ax_UserID c, ax_TradeID c, etype, okey, sha]\<rparr>)
            (EvidenceCommand.fields evidenceID etype okey sha)))"

definition resolution_command :: "go_env \<Rightarrow> p2p_error + string \<Rightarrow> int \<Rightarrow> ResolutionInput \<Rightarrow> p2p_error + ResolutionCommand" where
  "resolution_command env newID now input =
     (let actor = TrimSpace (ri_ActorID input); trade = TrimSpace (ri_TradeID input);
          act = ToLower (uni_lower env) (TrimSpace (ri_Action input));
          reason = TrimSpace (ri_Reason input); key = TrimSpace (ri_IdempotencyKey input) in
      case validateIdempotency key of
        Some e \<Rightarrow> Inl e
      | None \<Rightarrow>
        if actor = [] \<or> trade = [] \<or> act \<noteq> ''force_release'' \<and> act \<noteq> ''refund'' \<or> length reason < 8 \<or> length reason > 1000
        then Inl ErrInvalidRequest
        else case newID of
          Inl e \<Rightarrow> Inl e
        | Inr ident \<Rightarrow> Inr
          \<lparr>rc_ResolutionID = ident, rc_ActorID = actor, rc_TradeID = trade, rc_Action = act, rc_Reason = reason,
           rc_IdempotencyKey = key, rc_Now = now,
           rc_RequestHash = p2p_requestHash env [''propose_resolution'', actor, trade, act, reason]\<rparr>)"

definition approval_command :: "go_env \<Rightarrow> int \<Rightarrow> ApprovalInput \<Rightarrow> p2p_error + ApprovalCommand" where
  "approval_command env now input =
     (let actor = TrimSpace (vi_ActorID input); ident = TrimSpace (vi_ResolutionID input);
          key = TrimSpace (vi_IdempotencyKey input) in
      case validateIdempotency key of
        Some e \<Rightarrow> Inl e
      | None \<Rightarrow>
        if actor = [] \<or> ident = [] then Inl ErrInvalidRequest
        else Inr \<lparr>vc_ActorID = actor, vc_ResolutionID = ident, vc_IdempotencyKey = key, vc_Now = now,
          vc_RequestHash = p2p_requestHash env [''approve_resolution'', actor, ident]\<rparr>)"

definition page_limit :: "int \<Rightarrow> int \<Rightarrow> int \<Rightarrow> int" where
  "page_limit maximum fallback limit = (if limit < 1 \<or> limit > maximum then fallback else limit)"

end
