(* ===== verification/P2P_Store.thy ===== *)
theory P2P_Store
  imports P2P "HOL-Library.Product_Lexorder" "HOL-Library.List_Lexorder" "HOL-Library.Char_ord"
begin

text \<open>
  The escrow store, internal/p2p/postgres.go, over the tables of migration 64. Every method is a
  transaction body \<open>..._tx\<close>; the methods of \<open>PostgresStore\<close> commit or roll it back. Ids
  are canonical UUID texts, so a cast to \<open>uuid\<close> does not fail; an amount text reaches the
  store as \<open>service.go\<close> checked it. A row lock has no effect on a serial execution; the
  advisory locks are recorded in the state.
\<close>

section \<open>Tables\<close>

record p2p_trade_row =
  tw_id :: string
  tw_seller_user :: string
  tw_seller_account :: string
  tw_buyer_user :: "string option"
  tw_buyer_account :: "string option"
  tw_asset :: string
  tw_amount :: int
  tw_fiat_currency :: string
  tw_fiat :: int
  tw_payment_method :: string
  tw_status :: string
  tw_offer_expires :: int
  tw_payment_deadline :: "int option"
  tw_accepted_at :: "int option"
  tw_paid_at :: "int option"
  tw_completed_at :: "int option"
  tw_created_at :: int
  tw_updated_at :: int

record p2p_event_row =
  pe_trade :: string
  pe_type :: string
  pe_actor_key :: string
  pe_actor_user :: "string option"
  pe_key :: string
  pe_hash :: string
  pe_payload :: "(string \<times> json) list"

record p2p_evidence_row =
  pv_id :: string
  pv_trade :: string
  pv_by :: string
  pv_type :: string
  pv_object :: string
  pv_sha :: string

record p2p_resolution_row =
  pq_id :: string
  pq_trade :: string
  pq_action :: string
  pq_reason :: string
  pq_proposed_by :: string
  pq_approved_by :: "string option"
  pq_status :: string
  pq_created_at :: int
  pq_decided_at :: "int option"

record p2p_db = ledger_db +
  p2p_trades :: "p2p_trade_row list"
  p2p_events :: "p2p_event_row list"
  p2p_evidence :: "p2p_evidence_row list"
  p2p_resolution_requests :: "p2p_resolution_row list"

type_synonym 'a p2p_tx = "(p2p_db, p2p_failure, 'a) tx"

abbreviation numeric_out_of_range :: "'e failure" where "numeric_out_of_range \<equiv> Pg ''22003''"
abbreviation invalid_text :: "'e failure" where "invalid_text \<equiv> Pg ''22P02''"

text \<open>The fiat amount is a \<open>DECIMAL(24,8)\<close>, kept here in units of \<open>10^-8\<close>.\<close>

definition fiat_units :: "string \<Rightarrow> int option" where
  "fiat_units s =
     (if fiatPattern s then
        let frac = drop 1 (dropWhile is_digit s)
        in Some (int (digits_val (takeWhile is_digit s)) * 10 ^ 8 + int (digits_val (frac @ replicate (8 - length frac) CHR ''0'')))
      else None)"

definition fiat_text :: "int \<Rightarrow> string" where
  "fiat_text n = (let frac = digits_of (nat (n mod 10 ^ 8)) in
     digits_of (nat (n div 10 ^ 8)) @ ''.'' @ replicate (8 - length frac) CHR ''0'' @ frac)"

definition p2p_checks :: "p2p_trade_row \<Rightarrow> bool" where
  "p2p_checks t \<longleftrightarrow> 0 < tw_amount t \<and> 0 < tw_fiat t \<and>
     tw_status t \<in> set [''open'', ''accepted'', ''paid'', ''disputed'', ''released'', ''refunded'', ''cancelled'', ''expired''] \<and>
     (tw_buyer_user t = None \<longleftrightarrow> tw_buyer_account t = None) \<and> tw_buyer_user t \<noteq> Some (tw_seller_user t)"

section \<open>Helpers of the store\<close>

definition userActor :: "string \<Rightarrow> string" where
  "userActor userID = ''user:'' @ userID"

definition isParticipant :: "P2PTrade \<Rightarrow> string \<Rightarrow> string \<Rightarrow> bool" where
  "isParticipant t userID accountID \<longleftrightarrow>
     pt_SellerUserID t = userID \<and> pt_SellerAccountID t = accountID \<or>
     pt_BuyerUserID t = userID \<and> pt_BuyerAccountID t = accountID"

definition text_of :: "string option \<Rightarrow> string" where
  "text_of x = (case x of None \<Rightarrow> [] | Some v \<Rightarrow> v)"

definition scanTrade :: "p2p_trade_row \<times> asset_row \<Rightarrow> P2PTrade" where
  "scanTrade = (\<lambda>(t, a). \<lparr>pt_ID = tw_id t, pt_SellerUserID = tw_seller_user t, pt_SellerAccountID = tw_seller_account t,
     pt_BuyerUserID = text_of (tw_buyer_user t), pt_BuyerAccountID = text_of (tw_buyer_account t),
     pt_AssetID = tw_asset t, pt_AssetSymbol = as_symbol a, pt_AssetNetwork = as_network a,
     pt_AmountAtomic = BigString (tw_amount t), pt_FiatCurrency = tw_fiat_currency t,
     pt_FiatAmount = fiat_text (tw_fiat t), pt_PaymentMethod = tw_payment_method t, pt_Status = tw_status t,
     pt_OfferExpiresAt = tw_offer_expires t, pt_PaymentDeadline = tw_payment_deadline t,
     pt_AcceptedAt = tw_accepted_at t, pt_PaidAt = tw_paid_at t, pt_CompletedAt = tw_completed_at t,
     pt_CreatedAt = tw_created_at t, pt_UpdatedAt = tw_updated_at t, pt_Duplicate = False\<rparr>)"

text \<open>\<open>FROM p2p_trades t JOIN assets a ON a.id=t.asset_id\<close>.\<close>

definition trades_with_assets :: "p2p_db \<Rightarrow> (p2p_trade_row \<times> asset_row) list" where
  "trades_with_assets s =
     concat (map (\<lambda>t. map (Pair t) (filter (\<lambda>a. as_id a = tw_asset t) (assets s))) (p2p_trades s))"

definition findTrade :: "string \<Rightarrow> P2PTrade p2p_tx" where
  "findTrade tradeID =
     rowT (\<lambda>s. map_option scanTrade (find (\<lambda>(t, a). tw_id t = tradeID) (trades_with_assets s))) (App ErrTradeNotFound)"

definition p2p_bucketBalance :: "string \<Rightarrow> string \<Rightarrow> bucket \<Rightarrow> int p2p_tx" where
  "p2p_bucketBalance accountID assetID b =
     bindT (queryT (\<lambda>s. BigString (posted_bucket_sum s accountID assetID b))) (\<lambda>raw.
     case SetString raw of None \<Rightarrow> failT (App (ErrOther ''invalid ledger balance'')) | Some v \<Rightarrow> returnT v)"

definition existingAction :: "string \<Rightarrow> string \<Rightarrow> string \<Rightarrow> P2PTrade option p2p_tx" where
  "existingAction actorKey key hash =
     bindT (advisory_lock (''p2p-idempotency:'' @ actorKey @ '':'' @ key)) (\<lambda>_.
     bindT (queryT (\<lambda>s. find (\<lambda>e. pe_actor_key e = actorKey \<and> pe_key e = key) (p2p_events s))) (\<lambda>found.
     case found of
       None \<Rightarrow> returnT None
     | Some e \<Rightarrow>
         bindT (ensureT (pe_hash e = hash) (App ErrIdempotencyConflict)) (\<lambda>_.
         bindT (findTrade (pe_trade e)) (\<lambda>trade.
         returnT (Some trade)))))"

text \<open>The head of every action: a repeated request returns the trade, marked as a duplicate.\<close>

definition commitDuplicate :: "string \<Rightarrow> string \<Rightarrow> string \<Rightarrow> P2PTrade p2p_tx \<Rightarrow> P2PTrade p2p_tx" where
  "commitDuplicate actorKey key hash body =
     bindT (existingAction actorKey key hash) (\<lambda>found.
     case found of Some trade \<Rightarrow> returnT (trade\<lparr>pt_Duplicate := True\<rparr>) | None \<Rightarrow> body)"

definition requireFundingAccount :: "string \<Rightarrow> string \<Rightarrow> unit p2p_tx" where
  "requireFundingAccount userID accountID =
     bindT (rowT (\<lambda>s. find (\<lambda>(a, u). ac_id a = accountID \<and> ac_user_id a = Some userID \<and> u_id u = userID)
        (List.product (accounts s) (users s))) (App ErrFundingAccountNeeded)) (\<lambda>(a, u).
     ensureT (\<not> (ac_status a \<noteq> ''active'' \<or> u_status u \<noteq> ''active'' \<or> ac_kind a \<noteq> ''funding''))
       (App ErrFundingAccountNeeded))"

abbreviation lock_error :: p2p_error where
  "lock_error \<equiv> ErrOther ''account and asset are required for ledger lock''"

definition postEscrow :: "string \<Rightarrow> string \<Rightarrow> string \<Rightarrow> int \<Rightarrow> unit p2p_tx" where
  "postEscrow tradeID accountID assetID amount =
     bindT (post_journal (''p2p-escrow:'' @ tradeID) ''p2p_escrow'' tradeID (hold_legs accountID assetID amount)) (\<lambda>_.
     returnT ())"

definition lockBalances :: "string \<Rightarrow> string list \<Rightarrow> unit p2p_tx" where
  "lockBalances assetID accountIDs =
     forT (\<lambda>(a, x). LockAccountAsset lock_error a x)
       (map (\<lambda>a. (a, assetID)) (sort_key (\<lambda>a. AccountAssetLockKey a assetID) accountIDs))"

definition escrow_amount :: "P2PTrade \<Rightarrow> int p2p_tx" where
  "escrow_amount trade =
     bindT (p2p_bucketBalance (pt_SellerAccountID trade) (pt_AssetID trade) Held) (\<lambda>held.
     bindT (rowT (\<lambda>_. SetString (pt_AmountAtomic trade)) (App ErrInsufficientBalance)) (\<lambda>amount.
     bindT (ensureT (\<not> held < amount) (App ErrInsufficientBalance)) (\<lambda>_.
     returnT amount)))"

definition releaseEscrow :: "P2PTrade \<Rightarrow> string \<Rightarrow> unit p2p_tx" where
  "releaseEscrow trade prefix =
     bindT (ensureT (pt_BuyerAccountID trade \<noteq> []) (App ErrInvalidTransition)) (\<lambda>_.
     bindT (lockBalances (pt_AssetID trade) [pt_SellerAccountID trade, pt_BuyerAccountID trade]) (\<lambda>_.
     bindT (escrow_amount trade) (\<lambda>amount.
     bindT (post_journal (prefix @ pt_ID trade) ''p2p_release'' (pt_ID trade)
       (release_legs (pt_SellerAccountID trade) (pt_BuyerAccountID trade) (pt_AssetID trade) amount)) (\<lambda>_.
     returnT ()))))"

definition refundEscrow :: "P2PTrade \<Rightarrow> string \<Rightarrow> unit p2p_tx" where
  "refundEscrow trade prefix =
     bindT (LockAccountAsset lock_error (pt_SellerAccountID trade) (pt_AssetID trade)) (\<lambda>_.
     bindT (escrow_amount trade) (\<lambda>amount.
     bindT (post_journal (prefix @ pt_ID trade) ''p2p_refund'' (pt_ID trade)
       (release_legs (pt_SellerAccountID trade) (pt_SellerAccountID trade) (pt_AssetID trade) amount)) (\<lambda>_.
     returnT ())))"

definition recordEvent :: "string \<Rightarrow> string \<Rightarrow> string \<Rightarrow> string \<Rightarrow> string \<Rightarrow> string \<Rightarrow> (string \<times> json) list \<Rightarrow> unit p2p_tx" where
  "recordEvent tradeID eventType actorKey actorUserID key hash payload =
     bindT (queryT p2p_events) (\<lambda>rows.
     bindT (ensureT (\<forall>e \<in> set rows. \<not> (pe_actor_key e = actorKey \<and> pe_key e = key)) unique_violation) (\<lambda>_.
     bindT (execT (\<lambda>s. s\<lparr>p2p_events := p2p_events s @
       [\<lparr>pe_trade = tradeID, pe_type = eventType, pe_actor_key = actorKey,
         pe_actor_user = (if actorUserID \<noteq> [] then Some actorUserID else None), pe_key = key, pe_hash = hash,
         pe_payload = payload\<rparr>]\<rparr>)) (\<lambda>_.
     append_outbox (''p2p.'' @ eventType) ''p2p_trade'' tradeID payload)))"

definition update_trade :: "string \<Rightarrow> (p2p_trade_row \<Rightarrow> p2p_trade_row) \<Rightarrow> unit p2p_tx" where
  "update_trade tradeID f =
     bindT (queryT p2p_trades) (\<lambda>rows.
     bindT (ensureT (list_all (\<lambda>t. tw_id t = tradeID \<longrightarrow> p2p_checks (f t)) rows) check_violation) (\<lambda>_.
     execT (\<lambda>s. s\<lparr>p2p_trades := update_where (\<lambda>t. tw_id t = tradeID) f (p2p_trades s)\<rparr>)))"

definition insert_p2p_trade :: "p2p_trade_row \<Rightarrow> unit p2p_tx" where
  "insert_p2p_trade row =
     bindT (queryT p2p_trades) (\<lambda>rows.
     bindT (ensureT (tw_amount row < 10 ^ 78 \<and> tw_fiat row < 10 ^ 24) numeric_out_of_range) (\<lambda>_.
     bindT (ensureT (p2p_checks row) check_violation) (\<lambda>_.
     bindT (ensureT (\<forall>t \<in> set rows. tw_id t \<noteq> tw_id row) unique_violation) (\<lambda>_.
     execT (\<lambda>s. s\<lparr>p2p_trades := p2p_trades s @ [row]\<rparr>)))))"

definition hasRole :: "string \<Rightarrow> string \<Rightarrow> bool p2p_tx" where
  "hasRole actorID role = queryT (\<lambda>s. (actorID, role) \<in> set (user_roles s))"

definition resolution_of :: "p2p_resolution_row \<Rightarrow> Resolution" where
  "resolution_of r = \<lparr>rs_ID = pq_id r, rs_TradeID = pq_trade r, rs_Action = pq_action r, rs_Reason = pq_reason r,
     rs_ProposedBy = pq_proposed_by r, rs_ApprovedBy = text_of (pq_approved_by r), rs_Status = pq_status r,
     rs_CreatedAt = pq_created_at r, rs_DecidedAt = pq_decided_at r, rs_Duplicate = False\<rparr>"

definition findResolution :: "string \<Rightarrow> Resolution p2p_tx" where
  "findResolution ident =
     rowT (\<lambda>s. map_option resolution_of (find (\<lambda>r. pq_id r = ident) (p2p_resolution_requests s))) (App ErrResolutionNotFound)"

text \<open>\<open>ORDER BY created_at DESC LIMIT 1\<close>.\<close>

definition findResolutionByTrade :: "string \<Rightarrow> Resolution p2p_tx" where
  "findResolutionByTrade tradeID =
     rowT (\<lambda>s. case sort_key (\<lambda>r. - pq_created_at r) (filter (\<lambda>r. pq_trade r = tradeID) (p2p_resolution_requests s)) of
        [] \<Rightarrow> None | r # _ \<Rightarrow> Some (resolution_of r)) (App ErrNoRows)"

definition auditResolution :: "string \<Rightarrow> string \<Rightarrow> string \<Rightarrow> string \<Rightarrow> (string \<times> json) list \<Rightarrow> unit p2p_tx" where
  "auditResolution actorID act resourceID reason metadata =
     execT (\<lambda>s. s\<lparr>audit_events := audit_events s @
       [\<lparr>au_actor = actorID, au_action = act, au_resource = resourceID, au_reason = reason, au_metadata = metadata\<rparr>]\<rparr>)"

section \<open>The actions of the two parties\<close>

definition new_trade_row :: "P2P.CreateCommand \<Rightarrow> string \<Rightarrow> int \<Rightarrow> int \<Rightarrow> p2p_trade_row" where
  "new_trade_row c assetID amount fiat =
     \<lparr>tw_id = cm_TradeID c, tw_seller_user = cm_UserID c, tw_seller_account = cm_AccountID c, tw_buyer_user = None,
      tw_buyer_account = None, tw_asset = assetID, tw_amount = amount, tw_fiat_currency = cm_FiatCurrency c,
      tw_fiat = fiat, tw_payment_method = cm_PaymentMethod c, tw_status = ''open'',
      tw_offer_expires = cm_OfferExpiresAt c, tw_payment_deadline = None, tw_accepted_at = None, tw_paid_at = None,
      tw_completed_at = None, tw_created_at = cm_Now c, tw_updated_at = cm_Now c\<rparr>"

definition Create_tx :: "P2P.CreateCommand \<Rightarrow> P2PTrade p2p_tx" where
  "Create_tx c = commitDuplicate (userActor (cm_UserID c)) (cm_IdempotencyKey c) (cm_RequestHash c)
     (bindT (requireFundingAccount (cm_UserID c) (cm_AccountID c)) (\<lambda>_.
      bindT (rowT (\<lambda>s. map_option as_id (find (\<lambda>a. as_symbol a = cm_AssetSymbol c \<and> as_network a = cm_AssetNetwork c \<and>
        as_status a = ''enabled'') (assets s))) (App ErrInvalidRequest)) (\<lambda>assetID.
      bindT (LockAccountAsset lock_error (cm_AccountID c) assetID) (\<lambda>_.
      bindT (p2p_bucketBalance (cm_AccountID c) assetID Available) (\<lambda>available.
      bindT (rowT (\<lambda>_. SetString (cm_AmountAtomic c)) (App ErrInsufficientBalance)) (\<lambda>amount.
      bindT (ensureT (\<not> (amount \<le> 0 \<or> available < amount)) (App ErrInsufficientBalance)) (\<lambda>_.
      bindT (rowT (\<lambda>_. fiat_units (cm_FiatAmount c)) invalid_text) (\<lambda>fiat.
      bindT (insert_p2p_trade (new_trade_row c assetID amount fiat)) (\<lambda>_.
      bindT (postEscrow (cm_TradeID c) (cm_AccountID c) assetID amount) (\<lambda>_.
      bindT (recordEvent (cm_TradeID c) ''created'' (userActor (cm_UserID c)) (cm_UserID c) (cm_IdempotencyKey c)
        (cm_RequestHash c) [(''status'', JString ''open'')]) (\<lambda>_.
      findTrade (cm_TradeID c))))))))))))"

definition Accept_tx :: "ActionCommand \<Rightarrow> P2PTrade p2p_tx" where
  "Accept_tx c = commitDuplicate (userActor (ax_UserID c)) (ax_IdempotencyKey c) (ax_RequestHash c)
     (bindT (findTrade (ax_TradeID c)) (\<lambda>trade.
      bindT (ensureT (pt_Status trade = ''open'') (App ErrInvalidTransition)) (\<lambda>_.
      bindT (ensureT (ax_Now c < pt_OfferExpiresAt trade) (App ErrExpired)) (\<lambda>_.
      bindT (ensureT (ax_UserID c \<noteq> pt_SellerUserID trade) (App ErrForbidden)) (\<lambda>_.
      bindT (requireFundingAccount (ax_UserID c) (ax_AccountID c)) (\<lambda>_.
      bindT (update_trade (pt_ID trade) (\<lambda>t. t\<lparr>tw_buyer_user := Some (ax_UserID c), tw_buyer_account := Some (ax_AccountID c),
        tw_status := ''accepted'', tw_accepted_at := Some (ax_Now c), tw_payment_deadline := Some (ax_PaymentDeadline c),
        tw_updated_at := ax_Now c\<rparr>)) (\<lambda>_.
      bindT (recordEvent (pt_ID trade) ''accepted'' (userActor (ax_UserID c)) (ax_UserID c) (ax_IdempotencyKey c)
        (ax_RequestHash c) [(''status'', JString ''accepted''), (''payment_deadline'', JTime (ax_PaymentDeadline c))]) (\<lambda>_.
      findTrade (pt_ID trade)))))))))"

definition transition :: "'c ActionCommand_scheme \<Rightarrow> string \<Rightarrow> (P2PTrade \<Rightarrow> p2p_error option) \<Rightarrow>
    (p2p_trade_row \<Rightarrow> p2p_trade_row) \<Rightarrow> (string \<times> json) list \<Rightarrow> P2PTrade p2p_tx" where
  "transition c event validate f reason =
     commitDuplicate (userActor (ax_UserID c)) (ax_IdempotencyKey c) (ax_RequestHash c)
     (bindT (findTrade (ax_TradeID c)) (\<lambda>trade.
      bindT (case validate trade of Some e \<Rightarrow> failT (App e) | None \<Rightarrow> returnT ()) (\<lambda>_.
      bindT (update_trade (pt_ID trade) f) (\<lambda>_.
      bindT (recordEvent (pt_ID trade) event (userActor (ax_UserID c)) (ax_UserID c) (ax_IdempotencyKey c)
        (ax_RequestHash c) ((''status'', JString event) # reason)) (\<lambda>_.
      findTrade (pt_ID trade))))))"

definition mark_paid_check :: "ActionCommand \<Rightarrow> P2PTrade \<Rightarrow> p2p_error option" where
  "mark_paid_check c trade =
     (if pt_Status trade \<noteq> ''accepted'' then Some ErrInvalidTransition
      else if pt_BuyerUserID trade \<noteq> ax_UserID c \<or> pt_BuyerAccountID trade \<noteq> ax_AccountID c then Some ErrForbidden
      else case pt_PaymentDeadline trade of
        None \<Rightarrow> Some ErrExpired
      | Some d \<Rightarrow> if ax_Now c > d then Some ErrExpired else None)"

definition MarkPaid_tx :: "ActionCommand \<Rightarrow> P2PTrade p2p_tx" where
  "MarkPaid_tx c = transition c ''paid'' (mark_paid_check c)
     (\<lambda>t. t\<lparr>tw_status := ''paid'', tw_paid_at := Some (ax_Now c), tw_updated_at := ax_Now c\<rparr>) []"

definition Release_tx :: "ActionCommand \<Rightarrow> P2PTrade p2p_tx" where
  "Release_tx c = commitDuplicate (userActor (ax_UserID c)) (ax_IdempotencyKey c) (ax_RequestHash c)
     (bindT (findTrade (ax_TradeID c)) (\<lambda>trade.
      bindT (ensureT (pt_Status trade = ''paid'') (App ErrInvalidTransition)) (\<lambda>_.
      bindT (ensureT (\<not> (pt_SellerUserID trade \<noteq> ax_UserID c \<or> pt_SellerAccountID trade \<noteq> ax_AccountID c)) (App ErrForbidden)) (\<lambda>_.
      bindT (releaseEscrow trade ''p2p-release:'') (\<lambda>_.
      bindT (update_trade (pt_ID trade) (\<lambda>t. t\<lparr>tw_status := ''released'', tw_completed_at := Some (ax_Now c), tw_updated_at := ax_Now c\<rparr>)) (\<lambda>_.
      bindT (recordEvent (pt_ID trade) ''released'' (userActor (ax_UserID c)) (ax_UserID c) (ax_IdempotencyKey c)
        (ax_RequestHash c) [(''status'', JString ''released'')]) (\<lambda>_.
      findTrade (pt_ID trade))))))))"

definition Cancel_tx :: "ActionCommand \<Rightarrow> P2PTrade p2p_tx" where
  "Cancel_tx c = commitDuplicate (userActor (ax_UserID c)) (ax_IdempotencyKey c) (ax_RequestHash c)
     (bindT (findTrade (ax_TradeID c)) (\<lambda>trade.
      bindT (ensureT (pt_Status trade = ''open'') (App ErrInvalidTransition)) (\<lambda>_.
      bindT (ensureT (\<not> (pt_SellerUserID trade \<noteq> ax_UserID c \<or> pt_SellerAccountID trade \<noteq> ax_AccountID c)) (App ErrForbidden)) (\<lambda>_.
      bindT (refundEscrow trade ''p2p-cancel:'') (\<lambda>_.
      bindT (update_trade (pt_ID trade) (\<lambda>t. t\<lparr>tw_status := ''cancelled'', tw_completed_at := Some (ax_Now c), tw_updated_at := ax_Now c\<rparr>)) (\<lambda>_.
      bindT (recordEvent (pt_ID trade) ''cancelled'' (userActor (ax_UserID c)) (ax_UserID c) (ax_IdempotencyKey c)
        (ax_RequestHash c) [(''status'', JString ''cancelled'')]) (\<lambda>_.
      findTrade (pt_ID trade))))))))"

definition dispute_check :: "DisputeCommand \<Rightarrow> P2PTrade \<Rightarrow> p2p_error option" where
  "dispute_check c trade =
     (if pt_Status trade \<noteq> ''accepted'' \<and> pt_Status trade \<noteq> ''paid'' then Some ErrInvalidTransition
      else if \<not> isParticipant trade (ax_UserID c) (ax_AccountID c) then Some ErrForbidden
      else None)"

definition Dispute_tx :: "DisputeCommand \<Rightarrow> P2PTrade p2p_tx" where
  "Dispute_tx c = transition c ''disputed'' (dispute_check c)
     (\<lambda>t. t\<lparr>tw_status := ''disputed'', tw_updated_at := ax_Now c\<rparr>) [(''reason'', JString (dc_Reason c))]"

definition insert_evidence :: "p2p_evidence_row \<Rightarrow> unit p2p_tx" where
  "insert_evidence row =
     bindT (queryT p2p_evidence) (\<lambda>rows.
     bindT (ensureT (hexPattern (pv_sha row)) check_violation) (\<lambda>_.
     bindT (ensureT (\<forall>v \<in> set rows. pv_id v \<noteq> pv_id row \<and> \<not> (pv_trade v = pv_trade row \<and> pv_sha v = pv_sha row)) unique_violation) (\<lambda>_.
     execT (\<lambda>s. s\<lparr>p2p_evidence := p2p_evidence s @ [row]\<rparr>))))"

definition AddEvidence_tx :: "EvidenceCommand \<Rightarrow> P2PTrade p2p_tx" where
  "AddEvidence_tx c = commitDuplicate (userActor (ax_UserID c)) (ax_IdempotencyKey c) (ax_RequestHash c)
     (bindT (findTrade (ax_TradeID c)) (\<lambda>trade.
      bindT (ensureT (pt_Status trade = ''disputed'') (App ErrInvalidTransition)) (\<lambda>_.
      bindT (ensureT (isParticipant trade (ax_UserID c) (ax_AccountID c)) (App ErrForbidden)) (\<lambda>_.
      bindT (insert_evidence \<lparr>pv_id = ev_EvidenceID c, pv_trade = pt_ID trade, pv_by = ax_UserID c,
        pv_type = ev_EvidenceType c, pv_object = ev_ObjectKey c, pv_sha = ev_SHA256Hex c\<rparr>) (\<lambda>_.
      bindT (recordEvent (pt_ID trade) ''evidence_added'' (userActor (ax_UserID c)) (ax_UserID c) (ax_IdempotencyKey c)
        (ax_RequestHash c) [(''evidence_id'', JString (ev_EvidenceID c)), (''evidence_type'', JString (ev_EvidenceType c))]) (\<lambda>_.
      returnT trade))))))"

section \<open>Expiry\<close>

definition due :: "int \<Rightarrow> p2p_trade_row \<Rightarrow> bool" where
  "due now t \<longleftrightarrow> tw_status t = ''open'' \<and> tw_offer_expires t \<le> now \<or>
     tw_status t = ''accepted'' \<and> (case tw_payment_deadline t of None \<Rightarrow> False | Some d \<Rightarrow> d \<le> now)"

definition due_at :: "p2p_trade_row \<Rightarrow> int" where
  "due_at t = (case tw_payment_deadline t of None \<Rightarrow> tw_offer_expires t | Some d \<Rightarrow> d)"

definition expire_one :: "go_env \<Rightarrow> int \<Rightarrow> string \<Rightarrow> P2PTrade p2p_tx" where
  "expire_one env now tradeID =
     bindT (findTrade tradeID) (\<lambda>trade.
     bindT (refundEscrow trade ''p2p-expiry:'') (\<lambda>_.
     bindT (update_trade tradeID (\<lambda>t. t\<lparr>tw_status := ''expired'', tw_completed_at := Some now, tw_updated_at := now\<rparr>)) (\<lambda>_.
     bindT (recordEvent tradeID ''expired'' ''system:expiry'' [] (''expiry:'' @ tradeID)
       (p2p_requestHash env [''expire'', tradeID]) [(''status'', JString ''expired'')]) (\<lambda>_.
     returnT (trade\<lparr>pt_Status := ''expired'', pt_CompletedAt := Some now, pt_UpdatedAt := now\<rparr>)))))"

definition Expire_tx :: "go_env \<Rightarrow> int \<Rightarrow> int \<Rightarrow> P2PTrade list p2p_tx" where
  "Expire_tx env now limit =
     bindT (queryT (\<lambda>s. map tw_id (take (nat limit) (sort_key (\<lambda>t. (due_at t, tw_id t)) (filter (due now) (p2p_trades s)))))) (\<lambda>ids.
     mapT (expire_one env now) ids)"

section \<open>Dispute resolution by two operators\<close>

definition insert_resolution :: "p2p_resolution_row \<Rightarrow> unit p2p_tx" where
  "insert_resolution row =
     bindT (queryT p2p_resolution_requests) (\<lambda>rows.
     bindT (ensureT (pq_action row = ''force_release'' \<or> pq_action row = ''refund'') check_violation) (\<lambda>_.
     bindT (ensureT (\<forall>r \<in> set rows. pq_id r \<noteq> pq_id row \<and> \<not> (pq_trade r = pq_trade row \<and> pq_status r = ''pending'')) unique_violation) (\<lambda>_.
     execT (\<lambda>s. s\<lparr>p2p_resolution_requests := p2p_resolution_requests s @ [row]\<rparr>))))"

definition ProposeResolution_tx :: "ResolutionCommand \<Rightarrow> Resolution p2p_tx" where
  "ProposeResolution_tx c =
     bindT (hasRole (rc_ActorID c) ''treasury_operator'') (\<lambda>allowed.
     bindT (ensureT allowed (App ErrApprovalRole)) (\<lambda>_.
     bindT (existingAction (userActor (rc_ActorID c)) (rc_IdempotencyKey c) (rc_RequestHash c)) (\<lambda>found.
     case found of
       Some trade \<Rightarrow>
         bindT (findResolutionByTrade (pt_ID trade)) (\<lambda>resolution.
         returnT (resolution\<lparr>rs_Duplicate := True\<rparr>))
     | None \<Rightarrow>
         bindT (findTrade (rc_TradeID c)) (\<lambda>trade.
         bindT (ensureT (pt_Status trade = ''disputed'') (App ErrInvalidTransition)) (\<lambda>_.
         bindT (insert_resolution \<lparr>pq_id = rc_ResolutionID c, pq_trade = pt_ID trade, pq_action = rc_Action c,
           pq_reason = rc_Reason c, pq_proposed_by = rc_ActorID c, pq_approved_by = None, pq_status = ''pending'',
           pq_created_at = rc_Now c, pq_decided_at = None\<rparr>) (\<lambda>_.
         bindT (recordEvent (pt_ID trade) ''resolution_proposed'' (userActor (rc_ActorID c)) (rc_ActorID c) (rc_IdempotencyKey c)
           (rc_RequestHash c) [(''resolution_id'', JString (rc_ResolutionID c)), (''action'', JString (rc_Action c))]) (\<lambda>_.
         bindT (auditResolution (rc_ActorID c) ''p2p.resolution_proposed'' (rc_ResolutionID c) (rc_Reason c)
           [(''trade_id'', JString (pt_ID trade)), (''action'', JString (rc_Action c))]) (\<lambda>_.
         findResolution (rc_ResolutionID c)))))))))"

definition approve_resolution_row :: "string \<Rightarrow> string \<Rightarrow> int \<Rightarrow> unit p2p_tx" where
  "approve_resolution_row ident actorID now =
     bindT (queryT p2p_resolution_requests) (\<lambda>rows.
     bindT (ensureT (list_all (\<lambda>r. pq_id r = ident \<longrightarrow> pq_proposed_by r \<noteq> actorID) rows) check_violation) (\<lambda>_.
     execT (\<lambda>s. s\<lparr>p2p_resolution_requests := update_where (\<lambda>r. pq_id r = ident)
       (\<lambda>r. r\<lparr>pq_status := ''approved'', pq_approved_by := Some actorID, pq_decided_at := Some now\<rparr>)
       (p2p_resolution_requests s)\<rparr>)))"

definition ApproveResolution_tx :: "ApprovalCommand \<Rightarrow> P2PTrade p2p_tx" where
  "ApproveResolution_tx c =
     bindT (hasRole (vc_ActorID c) ''treasury_approver'') (\<lambda>allowed.
     bindT (ensureT allowed (App ErrApprovalRole)) (\<lambda>_.
     commitDuplicate (userActor (vc_ActorID c)) (vc_IdempotencyKey c) (vc_RequestHash c)
     (bindT (findResolution (vc_ResolutionID c)) (\<lambda>resolution.
      bindT (ensureT (rs_Status resolution = ''pending'') (App ErrInvalidTransition)) (\<lambda>_.
      bindT (ensureT (rs_ProposedBy resolution \<noteq> vc_ActorID c) (App ErrSameApprover)) (\<lambda>_.
      bindT (findTrade (rs_TradeID resolution)) (\<lambda>trade.
      bindT (ensureT (pt_Status trade = ''disputed'') (App ErrInvalidTransition)) (\<lambda>_.
      bindT (if rs_Action resolution = ''force_release'' then releaseEscrow trade ''p2p-resolution-release:''
             else refundEscrow trade ''p2p-resolution-refund:'') (\<lambda>_.
      bindT (returnT (if rs_Action resolution = ''force_release'' then ''released'' else ''refunded'')) (\<lambda>status.
      bindT (update_trade (pt_ID trade) (\<lambda>t. t\<lparr>tw_status := status, tw_completed_at := Some (vc_Now c), tw_updated_at := vc_Now c\<rparr>)) (\<lambda>_.
      bindT (approve_resolution_row (rs_ID resolution) (vc_ActorID c) (vc_Now c)) (\<lambda>_.
      bindT (recordEvent (pt_ID trade) ''resolution_approved'' (userActor (vc_ActorID c)) (vc_ActorID c) (vc_IdempotencyKey c)
        (vc_RequestHash c) [(''resolution_id'', JString (rs_ID resolution)), (''status'', JString status)]) (\<lambda>_.
      bindT (auditResolution (vc_ActorID c) ''p2p.resolution_approved'' (rs_ID resolution) (rs_Reason resolution)
        [(''trade_id'', JString (pt_ID trade)), (''maker'', JString (rs_ProposedBy resolution)),
         (''checker'', JString (vc_ActorID c)), (''outcome'', JString status)]) (\<lambda>_.
      findTrade (pt_ID trade)))))))))))))))"

section \<open>Queries\<close>

definition page :: "int \<Rightarrow> int \<Rightarrow> 'a list \<Rightarrow> 'a list" where
  "page limit offset rows = take (nat limit) (drop (nat offset) rows)"

definition Get_tx :: "string \<Rightarrow> string \<Rightarrow> P2PTrade p2p_tx" where
  "Get_tx userID tradeID =
     rowT (\<lambda>s. map_option scanTrade (find (\<lambda>(t, a). tw_id t = tradeID \<and>
       (tw_seller_user t = userID \<or> tw_buyer_user t = Some userID)) (trades_with_assets s))) (App ErrTradeNotFound)"

definition List_tx :: "string \<Rightarrow> int \<Rightarrow> int \<Rightarrow> P2PTrade list p2p_tx" where
  "List_tx userID limit offset =
     queryT (\<lambda>s. map scanTrade (page limit offset (sort_key (\<lambda>(t, a). (- tw_created_at t, tw_id t))
       (filter (\<lambda>(t, a). tw_seller_user t = userID \<or> tw_buyer_user t = Some userID) (trades_with_assets s)))))"

definition ListOpen_tx :: "int \<Rightarrow> int \<Rightarrow> int \<Rightarrow> P2PTrade list p2p_tx" where
  "ListOpen_tx now limit offset =
     queryT (\<lambda>s. map scanTrade (page limit offset (sort_key (\<lambda>(t, a). (tw_created_at t, tw_id t))
       (filter (\<lambda>(t, a). tw_status t = ''open'' \<and> tw_offer_expires t > now) (trades_with_assets s)))))"

definition ListDisputes_tx :: "string \<Rightarrow> int \<Rightarrow> int \<Rightarrow> P2PTrade list p2p_tx" where
  "ListDisputes_tx actorID limit offset =
     bindT (queryT (\<lambda>s. \<exists>r \<in> set (user_roles s). fst r = actorID \<and> snd r \<in> {''treasury_operator'', ''treasury_approver''})) (\<lambda>allowed.
     bindT (ensureT allowed (App ErrApprovalRole)) (\<lambda>_.
     queryT (\<lambda>s. map scanTrade (page limit offset (sort_key (\<lambda>(t, a). (tw_updated_at t, tw_id t))
       (filter (\<lambda>(t, a). tw_status t = ''disputed'') (trades_with_assets s)))))))"

section \<open>The service\<close>

text \<open>A service method checks its input and calls the store, which commits or rolls back.\<close>

definition serve :: "p2p_error + 'c \<Rightarrow> ('c \<Rightarrow> 'a p2p_tx) \<Rightarrow> p2p_db \<Rightarrow> (p2p_failure + 'a) \<times> p2p_db" where
  "serve cmd method s = (case cmd of Inl e \<Rightarrow> (Inl (App e), s) | Inr c \<Rightarrow> transaction (method c) s)"

definition P2P_Create where "P2P_Create env newID now input = serve (create_command env newID now input) Create_tx"
definition P2P_Accept where "P2P_Accept env now input = serve (accept_command env now input) Accept_tx"
definition P2P_MarkPaid where "P2P_MarkPaid env now input = serve (action env now ''mark_paid'' input) MarkPaid_tx"
definition P2P_Release where "P2P_Release env now input = serve (action env now ''release'' input) Release_tx"
definition P2P_Cancel where "P2P_Cancel env now input = serve (action env now ''cancel'' input) Cancel_tx"
definition P2P_Dispute where "P2P_Dispute env now input reason = serve (dispute_command env now input reason) Dispute_tx"
definition P2P_AddEvidence where
  "P2P_AddEvidence env newID now input etype okey sha = serve (evidence_command env newID now input etype okey sha) AddEvidence_tx"
definition P2P_Expire where "P2P_Expire env now limit = transaction (Expire_tx env now (page_limit 500 100 limit))"
definition P2P_ProposeResolution where
  "P2P_ProposeResolution env newID now input = serve (resolution_command env newID now input) ProposeResolution_tx"
definition P2P_ApproveResolution where
  "P2P_ApproveResolution env now input = serve (approval_command env now input) ApproveResolution_tx"

definition P2P_Get where
  "P2P_Get userID tradeID =
     serve (if TrimSpace userID = [] \<or> TrimSpace tradeID = [] then Inl ErrTradeNotFound else Inr (TrimSpace userID, TrimSpace tradeID))
       (\<lambda>(u, t). Get_tx u t)"

definition P2P_List where
  "P2P_List userID limit offset =
     serve (if TrimSpace userID = [] \<or> offset < 0 then Inl ErrInvalidRequest else Inr (TrimSpace userID))
       (\<lambda>u. List_tx u (page_limit 200 50 limit) offset)"

definition P2P_ListOpen where
  "P2P_ListOpen now limit offset =
     serve (if offset < 0 then Inl ErrInvalidRequest else Inr ()) (\<lambda>_. ListOpen_tx now (page_limit 200 50 limit) offset)"

definition P2P_ListDisputes where
  "P2P_ListDisputes actorID limit offset =
     serve (if TrimSpace actorID = [] \<or> offset < 0 then Inl ErrInvalidRequest else Inr (TrimSpace actorID))
       (\<lambda>u. ListDisputes_tx u (page_limit 200 50 limit) offset)"

end
