(* ===== verification/P2P_Escrow.thy ===== *)
theory P2P_Escrow
  imports P2P_Store
begin

text \<open>
  The escrow contract. \<open>escrow_step\<close> is the abstract machine: a trade is opened against a
  hold, moves through its life, and is closed by paying the held amount to the buyer or back to the
  seller. Every method of the store refines it; the invariants of the escrow are proved on the
  machine.
\<close>

section \<open>The abstract machine\<close>

definition active_status :: "string \<Rightarrow> bool" where
  "active_status st \<longleftrightarrow> st = ''open'' \<or> st = ''accepted'' \<or> st = ''paid'' \<or> st = ''disputed''"

text \<open>The moves of a trade: between active statuses, and out of them.\<close>

definition moves :: "string \<Rightarrow> string \<Rightarrow> bool" where
  "moves st st' \<longleftrightarrow> (st, st') \<in> {(''open'', ''accepted''), (''accepted'', ''paid''), (''accepted'', ''disputed''), (''paid'', ''disputed'')}"

definition closes :: "string \<Rightarrow> string \<Rightarrow> bool" where
  "closes st st' \<longleftrightarrow> (st, st') \<in> {(''open'', ''cancelled''), (''open'', ''expired''), (''accepted'', ''expired''),
     (''paid'', ''released''), (''disputed'', ''released''), (''disputed'', ''refunded'')}"

text \<open>What a trade was opened with; and the buyer, set by the acceptance and then fixed.\<close>

definition trade_terms where
  "trade_terms t = (tw_id t, tw_seller_user t, tw_seller_account t, tw_asset t, tw_amount t, tw_fiat_currency t,
     tw_fiat t, tw_payment_method t, tw_offer_expires t, tw_created_at t)"

definition trade_buyer where
  "trade_buyer t = (tw_buyer_user t, tw_buyer_account t)"

definition same_terms :: "p2p_trade_row \<Rightarrow> p2p_trade_row \<Rightarrow> bool" where
  "same_terms t t' \<longleftrightarrow> trade_terms t' = trade_terms t \<and> (tw_status t = ''open'' \<or> trade_buyer t' = trade_buyer t)"

definition payee :: "p2p_trade_row \<Rightarrow> string \<Rightarrow> string" where
  "payee t st = (if st = ''released'' then text_of (tw_buyer_account t) else tw_seller_account t)"

text \<open>Decisions on disputes: an approved resolution stays, and it has two different operators.\<close>

definition decided_by_two :: "p2p_db \<Rightarrow> string \<Rightarrow> bool" where
  "decided_by_two s i \<longleftrightarrow> (\<exists>q \<in> set (p2p_resolution_requests s). pq_trade q = i \<and> pq_status q = ''approved'' \<and>
     (\<exists>checker. pq_approved_by q = Some checker \<and> checker \<noteq> pq_proposed_by q \<and> (checker, ''treasury_approver'') \<in> set (user_roles s)))"

definition decisions_kept :: "p2p_db \<Rightarrow> p2p_db \<Rightarrow> bool" where
  "decisions_kept s s' \<longleftrightarrow> user_roles s' = user_roles s \<and>
     (distinct (map pq_id (p2p_resolution_requests s)) \<longrightarrow> distinct (map pq_id (p2p_resolution_requests s'))) \<and>
     (\<forall>q \<in> set (p2p_resolution_requests s). pq_status q = ''approved'' \<longrightarrow> q \<in> set (p2p_resolution_requests s'))"

lemma decisions_kept_refl [simp]: "decisions_kept s s"
  by (simp add: decisions_kept_def)

lemma decisions_kept_trans: "decisions_kept s t \<Longrightarrow> decisions_kept t u \<Longrightarrow> decisions_kept s u"
  by (auto simp: decisions_kept_def)

lemma decisions_kept_frame:
  "user_roles s' = user_roles s \<Longrightarrow> p2p_resolution_requests s' = p2p_resolution_requests s \<Longrightarrow> decisions_kept s s'"
  by (simp add: decisions_kept_def)

lemma decided_kept: "decisions_kept s s' \<Longrightarrow> decided_by_two s i \<Longrightarrow> decided_by_two s' i"
  unfolding decisions_kept_def decided_by_two_def by metis

definition quiet_p2p :: "p2p_db \<Rightarrow> p2p_db \<Rightarrow> bool" where
  "quiet_p2p s s' \<longleftrightarrow> p2p_trades s' = p2p_trades s \<and> same_ledger s s' \<and> decisions_kept s s'"

definition ids_ok :: "p2p_db \<Rightarrow> bool" where
  "ids_ok s \<longleftrightarrow> distinct (map tw_id (p2p_trades s)) \<and> distinct (map pq_id (p2p_resolution_requests s))"

abbreviation replace_trade :: "p2p_trade_row \<Rightarrow> p2p_trade_row \<Rightarrow> p2p_trade_row list \<Rightarrow> p2p_trade_row list" where
  "replace_trade t t' \<equiv> update_where (\<lambda>x. tw_id x = tw_id t) (\<lambda>_. t')"

abbreviation post_p2p_journal :: "string \<Rightarrow> string \<Rightarrow> string \<Rightarrow> posting_leg list \<Rightarrow> string p2p_tx" where
  "post_p2p_journal \<equiv> post_journal"

inductive escrow_step :: "p2p_db \<Rightarrow> p2p_db \<Rightarrow> bool" where
  silent: "quiet_p2p s s' \<Longrightarrow> escrow_step s s'"
| opened: "tw_id row \<notin> tw_id ` set (p2p_trades s) \<Longrightarrow> tw_status row = ''open'' \<Longrightarrow> p2p_checks row \<Longrightarrow>
    tw_amount row \<le> posted_bucket_sum s (tw_seller_account row) (tw_asset row) Available \<Longrightarrow>
    post_p2p_journal key ''p2p_escrow'' (tw_id row) (hold_legs (tw_seller_account row) (tw_asset row) (tw_amount row)) s1 = Inr (j, s2) \<Longrightarrow>
    same_ledger s s1 \<Longrightarrow> same_ledger s2 s' \<Longrightarrow> decisions_kept s s' \<Longrightarrow> p2p_trades s' = p2p_trades s @ [row] \<Longrightarrow> escrow_step s s'"
| moved: "t \<in> set (p2p_trades s) \<Longrightarrow> moves (tw_status t) (tw_status t') \<Longrightarrow> same_terms t t' \<Longrightarrow> p2p_checks t' \<Longrightarrow>
    same_ledger s s' \<Longrightarrow> decisions_kept s s' \<Longrightarrow> p2p_trades s' = replace_trade t t' (p2p_trades s) \<Longrightarrow> escrow_step s s'"
| closed: "t \<in> set (p2p_trades s) \<Longrightarrow> closes (tw_status t) (tw_status t') \<Longrightarrow> trade_terms t' = trade_terms t \<Longrightarrow>
    trade_buyer t' = trade_buyer t \<Longrightarrow> p2p_checks t' \<Longrightarrow>
    tw_amount t \<le> posted_bucket_sum s (tw_seller_account t) (tw_asset t) Held \<Longrightarrow>
    post_p2p_journal key rtype (tw_id t) (release_legs (tw_seller_account t) (payee t (tw_status t')) (tw_asset t) (tw_amount t)) s1 = Inr (j, s2) \<Longrightarrow>
    same_ledger s s1 \<Longrightarrow> same_ledger s2 s' \<Longrightarrow> decisions_kept s s' \<Longrightarrow>
    (tw_status t = ''disputed'' \<longrightarrow> decided_by_two s' (tw_id t)) \<Longrightarrow>
    p2p_trades s' = replace_trade t t' (p2p_trades s) \<Longrightarrow> escrow_step s s'"

section \<open>Invariants of the machine\<close>

definition escrowed :: "p2p_db \<Rightarrow> string \<Rightarrow> string \<Rightarrow> int" where
  "escrowed s a x = (\<Sum>t\<leftarrow>p2p_trades s. if active_status (tw_status t) \<and> tw_seller_account t = a \<and> tw_asset t = x then tw_amount t else 0)"

definition escrow_ok :: "p2p_db \<Rightarrow> bool" where
  "escrow_ok s \<longleftrightarrow> ledger_wf s \<and> ledger_balanced s \<and> distinct (map tw_id (p2p_trades s))"

definition escrow_kept :: "p2p_db \<Rightarrow> p2p_db \<Rightarrow> bool" where
  "escrow_kept s s' \<longleftrightarrow> (escrow_ok s \<longrightarrow> escrow_ok s' \<and> asset_total s' = asset_total s \<and>
     (\<forall>a x b. 0 \<le> bucket_sum s a x b \<longrightarrow> 0 \<le> bucket_sum s' a x b) \<and>
     (\<forall>a x. bucket_sum s' a x Held - escrowed s' a x = bucket_sum s a x Held - escrowed s a x))"

lemma escrow_kept_refl: "escrow_kept s s"
  by (simp add: escrow_kept_def)

lemma escrow_kept_trans: "escrow_kept s t \<Longrightarrow> escrow_kept t u \<Longrightarrow> escrow_kept s u"
  by (simp add: escrow_kept_def)

lemma active_facts:
  "moves st st' \<Longrightarrow> active_status st \<and> active_status st'" "closes st st' \<Longrightarrow> active_status st \<and> \<not> active_status st'"
  by (auto simp: moves_def closes_def active_status_def)

lemma replace_ids: "tw_id t' = tw_id t \<Longrightarrow> map tw_id (replace_trade t t' rows) = map tw_id rows"
  by (induction rows) auto

lemma trade_terms_simps:
  assumes "trade_terms t' = trade_terms t"
  shows "tw_id t' = tw_id t" "tw_seller_account t' = tw_seller_account t" "tw_asset t' = tw_asset t" "tw_amount t' = tw_amount t"
    "tw_seller_user t' = tw_seller_user t"
  using assms by (simp_all add: trade_terms_def)

lemma escrowed_replace:
  assumes "distinct (map tw_id (p2p_trades s))" "t \<in> set (p2p_trades s)" "trade_terms t' = trade_terms t"
    and "p2p_trades s' = replace_trade t t' (p2p_trades s)"
  shows "escrowed s' a x = escrowed s a x - (if active_status (tw_status t) \<and> tw_seller_account t = a \<and> tw_asset t = x then tw_amount t else 0) +
    (if active_status (tw_status t') \<and> tw_seller_account t = a \<and> tw_asset t = x then tw_amount t else 0)"
  using sum_update_where_unique [OF assms(1,2), where p = "\<lambda>y. tw_id y = tw_id t" and f = "\<lambda>_. t'"
      and g = "\<lambda>t. if active_status (tw_status t) \<and> tw_seller_account t = a \<and> tw_asset t = x then tw_amount t else 0"]
  by (simp add: escrowed_def assms(4) trade_terms_simps [OF assms(3)])

lemma escrow_kept_move:
  assumes "t \<in> set (p2p_trades s)" "moves (tw_status t) (tw_status t')" "trade_terms t' = trade_terms t"
    and "same_ledger s s'" "p2p_trades s' = replace_trade t t' (p2p_trades s)"
  shows "escrow_kept s s'"
proof -
  note l = same_ledgerD [OF assms(4)]
  have "distinct (map tw_id (p2p_trades s'))" if "escrow_ok s"
    using that replace_ids [OF trade_terms_simps(1) [OF assms(3)]] by (simp add: escrow_ok_def assms(5))
  moreover have "escrowed s' a x = escrowed s a x" if "escrow_ok s" for a x
    using escrowed_replace [OF _ assms(1,3,5)] that active_facts(1) [OF assms(2)] by (simp add: escrow_ok_def)
  ultimately show ?thesis using l by (auto simp: escrow_kept_def escrow_ok_def)
qed

text \<open>The ledger part of opening and closing.\<close>

lemma ledger_posted:
  fixes s s' s1 s2 :: p2p_db
  assumes post: "post_p2p_journal key rtype rid legs s1 = Inr (j, s2)" and same: "same_ledger s s1" "same_ledger s2 s'"
    and "legs_balanced legs" "ledger_wf s" "ledger_balanced s"
  shows "ledger_wf s' \<and> ledger_balanced s' \<and> asset_total s' = asset_total s \<and>
    (\<forall>a x b. bucket_sum s' a x b = bucket_sum s a x b + leg_delta legs a x b)"
  using post_journal_wf [OF post] post_journal_balanced [OF post] post_journal_total [OF post] post_journal_bucket_sum [OF post]
    same_ledgerD [OF same(1)] same_ledgerD [OF same(2)] assms(4-6)
  by (auto simp: fun_eq_iff)

lemma escrow_kept_open:
  assumes "tw_id row \<notin> tw_id ` set (p2p_trades s)" "tw_status row = ''open''"
    and avail: "tw_amount row \<le> posted_bucket_sum s (tw_seller_account row) (tw_asset row) Available"
    and post: "post_p2p_journal key ''p2p_escrow'' (tw_id row) (hold_legs (tw_seller_account row) (tw_asset row) (tw_amount row)) s1 = Inr (j, s2)"
    and same: "same_ledger s s1" "same_ledger s2 s'" and rows: "p2p_trades s' = p2p_trades s @ [row]"
  shows "escrow_kept s s'"
proof (cases "escrow_ok s")
  case True
  then have wf: "ledger_wf s" "ledger_balanced s" by (simp_all add: escrow_ok_def)
  note l = ledger_posted [OF post same hold_release_balanced(1) wf]
  have pos: "0 < tw_amount row" using post by (simp add: post_journal_Inr hold_legs_def)
  have av: "tw_amount row \<le> bucket_sum s (tw_seller_account row) (tw_asset row) Available"
    using avail posted_eq_bucket_sum [OF wf(1)] by simp
  have "escrowed s' a x = escrowed s a x + bump (tw_seller_account row) (tw_asset row) Held (tw_amount row) a x Held" for a x
    using assms(2) by (auto simp: escrowed_def rows active_status_def bump_def)
  with l True assms(1) pos av show ?thesis
    by (auto simp: escrow_kept_def escrow_ok_def rows balance_simps bump_def)
next
  case False
  then show ?thesis by (simp add: escrow_kept_def)
qed

lemma escrow_kept_close:
  assumes t: "t \<in> set (p2p_trades s)" "closes (tw_status t) (tw_status t')" "trade_terms t' = trade_terms t"
    and held: "tw_amount t \<le> posted_bucket_sum s (tw_seller_account t) (tw_asset t) Held"
    and post: "post_p2p_journal key rtype (tw_id t) (release_legs (tw_seller_account t) c (tw_asset t) (tw_amount t)) s1 = Inr (j, s2)"
    and same: "same_ledger s s1" "same_ledger s2 s'" and rows: "p2p_trades s' = replace_trade t t' (p2p_trades s)"
  shows "escrow_kept s s'"
proof (cases "escrow_ok s")
  case True
  then have wf: "ledger_wf s" "ledger_balanced s" "distinct (map tw_id (p2p_trades s))" by (simp_all add: escrow_ok_def)
  note l = ledger_posted [OF post same hold_release_balanced(2) wf(1,2)]
  have pos: "0 < tw_amount t" using post by (simp add: post_journal_Inr release_legs_def)
  have hd: "tw_amount t \<le> bucket_sum s (tw_seller_account t) (tw_asset t) Held"
    using held posted_eq_bucket_sum [OF wf(1)] by simp
  have "escrowed s' a x = escrowed s a x + bump (tw_seller_account t) (tw_asset t) Held (- tw_amount t) a x Held" for a x
    using escrowed_replace [OF wf(3) t(1,3) rows] active_facts(2) [OF t(2)] by (auto simp: bump_def)
  moreover have "distinct (map tw_id (p2p_trades s'))"
    using replace_ids [OF trade_terms_simps(1) [OF t(3)]] wf(3) by (simp add: rows)
  ultimately show ?thesis using l True pos hd
    by (auto simp: escrow_kept_def escrow_ok_def balance_simps bump_def)
next
  case False
  then show ?thesis by (simp add: escrow_kept_def)
qed

lemma quiet_kept: "quiet_p2p s s' \<Longrightarrow> escrow_kept s s'"
  using same_ledgerD [of s s'] by (auto simp: quiet_p2p_def escrow_kept_def escrow_ok_def escrowed_def)

lemma escrow_step_kept: "escrow_step s s' \<Longrightarrow> escrow_kept s s'"
proof (induction rule: escrow_step.induct)
  case (moved t s t' s')
  then show ?case using escrow_kept_move [of t s t' s'] by (simp add: same_terms_def)
next
  case (opened row s key s1 j s2 s')
  then show ?case using escrow_kept_open by blast
next
  case (closed t s t' key rtype s1 j s2 s')
  then show ?case using escrow_kept_close by blast
qed (rule quiet_kept)

text \<open>The life of a trade.\<close>

definition status_path :: "string \<Rightarrow> string \<Rightarrow> bool" where
  "status_path = (\<lambda>st st'. moves st st' \<or> closes st st')\<^sup>*\<^sup>*"

definition trade_path :: "p2p_trade_row \<Rightarrow> p2p_trade_row \<Rightarrow> bool" where
  "trade_path t t' \<longleftrightarrow> trade_terms t' = trade_terms t \<and> status_path (tw_status t) (tw_status t') \<and>
     (tw_status t = ''open'' \<or> trade_buyer t' = trade_buyer t)"

definition follows :: "p2p_db \<Rightarrow> p2p_db \<Rightarrow> bool" where
  "follows s s' \<longleftrightarrow> (distinct (map tw_id (p2p_trades s)) \<longrightarrow> distinct (map tw_id (p2p_trades s')) \<and>
     (\<forall>t \<in> set (p2p_trades s). \<exists>t' \<in> set (p2p_trades s'). trade_path t t'))"

lemma status_path_step: "moves st st' \<or> closes st st' \<Longrightarrow> status_path st st'"
  unfolding status_path_def by blast

lemma no_return_to_open: "status_path st st' \<Longrightarrow> st \<noteq> ''open'' \<Longrightarrow> st' \<noteq> ''open''"
  unfolding status_path_def by (induction rule: rtranclp_induct) (auto simp: moves_def closes_def)

lemma final_status_path: "status_path st st' \<Longrightarrow> \<not> active_status st \<Longrightarrow> st' = st"
  unfolding status_path_def
  by (induction rule: rtranclp_induct) (auto dest: active_facts)

lemma trade_path_refl [simp]: "trade_path t t"
  by (simp add: trade_path_def status_path_def)

lemma trade_path_trans: "trade_path t u \<Longrightarrow> trade_path u v \<Longrightarrow> trade_path t v"
  using no_return_to_open [of "tw_status t" "tw_status u"]
  by (auto simp: trade_path_def status_path_def intro: rtranclp_trans)

lemma follows_refl: "follows s s"
  by (auto simp: follows_def intro: trade_path_refl)

lemma follows_trans: "follows s t \<Longrightarrow> follows t u \<Longrightarrow> follows s u"
  unfolding follows_def by (meson trade_path_trans)

lemma follows_replace:
  assumes "t \<in> set (p2p_trades s)" "trade_path t t'" "p2p_trades s' = replace_trade t t' (p2p_trades s)"
  shows "follows s s'"
  unfolding follows_def
proof (intro impI conjI ballI)
  assume d: "distinct (map tw_id (p2p_trades s))"
  have "tw_id t' = tw_id t" using assms(2) by (simp add: trade_path_def trade_terms_def)
  from replace_ids [OF this] d show "distinct (map tw_id (p2p_trades s'))" by (simp add: assms(3))
  fix u assume u: "u \<in> set (p2p_trades s)"
  show "\<exists>u' \<in> set (p2p_trades s'). trade_path u u'"
  proof (cases "tw_id u = tw_id t")
    case True
    then have "u = t" using d u assms(1) by (auto simp: distinct_map inj_on_def)
    moreover have "t' \<in> set (p2p_trades s')" using assms(1,3) by (auto simp: set_update_where)
    ultimately show ?thesis using assms(2) by blast
  next
    case False
    then have "u \<in> set (p2p_trades s')" using u assms(3) by (auto simp: set_update_where)
    then show ?thesis using trade_path_refl by blast
  qed
qed

lemma escrow_step_follows: "escrow_step s s' \<Longrightarrow> follows s s'"
proof (induction rule: escrow_step.induct)
  case (silent s s')
  then show ?case using follows_refl by (simp add: quiet_p2p_def follows_def)
next
  case (opened row s key s1 j s2 s')
  then have kept: "\<exists>t' \<in> set (p2p_trades s'). trade_path t t'" if "t \<in> set (p2p_trades s)" for t
    using that by (intro bexI [of _ t]) simp_all
  from opened have "distinct (map tw_id (p2p_trades s)) \<Longrightarrow> distinct (map tw_id (p2p_trades s'))" by simp
  with kept show ?case by (simp add: follows_def)
next
  case (moved t s t' s')
  then show ?case by (intro follows_replace [of t s t' s']) (auto simp: trade_path_def same_terms_def intro: status_path_step)
next
  case (closed t s t' key rtype s1 j s2 s')
  then show ?case by (intro follows_replace [of t s t' s']) (auto simp: trade_path_def intro: status_path_step)
qed

abbreviation escrow_run :: "p2p_db \<Rightarrow> p2p_db \<Rightarrow> bool" where
  "escrow_run \<equiv> escrow_step\<^sup>*\<^sup>*"

lemma escrow_step_decisions: "escrow_step s s' \<Longrightarrow> decisions_kept s s'"
  by (induction rule: escrow_step.induct) (auto simp: quiet_p2p_def)

lemma escrow_step_dispute:
  assumes "escrow_step s s'" "distinct (map tw_id (p2p_trades s))" "t \<in> set (p2p_trades s)" "tw_status t = ''disputed''"
  shows "t \<in> set (p2p_trades s') \<or> decided_by_two s' (tw_id t)"
  using assms
proof (induction rule: escrow_step.induct)
  case (moved u s u' s')
  then have "tw_status u \<noteq> ''disputed''" by (auto simp: moves_def)
  then have "tw_id t \<noteq> tw_id u" using moved by (auto simp: distinct_map inj_on_def)
  then show ?case using moved by (auto simp: set_update_where)
next
  case (closed u s u' key rtype s1 j s2 s')
  show ?case
  proof (cases "tw_id t = tw_id u")
    case True
    then have "t = u" using closed by (auto simp: distinct_map inj_on_def)
    then show ?thesis using closed by simp
  next
    case False
    then show ?thesis using closed by (auto simp: set_update_where)
  qed
qed (auto simp: quiet_p2p_def)

lemma escrow_run_kept: "escrow_run s s' \<Longrightarrow> escrow_kept s s' \<and> follows s s' \<and> decisions_kept s s'"
  by (induction rule: rtranclp_induct)
    (auto intro: escrow_kept_refl follows_refl dest: escrow_step_kept escrow_step_follows escrow_step_decisions
      elim: escrow_kept_trans follows_trans decisions_kept_trans)

lemma escrow_run_ids: "escrow_run s s' \<Longrightarrow> ids_ok s \<Longrightarrow> ids_ok s'"
  using escrow_run_kept [of s s'] by (auto simp: ids_ok_def follows_def decisions_kept_def)

lemma escrow_run_dispute:
  assumes "escrow_run s s'" "ids_ok s" "t \<in> set (p2p_trades s)" "tw_status t = ''disputed''"
  shows "t \<in> set (p2p_trades s') \<or> decided_by_two s' (tw_id t)"
  using assms
proof (induction rule: rtranclp_induct)
  case (step u v)
  have "ids_ok u" using escrow_run_ids step by blast
  then show ?case
    using step escrow_step_dispute [OF step(2)] decided_kept [OF escrow_step_decisions [OF step(2)]]
    by (auto simp: ids_ok_def)
qed simp

section \<open>The store refines the machine\<close>

interpretation quiet_rel: tx_relation quiet_p2p
  by unfold_locales (auto simp: quiet_p2p_def same_ledger_def intro: decisions_kept_trans)

text \<open>A statement sequence refines the machine from a state with unique trade ids.\<close>

definition refines :: "p2p_db \<Rightarrow> p2p_db \<Rightarrow> bool" where
  "refines s s' \<longleftrightarrow> (ids_ok s \<longrightarrow> escrow_run s s')"

interpretation run_rel: tx_relation refines
proof unfold_locales
  show "refines s s" for s by (simp add: refines_def)
  show "refines s u" if "refines s t" "refines t u" for s t u
    using that escrow_run_ids [of s t] by (auto simp: refines_def intro: rtranclp_trans)
qed

lemma quiet_statements:
  "tx_respects quiet_p2p (advisory_lock k)" "tx_respects quiet_p2p (findTrade i)"
  "tx_respects quiet_p2p (existingAction actor key h)" "tx_respects quiet_p2p (requireFundingAccount u acc)"
  "tx_respects quiet_p2p (LockAccountAsset err acc x)" "tx_respects quiet_p2p (p2p_bucketBalance acc x b)"
  "tx_respects quiet_p2p (recordEvent i ev actor u key h pl)" "tx_respects quiet_p2p (append_outbox o1 o2 o3 o4)"
  "tx_respects quiet_p2p (hasRole u r)" "tx_respects quiet_p2p (findResolution i)" "tx_respects quiet_p2p (findResolutionByTrade i)"
  "tx_respects quiet_p2p (auditResolution r1 r2 r3 r4 r5)" "tx_respects quiet_p2p (insert_evidence v)"
  "tx_respects quiet_p2p (lockBalances x accs)" "tx_respects quiet_p2p (escrow_amount trade)"
  by (auto intro!: respectsI split: option.splits
      simp: quiet_p2p_def same_ledger_def decisions_kept_def tx_simps advisory_lock_def findTrade_def existingAction_def requireFundingAccount_def
        p2p_bucketBalance_def recordEvent_def append_outbox_def hasRole_def findResolution_def findResolutionByTrade_def
        auditResolution_def insert_evidence_def insert_resolution_def lockBalances_def escrow_amount_def)

lemma insert_resolution_quiet: "tx_respects quiet_p2p (insert_resolution q)"
proof (rule respectsI)
  fix s u s' assume "insert_resolution q s = Inr (u, s')"
  then have "s' = s\<lparr>p2p_resolution_requests := p2p_resolution_requests s @ [q]\<rparr>" "\<forall>r \<in> set (p2p_resolution_requests s). pq_id r \<noteq> pq_id q"
    by (auto simp: insert_resolution_def tx_simps)
  then show "quiet_p2p s s'" by (auto simp: quiet_p2p_def same_ledger_def decisions_kept_def)
qed

lemmas quiet_intros = quiet_rel.bind quiet_rel.pure quiet_statements insert_resolution_quiet

lemma quiet_run: "quiet_p2p s s' \<Longrightarrow> refines s s'"
  by (auto simp: refines_def intro: escrow_step.silent)

lemma step_run: "(ids_ok s \<Longrightarrow> escrow_step s s') \<Longrightarrow> refines s s'"
  by (auto simp: refines_def)

lemma findTrade_Inr:
  assumes "findTrade i s = Inr (trade, s')"
  obtains t where "s' = s" "t \<in> set (p2p_trades s)" "tw_id t = i" "pt_ID trade = i" "pt_SellerUserID trade = tw_seller_user t"
    "pt_SellerAccountID trade = tw_seller_account t" "pt_BuyerUserID trade = text_of (tw_buyer_user t)"
    "pt_BuyerAccountID trade = text_of (tw_buyer_account t)" "pt_AssetID trade = tw_asset t"
    "pt_AmountAtomic trade = BigString (tw_amount t)" "pt_Status trade = tw_status t"
    "pt_OfferExpiresAt trade = tw_offer_expires t" "pt_PaymentDeadline trade = tw_payment_deadline t"
proof -
  obtain t a where f: "find (\<lambda>(t, a). tw_id t = i) (trades_with_assets s) = Some (t, a)"
    and sc: "trade = scanTrade (t, a)" "s' = s"
    using assms by (auto simp: findTrade_def tx_simps)
  have "t \<in> set (p2p_trades s)" "tw_id t = i"
    using find_SomeD [OF f] by (auto simp: trades_with_assets_def)
  with sc show ?thesis by (intro that [of t]) (simp_all add: scanTrade_def)
qed

lemma commitDuplicate_Inr:
  assumes "commitDuplicate a key h body s = Inr (trade, s')"
  obtains (duplicate) "quiet_p2p s s'"
  | (fresh) s1 where "quiet_p2p s s1" "body s1 = Inr (trade, s')"
proof -
  obtain found s1 where e: "existingAction a key h s = Inr (found, s1)"
    and r: "(case found of Some trade \<Rightarrow> returnT (trade\<lparr>pt_Duplicate := True\<rparr>) | None \<Rightarrow> body) s1 = Inr (trade, s')"
    using assms unfolding commitDuplicate_def bindT_Inr by blast
  have "quiet_p2p s s1" by (rule respectsD [OF quiet_statements(3) e])
  then show ?thesis using r that by (cases found) (auto simp: tx_simps)
qed

lemma commitDuplicate_run:
  "tx_respects refines body \<Longrightarrow> tx_respects refines (commitDuplicate a key h body)"
  by (rule respectsI, erule commitDuplicate_Inr)
    (auto dest: respectsD intro: quiet_run run_rel.R_trans)

lemma update_trade_Inr [tx_simps]:
  "update_trade i f s = Inr r \<longleftrightarrow> list_all (\<lambda>t. tw_id t = i \<longrightarrow> p2p_checks (f t)) (p2p_trades s) \<and>
     r = ((), s\<lparr>p2p_trades := update_where (\<lambda>t. tw_id t = i) f (p2p_trades s)\<rparr>)"
  by (auto simp: update_trade_def tx_simps)

lemma update_replace:
  assumes "distinct (map tw_id rows)" "t \<in> set rows"
  shows "update_where (\<lambda>x. tw_id x = tw_id t) f rows = replace_trade t (f t) rows"
  unfolding update_where_def
proof (rule map_cong [OF refl])
  fix x assume "x \<in> set rows"
  with assms have "tw_id x = tw_id t \<Longrightarrow> x = t" by (auto simp: distinct_map inj_on_def)
  then show "(if tw_id x = tw_id t then f x else x) = (if tw_id x = tw_id t then f t else x)" by auto
qed

lemma quiet_tail: "tx_respects quiet_p2p (bindT (recordEvent i ev actor u key h pl) (\<lambda>_. findTrade i'))"
  by (intro quiet_intros)

text \<open>A status change without money.\<close>

lemma move_run:
  assumes t: "t \<in> set (p2p_trades s)" and up: "update_trade (tw_id t) f s = Inr (u, s1)" and q: "quiet_p2p s1 s'"
    and m: "moves (tw_status t) (tw_status (f t))" "same_terms t (f t)"
  shows "refines s s'"
proof (rule step_run)
  assume "ids_ok s"
  then have d: "distinct (map tw_id (p2p_trades s))" by (simp add: ids_ok_def)
  have s1: "s1 = s\<lparr>p2p_trades := update_where (\<lambda>x. tw_id x = tw_id t) f (p2p_trades s)\<rparr>" "p2p_checks (f t)"
    using up t by (auto simp: tx_simps list_all_iff)
  show "escrow_step s s'"
    using t m s1(2)
  proof (rule escrow_step.moved)
    show "same_ledger s s'" using q by (simp add: s1(1) quiet_p2p_def same_ledger_def)
    show "decisions_kept s s'" using q by (simp add: s1(1) quiet_p2p_def decisions_kept_def)
    show "p2p_trades s' = replace_trade t (f t) (p2p_trades s)"
      using q update_replace [OF d t] by (simp add: s1(1) quiet_p2p_def)
  qed
qed

lemma close_run:
  assumes t: "t \<in> set (p2p_trades s)" and cl: "closes (tw_status t) (tw_status (f t))" "trade_terms (f t) = trade_terms t" "trade_buyer (f t) = trade_buyer t"
    and held: "tw_amount t \<le> posted_bucket_sum s (tw_seller_account t) (tw_asset t) Held"
    and q1: "quiet_p2p s s1"
    and post: "post_p2p_journal key rtype (tw_id t) (release_legs (tw_seller_account t) (payee t (tw_status (f t))) (tw_asset t) (tw_amount t)) s1 = Inr (j, s2)"
    and up: "update_trade (tw_id t) f s2 = Inr (u, s3)"
    and q3: "p2p_trades s' = p2p_trades s3" "same_ledger s3 s'" "ids_ok s3 \<Longrightarrow> decisions_kept s3 s'"
    and two: "tw_status t = ''disputed'' \<longrightarrow> decided_by_two s' (tw_id t)"
  shows "refines s s'"
proof (rule step_run)
  assume ids: "ids_ok s"
  then have d: "distinct (map tw_id (p2p_trades s))" by (simp add: ids_ok_def)
  have rows: "p2p_trades s2 = p2p_trades s" using q1 post by (simp add: quiet_p2p_def post_journal_Inr)
  have s3: "s3 = s2\<lparr>p2p_trades := update_where (\<lambda>x. tw_id x = tw_id t) f (p2p_trades s)\<rparr>" "p2p_checks (f t)"
    using up t rows by (auto simp: tx_simps list_all_iff)
  show "escrow_step s s'"
    using t cl s3(2) held post
  proof (rule escrow_step.closed)
    have "decisions_kept s s3" using q1 post by (simp add: s3(1) quiet_p2p_def post_journal_Inr decisions_kept_def)
    moreover have "tw_id (f t) = tw_id t" using cl(2) by (rule trade_terms_simps(1))
    then have "map tw_id (p2p_trades s3) = map tw_id (p2p_trades s)"
      using replace_ids [of "f t" t "p2p_trades s"] update_replace [OF d t] by (simp add: s3(1))
    ultimately have "ids_ok s3" using ids by (simp add: ids_ok_def decisions_kept_def)
    with q3(3) \<open>decisions_kept s s3\<close> show "decisions_kept s s'" by (blast intro: decisions_kept_trans)
    show "same_ledger s s1" using q1 by (simp add: quiet_p2p_def)
    show "same_ledger s2 s'" using q3(2) by (simp add: s3(1) same_ledger_def)
    show "p2p_trades s' = replace_trade t (f t) (p2p_trades s)"
      using q3(1) update_replace [OF d t] by (simp add: s3(1))
    show "tw_status t = ''disputed'' \<longrightarrow> decided_by_two s' (tw_id t)" by (rule two)
  qed
qed

text \<open>Paying the escrow out: what the two helpers have checked and posted.\<close>

lemma quiet_posted: "quiet_p2p s s' \<Longrightarrow> posted_bucket_sum s' = posted_bucket_sum s"
  by (auto simp: quiet_p2p_def dest: same_ledgerD(2))

lemma escrow_amount_Inr:
  assumes "escrow_amount trade s = Inr (amount, s')" "pt_AmountAtomic trade = BigString n"
  shows "s' = s \<and> amount = n \<and> n \<le> posted_bucket_sum s (pt_SellerAccountID trade) (pt_AssetID trade) Held"
  using assms by (auto simp: escrow_amount_def p2p_bucketBalance_def tx_simps)

lemma refundEscrow_Inr:
  assumes "refundEscrow trade prefix s = Inr (u, s')" "pt_AmountAtomic trade = BigString n"
  obtains s1 j where "quiet_p2p s s1" "n \<le> posted_bucket_sum s (pt_SellerAccountID trade) (pt_AssetID trade) Held"
    "post_p2p_journal (prefix @ pt_ID trade) ''p2p_refund'' (pt_ID trade)
       (release_legs (pt_SellerAccountID trade) (pt_SellerAccountID trade) (pt_AssetID trade) n) s1 = Inr (j, s')"
proof -
  obtain v s1 amount s2 j where 1: "LockAccountAsset lock_error (pt_SellerAccountID trade) (pt_AssetID trade) s = Inr (v, s1)"
    and 2: "escrow_amount trade s1 = Inr (amount, s2)"
    and 3: "post_p2p_journal (prefix @ pt_ID trade) ''p2p_refund'' (pt_ID trade)
       (release_legs (pt_SellerAccountID trade) (pt_SellerAccountID trade) (pt_AssetID trade) amount) s2 = Inr (j, s')"
    using assms(1) unfolding refundEscrow_def bindT_Inr returnT_simps by blast
  have q: "quiet_p2p s s1" by (rule respectsD [OF quiet_statements(5) 1])
  from escrow_amount_Inr [OF 2 assms(2)] 3 q quiet_posted [OF q] show ?thesis by (intro that [of s1 j]) auto
qed

lemma releaseEscrow_Inr:
  assumes "releaseEscrow trade prefix s = Inr (u, s')" "pt_AmountAtomic trade = BigString n"
  obtains s1 j where "quiet_p2p s s1" "n \<le> posted_bucket_sum s (pt_SellerAccountID trade) (pt_AssetID trade) Held"
    "post_p2p_journal (prefix @ pt_ID trade) ''p2p_release'' (pt_ID trade)
       (release_legs (pt_SellerAccountID trade) (pt_BuyerAccountID trade) (pt_AssetID trade) n) s1 = Inr (j, s')"
proof -
  obtain v s1 amount s2 j where 1: "lockBalances (pt_AssetID trade) [pt_SellerAccountID trade, pt_BuyerAccountID trade] s = Inr (v, s1)"
    and 2: "escrow_amount trade s1 = Inr (amount, s2)"
    and 3: "post_p2p_journal (prefix @ pt_ID trade) ''p2p_release'' (pt_ID trade)
       (release_legs (pt_SellerAccountID trade) (pt_BuyerAccountID trade) (pt_AssetID trade) amount) s2 = Inr (j, s')"
    using assms(1) unfolding releaseEscrow_def bindT_Inr returnT_simps ensureT_simps by blast
  have q: "quiet_p2p s s1" by (rule respectsD [OF quiet_statements(14) 1])
  from escrow_amount_Inr [OF 2 assms(2)] 3 q quiet_posted [OF q] show ?thesis by (intro that [of s1 j]) auto
qed

section \<open>The methods\<close>

lemma Create_run: "tx_respects refines (Create_tx c)"
  unfolding Create_tx_def
proof (rule commitDuplicate_run, rule respectsI)
  fix s trade s'
  assume run: "bindT (requireFundingAccount (cm_UserID c) (cm_AccountID c)) (\<lambda>_.
      bindT (rowT (\<lambda>s. map_option as_id (find (\<lambda>a. as_symbol a = cm_AssetSymbol c \<and> as_network a = cm_AssetNetwork c \<and>
        as_status a = ''enabled'') (assets s))) (App ErrInvalidRequest)) (\<lambda>assetID.
      bindT (LockAccountAsset lock_error (cm_AccountID c) assetID) (\<lambda>_.
      bindT (p2p_bucketBalance (cm_AccountID c) assetID Available) (\<lambda>available.
      bindT (rowT (\<lambda>_. SetString (cm_AmountAtomic c)) (App ErrInsufficientBalance)) (\<lambda>amount.
      bindT (ensureT (\<not> (amount \<le> 0 \<or> available < amount)) (App ErrInsufficientBalance)) (\<lambda>_.
      bindT (rowT (\<lambda>_. fiat_units (cm_FiatAmount c)) invalid_text) (\<lambda>fiat.
      bindT (insert_p2p_trade (new_trade_row c assetID amount fiat)) (\<lambda>_.
      bindT (postEscrow (cm_TradeID c) (cm_AccountID c) assetID amount) (\<lambda>_.
      bindT (recordEvent (cm_TradeID c) ''created'' (userActor (cm_UserID c)) (cm_UserID c) (cm_IdempotencyKey c)
        (cm_RequestHash c) [(''status'', JString ''open'')]) (\<lambda>_.
      findTrade (cm_TradeID c))))))))))) s = Inr (trade, s')"
  then obtain u1 s1 assetID u2 s2 available s3 amount fiat u4 s4 u5 s5 u6 s6 where
    1: "requireFundingAccount (cm_UserID c) (cm_AccountID c) s = Inr (u1, s1)"
    and 2: "LockAccountAsset lock_error (cm_AccountID c) assetID s1 = Inr (u2, s2)"
    and 3: "p2p_bucketBalance (cm_AccountID c) assetID Available s2 = Inr (available, s3)"
    and am: "\<not> (amount \<le> 0 \<or> available < amount)"
    and 4: "insert_p2p_trade (new_trade_row c assetID amount fiat) s3 = Inr (u4, s4)"
    and 5: "postEscrow (cm_TradeID c) (cm_AccountID c) assetID amount s4 = Inr (u5, s5)"
    and 6: "recordEvent (cm_TradeID c) ''created'' (userActor (cm_UserID c)) (cm_UserID c) (cm_IdempotencyKey c)
        (cm_RequestHash c) [(''status'', JString ''open'')] s5 = Inr (u6, s6)"
    and 7: "findTrade (cm_TradeID c) s6 = Inr (trade, s')"
    unfolding bindT_Inr rowT_simps ensureT_simps by blast
  let ?row = "new_trade_row c assetID amount fiat"
  have q: "quiet_p2p s s3" "quiet_p2p s5 s'"
    using respectsD [OF quiet_statements(4) 1] respectsD [OF quiet_statements(5) 2] respectsD [OF quiet_statements(6) 3]
      respectsD [OF quiet_statements(7) 6] respectsD [OF quiet_statements(2) 7] by (blast intro: quiet_rel.R_trans)+
  have av: "available = posted_bucket_sum s (cm_AccountID c) assetID Available"
    using 3 quiet_posted [OF quiet_rel.R_trans [OF respectsD [OF quiet_statements(4) 1] respectsD [OF quiet_statements(5) 2]]]
    by (auto simp: p2p_bucketBalance_def tx_simps)
  have ins: "s4 = s3\<lparr>p2p_trades := p2p_trades s3 @ [?row]\<rparr>" "p2p_checks ?row" "\<forall>t \<in> set (p2p_trades s3). tw_id t \<noteq> tw_id ?row"
    using 4 by (auto simp: insert_p2p_trade_def tx_simps)
  obtain j where post: "post_p2p_journal (''p2p-escrow:'' @ cm_TradeID c) ''p2p_escrow'' (cm_TradeID c) (hold_legs (cm_AccountID c) assetID amount) s4 = Inr (j, s5)"
    using 5 by (auto simp: postEscrow_def tx_simps)
  show "refines s s'"
  proof (rule step_run, rule escrow_step.opened)
    show "tw_id ?row \<notin> tw_id ` set (p2p_trades s)" using ins(3) q(1) by (auto simp: quiet_p2p_def)
    show "p2p_checks ?row" by (rule ins)
    show "post_p2p_journal (''p2p-escrow:'' @ cm_TradeID c) ''p2p_escrow'' (tw_id ?row)
        (hold_legs (tw_seller_account ?row) (tw_asset ?row) (tw_amount ?row)) s4 = Inr (j, s5)"
      using post by (simp add: new_trade_row_def)
    show "same_ledger s s4" using q(1) ins(1) by (simp add: quiet_p2p_def same_ledger_def)
    show "same_ledger s5 s'" using q(2) by (simp add: quiet_p2p_def)
    show "decisions_kept s s'"
      using q ins(1) post by (auto simp: quiet_p2p_def post_journal_Inr decisions_kept_def)
    show "p2p_trades s' = p2p_trades s @ [?row]"
      using q ins(1) post by (simp add: quiet_p2p_def post_journal_Inr)
  qed (use am av in \<open>auto simp: new_trade_row_def\<close>)
qed

lemma update_then_quiet:
  assumes "bindT (update_trade i f) (\<lambda>_. bindT (recordEvent i' ev actor u key h pl) (\<lambda>_. findTrade i')) s = Inr (trade, s')"
  obtains u1 s1 where "update_trade i f s = Inr (u1, s1)" "quiet_p2p s1 s'"
  using assms respectsD [OF quiet_tail] unfolding bindT_Inr [of "update_trade i f"] by blast

lemma Accept_run: "tx_respects refines (Accept_tx c)"
  unfolding Accept_tx_def
proof (rule commitDuplicate_run, rule respectsI)
  let ?f = "\<lambda>t. t\<lparr>tw_buyer_user := Some (ax_UserID c), tw_buyer_account := Some (ax_AccountID c),
        tw_status := ''accepted'', tw_accepted_at := Some (ax_Now c), tw_payment_deadline := Some (ax_PaymentDeadline c),
        tw_updated_at := ax_Now c\<rparr>"
  fix s trade s'
  assume "bindT (findTrade (ax_TradeID c)) (\<lambda>trade.
      bindT (ensureT (pt_Status trade = ''open'') (App ErrInvalidTransition)) (\<lambda>_.
      bindT (ensureT (ax_Now c < pt_OfferExpiresAt trade) (App ErrExpired)) (\<lambda>_.
      bindT (ensureT (ax_UserID c \<noteq> pt_SellerUserID trade) (App ErrForbidden)) (\<lambda>_.
      bindT (requireFundingAccount (ax_UserID c) (ax_AccountID c)) (\<lambda>_.
      bindT (update_trade (pt_ID trade) ?f) (\<lambda>_.
      bindT (recordEvent (pt_ID trade) ''accepted'' (userActor (ax_UserID c)) (ax_UserID c) (ax_IdempotencyKey c)
        (ax_RequestHash c) [(''status'', JString ''accepted''), (''payment_deadline'', JTime (ax_PaymentDeadline c))]) (\<lambda>_.
      findTrade (pt_ID trade)))))))) s = Inr (trade, s')"
  then obtain tr s1 u2 s2 where 1: "findTrade (ax_TradeID c) s = Inr (tr, s1)" and st: "pt_Status tr = ''open''"
    and 2: "requireFundingAccount (ax_UserID c) (ax_AccountID c) s1 = Inr (u2, s2)"
    and 3: "bindT (update_trade (pt_ID tr) ?f) (\<lambda>_.
      bindT (recordEvent (pt_ID tr) ''accepted'' (userActor (ax_UserID c)) (ax_UserID c) (ax_IdempotencyKey c)
        (ax_RequestHash c) [(''status'', JString ''accepted''), (''payment_deadline'', JTime (ax_PaymentDeadline c))]) (\<lambda>_.
      findTrade (pt_ID tr))) s2 = Inr (trade, s')"
    unfolding bindT_Inr [of "findTrade (ax_TradeID c)"] bindT_Inr [of "ensureT b e" for b e]
      bindT_Inr [of "requireFundingAccount (ax_UserID c) (ax_AccountID c)"] ensureT_simps by blast
  obtain t where t: "s1 = s" "t \<in> set (p2p_trades s)" "tw_id t = pt_ID tr" "pt_Status tr = tw_status t"
    using 1 by (rule findTrade_Inr) simp
  have q: "quiet_p2p s s2" using respectsD [OF quiet_statements(4) 2] t(1) by simp
  obtain u4 s4 where up: "update_trade (tw_id t) ?f s2 = Inr (u4, s4)" "quiet_p2p s4 s'"
    using update_then_quiet [OF 3] t(3) by metis
  have "t \<in> set (p2p_trades s2)" using t(2) q by (simp add: quiet_p2p_def)
  from move_run [OF this up] have "refines s2 s'"
    using st t(4) by (simp add: moves_def same_terms_def trade_terms_def)
  then show "refines s s'" using quiet_run [OF q] by (blast intro: run_rel.R_trans)
qed

lemma transition_run:
  assumes "\<And>tr t. validate tr = None \<Longrightarrow> pt_Status tr = tw_status t \<Longrightarrow> moves (tw_status t) (tw_status (f t))"
    and "\<And>t. trade_terms (f t) = trade_terms t \<and> trade_buyer (f t) = trade_buyer t"
  shows "tx_respects refines (transition c event validate f reason)"
  unfolding transition_def
proof (rule commitDuplicate_run, rule respectsI)
  fix s trade s'
  assume "bindT (findTrade (ax_TradeID c)) (\<lambda>trade.
      bindT (case validate trade of Some e \<Rightarrow> failT (App e) | None \<Rightarrow> returnT ()) (\<lambda>_.
      bindT (update_trade (pt_ID trade) f) (\<lambda>_.
      bindT (recordEvent (pt_ID trade) event (userActor (ax_UserID c)) (ax_UserID c) (ax_IdempotencyKey c)
        (ax_RequestHash c) ((''status'', JString event) # reason)) (\<lambda>_.
      findTrade (pt_ID trade))))) s = Inr (trade, s')"
  then obtain tr s1 u2 s2 where 1: "findTrade (ax_TradeID c) s = Inr (tr, s1)"
    and 2: "(case validate tr of Some e \<Rightarrow> failT (App e) | None \<Rightarrow> returnT ()) s1 = Inr (u2, s2)"
    and 3: "bindT (update_trade (pt_ID tr) f) (\<lambda>_.
      bindT (recordEvent (pt_ID tr) event (userActor (ax_UserID c)) (ax_UserID c) (ax_IdempotencyKey c)
        (ax_RequestHash c) ((''status'', JString event) # reason)) (\<lambda>_.
      findTrade (pt_ID tr))) s2 = Inr (trade, s')"
    unfolding bindT_Inr [of "findTrade (ax_TradeID c)"] bindT_Inr [of "case_option a b d" for a b d] by blast
  obtain t where t: "s1 = s" "t \<in> set (p2p_trades s)" "tw_id t = pt_ID tr" "pt_Status tr = tw_status t"
    using 1 by (rule findTrade_Inr) simp
  have v: "validate tr = None" "s2 = s" using 2 t(1) by (auto simp: tx_simps split: option.splits)
  obtain u4 s4 where up: "update_trade (tw_id t) f s = Inr (u4, s4)" "quiet_p2p s4 s'"
    using update_then_quiet [OF 3] t(3) v(2) by metis
  from move_run [OF t(2) up] show "refines s s'"
    using assms(1) [OF v(1) t(4)] assms(2) by (simp add: same_terms_def)
qed

lemma MarkPaid_run: "tx_respects refines (MarkPaid_tx c)"
  unfolding MarkPaid_tx_def
  by (rule transition_run) (auto simp: mark_paid_check_def moves_def trade_terms_def trade_buyer_def split: if_splits)

lemma Dispute_run: "tx_respects refines (Dispute_tx c)"
  unfolding Dispute_tx_def
  by (rule transition_run) (auto simp: dispute_check_def moves_def trade_terms_def trade_buyer_def split: if_splits)

lemma bindT_returnT: "bindT (returnT x) f = f x"
  by (simp add: fun_eq_iff bindT_def returnT_def)

text \<open>Closing a trade: the escrow is paid out, then the row is updated.\<close>

lemma refund_then_close:
  assumes tr: "findTrade i s = Inr (tr, s0)" and pay: "refundEscrow tr prefix s = Inr (u, s1)"
    and up: "update_trade i f s1 = Inr (v, s2)" and q: "p2p_trades s' = p2p_trades s2" "same_ledger s2 s'" "ids_ok s2 \<Longrightarrow> decisions_kept s2 s'"
    and two: "pt_Status tr = ''disputed'' \<longrightarrow> decided_by_two s' i"
    and f: "\<And>t. pt_Status tr = tw_status t \<Longrightarrow> closes (tw_status t) (tw_status (f t)) \<and> tw_status (f t) \<noteq> ''released''"
      "\<And>t. trade_terms (f t) = trade_terms t \<and> trade_buyer (f t) = trade_buyer t"
  shows "refines s s'"
proof -
  obtain t where t: "t \<in> set (p2p_trades s)" "tw_id t = i" "pt_ID tr = i" "pt_SellerAccountID tr = tw_seller_account t"
    "pt_AssetID tr = tw_asset t" "pt_AmountAtomic tr = BigString (tw_amount t)" "pt_Status tr = tw_status t"
    using tr by (rule findTrade_Inr) simp
  obtain s3 j where p: "quiet_p2p s s3" "tw_amount t \<le> posted_bucket_sum s (tw_seller_account t) (tw_asset t) Held"
    "post_p2p_journal (prefix @ i) ''p2p_refund'' i (release_legs (tw_seller_account t) (tw_seller_account t) (tw_asset t) (tw_amount t)) s3 = Inr (j, s1)"
    using refundEscrow_Inr [OF pay t(6)] t(3-5) by metis
  have py: "payee t (tw_status (f t)) = tw_seller_account t" using f(1) [OF t(7)] by (simp add: payee_def)
  show ?thesis
    using f(1) [OF t(7)] f(2) p up t(2,7) py two
    by (intro close_run [OF t(1) _ _ _ p(2,1) _ _ q(1,2), where j = j and u = v and f = f and key = "prefix @ i" and rtype = "''p2p_refund''"]) (auto intro: q(3))
qed

lemma release_then_close:
  assumes tr: "findTrade i s = Inr (tr, s0)" and pay: "releaseEscrow tr prefix s = Inr (u, s1)"
    and up: "update_trade i f s1 = Inr (v, s2)" and q: "p2p_trades s' = p2p_trades s2" "same_ledger s2 s'" "ids_ok s2 \<Longrightarrow> decisions_kept s2 s'"
    and two: "pt_Status tr = ''disputed'' \<longrightarrow> decided_by_two s' i"
    and f: "\<And>t. pt_Status tr = tw_status t \<Longrightarrow> closes (tw_status t) (tw_status (f t)) \<and> tw_status (f t) = ''released''"
      "\<And>t. trade_terms (f t) = trade_terms t \<and> trade_buyer (f t) = trade_buyer t"
  shows "refines s s'"
proof -
  obtain t where t: "t \<in> set (p2p_trades s)" "tw_id t = i" "pt_ID tr = i" "pt_SellerAccountID tr = tw_seller_account t"
    "pt_AssetID tr = tw_asset t" "pt_AmountAtomic tr = BigString (tw_amount t)" "pt_Status tr = tw_status t"
    "pt_BuyerAccountID tr = text_of (tw_buyer_account t)"
    using tr by (rule findTrade_Inr) simp
  obtain s3 j where p: "quiet_p2p s s3" "tw_amount t \<le> posted_bucket_sum s (tw_seller_account t) (tw_asset t) Held"
    "post_p2p_journal (prefix @ i) ''p2p_release'' i (release_legs (tw_seller_account t) (text_of (tw_buyer_account t)) (tw_asset t) (tw_amount t)) s3 = Inr (j, s1)"
    using releaseEscrow_Inr [OF pay t(6)] t(3-5,8) by metis
  have py: "payee t (tw_status (f t)) = text_of (tw_buyer_account t)" using f(1) [OF t(7)] by (simp add: payee_def)
  show ?thesis
    using f(1) [OF t(7)] f(2) p up t(2,7) py two
    by (intro close_run [OF t(1) _ _ _ p(2,1) _ _ q(1,2), where j = j and u = v and f = f and key = "prefix @ i" and rtype = "''p2p_release''"]) (auto intro: q(3))
qed

lemma quiet_parts: "quiet_p2p s s' \<Longrightarrow> p2p_trades s' = p2p_trades s \<and> same_ledger s s' \<and> decisions_kept s s'"
  by (simp add: quiet_p2p_def)

lemmas close_columns = closes_def trade_terms_def trade_buyer_def

lemma findTrade_same: "findTrade i s = Inr (tr, s') \<Longrightarrow> s' = s \<and> pt_ID tr = i"
  by (erule findTrade_Inr) simp

lemma Release_run: "tx_respects refines (Release_tx c)"
  unfolding Release_tx_def
proof (rule commitDuplicate_run, rule respectsI)
  let ?f = "\<lambda>t. t\<lparr>tw_status := ''released'', tw_completed_at := Some (ax_Now c), tw_updated_at := ax_Now c\<rparr>"
  fix s trade s'
  assume "bindT (findTrade (ax_TradeID c)) (\<lambda>trade.
      bindT (ensureT (pt_Status trade = ''paid'') (App ErrInvalidTransition)) (\<lambda>_.
      bindT (ensureT (\<not> (pt_SellerUserID trade \<noteq> ax_UserID c \<or> pt_SellerAccountID trade \<noteq> ax_AccountID c)) (App ErrForbidden)) (\<lambda>_.
      bindT (releaseEscrow trade ''p2p-release:'') (\<lambda>_.
      bindT (update_trade (pt_ID trade) ?f) (\<lambda>_.
      bindT (recordEvent (pt_ID trade) ''released'' (userActor (ax_UserID c)) (ax_UserID c) (ax_IdempotencyKey c)
        (ax_RequestHash c) [(''status'', JString ''released'')]) (\<lambda>_.
      findTrade (pt_ID trade))))))) s = Inr (trade, s')"
  then obtain tr s1 u2 s2 where 1: "findTrade (ax_TradeID c) s = Inr (tr, s1)" and st: "pt_Status tr = ''paid''"
    and 2: "releaseEscrow tr ''p2p-release:'' s1 = Inr (u2, s2)"
    and 3: "bindT (update_trade (pt_ID tr) ?f) (\<lambda>_.
      bindT (recordEvent (pt_ID tr) ''released'' (userActor (ax_UserID c)) (ax_UserID c) (ax_IdempotencyKey c)
        (ax_RequestHash c) [(''status'', JString ''released'')]) (\<lambda>_.
      findTrade (pt_ID tr))) s2 = Inr (trade, s')"
    unfolding bindT_Inr [of "findTrade (ax_TradeID c)"] bindT_Inr [of "ensureT b e" for b e]
      bindT_Inr [of "releaseEscrow t p" for t p] ensureT_simps by blast
  note same = findTrade_same [OF 1]
  obtain u3 s3 where up: "update_trade (ax_TradeID c) ?f s2 = Inr (u3, s3)" "quiet_p2p s3 s'"
    using update_then_quiet [OF 3] same by metis
  show "refines s s'"
    by (rule release_then_close [OF 1 _ up(1), of "''p2p-release:''" u2]) (use 2 same st quiet_parts [OF up(2)] in \<open>auto simp: close_columns\<close>)
qed

lemma Cancel_run: "tx_respects refines (Cancel_tx c)"
  unfolding Cancel_tx_def
proof (rule commitDuplicate_run, rule respectsI)
  let ?f = "\<lambda>t. t\<lparr>tw_status := ''cancelled'', tw_completed_at := Some (ax_Now c), tw_updated_at := ax_Now c\<rparr>"
  fix s trade s'
  assume "bindT (findTrade (ax_TradeID c)) (\<lambda>trade.
      bindT (ensureT (pt_Status trade = ''open'') (App ErrInvalidTransition)) (\<lambda>_.
      bindT (ensureT (\<not> (pt_SellerUserID trade \<noteq> ax_UserID c \<or> pt_SellerAccountID trade \<noteq> ax_AccountID c)) (App ErrForbidden)) (\<lambda>_.
      bindT (refundEscrow trade ''p2p-cancel:'') (\<lambda>_.
      bindT (update_trade (pt_ID trade) ?f) (\<lambda>_.
      bindT (recordEvent (pt_ID trade) ''cancelled'' (userActor (ax_UserID c)) (ax_UserID c) (ax_IdempotencyKey c)
        (ax_RequestHash c) [(''status'', JString ''cancelled'')]) (\<lambda>_.
      findTrade (pt_ID trade))))))) s = Inr (trade, s')"
  then obtain tr s1 u2 s2 where 1: "findTrade (ax_TradeID c) s = Inr (tr, s1)" and st: "pt_Status tr = ''open''"
    and 2: "refundEscrow tr ''p2p-cancel:'' s1 = Inr (u2, s2)"
    and 3: "bindT (update_trade (pt_ID tr) ?f) (\<lambda>_.
      bindT (recordEvent (pt_ID tr) ''cancelled'' (userActor (ax_UserID c)) (ax_UserID c) (ax_IdempotencyKey c)
        (ax_RequestHash c) [(''status'', JString ''cancelled'')]) (\<lambda>_.
      findTrade (pt_ID tr))) s2 = Inr (trade, s')"
    unfolding bindT_Inr [of "findTrade (ax_TradeID c)"] bindT_Inr [of "ensureT b e" for b e]
      bindT_Inr [of "refundEscrow t p" for t p] ensureT_simps by blast
  note same = findTrade_same [OF 1]
  obtain u3 s3 where up: "update_trade (ax_TradeID c) ?f s2 = Inr (u3, s3)" "quiet_p2p s3 s'"
    using update_then_quiet [OF 3] same by metis
  show "refines s s'"
    by (rule refund_then_close [OF 1 _ up(1), of "''p2p-cancel:''" u2]) (use 2 same st quiet_parts [OF up(2)] in \<open>auto simp: close_columns\<close>)
qed

lemma AddEvidence_run: "tx_respects refines (AddEvidence_tx c)"
  unfolding AddEvidence_tx_def
  by (intro commitDuplicate_run respectsI quiet_run, erule respectsD [rotated]) (intro quiet_intros)

lemma ProposeResolution_run: "tx_respects refines (ProposeResolution_tx c)"
proof (intro respectsI quiet_run, erule respectsD [rotated])
  show "tx_respects quiet_p2p (ProposeResolution_tx c)"
    unfolding ProposeResolution_tx_def by (auto intro!: quiet_intros split: option.splits)
qed

text \<open>Expiry works on the trades that were due when it started; expiring one leaves the others due.\<close>

definition can_expire :: "p2p_db \<Rightarrow> string \<Rightarrow> bool" where
  "can_expire s i \<longleftrightarrow> (\<forall>t \<in> set (p2p_trades s). tw_id t = i \<longrightarrow> tw_status t = ''open'' \<or> tw_status t = ''accepted'')"

lemma expire_one_Inr:
  assumes run: "expire_one env now i s = Inr (trade, s')" and can: "can_expire s i"
  shows "refines s s'"
    "p2p_trades s' = update_where (\<lambda>t. tw_id t = i)
       (\<lambda>t. t\<lparr>tw_status := ''expired'', tw_completed_at := Some now, tw_updated_at := now\<rparr>) (p2p_trades s)"
proof -
  let ?f = "\<lambda>t. t\<lparr>tw_status := ''expired'', tw_completed_at := Some now, tw_updated_at := now\<rparr>"
  from run obtain tr s1 u2 s2 u3 s3 u4 where 1: "findTrade i s = Inr (tr, s1)"
    and 2: "refundEscrow tr ''p2p-expiry:'' s1 = Inr (u2, s2)" and 3: "update_trade i ?f s2 = Inr (u3, s3)"
    and 4: "recordEvent i ''expired'' ''system:expiry'' [] (''expiry:'' @ i)
       (p2p_requestHash env [''expire'', i]) [(''status'', JString ''expired'')] s3 = Inr (u4, s')"
    unfolding expire_one_def bindT_Inr returnT_simps by blast
  have q: "quiet_p2p s3 s'" by (rule respectsD [OF quiet_statements(7) 4])
  note same = findTrade_same [OF 1]
  obtain t where t: "t \<in> set (p2p_trades s)" "tw_id t = i" "pt_Status tr = tw_status t" "pt_AmountAtomic tr = BigString (tw_amount t)"
    using 1 by (rule findTrade_Inr) simp
  have st: "pt_Status tr = ''open'' \<or> pt_Status tr = ''accepted''" using can t by (auto simp: can_expire_def)
  show "refines s s'"
    by (rule refund_then_close [OF 1 _ 3, of "''p2p-expiry:''" u2]) (use 2 same st quiet_parts [OF q] in \<open>auto simp: close_columns\<close>)
  obtain s4 j where "quiet_p2p s1 s4" "post_p2p_journal (''p2p-expiry:'' @ pt_ID tr) ''p2p_refund'' (pt_ID tr)
       (release_legs (pt_SellerAccountID tr) (pt_SellerAccountID tr) (pt_AssetID tr) (tw_amount t)) s4 = Inr (j, s2)"
    using refundEscrow_Inr [OF 2 t(4)] by metis
  then have "p2p_trades s2 = p2p_trades s" using same by (simp add: quiet_p2p_def post_journal_Inr)
  then show "p2p_trades s' = update_where (\<lambda>t. tw_id t = i) ?f (p2p_trades s)"
    using 3 q by (auto simp: quiet_p2p_def tx_simps)
qed

lemma expire_all_run:
  "distinct ids \<Longrightarrow> \<forall>i \<in> set ids. can_expire s i \<Longrightarrow> mapT (expire_one env now) ids s = Inr (ts, s') \<Longrightarrow> refines s s'"
proof (induction ids arbitrary: s ts)
  case Nil
  then show ?case by (simp add: tx_simps run_rel.R_refl)
next
  case (Cons i ids)
  obtain tr s1 trs where 1: "expire_one env now i s = Inr (tr, s1)" and 2: "mapT (expire_one env now) ids s1 = Inr (trs, s')"
    using Cons.prems(3) by (auto simp: tx_simps)
  have can: "can_expire s i" using Cons.prems(2) by simp
  note e = expire_one_Inr [OF 1 can]
  have "can_expire s1 k" if k: "k \<in> set ids" for k
  proof -
    have "can_expire s k" "k \<noteq> i" using k Cons.prems(1,2) by auto
    moreover have "t \<in> set (p2p_trades s)" if "t \<in> set (p2p_trades s1)" "tw_id t = k" for t
      using that \<open>k \<noteq> i\<close> by (auto simp: e(2) update_where_def split: if_splits)
    ultimately show ?thesis by (auto simp: can_expire_def)
  qed
  with Cons.IH [OF _ _ 2] Cons.prems(1) have "refines s1 s'" by simp
  with e(1) show ?case by (rule run_rel.R_trans)
qed

lemma Expire_run: "tx_respects refines (Expire_tx env now limit)"
proof (rule respectsI)
  fix s ts s'
  assume "Expire_tx env now limit s = Inr (ts, s')"
  then obtain rows where run: "mapT (expire_one env now) (map tw_id rows) s = Inr (ts, s')"
    and rows: "rows = take (nat limit) (sort_key (\<lambda>t. (due_at t, tw_id t)) (filter (due now) (p2p_trades s)))"
    by (auto simp: Expire_tx_def tx_simps)
  show "refines s s'"
  proof (cases "ids_ok s")
    case ids: True
    then have True: "distinct (map tw_id (p2p_trades s))" by (simp add: ids_ok_def)
    let ?sorted = "sort_key (\<lambda>t. (due_at t, tw_id t)) (filter (due now) (p2p_trades s))"
    have inj: "inj_on tw_id (set (p2p_trades s))" "distinct (p2p_trades s)" using True by (simp_all add: distinct_map)
    have sub: "set rows \<subseteq> {t \<in> set (p2p_trades s). due now t}" using set_take_subset [of "nat limit" ?sorted] by (auto simp: rows)
    have "distinct rows" using inj(2) by (simp add: rows)
    then have "distinct (map tw_id rows)"
      using inj(1) sub by (auto simp: distinct_map intro: inj_on_subset)
    moreover have "can_expire s (tw_id t)" if "t \<in> set rows" for t
      using that sub inj(1) by (auto simp: can_expire_def inj_on_def due_def split: option.splits)
    ultimately show ?thesis using expire_all_run [OF _ _ run] by simp
  next
    case False
    then show ?thesis by (simp add: refines_def)
  qed
qed

lemma approve_row_Inr:
  assumes "approve_resolution_row i actor now s = Inr (u, s')"
  shows "s' = s\<lparr>p2p_resolution_requests := update_where (\<lambda>r. pq_id r = i)
       (\<lambda>r. r\<lparr>pq_status := ''approved'', pq_approved_by := Some actor, pq_decided_at := Some now\<rparr>) (p2p_resolution_requests s)\<rparr>"
  using assms by (simp add: approve_resolution_row_def tx_simps)

lemma approve_row_decisions:
  assumes "approve_resolution_row (pq_id q) actor now s = Inr (u, s')" "q \<in> set (p2p_resolution_requests s)" "pq_status q \<noteq> ''approved''"
    and "distinct (map pq_id (p2p_resolution_requests s))"
  shows "decisions_kept s s'"
proof -
  have "r \<in> set (p2p_resolution_requests s')" if "r \<in> set (p2p_resolution_requests s)" "pq_status r = ''approved''" for r
  proof -
    have "pq_id r \<noteq> pq_id q" using that assms(2-4) by (auto simp: distinct_map inj_on_def)
    then show ?thesis using that(1) by (auto simp: approve_row_Inr [OF assms(1)] set_update_where)
  qed
  then show ?thesis using assms(4) by (simp add: decisions_kept_def approve_row_Inr [OF assms(1)] map_update_where)
qed

lemma approve_row_decides:
  assumes "approve_resolution_row (pq_id q) actor now s = Inr (u, s')" "q \<in> set (p2p_resolution_requests s)"
    and "pq_proposed_by q \<noteq> actor" "(actor, ''treasury_approver'') \<in> set (user_roles s)"
  shows "decided_by_two s' (pq_trade q)"
  unfolding decided_by_two_def
  by (rule bexI [of _ "q\<lparr>pq_status := ''approved'', pq_approved_by := Some actor, pq_decided_at := Some now\<rparr>"])
    (use assms(2-4) in \<open>auto simp: approve_row_Inr [OF assms(1)] set_update_where\<close>)

text \<open>The statements after the escrow has been paid out.\<close>

lemma approve_tail:
  assumes run: "bindT (update_trade i f) (\<lambda>_. bindT (approve_resolution_row (pq_id q) actor now) (\<lambda>_.
      bindT (recordEvent i ev ak u key h pl) (\<lambda>_. bindT (auditResolution a1 a2 a3 a4 a5) (\<lambda>_. findTrade i')))) s = Inr (trade, s')"
    and q: "q \<in> set (p2p_resolution_requests s)" "pq_status q \<noteq> ''approved''" "pq_proposed_by q \<noteq> actor"
      "(actor, ''treasury_approver'') \<in> set (user_roles s)"
  obtains u1 s1 where "update_trade i f s = Inr (u1, s1)" "p2p_trades s' = p2p_trades s1" "same_ledger s1 s'"
    "ids_ok s1 \<Longrightarrow> decisions_kept s1 s'" "decided_by_two s' (pq_trade q)"
proof -
  obtain u1 s1 u2 s2 where 1: "update_trade i f s = Inr (u1, s1)" and 2: "approve_resolution_row (pq_id q) actor now s1 = Inr (u2, s2)"
    and 3: "bindT (recordEvent i ev ak u key h pl) (\<lambda>_. bindT (auditResolution a1 a2 a3 a4 a5) (\<lambda>_. findTrade i')) s2 = Inr (trade, s')"
    using run unfolding bindT_Inr [of "update_trade i f"] bindT_Inr [of "approve_resolution_row (pq_id q) actor now"] by blast
  have "tx_respects quiet_p2p (bindT (recordEvent i ev ak u key h pl) (\<lambda>_. bindT (auditResolution a1 a2 a3 a4 a5) (\<lambda>_. findTrade i')))"
    by (intro quiet_intros)
  note quiet = quiet_parts [OF respectsD [OF this 3]]
  have s1: "p2p_resolution_requests s1 = p2p_resolution_requests s" "user_roles s1 = user_roles s" using 1 by (auto simp: tx_simps)
  note row = approve_row_Inr [OF 2]
  have "decided_by_two s2 (pq_trade q)" using approve_row_decides [OF 2] q s1 by simp
  with quiet have "decided_by_two s' (pq_trade q)" using decided_kept by blast
  moreover have "decisions_kept s1 s'" if "ids_ok s1"
    using approve_row_decisions [OF 2] q s1 that quiet by (auto simp: ids_ok_def intro: decisions_kept_trans)
  ultimately show ?thesis using 1 quiet row by (intro that [of u1 s1]) (auto simp: same_ledger_def)
qed

text \<open>Paying out does not touch the resolutions.\<close>

definition same_requests :: "p2p_db \<Rightarrow> p2p_db \<Rightarrow> bool" where
  "same_requests s s' \<longleftrightarrow> p2p_resolution_requests s' = p2p_resolution_requests s \<and> user_roles s' = user_roles s"

interpretation requests_rel: tx_relation same_requests
  by unfold_locales (auto simp: same_requests_def)

lemma payout_requests:
  "tx_respects same_requests (releaseEscrow trade prefix)" "tx_respects same_requests (refundEscrow trade prefix)"
proof -
  have "tx_respects same_requests (LockAccountAsset err acc x)" "tx_respects same_requests (lockBalances x accs)"
    "tx_respects same_requests (escrow_amount trade)" "tx_respects same_requests (post_p2p_journal k t r legs)"
    for err acc x accs k t r legs
    by (auto intro!: respectsI simp: same_requests_def tx_simps lockBalances_def escrow_amount_def p2p_bucketBalance_def post_journal_Inr)
  then show "tx_respects same_requests (releaseEscrow trade prefix)" "tx_respects same_requests (refundEscrow trade prefix)"
    by (auto intro!: requests_rel.bind requests_rel.pure simp: releaseEscrow_def refundEscrow_def)
qed

lemma approve_body_run:
  assumes role: "(vc_ActorID c, ''treasury_approver'') \<in> set (user_roles s)"
    and run: "(bindT (findResolution (vc_ResolutionID c)) (\<lambda>resolution.
      bindT (ensureT (rs_Status resolution = ''pending'') (App ErrInvalidTransition)) (\<lambda>_.
      bindT (ensureT (rs_ProposedBy resolution \<noteq> vc_ActorID c) (App ErrSameApprover)) (\<lambda>_.
      bindT (findTrade (rs_TradeID resolution)) (\<lambda>trade.
      bindT (ensureT (pt_Status trade = ''disputed'') (App ErrInvalidTransition)) (\<lambda>_.
      bindT (if rs_Action resolution = ''force_release'' then releaseEscrow trade ''p2p-resolution-release:''
             else refundEscrow trade ''p2p-resolution-refund:'') (\<lambda>_.
      bindT (returnT (if rs_Action resolution = ''force_release'' then ''released'' else ''refunded'')) (\<lambda>status.
      bindT (update_trade (pt_ID trade) (\<lambda>t. t\<lparr>tw_status := status, tw_completed_at := Some (vc_Now c), tw_updated_at := vc_Now c\<rparr>)) (\<lambda>_.
      bindT (approve_resolution_row (rs_ID resolution) (vc_ActorID c) (vc_Now c)) (\<lambda>_.
      bindT (recordEvent (pt_ID trade) ''resolution_approved'' (userActor (vc_ActorID c)) (vc_ActorID c) (vc_IdempotencyKey c)
        (vc_RequestHash c) [(''resolution_id'', JString (rs_ID resolution)), (''status'', JString status)]) (\<lambda>_.
      bindT (auditResolution (vc_ActorID c) ''p2p.resolution_approved'' (rs_ID resolution) (rs_Reason resolution)
        [(''trade_id'', JString (pt_ID trade)), (''maker'', JString (rs_ProposedBy resolution)),
         (''checker'', JString (vc_ActorID c)), (''outcome'', JString status)]) (\<lambda>_.
      findTrade (pt_ID trade))))))))))))) s = Inr (trade, s')"
  shows "refines s s'"
proof -
  obtain res s0 tr s1 u2 s2 where 0: "findResolution (vc_ResolutionID c) s = Inr (res, s0)"
    and pend: "rs_Status res = ''pending''" "rs_ProposedBy res \<noteq> vc_ActorID c"
    and 1: "findTrade (rs_TradeID res) s0 = Inr (tr, s1)" and st: "pt_Status tr = ''disputed''"
    and 2: "(if rs_Action res = ''force_release'' then releaseEscrow tr ''p2p-resolution-release:''
           else refundEscrow tr ''p2p-resolution-refund:'') s1 = Inr (u2, s2)"
    and 3: "bindT (returnT (if rs_Action res = ''force_release'' then ''released'' else ''refunded'')) (\<lambda>status.
    bindT (update_trade (pt_ID tr) (\<lambda>t. t\<lparr>tw_status := status, tw_completed_at := Some (vc_Now c), tw_updated_at := vc_Now c\<rparr>)) (\<lambda>_.
    bindT (approve_resolution_row (rs_ID res) (vc_ActorID c) (vc_Now c)) (\<lambda>_.
    bindT (recordEvent (pt_ID tr) ''resolution_approved'' (userActor (vc_ActorID c)) (vc_ActorID c) (vc_IdempotencyKey c)
      (vc_RequestHash c) [(''resolution_id'', JString (rs_ID res)), (''status'', JString status)]) (\<lambda>_.
    bindT (auditResolution (vc_ActorID c) ''p2p.resolution_approved'' (rs_ID res) (rs_Reason res)
      [(''trade_id'', JString (pt_ID tr)), (''maker'', JString (rs_ProposedBy res)),
       (''checker'', JString (vc_ActorID c)), (''outcome'', JString status)]) (\<lambda>_.
    findTrade (pt_ID tr)))))) s2 = Inr (trade, s')"
    using run unfolding bindT_Inr [of "findResolution (vc_ResolutionID c)"] bindT_Inr [of "ensureT b e" for b e]
      bindT_Inr [of "findTrade i" for i]
      bindT_Inr [of "If b (releaseEscrow t p) (refundEscrow t r)" for b t p r] ensureT_simps by blast
  obtain q where q0: "find (\<lambda>r. pq_id r = vc_ResolutionID c) (p2p_resolution_requests s) = Some q" "res = resolution_of q" "s0 = s"
    using 0 by (auto simp: findResolution_def tx_simps)
  have q: "q \<in> set (p2p_resolution_requests s)" "rs_ID res = pq_id q" "rs_TradeID res = pq_trade q"
    "pq_status q \<noteq> ''approved''" "pq_proposed_by q \<noteq> vc_ActorID c"
    using find_SomeD [OF q0(1)] pend by (simp_all add: q0(2) resolution_of_def)
  note 1 = 1 [unfolded q0(3) q(3)] and 3 = 3 [unfolded bindT_returnT q(2)]
  note same = findTrade_same [OF 1]
  have "same_requests s s2"
    using 2 same respectsD [OF payout_requests(1)] respectsD [OF payout_requests(2)] by (auto split: if_splits)
  then have q2: "q \<in> set (p2p_resolution_requests s2)" "(vc_ActorID c, ''treasury_approver'') \<in> set (user_roles s2)"
    using q(1) role by (simp_all add: same_requests_def)
  let ?st = "if rs_Action res = ''force_release'' then ''released'' else ''refunded''"
  let ?f = "\<lambda>t. t\<lparr>tw_status := ?st, tw_completed_at := Some (vc_Now c), tw_updated_at := vc_Now c\<rparr>"
  obtain u3 s3 where up: "update_trade (pq_trade q) ?f s2 = Inr (u3, s3)" "p2p_trades s' = p2p_trades s3" "same_ledger s3 s'"
    "ids_ok s3 \<Longrightarrow> decisions_kept s3 s'" "decided_by_two s' (pq_trade q)"
    using approve_tail [OF 3 q2(1) q(4,5) q2(2)] same by metis
  show "refines s s'"
  proof (cases "rs_Action res = ''force_release''")
    case True
    then show ?thesis using 2 same st up(5)
      by (intro release_then_close [OF 1 _ up(1-4), of "''p2p-resolution-release:''" u2]) (auto simp: close_columns)
  next
    case False
    then show ?thesis using 2 same st up(5)
      by (intro refund_then_close [OF 1 _ up(1-4), of "''p2p-resolution-refund:''" u2]) (auto simp: close_columns)
  qed
qed

lemma ApproveResolution_run: "tx_respects refines (ApproveResolution_tx c)"
proof (rule respectsI)
  fix s trade s'
  assume run: "ApproveResolution_tx c s = Inr (trade, s')"
  then have role: "(vc_ActorID c, ''treasury_approver'') \<in> set (user_roles s)"
    by (auto simp: ApproveResolution_tx_def hasRole_def tx_simps)
  from run have "\<exists>body. commitDuplicate (userActor (vc_ActorID c)) (vc_IdempotencyKey c) (vc_RequestHash c) body s = Inr (trade, s') \<and>
      (\<forall>s0. (vc_ActorID c, ''treasury_approver'') \<in> set (user_roles s0) \<longrightarrow> (\<forall>x s1. body s0 = Inr (x, s1) \<longrightarrow> refines s0 s1))"
    unfolding ApproveResolution_tx_def hasRole_def bindT_Inr [of "queryT f" for f] bindT_Inr [of "ensureT b e" for b e]
      queryT_simps ensureT_simps by (blast intro: approve_body_run)
  then obtain body where b: "commitDuplicate (userActor (vc_ActorID c)) (vc_IdempotencyKey c) (vc_RequestHash c) body s = Inr (trade, s')"
    "\<And>s0 x s1. (vc_ActorID c, ''treasury_approver'') \<in> set (user_roles s0) \<Longrightarrow> body s0 = Inr (x, s1) \<Longrightarrow> refines s0 s1" by blast
  from b(1) show "refines s s'"
  proof (cases rule: commitDuplicate_Inr)
    case (fresh s1)
    then have "refines s1 s'" using b(2) role by (auto simp: quiet_p2p_def decisions_kept_def)
    with quiet_run [OF fresh(1)] show ?thesis by (rule run_rel.R_trans)
  qed (rule quiet_run)
qed

end
