(* ===== verification/P2P_System.thy ===== *)
theory P2P_System
  imports P2P_Escrow
begin

text \<open>
  The P2P service as a transition system: every call of a service method that can change the
  database is a step, with any arguments, clock and random ids (the four read methods run no
  update). The properties of the escrow hold for every sequence of calls.
\<close>

section \<open>Steps\<close>

inductive p2p_step :: "p2p_db \<Rightarrow> p2p_db \<Rightarrow> bool" where
  create: "p2p_step s (snd (P2P_Create env newID now input s))"
| accept: "p2p_step s (snd (P2P_Accept env now ai s))"
| mark_paid: "p2p_step s (snd (P2P_MarkPaid env now ai s))"
| release: "p2p_step s (snd (P2P_Release env now ai s))"
| cancel: "p2p_step s (snd (P2P_Cancel env now ai s))"
| dispute: "p2p_step s (snd (P2P_Dispute env now ai reason s))"
| add_evidence: "p2p_step s (snd (P2P_AddEvidence env newID now ai etype okey sha s))"
| expire: "p2p_step s (snd (P2P_Expire env now limit s))"
| propose: "p2p_step s (snd (P2P_ProposeResolution env newID now ri s))"
| approve: "p2p_step s (snd (P2P_ApproveResolution env now vi s))"

inductive_cases p2p_stepE: "p2p_step s t"

locale p2p_relation = tx_relation R for R :: "p2p_db \<Rightarrow> p2p_db \<Rightarrow> bool" +
  assumes create_R: "tx_respects R (Create_tx cc)"
    and accept_R: "tx_respects R (Accept_tx ac)"
    and paid_R: "tx_respects R (MarkPaid_tx ac)"
    and release_R: "tx_respects R (Release_tx ac)"
    and cancel_R: "tx_respects R (Cancel_tx ac)"
    and dispute_R: "tx_respects R (Dispute_tx dc)"
    and evidence_R: "tx_respects R (AddEvidence_tx ec)"
    and expire_R: "tx_respects R (Expire_tx env now limit)"
    and propose_R: "tx_respects R (ProposeResolution_tx rc)"
    and approve_R: "tx_respects R (ApproveResolution_tx vc)"
begin

lemma serve_R: "(\<And>c. tx_respects R (method c)) \<Longrightarrow> R s (snd (serve cmd method s))"
  by (cases cmd) (auto simp: serve_def R_refl intro: committed)

lemma step_R: "p2p_step s t \<Longrightarrow> R s t"
  by (induction rule: p2p_step.induct)
    (auto simp: P2P_Create_def P2P_Accept_def P2P_MarkPaid_def P2P_Release_def P2P_Cancel_def P2P_Dispute_def P2P_AddEvidence_def
      P2P_Expire_def P2P_ProposeResolution_def P2P_ApproveResolution_def
      intro!: serve_R committed create_R accept_R paid_R release_R cancel_R dispute_R evidence_R expire_R propose_R approve_R)

lemma run_R: "p2p_step\<^sup>*\<^sup>* s t \<Longrightarrow> R s t"
  by (induction rule: rtranclp_induct) (auto intro: R_refl R_trans step_R)

end

interpretation escrow_store: p2p_relation refines
  by unfold_locales (rule Create_run Accept_run MarkPaid_run Release_run Cancel_run Dispute_run AddEvidence_run
      Expire_run ProposeResolution_run ApproveResolution_run)+

lemma p2p_run_escrow: "p2p_step\<^sup>*\<^sup>* s t \<Longrightarrow> ids_ok s \<Longrightarrow> escrow_run s t"
  using escrow_store.run_R by (auto simp: refines_def)

section \<open>An example trade\<close>

definition demo_p2p :: p2p_db where
  "demo_p2p = \<lparr>
     users = [\<lparr>u_id = ''u1'', u_status = ''active''\<rparr>, \<lparr>u_id = ''u2'', u_status = ''active''\<rparr>],
     accounts = [\<lparr>ac_id = ''a1'', ac_user_id = Some ''u1'', ac_kind = ''funding'', ac_name = ''main'', ac_status = ''active''\<rparr>,
                 \<lparr>ac_id = ''a2'', ac_user_id = Some ''u2'', ac_kind = ''funding'', ac_name = ''main'', ac_status = ''active''\<rparr>],
     assets = [\<lparr>as_id = ''usdt'', as_symbol = ''USDT'', as_network = ''n'', as_decimals = 6, as_status = ''enabled''\<rparr>],
     user_roles = [(''op1'', ''treasury_operator''), (''op2'', ''treasury_approver'')],
     journals = [\<lparr>j_id = ''j0'', j_idempotency_key = ''deposit'', j_reference_type = ''deposit'', j_reference_id = ''d'',
                  j_status = Posted\<rparr>],
     postings = map (posting_of ''j0'')
       [\<lparr>l_account = ''vault'', l_asset = ''usdt'', l_bucket = Available, l_direction = DebitSide, l_amount = 1000\<rparr>,
        \<lparr>l_account = ''a1'', l_asset = ''usdt'', l_bucket = Available, l_direction = CreditSide, l_amount = 700\<rparr>,
        \<lparr>l_account = ''a1'', l_asset = ''usdt'', l_bucket = Held, l_direction = CreditSide, l_amount = 300\<rparr>],
     outbox_events = [], audit_events = [],
     uuid_source = (\<lambda>n. CHR ''g'' # replicate n CHR ''0''), uuid_next = 0, pg_now = 100, locks_taken = [],
     p2p_trades = [\<lparr>tw_id = ''t1'', tw_seller_user = ''u1'', tw_seller_account = ''a1'', tw_buyer_user = Some ''u2'',
       tw_buyer_account = Some ''a2'', tw_asset = ''usdt'', tw_amount = 300, tw_fiat_currency = ''EUR'', tw_fiat = 28000000000,
       tw_payment_method = ''SEPA'', tw_status = ''disputed'', tw_offer_expires = 50, tw_payment_deadline = Some 60,
       tw_accepted_at = Some 20, tw_paid_at = Some 30, tw_completed_at = None, tw_created_at = 10, tw_updated_at = 40\<rparr>],
     p2p_events = [], p2p_evidence = [],
     p2p_resolution_requests = [\<lparr>pq_id = ''q1'', pq_trade = ''t1'', pq_action = ''refund'', pq_reason = ''no payment'',
       pq_proposed_by = ''op1'', pq_approved_by = None, pq_status = ''pending'', pq_created_at = 45, pq_decided_at = None\<rparr>]\<rparr>"

definition demo_approval :: ApprovalInput where
  "demo_approval = \<lparr>vi_ActorID = ''op2'', vi_ResolutionID = ''q1'', vi_IdempotencyKey = ''k1''\<rparr>"

definition demo_resolved :: p2p_db where
  "demo_resolved = snd (P2P_ApproveResolution plain_env 100 demo_approval demo_p2p)"

lemma demo_escrow_ok: "escrow_ok demo_p2p" "ids_ok demo_p2p"
  by (auto simp: escrow_ok_def ledger_wf_def ledger_balanced_def journal_net_def demo_p2p_def signed_amount_def ids_ok_def)

lemmas demo_approval_run = P2P_ApproveResolution_def serve_def approval_command_def demo_approval_def TrimSpace_graphic graphic_def
  validateIdempotency_def transaction_def ApproveResolution_tx_def hasRole_def tx_defs demo_p2p_def commitDuplicate_def
  existingAction_def advisory_lock_def findResolution_def resolution_of_def findTrade_def trades_with_assets_def scanTrade_def
  text_of_def refundEscrow_def LockAccountAsset_def escrow_amount_def p2p_bucketBalance_def posted_bucket_sum_def
  posted_journal_def leg_at_def signed_amount_def post_journal_def insert_journal_def gen_random_uuid_def insert_posting_def
  release_legs_def update_trade_def p2p_checks_def approve_resolution_row_def recordEvent_def append_outbox_def auditResolution_def Let_def

lemma demo_approval_accepted:
  "\<exists>trade. fst (P2P_ApproveResolution plain_env 100 demo_approval demo_p2p) = Inr trade \<and> pt_Status trade = ''refunded''"
  by (simp add: demo_approval_run)

lemma demo_resolved_trades: "map (\<lambda>t. (tw_id t, tw_status t)) (p2p_trades demo_resolved) = [(''t1'', ''refunded'')]"
  unfolding demo_resolved_def by (simp add: demo_approval_run)

lemma demo_resolved_step: "p2p_step demo_p2p demo_resolved"
  unfolding demo_resolved_def by (rule p2p_step.approve)

section \<open>Properties\<close>

text \<open>
  C14: the P2P service refines the escrow machine. Any sequence of service calls, accepted or
  refused, is a run of the machine: a trade is opened against a hold of exactly its amount on the
  seller's account, moves only along open, accepted, paid, disputed, and is closed by paying
  exactly that amount to the buyer (release) or back to the seller (cancellation, expiry, refund).
\<close>

theorem p2p_refines_escrow:
  assumes "ids_ok s" "p2p_step\<^sup>*\<^sup>* s t"
  shows "escrow_step\<^sup>*\<^sup>* s t"
  using p2p_run_escrow assms by blast

theorem p2p_refines_escrow_witness:
  "(\<exists>trade. fst (P2P_ApproveResolution plain_env 100 demo_approval demo_p2p) = Inr trade) \<and> escrow_step\<^sup>*\<^sup>* demo_p2p demo_resolved"
  using p2p_refines_escrow [OF demo_escrow_ok(2)] demo_resolved_step demo_approval_accepted by blast

text \<open>
  C15: escrowed money is exactly accounted for. Under any sequence of P2P calls every journal
  balances, the total of every asset is unchanged, no balance that was not negative becomes
  negative, and on every account and asset the held balance differs from the amounts of the
  account's active trades by the same constant as at the start: no escrow is paid out twice, to a
  third party, or left behind.
\<close>

theorem escrow_is_accounted:
  assumes "escrow_ok s" "ids_ok s" "p2p_step\<^sup>*\<^sup>* s t"
  shows "(\<forall>jid x. journal_net t jid x = 0) \<and> (\<forall>x. asset_total t x = asset_total s x) \<and>
    (\<forall>a x b. 0 \<le> bucket_sum s a x b \<longrightarrow> 0 \<le> bucket_sum t a x b) \<and>
    (\<forall>a x. bucket_sum t a x Held - escrowed t a x = bucket_sum s a x Held - escrowed s a x)"
proof -
  have "escrow_kept s t" using escrow_run_kept [OF p2p_run_escrow [OF assms(3,2)]] ..
  with assms(1) show ?thesis by (simp add: escrow_kept_def escrow_ok_def ledger_balanced_def)
qed

theorem escrow_is_accounted_witness:
  "bucket_sum demo_resolved ''a1'' ''usdt'' Held = escrowed demo_resolved ''a1'' ''usdt'' \<and>
   asset_total demo_resolved ''usdt'' = 0"
proof -
  have "p2p_step\<^sup>*\<^sup>* demo_p2p demo_resolved" using demo_resolved_step by blast
  note acc = escrow_is_accounted [OF demo_escrow_ok this]
  have "bucket_sum demo_p2p ''a1'' ''usdt'' Held = escrowed demo_p2p ''a1'' ''usdt''" "asset_total demo_p2p ''usdt'' = 0"
    by (simp_all add: bucket_sum_def escrowed_def asset_total_def leg_at_def demo_p2p_def signed_amount_def active_status_def)
  with acc show ?thesis by (metis (no_types) diff_add_cancel add_0 diff_self)
qed

text \<open>
  C16: a trade keeps its terms and follows its life. Under any sequence of P2P calls no trade
  disappears; seller, asset, amount, fiat price and expiry never change; the buyer, once set by the
  acceptance, never changes; and a trade that has been released, refunded, cancelled or expired
  stays so.
\<close>

theorem p2p_trades_follow_lifecycle:
  assumes "ids_ok s" "p2p_step\<^sup>*\<^sup>* s t" "r \<in> set (p2p_trades s)"
  shows "\<exists>r' \<in> set (p2p_trades t). trade_terms r' = trade_terms r \<and> status_path (tw_status r) (tw_status r') \<and>
    (tw_status r \<noteq> ''open'' \<longrightarrow> tw_buyer_user r' = tw_buyer_user r \<and> tw_buyer_account r' = tw_buyer_account r) \<and>
    (\<not> active_status (tw_status r) \<longrightarrow> tw_status r' = tw_status r)"
proof -
  have "follows s t" using escrow_run_kept [OF p2p_run_escrow [OF assms(2,1)]] by blast
  then obtain r' where "r' \<in> set (p2p_trades t)" "trade_path r r'"
    using assms(1,3) by (auto simp: follows_def ids_ok_def)
  then show ?thesis using final_status_path by (auto simp: trade_path_def trade_buyer_def)
qed

theorem p2p_trades_follow_lifecycle_witness:
  "\<exists>r' \<in> set (p2p_trades demo_resolved). tw_id r' = ''t1'' \<and> tw_amount r' = 300 \<and> tw_buyer_user r' = Some ''u2'' \<and>
     status_path ''disputed'' (tw_status r')"
proof -
  have "p2p_step\<^sup>*\<^sup>* demo_p2p demo_resolved" using demo_resolved_step by blast
  from p2p_trades_follow_lifecycle [OF demo_escrow_ok(2) this, of "hd (p2p_trades demo_p2p)"]
  show ?thesis by (auto simp: demo_p2p_def trade_terms_def)
qed



end
