(* ===== verification/P2P_Retry.thy ===== *)
theory P2P_Retry
  imports P2P_System
begin

text \<open>
  Retried P2P requests. The actions that answer with a trade share one idempotency protocol: the
  event table holds the fingerprint of every accepted request under the actor and the key.
\<close>

section \<open>The requests\<close>

datatype p2p_call =
    CallCreate P2P.CreateCommand | CallAccept ActionCommand | CallMarkPaid ActionCommand | CallRelease ActionCommand
  | CallCancel ActionCommand | CallDispute DisputeCommand | CallEvidence EvidenceCommand | CallApprove ApprovalCommand

fun call_tx :: "p2p_call \<Rightarrow> P2PTrade p2p_tx" where
  "call_tx (CallCreate c) = Create_tx c"
| "call_tx (CallAccept c) = Accept_tx c"
| "call_tx (CallMarkPaid c) = MarkPaid_tx c"
| "call_tx (CallRelease c) = Release_tx c"
| "call_tx (CallCancel c) = Cancel_tx c"
| "call_tx (CallDispute c) = Dispute_tx c"
| "call_tx (CallEvidence c) = AddEvidence_tx c"
| "call_tx (CallApprove c) = ApproveResolution_tx c"

text \<open>The actor, the idempotency key and the fingerprint of a request.\<close>

definition action_stamp :: "'c ActionCommand_scheme \<Rightarrow> string \<times> string \<times> string" where
  "action_stamp c = (userActor (ax_UserID c), ax_IdempotencyKey c, ax_RequestHash c)"

fun call_stamp :: "p2p_call \<Rightarrow> string \<times> string \<times> string" where
  "call_stamp (CallCreate c) = (userActor (cm_UserID c), cm_IdempotencyKey c, cm_RequestHash c)"
| "call_stamp (CallAccept c) = action_stamp c"
| "call_stamp (CallMarkPaid c) = action_stamp c"
| "call_stamp (CallRelease c) = action_stamp c"
| "call_stamp (CallCancel c) = action_stamp c"
| "call_stamp (CallDispute c) = action_stamp c"
| "call_stamp (CallEvidence c) = action_stamp c"
| "call_stamp (CallApprove c) = (userActor (vc_ActorID c), vc_IdempotencyKey c, vc_RequestHash c)"

section \<open>The event table\<close>

definition event_key where "event_key e = (pe_actor_key e, pe_key e)"

definition events_grow :: "p2p_db \<Rightarrow> p2p_db \<Rightarrow> bool" where
  "events_grow s s' \<longleftrightarrow> (\<exists>new. p2p_events s' = p2p_events s @ new) \<and>
     (distinct (map event_key (p2p_events s)) \<longrightarrow> distinct (map event_key (p2p_events s')))"

interpretation events_rel: tx_relation events_grow
  by unfold_locales (auto simp: events_grow_def)

lemma recordEvent_Inr:
  assumes "recordEvent i ev actor u key h pl s = Inr (r, s')"
  shows "events_grow s s'" "\<exists>e \<in> set (p2p_events s'). event_key e = (actor, key) \<and> pe_hash e = h \<and> pe_trade e = i"
  using assms by (auto simp: recordEvent_def append_outbox_def tx_simps events_grow_def event_key_def)

lemma event_statements:
  "tx_respects events_grow (advisory_lock k)" "tx_respects events_grow (findTrade i)"
  "tx_respects events_grow (existingAction actor key h)" "tx_respects events_grow (requireFundingAccount u acc)"
  "tx_respects events_grow (LockAccountAsset err acc x)" "tx_respects events_grow (p2p_bucketBalance acc x b)"
  "tx_respects events_grow (hasRole u r)" "tx_respects events_grow (findResolution i)" "tx_respects events_grow (findResolutionByTrade i)"
  "tx_respects events_grow (auditResolution r1 r2 r3 r4 r5)" "tx_respects events_grow (insert_evidence v)"
  "tx_respects events_grow (lockBalances x accs)" "tx_respects events_grow (escrow_amount trade)"
  "tx_respects events_grow (insert_resolution q)" "tx_respects events_grow (approve_resolution_row i actor n)"
  "tx_respects events_grow (update_trade i f)" "tx_respects events_grow (insert_p2p_trade row)"
  "tx_respects events_grow (post_p2p_journal k t rr legs)"
  by (auto intro!: respectsI split: option.splits
      simp: events_grow_def tx_simps advisory_lock_def findTrade_def existingAction_def requireFundingAccount_def
        p2p_bucketBalance_def hasRole_def findResolution_def findResolutionByTrade_def post_journal_Inr
        auditResolution_def insert_evidence_def insert_resolution_def lockBalances_def escrow_amount_def
        approve_resolution_row_def insert_p2p_trade_def)

lemma recordEvent_grow: "tx_respects events_grow (recordEvent i ev actor u key h pl)"
  by (rule respectsI) (rule recordEvent_Inr)

lemmas event_intros = events_rel.bind events_rel.pure event_statements recordEvent_grow events_rel.map_each

lemma payout_grow: "tx_respects events_grow (releaseEscrow trade prefix)" "tx_respects events_grow (refundEscrow trade prefix)"
  unfolding releaseEscrow_def refundEscrow_def by (auto intro!: event_intros)

lemma commitDuplicate_grow: "tx_respects events_grow body \<Longrightarrow> tx_respects events_grow (commitDuplicate a key h body)"
  unfolding commitDuplicate_def by (auto intro!: event_intros split: option.splits)

lemma methods_grow:
  "tx_respects events_grow (Create_tx cc)" "tx_respects events_grow (Accept_tx ac)" "tx_respects events_grow (MarkPaid_tx ac)"
  "tx_respects events_grow (Release_tx ac)" "tx_respects events_grow (Cancel_tx ac)" "tx_respects events_grow (Dispute_tx dc)"
  "tx_respects events_grow (AddEvidence_tx ec)" "tx_respects events_grow (Expire_tx env now limit)"
  "tx_respects events_grow (ProposeResolution_tx rc)" "tx_respects events_grow (ApproveResolution_tx vc)"
  by (auto intro!: event_intros payout_grow commitDuplicate_grow split: option.splits
      simp: Create_tx_def Accept_tx_def MarkPaid_tx_def Dispute_tx_def transition_def Release_tx_def Cancel_tx_def
        AddEvidence_tx_def Expire_tx_def expire_one_def ProposeResolution_tx_def ApproveResolution_tx_def postEscrow_def)

lemma call_grow: "tx_respects events_grow (call_tx call)"
  by (cases call) (simp_all add: methods_grow)

interpretation events_store: p2p_relation events_grow
  by unfold_locales (rule methods_grow)+

section \<open>What an accepted request leaves behind\<close>

definition stamped :: "string \<times> string \<times> string \<Rightarrow> string \<Rightarrow> p2p_db \<Rightarrow> bool" where
  "stamped stamp i s \<longleftrightarrow> (case stamp of (actor, key, h) \<Rightarrow>
     \<exists>e \<in> set (p2p_events s). event_key e = (actor, key) \<and> pe_hash e = h \<and> pe_trade e = i)"

lemma stamped_grow: "events_grow s t \<Longrightarrow> stamped stamp i s \<Longrightarrow> stamped stamp i t"
  by (auto simp: stamped_def events_grow_def)

text \<open>\<open>records m stamp\<close>: when \<open>m\<close> succeeds, its trade is recorded under the stamp.\<close>

definition records :: "P2PTrade p2p_tx \<Rightarrow> string \<times> string \<times> string \<Rightarrow> bool" where
  "records m stamp \<longleftrightarrow> (\<forall>s trade s'. m s = Inr (trade, s') \<longrightarrow> stamped stamp (pt_ID trade) s')"

lemma records_bind: "(\<And>x. records (f x) stamp) \<Longrightarrow> records (bindT m f) stamp"
  unfolding records_def bindT_Inr by blast

lemma records_event:
  assumes "\<And>x s trade s'. f x s = Inr (trade, s') \<Longrightarrow> pt_ID trade = i" "\<And>x. tx_respects events_grow (f x)"
  shows "records (bindT (recordEvent i ev actor u key h pl) f) (actor, key, h)"
  unfolding records_def bindT_Inr
proof (intro allI impI, elim exE conjE)
  fix s trade s' x s1
  assume 1: "recordEvent i ev actor u key h pl s = Inr (x, s1)" and 2: "f x s1 = Inr (trade, s')"
  have "stamped (actor, key, h) i s1" using recordEvent_Inr(2) [OF 1] by (auto simp: stamped_def)
  then show "stamped (actor, key, h) (pt_ID trade) s'"
    using stamped_grow [OF respectsD [OF assms(2) 2]] assms(1) [OF 2] by simp
qed

lemma records_commit:
  assumes "records body (a, key, h)"
  shows "records (commitDuplicate a key h body) (a, key, h)"
  unfolding records_def
proof (intro allI impI)
  fix s trade s'
  assume "commitDuplicate a key h body s = Inr (trade, s')"
  then obtain found s1 where e: "existingAction a key h s = Inr (found, s1)"
    and r: "(case found of Some trade \<Rightarrow> returnT (trade\<lparr>pt_Duplicate := True\<rparr>) | None \<Rightarrow> body) s1 = Inr (trade, s')"
    unfolding commitDuplicate_def bindT_Inr by blast
  show "stamped (a, key, h) (pt_ID trade) s'"
  proof (cases found)
    case None
    then show ?thesis using r assms by (auto simp: records_def)
  next
    case (Some tr)
    let ?s1 = "s\<lparr>locks_taken := locks_taken s @ [''p2p-idempotency:'' @ a @ '':'' @ key]\<rparr>"
    obtain ev where ev: "find (\<lambda>e. pe_actor_key e = a \<and> pe_key e = key) (p2p_events s) = Some ev" "pe_hash ev = h"
      "findTrade (pe_trade ev) ?s1 = Inr (tr, s1)"
      using e Some by (auto simp: existingAction_def advisory_lock_def tx_simps split: option.splits)
    have "s1 = ?s1" "pt_ID tr = pe_trade ev" using findTrade_same [OF ev(3)] by simp_all
    then show ?thesis using r Some ev find_SomeD [OF ev(1)] by (auto simp: tx_simps stamped_def event_key_def)
  qed
qed

lemma find_id: "findTrade i s = Inr (trade, s') \<Longrightarrow> pt_ID trade = i"
  using findTrade_same by blast

lemma then_find_id: "bindT m (\<lambda>_. findTrade i) s = Inr (trade, s') \<Longrightarrow> pt_ID trade = i"
  using find_id by (auto simp: bindT_Inr)

lemma call_records: "records (call_tx call) (call_stamp call)"
proof (cases call)
  case (CallEvidence c)
  have ev: "records (bindT (recordEvent (pt_ID tr) ev (userActor (ax_UserID c)) u (ax_IdempotencyKey c) (ax_RequestHash c) pl) (\<lambda>_. returnT tr))
      (userActor (ax_UserID c), ax_IdempotencyKey c, ax_RequestHash c)"
    for tr ev u pl by (rule records_event) (auto simp: tx_simps intro: events_rel.pure)
  show ?thesis unfolding CallEvidence call_tx.simps call_stamp.simps action_stamp_def AddEvidence_tx_def
    by (rule records_commit, rule records_bind, rule records_bind, rule records_bind, rule records_bind, rule ev)
qed ((simp only: call_tx.simps call_stamp.simps action_stamp_def Create_tx_def Accept_tx_def MarkPaid_tx_def Dispute_tx_def
      transition_def Release_tx_def Cancel_tx_def ApproveResolution_tx_def;
    (rule records_commit | rule records_event | rule records_bind)+; auto intro: find_id then_find_id event_intros)+)

section \<open>The retry\<close>

lemma commitDuplicate_again:
  assumes d: "distinct (map event_key (p2p_events t))" and st: "stamped (a, key, h) i t"
  shows "h' = h \<Longrightarrow> commitDuplicate a key h' body t = Inr (trade, t') \<Longrightarrow>
      pt_ID trade = i \<and> pt_Duplicate trade \<and> t' = t\<lparr>locks_taken := locks_taken t'\<rparr>"
    and "h' \<noteq> h \<Longrightarrow> commitDuplicate a key h' body t = Inl (App ErrIdempotencyConflict)"
    and "h' = h \<Longrightarrow> \<exists>r \<in> set (trades_with_assets t). tw_id (fst r) = i \<Longrightarrow> \<exists>trade t'. commitDuplicate a key h' body t = Inr (trade, t')"
proof -
  obtain e where e: "e \<in> set (p2p_events t)" "event_key e = (a, key)" "pe_hash e = h" "pe_trade e = i"
    using st by (auto simp: stamped_def)
  have f: "find (\<lambda>x. pe_actor_key x = a \<and> pe_key x = key) (p2p_events t) = Some e"
    using find_unique_key [OF d e(1)] e(2) by (simp add: event_key_def)
  let ?t = "t\<lparr>locks_taken := locks_taken t @ [''p2p-idempotency:'' @ a @ '':'' @ key]\<rparr>"
  have run: "commitDuplicate a key h' body t = (if h' = h then bindT (findTrade i) (\<lambda>trade. returnT (trade\<lparr>pt_Duplicate := True\<rparr>)) ?t
      else Inl (App ErrIdempotencyConflict))"
    using f e(3,4) by (auto simp: commitDuplicate_def existingAction_def advisory_lock_def tx_defs split: sum.splits)
  show "h' = h \<Longrightarrow> commitDuplicate a key h' body t = Inr (trade, t') \<Longrightarrow>
      pt_ID trade = i \<and> pt_Duplicate trade \<and> t' = t\<lparr>locks_taken := locks_taken t'\<rparr>"
    unfolding run by (auto simp: tx_simps dest!: findTrade_same)
  show "h' \<noteq> h \<Longrightarrow> commitDuplicate a key h' body t = Inl (App ErrIdempotencyConflict)" by (simp add: run)
  show "\<exists>trade t'. commitDuplicate a key h' body t = Inr (trade, t')"
    if eq: "h' = h" and ex: "\<exists>r \<in> set (trades_with_assets t). tw_id (fst r) = i"
  proof -
    have "trades_with_assets ?t = trades_with_assets t" by (simp add: trades_with_assets_def)
    moreover obtain r where "find (\<lambda>(t, a). tw_id t = i) (trades_with_assets t) = Some r"
      using ex by (cases "find (\<lambda>(t, a). tw_id t = i) (trades_with_assets t)") (auto simp: find_None_iff split_def)
    ultimately show ?thesis using eq unfolding run by (simp add: bindT_def findTrade_def rowT_def returnT_def)
  qed
qed

text \<open>Only the approval has a check before the idempotency lookup.\<close>

fun call_allowed :: "p2p_call \<Rightarrow> p2p_db \<Rightarrow> bool" where
  "call_allowed (CallApprove c) s = ((vc_ActorID c, ''treasury_approver'') \<in> set (user_roles s))"
| "call_allowed _ s = True"

lemma role_checked:
  assumes "(u, role) \<in> set (user_roles s)"
  shows "bindT (hasRole u role) (\<lambda>allowed. bindT (ensureT allowed e) (\<lambda>_. m)) s = m s"
  using assms by (simp add: hasRole_def bindT_def queryT_def ensureT_def returnT_def)

lemma call_shape:
  obtains body where "\<And>s. call_allowed call s \<Longrightarrow> call_tx call s =
    (case call_stamp call of (a, key, h) \<Rightarrow> commitDuplicate a key h (body :: P2PTrade p2p_tx)) s"
proof (cases call)
  case (CallApprove c)
  show ?thesis
    by (rule that) (simp add: CallApprove ApproveResolution_tx_def role_checked)
qed (auto simp: action_stamp_def Create_tx_def Accept_tx_def MarkPaid_tx_def Dispute_tx_def transition_def Release_tx_def
    Cancel_tx_def AddEvidence_tx_def intro: that)

text \<open>
  A retried P2P request is harmless. After a request has been accepted, a request of the same
  actor with the same idempotency key, after any other P2P calls, changes nothing but the advisory
  locks its transaction takes: if its fingerprint is the same it answers with the same trade,
  marked as a duplicate, and it does answer; if the fingerprint differs it is refused with the
  idempotency conflict error. So a release, refund or escrow is never carried out twice by a retry.
\<close>

theorem p2p_retry_is_harmless:
  assumes "distinct (map event_key (p2p_events s))" "call_tx call s = Inr (trade, s')" "p2p_step\<^sup>*\<^sup>* s' t"
    and "call_stamp again = (actor, key, h')" "call_stamp call = (actor, key, h)" "call_allowed again t"
    and "\<exists>r \<in> set (trades_with_assets t). tw_id (fst r) = pt_ID trade"
  shows "if h' = h
    then \<exists>dup t'. call_tx again t = Inr (dup, t') \<and> pt_ID dup = pt_ID trade \<and> pt_Duplicate dup \<and> t' = t\<lparr>locks_taken := locks_taken t'\<rparr>
    else call_tx again t = Inl (App ErrIdempotencyConflict)"
proof -
  have grow: "events_grow s s'"
    by (rule respectsD [OF call_grow assms(2)])
  have d: "distinct (map event_key (p2p_events t))"
    using grow events_store.run_R [OF assms(3)] assms(1) by (simp add: events_grow_def)
  have "stamped (actor, key, h) (pt_ID trade) s'" using call_records [of call] assms(2,5) by (simp add: records_def)
  then have st: "stamped (actor, key, h) (pt_ID trade) t" using events_store.run_R [OF assms(3)] stamped_grow by blast
  obtain body where b: "call_tx again t = commitDuplicate actor key h' body t"
    using call_shape [of again] assms(4,6) by auto
  show ?thesis
    using commitDuplicate_again [OF d st, of h' body] assms(7) b by (metis (no_types))
qed

definition demo_command :: "string \<Rightarrow> ApprovalCommand" where
  "demo_command h = \<lparr>vc_ActorID = ''op2'', vc_ResolutionID = ''q1'', vc_IdempotencyKey = ''k1'', vc_Now = 100, vc_RequestHash = h\<rparr>"

lemma demo_command_run:
  "\<exists>trade s'. call_tx (CallApprove (demo_command ''h'')) demo_p2p = Inr (trade, s') \<and> pt_ID trade = ''t1'' \<and>
     user_roles s' = user_roles demo_p2p \<and> (\<exists>r \<in> set (trades_with_assets s'). tw_id (fst r) = ''t1'')"
  by (simp add: demo_command_def demo_approval_run)

theorem p2p_retry_is_harmless_witness:
  "\<exists>s'. (\<exists>trade. call_tx (CallApprove (demo_command ''h'')) demo_p2p = Inr (trade, s')) \<and>
     (\<exists>dup t'. call_tx (CallApprove (demo_command ''h'')) s' = Inr (dup, t') \<and> pt_ID dup = ''t1'' \<and> pt_Duplicate dup) \<and>
     call_tx (CallApprove (demo_command ''other'')) s' = Inl (App ErrIdempotencyConflict)"
proof -
  obtain trade s' where run: "call_tx (CallApprove (demo_command ''h'')) demo_p2p = Inr (trade, s')"
    and id: "pt_ID trade = ''t1''" and roles: "user_roles s' = user_roles demo_p2p"
    and row: "\<exists>r \<in> set (trades_with_assets s'). tw_id (fst r) = pt_ID trade"
    using demo_command_run by force
  have stamp: "call_stamp (CallApprove (demo_command h)) = (userActor ''op2'', ''k1'', h)" for h by (simp add: demo_command_def)
  have ok: "call_allowed (CallApprove (demo_command h)) s'" for h by (simp add: demo_command_def roles demo_p2p_def)
  have new: "distinct (map event_key (p2p_events demo_p2p))" by (simp add: demo_p2p_def)
  note again = p2p_retry_is_harmless [OF new run rtranclp.rtrancl_refl stamp stamp ok row]
  show ?thesis using run again [of "''h''"] again [of "''other''"] id by auto
qed

end
