(* ===== verification/Decimal_Text.thy ===== *)
theory Decimal_Text
  imports Go_Strings
begin

text \<open>
  Decimal amounts as text: \<open>strings.Split\<close> at the decimal point and the value of an integer
  part and a fraction padded to a fixed number of places, shared by the market maker's price
  feeds and the custody amounts.
\<close>

text \<open>\<open>strings.Split\<close> with a one-byte separator.\<close>

fun Split :: "char \<Rightarrow> string \<Rightarrow> string list" where
  "Split sep [] = [[]]"
| "Split sep (c # cs) =
     (if c = sep then [] # Split sep cs
      else case Split sep cs of [] \<Rightarrow> [[c]] | part # parts \<Rightarrow> (c # part) # parts)"

lemma Split_nonempty [simp]: "Split sep v \<noteq> []"
  by (induction v) (auto split: list.splits)

lemma Join_Split: "Join (Split sep v) [sep] = v"
proof (induction v)
  case (Cons c v)
  then show ?case by (cases "Split sep v"; cases "tl (Split sep v)") (auto split: list.splits)
qed simp

lemma Split_plain: "sep \<notin> set v \<Longrightarrow> Split sep v = [v]"
  by (induction v) auto

lemma Split_append: "sep \<notin> set a \<Longrightarrow> Split sep (a @ sep # f) = a # Split sep f"
  by (induction a) auto

lemma digits_val_append: "digits_val (s @ t) = digits_val s * 10 ^ length t + digits_val t"
proof (induction t rule: rev_induct)
  case (snoc c t)
  then show ?case by (simp flip: append_assoc add: algebra_simps)
qed (simp add: digits_val_def)

lemma digits_val_zeros: "digits_val (replicate k (CHR ''0'')) = 0"
  by (induction k) (auto simp: digits_val_def digit_val_def)

lemma dot_not_digit: "list_all is_digit f \<Longrightarrow> CHR ''.'' \<notin> set f"
  by (auto simp: list_all_iff is_digit_def)

lemma decimal_number:
  assumes "all_digits a" "list_all is_digit f" "length f \<le> nat scale"
  shows "SetString (a @ f @ replicate (nat scale - length f) (CHR ''0'')) =
    Some (int (digits_val a) * 10 ^ nat scale + int (digits_val f) * 10 ^ (nat scale - length f))"
proof -
  have "all_digits (a @ f @ replicate (nat scale - length f) (CHR ''0''))"
    using assms by (auto simp: all_digits_def list_all_iff is_digit_def)
  then show ?thesis
    using assms(3) by (simp add: SetString_digits digits_val_append digits_val_zeros algebra_simps flip: power_add)
qed

end
