(* ===== verification/Market_Quote.thy ===== *)
theory Market_Quote
  imports Amounts Decimal_Text Orders "HOL-Library.Multiset"
begin

text \<open>
  The pricing half of the market maker, internal/marketmaker/model.go and the pure functions of
  service.go: the reference price formed from the external spot feeds, the quote around it and the
  risk check. A feed's answer is a parameter; the feeds are asked concurrently and their answers
  arrive through a channel, so the list of answers stands for any arrival order. Times and
  durations are nanoseconds; \<open>time.Time.Sub\<close> saturates at the ends of int64.
\<close>

section \<open>Types\<close>

datatype mm_error = ErrDisabled | ErrKillSwitch | ErrReferenceStale | ErrReferenceDiverged | ErrRiskLimit string

record Control =
  mc_Enabled :: bool
  mc_DryRun :: bool
  mc_KillSwitch :: bool
  mc_UserID :: string
  mc_AccountID :: string

record Config =
  mf_Pair :: string
  mf_PairStatus :: string
  mf_Enabled :: bool
  mf_PriceScale :: int
  mf_QuantityScale :: int
  mf_QuoteScale :: int
  mf_PriceTickAtomic :: string
  mf_SpreadBPS :: i64
  mf_QuantityAtomic :: string
  mf_MaxBaseInventoryAtomic :: string
  mf_MaxQuoteNotionalAtomic :: string
  mf_MaxDailyLossAtomic :: string
  mf_MaxDivergenceBPS :: i64
  mf_StaleAfter :: int

record RiskSnapshot =
  rk_BaseInventoryAtomic :: string
  rk_DailyPnLQuoteAtomic :: string

record Quote =
  qt_Pair :: string
  qt_ReferencePriceAtomic :: string
  qt_BidPriceAtomic :: string
  qt_AskPriceAtomic :: string
  qt_QuantityAtomic :: string
  qt_ObservedAt :: int

record Decision =
  dn_Pair :: string
  dn_Status :: string
  dn_Reason :: string
  dn_ReferencePriceAtomic :: string
  dn_At :: int

record SpotTicker =
  sp_Bid :: string
  sp_Ask :: string
  sp_ObservedAt :: int

text \<open>The name of a feed and its ticker or error.\<close>

type_synonym feed_result = "string \<times> (string + SpotTicker)"

section \<open>Decimal prices\<close>

definition pow10 :: "int \<Rightarrow> int" where
  "pow10 scale = (if scale < 0 \<or> scale > 36 then 0 else 10 ^ nat scale)"

definition decimalToAtomic :: "string \<Rightarrow> int \<Rightarrow> mm_error + int" where
  "decimalToAtomic value scale =
     (let parts = Split (CHR ''.'') value in
      if scale < 0 \<or> scale > 18 then Inl ErrReferenceStale
      else if length parts > 2 \<or> hd parts = [] \<or> (length parts = 2 \<and> int (length (parts ! 1)) > scale) then Inl ErrReferenceStale
      else if \<not> list_all (list_all is_digit) parts then Inl ErrReferenceStale
      else let fraction = (if length parts = 2 then parts ! 1 else []) in
        case SetString (hd parts @ fraction @ replicate (nat scale - length fraction) (CHR ''0'')) of
          None \<Rightarrow> Inl ErrReferenceStale
        | Some number \<Rightarrow> Inr number)"

section \<open>The reference price\<close>

definition zero_time :: int where "zero_time = - 62135596800 * 10 ^ 9"

definition time_sub :: "int \<Rightarrow> int \<Rightarrow> int" where
  "time_sub t u = max (- (2 ^ 63)) (min (2 ^ 63 - 1) (t - u))"

definition wrap64 :: "int \<Rightarrow> int" where
  "wrap64 n = sint (word_of_int n :: i64)"

definition feed_name :: "go_env \<Rightarrow> feed_result \<Rightarrow> string" where
  "feed_name env r = ToLower (uni_lower env) (TrimSpace (fst r))"

text \<open>The checks of one answer: the middle of its bid and ask, and when it was observed.\<close>

definition feed_price :: "Config \<Rightarrow> int \<Rightarrow> feed_result \<Rightarrow> (int \<times> int) option" where
  "feed_price config now r =
     (case snd r of
        Inl _ \<Rightarrow> None
      | Inr ticker \<Rightarrow>
          if sp_ObservedAt ticker = zero_time \<or> time_sub now (sp_ObservedAt ticker) > mf_StaleAfter config \<or>
             sp_ObservedAt ticker > now + 10 ^ 9
          then None
          else case (decimalToAtomic (sp_Bid ticker) (mf_PriceScale config), decimalToAtomic (sp_Ask ticker) (mf_PriceScale config)) of
            (Inr bid, Inr ask) \<Rightarrow> if bid \<le> 0 \<or> ask < bid then None else Some ((bid + ask) sdiv 2, sp_ObservedAt ticker)
          | _ \<Rightarrow> None)"

text \<open>The loop over the answers, in the order in which they are read from the channel: the
  values, the names already used and the latest observation.\<close>

fun collect :: "go_env \<Rightarrow> Config \<Rightarrow> int \<Rightarrow> feed_result list \<Rightarrow> int list \<Rightarrow> string list \<Rightarrow> int \<Rightarrow> int list \<times> int" where
  "collect env config now [] values seen latest = (values, latest)"
| "collect env config now (r # results) values seen latest =
     (let name = feed_name env r in
      if name = [] \<or> name \<in> set seen then collect env config now results values seen latest
      else case feed_price config now r of
        None \<Rightarrow> collect env config now results values seen latest
      | Some (price, at) \<Rightarrow>
          collect env config now results (values @ [price]) (name # seen) (if at > latest then at else latest))"

definition median_of :: "int list \<Rightarrow> int" where
  "median_of values =
     (if length values mod 2 = 1 then values ! (length values div 2)
      else (values ! (length values div 2 - 1) + values ! (length values div 2)) sdiv 2)"

definition make_quote :: "Config \<Rightarrow> int \<Rightarrow> int \<Rightarrow> mm_error + Quote" where
  "make_quote config median latest =
     (let half = sint (mf_SpreadBPS config) sdiv 2;
          bid = (median * wrap64 (10000 - half)) sdiv 10000;
          ask = ceilQuo (median * wrap64 (10000 + half)) 10000 in
      case SetString (mf_PriceTickAtomic config) of
        None \<Rightarrow> Inl (ErrRiskLimit [])
      | Some tick \<Rightarrow>
          if tick \<le> 0 then Inl (ErrRiskLimit [])
          else let bid' = (bid sdiv tick) * tick; ask' = ceilQuo ask tick * tick in
            if bid' \<le> 0 \<or> ask' \<le> bid' then Inl (ErrRiskLimit [])
            else Inr \<lparr>qt_Pair = mf_Pair config, qt_ReferencePriceAtomic = BigString median, qt_BidPriceAtomic = BigString bid',
              qt_AskPriceAtomic = BigString ask', qt_QuantityAtomic = mf_QuantityAtomic config, qt_ObservedAt = latest\<rparr>)"

definition Reference :: "go_env \<Rightarrow> Config \<Rightarrow> int \<Rightarrow> feed_result list \<Rightarrow> mm_error + Quote" where
  "Reference env config now results =
     (let (values, latest) = collect env config now results [] [] zero_time in
      if length values < 2 then Inl ErrReferenceStale
      else let sorted = sort values; median = median_of sorted;
               divergence = ((last sorted - hd sorted) * 10000) sdiv median in
        if divergence > sint (mf_MaxDivergenceBPS config) then Inl ErrReferenceDiverged
        else make_quote config median latest)"

section \<open>The risk check\<close>

definition checkRisk :: "Config \<Rightarrow> RiskSnapshot \<Rightarrow> Quote \<Rightarrow> mm_error option" where
  "checkRisk config risk quote =
     (case (SetString (rk_BaseInventoryAtomic risk), SetString (mf_QuantityAtomic config), SetString (mf_MaxBaseInventoryAtomic config),
            SetString (rk_DailyPnLQuoteAtomic risk), SetString (mf_MaxDailyLossAtomic config), SetString (qt_AskPriceAtomic quote),
            SetString (mf_MaxQuoteNotionalAtomic config)) of
        (Some inventory, Some quantity, Some maxInventory, Some pnl, Some maxLoss, Some price, Some maxNotional) \<Rightarrow>
          if inventory + quantity > maxInventory then Some (ErrRiskLimit [])
          else if inventory < quantity then Some (ErrRiskLimit [])
          else if pnl < 0 \<and> abs pnl \<ge> maxLoss then Some (ErrRiskLimit [])
          else
            let numerator = price * quantity * pow10 (mf_QuoteScale config);
                divisor = pow10 (wrap64 (mf_PriceScale config + mf_QuantityScale config)) in
            if divisor \<le> 0 then Some (ErrRiskLimit [])
            else if ceilQuo numerator divisor > maxNotional then Some (ErrRiskLimit [])
            else None
      | _ \<Rightarrow> Some (ErrRiskLimit []))"

section \<open>What a usable answer is\<close>

lemma wrap64_small: "- (2 ^ 63) \<le> n \<Longrightarrow> n < 2 ^ 63 \<Longrightarrow> wrap64 n = n"
  unfolding wrap64_def by (simp add: sint_sbintrunc' signed_take_bit_int_eq_self)

text \<open>An answer counts when it is fresh and its prices are in order.\<close>

definition usable_feed :: "Config \<Rightarrow> int \<Rightarrow> feed_result \<Rightarrow> int \<Rightarrow> int \<Rightarrow> bool" where
  "usable_feed config now r bid ask \<longleftrightarrow> (\<exists>ticker. snd r = Inr ticker \<and>
     decimalToAtomic (sp_Bid ticker) (mf_PriceScale config) = Inr bid \<and> decimalToAtomic (sp_Ask ticker) (mf_PriceScale config) = Inr ask \<and>
     0 < bid \<and> bid \<le> ask \<and> time_sub now (sp_ObservedAt ticker) \<le> mf_StaleAfter config \<and> sp_ObservedAt ticker \<le> now + 10 ^ 9)"

lemma feed_price_Some:
  assumes "feed_price config now r = Some (price, at)"
  shows "\<exists>bid ask. usable_feed config now r bid ask \<and> price = (bid + ask) div 2"
  using assms unfolding feed_price_def usable_feed_def
  by (auto simp: sdiv_nonneg split: sum.splits if_splits)

lemma usable_price_bounds: "usable_feed config now r bid ask \<Longrightarrow> bid \<le> (bid + ask) div 2 \<and> (bid + ask) div 2 \<le> ask \<and> 0 < (bid + ask) div 2"
  by (auto simp: usable_feed_def)

abbreviation price_of :: "Config \<Rightarrow> int \<Rightarrow> feed_result \<Rightarrow> int" where
  "price_of config now r \<equiv> fst (the (feed_price config now r))"

lemma collect_used:
  "\<exists>used. fst (collect env config now results values seen latest) = values @ map (price_of config now) used \<and>
     set used \<subseteq> set results \<and> distinct (map (feed_name env) used) \<and> feed_name env ` set used \<inter> set seen = {} \<and>
     (\<forall>r \<in> set used. feed_price config now r \<noteq> None)"
proof (induction results arbitrary: "values" seen latest)
  case Nil
  show ?case by (rule exI [of _ "[]"]) simp
next
  case (Cons r results)
  show ?case
  proof (cases "feed_name env r = [] \<or> feed_name env r \<in> set seen \<or> feed_price config now r = None")
    case True
    then have "collect env config now (r # results) values seen latest = collect env config now results values seen latest"
      by (auto simp: Let_def)
    then show ?thesis using Cons [of "values" seen latest] by auto
  next
    case False
    then obtain price at where p: "feed_price config now r = Some (price, at)" by auto
    have "collect env config now (r # results) values seen latest =
        collect env config now results (values @ [price]) (feed_name env r # seen) (if at > latest then at else latest)"
      using False p by (simp add: Let_def)
    then obtain used where "fst (collect env config now (r # results) values seen latest) = values @ price # map (price_of config now) used"
      "set used \<subseteq> set results" "distinct (map (feed_name env) used)" "feed_name env ` set used \<inter> set (feed_name env r # seen) = {}"
      "\<forall>r \<in> set used. feed_price config now r \<noteq> None"
      using Cons [of "values @ [price]" "feed_name env r # seen" "if at > latest then at else latest"] by auto
    then show ?thesis using False p by (intro exI [of _ "r # used"]) auto
  qed
qed

section \<open>The median\<close>

lemma median_between:
  assumes "sorted xs" "2 \<le> length xs" "0 < hd xs"
  shows "hd xs \<le> median_of xs" "median_of xs \<le> last xs" "0 < median_of xs"
proof -
  let ?n = "length xs"
  have h: "hd xs = xs ! 0" "last xs = xs ! (?n - 1)" using assms(2) by (subst hd_conv_nth last_conv_nth; auto)+
  have mono: "i \<le> j \<Longrightarrow> j < ?n \<Longrightarrow> xs ! i \<le> xs ! j" for i j using assms(1) by (rule sorted_nth_mono)
  have "hd xs \<le> median_of xs \<and> median_of xs \<le> last xs"
  proof (cases "?n mod 2 = 1")
    case True
    then show ?thesis unfolding h median_of_def using assms(2) mono [of 0 "?n div 2"] mono [of "?n div 2" "?n - 1"] by auto
  next
    case False
    let ?a = "xs ! (?n div 2 - 1)" and ?b = "xs ! (?n div 2)"
    have "xs ! 0 \<le> ?a" "?a \<le> ?b" "?b \<le> xs ! (?n - 1)" using assms(2) by (auto intro!: mono)
    moreover have "0 < xs ! 0" using assms(3) h by simp
    moreover have "median_of xs = (?a + ?b) div 2" using calculation False by (simp add: median_of_def sdiv_nonneg)
    ultimately show ?thesis unfolding h by linarith
  qed
  then show "hd xs \<le> median_of xs" "median_of xs \<le> last xs" "0 < median_of xs" using assms(3) by auto
qed

lemma Min_Max_sorted: "sorted xs \<Longrightarrow> xs \<noteq> [] \<Longrightarrow> hd xs = Min (set xs) \<and> last xs = Max (set (xs :: int list))"
proof -
  assume s: "sorted xs" and ne: "xs \<noteq> []"
  have "hd xs \<le> x \<and> x \<le> last xs" if "x \<in> set xs" for x
    using ne that by (auto simp: in_set_conv_nth hd_conv_nth last_conv_nth intro!: sorted_nth_mono [OF s])
  then show ?thesis using ne by (intro conjI Min_eqI [symmetric] Max_eqI [symmetric]) auto
qed

section \<open>The quote\<close>

lemma tick_floor: "0 < t \<Longrightarrow> 0 < (b sdiv t) * t \<Longrightarrow> 0 < b \<and> (b sdiv t) * t \<le> (b :: int)"
proof -
  assume t: "0 < t" and pos: "0 < (b sdiv t) * t"
  have "0 < b"
  proof (rule ccontr)
    assume "\<not> 0 < b"
    then have "b sdiv t \<le> 0" using t by (simp add: sdiv_nonpos)
    with t pos show False by (simp add: mult_nonpos_nonneg leD)
  qed
  then show ?thesis using t by (simp add: sdiv_nonneg floor_mult_le)
qed

lemma half_spread:
  assumes "0 \<le> sint (b :: i64)"
  shows "sint b sdiv 2 = sint b div 2" "wrap64 (10000 - sint b div 2) = 10000 - sint b div 2"
    "wrap64 (10000 + sint b div 2) = 10000 + sint b div 2"
proof -
  have "sint b < 2 ^ 63" using sint_lt [of b] by simp
  then show "wrap64 (10000 - sint b div 2) = 10000 - sint b div 2" "wrap64 (10000 + sint b div 2) = 10000 + sint b div 2"
    using assms by (auto intro!: wrap64_small)
  show "sint b sdiv 2 = sint b div 2" using assms by (simp add: sdiv_nonneg)
qed

lemma make_quote_Inr:
  assumes "make_quote config median latest = Inr q" "0 < median" "0 \<le> sint (mf_SpreadBPS config)"
  shows "\<exists>tick bid ask. SetString (mf_PriceTickAtomic config) = Some tick \<and> 0 < tick \<and> tick dvd bid \<and> tick dvd ask \<and>
    qt_BidPriceAtomic q = BigString bid \<and> qt_AskPriceAtomic q = BigString ask \<and> qt_ReferencePriceAtomic q = BigString median \<and>
    qt_Pair q = mf_Pair config \<and> qt_QuantityAtomic q = mf_QuantityAtomic config \<and> 0 < bid \<and>
    bid * 10000 \<le> median * (10000 - sint (mf_SpreadBPS config) div 2) \<and>
    median * (10000 + sint (mf_SpreadBPS config) div 2) \<le> ask * 10000 \<and> bid < ask"
proof -
  let ?h = "sint (mf_SpreadBPS config) div 2"
  let ?b = "(median * (10000 - ?h)) sdiv 10000" and ?a = "ceilQuo (median * (10000 + ?h)) 10000"
  obtain tick where t: "SetString (mf_PriceTickAtomic config) = Some tick" "0 < tick"
    and ok: "0 < (?b sdiv tick) * tick" "(?b sdiv tick) * tick < ceilQuo ?a tick * tick"
    and q: "qt_BidPriceAtomic q = BigString ((?b sdiv tick) * tick)" "qt_AskPriceAtomic q = BigString (ceilQuo ?a tick * tick)"
      "qt_ReferencePriceAtomic q = BigString median" "qt_Pair q = mf_Pair config" "qt_QuantityAtomic q = mf_QuantityAtomic config"
    using assms(1) half_spread [OF assms(3)] by (auto simp: make_quote_def Let_def split: option.splits if_splits)
  have bid: "0 < ?b" "(?b sdiv tick) * tick \<le> ?b" using tick_floor [OF t(2) ok(1)] by auto
  have num: "0 < median * (10000 - ?h)"
  proof (rule ccontr)
    assume "\<not> 0 < median * (10000 - ?h)"
    then have "?b \<le> 0" by (simp add: sdiv_nonpos)
    with bid(1) show False by simp
  qed
  then have lo: "?b * 10000 \<le> median * (10000 - ?h)" by (simp add: sdiv_nonneg floor_mult_le)
  have n2: "0 \<le> median * (10000 + ?h)" using assms(2,3) by simp
  have hi: "median * (10000 + ?h) \<le> ?a * 10000" by (rule maker_ceil.cdiv_covers [OF n2]) simp
  have "?a \<le> ceilQuo ?a tick * tick" using maker_ceil.cdiv_nonneg [OF n2] t(2) by (intro maker_ceil.cdiv_covers) auto
  then have "median * (10000 + ?h) \<le> ceilQuo ?a tick * tick * 10000" using hi by linarith
  moreover have "(?b sdiv tick) * tick * 10000 \<le> median * (10000 - ?h)" using lo bid(2) by linarith
  ultimately show ?thesis using t ok q by (intro exI [of _ tick] exI [of _ "(?b sdiv tick) * tick"] exI [of _ "ceilQuo ?a tick * tick"]) auto
qed

lemma Reference_Inr:
  assumes "Reference env config now results = Inr q" "0 \<le> sint (mf_SpreadBPS config)"
  shows "\<exists>used mid median tick bid ask.
    set used \<subseteq> set results \<and> 2 \<le> length used \<and> distinct (map (feed_name env) used) \<and>
    (\<forall>r \<in> set used. \<exists>b a. usable_feed config now r b a \<and> mid r = (b + a) div 2) \<and>
    0 < median \<and> Min (mid ` set used) \<le> median \<and> median \<le> Max (mid ` set used) \<and>
    (Max (mid ` set used) - Min (mid ` set used)) * 10000 div median \<le> sint (mf_MaxDivergenceBPS config) \<and>
    SetString (mf_PriceTickAtomic config) = Some tick \<and> SetString (qt_ReferencePriceAtomic q) = Some median \<and>
    SetString (qt_BidPriceAtomic q) = Some bid \<and> SetString (qt_AskPriceAtomic q) = Some ask \<and>
    0 < tick \<and> tick dvd bid \<and> tick dvd ask \<and> 0 < bid \<and> bid < ask \<and>
    bid * 10000 \<le> median * (10000 - sint (mf_SpreadBPS config) div 2) \<and>
    median * (10000 + sint (mf_SpreadBPS config) div 2) \<le> ask * 10000"
proof -
  obtain used where used: "fst (collect env config now results [] [] zero_time) = map (price_of config now) used"
    "set used \<subseteq> set results" "distinct (map (feed_name env) used)" and some: "\<forall>r \<in> set used. feed_price config now r \<noteq> None"
    using collect_used [of env config now results "[]" "[]" zero_time] by auto
  let ?mid = "price_of config now" and ?xs = "sort (map (price_of config now) used)"
  have len: "2 \<le> length used" and div: "((last ?xs - hd ?xs) * 10000) sdiv median_of ?xs \<le> sint (mf_MaxDivergenceBPS config)"
    and quote: "make_quote config (median_of ?xs) (snd (collect env config now results [] [] zero_time)) = Inr q"
    using assms(1) used(1) by (auto simp: Reference_def Let_def split_def split: if_splits)
  have feeds: "\<exists>b a. usable_feed config now r b a \<and> ?mid r = (b + a) div 2" if "r \<in> set used" for r
    using some that feed_price_Some [of config now r] by fastforce
  then have pos: "0 < ?mid r" if "r \<in> set used" for r using that usable_price_bounds by metis
  have ne: "2 \<le> length ?xs" "set ?xs = ?mid ` set used" using len by simp_all
  then have full: "?xs \<noteq> []" by force
  have ends: "hd ?xs = Min (?mid ` set used)" "last ?xs = Max (?mid ` set used)" using Min_Max_sorted [of ?xs] full ne(2) by simp_all
  have "hd ?xs \<in> ?mid ` set used" using hd_in_set [OF full] ne(2) by simp
  then have first: "0 < hd ?xs" using pos by auto
  note med = median_between [OF sorted_sort ne(1) first]
  have nonneg: "0 \<le> (last ?xs - hd ?xs) * 10000" using order_trans [OF med(1,2)] by simp
  from make_quote_Inr [OF quote med(3) assms(2)] obtain tick bid ask where
    mq: "SetString (mf_PriceTickAtomic config) = Some tick" "0 < tick" "tick dvd bid" "tick dvd ask"
      "qt_BidPriceAtomic q = BigString bid" "qt_AskPriceAtomic q = BigString ask" "qt_ReferencePriceAtomic q = BigString (median_of ?xs)"
      "0 < bid" "bid * 10000 \<le> median_of ?xs * (10000 - sint (mf_SpreadBPS config) div 2)"
      "median_of ?xs * (10000 + sint (mf_SpreadBPS config) div 2) \<le> ask * 10000" "bid < ask" by blast
  show ?thesis
    using used(2,3) len feeds med div mq nonneg unfolding ends
    by (intro exI [of _ used] exI [of _ ?mid] exI [of _ "median_of ?xs"] exI [of _ tick] exI [of _ bid] exI [of _ ask])
      (auto simp: sdiv_nonneg)
qed

lemma Reference_quantity: "Reference env config now results = Inr q \<Longrightarrow> qt_QuantityAtomic q = mf_QuantityAtomic config"
  by (auto simp: Reference_def make_quote_def Let_def split_def split: if_splits option.splits)


section \<open>The order of the answers\<close>

text \<open>When every feed has a name of its own, the loop keeps each usable answer.\<close>

definition named_prices :: "go_env \<Rightarrow> Config \<Rightarrow> int \<Rightarrow> feed_result list \<Rightarrow> (int \<times> int) list" where
  "named_prices env config now results = List.map_filter (feed_price config now) (filter (\<lambda>r. feed_name env r \<noteq> []) results)"

lemma collect_distinct:
  assumes "distinct (filter (\<lambda>n. n \<noteq> []) (map (feed_name env) results))" "set (map (feed_name env) results) \<inter> set seen = {}"
  shows "collect env config now results values seen latest =
    (values @ map fst (named_prices env config now results), fold max (map snd (named_prices env config now results)) latest)"
  using assms
proof (induction results arbitrary: "values" seen latest)
  case (Cons r results)
  show ?case
  proof (cases "feed_name env r = [] \<or> feed_price config now r = None")
    case True
    then have "named_prices env config now (r # results) = named_prices env config now results"
      by (auto simp: named_prices_def map_filter_simps)
    then show ?thesis using Cons True by (auto simp: Let_def split: if_splits)
  next
    case False
    then obtain price at where p: "feed_price config now r = Some (price, at)" by auto
    have fresh: "feed_name env r \<notin> feed_name env ` set results" "feed_name env r \<notin> set seen"
      using Cons.prems False by (auto simp: image_iff)
    have "named_prices env config now (r # results) = (price, at) # named_prices env config now results"
      using False p by (simp add: named_prices_def map_filter_simps)
    moreover have "collect env config now (r # results) values seen latest =
        collect env config now results (values @ [price]) (feed_name env r # seen) (max at latest)"
      using False p fresh by (simp add: Let_def max_def)
    moreover have "collect env config now results (values @ [price]) (feed_name env r # seen) (max at latest) =
        ((values @ [price]) @ map fst (named_prices env config now results), fold max (map snd (named_prices env config now results)) (max at latest))"
      using Cons.prems fresh False by (intro Cons.IH) auto
    ultimately show ?thesis by simp
  qed
qed (simp add: named_prices_def map_filter_simps)

lemma fold_max_mset:
  assumes "mset xs = mset ys"
  shows "fold max xs z = fold max ys (z :: int)"
proof -
  have "set xs = set ys" using assms by (rule mset_eq_setD)
  then show ?thesis using Max.set_eq_fold [of z xs] Max.set_eq_fold [of z ys] by simp
qed

lemma sort_mset: "mset xs = mset ys \<Longrightarrow> sort xs = sort (ys :: int list)"
  by (metis mset_sort properties_for_sort sorted_sort)

lemma mset_map_filter: "mset (List.map_filter f xs) = image_mset (the \<circ> f) (filter_mset (\<lambda>x. f x \<noteq> None) (mset xs))"
  by (induction xs) (auto simp: map_filter_simps split: option.splits)

text \<open>
  The quote does not depend on the order in which the feeds answer. \<open>Reference\<close> asks the
  feeds in parallel and reads the answers from a channel in arrival order; if the feeds have
  different names (after trimming and lower-casing), every arrival order gives the same quote or
  the same error.
\<close>

theorem Reference_order_independent:
  assumes "mset results = mset results'" "distinct (filter (\<lambda>n. n \<noteq> []) (map (feed_name env) results))"
  shows "Reference env config now results = Reference env config now results'"
proof -
  have d: "distinct (filter (\<lambda>n. n \<noteq> []) (map (feed_name env) results'))"
    using assms by (metis (no_types) mset_eq_imp_distinct_iff mset_filter mset_map)
  have "mset (named_prices env config now results) = mset (named_prices env config now results')"
    using assms(1) by (simp add: named_prices_def mset_map_filter)
  then have "sort (map fst (named_prices env config now results)) = sort (map fst (named_prices env config now results'))"
    "fold max (map snd (named_prices env config now results)) zero_time = fold max (map snd (named_prices env config now results')) zero_time"
    "length (named_prices env config now results) = length (named_prices env config now results')"
    by (auto intro!: sort_mset fold_max_mset intro: mset_eq_length)
  then show ?thesis
    unfolding Reference_def using collect_distinct [OF assms(2), of "[]"] collect_distinct [OF d, of "[]"] by simp
qed

section \<open>Reading a decimal price\<close>

text \<open>
  \<open>decimalToAtomic\<close> is exact. It accepts precisely the texts \<open>digits\<close> and
  \<open>digits.digits\<close> with at most \<open>scale\<close> fraction digits, for a scale from 0 to 18, and its
  result is the number times ten to the scale, with no rounding; every other text, signs,
  exponents, blanks and second points included, is an error.
\<close>

theorem decimalToAtomic_exact:
  "decimalToAtomic v scale = Inr n \<longleftrightarrow>
     0 \<le> scale \<and> scale \<le> 18 \<and> (\<exists>a f. (v = a \<and> f = [] \<or> v = a @ ''.'' @ f) \<and> all_digits a \<and> list_all is_digit f \<and>
       int (length f) \<le> scale \<and> n = int (digits_val a) * 10 ^ nat scale + int (digits_val f) * 10 ^ (nat scale - length f))"
    (is "?lhs \<longleftrightarrow> ?rhs")
proof
  assume ?lhs
  let ?p = "Split (CHR ''.'') v"
  have sc: "0 \<le> scale" "scale \<le> 18" and hd: "hd ?p \<noteq> []" and len: "length ?p \<le> 2"
    and digits: "list_all (list_all is_digit) ?p" and short: "length ?p = 2 \<longrightarrow> int (length (?p ! 1)) \<le> scale"
    and num: "SetString (hd ?p @ (if length ?p = 2 then ?p ! 1 else []) @
      replicate (nat scale - length (if length ?p = 2 then ?p ! 1 else [])) (CHR ''0'')) = Some n"
    using \<open>?lhs\<close> by (auto simp: decimalToAtomic_def Let_def split: if_splits option.splits)
  obtain a rest where p: "?p = a # rest" by (cases ?p) auto
  have a: "all_digits a" using hd digits p by (auto simp: all_digits_def list_all_iff)
  show ?rhs
  proof (cases rest)
    case Nil
    then have "v = a" using Join_Split [of "CHR ''.''" v] p by simp
    then show ?thesis using sc a num p Nil decimal_number [OF a, of "[]" scale]
      by (intro conjI exI [of _ a] exI [of _ "[]"]) auto
  next
    case (Cons f more)
    then have f: "?p = [a, f]" using p len by simp
    have v: "v = a @ ''.'' @ f" using Join_Split [of "CHR ''.''" v] f by simp
    have "list_all is_digit f" "int (length f) \<le> scale" using digits short f by auto
    then show ?thesis using sc a num f v decimal_number [OF a, of f scale] by auto
  qed
next
  assume ?rhs
  then obtain a f where sc: "0 \<le> scale" "scale \<le> 18" and v: "v = a \<and> f = [] \<or> v = a @ ''.'' @ f" and a: "all_digits a"
    and f: "list_all is_digit f" "int (length f) \<le> scale"
    and n: "n = int (digits_val a) * 10 ^ nat scale + int (digits_val f) * 10 ^ (nat scale - length f)" by blast
  have ad: "list_all is_digit a" "a \<noteq> []" using a by (auto simp: all_digits_def list_all_iff)
  have "Split (CHR ''.'') v = [a] \<and> f = [] \<or> Split (CHR ''.'') v = [a, f]"
    using v Split_plain [OF dot_not_digit [OF ad(1)]] Split_append [OF dot_not_digit [OF ad(1)], of f] Split_plain [OF dot_not_digit [OF f(1)]] by auto
  then show ?lhs using sc ad f n decimal_number [OF a f(1), of scale] by (auto simp: decimalToAtomic_def)
qed

section \<open>The limits\<close>

lemma pow10_pos: "0 \<le> n \<Longrightarrow> n \<le> 36 \<Longrightarrow> pow10 n = 10 ^ nat n"
  by (simp add: pow10_def)

text \<open>What a quote that passes the check respects.\<close>

lemma checkRisk_None:
  assumes "checkRisk config risk quote = None" and ask: "SetString (qt_AskPriceAtomic quote) = Some price" "0 \<le> price"
    and qty: "SetString (mf_QuantityAtomic config) = Some quantity" "0 \<le> quantity"
    and scales: "0 \<le> mf_QuoteScale config" "mf_QuoteScale config \<le> 36" "0 \<le> mf_PriceScale config" "mf_PriceScale config \<le> 18"
      "0 \<le> mf_QuantityScale config" "mf_QuantityScale config \<le> 18"
  shows "\<exists>inventory maxInventory pnl maxLoss maxNotional. SetString (rk_BaseInventoryAtomic risk) = Some inventory \<and>
    SetString (mf_MaxBaseInventoryAtomic config) = Some maxInventory \<and> SetString (rk_DailyPnLQuoteAtomic risk) = Some pnl \<and>
    SetString (mf_MaxDailyLossAtomic config) = Some maxLoss \<and> SetString (mf_MaxQuoteNotionalAtomic config) = Some maxNotional \<and>
    quantity \<le> inventory \<and> inventory + quantity \<le> maxInventory \<and> (pnl < 0 \<longrightarrow> - pnl < maxLoss) \<and>
    price * quantity * 10 ^ nat (mf_QuoteScale config) \<le> maxNotional * 10 ^ nat (mf_PriceScale config + mf_QuantityScale config)"
proof -
  have w: "wrap64 (mf_PriceScale config + mf_QuantityScale config) = mf_PriceScale config + mf_QuantityScale config"
    using scales by (intro wrap64_small) auto
  let ?n = "price * quantity * 10 ^ nat (mf_QuoteScale config)" and ?d = "10 ^ nat (mf_PriceScale config + mf_QuantityScale config) :: int"
  have n: "0 \<le> ?n" using ask(2) qty(2) by simp
  have cover: "?n \<le> m * ?d" if "ceilQuo ?n ?d \<le> m" for m
  proof -
    have "?n \<le> ceilQuo ?n ?d * ?d" by (rule maker_ceil.cdiv_covers [OF n]) simp
    also have "\<dots> \<le> m * ?d" using that by (rule mult_right_mono) simp
    finally show ?thesis .
  qed
  have pows: "pow10 (mf_QuoteScale config) = 10 ^ nat (mf_QuoteScale config)"
    "pow10 (mf_PriceScale config + mf_QuantityScale config) = ?d" using scales by (simp_all add: pow10_pos)
  obtain inventory maxInventory pnl maxLoss maxNotional where nums: "SetString (rk_BaseInventoryAtomic risk) = Some inventory"
      "SetString (mf_MaxBaseInventoryAtomic config) = Some maxInventory" "SetString (rk_DailyPnLQuoteAtomic risk) = Some pnl"
      "SetString (mf_MaxDailyLossAtomic config) = Some maxLoss" "SetString (mf_MaxQuoteNotionalAtomic config) = Some maxNotional"
    using assms(1) ask(1) qty(1) unfolding checkRisk_def by (auto split: option.splits)
  have "quantity \<le> inventory" "inventory + quantity \<le> maxInventory" "pnl < 0 \<longrightarrow> - pnl < maxLoss" "ceilQuo ?n ?d \<le> maxNotional"
    using assms(1) ask(1) qty(1) nums unfolding checkRisk_def w pows by (auto simp: Let_def not_less split: if_splits)
  then show ?thesis using nums cover by blast
qed

section \<open>An example\<close>

definition demo_config :: Config where
  "demo_config = \<lparr>mf_Pair = ''BTCUSDT'', mf_PairStatus = ''active'', mf_Enabled = True, mf_PriceScale = 2, mf_QuantityScale = 6,
     mf_QuoteScale = 6, mf_PriceTickAtomic = ''1'', mf_SpreadBPS = 20, mf_QuantityAtomic = ''1000000'',
     mf_MaxBaseInventoryAtomic = ''10000000'', mf_MaxQuoteNotionalAtomic = ''200000000'', mf_MaxDailyLossAtomic = ''1000000'',
     mf_MaxDivergenceBPS = 100, mf_StaleAfter = 5000000000\<rparr>"

definition demo_feeds :: "feed_result list" where
  "demo_feeds = map (\<lambda>(n, p). (n, Inr \<lparr>sp_Bid = p, sp_Ask = p, sp_ObservedAt = 1000\<rparr>))
     [(''a'', ''99.75''), (''b'', ''100.00''), (''c'', ''100.25'')]"

lemmas demo_quote_run = Reference_def demo_feeds_def demo_config_def feed_name_def plain_env_def ToLower_def ascii_def lower_byte_def
  TrimSpace_graphic graphic_def feed_price_def zero_time_def time_sub_def decimalToAtomic_def is_digit_def SetString_def all_digits_def
  digits_val_def digit_val_def median_of_def make_quote_def wrap64_def ceilQuo_def

lemma demo_names: "map (feed_name plain_env) demo_feeds = [''a'', ''b'', ''c'']"
  by (simp add: demo_quote_run)

lemma demo_collect: "collect plain_env demo_config 2000 demo_feeds [] [] zero_time = ([9975, 10000, 10025], 1000)"
  by (simp add: demo_quote_run)

lemma demo_reference:
  "\<exists>q. Reference plain_env demo_config 2000 demo_feeds = Inr q \<and> qt_BidPriceAtomic q = BigString 9990 \<and> qt_AskPriceAtomic q = BigString 10010"
  unfolding Reference_def demo_collect
  by (simp add: Let_def median_of_def make_quote_def wrap64_def ceilQuo_def demo_config_def
      SetString_def all_digits_def is_digit_def digits_val_def digit_val_def)


theorem Reference_order_independent_witness:
  "Reference plain_env demo_config 2000 demo_feeds = Reference plain_env demo_config 2000 (rev demo_feeds)"
  using Reference_order_independent [of demo_feeds "rev demo_feeds" plain_env] by (simp add: demo_names)

end
