(* ===== verification/Market_Maker.thy ===== *)
theory Market_Maker
  imports Market_Quote Trading_Service
begin

text \<open>
  The market maker, internal/marketmaker/service.go and postgres.go. One cycle reads the control
  row, forms a quote per enabled pair, claims a buy and a sell command for the current
  five-second window and places the two orders through the ordinary trading service, which is
  the gateway of the running server (internal/platform/httpserver/server.go). The state is the
  market maker's tables beside the state of the trading service; the calls made through the
  gateway are recorded in order. The clock, the answers of the feeds and the trading service of
  each gateway call (its clock and random bytes) are parameters.
\<close>

section \<open>Tables\<close>

record mm_control_row =
  mo_enabled :: bool
  mo_dry_run :: bool
  mo_kill_switch :: bool
  mo_user :: "string option"
  mo_account :: "string option"

record mm_config_row =
  mg_pair :: string
  mg_enabled :: bool
  mg_spread_bps :: int
  mg_quantity :: int
  mg_max_inventory :: int
  mg_max_notional :: int
  mg_max_loss :: int
  mg_max_divergence_bps :: int
  mg_stale_after_seconds :: int

record mm_risk_row =
  mr_pair :: string
  mr_pnl :: int
  mr_last_reference :: "int option"
  mr_last_decision :: string
  mr_last_reason :: string
  mr_updated_at :: int

record mm_command_row =
  ml_key :: string
  ml_pair :: string
  ml_side :: string
  ml_price :: int
  ml_quantity :: int
  ml_dry_run :: bool
  ml_order :: "string option"

record mm_tables =
  market_maker_control :: mm_control_row
  market_maker_configs :: "mm_config_row list"
  market_maker_risk_state :: "mm_risk_row list"
  market_maker_command_log :: "mm_command_row list"

datatype gateway_call = PlaceCall PlaceOrderInput | ListCall OrderFilter | CancelCall CancelOrderInput

record mm_world =
  mw_tables :: mm_tables
  mw_service :: service_world
  mw_calls :: "gateway_call list"

datatype mm_failure = MakerErr mm_error | StoreErr string | GatewayErr trading_failure

record maker =
  mk_env :: go_env
  mk_now :: "string \<Rightarrow> int"
  mk_stop_now :: int
  mk_feeds :: "string \<Rightarrow> feed_result list"
  mk_gateway :: "nat \<Rightarrow> service"

type_synonym 'a mm = "mm_world \<Rightarrow> (mm_failure + 'a) \<times> mm_world"

definition returnM :: "'a \<Rightarrow> 'a mm" where
  "returnM x w = (Inr x, w)"

definition failM :: "mm_failure \<Rightarrow> 'a mm" where
  "failM e w = (Inl e, w)"

definition bindM :: "'a mm \<Rightarrow> ('a \<Rightarrow> 'b mm) \<Rightarrow> 'b mm" where
  "bindM m f w = (case m w of (Inl e, w') \<Rightarrow> (Inl e, w') | (Inr x, w') \<Rightarrow> f x w')"

text \<open>A statement on the market maker's tables; it may read the trading tables.\<close>

definition tablesM :: "(trading_db \<Rightarrow> (mm_tables, mm_failure, 'a) tx) \<Rightarrow> 'a mm" where
  "tablesM m w = (let (r, t) = transaction (m (sw_db (mw_service w))) (mw_tables w) in (r, w\<lparr>mw_tables := t\<rparr>))"

text \<open>\<open>_ = service.store.RecordDecision(...)\<close>\<close>

definition ignoreM :: "'a mm \<Rightarrow> unit mm" where
  "ignoreM m w = (Inr (), snd (m w))"

definition gatewayM :: "maker \<Rightarrow> gateway_call \<Rightarrow> (service \<Rightarrow> 'a svc) \<Rightarrow> 'a mm" where
  "gatewayM mk call m w =
     (let (r, sw) = m (mk_gateway mk (length (mw_calls w))) (mw_service w) in
      (map_sum GatewayErr id r, w\<lparr>mw_service := sw, mw_calls := mw_calls w @ [call]\<rparr>))"

section \<open>The store\<close>

definition control_of :: "mm_control_row \<Rightarrow> Control" where
  "control_of c = \<lparr>mc_Enabled = mo_enabled c, mc_DryRun = mo_dry_run c, mc_KillSwitch = mo_kill_switch c,
     mc_UserID = (case mo_user c of None \<Rightarrow> [] | Some u \<Rightarrow> u), mc_AccountID = (case mo_account c of None \<Rightarrow> [] | Some a \<Rightarrow> a)\<rparr>"

definition LoadControl_tx :: "trading_db \<Rightarrow> (mm_tables, mm_failure, Control) tx" where
  "LoadControl_tx db =
     bindT (queryT (\<lambda>t. control_of (market_maker_control t))) (\<lambda>control.
     bindT (ensureT (mc_UserID control = [] \<or>
       list_ex (\<lambda>a. ac_id a = mc_AccountID control \<and> ac_user_id a = Some (mc_UserID control) \<and> ac_kind a = ''uta'' \<and>
         ac_status a = ''active'' \<and> list_ex (\<lambda>u. u_id u = mc_UserID control \<and> u_status u = ''active'') (users db)) (accounts db))
       (MakerErr (ErrRiskLimit ''internal account is invalid''))) (\<lambda>_.
     returnT control))"

definition config_of :: "pair_row \<Rightarrow> asset_row \<Rightarrow> mm_config_row \<Rightarrow> Config" where
  "config_of p q c = \<lparr>mf_Pair = mg_pair c, mf_PairStatus = pr_status p, mf_Enabled = mg_enabled c, mf_PriceScale = pr_price_scale p,
     mf_QuantityScale = pr_quantity_scale p, mf_QuoteScale = as_decimals q, mf_PriceTickAtomic = BigString (pr_tick p),
     mf_SpreadBPS = word_of_int (mg_spread_bps c), mf_QuantityAtomic = BigString (mg_quantity c),
     mf_MaxBaseInventoryAtomic = BigString (mg_max_inventory c), mf_MaxQuoteNotionalAtomic = BigString (mg_max_notional c),
     mf_MaxDailyLossAtomic = BigString (mg_max_loss c), mf_MaxDivergenceBPS = word_of_int (mg_max_divergence_bps c),
     mf_StaleAfter = mg_stale_after_seconds c * 10 ^ 9\<rparr>"

definition ListConfigs_tx :: "trading_db \<Rightarrow> (mm_tables, mm_failure, Config list) tx" where
  "ListConfigs_tx db =
     queryT (\<lambda>t. concat (map (\<lambda>c. concat (map (\<lambda>p. map (\<lambda>q. config_of p q c) (filter (\<lambda>q. as_id q = pr_quote p) (assets db)))
       (filter (\<lambda>p. pr_symbol p = mg_pair c) (trading_pairs db)))) (sort_key mg_pair (market_maker_configs t))))"

definition posted_asset_sum :: "'r ledger_db_scheme \<Rightarrow> string \<Rightarrow> string \<Rightarrow> int" where
  "posted_asset_sum s a x = legs_sum (\<lambda>p. l_account p = a \<and> l_asset p = x \<and> posted_journal s (p_journal p)) (postings s)"

definition Risk_tx :: "string \<Rightarrow> string \<Rightarrow> trading_db \<Rightarrow> (mm_tables, mm_failure, RiskSnapshot) tx" where
  "Risk_tx accountID pair db =
     rowT (\<lambda>t. case (find (\<lambda>p. pr_symbol p = pair) (trading_pairs db), find (\<lambda>r. mr_pair r = pair) (market_maker_risk_state t)) of
         (Some p, Some r) \<Rightarrow> Some \<lparr>rk_BaseInventoryAtomic = BigString (posted_asset_sum db accountID (pr_base p)),
            rk_DailyPnLQuoteAtomic = BigString (mr_pnl r)\<rparr>
       | _ \<Rightarrow> None)
       (MakerErr (ErrRiskLimit []))"

text \<open>\<open>$4::numeric\<close> into a \<open>NUMERIC(20,0)\<close> column.\<close>

definition numeric_column :: "nat \<Rightarrow> string \<Rightarrow> mm_failure + int" where
  "numeric_column digits text =
     (case SetString text of
        None \<Rightarrow> Inl (StoreErr ''22P02'')
      | Some n \<Rightarrow> if abs n < 10 ^ digits then Inr n else Inl (StoreErr ''22003''))"

text \<open>\<open>INSERT ... ON CONFLICT (idempotency_key) DO NOTHING\<close>: whether a row was inserted.\<close>

definition claim_row :: "mm_command_row \<Rightarrow> trading_db \<Rightarrow> (mm_tables, mm_failure, bool) tx" where
  "claim_row row db =
     bindT (ensureT (length (ml_key row) \<le> 255) (StoreErr ''22001'')) (\<lambda>_.
     bindT (ensureT ((ml_side row = ''BUY'' \<or> ml_side row = ''SELL'') \<and> 0 < ml_price row \<and> 0 < ml_quantity row) (StoreErr ''23514'')) (\<lambda>_.
     bindT (queryT market_maker_command_log) (\<lambda>log.
     if ml_key row \<in> ml_key ` set log then returnT False
     else
       bindT (ensureT (ml_pair row \<in> pr_symbol ` set (trading_pairs db)) (StoreErr ''23503'')) (\<lambda>_.
       bindT (execT (\<lambda>t. t\<lparr>market_maker_command_log := market_maker_command_log t @ [row]\<rparr>)) (\<lambda>_.
       returnT True)))))"

definition ClaimCommand_tx :: "string \<Rightarrow> string \<Rightarrow> string \<Rightarrow> string \<Rightarrow> string \<Rightarrow> bool \<Rightarrow> trading_db \<Rightarrow> (mm_tables, mm_failure, bool) tx" where
  "ClaimCommand_tx key pair side price quantity dryRun db =
     bindT (queryT market_maker_control) (\<lambda>c.
     bindT (ensureT (mo_enabled c) (MakerErr ErrDisabled)) (\<lambda>_.
     bindT (ensureT (\<not> mo_kill_switch c) (MakerErr ErrKillSwitch)) (\<lambda>_.
     bindT (ensureT (mo_dry_run c = dryRun) (MakerErr (ErrRiskLimit []))) (\<lambda>_.
     bindT (liftT (numeric_column 20 price)) (\<lambda>p.
     bindT (liftT (numeric_column 20 quantity)) (\<lambda>n.
     claim_row \<lparr>ml_key = key, ml_pair = pair, ml_side = side, ml_price = p, ml_quantity = n, ml_dry_run = dryRun, ml_order = None\<rparr> db))))))"

definition AttachOrder_tx :: "string \<Rightarrow> string \<Rightarrow> trading_db \<Rightarrow> (mm_tables, mm_failure, unit) tx" where
  "AttachOrder_tx key orderID db =
     (let hit = (\<lambda>r. ml_key r = key \<and> ml_order r = None \<and> \<not> ml_dry_run r) in
      bindT (queryT market_maker_command_log) (\<lambda>log.
      bindT (ensureT (\<not> list_ex hit log \<or> orderID \<in> od_id ` set (orders db)) (StoreErr ''23503'')) (\<lambda>_.
      bindT (execT (\<lambda>t. t\<lparr>market_maker_command_log := update_where hit (\<lambda>r. r\<lparr>ml_order := Some orderID\<rparr>) (market_maker_command_log t)\<rparr>)) (\<lambda>_.
      ensureT (length (filter hit log) = 1) (MakerErr (ErrRiskLimit []))))))"

definition RecordDecision_tx :: "Decision \<Rightarrow> trading_db \<Rightarrow> (mm_tables, mm_failure, unit) tx" where
  "RecordDecision_tx d db =
     bindT (liftT (if dn_ReferencePriceAtomic d = [] then Inr None else map_sum id Some (numeric_column 20 (dn_ReferencePriceAtomic d)))) (\<lambda>ref.
     bindT (ensureT (length (dn_Status d) \<le> 40) (StoreErr ''22001'')) (\<lambda>_.
     execT (\<lambda>t. t\<lparr>market_maker_risk_state := update_where (\<lambda>r. mr_pair r = dn_Pair d)
       (\<lambda>r. r\<lparr>mr_last_reference := ref, mr_last_decision := dn_Status d, mr_last_reason := dn_Reason d, mr_updated_at := dn_At d div 1000\<rparr>)
       (market_maker_risk_state t)\<rparr>)))"

section \<open>Cancelling what is open\<close>

definition unix_seconds :: "int \<Rightarrow> int" where "unix_seconds t = t div 10 ^ 9"

definition truncate_time :: "int \<Rightarrow> int \<Rightarrow> int" where
  "truncate_time t d = t - (t - zero_time) mod d"

definition cancel_tolerated :: "trading_failure \<Rightarrow> bool" where
  "cancel_tolerated e \<longleftrightarrow> e = App ErrOrderNotCancelable \<or> e = App ErrOrderAlreadyFilled"

definition cancel_input :: "Control \<Rightarrow> int \<Rightarrow> string \<Rightarrow> CancelOrderInput" where
  "cancel_input control now orderID = \<lparr>ci_UserID = mc_UserID control, ci_AccountID = mc_AccountID control, ci_OrderID = orderID,
     ci_IdempotencyKey = ''market-maker-cancel:'' @ orderID @ '':'' @ BigString (unix_seconds now sdiv 5)\<rparr>"

fun cancel_orders :: "maker \<Rightarrow> Control \<Rightarrow> int \<Rightarrow> Order list \<Rightarrow> unit mm" where
  "cancel_orders mk control now [] = returnM ()"
| "cancel_orders mk control now (order # rest) =
     (\<lambda>w. let input = cancel_input control now (o_ID order) in
        case gatewayM mk (CancelCall input) (\<lambda>sv. CancelOrder sv input) w of
          (Inl (GatewayErr e), w') \<Rightarrow> if cancel_tolerated e then cancel_orders mk control now rest w' else (Inl (GatewayErr e), w')
        | (Inl e, w') \<Rightarrow> (Inl e, w')
        | (Inr _, w') \<Rightarrow> cancel_orders mk control now rest w')"

fun cancel_statuses :: "maker \<Rightarrow> Control \<Rightarrow> string \<Rightarrow> int \<Rightarrow> string list \<Rightarrow> unit mm" where
  "cancel_statuses mk control pair now [] = returnM ()"
| "cancel_statuses mk control pair now (status # rest) =
     (let flt = \<lparr>f_Status = status, f_Pair = pair, f_History = False, f_Limit = 200, f_Offset = 0\<rparr> in
      bindM (gatewayM mk (ListCall flt) (\<lambda>sv. ListOrders sv (mc_UserID control) (mc_AccountID control) flt)) (\<lambda>found.
      bindM (cancel_orders mk control now found) (\<lambda>_.
      cancel_statuses mk control pair now rest)))"

definition cancelExisting :: "maker \<Rightarrow> Control \<Rightarrow> string \<Rightarrow> int \<Rightarrow> unit mm" where
  "cancelExisting mk control pair now = cancel_statuses mk control pair now [''PENDING'', ''OPEN'', ''PARTIALLY_FILLED'']"

section \<open>Quoting a pair\<close>

definition window_key :: "string \<Rightarrow> int \<Rightarrow> string \<Rightarrow> string" where
  "window_key pair now side = ''market-maker:'' @ pair @ '':'' @ BigString (unix_seconds (truncate_time now (5 * 10 ^ 9))) @ '':'' @ side"

text \<open>The key, side and price of the two commands.\<close>

definition quote_commands :: "string \<Rightarrow> int \<Rightarrow> Quote \<Rightarrow> (string \<times> string \<times> string) list" where
  "quote_commands pair now quote =
     [(window_key pair now ''buy'', ''BUY'', qt_BidPriceAtomic quote), (window_key pair now ''sell'', ''SELL'', qt_AskPriceAtomic quote)]"

fun claim_all :: "Config \<Rightarrow> Quote \<Rightarrow> bool \<Rightarrow> (string \<times> string \<times> string) list \<Rightarrow> bool \<Rightarrow> bool mm" where
  "claim_all config quote dryRun [] claimedAll = returnM claimedAll"
| "claim_all config quote dryRun ((key, side, price) # rest) claimedAll =
     bindM (tablesM (ClaimCommand_tx key (mf_Pair config) side price (qt_QuantityAtomic quote) dryRun)) (\<lambda>claimed.
     claim_all config quote dryRun rest (claimedAll \<and> claimed))"

definition place_input :: "Control \<Rightarrow> Config \<Rightarrow> Quote \<Rightarrow> string \<Rightarrow> string \<Rightarrow> string \<Rightarrow> PlaceOrderInput" where
  "place_input control config quote key side price = \<lparr>in_UserID = mc_UserID control, in_AccountID = mc_AccountID control,
     in_AccountKind = ''uta'', in_IdempotencyKey = key, in_Pair = mf_Pair config, in_Side = side, in_Type = ''LIMIT'', in_Price = price,
     in_TriggerPrice = [], in_Quantity = qt_QuantityAtomic quote, in_TimeInForce = ''GTC'', in_PostOnly = True, in_ReduceOnly = False\<rparr>"

fun place_all :: "maker \<Rightarrow> Control \<Rightarrow> Config \<Rightarrow> Quote \<Rightarrow> (string \<times> string \<times> string) list \<Rightarrow> unit mm" where
  "place_all mk control config quote [] = returnM ()"
| "place_all mk control config quote ((key, side, price) # rest) =
     (let input = place_input control config quote key side price in
      bindM (gatewayM mk (PlaceCall input) (\<lambda>sv. PlaceOrder sv input)) (\<lambda>order.
      bindM (tablesM (AttachOrder_tx key (o_ID order))) (\<lambda>_.
      place_all mk control config quote rest)))"

definition decide :: "string \<Rightarrow> string \<Rightarrow> string \<Rightarrow> string \<Rightarrow> int \<Rightarrow> unit mm" where
  "decide pair status reason ref now =
     tablesM (RecordDecision_tx \<lparr>dn_Pair = pair, dn_Status = status, dn_Reason = reason, dn_ReferencePriceAtomic = ref, dn_At = now\<rparr>)"

text \<open>\<open>err.Error()\<close>\<close>

fun mm_error_text :: "mm_error \<Rightarrow> string" where
  "mm_error_text ErrDisabled = ''market maker disabled''"
| "mm_error_text ErrKillSwitch = ''market maker kill switch enabled''"
| "mm_error_text ErrReferenceStale = ''market maker reference feeds are stale''"
| "mm_error_text ErrReferenceDiverged = ''market maker reference feeds diverged''"
| "mm_error_text (ErrRiskLimit why) = ''market maker risk limit reached'' @ (if why = [] then [] else '': '' @ why)"

definition halt_pair :: "string \<Rightarrow> mm_error \<Rightarrow> string \<Rightarrow> int \<Rightarrow> unit mm" where
  "halt_pair pair err ref now = bindM (ignoreM (decide pair ''halted'' (mm_error_text err) ref now)) (\<lambda>_. failM (MakerErr err))"

definition risk_checked :: "Control \<Rightarrow> Config \<Rightarrow> Quote \<Rightarrow> int \<Rightarrow> unit mm" where
  "risk_checked control config quote now =
     bindM (tablesM (Risk_tx (mc_AccountID control) (mf_Pair config))) (\<lambda>risk.
     case checkRisk config risk quote of
       Some err \<Rightarrow> halt_pair (mf_Pair config) err (qt_ReferencePriceAtomic quote) now
     | None \<Rightarrow> returnM ())"

definition send_quote :: "maker \<Rightarrow> Control \<Rightarrow> Config \<Rightarrow> Quote \<Rightarrow> int \<Rightarrow> unit mm" where
  "send_quote mk control config quote now =
     (let commands = quote_commands (mf_Pair config) now quote in
      bindM (claim_all config quote (mc_DryRun control) commands True) (\<lambda>claimedAll.
      if \<not> claimedAll then decide (mf_Pair config) ''duplicate_cycle'' [] (qt_ReferencePriceAtomic quote) now
      else if mc_DryRun control then decide (mf_Pair config) ''dry_run'' [] (qt_ReferencePriceAtomic quote) now
      else
        bindM (cancelExisting mk control (mf_Pair config) now) (\<lambda>_.
        bindM (place_all mk control config quote commands) (\<lambda>_.
        decide (mf_Pair config) ''quoting'' [] (qt_ReferencePriceAtomic quote) now))))"

definition quotePair :: "maker \<Rightarrow> Control \<Rightarrow> Config \<Rightarrow> unit mm" where
  "quotePair mk control config =
     (let now = mk_now mk (mf_Pair config) in
      if \<not> mc_DryRun control \<and> mf_PairStatus config \<noteq> ''active''
      then halt_pair (mf_Pair config) (ErrRiskLimit ''pair is not active'') [] now
      else case Reference (mk_env mk) config now (mk_feeds mk (mf_Pair config)) of
        Inl err \<Rightarrow> halt_pair (mf_Pair config) err [] now
      | Inr quote \<Rightarrow>
          bindM (if mc_DryRun control then returnM () else risk_checked control config quote now) (\<lambda>_.
          send_quote mk control config quote now))"

section \<open>A cycle\<close>

text \<open>\<open>errors.Join\<close> collects errors; the list of a cycle is empty when it returns \<open>nil\<close>.\<close>

fun quote_all :: "maker \<Rightarrow> Control \<Rightarrow> Config list \<Rightarrow> mm_world \<Rightarrow> mm_failure list \<times> mm_world" where
  "quote_all mk control [] w = ([], w)"
| "quote_all mk control (config # rest) w =
     (if \<not> mf_Enabled config then quote_all mk control rest w
      else let (r, w') = quotePair mk control config w; (errs, w'') = quote_all mk control rest w'
        in (case r of Inl e \<Rightarrow> e # errs | Inr _ \<Rightarrow> errs, w''))"

fun stop_all :: "maker \<Rightarrow> Control \<Rightarrow> Config list \<Rightarrow> mm_world \<Rightarrow> mm_failure list \<times> mm_world" where
  "stop_all mk control [] w = ([], w)"
| "stop_all mk control (config # rest) w =
     (if \<not> mf_Enabled config then stop_all mk control rest w
      else let (r, w') = cancelExisting mk control (mf_Pair config) (mk_stop_now mk) w; (errs, w'') = stop_all mk control rest w'
        in (case r of Inl e \<Rightarrow> e # errs | Inr _ \<Rightarrow> errs, w''))"

definition stopExisting :: "maker \<Rightarrow> Control \<Rightarrow> mm_world \<Rightarrow> mm_failure list \<times> mm_world" where
  "stopExisting mk control w =
     (if mc_UserID control = [] \<or> mc_AccountID control = [] then ([MakerErr ErrKillSwitch], w)
      else case tablesM ListConfigs_tx w of
        (Inl e, w') \<Rightarrow> ([MakerErr ErrKillSwitch, e], w')
      | (Inr configs, w') \<Rightarrow> (let (errs, w'') = stop_all mk control configs w' in (MakerErr ErrKillSwitch # errs, w'')))"

definition Cycle :: "maker \<Rightarrow> mm_world \<Rightarrow> mm_failure list \<times> mm_world" where
  "Cycle mk w =
     (case tablesM LoadControl_tx w of
        (Inl e, w1) \<Rightarrow> ([e], w1)
      | (Inr control, w1) \<Rightarrow>
          if \<not> mc_Enabled control then ([MakerErr ErrDisabled], w1)
          else if mc_KillSwitch control then stopExisting mk control w1
          else if mc_UserID control = [] \<or> mc_AccountID control = []
          then ([MakerErr (ErrRiskLimit ''internal account is not configured'')], w1)
          else case tablesM ListConfigs_tx w1 of
            (Inl e, w2) \<Rightarrow> ([e], w2)
          | (Inr configs, w2) \<Rightarrow> quote_all mk control configs w2)"

end
