(* ===== verification/Market_Maker_System.thy ===== *)
theory Market_Maker_System
  imports Market_Maker Service_Refinement
begin

text \<open>
  What a market-maker cycle can do. The locale \<open>world_relation\<close> lifts a reflexive and transitive
  relation from the calls of a cycle to the cycle; its interpretation on \<open>calm\<close> (the trading
  service runs, the configuration is kept and no order is placed) carries every part of a cycle
  but the placement of the two orders.
\<close>

section \<open>Relations kept by the calls of a cycle\<close>

definition moves :: "(mm_world \<Rightarrow> mm_world \<Rightarrow> bool) \<Rightarrow> 'a mm \<Rightarrow> bool" where
  "moves R m \<longleftrightarrow> (\<forall>w. R w (snd (m w)))"

lemma movesD: "moves R m \<Longrightarrow> m w = (r, w') \<Longrightarrow> R w w'"
  by (metis moves_def snd_conv)

locale world_relation =
  fixes R :: "mm_world \<Rightarrow> mm_world \<Rightarrow> bool"
  assumes R_refl: "R w w"
    and R_trans: "R w v \<Longrightarrow> R v u \<Longrightarrow> R w u"
begin

lemma moves_pure: "moves R (returnM x)" "moves R (failM e)"
  by (auto simp: moves_def returnM_def failM_def R_refl)

lemma moves_bind: "moves R m \<Longrightarrow> (\<And>x. moves R (f x)) \<Longrightarrow> moves R (bindM m f)"
  unfolding moves_def bindM_def by (auto split: prod.splits sum.splits intro: R_trans) (metis R_trans snd_conv)+

lemma moves_ignore: "moves R m \<Longrightarrow> moves R (ignoreM m)"
  by (simp add: moves_def ignoreM_def)

end

section \<open>Calm calls\<close>

text \<open>The configuration a cycle reads; no statement of a cycle writes it.\<close>

definition settings :: "mm_world \<Rightarrow> mm_control_row \<times> mm_config_row list \<times> (string \<times> int) list" where
  "settings w = (market_maker_control (mw_tables w), market_maker_configs (mw_tables w),
     map (\<lambda>r. (mr_pair r, mr_pnl r)) (market_maker_risk_state (mw_tables w)))"

definition served :: "mm_world \<Rightarrow> mm_world \<Rightarrow> bool" where
  "served w w' \<longleftrightarrow> service_step\<^sup>*\<^sup>* (mw_service w) (mw_service w') \<and> settings w' = settings w"

definition is_place :: "gateway_call \<Rightarrow> bool" where
  "is_place call \<longleftrightarrow> (\<exists>input. call = PlaceCall input)"

definition calm :: "mm_world \<Rightarrow> mm_world \<Rightarrow> bool" where
  "calm w w' \<longleftrightarrow> served w w' \<and> (\<exists>new. mw_calls w' = mw_calls w @ new \<and> list_all (Not \<circ> is_place) new)"

interpretation calm_rel: world_relation calm
proof
  fix w v u :: mm_world
  show "calm w w" by (simp add: calm_def served_def)
  assume "calm w v" "calm v u"
  then show "calm w u" unfolding calm_def served_def by (force intro: rtranclp_trans)
qed

lemma tablesM_calm:
  assumes "\<And>db t x t'. m db t = Inr (x, t') \<Longrightarrow> market_maker_control t' = market_maker_control t \<and> market_maker_configs t' = market_maker_configs t \<and>
    map (\<lambda>r. (mr_pair r, mr_pnl r)) (market_maker_risk_state t') = map (\<lambda>r. (mr_pair r, mr_pnl r)) (market_maker_risk_state t)"
  shows "moves calm (tablesM m)"
  using assms by (auto simp: moves_def tablesM_def calm_def served_def settings_def transaction_def split: sum.splits prod.splits)

lemma store_calm:
  "moves calm (tablesM LoadControl_tx)" "moves calm (tablesM ListConfigs_tx)" "moves calm (tablesM (Risk_tx a p))"
  "moves calm (tablesM (ClaimCommand_tx key pair side price qty dry))" "moves calm (tablesM (AttachOrder_tx key i))"
  "moves calm (tablesM (RecordDecision_tx d))"
  by (rule tablesM_calm; auto simp: LoadControl_tx_def ListConfigs_tx_def Risk_tx_def ClaimCommand_tx_def claim_row_def AttachOrder_tx_def
      RecordDecision_tx_def Let_def tx_simps update_where_def split: if_splits)+

lemma gateway_calm:
  assumes "\<And>sv v. service_step v (snd (m sv v))" "\<not> is_place call"
  shows "moves calm (gatewayM mk call m)"
  using assms by (auto simp: moves_def gatewayM_def calm_def served_def settings_def split: prod.splits) (metis r_into_rtranclp snd_conv)

lemma gateway_steps: "service_step v (snd (CancelOrder sv input v))" "service_step v (snd (ListOrders sv u a flt v))"
  "service_step v (snd (PlaceOrder sv i v))"
  by (auto intro: service_step.place service_step.cancel service_step.list_orders surjective_pairing)

lemma cancel_orders_calm: "moves calm (cancel_orders mk control now found)"
proof (induction found)
  case (Cons order rest)
  let ?c = "cancel_input control now (o_ID order)"
  have g: "moves calm (gatewayM mk (CancelCall ?c) (\<lambda>sv. CancelOrder sv ?c))"
    by (rule gateway_calm [OF gateway_steps(1)]) (simp add: is_place_def)
  show ?case
    unfolding moves_def
  proof
    fix w
    obtain r w' where run: "gatewayM mk (CancelCall ?c) (\<lambda>sv. CancelOrder sv ?c) w = (r, w')" by fastforce
    have "calm w w'" using movesD [OF g run] .
    moreover have "calm w' (snd (cancel_orders mk control now rest w'))" using Cons by (simp add: moves_def)
    ultimately show "calm w (snd (cancel_orders mk control now (order # rest) w))"
      using run calm_rel.R_trans by (auto simp: Let_def split: sum.splits mm_failure.splits)
  qed
qed (simp add: calm_rel.moves_pure)

lemma cancelExisting_calm: "moves calm (cancelExisting mk control pair now)"
proof -
  have "moves calm (cancel_statuses mk control pair now sts)" for sts
    by (induction sts) (auto simp: Let_def is_place_def
        intro!: calm_rel.moves_pure calm_rel.moves_bind gateway_calm [OF gateway_steps(2)] cancel_orders_calm)
  then show ?thesis unfolding cancelExisting_def .
qed

lemma claim_all_calm: "moves calm (claim_all config quote dry cmds b)"
  by (induction config quote dry cmds b rule: claim_all.induct) (auto intro!: calm_rel.moves_pure calm_rel.moves_bind store_calm)

lemmas calm_intros = calm_rel.moves_pure calm_rel.moves_bind calm_rel.moves_ignore store_calm cancelExisting_calm claim_all_calm

lemma decisions_calm: "moves calm (decide pair st why ref now)" "moves calm (halt_pair pair err ref now)" "moves calm (risk_checked control config quote now)"
  unfolding decide_def halt_pair_def risk_checked_def by (auto intro!: calm_intros split: option.splits)

section \<open>Placing the two orders\<close>

text \<open>What stands behind an order of the market maker.\<close>

definition justified :: "maker \<Rightarrow> Control \<Rightarrow> Config \<Rightarrow> mm_world \<Rightarrow> PlaceOrderInput \<Rightarrow> bool" where
  "justified mk control config w input \<longleftrightarrow> (\<exists>quote risk key side price.
     \<not> mc_DryRun control \<and> mf_PairStatus config = ''active'' \<and>
     Reference (mk_env mk) config (mk_now mk (mf_Pair config)) (mk_feeds mk (mf_Pair config)) = Inr quote \<and>
     Risk_tx (mc_AccountID control) (mf_Pair config) (sw_db (mw_service w)) (mw_tables w) = Inr (risk, mw_tables w) \<and>
     checkRisk config risk quote = None \<and>
     (key, side, price) \<in> set (quote_commands (mf_Pair config) (mk_now mk (mf_Pair config)) quote) \<and>
     input = place_input control config quote key side price)"

definition calls_only :: "(PlaceOrderInput \<Rightarrow> bool) \<Rightarrow> mm_world \<Rightarrow> mm_world \<Rightarrow> bool" where
  "calls_only P w w' \<longleftrightarrow> served w w' \<and> (\<exists>new. mw_calls w' = mw_calls w @ new \<and> (\<forall>input. PlaceCall input \<in> set new \<longrightarrow> P input))"

lemma calm_calls_only: "calm w w' \<Longrightarrow> calls_only P w w'"
  unfolding calm_def calls_only_def by (force simp: list_all_iff is_place_def)

interpretation only_rel: world_relation "calls_only P" for P
proof
  fix w v u :: mm_world
  show "calls_only P w w" by (simp add: calls_only_def served_def)
  assume "calls_only P w v" "calls_only P v u"
  then show "calls_only P w u" unfolding calls_only_def served_def by (force intro: rtranclp_trans)
qed

lemma calm_moves: "moves calm m \<Longrightarrow> moves (calls_only P) m"
  by (simp add: moves_def calm_calls_only)

lemma gateway_place:
  "P input \<Longrightarrow> moves (calls_only P) (gatewayM mk (PlaceCall input) (\<lambda>sv. PlaceOrder sv input))"
  unfolding moves_def gatewayM_def calls_only_def served_def settings_def
  using gateway_steps(3) by (auto split: prod.splits) (metis r_into_rtranclp snd_conv)

lemma place_all_only:
  "(\<And>key side price. (key, side, price) \<in> set cmds \<Longrightarrow> P (place_input control config quote key side price)) \<Longrightarrow>
   moves (calls_only P) (place_all mk control config quote cmds)"
  by (induction mk control config quote cmds rule: place_all.induct)
    (auto simp: Let_def intro!: only_rel.moves_pure only_rel.moves_bind gateway_place calm_moves [OF store_calm(5)])

lemma quotePair_only: "calls_only (justified mk control config w) w (snd (quotePair mk control config w))"
proof (cases "Reference (mk_env mk) config (mk_now mk (mf_Pair config)) (mk_feeds mk (mf_Pair config))")
  case (Inl err)
  then have "quotePair mk control config w = halt_pair (mf_Pair config)
      (if \<not> mc_DryRun control \<and> mf_PairStatus config \<noteq> ''active'' then ErrRiskLimit ''pair is not active'' else err) []
      (mk_now mk (mf_Pair config)) w" by (simp add: quotePair_def Let_def)
  then show ?thesis using decisions_calm(2) calm_calls_only by (metis moves_def)
next
  case (Inr quote)
  let ?now = "mk_now mk (mf_Pair config)"
  have halt: "calls_only P w (snd (halt_pair (mf_Pair config) err ref ?now w))" for P err ref
    using decisions_calm(2) calm_calls_only by (metis moves_def)
  have send: "moves (calls_only P) (send_quote mk control config quote ?now)"
    if "\<not> mc_DryRun control \<Longrightarrow> (\<And>key side price. (key, side, price) \<in> set (quote_commands (mf_Pair config) ?now quote) \<Longrightarrow>
      P (place_input control config quote key side price))" for P
    unfolding send_quote_def Let_def
    by (cases "mc_DryRun control"; auto intro!: only_rel.moves_bind calm_moves [OF claim_all_calm] calm_moves [OF decisions_calm(1)]
        calm_moves [OF cancelExisting_calm] place_all_only that)
  show ?thesis
  proof (cases "mc_DryRun control")
    case True
    then have "moves (calls_only (justified mk control config w)) (send_quote mk control config quote ?now)" by (intro send) simp
    then show ?thesis using True Inr by (simp add: quotePair_def Let_def bindM_def returnM_def moves_def)
  next
    case live: False
    show ?thesis
    proof (cases "mf_PairStatus config = ''active''")
      case False
      then show ?thesis using live halt by (simp add: quotePair_def Let_def)
    next
      case True
      obtain r w1 where rc: "risk_checked control config quote ?now w = (r, w1)" by fastforce
      have c1: "calls_only (justified mk control config w) w w1" using movesD [OF calm_moves [OF decisions_calm(3)] rc] .
      show ?thesis
      proof (cases r)
        case (Inl e)
        then show ?thesis using live True Inr rc c1 by (simp add: quotePair_def Let_def bindM_def)
      next
        case ok: (Inr u)
        obtain risk where risk: "Risk_tx (mc_AccountID control) (mf_Pair config) (sw_db (mw_service w)) (mw_tables w) = Inr (risk, mw_tables w)"
          "checkRisk config risk quote = None"
          using rc ok by (auto simp: risk_checked_def bindM_def tablesM_def transaction_def Risk_tx_def rowT_def halt_pair_def ignoreM_def
              failM_def split: sum.splits prod.splits option.splits)
        have "moves (calls_only (justified mk control config w)) (send_quote mk control config quote ?now)"
          using live True Inr risk by (intro send) (auto simp: justified_def)
        then have "calls_only (justified mk control config w) w (snd (send_quote mk control config quote ?now w1))"
          using c1 only_rel.R_trans by (auto simp: moves_def)
        then show ?thesis using live True Inr rc ok by (simp add: quotePair_def Let_def bindM_def)
      qed
    qed
  qed
qed

section \<open>A cycle\<close>

lemma calls_only_mono: "calls_only P w w' \<Longrightarrow> (\<And>i. P i \<Longrightarrow> Q i) \<Longrightarrow> calls_only Q w w'"
  unfolding calls_only_def by blast

lemma served_refl: "served w w"
  by (simp add: served_def)

lemma served_trans: "served w v \<Longrightarrow> served v u \<Longrightarrow> served w u"
  by (auto simp: served_def)

lemma quote_all_only:
  "calls_only (\<lambda>i. \<exists>config \<in> set configs. mf_Enabled config \<and> (\<exists>v. served w v \<and> justified mk control config v i)) w (snd (quote_all mk control configs w))"
proof (induction configs arbitrary: w)
  case Nil
  show ?case by (simp add: only_rel.R_refl)
next
  case (Cons config rest)
  let ?P = "\<lambda>w i. \<exists>config \<in> set (config # rest). mf_Enabled config \<and> (\<exists>v. served w v \<and> justified mk control config v i)"
  have rest: "calls_only (?P v) v (snd (quote_all mk control rest v))" for v by (rule calls_only_mono [OF Cons]) auto
  show ?case
  proof (cases "mf_Enabled config")
    case False
    then show ?thesis using rest [of w] by simp
  next
    case True
    let ?v = "snd (quotePair mk control config w)"
    have q: "calls_only (?P w) w ?v" by (rule calls_only_mono [OF quotePair_only]) (use True served_refl in auto)
    then have "served w ?v" by (simp add: calls_only_def)
    then have "calls_only (?P w) ?v (snd (quote_all mk control rest ?v))"
      by (intro calls_only_mono [OF rest]) (blast intro: served_trans)
    with q have "calls_only (?P w) w (snd (quote_all mk control rest ?v))" by (rule only_rel.R_trans)
    then show ?thesis using True by (simp add: Let_def split_def)
  qed
qed

lemma stop_all_calm: "calm w (snd (stop_all mk control configs w))"
proof (induction configs arbitrary: w)
  case (Cons config rest)
  have "calm w (snd (cancelExisting mk control (mf_Pair config) (mk_stop_now mk) w))" using cancelExisting_calm by (simp add: moves_def)
  then show ?case using Cons calm_rel.R_trans by (auto simp: Let_def split_def)
qed (simp add: calm_rel.R_refl)

definition cycle_configs :: "mm_world \<Rightarrow> Config list" where
  "cycle_configs w = (case ListConfigs_tx (sw_db (mw_service w)) (mw_tables w) of Inl _ \<Rightarrow> [] | Inr (configs, _) \<Rightarrow> configs)"

definition cycle_control :: "mm_world \<Rightarrow> Control" where
  "cycle_control w = control_of (market_maker_control (mw_tables w))"

lemma LoadControl_cases:
  "tablesM LoadControl_tx w = (Inr control, w') \<Longrightarrow> control = cycle_control w \<and> w' = w"
  "tablesM LoadControl_tx w = (Inl e, w') \<Longrightarrow> w' = w"
  by (auto simp: tablesM_def transaction_def LoadControl_tx_def cycle_control_def tx_defs split: if_splits)

lemma ListConfigs_run: "tablesM ListConfigs_tx w = (Inr (cycle_configs w), w)"
  by (simp add: tablesM_def transaction_def ListConfigs_tx_def cycle_configs_def queryT_def)

lemma Cycle_only:
  "calls_only (\<lambda>i. mc_Enabled (cycle_control w) \<and> \<not> mc_KillSwitch (cycle_control w) \<and> mc_UserID (cycle_control w) \<noteq> [] \<and>
      mc_AccountID (cycle_control w) \<noteq> [] \<and>
      (\<exists>config \<in> set (cycle_configs w). mf_Enabled config \<and> (\<exists>v. served w v \<and> justified mk (cycle_control w) config v i)))
    w (snd (Cycle mk w))"
proof (cases "tablesM LoadControl_tx w")
  case (Pair r w1)
  show ?thesis
  proof (cases r)
    case (Inl e)
    then have "w1 = w" using Pair LoadControl_cases(2) by blast
    then show ?thesis using Pair Inl by (simp add: Cycle_def only_rel.R_refl)
  next
    case (Inr control)
    then have eq: "control = cycle_control w" "w1 = w" using Pair LoadControl_cases(1) by blast+
    have stop: "calls_only P w (snd (stopExisting mk control w))" for P
      using calm_calls_only [OF stop_all_calm] by (auto simp: stopExisting_def ListConfigs_run only_rel.R_refl split_def Let_def)
    have quote: "calls_only (\<lambda>i. mc_Enabled control \<and> \<not> mc_KillSwitch control \<and> mc_UserID control \<noteq> [] \<and> mc_AccountID control \<noteq> [] \<and>
        (\<exists>config \<in> set (cycle_configs w). mf_Enabled config \<and> (\<exists>v. served w v \<and> justified mk control config v i)))
        w (snd (quote_all mk control (cycle_configs w) w))"
      if "mc_Enabled control" "\<not> mc_KillSwitch control" "mc_UserID control \<noteq> []" "mc_AccountID control \<noteq> []"
      by (rule calls_only_mono [OF quote_all_only]) (use that in auto)
    show ?thesis using Pair Inr eq stop quote by (auto simp: Cycle_def ListConfigs_run only_rel.R_refl)
  qed
qed

section \<open>Each command once\<close>

definition log_keys :: "mm_world \<Rightarrow> string list" where
  "log_keys w = map ml_key (market_maker_command_log (mw_tables w))"

definition placed_keys :: "mm_world \<Rightarrow> string list" where
  "placed_keys w = List.map_filter (\<lambda>call. case call of PlaceCall input \<Rightarrow> Some (in_IdempotencyKey input) | _ \<Rightarrow> None) (mw_calls w)"

lemma placed_keys_append:
  "mw_calls w' = mw_calls w @ new \<Longrightarrow> placed_keys w' = placed_keys w @
     List.map_filter (\<lambda>call. case call of PlaceCall input \<Rightarrow> Some (in_IdempotencyKey input) | _ \<Rightarrow> None) new"
  by (simp add: placed_keys_def map_filter_def)

lemma calm_placed: "calm w w' \<Longrightarrow> placed_keys w' = placed_keys w"
proof -
  assume "calm w w'"
  then obtain new where new: "mw_calls w' = mw_calls w @ new" "list_all (Not \<circ> is_place) new" by (auto simp: calm_def)
  have "List.map_filter (\<lambda>call. case call of PlaceCall input \<Rightarrow> Some (in_IdempotencyKey input) | _ \<Rightarrow> None) new = []"
    using new(2) by (induction new) (auto simp: map_filter_simps is_place_def split: gateway_call.splits)
  then show ?thesis using placed_keys_append [OF new(1)] by simp
qed

definition logs :: "mm_world \<Rightarrow> mm_world \<Rightarrow> bool" where
  "logs w w' \<longleftrightarrow> set (log_keys w) \<subseteq> set (log_keys w')"

interpretation logs_rel: world_relation logs
  by unfold_locales (auto simp: logs_def)

lemma tablesM_logs:
  assumes "\<And>db t x t'. m db t = Inr (x, t') \<Longrightarrow> ml_key ` set (market_maker_command_log t) \<subseteq> ml_key ` set (market_maker_command_log t')"
  shows "moves logs (tablesM m)"
  using assms by (auto simp: moves_def tablesM_def logs_def log_keys_def transaction_def split: sum.splits prod.splits)

lemma gateway_logs: "moves logs (gatewayM mk call m)"
  by (auto simp: moves_def gatewayM_def logs_def log_keys_def split: prod.splits)

lemma attach_keys: "ml_key ` set (update_where p (\<lambda>r. r\<lparr>ml_order := x\<rparr>) rows) = ml_key ` set rows"
proof -
  have "map ml_key (update_where p (\<lambda>r. r\<lparr>ml_order := x\<rparr>) rows) = map ml_key rows" by (simp add: update_where_def)
  then show ?thesis by (metis list.set_map)
qed

lemma store_logs:
  "moves logs (tablesM LoadControl_tx)" "moves logs (tablesM ListConfigs_tx)" "moves logs (tablesM (Risk_tx a p))"
  "moves logs (tablesM (ClaimCommand_tx key pair side price qty dry))" "moves logs (tablesM (AttachOrder_tx key i))"
  "moves logs (tablesM (RecordDecision_tx d))"
  by (rule tablesM_logs; auto simp: LoadControl_tx_def ListConfigs_tx_def Risk_tx_def ClaimCommand_tx_def claim_row_def AttachOrder_tx_def
      RecordDecision_tx_def Let_def tx_simps attach_keys split: if_splits)+

lemma cancel_orders_logs: "moves logs (cancel_orders mk control now found)"
proof (induction found)
  case (Cons order rest)
  let ?c = "cancel_input control now (o_ID order)"
  show ?case
    unfolding moves_def
  proof
    fix w
    obtain r w' where run: "gatewayM mk (CancelCall ?c) (\<lambda>sv. CancelOrder sv ?c) w = (r, w')" by fastforce
    have "logs w w'" using movesD [OF gateway_logs run] .
    moreover have "logs w' (snd (cancel_orders mk control now rest w'))" using Cons by (simp add: moves_def)
    ultimately show "logs w (snd (cancel_orders mk control now (order # rest) w))"
      using run logs_rel.R_trans by (auto simp: Let_def split: sum.splits mm_failure.splits)
  qed
qed (simp add: logs_rel.moves_pure)

lemmas logs_intros = logs_rel.moves_pure logs_rel.moves_bind logs_rel.moves_ignore store_logs gateway_logs cancel_orders_logs

lemma cancelExisting_logs: "moves logs (cancelExisting mk control pair now)"
proof -
  have "moves logs (cancel_statuses mk control pair now sts)" for sts
    by (induction sts) (auto simp: Let_def intro!: logs_intros)
  then show ?thesis unfolding cancelExisting_def .
qed

lemma claim_all_logs: "moves logs (claim_all config quote dry cmds b)"
  by (induction config quote dry cmds b rule: claim_all.induct) (auto intro!: logs_intros)

lemma place_all_logs: "moves logs (place_all mk control config quote cmds)"
  by (induction mk control config quote cmds rule: place_all.induct) (auto simp: Let_def intro!: logs_intros)

lemma send_quote_logs: "moves logs (send_quote mk control config quote now)"
  unfolding send_quote_def Let_def decide_def
  by (auto intro!: logs_intros cancelExisting_logs claim_all_logs place_all_logs)

lemma quotePair_logs: "moves logs (quotePair mk control config)"
  unfolding quotePair_def Let_def risk_checked_def halt_pair_def decide_def
  by (auto intro!: logs_intros send_quote_logs split: sum.splits option.splits)

lemma ClaimCommand_log:
  assumes "tablesM (ClaimCommand_tx key pair side price qty dry) w = (Inr claimed, w')"
  shows "if claimed then log_keys w' = log_keys w @ [key] \<and> key \<notin> set (log_keys w) else log_keys w' = log_keys w"
    and "mw_calls w' = mw_calls w"
  using assms by (auto simp: tablesM_def transaction_def log_keys_def ClaimCommand_tx_def claim_row_def tx_simps
      split: sum.splits prod.splits if_splits)

lemma claim_all_new:
  "claim_all config quote dry cmds b w = (Inr True, w') \<Longrightarrow>
     b \<and> mw_calls w' = mw_calls w \<and> log_keys w' = log_keys w @ map fst cmds \<and> distinct (map fst cmds) \<and>
     set (map fst cmds) \<inter> set (log_keys w) = {}"
proof (induction config quote dry cmds b arbitrary: w rule: claim_all.induct)
  case (2 config quote dry key side price rest b)
  then obtain claimed w1 where c: "tablesM (ClaimCommand_tx key (mf_Pair config) side price (qt_QuantityAtomic quote) dry) w = (Inr claimed, w1)"
    and r: "claim_all config quote dry rest (b \<and> claimed) w1 = (Inr True, w')"
    by (auto simp: bindM_def split: prod.splits sum.splits)
  show ?case using 2(1) [OF r] ClaimCommand_log [OF c] by (auto split: if_splits)
qed (simp add: returnM_def)

lemma place_all_keys:
  "\<exists>k. placed_keys (snd (place_all mk control config quote cmds w)) = placed_keys w @ take k (map fst cmds)"
proof (induction mk control config quote cmds arbitrary: w rule: place_all.induct)
  case (1 mk control config quote)
  show ?case by (simp add: returnM_def)
next
  case (2 mk control config quote key side price rest)
  let ?i = "place_input control config quote key side price"
  obtain r w1 where g: "gatewayM mk (PlaceCall ?i) (\<lambda>sv. PlaceOrder sv ?i) w = (r, w1)" by fastforce
  have p1: "placed_keys w1 = placed_keys w @ [key]"
    using g placed_keys_append [of w1 w "[PlaceCall ?i]"] by (auto simp: gatewayM_def map_filter_simps place_input_def split: prod.splits)
  show ?case
  proof (cases r)
    case (Inl e)
    then show ?thesis using g p1 by (intro exI [of _ 1]) (simp add: Let_def bindM_def)
  next
    case (Inr order)
    obtain a w2 where at: "tablesM (AttachOrder_tx key (o_ID order)) w1 = (a, w2)" by fastforce
    have p2: "placed_keys w2 = placed_keys w @ [key]" using calm_placed [OF movesD [OF store_calm(5) at]] p1 by simp
    show ?thesis
    proof (cases a)
      case (Inl e)
      then show ?thesis using g Inr at p2 by (intro exI [of _ 1]) (simp add: Let_def bindM_def)
    next
      case (Inr u)
      obtain k where "placed_keys (snd (place_all mk control config quote rest w2)) = placed_keys w2 @ take k (map fst rest)"
        using 2 [OF refl] by blast
      then show ?thesis using g \<open>r = Inr order\<close> at p2 Inr by (intro exI [of _ "Suc k"]) (simp add: Let_def bindM_def)
    qed
  qed
qed

definition once :: "mm_world \<Rightarrow> bool" where
  "once w \<longleftrightarrow> distinct (placed_keys w) \<and> set (placed_keys w) \<subseteq> set (log_keys w)"

lemma once_calm: "once w \<Longrightarrow> calm w w' \<Longrightarrow> logs w w' \<Longrightarrow> once w'"
  using calm_placed [of w w'] by (auto simp: once_def logs_def)

lemma once_moves: "once w \<Longrightarrow> moves calm m \<Longrightarrow> moves logs m \<Longrightarrow> once (snd (m w))"
  using once_calm by (auto simp: moves_def)

lemma decide_once: "once w \<Longrightarrow> once (snd (decide pair st why ref now w))"
  by (rule once_moves [OF _ decisions_calm(1)]) (auto simp: decide_def intro!: logs_intros)

lemma place_all_once:
  assumes "distinct (placed_keys w)" "set (placed_keys w) \<subseteq> set old" "distinct (map fst cmds)" "set (map fst cmds) \<inter> set old = {}"
    and "set old \<union> set (map fst cmds) \<subseteq> set (log_keys w)"
  shows "once (snd (place_all mk control config quote cmds w))"
proof -
  obtain k where k: "placed_keys (snd (place_all mk control config quote cmds w)) = placed_keys w @ take k (map fst cmds)"
    using place_all_keys by blast
  have "set (log_keys w) \<subseteq> set (log_keys (snd (place_all mk control config quote cmds w)))"
    using place_all_logs by (simp add: moves_def logs_def)
  moreover have "set (take k (map fst cmds)) \<subseteq> set (map fst cmds)" by (rule set_take_subset)
  ultimately have "set (placed_keys w) \<union> set (take k (map fst cmds)) \<subseteq> set (log_keys (snd (place_all mk control config quote cmds w)))"
    and "set (placed_keys w) \<inter> set (take k (map fst cmds)) = {}"
    using assms(2,4,5) by blast+
  then show ?thesis unfolding once_def k using assms(1) distinct_take [OF assms(3), of k] by simp
qed

lemma send_quote_once:
  assumes "once w"
  shows "once (snd (send_quote mk control config quote now w))"
proof -
  let ?cmds = "quote_commands (mf_Pair config) now quote"
  obtain r w1 where claim: "claim_all config quote (mc_DryRun control) ?cmds True w = (r, w1)" by fastforce
  have one: "once w1" using once_calm [OF assms movesD [OF claim_all_calm claim] movesD [OF claim_all_logs claim]] .
  show ?thesis
  proof (cases "r = Inr True \<and> \<not> mc_DryRun control")
    case False
    then show ?thesis using one claim decide_once [OF one]
      by (cases r) (auto simp: send_quote_def Let_def bindM_def split: prod.splits sum.splits)
  next
    case True
    then have live: "r = Inr True" "\<not> mc_DryRun control" by auto
    note new = claim_all_new [OF claim [unfolded live(1)]]
    obtain c w2 where cancel: "cancelExisting mk control (mf_Pair config) now w1 = (c, w2)" by fastforce
    have calm2: "calm w1 w2" "logs w1 w2" using movesD [OF cancelExisting_calm cancel] movesD [OF cancelExisting_logs cancel] .
    show ?thesis
    proof (cases c)
      case (Inl e)
      then show ?thesis using live claim cancel once_calm [OF one calm2] by (simp add: send_quote_def Let_def bindM_def)
    next
      case (Inr u)
      have "placed_keys w2 = placed_keys w" using calm_placed [OF calm2(1)] new placed_keys_append [of w1 w "[]"] by (simp add: map_filter_simps)
      then have "once (snd (place_all mk control config quote ?cmds w2))"
        using assms new calm2(2) by (intro place_all_once [of w2 "log_keys w"]) (auto simp: once_def logs_def)
      then show ?thesis using live claim cancel Inr decide_once
        by (auto simp: send_quote_def Let_def bindM_def split: prod.splits sum.splits)
    qed
  qed
qed

lemma quotePair_once:
  assumes "once w"
  shows "once (snd (quotePair mk control config w))"
proof -
  have halt: "once (snd (halt_pair pair err ref now w))" for pair err ref now
    by (rule once_moves [OF assms decisions_calm(2)]) (auto simp: halt_pair_def decide_def intro!: logs_intros)
  have risk: "once (snd (bindM (risk_checked control config quote now) (\<lambda>_. send_quote mk control config quote now) w))" for quote now
  proof (cases "risk_checked control config quote now w")
    case (Pair r w1)
    have "moves logs (risk_checked control config quote now)"
      unfolding risk_checked_def halt_pair_def decide_def by (auto intro!: logs_intros split: option.splits)
    then have "once w1" using once_calm [OF assms movesD [OF decisions_calm(3) Pair]] movesD Pair by blast
    then show ?thesis using Pair send_quote_once by (cases r) (auto simp: bindM_def)
  qed
  have "bindM (returnM ()) (\<lambda>_. send_quote mk control config quote now) w = send_quote mk control config quote now w" for quote now
    by (simp add: bindM_def returnM_def)
  then show ?thesis using halt risk send_quote_once [OF assms] by (auto simp: quotePair_def Let_def split: sum.splits)
qed

lemma Cycle_once:
  assumes "once w"
  shows "once (snd (Cycle mk w))"
proof -
  have quote: "once w \<Longrightarrow> once (snd (quote_all mk control configs w))" for control configs w
    by (induction configs arbitrary: w) (auto simp: Let_def split_def quotePair_once)
  have stop: "once w \<Longrightarrow> once (snd (stop_all mk control configs w))" for control configs w
    by (induction configs arbitrary: w) (auto simp: Let_def split_def once_moves cancelExisting_calm cancelExisting_logs)
  show ?thesis
  proof (cases "tablesM LoadControl_tx w")
    case (Pair r w1)
    then have "w1 = w" using LoadControl_cases by (cases r) blast+
    then show ?thesis using Pair assms quote stop
      by (cases r) (auto simp: Cycle_def stopExisting_def ListConfigs_run split_def Let_def)
  qed
qed

text \<open>The market maker beside the other users of the exchange and its operators.\<close>

inductive maker_step :: "mm_world \<Rightarrow> mm_world \<Rightarrow> bool" where
  cycle: "Cycle mk w = (errs, w') \<Longrightarrow> maker_step w w'"
| trading: "service_step (mw_service w) sw \<Longrightarrow> maker_step w (w\<lparr>mw_service := sw\<rparr>)"
| configure: "maker_step w (w\<lparr>mw_tables := (mw_tables w)\<lparr>market_maker_control := c, market_maker_configs := cs, market_maker_risk_state := rs\<rparr>\<rparr>)"

lemma maker_step_once: "maker_step w w' \<Longrightarrow> once w \<Longrightarrow> once w'"
proof (induction rule: maker_step.induct)
  case (cycle mk w errs w')
  then show ?case using Cycle_once [of w mk] by simp
qed (auto simp: once_def placed_keys_def log_keys_def)

section \<open>Limits\<close>

text \<open>The checks of the tables the configuration is read from (migrations 1, 54 and 65).\<close>

definition config_checks :: "mm_world \<Rightarrow> bool" where
  "config_checks w \<longleftrightarrow>
     (\<forall>c \<in> set (market_maker_configs (mw_tables w)). 2 \<le> mg_spread_bps c \<and> mg_spread_bps c \<le> 10000 \<and> 0 < mg_quantity c) \<and>
     (\<forall>p \<in> set (trading_pairs (sw_db (mw_service w))). 0 \<le> pr_price_scale p \<and> pr_price_scale p \<le> 18 \<and>
        0 \<le> pr_quantity_scale p \<and> pr_quantity_scale p \<le> 18) \<and>
     (\<forall>a \<in> set (assets (sw_db (mw_service w))). 0 \<le> as_decimals a \<and> as_decimals a \<le> 36)"

text \<open>\<open>w\<close> is the state at the start of the cycle, \<open>v\<close> the state in which the risk was read.\<close>

definition within_limits :: "mm_world \<Rightarrow> mm_world \<Rightarrow> PlaceOrderInput \<Rightarrow> bool" where
  "within_limits w v input \<longleftrightarrow>
     (let c = market_maker_control (mw_tables w); db = sw_db (mw_service w); db' = sw_db (mw_service v) in
      mo_enabled c \<and> \<not> mo_dry_run c \<and> \<not> mo_kill_switch c \<and> mo_user c = Some (in_UserID input) \<and> mo_account c = Some (in_AccountID input) \<and>
      in_Type input = ''LIMIT'' \<and> in_PostOnly input \<and>
      (\<exists>cfg \<in> set (market_maker_configs (mw_tables w)). \<exists>p \<in> set (trading_pairs db). \<exists>a \<in> set (assets db). \<exists>p' price inventory pnl.
         mg_enabled cfg \<and> mg_pair cfg = in_Pair input \<and> pr_symbol p = in_Pair input \<and> pr_status p = ''active'' \<and> as_id a = pr_quote p \<and>
         in_Quantity input = BigString (mg_quantity cfg) \<and> SetString (in_Price input) = Some price \<and> 0 < price \<and> pr_tick p dvd price \<and>
         price * mg_quantity cfg * 10 ^ nat (as_decimals a) \<le> mg_max_notional cfg * 10 ^ nat (pr_price_scale p + pr_quantity_scale p) \<and>
         find (\<lambda>p. pr_symbol p = in_Pair input) (trading_pairs db') = Some p' \<and>
         inventory = posted_asset_sum db' (in_AccountID input) (pr_base p') \<and>
         mg_quantity cfg \<le> inventory \<and> inventory + mg_quantity cfg \<le> mg_max_inventory cfg \<and>
         (in_Pair input, pnl) \<in> set (snd (snd (settings w))) \<and> (pnl < 0 \<longrightarrow> - pnl < mg_max_loss cfg)))"

lemma config_of_simps [simp]:
  "mf_Pair (config_of p a c) = mg_pair c" "mf_PairStatus (config_of p a c) = pr_status p" "mf_Enabled (config_of p a c) = mg_enabled c"
  "mf_PriceScale (config_of p a c) = pr_price_scale p" "mf_QuantityScale (config_of p a c) = pr_quantity_scale p"
  "mf_QuoteScale (config_of p a c) = as_decimals a" "mf_PriceTickAtomic (config_of p a c) = BigString (pr_tick p)"
  "mf_QuantityAtomic (config_of p a c) = BigString (mg_quantity c)" "mf_MaxBaseInventoryAtomic (config_of p a c) = BigString (mg_max_inventory c)"
  "mf_MaxQuoteNotionalAtomic (config_of p a c) = BigString (mg_max_notional c)" "mf_MaxDailyLossAtomic (config_of p a c) = BigString (mg_max_loss c)"
  "mf_SpreadBPS (config_of p a c) = word_of_int (mg_spread_bps c)"
  by (simp_all add: config_of_def)

lemma cycle_configs_member:
  assumes "config \<in> set (cycle_configs w)"
  shows "\<exists>cfg \<in> set (market_maker_configs (mw_tables w)). \<exists>p \<in> set (trading_pairs (sw_db (mw_service w))). \<exists>a \<in> set (assets (sw_db (mw_service w))).
    config = config_of p a cfg \<and> pr_symbol p = mg_pair cfg \<and> as_id a = pr_quote p"
  using assms by (fastforce simp: cycle_configs_def ListConfigs_tx_def queryT_def)

lemma Risk_Inr:
  assumes "Risk_tx acc pair db t = Inr (risk, t')"
  shows "\<exists>p r. find (\<lambda>p. pr_symbol p = pair) (trading_pairs db) = Some p \<and> r \<in> set (market_maker_risk_state t) \<and> mr_pair r = pair \<and>
    rk_BaseInventoryAtomic risk = BigString (posted_asset_sum db acc (pr_base p)) \<and> rk_DailyPnLQuoteAtomic risk = BigString (mr_pnl r)"
  using assms by (auto simp: Risk_tx_def tx_simps split: option.splits dest!: find_SomeD)

lemma justified_limits:
  assumes j: "justified mk control (config_of p a cfg) v i" and q: "0 < mg_quantity cfg" and sp: "2 \<le> mg_spread_bps cfg" "mg_spread_bps cfg \<le> 10000"
    and sc: "0 \<le> pr_price_scale p" "pr_price_scale p \<le> 18" "0 \<le> pr_quantity_scale p" "pr_quantity_scale p \<le> 18" "0 \<le> as_decimals a" "as_decimals a \<le> 36"
  shows "\<exists>p' r price. find (\<lambda>p. pr_symbol p = mg_pair cfg) (trading_pairs (sw_db (mw_service v))) = Some p' \<and>
    r \<in> set (market_maker_risk_state (mw_tables v)) \<and> mr_pair r = mg_pair cfg \<and> \<not> mc_DryRun control \<and> pr_status p = ''active'' \<and>
    SetString (in_Price i) = Some price \<and> 0 < price \<and> pr_tick p dvd price \<and>
    price * mg_quantity cfg * 10 ^ nat (as_decimals a) \<le> mg_max_notional cfg * 10 ^ nat (pr_price_scale p + pr_quantity_scale p) \<and>
    mg_quantity cfg \<le> posted_asset_sum (sw_db (mw_service v)) (mc_AccountID control) (pr_base p') \<and>
    posted_asset_sum (sw_db (mw_service v)) (mc_AccountID control) (pr_base p') + mg_quantity cfg \<le> mg_max_inventory cfg \<and>
    (mr_pnl r < 0 \<longrightarrow> - mr_pnl r < mg_max_loss cfg) \<and> in_UserID i = mc_UserID control \<and> in_AccountID i = mc_AccountID control \<and>
    in_Pair i = mg_pair cfg \<and> in_Quantity i = BigString (mg_quantity cfg) \<and> in_Type i = ''LIMIT'' \<and> in_PostOnly i"
proof -
  obtain quote risk key side price where live: "\<not> mc_DryRun control" "pr_status p = ''active''"
    and ref: "Reference (mk_env mk) (config_of p a cfg) (mk_now mk (mg_pair cfg)) (mk_feeds mk (mg_pair cfg)) = Inr quote"
    and rk: "Risk_tx (mc_AccountID control) (mg_pair cfg) (sw_db (mw_service v)) (mw_tables v) = Inr (risk, mw_tables v)"
    and ok: "checkRisk (config_of p a cfg) risk quote = None"
    and cmd: "(key, side, price) \<in> set (quote_commands (mg_pair cfg) (mk_now mk (mg_pair cfg)) quote)"
    and i: "i = place_input control (config_of p a cfg) quote key side price"
    using j by (auto simp: justified_def)
  have spread: "0 \<le> sint (mf_SpreadBPS (config_of p a cfg))" using sp wrap64_small [of "mg_spread_bps cfg"] by (simp add: wrap64_def)
  obtain bid ask where quote: "SetString (qt_BidPriceAtomic quote) = Some bid" "SetString (qt_AskPriceAtomic quote) = Some ask"
    "0 < bid" "bid < ask" "pr_tick p dvd bid" "pr_tick p dvd ask" "qt_QuantityAtomic quote = BigString (mg_quantity cfg)"
    using Reference_Inr [OF ref spread] Reference_quantity [OF ref] by auto
  obtain p' r where r: "find (\<lambda>p. pr_symbol p = mg_pair cfg) (trading_pairs (sw_db (mw_service v))) = Some p'"
    "r \<in> set (market_maker_risk_state (mw_tables v))" "mr_pair r = mg_pair cfg"
    "rk_BaseInventoryAtomic risk = BigString (posted_asset_sum (sw_db (mw_service v)) (mc_AccountID control) (pr_base p'))"
    "rk_DailyPnLQuoteAtomic risk = BigString (mr_pnl r)" using Risk_Inr [OF rk] by blast
  have lim: "mg_quantity cfg \<le> posted_asset_sum (sw_db (mw_service v)) (mc_AccountID control) (pr_base p')"
    "posted_asset_sum (sw_db (mw_service v)) (mc_AccountID control) (pr_base p') + mg_quantity cfg \<le> mg_max_inventory cfg"
    "mr_pnl r < 0 \<longrightarrow> - mr_pnl r < mg_max_loss cfg"
    "ask * mg_quantity cfg * 10 ^ nat (as_decimals a) \<le> mg_max_notional cfg * 10 ^ nat (pr_price_scale p + pr_quantity_scale p)"
    using checkRisk_None [OF ok quote(2) _ _ _, of "mg_quantity cfg"] quote(3,4) q sc r(4,5) by auto
  have price: "SetString price = Some bid \<or> SetString price = Some ask" using cmd quote(1,2) by (auto simp: quote_commands_def)
  then obtain n where n: "SetString price = Some n" "0 < n" "n \<le> ask" "pr_tick p dvd n" using quote by fastforce
  have "n * mg_quantity cfg * 10 ^ nat (as_decimals a) \<le> ask * mg_quantity cfg * 10 ^ nat (as_decimals a)" using n(3) q by simp
  then show ?thesis using live r lim n i quote(7) by (intro exI [of _ p'] exI [of _ r] exI [of _ n]) (auto simp: place_input_def)
qed

section \<open>An example\<close>

definition demo_maker :: maker where
  "demo_maker = \<lparr>mk_env = plain_env, mk_now = (\<lambda>_. 2000), mk_stop_now = 2000,
     mk_feeds = (\<lambda>_. map (\<lambda>n. (n, Inr \<lparr>sp_Bid = ''100'', sp_Ask = ''100'', sp_ObservedAt = 1000\<rparr>)) [''a'', ''b'']),
     mk_gateway = (\<lambda>_. demo_service)\<rparr>"

definition demo_mm :: mm_world where
  "demo_mm = \<lparr>mw_tables = \<lparr>
       market_maker_control = \<lparr>mo_enabled = True, mo_dry_run = False, mo_kill_switch = False, mo_user = Some ''u2'', mo_account = Some ''a2''\<rparr>,
       market_maker_configs = [\<lparr>mg_pair = ''BTCUSDT'', mg_enabled = True, mg_spread_bps = 200, mg_quantity = 100, mg_max_inventory = 1000,
         mg_max_notional = 20000, mg_max_loss = 10, mg_max_divergence_bps = 100, mg_stale_after_seconds = 10\<rparr>],
       market_maker_risk_state = [\<lparr>mr_pair = ''BTCUSDT'', mr_pnl = 0, mr_last_reference = None, mr_last_decision = ''disabled'',
         mr_last_reason = [], mr_updated_at = 0\<rparr>],
       market_maker_command_log = []\<rparr>,
     mw_service = demo_world, mw_calls = []\<rparr>"

definition demo_maker_config :: Config where
  "demo_maker_config = hd (cycle_configs demo_mm)"

lemma demo_maker_configs: "cycle_configs demo_mm = [demo_maker_config]"
  by (simp add: demo_maker_config_def cycle_configs_def ListConfigs_tx_def queryT_def demo_mm_def demo_world_def demo_db_def)

lemma demo_maker_config: "demo_maker_config = config_of (hd (trading_pairs demo_db)) (assets demo_db ! 1) (hd (market_maker_configs (mw_tables demo_mm)))"
  by (simp add: demo_maker_config_def cycle_configs_def ListConfigs_tx_def queryT_def demo_mm_def demo_world_def demo_db_def)

lemma demo_price: "decimalToAtomic ''100'' 0 = Inr 100"
  by (simp add: decimalToAtomic_def is_digit_def SetString_def all_digits_def digits_val_def digit_val_def)

lemma demo_maker_prices:
  "collect plain_env demo_maker_config 2000 (mk_feeds demo_maker ''BTCUSDT'') [] [] zero_time = ([100, 100], 1000)"
  by (simp add: demo_maker_def demo_maker_config config_of_def demo_db_def demo_mm_def feed_name_def plain_env_def ToLower_def ascii_def
      lower_byte_def TrimSpace_graphic graphic_def feed_price_def zero_time_def time_sub_def demo_price)

lemma demo_maker_quote:
  "Reference plain_env demo_maker_config 2000 (mk_feeds demo_maker ''BTCUSDT'') = Inr \<lparr>qt_Pair = ''BTCUSDT'', qt_ReferencePriceAtomic = BigString 100,
     qt_BidPriceAtomic = BigString 99, qt_AskPriceAtomic = BigString 101, qt_QuantityAtomic = BigString 100, qt_ObservedAt = 1000\<rparr>"
  unfolding Reference_def demo_maker_prices
  by (simp add: median_of_def make_quote_def demo_maker_config demo_mm_def demo_db_def ceilQuo_def Let_def wrap64_small config_of_def)

lemma calls_kept: "moves (calls_only P) m \<Longrightarrow> set (mw_calls w) \<subseteq> set (mw_calls (snd (m w)))"
  unfolding moves_def calls_only_def by (metis Un_upper1 set_append)

lemma bindM_calls:
  assumes "call \<in> set (mw_calls (snd (m w)))" "\<And>x. moves (calls_only P) (f x)"
  shows "call \<in> set (mw_calls (snd (bindM m f w)))"
  using assms(1) subsetD [OF calls_kept [OF assms(2)]] by (auto simp: bindM_def split: prod.splits sum.splits)

lemma place_all_called:
  "PlaceCall (place_input control config quote key side price) \<in> set (mw_calls (snd (place_all mk control config quote ((key, side, price) # rest) w)))"
  unfolding place_all.simps Let_def
  by (rule bindM_calls [where P = "\<lambda>_. True"])
    (auto simp: gatewayM_def split: prod.splits intro!: only_rel.moves_bind place_all_only calm_moves [OF store_calm(5)])

lemma demo_window: "window_key ''BTCUSDT'' 2000 side = ''market-maker:BTCUSDT:0:'' @ side"
  by (simp add: window_key_def unix_seconds_def truncate_time_def zero_time_def BigString_def digits_of.simps digit_def char_numeral_eq)

abbreviation demo_quote :: Quote where
  "demo_quote \<equiv> \<lparr>qt_Pair = ''BTCUSDT'', qt_ReferencePriceAtomic = BigString 100,
     qt_BidPriceAtomic = BigString 99, qt_AskPriceAtomic = BigString 101, qt_QuantityAtomic = BigString 100, qt_ObservedAt = 1000\<rparr>"

abbreviation demo_control :: Control where
  "demo_control \<equiv> \<lparr>mc_Enabled = True, mc_DryRun = False, mc_KillSwitch = False, mc_UserID = ''u2'', mc_AccountID = ''a2''\<rparr>"

lemma demo_control: "tablesM LoadControl_tx demo_mm = (Inr demo_control, demo_mm)"
  by (simp add: tablesM_def transaction_def LoadControl_tx_def tx_defs demo_mm_def demo_world_def demo_db_def control_of_def)

lemma demo_risk: "risk_checked demo_control demo_maker_config demo_quote 2000 demo_mm = (Inr (), demo_mm)"
  by (simp add: risk_checked_def tablesM_def transaction_def Risk_tx_def rowT_def bindM_def demo_mm_def demo_world_def demo_maker_config
      demo_db_def posted_asset_sum_def posted_journal_def signed_amount_def checkRisk_def pow10_def ceilQuo_def wrap64_small returnM_def config_of_def)

lemma demo_filter: "clean_filter plain_env \<lparr>f_Status = st, f_Pair = ''BTCUSDT'', f_History = False, f_Limit = 200, f_Offset = 0\<rparr> =
    \<lparr>f_Status = st, f_Pair = ''BTCUSDT'', f_History = False, f_Limit = 200, f_Offset = 0\<rparr>"
  if "st \<in> {''PENDING'', ''OPEN'', ''PARTIALLY_FILLED''}"
  using that by (auto simp: clean_filter_def plain_env_def TrimSpace_graphic graphic_def ToUpper_def ascii_def upper_byte_def)

lemma demo_no_orders: "ListOrders demo_service ''u2'' ''a2''
    \<lparr>f_Status = st, f_Pair = ''BTCUSDT'', f_History = False, f_Limit = 200, f_Offset = 0\<rparr> demo_world = (Inr [], demo_world)"
  if "st \<in> {''PENDING'', ''OPEN'', ''PARTIALLY_FILLED''}"
proof -
  have "validOrderStatus st" "validPair ''BTCUSDT''" using that by (auto simp: validOrderStatus_def validPair_def is_upper_def)
  moreover have "sv_env demo_service = plain_env" by (simp add: demo_service_def)
  moreover have "TrimSpace ''u2'' = ''u2''" "TrimSpace ''a2'' = ''a2''" by (simp_all add: TrimSpace_graphic graphic_def)
  moreover have "orders_with_commands demo_db = []" by (simp add: orders_with_commands_def demo_db_def)
  ultimately show ?thesis
    by (simp add: ListOrders_def demo_filter [OF that] storeS_def transaction_def ListOrders_tx_def tx_defs demo_world_def)
qed

lemma demo_list:
  assumes "mw_service w = demo_world" "st \<in> {''PENDING'', ''OPEN'', ''PARTIALLY_FILLED''}"
  shows "gatewayM demo_maker call (\<lambda>sv. ListOrders sv ''u2'' ''a2''
    \<lparr>f_Status = st, f_Pair = ''BTCUSDT'', f_History = False, f_Limit = 200, f_Offset = 0\<rparr>) w = (Inr [], w\<lparr>mw_calls := mw_calls w @ [call]\<rparr>)"
  using assms demo_no_orders [OF assms(2)] by (simp add: gatewayM_def demo_maker_def)

lemma demo_cancel:
  assumes "mw_service w = demo_world"
  shows "\<exists>w'. cancelExisting demo_maker demo_control ''BTCUSDT'' 2000 w = (Inr (), w')"
  using assms by (simp add: cancelExisting_def Let_def bindM_def demo_list returnM_def)

lemma demo_claim:
  "\<exists>w'. claim_all demo_maker_config demo_quote False (quote_commands ''BTCUSDT'' 2000 demo_quote) True demo_mm = (Inr True, w') \<and>
     mw_service w' = demo_world"
  by (simp add: quote_commands_def demo_window demo_maker_config bindM_def tablesM_def transaction_def ClaimCommand_tx_def claim_row_def
      tx_defs numeric_column_def demo_mm_def demo_world_def demo_db_def returnM_def)

lemma demo_cycle:
  "PlaceCall (place_input demo_control demo_maker_config demo_quote (window_key ''BTCUSDT'' 2000 ''buy'') ''BUY'' (BigString 99))
     \<in> set (mw_calls (snd (Cycle demo_maker demo_mm)))"
proof -
  let ?place = "place_all demo_maker demo_control demo_maker_config demo_quote (quote_commands ''BTCUSDT'' 2000 demo_quote)"
  let ?done = "\<lambda>_. decide ''BTCUSDT'' ''quoting'' [] (BigString 100) 2000"
  have cmds: "quote_commands ''BTCUSDT'' 2000 demo_quote =
      [(window_key ''BTCUSDT'' 2000 ''buy'', ''BUY'', BigString 99), (window_key ''BTCUSDT'' 2000 ''sell'', ''SELL'', BigString 101)]"
    by (simp add: quote_commands_def)
  obtain w1 where c: "claim_all demo_maker_config demo_quote False (quote_commands ''BTCUSDT'' 2000 demo_quote) True demo_mm = (Inr True, w1)"
    "mw_service w1 = demo_world" using demo_claim by blast
  obtain w2 where x: "cancelExisting demo_maker demo_control ''BTCUSDT'' 2000 w1 = (Inr (), w2)" using demo_cancel [OF c(2)] by blast
  have conf: "mf_Pair demo_maker_config = ''BTCUSDT''" "mf_PairStatus demo_maker_config = ''active''" "mf_Enabled demo_maker_config"
    by (simp_all add: demo_maker_config demo_mm_def demo_db_def)
  have maker: "mk_env demo_maker = plain_env" "mk_now demo_maker ''BTCUSDT'' = 2000" by (simp_all add: demo_maker_def)
  have "send_quote demo_maker demo_control demo_maker_config demo_quote 2000 demo_mm = bindM ?place ?done w2"
    using c x conf by (simp add: send_quote_def Let_def bindM_def)
  then have "quotePair demo_maker demo_control demo_maker_config demo_mm = bindM ?place ?done w2"
    using conf maker demo_maker_quote demo_risk by (simp add: quotePair_def Let_def bindM_def)
  then have "snd (Cycle demo_maker demo_mm) = snd (bindM ?place ?done w2)"
    using conf by (simp add: Cycle_def demo_control ListConfigs_run demo_maker_configs Let_def split_def)
  moreover have "PlaceCall (place_input demo_control demo_maker_config demo_quote (window_key ''BTCUSDT'' 2000 ''buy'') ''BUY'' (BigString 99))
      \<in> set (mw_calls (snd (bindM ?place ?done w2)))"
    unfolding cmds by (rule bindM_calls [where P = "\<lambda>_. True", OF place_all_called calm_moves [OF decisions_calm(1)]])
  ultimately show ?thesis by simp
qed

section \<open>Properties\<close>

text \<open>
  C19: the market maker trades within its limits. Every order a cycle places is a post-only limit
  order of the configured internal account, placed while the control row is enabled, live and not
  killed, on an enabled and active pair, at a positive price on the tick grid, for the configured
  quantity; its notional value is within the pair's notional limit, the account holds at least the
  quantity and stays within the inventory limit, and the day's loss is below the loss limit, with
  inventory and result read from the ledger in a state the trading service reached during the cycle.
\<close>

theorem maker_orders_within_limits:
  assumes "config_checks w" "Cycle mk w = (errs, w')" "mw_calls w' = mw_calls w @ new" "PlaceCall input \<in> set new"
  shows "\<exists>v. service_step\<^sup>*\<^sup>* (mw_service w) (mw_service v) \<and> within_limits w v input"
proof -
  have "calls_only (\<lambda>i. mc_Enabled (cycle_control w) \<and> \<not> mc_KillSwitch (cycle_control w) \<and> mc_UserID (cycle_control w) \<noteq> [] \<and>
      mc_AccountID (cycle_control w) \<noteq> [] \<and>
      (\<exists>config \<in> set (cycle_configs w). mf_Enabled config \<and> (\<exists>v. served w v \<and> justified mk (cycle_control w) config v i))) w w'"
    using Cycle_only [of w mk] assms(2) by simp
  then obtain config v where c: "mc_Enabled (cycle_control w)" "\<not> mc_KillSwitch (cycle_control w)" "mc_UserID (cycle_control w) \<noteq> []"
      "mc_AccountID (cycle_control w) \<noteq> []" "config \<in> set (cycle_configs w)" "mf_Enabled config"
      and v: "served w v" "justified mk (cycle_control w) config v input"
    using assms(3,4) unfolding calls_only_def by auto
  obtain cfg p a where cfg: "cfg \<in> set (market_maker_configs (mw_tables w))" "p \<in> set (trading_pairs (sw_db (mw_service w)))"
    "a \<in> set (assets (sw_db (mw_service w)))" "config = config_of p a cfg" "pr_symbol p = mg_pair cfg" "as_id a = pr_quote p"
    using cycle_configs_member [OF c(5)] by blast
  have chk: "0 < mg_quantity cfg" "2 \<le> mg_spread_bps cfg" "mg_spread_bps cfg \<le> 10000" "0 \<le> pr_price_scale p" "pr_price_scale p \<le> 18"
    "0 \<le> pr_quantity_scale p" "pr_quantity_scale p \<le> 18" "0 \<le> as_decimals a" "as_decimals a \<le> 36"
    using assms(1) cfg(1-3) unfolding config_checks_def by auto
  obtain p' r price where lim: "find (\<lambda>p. pr_symbol p = mg_pair cfg) (trading_pairs (sw_db (mw_service v))) = Some p'"
    "r \<in> set (market_maker_risk_state (mw_tables v))" "mr_pair r = mg_pair cfg" "\<not> mc_DryRun (cycle_control w)" "pr_status p = ''active''"
    "SetString (in_Price input) = Some price" "0 < price" "pr_tick p dvd price"
    "price * mg_quantity cfg * 10 ^ nat (as_decimals a) \<le> mg_max_notional cfg * 10 ^ nat (pr_price_scale p + pr_quantity_scale p)"
    "mg_quantity cfg \<le> posted_asset_sum (sw_db (mw_service v)) (mc_AccountID (cycle_control w)) (pr_base p')"
    "posted_asset_sum (sw_db (mw_service v)) (mc_AccountID (cycle_control w)) (pr_base p') + mg_quantity cfg \<le> mg_max_inventory cfg"
    "mr_pnl r < 0 \<longrightarrow> - mr_pnl r < mg_max_loss cfg" "in_UserID input = mc_UserID (cycle_control w)" "in_AccountID input = mc_AccountID (cycle_control w)"
    "in_Pair input = mg_pair cfg" "in_Quantity input = BigString (mg_quantity cfg)" "in_Type input = ''LIMIT''" "in_PostOnly input"
    using justified_limits [OF v(2) [unfolded cfg(4)] chk] by blast
  have "(mg_pair cfg, mr_pnl r) \<in> set (snd (snd (settings v)))" using lim(2,3) by (force simp: settings_def)
  then have pnl: "(mg_pair cfg, mr_pnl r) \<in> set (snd (snd (settings w)))" using v(1) by (simp add: served_def)
  have user: "mo_user (market_maker_control (mw_tables w)) = Some (in_UserID input)" "mo_account (market_maker_control (mw_tables w)) = Some (in_AccountID input)"
    using c(3,4) lim(13,14) by (auto simp: cycle_control_def control_of_def split: option.splits)
  have ctl: "mo_enabled (market_maker_control (mw_tables w))" "\<not> mo_dry_run (market_maker_control (mw_tables w))"
    "\<not> mo_kill_switch (market_maker_control (mw_tables w))" "mg_enabled cfg"
    using c(1,2,6) lim(4) cfg(4) by (simp_all add: cycle_control_def control_of_def)
  have "within_limits w v input"
    unfolding within_limits_def Let_def lim(15)
    using ctl user lim cfg pnl by (intro conjI bexI [OF _ cfg(1)] bexI [OF _ cfg(2)] bexI [OF _ cfg(3)] exI [of _ p'] exI [of _ price]
        exI [of _ "posted_asset_sum (sw_db (mw_service v)) (mc_AccountID (cycle_control w)) (pr_base p')"] exI [of _ "mr_pnl r"]) simp_all
  then show ?thesis using v(1) by (auto simp: served_def)
qed

theorem maker_orders_within_limits_witness:
  "\<exists>input v. PlaceCall input \<in> set (mw_calls (snd (Cycle demo_maker demo_mm))) \<and> service_step\<^sup>*\<^sup>* demo_world (mw_service v) \<and>
     within_limits demo_mm v input"
proof -
  have "config_checks demo_mm" by (simp add: config_checks_def demo_mm_def demo_world_def demo_db_def)
  from maker_orders_within_limits [OF this surjective_pairing _ demo_cycle]
  have "\<exists>v. service_step\<^sup>*\<^sup>* (mw_service demo_mm) (mw_service v) \<and> within_limits demo_mm v
      (place_input demo_control demo_maker_config demo_quote (window_key ''BTCUSDT'' 2000 ''buy'') ''BUY'' (BigString 99))"
    by (simp add: demo_mm_def)
  then show ?thesis using demo_cycle by (auto simp: demo_mm_def)
qed

text \<open>
  C20: each command is placed once. Whatever the other users of the exchange do and however the
  operators reconfigure the market maker between cycles, the idempotency keys of the orders it
  places are claimed in the command log and never used twice; since the key names the pair, the side and
  the five-second window, a window has at most one buy and one sell order of the market maker per pair,
  even when cycles are repeated or overlap a restart.
\<close>

theorem maker_places_once:
  assumes "once w" "maker_step\<^sup>*\<^sup>* w t"
  shows "distinct (placed_keys t) \<and> set (placed_keys t) \<subseteq> set (log_keys t)"
proof -
  have "once t" using assms(2,1) by (induction rule: rtranclp_induct) (auto intro: maker_step_once)
  then show ?thesis by (simp add: once_def)
qed

theorem maker_places_once_witness:
  "placed_keys (snd (Cycle demo_maker demo_mm)) \<noteq> [] \<and> distinct (placed_keys (snd (Cycle demo_maker (snd (Cycle demo_maker demo_mm)))))"
proof -
  have "once demo_mm" by (simp add: once_def placed_keys_def demo_mm_def map_filter_simps)
  moreover have "maker_step\<^sup>*\<^sup>* demo_mm (snd (Cycle demo_maker (snd (Cycle demo_maker demo_mm))))"
    by (meson maker_step.cycle surjective_pairing rtranclp.rtrancl_refl rtranclp.rtrancl_into_rtrancl)
  ultimately have "distinct (placed_keys (snd (Cycle demo_maker (snd (Cycle demo_maker demo_mm)))))"
    using maker_places_once by blast
  moreover have "window_key ''BTCUSDT'' 2000 ''buy'' \<in> set (placed_keys (snd (Cycle demo_maker demo_mm)))"
    using demo_cycle unfolding placed_keys_def by (force simp: map_filter_def place_input_def)
  ultimately show ?thesis by auto
qed



end
