(* ===== verification/Custody_DB.thy ===== *)
theory Custody_DB
  imports Ledger_DB Orders "HOL-Library.List_Lexorder" "HOL-Library.Char_ord" "HOL-Library.Product_Lexorder"
begin

text \<open>
  The tables behind transfers, deposits, withdrawals and conversions (internal/datamanager), as an extension of
  the ledger tables, with the columns the statements read or write and the keys and checks they
  can run into. Ids are canonical UUID texts. \<open>custody_assets\<close> holds the columns
  \<open>custody_asset_id\<close> and \<open>confirmations_required\<close> of \<open>assets\<close>; the columns
  \<open>transfer_id\<close> and \<open>withdrawal_id\<close> of \<open>journals\<close> are the tables
  \<open>transfer_journals\<close> and \<open>withdrawal_journals\<close>. Database times are microseconds.
\<close>

section \<open>Errors\<close>

datatype custody_error =
    ErrDepositNotCreditable
  | ErrWithdrawalNotAllowed
  | ErrWithdrawalKYCRequired
  | ErrWithdrawalAccountUnavailable
  | ErrInsufficientWithdrawalBalance
  | ErrWithdrawalNotApprovable
  | ErrWithdrawalsDisabled
  | ErrWithdrawalNotCancellable
  | ErrWithdrawalIdempotencyConflict
  | ErrWithdrawalDispatchChanged
  | ErrWithdrawalDepositLimit
  | ErrWithdrawalCapacityRouteUnavailable
  | ErrWithdrawalCustodyCapacity
  | ErrWithdrawalCapacityObservation
  | ErrWithdrawalCapacityRouteActor
  | ErrWithdrawalCapacityRouteConflict
  | ErrWithdrawalAddressUnavailable
  | ErrInvalidInput
  | ErrNetworkNotApproved
  | ErrNotDepositEvent
  | ErrInvalidDepositRequest
  | ErrRouteUnavailable
  | ErrProviderUnavailable
  | ErrAdministratorRoleRequired
  | ErrConversionPairUnavailable
  | ErrConversionQuoteExpired
  | ErrConversionQuoteNotConfirmable
  | ErrConversionInsufficientBalance
  | ErrConversionsDisabled
  | ErrQuoteUnavailable
  | ErrLockKey
  | ErrRowMissing
  | ErrScanNull
  | ErrText string

type_synonym custody_failure = "custody_error failure"

section \<open>Tables\<close>

record custody_asset_row =
  xa_asset :: string
  xa_custody_id :: string
  xa_confirmations :: int

record kyc_row =
  ky_user :: string
  ky_status :: string
  ky_expires_at :: "int option"

record subaccount_row =
  sb_main :: string
  sb_account :: string
  sb_status :: string

record transfer_row =
  tf_id :: string
  tf_sender :: string
  tf_source :: string
  tf_destination :: string
  tf_asset :: string
  tf_amount :: int
  tf_key :: string

record wallet_row =
  wl_id :: string
  wl_user :: string
  wl_provider :: string
  wl_vault :: "string option"
  wl_status :: string

record deposit_address_row =
  da_id :: string
  da_user :: string
  da_asset :: string
  da_wallet :: string
  da_provider_id :: "string option"
  da_address :: string
  da_tag :: string
  da_status :: string

record deposit_row =
  dp_id :: string
  dp_user :: string
  dp_asset :: string
  dp_address :: string
  dp_wallet :: string
  dp_provider_tx :: string
  dp_hash :: string
  dp_index :: string
  dp_amount :: int
  dp_confirmations :: int
  dp_required :: int
  dp_status :: string
  dp_risk :: string
  dp_block_hash :: string
  dp_block_height :: string
  dp_credited_at :: "int option"

record withdrawal_address_row =
  wa_id :: string
  wa_user :: string
  wa_asset :: string
  wa_address :: string
  wa_tag :: string
  wa_label :: string
  wa_status :: string
  wa_whitelisted :: bool
  wa_activated_at :: "int option"
  wa_created_at :: int

record withdrawal_row =
  wd_id :: string
  wd_user :: string
  wd_account :: string
  wd_asset :: string
  wd_address_id :: "string option"
  wd_destination :: string
  wd_tag :: string
  wd_amount :: int
  wd_key :: string
  wd_status :: string
  wd_provider_tx :: "string option"
  wd_hash :: string
  wd_created_at :: int

record entitlement_row =
  en_withdrawal :: string
  en_user :: string
  en_asset :: string
  en_amount :: int
  en_credited :: int
  en_committed :: int

record WithdrawalForCustody =
  wc_ID :: string
  wc_UserID :: string
  wc_AssetID :: string
  wc_SourceVaultID :: string
  wc_CustodyAssetID :: string
  wc_Network :: string
  wc_DestinationAddress :: string
  wc_DestinationTag :: string
  wc_AmountAtomic :: string
  wc_AssetDecimals :: int

record dispatch_row =
  ds_withdrawal :: string
  ds_provider :: string
  ds_request :: WithdrawalForCustody
  ds_enforced :: bool
  ds_credited :: "int option"
  ds_committed :: "int option"
  ds_route :: "string option"

record route_row =
  rt_id :: string
  rt_asset :: string
  rt_provider :: string
  rt_environment :: string
  rt_network :: string
  rt_provider_asset :: string
  rt_decimals :: int
  rt_fee_asset :: string
  rt_fee_decimals :: int
  rt_max_fee :: int
  rt_max_age :: int
  rt_created_by :: string

record route_request_row =
  rr_id :: string
  rr_route :: string
  rr_action :: string
  rr_proposed_by :: string
  rr_reason :: string
  rr_key :: string
  rr_hash :: string

record route_approval_row =
  ra_request :: string
  ra_route :: string
  ra_proposed_by :: string
  ra_approved_by :: string
  ra_reason :: string
  ra_key :: string
  ra_approved_at :: int

record reservation_row =
  rv_withdrawal :: string
  rv_route :: string
  rv_provider :: string
  rv_vault :: string
  rv_asset :: string
  rv_amount :: int
  rv_available :: int
  rv_fee_asset :: string
  rv_fee :: int
  rv_fee_available :: int
  rv_observed_at :: int
  rv_asset_block_height :: string
  rv_asset_block_hash :: string
  rv_fee_block_height :: string
  rv_fee_block_hash :: string
  rv_created_at :: int

record terminal_row =
  te_withdrawal :: string
  te_outcome :: string
  te_provider_tx :: string

record observation_row =
  ro_withdrawal :: string
  ro_provider :: string
  ro_found :: bool
  ro_provider_tx :: string
  ro_status :: string
  ro_hash :: string
  ro_observed_at :: int

record conversion_pair_row =
  cp_from :: string
  cp_to :: string
  cp_market :: string
  cp_spread :: int
  cp_fee :: int
  cp_status :: string

record conversion_quote_row =
  cq_id :: string
  cq_user :: string
  cq_source :: string
  cq_from :: string
  cq_to :: string
  cq_input :: int
  cq_output :: int
  cq_fee :: int
  cq_price :: string
  cq_provider :: string
  cq_expires :: int
  cq_confirmed :: "int option"

record conversion_row =
  cv_id :: string
  cv_quote :: string
  cv_user :: string
  cv_key :: string
  cv_journal :: "string option"
  cv_status :: string
  cv_created_at :: int

record custody_db = ledger_db +
  operational_controls :: "(string \<times> bool) list"
  test_money_ready :: bool
  test_money_enabled :: bool
  test_money_grants :: "string list"
  custody_assets :: "custody_asset_row list"
  kyc_profiles :: "kyc_row list"
  subaccounts :: "subaccount_row list"
  transfers :: "transfer_row list"
  transfer_journals :: "(string \<times> string) list"
  custody_wallets :: "wallet_row list"
  deposit_addresses :: "deposit_address_row list"
  deposits :: "deposit_row list"
  withdrawal_addresses :: "withdrawal_address_row list"
  withdrawals :: "withdrawal_row list"
  withdrawal_journals :: "(string \<times> string) list"
  withdrawal_approvals :: "(string \<times> string \<times> string) list"
  withdrawal_travel_rules :: "(string \<times> string) list"
  withdrawal_entitlement_checks :: "entitlement_row list"
  withdrawal_dispatches :: "dispatch_row list"
  custody_withdrawal_routes :: "route_row list"
  custody_withdrawal_route_requests :: "route_request_row list"
  custody_withdrawal_route_approvals :: "route_approval_row list"
  custody_capacity_reservations :: "reservation_row list"
  custody_capacity_terminal_events :: "terminal_row list"
  withdrawal_reconciliation_observations :: "observation_row list"
  conversion_pairs :: "conversion_pair_row list"
  conversion_quotes :: "conversion_quote_row list"
  conversions :: "conversion_row list"

type_synonym 'a custody_tx = "(custody_db, custody_failure, 'a) tx"

abbreviation post_custody_journal :: "string \<Rightarrow> string \<Rightarrow> string \<Rightarrow> posting_leg list \<Rightarrow> string custody_tx" where
  "post_custody_journal \<equiv> post_journal"

section \<open>Shared statements\<close>

text \<open>\<open>SELECT enabled FROM operational_controls WHERE control_key=$1\<close>\<close>

definition control_enabled :: "string \<Rightarrow> bool custody_tx" where
  "control_enabled key = rowT (\<lambda>s. map_of (operational_controls s) key) (App ErrRowMissing)"

definition custody_audit :: "string \<Rightarrow> string \<Rightarrow> string \<Rightarrow> string \<Rightarrow> (string \<times> json) list \<Rightarrow> unit custody_tx" where
  "custody_audit actorID act resourceID reason metadata =
     execT (\<lambda>s. s\<lparr>audit_events := audit_events s @
       [\<lparr>au_actor = actorID, au_action = act, au_resource = resourceID, au_reason = reason, au_metadata = metadata\<rparr>]\<rparr>)"

text \<open>\<open>COALESCE(SUM(...),0)::bigint\<close> of the available postings: a sum outside int64 is an error.\<close>

definition available_bigint :: "string \<Rightarrow> string \<Rightarrow> int custody_tx" where
  "available_bigint accountID assetID =
     bindT (queryT (\<lambda>s. bucket_sum s accountID assetID Available)) (\<lambda>n.
     bindT (ensureT (- (2 ^ 63) \<le> n \<and> n < 2 ^ 63) (Pg ''22003'')) (\<lambda>_.
     returnT n))"

text \<open>
  \<open>INSERT INTO accounts(...) VALUES(NULL,'system',$1) ON CONFLICT (name) WHERE kind='system' DO
  UPDATE ... RETURNING id\<close>: the system account of that name, created if it is missing.
\<close>

definition system_account :: "string \<Rightarrow> string custody_tx" where
  "system_account name =
     bindT (queryT (\<lambda>s. find (\<lambda>a. ac_kind a = ''system'' \<and> ac_name a = name) (accounts s))) (\<lambda>found.
     case found of
       Some a \<Rightarrow> returnT (ac_id a)
     | None \<Rightarrow>
         bindT gen_random_uuid (\<lambda>ident.
         bindT (queryT accounts) (\<lambda>rows.
         bindT (ensureT (ident \<notin> ac_id ` set rows) unique_violation) (\<lambda>_.
         bindT (execT (\<lambda>s. s\<lparr>accounts := accounts s @
           [\<lparr>ac_id = ident, ac_user_id = None, ac_kind = ''system'', ac_name = name, ac_status = ''active''\<rparr>]\<rparr>)) (\<lambda>_.
         returnT ident)))))"

definition clearing_account :: "string \<Rightarrow> string custody_tx" where
  "clearing_account assetID = system_account (''custody-clearing-'' @ assetID)"

text \<open>
  A journal with the \<open>withdrawal_id\<close> column set: that column and the reference type are unique
  together (migration 69).
\<close>

definition post_withdrawal_journal :: "string \<Rightarrow> string \<Rightarrow> string \<Rightarrow> posting_leg list \<Rightarrow> string custody_tx" where
  "post_withdrawal_journal key rtype withdrawalID legs =
     bindT (queryT (\<lambda>s. list_ex (\<lambda>j. j_reference_type j = rtype \<and> (j_id j, withdrawalID) \<in> set (withdrawal_journals s)) (journals s))) (\<lambda>taken.
     bindT (ensureT (\<not> taken) unique_violation) (\<lambda>_.
     bindT (post_custody_journal key rtype withdrawalID legs) (\<lambda>jid.
     bindT (execT (\<lambda>s. s\<lparr>withdrawal_journals := withdrawal_journals s @ [(jid, withdrawalID)]\<rparr>)) (\<lambda>_.
     returnT jid))))"

definition posted_withdrawal_journal :: "custody_db \<Rightarrow> string \<Rightarrow> string list \<Rightarrow> bool" where
  "posted_withdrawal_journal s withdrawalID rtypes \<longleftrightarrow>
     list_ex (\<lambda>j. j_status j = Posted \<and> j_reference_type j \<in> set rtypes \<and> (j_id j, withdrawalID) \<in> set (withdrawal_journals s)) (journals s)"

definition move_legs :: "string \<Rightarrow> string \<Rightarrow> string \<Rightarrow> int \<Rightarrow> posting_leg list" where
  "move_legs a c x n =
     [\<lparr>l_account = a, l_asset = x, l_bucket = Available, l_direction = DebitSide, l_amount = n\<rparr>,
      \<lparr>l_account = c, l_asset = x, l_bucket = Available, l_direction = CreditSide, l_amount = n\<rparr>]"

lemma move_legs_balanced [simp]: "legs_balanced (move_legs a c x n)"
  by (auto simp: legs_balanced_def move_legs_def signed_amount_def)

lemma move_delta [balance_simps]:
  "leg_delta (move_legs a c x n) a' x' b' = bump a x Available (- n) a' x' b' + bump c x Available n a' x' b'"
  by (auto simp: leg_delta_def move_legs_def signed_amount_def leg_at_def bump_def)

end
