(* ===== verification/Custody_Amounts.thy ===== *)
theory Custody_Amounts
  imports Custody_DB Decimal_Text
begin

text \<open>
  Amounts at the custody boundary: \<open>AtomicToProviderAmount\<close> and
  \<open>ProviderAmountToAtomic\<close> of internal/custody/fireblocks.go, \<open>AtomicAmount\<close> of
  internal/deposits/event.go, \<open>parseCapacityAtomic\<close> of
  internal/datamanager/withdrawal_capacity.go, and the network policy of
  internal/custody/policy.go.
\<close>

section \<open>Network policy\<close>

record RoutePolicy =
  rp_Environment :: string
  rp_Mode :: string
  rp_SelfCustodyTestnetEnabled :: bool
  rp_TestnetOnly :: bool

definition isApprovedSelfCustodyTestnet :: "go_env \<Rightarrow> string \<Rightarrow> bool" where
  "isApprovedSelfCustodyTestnet env network =
     (ToLower (uni_lower env) (TrimSpace network) \<in> {''bitcoin_testnet4'', ''ethereum_sepolia''})"

definition policy_Validate :: "go_env \<Rightarrow> RoutePolicy \<Rightarrow> string \<Rightarrow> custody_error option" where
  "policy_Validate env p network =
     (if rp_TestnetOnly p \<and> \<not> isApprovedSelfCustodyTestnet env network then Some ErrNetworkNotApproved
      else if ToLower (uni_lower env) (TrimSpace (rp_Mode p)) \<noteq> ''self_custody_testnet'' then None
      else if \<not> rp_SelfCustodyTestnetEnabled p \<or> \<not> isApprovedSelfCustodyTestnet env network then Some ErrNetworkNotApproved
      else None)"

section \<open>Amounts\<close>

text \<open>\<open>strings.TrimLeft\<close> and \<open>strings.TrimRight\<close> of zeros, and \<open>fmt.Sprintf("%0*s", n, s)\<close>.\<close>

definition TrimLeft0 :: "string \<Rightarrow> string" where
  "TrimLeft0 s = dropWhile (\<lambda>c. c = CHR ''0'') s"

definition TrimRight0 :: "string \<Rightarrow> string" where
  "TrimRight0 s = rev (dropWhile (\<lambda>c. c = CHR ''0'') (rev s))"

definition pad0 :: "nat \<Rightarrow> string \<Rightarrow> string" where
  "pad0 n s = replicate (n - length s) (CHR ''0'') @ s"

definition AtomicToProviderAmount :: "string \<Rightarrow> int \<Rightarrow> custody_error + string" where
  "AtomicToProviderAmount amount decimals =
     (if decimals < 0 \<or> decimals > 36 \<or> amount = [] then Inl (ErrText ''invalid atomic amount'')
      else case SetString amount of
        None \<Rightarrow> Inl (ErrText ''invalid atomic amount'')
      | Some v \<Rightarrow>
          if v \<le> 0 \<or> length (BigString v) > 78 then Inl (ErrText ''invalid atomic amount'')
          else let base = 10 ^ nat decimals; whole = v div base; fraction = v mod base in
            if fraction = 0 then Inr (BigString whole)
            else Inr (BigString whole @ ''.'' @ TrimRight0 (pad0 (nat decimals) (BigString fraction))))"

definition decimalDigits :: "string \<Rightarrow> bool" where
  "decimalDigits s = list_all is_digit s"

definition ProviderAmountToAtomic :: "string \<Rightarrow> int \<Rightarrow> custody_error + string" where
  "ProviderAmountToAtomic amount decimals =
     (let parts = Split (CHR ''.'') amount; fraction = (if length parts = 2 then parts ! 1 else []) in
      if decimals < 0 \<or> decimals > 36 \<or> amount = [] \<or> TrimSpace amount \<noteq> amount then Inl (ErrText ''invalid provider amount'')
      else if length parts > 2 \<or> hd parts = [] \<or> \<not> decimalDigits (hd parts) then Inl (ErrText ''invalid provider amount'')
      else if length parts = 2 \<and> (fraction = [] \<or> \<not> decimalDigits fraction \<or> int (length fraction) > decimals)
        then Inl (ErrText ''provider amount exceeds asset precision'')
      else let digits = TrimLeft0 (hd parts @ fraction @ replicate (nat decimals - length fraction) (CHR ''0'')) in
        if digits = [] then Inr ''0''
        else case SetString digits of
          None \<Rightarrow> Inl (ErrText ''provider amount exceeds atomic range'')
        | Some v \<Rightarrow>
            if length (BigString v) > 78 then Inl (ErrText ''provider amount exceeds atomic range'') else Inr (BigString v))"

definition AtomicAmount :: "string \<Rightarrow> int \<Rightarrow> custody_error + string" where
  "AtomicAmount raw decimals =
     (let amount = TrimSpace raw; parts = Split (CHR ''.'') amount in
      if decimals < 0 \<or> HasPrefix amount ''-'' \<or> amount = [] then Inl ErrNotDepositEvent
      else if length parts > 2 \<or> (length parts = 2 \<and> (hd parts = [] \<or> parts ! 1 = [])) then Inl ErrNotDepositEvent
      else let whole = (if hd parts = [] then ''0'' else hd parts); fraction = (if length parts = 2 then parts ! 1 else []) in
        if \<not> list_all is_digit whole then Inl ErrNotDepositEvent
        else if int (length fraction) > decimals then Inl ErrNotDepositEvent
        else if \<not> list_all is_digit fraction then Inl ErrNotDepositEvent
        else case SetString (whole @ fraction @ replicate (nat decimals - length fraction) (CHR ''0'')) of
          None \<Rightarrow> Inl ErrNotDepositEvent
        | Some v \<Rightarrow> if v \<le> 0 then Inl ErrNotDepositEvent else Inr (BigString v))"

definition parseCapacityAtomic :: "string \<Rightarrow> custody_failure + int" where
  "parseCapacityAtomic raw =
     (if raw = [] \<or> rev (dropWhile is_digit (rev (dropWhile is_digit raw))) \<noteq> [] \<or> length raw > 78
        then Inl (App ErrWithdrawalCapacityObservation)
      else case SetString raw of
        None \<Rightarrow> Inl (App ErrWithdrawalCapacityObservation)
      | Some v \<Rightarrow> if v < 0 then Inl (App ErrWithdrawalCapacityObservation) else Inr v)"

lemma digits_val_dropWhile0: "digits_val (TrimLeft0 s) = digits_val s"
proof (induction s)
  case (Cons c s)
  show ?case
  proof (cases "c = CHR ''0''")
    case True
    then have "digits_val (c # s) = digits_val s"
      using digits_val_append [of "[c]" s] digits_val_zeros [of 1] by simp
    with True Cons show ?thesis by (simp add: TrimLeft0_def)
  qed (simp add: TrimLeft0_def)
qed (simp add: TrimLeft0_def)

lemma TrimRight0_pad: "TrimRight0 s @ replicate (length s - length (TrimRight0 s)) (CHR ''0'') = s"
proof (induction s rule: rev_induct)
  case (snoc c s)
  have le: "length (TrimRight0 s) \<le> length s"
    using length_dropWhile_le [of _ "rev s"] by (simp add: TrimRight0_def)
  show ?case
  proof (cases "c = CHR ''0''")
    case True
    then have "TrimRight0 (s @ [c]) = TrimRight0 s" by (simp add: TrimRight0_def)
    moreover have "replicate (Suc (length s) - length (TrimRight0 s)) (CHR ''0'') =
        replicate (length s - length (TrimRight0 s)) (CHR ''0'') @ [CHR ''0'']"
      using le by (simp add: Suc_diff_le replicate_append_same)
    ultimately show ?thesis using snoc True by (metis append_assoc length_append_singleton)
  qed (simp add: TrimRight0_def)
qed (simp add: TrimRight0_def)

lemma length_digits_of: "n < 10 ^ d \<Longrightarrow> 0 < d \<Longrightarrow> length (digits_of n) \<le> d"
proof (induction d arbitrary: n)
  case (Suc d)
  show ?case
  proof (cases "n < 10")
    case False
    then have "n div 10 < 10 ^ d" "0 < d" using Suc.prems by (auto simp: less_mult_imp_div_less mult.commute intro: gr0I)
    then have "length (digits_of (n div 10)) \<le> d" by (rule Suc.IH)
    with False show ?thesis by (subst digits_of.simps) simp
  qed (subst digits_of.simps, simp)
qed simp

lemma digits_val_pad0: "digits_val (pad0 n s) = digits_val s"
  by (simp add: pad0_def digits_val_append digits_val_zeros)

lemma TrimRight0_nonempty: "0 < digits_val s \<Longrightarrow> TrimRight0 s \<noteq> []"
  using TrimRight0_pad [of s] digits_val_zeros [of "length s"] by fastforce

lemma BigString_nonneg: "0 \<le> n \<Longrightarrow> BigString n = digits_of (nat n)"
  by (simp add: BigString_def)

lemma digits_list_all: "list_all is_digit (digits_of n)"
  by (auto simp: list_all_iff dest: set_digits_of)

lemma digits_graphic: "list_all is_digit s \<Longrightarrow> list_all graphic s"
  by (auto simp: list_all_iff intro: graphic_if)

text \<open>The text of a non-negative amount in the provider's notation is read back as the same amount.\<close>

lemma provider_text_read:
  assumes "0 \<le> decimals" "decimals \<le> 36" "list_all is_digit a" "a \<noteq> []" "list_all is_digit f" "int (length f) \<le> decimals"
    and "f = [] \<and> t = a \<or> f \<noteq> [] \<and> t = a @ ''.'' @ f"
    and "0 < v" "length (BigString v) \<le> 78"
    and "v = int (digits_val a) * 10 ^ nat decimals + int (digits_val f) * 10 ^ (nat decimals - length f)"
  shows "ProviderAmountToAtomic t decimals = Inr (BigString v)"
proof -
  define z where "z = a @ f @ replicate (nat decimals - length f) (CHR ''0'')"
  have fl: "length f \<le> nat decimals" using assms(1,6) by linarith
  have parts: "Split (CHR ''.'') t = (if f = [] then [a] else [a, f])"
    using assms(7) dot_not_digit [OF assms(3)] dot_not_digit [OF assms(5)] by (auto simp: Split_plain Split_append)
  have "list_all graphic t" using assms(3,5,7) digits_graphic by (auto simp: graphic_def)
  then have trim: "TrimSpace t = t" by (rule TrimSpace_graphic)
  have "all_digits z" using assms(3,4,5) by (auto simp: z_def all_digits_def list_all_iff is_digit_def)
  moreover have "int (digits_val z) = v"
    using fl assms(10) by (simp add: z_def digits_val_append digits_val_zeros algebra_simps flip: power_add)
  ultimately have val: "int (digits_val (TrimLeft0 z)) = v" "list_all is_digit (TrimLeft0 z)"
    using digits_val_dropWhile0 [of z] by (auto simp: TrimLeft0_def all_digits_def list_all_iff dest: set_dropWhileD)
  have "TrimLeft0 z \<noteq> []" using val(1) assms(8) by (auto simp: digits_val_def)
  then have "SetString (TrimLeft0 z) = Some v" using val by (auto simp: SetString_digits all_digits_def list_all_iff)
  moreover have "t \<noteq> []" using assms(4,7) by auto
  ultimately show ?thesis
    using assms(1-7,9) parts trim \<open>TrimLeft0 z \<noteq> []\<close>
    by (simp add: ProviderAmountToAtomic_def decimalDigits_def z_def [symmetric])
      (cases "f = []"; simp add: z_def)
qed

lemma AtomicToProviderAmount_shape:
  assumes "AtomicToProviderAmount amount decimals = Inr t"
  obtains v where "SetString amount = Some v" "0 < v" "length (BigString v) \<le> 78" "0 \<le> decimals" "decimals \<le> 36"
    "t = (if v mod 10 ^ nat decimals = 0 then BigString (v div 10 ^ nat decimals)
          else BigString (v div 10 ^ nat decimals) @ ''.'' @ TrimRight0 (pad0 (nat decimals) (BigString (v mod 10 ^ nat decimals))))"
  using assms by (auto simp: AtomicToProviderAmount_def Let_def split: if_splits option.splits)

text \<open>
  C23: custody amounts survive the round trip. When a withdrawal amount is written for the custody
  provider, reading the text back with the same number of decimals gives the amount again, in
  canonical form and exactly: no unit is lost to rounding, padding or trimmed zeros.
\<close>

theorem provider_amount_roundtrip:
  assumes "AtomicToProviderAmount amount decimals = Inr t"
  shows "\<exists>v. SetString amount = Some v \<and> ProviderAmountToAtomic t decimals = Inr (BigString v)"
proof -
  obtain v where v: "SetString amount = Some v" "0 < v" "length (BigString v) \<le> 78" "0 \<le> decimals" "decimals \<le> 36"
    "t = (if v mod 10 ^ nat decimals = 0 then BigString (v div 10 ^ nat decimals)
          else BigString (v div 10 ^ nat decimals) @ ''.'' @ TrimRight0 (pad0 (nat decimals) (BigString (v mod 10 ^ nat decimals))))"
    using AtomicToProviderAmount_shape [OF assms] .
  define d where "d = nat decimals"
  define w where "w = nat (v div 10 ^ d)"
  define r where "r = nat (v mod 10 ^ d)"
  have wr: "v = int w * 10 ^ d + int r" "r < 10 ^ d"
    using v(2) div_mult_mod_eq [of v "10 ^ d"] by (auto simp: w_def r_def nat_less_iff pos_imp_zdiv_nonneg_iff)
  define f where "f = (if r = 0 then [] else TrimRight0 (pad0 d (digits_of r)))"
  have "0 < d" if "r \<noteq> 0" using that wr(2) by (cases d) auto
  then have len: "length (pad0 d (digits_of r)) = d" if "r \<noteq> 0"
    using that length_digits_of [OF wr(2)] by (simp add: pad0_def)
  have f: "f @ replicate (d - length f) (CHR ''0'') = pad0 d (digits_of r)" if "r \<noteq> 0"
    using that TrimRight0_pad [of "pad0 d (digits_of r)"] len by (simp add: f_def)
  have "list_all is_digit (pad0 d (digits_of r))"
    using digits_list_all [of r] by (auto simp: pad0_def list_all_iff is_digit_def)
  then have "list_all is_digit f"
    by (auto simp: f_def TrimRight0_def list_all_iff dest: set_dropWhileD)
  moreover have "length f \<le> d" using f by (cases "r = 0") (auto simp: f_def dest!: arg_cong [where f = length] simp: len)
  moreover have "r = digits_val f * 10 ^ (d - length f)"
  proof (cases "r = 0")
    case False
    then have "digits_val (f @ replicate (d - length f) (CHR ''0'')) = r" using f by (simp add: digits_val_pad0)
    then show ?thesis by (simp add: digits_val_append digits_val_zeros)
  qed (simp add: f_def digits_val_def)
  moreover have "f = [] \<and> t = digits_of w \<or> f \<noteq> [] \<and> t = digits_of w @ ''.'' @ f"
  proof (cases "r = 0")
    case True
    then have "v mod 10 ^ d = 0" using v(2) by (auto simp: r_def dest: antisym)
    with True show ?thesis using v(2,6) by (simp add: f_def d_def [symmetric] w_def BigString_nonneg pos_imp_zdiv_nonneg_iff)
  next
    case False
    then have "f \<noteq> []" using TrimRight0_nonempty [of "pad0 d (digits_of r)"] by (simp add: f_def digits_val_pad0)
    moreover have "v mod 10 ^ d \<noteq> 0" using False by (auto simp: r_def)
    ultimately show ?thesis
      using False v(2,6) by (simp add: f_def d_def [symmetric] w_def r_def BigString_nonneg pos_imp_zdiv_nonneg_iff)
  qed
  ultimately have "ProviderAmountToAtomic t decimals = Inr (BigString v)"
    using v(2-5) wr(1) digits_list_all [of w]
    by (intro provider_text_read [of decimals "digits_of w" f]) (auto simp: d_def nat_le_iff le_nat_iff)
  with v(1) show ?thesis by blast
qed

theorem provider_amount_roundtrip_witness:
  "AtomicToProviderAmount ''1050'' 3 = Inr ''1.05'' \<and> ProviderAmountToAtomic ''1.05'' 3 = Inr ''1050''"
proof -
  have "AtomicToProviderAmount ''1050'' 3 = Inr ''1.05''" by code_simp
  moreover have "SetString ''1050'' = Some 1050" "BigString 1050 = ''1050''" by code_simp+
  ultimately show ?thesis using provider_amount_roundtrip [of "''1050''" 3 "''1.05''"] by auto
qed

end
