(* ===== verification/Withdrawals.thy ===== *)
theory Withdrawals
  imports Custody_Amounts
begin

text \<open>
  The customer and administrator side of withdrawals: \<open>RequestWithdrawal\<close>,
  \<open>CancelWithdrawal\<close>, \<open>ApproveWithdrawal\<close>, the kill switch, the address book and the
  travel rule of internal/datamanager/manager.go, the deposit entitlement of
  withdrawal_entitlement.go and the input checks of internal/withdrawals/service.go. A call that
  returns without an error and without committing changes only the advisory locks it took, which
  end with the transaction.
\<close>

section \<open>Types\<close>

record WithdrawalInput =
  wi_UserID :: string
  wi_SourceAccountID :: string
  wi_AssetSymbol :: string
  wi_Network :: string
  wi_Address :: string
  wi_Tag :: string
  wi_AmountAtomic :: i64
  wi_IdempotencyKey :: string

record WithdrawalResult =
  wr_WithdrawalID :: string
  wr_JournalID :: string
  wr_Duplicate :: bool
  wr_Status :: string

record WithdrawalApprovalResult =
  wv_WithdrawalID :: string
  wv_ApprovalCount :: nat
  wv_Status :: string

record WithdrawalCancellationResult =
  wx_WithdrawalID :: string
  wx_JournalID :: string
  wx_Status :: string

record withdrawalEntitlement =
  we_enforced :: bool
  we_credited :: string
  we_committed :: string

definition withdrawal_by_id :: "custody_db \<Rightarrow> string \<Rightarrow> withdrawal_row option" where
  "withdrawal_by_id s wid = find (\<lambda>w. wd_id w = wid) (withdrawals s)"

definition asset_by_id :: "custody_db \<Rightarrow> string \<Rightarrow> asset_row option" where
  "asset_by_id s aid = find (\<lambda>a. as_id a = aid) (assets s)"

definition enabled_asset :: "custody_db \<Rightarrow> string \<Rightarrow> string \<Rightarrow> asset_row option" where
  "enabled_asset s symbol network =
     find (\<lambda>a. as_symbol a = symbol \<and> as_network a = network \<and> as_status a = ''enabled'') (assets s)"

definition custody_outbox :: "string \<Rightarrow> string \<Rightarrow> string \<Rightarrow> (string \<times> json) list \<Rightarrow> unit custody_tx" where
  "custody_outbox etype atype aid payload = append_outbox etype atype aid payload"

text \<open>\<open>$n::numeric\<close> of a text.\<close>

definition numeric_text :: "string \<Rightarrow> int custody_tx" where
  "numeric_text t = liftT (case SetString t of None \<Rightarrow> Inl (Pg ''22P02'') | Some n \<Rightarrow> Inr n)"

section \<open>Entitlement\<close>

text \<open>The deposits that count: credited, confirmed and backed by a balanced posted journal.\<close>

definition journal_side :: "custody_db \<Rightarrow> string \<Rightarrow> direction \<Rightarrow> (posting_row \<Rightarrow> bool) \<Rightarrow> int" where
  "journal_side s jid dir p =
     sum_list (map l_amount (filter (\<lambda>r. p_journal r = jid \<and> l_direction r = dir \<and> p r) (postings s)))"

definition account_of_user :: "custody_db \<Rightarrow> string \<Rightarrow> string \<Rightarrow> bool" where
  "account_of_user s accountID userID \<longleftrightarrow> list_ex (\<lambda>a. ac_id a = accountID \<and> ac_user_id a = Some userID) (accounts s)"

definition deposit_backed :: "custody_db \<Rightarrow> deposit_row \<Rightarrow> bool" where
  "deposit_backed s d \<longleftrightarrow>
     list_ex (\<lambda>j. j_reference_type j = ''deposit_credit'' \<and> j_reference_id j = dp_id d \<and> j_status j = Posted \<and>
       list_all (\<lambda>p. p_journal p = j_id j \<longrightarrow> l_asset p = dp_asset d) (postings s) \<and>
       journal_side s (j_id j) CreditSide (\<lambda>p. l_asset p = dp_asset d \<and> account_of_user s (l_account p) (dp_user d)) = dp_amount d \<and>
       journal_side s (j_id j) CreditSide (\<lambda>_. True) = dp_amount d \<and>
       journal_side s (j_id j) DebitSide (\<lambda>_. True) = dp_amount d) (journals s)"

definition credited_deposits :: "custody_db \<Rightarrow> string \<Rightarrow> string \<Rightarrow> int" where
  "credited_deposits s userID assetID =
     sum_list (map dp_amount (filter (\<lambda>d. dp_user d = userID \<and> dp_asset d = assetID \<and> dp_status d = ''credited'' \<and>
       dp_risk d = ''approved'' \<and> dp_required d \<le> dp_confirmations d \<and> dp_hash d \<noteq> [] \<and> deposit_backed s d) (deposits s)))"

definition committed_withdrawals :: "custody_db \<Rightarrow> string \<Rightarrow> string \<Rightarrow> int" where
  "committed_withdrawals s userID assetID =
     sum_list (map wd_amount (filter (\<lambda>w. wd_user w = userID \<and> wd_asset w = assetID \<and>
       (wd_status w \<notin> {''failed'', ''cancelled'', ''rejected''} \<or>
        \<not> posted_withdrawal_journal s (wd_id w) [''withdrawal_release'', ''withdrawal_cancel''])) (withdrawals s)))"

definition checkWithdrawalEntitlement :: "string \<Rightarrow> string \<Rightarrow> int \<Rightarrow> withdrawalEntitlement custody_tx" where
  "checkWithdrawalEntitlement userID assetID amount =
     bindT (queryT (\<lambda>s. test_money_ready s \<or> test_money_enabled s \<or> test_money_grants s \<noteq> [])) (\<lambda>enforced.
     if \<not> enforced then returnT \<lparr>we_enforced = False, we_credited = [], we_committed = []\<rparr>
     else
       bindT (ensureT (0 \<le> amount) (App ErrWithdrawalDepositLimit)) (\<lambda>_.
       bindT (advisory_lock (''withdrawal-entitlement:'' @ userID @ '':'' @ assetID)) (\<lambda>_.
       bindT (queryT (\<lambda>s. BigString (credited_deposits s userID assetID))) (\<lambda>credited.
       bindT (queryT (\<lambda>s. BigString (committed_withdrawals s userID assetID))) (\<lambda>committed.
       case (SetString credited, SetString committed) of
         (Some c, Some m) \<Rightarrow>
           bindT (ensureT (m + amount \<le> c) (App ErrWithdrawalDepositLimit)) (\<lambda>_.
           returnT \<lparr>we_enforced = True, we_credited = credited, we_committed = committed\<rparr>)
       | _ \<Rightarrow> failT (App ErrWithdrawalDepositLimit))))))"

definition recordWithdrawalEntitlement :: "withdrawalEntitlement \<Rightarrow> string \<Rightarrow> string \<Rightarrow> string \<Rightarrow> int \<Rightarrow> unit custody_tx" where
  "recordWithdrawalEntitlement check wid userID assetID amount =
     (if \<not> we_enforced check then returnT ()
      else
        bindT (numeric_text (we_credited check)) (\<lambda>credited.
        bindT (numeric_text (we_committed check)) (\<lambda>committed.
        bindT (ensureT (0 < amount \<and> 0 \<le> credited \<and> 0 \<le> committed \<and> committed + amount \<le> credited) check_violation) (\<lambda>_.
        bindT (queryT (\<lambda>s. en_withdrawal ` set (withdrawal_entitlement_checks s))) (\<lambda>ids.
        bindT (ensureT (wid \<notin> ids) unique_violation) (\<lambda>_.
        execT (\<lambda>s. s\<lparr>withdrawal_entitlement_checks := withdrawal_entitlement_checks s @
          [\<lparr>en_withdrawal = wid, en_user = userID, en_asset = assetID, en_amount = amount, en_credited = credited,
            en_committed = committed\<rparr>]\<rparr>)))))))"

section \<open>Requesting a withdrawal\<close>

definition hold_journal :: "custody_db \<Rightarrow> string \<Rightarrow> string option" where
  "hold_journal s wid =
     map_option j_id (find (\<lambda>j. j_reference_type j = ''withdrawal_hold'' \<and> (j_id j, wid) \<in> set (withdrawal_journals s)) (journals s))"

definition duplicate_withdrawal :: "WithdrawalInput \<Rightarrow> withdrawal_row \<Rightarrow> asset_row \<Rightarrow> WithdrawalResult custody_tx" where
  "duplicate_withdrawal input w a =
     bindT (rowT (\<lambda>s. hold_journal s (wd_id w)) (App ErrScanNull)) (\<lambda>jid.
     bindT (ensureT (wd_user w = wi_UserID input \<and> wd_account w = wi_SourceAccountID input \<and> as_symbol a = wi_AssetSymbol input \<and>
         as_network a = wi_Network input \<and> wd_destination w = wi_Address input \<and> wd_tag w = wi_Tag input \<and>
         wd_amount w = sint (wi_AmountAtomic input)) (App ErrWithdrawalIdempotencyConflict)) (\<lambda>_.
     returnT \<lparr>wr_WithdrawalID = wd_id w, wr_JournalID = jid, wr_Duplicate = True, wr_Status = wd_status w\<rparr>))"

text \<open>\<open>UPDATE withdrawal_addresses SET status='active' WHERE user_id=$1 AND status='pending' AND activated_at <= now()\<close>\<close>

definition elapsed :: "custody_db \<Rightarrow> withdrawal_address_row \<Rightarrow> bool" where
  "elapsed s r = (case wa_activated_at r of None \<Rightarrow> False | Some t \<Rightarrow> t \<le> pg_now s)"

definition promote_addresses :: "string \<Rightarrow> unit custody_tx" where
  "promote_addresses userID =
     execT (\<lambda>s. s\<lparr>withdrawal_addresses := update_where (\<lambda>r. wa_user r = userID \<and> wa_status r = ''pending'' \<and> elapsed s r)
       (\<lambda>r. r\<lparr>wa_status := ''active''\<rparr>) (withdrawal_addresses s)\<rparr>)"

definition active_address :: "WithdrawalInput \<Rightarrow> string \<Rightarrow> custody_db \<Rightarrow> string option" where
  "active_address input assetID s =
     map_option wa_id (find (\<lambda>r. wa_user r = wi_UserID input \<and> wa_asset r = assetID \<and> wa_address r = wi_Address input \<and>
       wa_tag r = wi_Tag input \<and> wa_status r = ''active'' \<and> elapsed s r) (withdrawal_addresses s))"

definition insert_withdrawal :: "WithdrawalInput \<Rightarrow> string \<Rightarrow> string option \<Rightarrow> string \<Rightarrow> string custody_tx" where
  "insert_withdrawal input assetID addressID status =
     bindT gen_random_uuid (\<lambda>wid.
     bindT (queryT withdrawals) (\<lambda>rows.
     bindT (ensureT (wid \<notin> wd_id ` set rows \<and> wi_IdempotencyKey input \<notin> wd_key ` set rows) unique_violation) (\<lambda>_.
     bindT (execT (\<lambda>s. s\<lparr>withdrawals := withdrawals s @
       [\<lparr>wd_id = wid, wd_user = wi_UserID input, wd_account = wi_SourceAccountID input, wd_asset = assetID,
         wd_address_id = addressID, wd_destination = wi_Address input, wd_tag = wi_Tag input,
         wd_amount = sint (wi_AmountAtomic input), wd_key = wi_IdempotencyKey input, wd_status = status,
         wd_provider_tx = None, wd_hash = [], wd_created_at = pg_now s\<rparr>]\<rparr>)) (\<lambda>_.
     returnT wid))))"

definition announce_withdrawal :: "WithdrawalInput \<Rightarrow> bool \<Rightarrow> string \<Rightarrow> unit custody_tx" where
  "announce_withdrawal input automatic wid =
     (let payload = [(''withdrawal_id'', JString wid), (''asset_symbol'', JString (wi_AssetSymbol input)),
        (''network'', JString (wi_Network input)), (''amount_atomic'', JInt (sint (wi_AmountAtomic input)))] in
      bindT (custody_audit (wi_UserID input) ''withdrawal.requested'' wid [] payload) (\<lambda>_.
      bindT (custody_outbox ''withdrawal.submitted'' ''withdrawal'' wid payload) (\<lambda>_.
      if automatic then
        bindT (custody_audit (wi_UserID input) ''withdrawal.auto_approved'' wid [] payload) (\<lambda>_.
        custody_outbox ''withdrawal.approved'' ''withdrawal'' wid payload)
      else custody_outbox ''withdrawal.under_review'' ''withdrawal'' wid payload)))"

definition admit_withdrawal :: "WithdrawalInput \<Rightarrow> bool \<Rightarrow> WithdrawalResult custody_tx" where
  "admit_withdrawal input automatic =
     bindT (promote_addresses (wi_UserID input)) (\<lambda>_.
     bindT (rowT (\<lambda>s. enabled_asset s (wi_AssetSymbol input) (wi_Network input)) (App ErrWithdrawalNotAllowed)) (\<lambda>asset.
     bindT (queryT (active_address input (as_id asset))) (\<lambda>addressID.
     bindT (checkWithdrawalEntitlement (wi_UserID input) (as_id asset) (sint (wi_AmountAtomic input))) (\<lambda>entitlement.
     bindT (queryT (\<lambda>s. list_ex (\<lambda>k. ky_user k = wi_UserID input \<and> ky_status k = ''approved'') (kyc_profiles s))) (\<lambda>kycOK.
     bindT (ensureT kycOK (App ErrWithdrawalKYCRequired)) (\<lambda>_.
     bindT (rowT (\<lambda>s. find (\<lambda>a. ac_id a = wi_SourceAccountID input) (accounts s)) (App ErrWithdrawalAccountUnavailable)) (\<lambda>account.
     bindT (ensureT (ac_user_id account = Some (wi_UserID input) \<and> ac_status account = ''active'') (App ErrWithdrawalAccountUnavailable)) (\<lambda>_.
     bindT (ensureT (ac_kind account \<noteq> ''subaccount'') (App ErrWithdrawalAccountUnavailable)) (\<lambda>_.
     bindT (LockAccountAsset ErrLockKey (wi_SourceAccountID input) (as_id asset)) (\<lambda>_.
     bindT (available_bigint (wi_SourceAccountID input) (as_id asset)) (\<lambda>available.
     bindT (ensureT (sint (wi_AmountAtomic input) \<le> available) (App ErrInsufficientWithdrawalBalance)) (\<lambda>_.
     let status = (if automatic then ''approved'' else ''pending_approval'') in
     bindT (insert_withdrawal input (as_id asset) addressID status) (\<lambda>wid.
     bindT (post_withdrawal_journal (''withdrawal-hold-'' @ wid) ''withdrawal_hold'' wid
       (hold_legs (wi_SourceAccountID input) (as_id asset) (sint (wi_AmountAtomic input)))) (\<lambda>jid.
     bindT (recordWithdrawalEntitlement entitlement wid (wi_UserID input) (as_id asset) (sint (wi_AmountAtomic input))) (\<lambda>_.
     bindT (announce_withdrawal input automatic wid) (\<lambda>_.
     returnT \<lparr>wr_WithdrawalID = wid, wr_JournalID = jid, wr_Duplicate = False, wr_Status = status\<rparr>))))))))))))))))"

definition RequestWithdrawal_tx :: "WithdrawalInput \<Rightarrow> WithdrawalResult custody_tx" where
  "RequestWithdrawal_tx input =
     bindT (control_enabled ''withdrawals_enabled'') (\<lambda>enabled.
     bindT (ensureT enabled (App ErrWithdrawalsDisabled)) (\<lambda>_.
     bindT (control_enabled ''automatic_withdrawals'') (\<lambda>automatic.
     bindT (advisory_lock (''withdrawal-idempotency:'' @ wi_IdempotencyKey input)) (\<lambda>_.
     bindT (queryT (\<lambda>s. find (\<lambda>(w, a). wd_key w = wi_IdempotencyKey input)
       (concat (map (\<lambda>w. case asset_by_id s (wd_asset w) of None \<Rightarrow> [] | Some a \<Rightarrow> [(w, a)]) (withdrawals s))))) (\<lambda>found.
     case found of
       Some (w, a) \<Rightarrow> duplicate_withdrawal input w a
     | None \<Rightarrow> admit_withdrawal input automatic)))))"

definition RequestWithdrawal :: "WithdrawalInput \<Rightarrow> custody_db \<Rightarrow> (custody_failure + WithdrawalResult) \<times> custody_db" where
  "RequestWithdrawal input s =
     (if sint (wi_AmountAtomic input) \<le> 0 \<or> wi_IdempotencyKey input = [] then (Inl (App ErrWithdrawalNotAllowed), s)
      else transaction (RequestWithdrawal_tx input) s)"

section \<open>Approval, cancellation, kill switch\<close>

definition has_role :: "custody_db \<Rightarrow> string \<Rightarrow> string \<Rightarrow> bool" where
  "has_role s userID role \<longleftrightarrow> (userID, role) \<in> set (user_roles s)"

definition set_withdrawal_status :: "string \<Rightarrow> string \<Rightarrow> string \<Rightarrow> unit custody_tx" where
  "set_withdrawal_status wid old new =
     execT (\<lambda>s. s\<lparr>withdrawals := update_where (\<lambda>w. wd_id w = wid \<and> wd_status w = old) (\<lambda>w. w\<lparr>wd_status := new\<rparr>) (withdrawals s)\<rparr>)"

definition ApproveWithdrawal_tx :: "string \<Rightarrow> string \<Rightarrow> string \<Rightarrow> WithdrawalApprovalResult custody_tx" where
  "ApproveWithdrawal_tx approverID withdrawalID reason =
     bindT (control_enabled ''withdrawals_enabled'') (\<lambda>enabled.
     bindT (ensureT enabled (App ErrWithdrawalsDisabled)) (\<lambda>_.
     bindT (queryT (\<lambda>s. has_role s approverID ''treasury_approver'')) (\<lambda>allowed.
     bindT (ensureT allowed (App ErrWithdrawalNotApprovable)) (\<lambda>_.
     bindT (rowT (\<lambda>s. withdrawal_by_id s withdrawalID) (App ErrWithdrawalNotApprovable)) (\<lambda>w.
     bindT (rowT (\<lambda>s. find (\<lambda>u. u_id u = wd_user w) (users s)) (App ErrWithdrawalNotApprovable)) (\<lambda>user.
     bindT (ensureT (wd_status w = ''pending_approval'' \<and> u_status user = ''active'') (App ErrWithdrawalNotApprovable)) (\<lambda>_.
     bindT (queryT (\<lambda>s. (withdrawalID, approverID) \<in> (\<lambda>(w, a, _). (w, a)) ` set (withdrawal_approvals s))) (\<lambda>taken.
     bindT (ensureT (\<not> taken) (App ErrWithdrawalNotApprovable)) (\<lambda>_.
     bindT (execT (\<lambda>s. s\<lparr>withdrawal_approvals := withdrawal_approvals s @ [(withdrawalID, approverID, reason)]\<rparr>)) (\<lambda>_.
     bindT (queryT (\<lambda>s. length (filter (\<lambda>(w, _). w = withdrawalID) (withdrawal_approvals s)))) (\<lambda>count.
     let status = (if 2 \<le> count then ''approved'' else ''pending_approval'');
         metadata = [(''reason'', JString reason), (''approval_count'', JInt (int count))] in
     bindT (if 2 \<le> count then set_withdrawal_status withdrawalID ''pending_approval'' ''approved'' else returnT ()) (\<lambda>_.
     bindT (custody_audit approverID ''withdrawal.approved'' withdrawalID [] metadata) (\<lambda>_.
     bindT (if status = ''approved'' then custody_outbox ''withdrawal.approved'' ''withdrawal'' withdrawalID metadata else returnT ()) (\<lambda>_.
     returnT \<lparr>wv_WithdrawalID = withdrawalID, wv_ApprovalCount = count, wv_Status = status\<rparr>))))))))))))))"

definition ApproveWithdrawal :: "string \<Rightarrow> string \<Rightarrow> string \<Rightarrow> custody_db \<Rightarrow> (custody_failure + WithdrawalApprovalResult) \<times> custody_db" where
  "ApproveWithdrawal approverID withdrawalID reason = transaction (ApproveWithdrawal_tx approverID withdrawalID reason)"

definition CancelWithdrawal_tx :: "string \<Rightarrow> string \<Rightarrow> WithdrawalCancellationResult custody_tx" where
  "CancelWithdrawal_tx userID withdrawalID =
     bindT (rowT (\<lambda>s. find (\<lambda>w. wd_id w = withdrawalID \<and> wd_user w = userID) (withdrawals s)) (App ErrWithdrawalNotCancellable)) (\<lambda>w.
     bindT (ensureT (- (2 ^ 63) \<le> wd_amount w \<and> wd_amount w < 2 ^ 63) (Pg ''22003'')) (\<lambda>_.
     bindT (ensureT (wd_status w = ''pending_approval'') (App ErrWithdrawalNotCancellable)) (\<lambda>_.
     bindT (LockAccountAsset ErrLockKey (wd_account w) (wd_asset w)) (\<lambda>_.
     bindT (set_withdrawal_status withdrawalID ''pending_approval'' ''cancelled'') (\<lambda>_.
     bindT (post_withdrawal_journal (''withdrawal-cancel-'' @ withdrawalID) ''withdrawal_cancel'' withdrawalID
       (release_legs (wd_account w) (wd_account w) (wd_asset w) (wd_amount w))) (\<lambda>jid.
     let payload = [(''withdrawal_id'', JString withdrawalID), (''amount_atomic'', JInt (wd_amount w))] in
     bindT (custody_audit userID ''withdrawal.cancelled'' withdrawalID [] payload) (\<lambda>_.
     bindT (custody_outbox ''withdrawal.cancelled'' ''withdrawal'' withdrawalID payload) (\<lambda>_.
     returnT \<lparr>wx_WithdrawalID = withdrawalID, wx_JournalID = jid, wx_Status = ''cancelled''\<rparr>))))))))"

definition CancelWithdrawal :: "string \<Rightarrow> string \<Rightarrow> custody_db \<Rightarrow> (custody_failure + WithdrawalCancellationResult) \<times> custody_db" where
  "CancelWithdrawal userID withdrawalID s =
     (if userID = [] \<or> withdrawalID = [] then (Inl (App ErrWithdrawalNotCancellable), s)
      else transaction (CancelWithdrawal_tx userID withdrawalID) s)"

definition SetWithdrawalsEnabled :: "string \<Rightarrow> bool \<Rightarrow> custody_db \<Rightarrow> (custody_failure + unit) \<times> custody_db" where
  "SetWithdrawalsEnabled actorID enabled = transaction (
     bindT (queryT (\<lambda>s. has_role s actorID ''platform_administrator'')) (\<lambda>allowed.
     bindT (ensureT allowed (App ErrWithdrawalsDisabled)) (\<lambda>_.
     bindT (execT (\<lambda>s. s\<lparr>operational_controls := update_where (\<lambda>r. fst r = ''withdrawals_enabled'')
       (\<lambda>r. (fst r, enabled)) (operational_controls s)\<rparr>)) (\<lambda>_.
     let act = (if enabled then ''withdrawals.enabled'' else ''withdrawals.kill_switch_enabled'') in
     bindT (custody_audit actorID act ''withdrawals_enabled'' [] [(''enabled'', JBool enabled)]) (\<lambda>_.
     custody_outbox act ''operational_control'' ''withdrawals_enabled'' [(''enabled'', JBool enabled)])))))"

definition WithdrawalsEnabled :: "custody_db \<Rightarrow> custody_failure + bool" where
  "WithdrawalsEnabled s = map_sum id fst (control_enabled ''withdrawals_enabled'' s)"

definition SaveWithdrawalTravelRule :: "string \<Rightarrow> string \<Rightarrow> string \<Rightarrow> custody_db \<Rightarrow> (custody_failure + unit) \<times> custody_db" where
  "SaveWithdrawalTravelRule userID withdrawalID ciphertext = transaction (
     bindT (rowT (\<lambda>s. find (\<lambda>w. wd_id w = withdrawalID \<and> wd_user w = userID) (withdrawals s)) (App ErrWithdrawalNotCancellable)) (\<lambda>w.
     bindT (ensureT (wd_status w = ''pending_approval'') (App ErrWithdrawalNotCancellable)) (\<lambda>_.
     bindT (queryT (\<lambda>s. fst ` set (withdrawal_travel_rules s))) (\<lambda>ids.
     bindT (ensureT (withdrawalID \<notin> ids) unique_violation) (\<lambda>_.
     bindT (execT (\<lambda>s. s\<lparr>withdrawal_travel_rules := withdrawal_travel_rules s @ [(withdrawalID, ciphertext)]\<rparr>)) (\<lambda>_.
     custody_audit userID ''withdrawal.travel_rule_captured'' withdrawalID [] []))))))"

section \<open>Address book\<close>

record WithdrawalAddress =
  wk_ID :: string
  wk_AssetSymbol :: string
  wk_Network :: string
  wk_Address :: string
  wk_Tag :: string
  wk_Label :: string
  wk_Status :: string
  wk_Whitelisted :: bool
  wk_ActivatedAt :: "int option"
  wk_CreatedAt :: int

definition address_item :: "string \<Rightarrow> string \<Rightarrow> withdrawal_address_row \<Rightarrow> WithdrawalAddress" where
  "address_item symbol network r =
     \<lparr>wk_ID = wa_id r, wk_AssetSymbol = symbol, wk_Network = network, wk_Address = wa_address r, wk_Tag = wa_tag r,
      wk_Label = wa_label r, wk_Status = wa_status r, wk_Whitelisted = wa_whitelisted r,
      wk_ActivatedAt = wa_activated_at r, wk_CreatedAt = wa_created_at r\<rparr>"

definition WithdrawalAddresses :: "string \<Rightarrow> custody_db \<Rightarrow> (custody_failure + WithdrawalAddress list) \<times> custody_db" where
  "WithdrawalAddresses userID = transaction (
     bindT (promote_addresses userID) (\<lambda>_.
     queryT (\<lambda>s. concat (map (\<lambda>r. case asset_by_id s (wa_asset r) of
         None \<Rightarrow> [] | Some a \<Rightarrow> [address_item (as_symbol a) (as_network a) r])
       (sort_key (\<lambda>r. - wa_created_at r) (filter (\<lambda>r. wa_user r = userID) (withdrawal_addresses s)))))))"

text \<open>\<open>INSERT ... ON CONFLICT (user_id,asset_id,address,tag) DO UPDATE ... WHERE status='pending' RETURNING\<close>\<close>

definition upsert_address :: "string \<Rightarrow> string \<Rightarrow> string \<Rightarrow> string \<Rightarrow> string \<Rightarrow> bool \<Rightarrow> int \<Rightarrow> withdrawal_address_row custody_tx" where
  "upsert_address userID assetID address tag label whitelisted activation =
     bindT (queryT (\<lambda>s. find (\<lambda>r. wa_user r = userID \<and> wa_asset r = assetID \<and> wa_address r = address \<and> wa_tag r = tag)
       (withdrawal_addresses s))) (\<lambda>existing.
     case existing of
       None \<Rightarrow>
         bindT gen_random_uuid (\<lambda>ident.
         bindT (queryT (\<lambda>s. \<lparr>wa_id = ident, wa_user = userID, wa_asset = assetID, wa_address = address, wa_tag = tag,
           wa_label = label, wa_status = ''pending'', wa_whitelisted = whitelisted, wa_activated_at = Some activation,
           wa_created_at = pg_now s\<rparr>)) (\<lambda>r.
         bindT (queryT (\<lambda>s. wa_id ` set (withdrawal_addresses s))) (\<lambda>ids.
         bindT (ensureT (ident \<notin> ids) unique_violation) (\<lambda>_.
         bindT (execT (\<lambda>s. s\<lparr>withdrawal_addresses := withdrawal_addresses s @ [r]\<rparr>)) (\<lambda>_.
         returnT r)))))
     | Some r \<Rightarrow>
         bindT (ensureT (wa_status r = ''pending'') (App ErrRowMissing)) (\<lambda>_.
         let r' = r\<lparr>wa_label := label, wa_whitelisted := whitelisted\<rparr> in
         bindT (execT (\<lambda>s. s\<lparr>withdrawal_addresses := update_where (\<lambda>x. wa_id x = wa_id r) (\<lambda>_. r') (withdrawal_addresses s)\<rparr>)) (\<lambda>_.
         returnT r')))"

definition AddWithdrawalAddress :: "int \<Rightarrow> string \<Rightarrow> string \<Rightarrow> string \<Rightarrow> string \<Rightarrow> string \<Rightarrow> string \<Rightarrow> bool \<Rightarrow> int \<Rightarrow> custody_db \<Rightarrow>
    (custody_failure + WithdrawalAddress) \<times> custody_db" where
  "AddWithdrawalAddress now userID symbol network address tag label whitelisted cooldown = transaction (
     bindT (rowT (\<lambda>s. enabled_asset s symbol network) (App ErrWithdrawalAddressUnavailable)) (\<lambda>asset.
     bindT (upsert_address userID (as_id asset) address tag label whitelisted ((now + cooldown) div 1000)) (\<lambda>r.
     bindT (custody_audit userID ''withdrawal.address_added'' (wa_id r) []
       [(''asset_symbol'', JString symbol), (''network'', JString network), (''label'', JString label)]) (\<lambda>_.
     let payload = [(''user_id'', JString userID), (''address_id'', JString (wa_id r)), (''asset_symbol'', JString symbol),
       (''network'', JString network), (''label'', JString label)] in
     bindT (if whitelisted then
         bindT (custody_audit userID ''withdrawal.address_whitelisted'' (wa_id r) [] payload) (\<lambda>_.
         custody_outbox ''security.withdrawal_address_whitelisted'' ''user'' userID payload)
       else returnT ()) (\<lambda>_.
     returnT (address_item symbol network r))))))"

definition IsWithdrawalAddressWhitelisted :: "custody_db \<Rightarrow> string \<Rightarrow> string \<Rightarrow> string \<Rightarrow> string \<Rightarrow> string \<Rightarrow> bool" where
  "IsWithdrawalAddressWhitelisted s userID symbol network address tag \<longleftrightarrow>
     list_ex (\<lambda>r. wa_user r = userID \<and> wa_address r = address \<and> wa_tag r = tag \<and> wa_status r = ''active'' \<and> wa_whitelisted r \<and>
       elapsed s r \<and> list_ex (\<lambda>a. as_id a = wa_asset r \<and> as_symbol a = symbol \<and> as_network a = network) (assets s))
     (withdrawal_addresses s)"

definition DisableWithdrawalAddress :: "string \<Rightarrow> string \<Rightarrow> custody_db \<Rightarrow> (custody_failure + bool) \<times> custody_db" where
  "DisableWithdrawalAddress userID addressID = transaction (
     bindT (queryT (\<lambda>s. filter (\<lambda>r. wa_id r = addressID \<and> wa_user r = userID \<and> wa_status r \<in> {''pending'', ''active''})
       (withdrawal_addresses s))) (\<lambda>hit.
     bindT (execT (\<lambda>s. s\<lparr>withdrawal_addresses := update_where
       (\<lambda>r. wa_id r = addressID \<and> wa_user r = userID \<and> wa_status r \<in> {''pending'', ''active''})
       (\<lambda>r. r\<lparr>wa_status := ''disabled''\<rparr>) (withdrawal_addresses s)\<rparr>)) (\<lambda>_.
     if length hit \<noteq> 1 then returnT False
     else bindT (custody_audit userID ''withdrawal.address_disabled'' addressID [] []) (\<lambda>_. returnT True))))"

section \<open>The withdrawal service\<close>

record WithdrawalRequestBody =
  wb_SourceAccountID :: string
  wb_AssetSymbol :: string
  wb_Network :: string
  wb_Address :: string
  wb_Tag :: string
  wb_AmountAtomic :: i64
  wb_IdempotencyKey :: string

record AddressInput =
  ad_AssetSymbol :: string
  ad_Network :: string
  ad_Address :: string
  ad_Tag :: string
  ad_Label :: string
  ad_Whitelisted :: bool

definition withdrawal_input :: "go_env \<Rightarrow> string \<Rightarrow> WithdrawalRequestBody \<Rightarrow> WithdrawalInput" where
  "withdrawal_input env userID body =
     \<lparr>wi_UserID = userID, wi_SourceAccountID = wb_SourceAccountID body,
      wi_AssetSymbol = ToUpper (uni_upper env) (TrimSpace (wb_AssetSymbol body)),
      wi_Network = ToLower (uni_lower env) (TrimSpace (wb_Network body)), wi_Address = TrimSpace (wb_Address body),
      wi_Tag = TrimSpace (wb_Tag body), wi_AmountAtomic = wb_AmountAtomic body,
      wi_IdempotencyKey = TrimSpace (wb_IdempotencyKey body)\<rparr>"

definition Withdrawal_Request :: "go_env \<Rightarrow> RoutePolicy \<Rightarrow> string \<Rightarrow> WithdrawalRequestBody \<Rightarrow> custody_db \<Rightarrow>
    (custody_failure + WithdrawalResult) \<times> custody_db" where
  "Withdrawal_Request env policy userID body s =
     (let input = withdrawal_input env userID body in
      if wi_SourceAccountID input = [] \<or> wi_AssetSymbol input = [] \<or> wi_Network input = [] \<or> wi_Address input = [] \<or>
         sint (wi_AmountAtomic input) \<le> 0 \<or> length (wi_IdempotencyKey input) < 16 \<or> length (wi_IdempotencyKey input) > 255
        then (Inl (App ErrInvalidInput), s)
      else if policy_Validate env policy (wi_Network input) \<noteq> None then (Inl (App ErrWithdrawalNotAllowed), s)
      else RequestWithdrawal input s)"

definition Withdrawal_Cancel :: "string \<Rightarrow> string \<Rightarrow> custody_db \<Rightarrow> (custody_failure + WithdrawalCancellationResult) \<times> custody_db" where
  "Withdrawal_Cancel userID withdrawalID s =
     (if TrimSpace userID = [] \<or> TrimSpace withdrawalID = [] then (Inl (App ErrInvalidInput), s)
      else CancelWithdrawal userID (TrimSpace withdrawalID) s)"

definition Withdrawal_AddAddress :: "go_env \<Rightarrow> RoutePolicy \<Rightarrow> int \<Rightarrow> string \<Rightarrow> AddressInput \<Rightarrow> int \<Rightarrow> custody_db \<Rightarrow>
    (custody_failure + WithdrawalAddress) \<times> custody_db" where
  "Withdrawal_AddAddress env policy now userID input cooldown s =
     (let symbol = ToUpper (uni_upper env) (TrimSpace (ad_AssetSymbol input));
          network = ToLower (uni_lower env) (TrimSpace (ad_Network input));
          address = TrimSpace (ad_Address input); tag = TrimSpace (ad_Tag input); label = TrimSpace (ad_Label input) in
      if userID = [] \<or> symbol = [] \<or> network = [] \<or> address = [] \<or> label = [] \<or> length label > 100 \<or> cooldown < 0
        then (Inl (App ErrInvalidInput), s)
      else if policy_Validate env policy network \<noteq> None then (Inl (App ErrWithdrawalNotAllowed), s)
      else AddWithdrawalAddress now userID symbol network address tag label (ad_Whitelisted input) cooldown s)"

definition Withdrawal_DisableAddress :: "string \<Rightarrow> string \<Rightarrow> custody_db \<Rightarrow> (custody_failure + bool) \<times> custody_db" where
  "Withdrawal_DisableAddress userID addressID s =
     (if userID = [] \<or> TrimSpace addressID = [] then (Inl (App ErrInvalidInput), s)
      else DisableWithdrawalAddress userID addressID s)"

end
