(* ===== verification/Withdrawal_Capacity.thy ===== *)
theory Withdrawal_Capacity
  imports Withdrawals
begin

text \<open>
  Custody capacity, internal/datamanager/withdrawal_capacity.go: the proposal and the approval of
  a withdrawal route, the lookup of the approved route, the capacity locks and the obligations
  still open against a vault. \<open>quote\<close> is the string literal of encoding/json, used for the
  fingerprint of a proposal.
\<close>

record CustodyWithdrawalRouteInput =
  ri_AssetID :: string
  ri_Provider :: string
  ri_Environment :: string
  ri_Network :: string
  ri_ProviderAssetID :: string
  ri_AssetDecimals :: int
  ri_FeeProviderAssetID :: string
  ri_FeeAssetDecimals :: int
  ri_MaxFeeAtomic :: string
  ri_MaxObservationAgeSeconds :: int
  ri_Reason :: string
  ri_IdempotencyKey :: string

record CustodyWithdrawalRouteRequest =
  rq_RequestID :: string
  rq_RouteID :: string
  rq_Duplicate :: bool

record CapacityRoute =
  cr_Required :: bool
  cr_RouteID :: string
  cr_AssetID :: string
  cr_Environment :: string
  cr_Provider :: string
  cr_Network :: string
  cr_ProviderAssetID :: string
  cr_AssetDecimals :: int
  cr_FeeProviderAssetID :: string
  cr_FeeAssetDecimals :: int
  cr_MaxFeeAtomic :: string
  cr_MaxObservationAgeSeconds :: int

text \<open>\<open>ObservedAt\<close> is a Go time in nanoseconds, \<open>None\<close> the zero time.\<close>

record WithdrawalCapacityEvidence =
  ce_RouteID :: string
  ce_Environment :: string
  ce_ObservedAt :: "int option"
  ce_AssetAvailable :: string
  ce_FeeAvailable :: string
  ce_FeeRequired :: string
  ce_AssetBlockHeight :: string
  ce_AssetBlockHash :: string
  ce_FeeBlockHeight :: string
  ce_FeeBlockHash :: string

definition route_text :: "(string \<Rightarrow> string) \<Rightarrow> CustodyWithdrawalRouteInput \<Rightarrow> string" where
  "route_text quote input = ''{'' @ Join (map (\<lambda>(k, v). quote k @ '':'' @ v)
     [(''AssetID'', quote (ri_AssetID input)), (''Provider'', quote (ri_Provider input)),
      (''Environment'', quote (ri_Environment input)), (''Network'', quote (ri_Network input)),
      (''ProviderAssetID'', quote (ri_ProviderAssetID input)), (''AssetDecimals'', BigString (ri_AssetDecimals input)),
      (''FeeProviderAssetID'', quote (ri_FeeProviderAssetID input)), (''FeeAssetDecimals'', BigString (ri_FeeAssetDecimals input)),
      (''MaxFeeAtomic'', quote (ri_MaxFeeAtomic input)),
      (''MaxObservationAgeSeconds'', BigString (ri_MaxObservationAgeSeconds input)),
      (''Reason'', quote (ri_Reason input)), (''IdempotencyKey'', quote (ri_IdempotencyKey input))]) '','' @ ''}''"

definition requireCustodyRouteRole :: "string \<Rightarrow> string \<Rightarrow> unit custody_tx" where
  "requireCustodyRouteRole actor role =
     bindT (queryT (\<lambda>s. list_ex (\<lambda>u. u_id u = actor \<and> u_status u = ''active'') (users s) \<and> has_role s actor role)) (\<lambda>ok.
     ensureT ok (App ErrWithdrawalCapacityRouteActor))"

definition route_input_ok :: "string \<Rightarrow> CustodyWithdrawalRouteInput \<Rightarrow> bool" where
  "route_input_ok actor input \<longleftrightarrow>
     actor \<noteq> [] \<and> ri_AssetID input \<noteq> [] \<and> ri_Provider input \<noteq> [] \<and> ri_Network input \<noteq> [] \<and> ri_ProviderAssetID input \<noteq> [] \<and>
     ri_FeeProviderAssetID input \<noteq> [] \<and> ri_IdempotencyKey input \<noteq> [] \<and> 8 \<le> length (ri_Reason input) \<and> length (ri_Reason input) \<le> 500 \<and>
     ri_Environment input \<in> {''staging'', ''production''} \<and> 0 \<le> ri_AssetDecimals input \<and> ri_AssetDecimals input \<le> 36 \<and>
     0 \<le> ri_FeeAssetDecimals input \<and> ri_FeeAssetDecimals input \<le> 36 \<and> 1 \<le> ri_MaxObservationAgeSeconds input \<and>
     ri_MaxObservationAgeSeconds input \<le> 30 \<and>
     \<not> (ri_ProviderAssetID input = ri_FeeProviderAssetID input \<and> ri_AssetDecimals input \<noteq> ri_FeeAssetDecimals input)"

definition insert_route :: "string \<Rightarrow> CustodyWithdrawalRouteInput \<Rightarrow> string custody_tx" where
  "insert_route actor input =
     bindT (numeric_text (ri_MaxFeeAtomic input)) (\<lambda>maxFee.
     bindT gen_random_uuid (\<lambda>rid.
     bindT (queryT (\<lambda>s. rt_id ` set (custody_withdrawal_routes s))) (\<lambda>ids.
     bindT (ensureT (rid \<notin> ids) unique_violation) (\<lambda>_.
     bindT (execT (\<lambda>s. s\<lparr>custody_withdrawal_routes := custody_withdrawal_routes s @
       [\<lparr>rt_id = rid, rt_asset = ri_AssetID input, rt_provider = ri_Provider input, rt_environment = ri_Environment input,
         rt_network = ri_Network input, rt_provider_asset = ri_ProviderAssetID input, rt_decimals = ri_AssetDecimals input,
         rt_fee_asset = ri_FeeProviderAssetID input, rt_fee_decimals = ri_FeeAssetDecimals input, rt_max_fee = maxFee,
         rt_max_age = ri_MaxObservationAgeSeconds input, rt_created_by = actor\<rparr>]\<rparr>)) (\<lambda>_.
     returnT rid)))))"

definition insert_route_request :: "string \<Rightarrow> CustodyWithdrawalRouteInput \<Rightarrow> string \<Rightarrow> string \<Rightarrow> string custody_tx" where
  "insert_route_request actor input hash routeID =
     bindT gen_random_uuid (\<lambda>qid.
     bindT (queryT (\<lambda>s. rr_id ` set (custody_withdrawal_route_requests s))) (\<lambda>ids.
     bindT (ensureT (qid \<notin> ids) unique_violation) (\<lambda>_.
     bindT (execT (\<lambda>s. s\<lparr>custody_withdrawal_route_requests := custody_withdrawal_route_requests s @
       [\<lparr>rr_id = qid, rr_route = routeID, rr_action = ''enable'', rr_proposed_by = actor, rr_reason = ri_Reason input,
         rr_key = ri_IdempotencyKey input, rr_hash = hash\<rparr>]\<rparr>)) (\<lambda>_.
     returnT qid))))"

definition ProposeCustodyWithdrawalRoute_tx :: "string \<Rightarrow> string \<Rightarrow> CustodyWithdrawalRouteInput \<Rightarrow> CustodyWithdrawalRouteRequest custody_tx" where
  "ProposeCustodyWithdrawalRoute_tx hash actor input =
     bindT (advisory_lock (''custody-route-proposal:'' @ actor @ '':'' @ ri_IdempotencyKey input)) (\<lambda>_.
     bindT (queryT (\<lambda>s. find (\<lambda>q. rr_proposed_by q = actor \<and> rr_key q = ri_IdempotencyKey input)
       (custody_withdrawal_route_requests s))) (\<lambda>found.
     case found of
       Some q \<Rightarrow>
         bindT (ensureT (rr_hash q = hash) (App ErrWithdrawalCapacityRouteConflict)) (\<lambda>_.
         returnT \<lparr>rq_RequestID = rr_id q, rq_RouteID = rr_route q, rq_Duplicate = True\<rparr>)
     | None \<Rightarrow>
         bindT (requireCustodyRouteRole actor ''treasury_operator'') (\<lambda>_.
         bindT (rowT (\<lambda>s. find (\<lambda>a. as_id a = ri_AssetID input \<and> as_status a = ''enabled'') (assets s))
           (App ErrWithdrawalCapacityRouteUnavailable)) (\<lambda>a.
         bindT (rowT (\<lambda>s. find (\<lambda>x. xa_asset x = as_id a) (custody_assets s)) (App ErrWithdrawalCapacityRouteUnavailable)) (\<lambda>x.
         bindT (ensureT (as_network a = ri_Network input \<and> xa_custody_id x = ri_ProviderAssetID input \<and>
           as_decimals a = ri_AssetDecimals input) (App ErrWithdrawalCapacityRouteUnavailable)) (\<lambda>_.
         bindT (insert_route actor input) (\<lambda>rid.
         bindT (insert_route_request actor input hash rid) (\<lambda>qid.
         let metadata = [(''request_id'', JString qid), (''route_id'', JString rid)] in
         bindT (custody_audit actor ''custody.route_proposed'' rid [] metadata) (\<lambda>_.
         bindT (custody_outbox ''custody.route_proposed'' ''custody_withdrawal_route'' rid metadata) (\<lambda>_.
         returnT \<lparr>rq_RequestID = qid, rq_RouteID = rid, rq_Duplicate = False\<rparr>))))))))))"

definition ProposeCustodyWithdrawalRoute :: "go_env \<Rightarrow> (string \<Rightarrow> string) \<Rightarrow> string \<Rightarrow> CustodyWithdrawalRouteInput \<Rightarrow> custody_db \<Rightarrow>
    (custody_failure + CustodyWithdrawalRouteRequest) \<times> custody_db" where
  "ProposeCustodyWithdrawalRoute env quote actor input s =
     (if \<not> route_input_ok actor input then (Inl (App ErrWithdrawalCapacityRouteUnavailable), s)
      else case parseCapacityAtomic (ri_MaxFeeAtomic input) of
        Inl e \<Rightarrow> (Inl e, s)
      | Inr _ \<Rightarrow> transaction (ProposeCustodyWithdrawalRoute_tx (sha256 env (route_text quote input)) actor input) s)"

definition ApproveCustodyWithdrawalRoute_tx :: "string \<Rightarrow> string \<Rightarrow> string \<Rightarrow> string \<Rightarrow> CustodyWithdrawalRouteRequest custody_tx" where
  "ApproveCustodyWithdrawalRoute_tx actor requestID reason idempotencyKey =
     bindT (advisory_lock (''custody-route-approval:'' @ actor @ '':'' @ idempotencyKey)) (\<lambda>_.
     bindT (queryT (\<lambda>s. find (\<lambda>a. ra_approved_by a = actor \<and> ra_key a = idempotencyKey) (custody_withdrawal_route_approvals s))) (\<lambda>found.
     case found of
       Some a \<Rightarrow>
         bindT (ensureT (ra_request a = requestID \<and> ra_reason a = reason) (App ErrWithdrawalCapacityRouteConflict)) (\<lambda>_.
         returnT \<lparr>rq_RequestID = ra_request a, rq_RouteID = ra_route a, rq_Duplicate = True\<rparr>)
     | None \<Rightarrow>
         bindT (requireCustodyRouteRole actor ''treasury_approver'') (\<lambda>_.
         bindT (rowT (\<lambda>s. find (\<lambda>q. rr_id q = requestID) (custody_withdrawal_route_requests s)) (App ErrWithdrawalCapacityRouteActor)) (\<lambda>q.
         bindT (ensureT (rr_proposed_by q \<noteq> actor) (App ErrWithdrawalCapacityRouteActor)) (\<lambda>_.
         bindT (requireCustodyRouteRole (rr_proposed_by q) ''treasury_operator'') (\<lambda>_.
         bindT (queryT (\<lambda>s. ra_request ` set (custody_withdrawal_route_approvals s))) (\<lambda>ids.
         bindT (ensureT (requestID \<notin> ids) unique_violation) (\<lambda>_.
         bindT (execT (\<lambda>s. s\<lparr>custody_withdrawal_route_approvals := custody_withdrawal_route_approvals s @
           [\<lparr>ra_request = requestID, ra_route = rr_route q, ra_proposed_by = rr_proposed_by q, ra_approved_by = actor,
             ra_reason = reason, ra_key = idempotencyKey, ra_approved_at = pg_now s\<rparr>]\<rparr>)) (\<lambda>_.
         let metadata = [(''request_id'', JString requestID), (''route_id'', JString (rr_route q))] in
         bindT (custody_audit actor ''custody.route_approved'' (rr_route q) [] metadata) (\<lambda>_.
         bindT (custody_outbox ''custody.route_approved'' ''custody_withdrawal_route'' (rr_route q) metadata) (\<lambda>_.
         returnT \<lparr>rq_RequestID = requestID, rq_RouteID = rr_route q, rq_Duplicate = False\<rparr>)))))))))))"

definition ApproveCustodyWithdrawalRoute :: "string \<Rightarrow> string \<Rightarrow> string \<Rightarrow> string \<Rightarrow> custody_db \<Rightarrow>
    (custody_failure + CustodyWithdrawalRouteRequest) \<times> custody_db" where
  "ApproveCustodyWithdrawalRoute actor requestID reason idempotencyKey s =
     (if actor = [] \<or> requestID = [] \<or> idempotencyKey = [] \<or> length reason < 8 \<or> length reason > 500
        then (Inl (App ErrWithdrawalCapacityRouteActor), s)
      else transaction (ApproveCustodyWithdrawalRoute_tx actor requestID reason idempotencyKey) s)"

section \<open>Approved routes\<close>

text \<open>The join of approvals, requests and routes, newest approval first.\<close>

definition newest_approval :: "(route_row \<Rightarrow> bool) \<Rightarrow> custody_db \<Rightarrow> (route_row \<times> string) option" where
  "newest_approval p s =
     (case sort_key fst
        (concat (map (\<lambda>a. concat (map (\<lambda>q. if rr_id q = ra_request a then
           map (\<lambda>r. ((ra_approved_at a, ra_request a), (r, rr_action q)))
             (filter (\<lambda>r. rt_id r = rr_route q \<and> p r) (custody_withdrawal_routes s)) else [])
           (custody_withdrawal_route_requests s))) (custody_withdrawal_route_approvals s))) of
        [] \<Rightarrow> None
      | rows \<Rightarrow> Some (snd (last rows)))"

definition capacity_route :: "bool \<Rightarrow> route_row \<Rightarrow> CapacityRoute" where
  "capacity_route req r =
     \<lparr>cr_Required = req, cr_RouteID = rt_id r, cr_AssetID = rt_asset r, cr_Environment = rt_environment r,
      cr_Provider = rt_provider r, cr_Network = rt_network r, cr_ProviderAssetID = rt_provider_asset r,
      cr_AssetDecimals = rt_decimals r, cr_FeeProviderAssetID = rt_fee_asset r, cr_FeeAssetDecimals = rt_fee_decimals r,
      cr_MaxFeeAtomic = BigString (rt_max_fee r), cr_MaxObservationAgeSeconds = rt_max_age r\<rparr>"

definition no_route :: CapacityRoute where
  "no_route = \<lparr>cr_Required = False, cr_RouteID = [], cr_AssetID = [], cr_Environment = [], cr_Provider = [], cr_Network = [],
     cr_ProviderAssetID = [], cr_AssetDecimals = 0, cr_FeeProviderAssetID = [], cr_FeeAssetDecimals = 0, cr_MaxFeeAtomic = [],
     cr_MaxObservationAgeSeconds = 0\<rparr>"

definition WithdrawalCapacityRoute :: "string \<Rightarrow> string \<Rightarrow> WithdrawalForCustody \<Rightarrow> custody_db \<Rightarrow> custody_failure + CapacityRoute" where
  "WithdrawalCapacityRoute provider environment item s =
     (if \<not> (test_money_ready s \<or> test_money_enabled s \<or> test_money_grants s \<noteq> [] \<or> environment = ''production'') then Inr no_route
      else case newest_approval (\<lambda>r. rt_asset r = wc_AssetID item \<and> rt_provider r = provider \<and> rt_environment r = environment \<and>
          rt_network r = wc_Network item) s of
        None \<Rightarrow> Inl (App ErrWithdrawalCapacityRouteUnavailable)
      | Some (r, act) \<Rightarrow>
          if act \<noteq> ''enable'' then Inl (App ErrWithdrawalCapacityRouteUnavailable)
          else if environment = [] \<or> rt_environment r \<noteq> environment \<or> rt_network r \<noteq> wc_Network item \<or>
            rt_provider_asset r \<noteq> wc_CustodyAssetID item \<or> rt_decimals r \<noteq> wc_AssetDecimals item
            then Inl (App ErrWithdrawalCapacityRouteUnavailable)
          else Inr (capacity_route True r))"

definition capacityRouteInTx :: "string \<Rightarrow> CapacityRoute custody_tx" where
  "capacityRouteInTx routeID =
     bindT (ensureT (routeID \<noteq> []) (App ErrWithdrawalCapacityObservation)) (\<lambda>_.
     bindT (advisory_lock (''custody-route:'' @ routeID)) (\<lambda>_.
     bindT (rowT (newest_approval (\<lambda>r. rt_id r = routeID)) (App ErrWithdrawalCapacityRouteUnavailable)) (\<lambda>(r, act).
     bindT (ensureT (act = ''enable'') (App ErrWithdrawalCapacityRouteUnavailable)) (\<lambda>_.
     returnT (capacity_route False r)))))"

definition lockCapacity :: "string \<Rightarrow> string \<Rightarrow> string list \<Rightarrow> unit custody_tx" where
  "lockCapacity provider vault assetIDs =
     forT advisory_lock (sort (remdups (map (\<lambda>x. ''custody-capacity:'' @ provider @ '':'' @ vault @ '':'' @ x) assetIDs)))"

definition open_reservation :: "custody_db \<Rightarrow> reservation_row \<Rightarrow> bool" where
  "open_reservation s r \<longleftrightarrow> rv_withdrawal r \<notin> te_withdrawal ` set (custody_capacity_terminal_events s)"

definition open_obligations :: "custody_db \<Rightarrow> string \<Rightarrow> string \<Rightarrow> string \<Rightarrow> int" where
  "open_obligations s provider vault asset =
     sum_list (map rv_amount (filter (\<lambda>r. rv_provider r = provider \<and> rv_vault r = vault \<and> rv_asset r = asset \<and> open_reservation s r)
       (custody_capacity_reservations s))) +
     sum_list (map rv_fee (filter (\<lambda>r. rv_provider r = provider \<and> rv_vault r = vault \<and> rv_fee_asset r = asset \<and> open_reservation s r)
       (custody_capacity_reservations s)))"

definition openCapacity :: "string \<Rightarrow> string \<Rightarrow> string \<Rightarrow> int custody_tx" where
  "openCapacity provider vault asset =
     bindT (queryT (\<lambda>s. BigString (open_obligations s provider vault asset))) (\<lambda>raw. liftT (parseCapacityAtomic raw))"

end
