(* ===== verification/Withdrawal_Dispatch.thy ===== *)
theory Withdrawal_Dispatch
  imports Withdrawal_Capacity
begin

text \<open>
  The custody side of withdrawals: the list of approved withdrawals, the one-shot dispatch
  (withdrawal_dispatch.go), the acknowledgement and the custody status updates (manager.go) and the
  reconciliation of unknown outcomes (withdrawal_reconciliation.go). An actor that the statement
  leaves NULL in an audit row is the empty text.
\<close>

record WithdrawalCustodyUpdate =
  wu_ProviderTransactionID :: string
  wu_Status :: string
  wu_TransactionHash :: string

record WithdrawalReconciliationCandidate =
  rc_WithdrawalID :: string
  rc_Provider :: string

record WithdrawalReconciliationObservation =
  wo_Found :: bool
  wo_ProviderTransactionID :: string
  wo_ExternalID :: string
  wo_Status :: string
  wo_TransactionHash :: string

section \<open>Approved withdrawals\<close>

text \<open>
  The rows of the join of a withdrawal, its asset and the active wallets of its user: the payload,
  with the vault still possibly NULL, and the source account.
\<close>

definition custody_rows :: "custody_db \<Rightarrow> string \<Rightarrow> withdrawal_row \<Rightarrow> (string option \<times> (string \<Rightarrow> WithdrawalForCustody)) list" where
  "custody_rows s provider w =
     concat (map (\<lambda>a. concat (map (\<lambda>x. map (\<lambda>c. (wl_vault c, \<lambda>vault.
         \<lparr>wc_ID = wd_id w, wc_UserID = wd_user w, wc_AssetID = as_id a, wc_SourceVaultID = vault, wc_CustodyAssetID = xa_custody_id x,
          wc_Network = as_network a, wc_DestinationAddress = wd_destination w, wc_DestinationTag = wd_tag w,
          wc_AmountAtomic = BigString (wd_amount w), wc_AssetDecimals = as_decimals a\<rparr>))
         (filter (\<lambda>c. wl_user c = wd_user w \<and> wl_provider c = provider \<and> wl_status c = ''active'') (custody_wallets s)))
       (filter (\<lambda>x. xa_asset x = as_id a \<and> xa_custody_id x \<noteq> []) (custody_assets s))))
     (filter (\<lambda>a. as_id a = wd_asset w \<and> as_status a = ''enabled'') (assets s)))"

definition dispatched :: "custody_db \<Rightarrow> string \<Rightarrow> bool" where
  "dispatched s wid \<longleftrightarrow> wid \<in> ds_withdrawal ` set (withdrawal_dispatches s)"

fun scan_rows :: "(string option \<times> (string \<Rightarrow> 'a)) list \<Rightarrow> custody_failure + 'a list" where
  "scan_rows [] = Inr []"
| "scan_rows ((None, _) # rows) = Inl (App ErrScanNull)"
| "scan_rows ((Some v, f) # rows) = (case scan_rows rows of Inl e \<Rightarrow> Inl e | Inr xs \<Rightarrow> Inr (f v # xs))"

definition clamp_limit :: "int \<Rightarrow> nat" where
  "clamp_limit limit = (if limit < 1 \<or> limit > 100 then 25 else nat limit)"

definition ApprovedWithdrawals :: "string \<Rightarrow> int \<Rightarrow> custody_db \<Rightarrow> custody_failure + WithdrawalForCustody list" where
  "ApprovedWithdrawals provider limit s =
     scan_rows (take (clamp_limit limit) (concat (map (custody_rows s provider)
       (sort_key (\<lambda>w. (wd_created_at w, wd_id w))
         (filter (\<lambda>w. wd_status w = ''approved'' \<and> wd_provider_tx w = None \<and> \<not> dispatched s (wd_id w)) (withdrawals s))))))"

section \<open>Dispatch\<close>

definition dispatch_row_of :: "string \<Rightarrow> string \<Rightarrow> custody_db \<Rightarrow> (WithdrawalForCustody \<times> string) option" where
  "dispatch_row_of wid provider s =
     (case find (\<lambda>w. wd_id w = wid \<and> wd_status w = ''approved'' \<and> wd_provider_tx w = None) (withdrawals s) of
        None \<Rightarrow> None
      | Some w \<Rightarrow>
          (case concat (map (\<lambda>(v, f). case v of None \<Rightarrow> [] | Some vault \<Rightarrow> if vault = [] then [] else [f vault]) (custody_rows s provider w)) of
             [] \<Rightarrow> None
           | item # _ \<Rightarrow> Some (item, wd_account w)))"

definition customer_eligible :: "custody_db \<Rightarrow> string \<Rightarrow> bool" where
  "customer_eligible s userID \<longleftrightarrow>
     list_ex (\<lambda>u. u_id u = userID \<and> u_status u = ''active'') (users s) \<and>
     list_ex (\<lambda>k. ky_user k = userID \<and> ky_status k = ''approved'' \<and>
       (case ky_expires_at k of None \<Rightarrow> True | Some t \<Rightarrow> pg_now s < t)) (kyc_profiles s)"

definition account_eligible :: "custody_db \<Rightarrow> string \<Rightarrow> string \<Rightarrow> bool" where
  "account_eligible s accountID userID \<longleftrightarrow>
     list_ex (\<lambda>a. ac_id a = accountID \<and> ac_user_id a = Some userID \<and> ac_status a = ''active'' \<and> ac_kind a \<in> {''funding'', ''uta''}) (accounts s)"

definition held_for_withdrawal :: "custody_db \<Rightarrow> string \<Rightarrow> string \<Rightarrow> string \<Rightarrow> int \<Rightarrow> bool" where
  "held_for_withdrawal s wid accountID assetID amount \<longleftrightarrow>
     list_ex (\<lambda>j. (j_id j, wid) \<in> set (withdrawal_journals s) \<and> j_reference_type j = ''withdrawal_hold'' \<and> j_status j = Posted \<and>
       length (filter (\<lambda>p. p_journal p = j_id j) (postings s)) = 2 \<and>
       list_ex (\<lambda>p. p_journal p = j_id j \<and> l_account p = accountID \<and> l_asset p = assetID \<and> l_bucket p = Available \<and>
         l_direction p = DebitSide \<and> l_amount p = amount) (postings s) \<and>
       list_ex (\<lambda>p. p_journal p = j_id j \<and> l_account p = accountID \<and> l_asset p = assetID \<and> l_bucket p = Held \<and>
         l_direction p = CreditSide \<and> l_amount p = amount) (postings s)) (journals s) \<and>
     \<not> posted_withdrawal_journal s wid [''withdrawal_cancel'', ''withdrawal_release'', ''withdrawal_settlement''] \<and>
     amount \<le> posted_bucket_sum s accountID assetID Held"

definition capacity_amount :: "string \<Rightarrow> int custody_tx" where
  "capacity_amount raw = liftT (case parseCapacityAtomic raw of Inl _ \<Rightarrow> Inl (App ErrWithdrawalCapacityObservation) | Inr n \<Rightarrow> Inr n)"

definition check_freshness :: "CapacityRoute \<Rightarrow> WithdrawalCapacityEvidence \<Rightarrow> unit custody_tx" where
  "check_freshness route capacity =
     bindT (queryT (\<lambda>s. pg_now s * 1000)) (\<lambda>databaseNow.
     ensureT (case ce_ObservedAt capacity of None \<Rightarrow> False | Some t \<Rightarrow>
       t \<le> databaseNow + 10 ^ 9 \<and> databaseNow - cr_MaxObservationAgeSeconds route * 10 ^ 9 \<le> t) (App ErrWithdrawalCapacityObservation))"

definition check_open :: "string \<Rightarrow> string \<Rightarrow> CapacityRoute \<Rightarrow> int \<Rightarrow> int \<Rightarrow> int \<Rightarrow> int \<Rightarrow> unit custody_tx" where
  "check_open provider vault route amount assetAvailable feeAvailable feeRequired =
     bindT (lockCapacity provider vault [cr_ProviderAssetID route, cr_FeeProviderAssetID route]) (\<lambda>_.
     bindT (openCapacity provider vault (cr_ProviderAssetID route)) (\<lambda>assetOpen.
     if cr_ProviderAssetID route = cr_FeeProviderAssetID route then
       bindT (ensureT (assetAvailable = feeAvailable) (App ErrWithdrawalCapacityObservation)) (\<lambda>_.
       ensureT (assetOpen + amount + feeRequired \<le> assetAvailable) (App ErrWithdrawalCustodyCapacity))
     else
       bindT (ensureT (assetOpen + amount \<le> assetAvailable) (App ErrWithdrawalCustodyCapacity)) (\<lambda>_.
       bindT (openCapacity provider vault (cr_FeeProviderAssetID route)) (\<lambda>feeOpen.
       ensureT (feeOpen + feeRequired \<le> feeAvailable) (App ErrWithdrawalCustodyCapacity)))))"

definition check_capacity :: "string \<Rightarrow> WithdrawalForCustody \<Rightarrow> WithdrawalCapacityEvidence \<Rightarrow> CapacityRoute custody_tx" where
  "check_capacity provider actual capacity =
     bindT (capacityRouteInTx (ce_RouteID capacity)) (\<lambda>route.
     bindT (ensureT (cr_AssetID route = wc_AssetID actual \<and> cr_Provider route = provider \<and> cr_Environment route = ce_Environment capacity \<and>
       cr_Network route = wc_Network actual \<and> cr_ProviderAssetID route = wc_CustodyAssetID actual \<and>
       cr_AssetDecimals route = wc_AssetDecimals actual) (App ErrWithdrawalCapacityRouteUnavailable)) (\<lambda>_.
     bindT (check_freshness route capacity) (\<lambda>_.
     bindT (capacity_amount (wc_AmountAtomic actual)) (\<lambda>amount.
     bindT (capacity_amount (ce_AssetAvailable capacity)) (\<lambda>assetAvailable.
     bindT (capacity_amount (ce_FeeAvailable capacity)) (\<lambda>feeAvailable.
     bindT (capacity_amount (ce_FeeRequired capacity)) (\<lambda>feeRequired.
     bindT (capacity_amount (cr_MaxFeeAtomic route)) (\<lambda>maxFee.
     bindT (ensureT (feeRequired \<le> maxFee) (App ErrWithdrawalCustodyCapacity)) (\<lambda>_.
     bindT (check_open provider (wc_SourceVaultID actual) route amount assetAvailable feeAvailable feeRequired) (\<lambda>_.
     returnT route))))))))))"

definition insert_dispatch :: "string \<Rightarrow> WithdrawalForCustody \<Rightarrow> withdrawalEntitlement \<Rightarrow> string option \<Rightarrow> unit custody_tx" where
  "insert_dispatch provider actual entitlement routeID =
     (let credited = SetString (we_credited entitlement); committed = SetString (we_committed entitlement) in
      bindT (ensureT (provider \<noteq> [] \<and> (we_enforced entitlement \<longrightarrow>
        (case (credited, committed) of (Some c, Some m) \<Rightarrow> m \<le> c \<and> 0 \<le> m | _ \<Rightarrow> False))) check_violation) (\<lambda>_.
      bindT (queryT (\<lambda>s. dispatched s (wc_ID actual))) (\<lambda>taken.
      bindT (ensureT (\<not> taken) unique_violation) (\<lambda>_.
      execT (\<lambda>s. s\<lparr>withdrawal_dispatches := withdrawal_dispatches s @
        [\<lparr>ds_withdrawal = wc_ID actual, ds_provider = provider, ds_request = actual, ds_enforced = we_enforced entitlement,
          ds_credited = credited, ds_committed = committed, ds_route = routeID\<rparr>]\<rparr>)))))"

definition insert_reservation :: "string \<Rightarrow> WithdrawalForCustody \<Rightarrow> WithdrawalCapacityEvidence \<Rightarrow> CapacityRoute \<Rightarrow> unit custody_tx" where
  "insert_reservation provider actual capacity route =
     bindT (numeric_text (wc_AmountAtomic actual)) (\<lambda>amount.
     bindT (numeric_text (ce_AssetAvailable capacity)) (\<lambda>assetAvailable.
     bindT (numeric_text (ce_FeeRequired capacity)) (\<lambda>fee.
     bindT (numeric_text (ce_FeeAvailable capacity)) (\<lambda>feeAvailable.
     bindT (ensureT (wc_SourceVaultID actual \<noteq> [] \<and> wc_CustodyAssetID actual \<noteq> [] \<and> 0 < amount \<and> 0 \<le> assetAvailable \<and>
       cr_FeeProviderAssetID route \<noteq> [] \<and> 0 \<le> fee \<and> 0 \<le> feeAvailable) check_violation) (\<lambda>_.
     bindT (queryT (\<lambda>s. rv_withdrawal ` set (custody_capacity_reservations s))) (\<lambda>ids.
     bindT (ensureT (wc_ID actual \<notin> ids) unique_violation) (\<lambda>_.
     execT (\<lambda>s. s\<lparr>custody_capacity_reservations := custody_capacity_reservations s @
       [\<lparr>rv_withdrawal = wc_ID actual, rv_route = ce_RouteID capacity, rv_provider = provider, rv_vault = wc_SourceVaultID actual,
         rv_asset = wc_CustodyAssetID actual, rv_amount = amount, rv_available = assetAvailable,
         rv_fee_asset = cr_FeeProviderAssetID route, rv_fee = fee, rv_fee_available = feeAvailable,
         rv_observed_at = (case ce_ObservedAt capacity of None \<Rightarrow> 0 | Some t \<Rightarrow> t div 1000),
         rv_asset_block_height = ce_AssetBlockHeight capacity, rv_asset_block_hash = ce_AssetBlockHash capacity,
         rv_fee_block_height = ce_FeeBlockHeight capacity, rv_fee_block_hash = ce_FeeBlockHash capacity,
         rv_created_at = pg_now s\<rparr>]\<rparr>))))))))"

definition dispatch_withdrawal :: "string \<Rightarrow> WithdrawalForCustody \<Rightarrow> string \<Rightarrow> withdrawalEntitlement \<Rightarrow>
    WithdrawalCapacityEvidence option \<Rightarrow> bool custody_tx" where
  "dispatch_withdrawal provider actual accountID entitlement capacity =
     bindT (queryT (\<lambda>s. customer_eligible s (wc_UserID actual))) (\<lambda>eligible.
     bindT (ensureT eligible (App ErrWithdrawalKYCRequired)) (\<lambda>_.
     bindT (queryT (\<lambda>s. account_eligible s accountID (wc_UserID actual))) (\<lambda>usable.
     bindT (ensureT usable (App ErrWithdrawalAccountUnavailable)) (\<lambda>_.
     bindT (LockAccountAsset ErrLockKey accountID (wc_AssetID actual)) (\<lambda>_.
     bindT (numeric_text (wc_AmountAtomic actual)) (\<lambda>amount.
     bindT (queryT (\<lambda>s. held_for_withdrawal s (wc_ID actual) accountID (wc_AssetID actual) amount)) (\<lambda>held.
     bindT (ensureT held (App ErrInsufficientWithdrawalBalance)) (\<lambda>_.
     bindT (ensureT (\<not> (we_enforced entitlement \<and> capacity = None)) (App ErrWithdrawalCapacityRouteUnavailable)) (\<lambda>_.
     bindT (case capacity of
         None \<Rightarrow> returnT no_route
       | Some c \<Rightarrow> check_capacity provider actual c) (\<lambda>route.
     bindT (insert_dispatch provider actual entitlement (case capacity of None \<Rightarrow> None | Some _ \<Rightarrow> Some (cr_RouteID route))) (\<lambda>_.
     bindT (case capacity of
         None \<Rightarrow> returnT ()
       | Some c \<Rightarrow> insert_reservation provider actual c route) (\<lambda>_.
     let evidence = [(''withdrawal_id'', JString (wc_ID actual)), (''provider'', JString provider)] @
       (case capacity of None \<Rightarrow> [] | Some c \<Rightarrow> [(''capacity_route_id'', JString (ce_RouteID c))]) in
     bindT (custody_audit [] ''withdrawal.dispatch_started'' (wc_ID actual) [] evidence) (\<lambda>_.
     bindT (custody_outbox ''withdrawal.dispatch_started'' ''withdrawal'' (wc_ID actual) evidence) (\<lambda>_.
     returnT True))))))))))))))"

definition claim_dispatch :: "string \<Rightarrow> WithdrawalForCustody \<Rightarrow> WithdrawalCapacityEvidence option \<Rightarrow> withdrawalEntitlement \<Rightarrow>
    (WithdrawalForCustody \<times> string) option \<Rightarrow> bool custody_tx" where
  "claim_dispatch provider expected capacity entitlement row =
     (case row of
        None \<Rightarrow> returnT False
      | Some (actual, accountID) \<Rightarrow>
          bindT (ensureT (actual = expected) (App ErrWithdrawalDispatchChanged)) (\<lambda>_.
          bindT (queryT (\<lambda>s. dispatched s (wc_ID actual))) (\<lambda>exists.
          if exists then returnT False else dispatch_withdrawal provider actual accountID entitlement capacity)))"

definition BeginWithdrawalDispatch_tx :: "string \<Rightarrow> WithdrawalForCustody \<Rightarrow> WithdrawalCapacityEvidence option \<Rightarrow> bool custody_tx" where
  "BeginWithdrawalDispatch_tx provider expected capacity =
     bindT (control_enabled ''withdrawals_enabled'') (\<lambda>enabled.
     bindT (ensureT enabled (App ErrWithdrawalsDisabled)) (\<lambda>_.
     bindT (rowT (\<lambda>s. withdrawal_by_id s (wc_ID expected)) (App ErrRowMissing)) (\<lambda>w.
     bindT (checkWithdrawalEntitlement (wd_user w) (wd_asset w) 0) (\<lambda>entitlement.
     bindT (queryT (dispatch_row_of (wc_ID expected) provider)) (\<lambda>row.
     claim_dispatch provider expected capacity entitlement row)))))"

definition BeginWithdrawalDispatch :: "string \<Rightarrow> WithdrawalForCustody \<Rightarrow> WithdrawalCapacityEvidence option \<Rightarrow> custody_db \<Rightarrow>
    (custody_failure + bool) \<times> custody_db" where
  "BeginWithdrawalDispatch provider expected capacity s =
     (if provider = [] \<or> wc_ID expected = [] then (Inl (App ErrWithdrawalDispatchChanged), s)
      else transaction (BeginWithdrawalDispatch_tx provider expected capacity) s)"

section \<open>Acknowledgement and settlement\<close>

definition MarkWithdrawalSubmitted_tx :: "string \<Rightarrow> string \<Rightarrow> unit custody_tx" where
  "MarkWithdrawalSubmitted_tx withdrawalID providerTransactionID =
     bindT (queryT (\<lambda>s. find (\<lambda>w. wd_id w = withdrawalID \<and> wd_status w = ''approved'' \<and> wd_provider_tx w = None) (withdrawals s))) (\<lambda>hit.
     case hit of
       None \<Rightarrow>
         bindT (rowT (\<lambda>s. withdrawal_by_id s withdrawalID) (App ErrWithdrawalDispatchChanged)) (\<lambda>w.
         ensureT (wd_provider_tx w = Some providerTransactionID) (App ErrWithdrawalDispatchChanged))
     | Some _ \<Rightarrow>
         bindT (queryT (\<lambda>s. list_ex (\<lambda>w. wd_provider_tx w = Some providerTransactionID) (withdrawals s))) (\<lambda>taken.
         bindT (ensureT (\<not> taken) unique_violation) (\<lambda>_.
         bindT (execT (\<lambda>s. s\<lparr>withdrawals := update_where (\<lambda>w. wd_id w = withdrawalID \<and> wd_status w = ''approved'' \<and> wd_provider_tx w = None)
           (\<lambda>w. w\<lparr>wd_status := ''submitted'', wd_provider_tx := Some providerTransactionID\<rparr>) (withdrawals s)\<rparr>)) (\<lambda>_.
         let payload = [(''withdrawal_id'', JString withdrawalID), (''provider_transaction_id'', JString providerTransactionID)] in
         bindT (custody_audit [] ''withdrawal.submitted'' withdrawalID [] payload) (\<lambda>_.
         custody_outbox ''withdrawal.submitted'' ''withdrawal'' withdrawalID payload)))))"

definition MarkWithdrawalSubmitted :: "string \<Rightarrow> string \<Rightarrow> custody_db \<Rightarrow> (custody_failure + unit) \<times> custody_db" where
  "MarkWithdrawalSubmitted withdrawalID providerTransactionID s =
     (if withdrawalID = [] \<or> providerTransactionID = [] then (Inl (App ErrWithdrawalDispatchChanged), s)
      else transaction (MarkWithdrawalSubmitted_tx withdrawalID providerTransactionID) s)"

definition custody_status :: "go_env \<Rightarrow> string \<Rightarrow> string option" where
  "custody_status env raw =
     (let status = ToUpper (uni_upper env) (TrimSpace raw) in
      if status \<in> {''COMPLETED'', ''CONFIRMED''} then Some ''completed''
      else if status \<in> {''FAILED'', ''REJECTED'', ''CANCELLED''} then Some ''failed''
      else if status \<in> {''SUBMITTED'', ''QUEUED'', ''PENDING_AUTHORIZATION'', ''PENDING_SIGNATURE'', ''BROADCASTING''} then Some ''submitted''
      else None)"

definition settle_withdrawal :: "withdrawal_row \<Rightarrow> string \<Rightarrow> string custody_tx" where
  "settle_withdrawal w nextStatus =
     (if nextStatus = ''completed'' then
        bindT (clearing_account (wd_asset w)) (\<lambda>clearing.
        post_withdrawal_journal (''withdrawal-settlement-'' @ wd_id w) ''withdrawal_settlement'' (wd_id w)
          (release_legs (wd_account w) clearing (wd_asset w) (wd_amount w)))
      else post_withdrawal_journal (''withdrawal-release-'' @ wd_id w) ''withdrawal_release'' (wd_id w)
        (release_legs (wd_account w) (wd_account w) (wd_asset w) (wd_amount w)))"

definition record_terminal :: "string \<Rightarrow> string \<Rightarrow> string \<Rightarrow> unit custody_tx" where
  "record_terminal wid outcome providerTx =
     bindT (queryT (\<lambda>s. wid \<in> rv_withdrawal ` set (custody_capacity_reservations s))) (\<lambda>reserved.
     if \<not> reserved then returnT ()
     else
       bindT (ensureT (providerTx \<noteq> []) check_violation) (\<lambda>_.
       bindT (queryT (\<lambda>s. wid \<in> te_withdrawal ` set (custody_capacity_terminal_events s))) (\<lambda>done_before.
       if done_before then returnT ()
       else execT (\<lambda>s. s\<lparr>custody_capacity_terminal_events := custody_capacity_terminal_events s @
         [\<lparr>te_withdrawal = wid, te_outcome = outcome, te_provider_tx = providerTx\<rparr>]\<rparr>))))"

definition set_custody_outcome :: "string \<Rightarrow> string option \<Rightarrow> string \<Rightarrow> unit custody_tx" where
  "set_custody_outcome wid status hash =
     execT (\<lambda>s. s\<lparr>withdrawals := update_where (\<lambda>w. wd_id w = wid)
       (\<lambda>w. w\<lparr>wd_status := (case status of None \<Rightarrow> wd_status w | Some new \<Rightarrow> new),
         wd_hash := (if hash \<noteq> [] then hash else wd_hash w)\<rparr>) (withdrawals s)\<rparr>)"

definition RecordWithdrawalCustodyUpdate_tx :: "string \<Rightarrow> WithdrawalCustodyUpdate \<Rightarrow> bool custody_tx" where
  "RecordWithdrawalCustodyUpdate_tx nextStatus input =
     bindT (queryT (\<lambda>s. find (\<lambda>w. wd_provider_tx w = Some (wu_ProviderTransactionID input)) (withdrawals s))) (\<lambda>found.
     case found of
       None \<Rightarrow> returnT False
     | Some w \<Rightarrow>
         if wd_status w \<in> {''completed'', ''failed'', ''cancelled''} then returnT False
         else if nextStatus = ''submitted'' then
           bindT (set_custody_outcome (wd_id w) None (wu_TransactionHash input)) (\<lambda>_. returnT True)
         else
           bindT (set_custody_outcome (wd_id w) (Some nextStatus) (wu_TransactionHash input)) (\<lambda>_.
           bindT (settle_withdrawal w nextStatus) (\<lambda>_.
           bindT (record_terminal (wd_id w) (if nextStatus = ''completed'' then ''consumed'' else ''released'') (wu_ProviderTransactionID input)) (\<lambda>_.
           let payload = [(''withdrawal_id'', JString (wd_id w)), (''provider_transaction_id'', JString (wu_ProviderTransactionID input)),
                 (''transaction_hash'', JString (wu_TransactionHash input))];
               eventType = (if nextStatus = ''failed'' then ''withdrawal.rejected'' else ''withdrawal.completed'');
               act = (if nextStatus = ''failed'' then ''withdrawal.failed'' else ''withdrawal.completed'') in
           bindT (custody_audit [] act (wd_id w) [] payload) (\<lambda>_.
           bindT (custody_outbox eventType ''withdrawal'' (wd_id w) payload) (\<lambda>_.
           returnT True))))))"

definition RecordWithdrawalCustodyUpdate :: "go_env \<Rightarrow> WithdrawalCustodyUpdate \<Rightarrow> custody_db \<Rightarrow> (custody_failure + bool) \<times> custody_db" where
  "RecordWithdrawalCustodyUpdate env input s =
     (case custody_status env (wu_Status input) of
        None \<Rightarrow> (Inr False, s)
      | Some nextStatus \<Rightarrow> transaction (RecordWithdrawalCustodyUpdate_tx nextStatus input) s)"

section \<open>Reconciliation\<close>

definition WithdrawalReconciliationCandidates :: "string \<Rightarrow> int \<Rightarrow> custody_db \<Rightarrow> custody_failure + WithdrawalReconciliationCandidate list" where
  "WithdrawalReconciliationCandidates provider limit s =
     (if provider = [] then Inl (App ErrWithdrawalDispatchChanged)
      else Inr (take (clamp_limit limit) (map (\<lambda>r. \<lparr>rc_WithdrawalID = rv_withdrawal r, rc_Provider = rv_provider r\<rparr>)
        (sort_key (\<lambda>r. (rv_created_at r, rv_withdrawal r))
          (filter (\<lambda>r. rv_provider r = provider \<and> open_reservation s r \<and>
             \<not> list_ex (\<lambda>ob. ro_withdrawal ob = rv_withdrawal r \<and> pg_now s - 30000000 < ro_observed_at ob)
               (withdrawal_reconciliation_observations s)) (custody_capacity_reservations s))))))"

definition RecordWithdrawalReconciliationObservation_tx :: "go_env \<Rightarrow> WithdrawalReconciliationCandidate \<Rightarrow>
    WithdrawalReconciliationObservation \<Rightarrow> bool custody_tx" where
  "RecordWithdrawalReconciliationObservation_tx env candidate observation =
     bindT (rowT (\<lambda>s. find (\<lambda>d. ds_withdrawal d = rc_WithdrawalID candidate \<and>
       rc_WithdrawalID candidate \<in> rv_withdrawal ` set (custody_capacity_reservations s)) (withdrawal_dispatches s)) (App ErrWithdrawalDispatchChanged)) (\<lambda>d.
     bindT (ensureT (ds_provider d = rc_Provider candidate) (App ErrWithdrawalDispatchChanged)) (\<lambda>_.
     bindT (queryT (\<lambda>s. rc_WithdrawalID candidate \<in> te_withdrawal ` set (custody_capacity_terminal_events s))) (\<lambda>terminal.
     if terminal then returnT False
     else
       bindT gen_random_uuid (\<lambda>_.
       bindT (execT (\<lambda>s. s\<lparr>withdrawal_reconciliation_observations := withdrawal_reconciliation_observations s @
         [\<lparr>ro_withdrawal = rc_WithdrawalID candidate, ro_provider = rc_Provider candidate, ro_found = wo_Found observation,
           ro_provider_tx = wo_ProviderTransactionID observation,
           ro_status = ToUpper (uni_upper env) (TrimSpace (wo_Status observation)), ro_hash = wo_TransactionHash observation,
           ro_observed_at = pg_now s\<rparr>]\<rparr>)) (\<lambda>_.
       returnT True)))))"

definition RecordWithdrawalReconciliationObservation :: "go_env \<Rightarrow> WithdrawalReconciliationCandidate \<Rightarrow>
    WithdrawalReconciliationObservation \<Rightarrow> custody_db \<Rightarrow> (custody_failure + bool) \<times> custody_db" where
  "RecordWithdrawalReconciliationObservation env candidate observation s =
     (if rc_WithdrawalID candidate = [] \<or> rc_Provider candidate = [] \<or> wo_ExternalID observation \<noteq> rc_WithdrawalID candidate \<or>
         (wo_Found observation \<and> (wo_ProviderTransactionID observation = [] \<or> TrimSpace (wo_Status observation) = [])) \<or>
         (\<not> wo_Found observation \<and> (wo_ProviderTransactionID observation \<noteq> [] \<or> wo_Status observation \<noteq> [] \<or> wo_TransactionHash observation \<noteq> []))
        then (Inl (App ErrWithdrawalDispatchChanged), s)
      else transaction (RecordWithdrawalReconciliationObservation_tx env candidate observation) s)"

end
