(* ===== verification/Deposits.thy ===== *)
theory Deposits
  imports Withdrawals
begin

text \<open>
  Money coming in and moving between accounts: \<open>CreateInternalTransfer\<close>,
  \<open>ApplyDepositObservation\<close>, \<open>autoCreditConfirmedDeposit\<close>, \<open>CreditApprovedDeposit\<close>
  and the custody address book of internal/datamanager/manager.go, with their callers
  internal/transfers/service.go and internal/custody/service.go. \<open>pg_lower\<close> is the
  database's \<open>lower\<close>.
\<close>

section \<open>Internal transfers\<close>

record TransferInput =
  ti_SenderUserID :: string
  ti_SourceAccountID :: string
  ti_DestinationAccountID :: string
  ti_AssetSymbol :: string
  ti_Network :: string
  ti_AmountAtomic :: i64
  ti_IdempotencyKey :: string

record TransferResult =
  tr_TransferID :: string
  tr_JournalID :: string
  tr_Duplicate :: bool

definition existing_transfer :: "string \<Rightarrow> custody_db \<Rightarrow> (string \<times> string) option" where
  "existing_transfer key s =
     (case concat (map (\<lambda>t. map (\<lambda>(jid, _). (tf_id t, jid)) (filter (\<lambda>(_, tid). tid = tf_id t) (transfer_journals s)))
        (filter (\<lambda>t. tf_key t = key) (transfers s))) of
        [] \<Rightarrow> None | r # _ \<Rightarrow> Some r)"

definition insert_transfer :: "TransferInput \<Rightarrow> string \<Rightarrow> string custody_tx" where
  "insert_transfer input assetID =
     bindT gen_random_uuid (\<lambda>tid.
     bindT (queryT transfers) (\<lambda>rows.
     bindT (ensureT (tid \<notin> tf_id ` set rows \<and> ti_IdempotencyKey input \<notin> tf_key ` set rows) unique_violation) (\<lambda>_.
     bindT (execT (\<lambda>s. s\<lparr>transfers := transfers s @
       [\<lparr>tf_id = tid, tf_sender = ti_SenderUserID input, tf_source = ti_SourceAccountID input,
         tf_destination = ti_DestinationAccountID input, tf_asset = assetID, tf_amount = sint (ti_AmountAtomic input),
         tf_key = ti_IdempotencyKey input\<rparr>]\<rparr>)) (\<lambda>_.
     returnT tid))))"

definition check_transfer_accounts :: "TransferInput \<Rightarrow> unit custody_tx" where
  "check_transfer_accounts input =
     bindT (rowT (\<lambda>s. find (\<lambda>a. ac_id a = ti_SourceAccountID input) (accounts s)) (App ErrRowMissing)) (\<lambda>source.
     bindT (ensureT (ac_user_id source \<noteq> None) (App ErrScanNull)) (\<lambda>_.
     bindT (ensureT (ac_user_id source = Some (ti_SenderUserID input) \<and> ac_status source = ''active'')
       (App (ErrText ''source account is not available''))) (\<lambda>_.
     bindT (rowT (\<lambda>s. find (\<lambda>a. ac_id a = ti_DestinationAccountID input) (accounts s)) (App ErrRowMissing)) (\<lambda>destination.
     bindT (ensureT (ac_user_id destination \<noteq> None) (App ErrScanNull)) (\<lambda>_.
     bindT (ensureT (ac_status destination = ''active'') (App (ErrText ''destination account is not available''))) (\<lambda>_.
     bindT (ensureT (\<not> (ac_kind destination = ''subaccount'' \<and> ac_user_id destination \<noteq> Some (ti_SenderUserID input)))
       (App (ErrText ''destination subaccount is not owned by sender''))) (\<lambda>_.
     if ac_kind source = ''subaccount'' then
       bindT (rowT (\<lambda>s. find (\<lambda>b. sb_account b = ti_SourceAccountID input \<and> sb_main b = ti_SenderUserID input) (subaccounts s))
         (App (ErrText ''source subaccount is not available''))) (\<lambda>b.
       ensureT (sb_status b = ''active'') (App (ErrText ''source subaccount is not available'')))
     else returnT ())))))))"

definition transfer_asset :: "TransferInput \<Rightarrow> custody_db \<Rightarrow> string option" where
  "transfer_asset input s =
     (case sort (map as_id (filter (\<lambda>a. as_symbol a = ti_AssetSymbol input \<and> as_network a = ti_Network input \<and>
        as_status a = ''enabled'') (assets s))) of [] \<Rightarrow> None | a # _ \<Rightarrow> Some a)"

definition CreateInternalTransfer_tx :: "TransferInput \<Rightarrow> TransferResult custody_tx" where
  "CreateInternalTransfer_tx input =
     bindT (queryT (existing_transfer (ti_IdempotencyKey input))) (\<lambda>found.
     case found of
       Some (tid, jid) \<Rightarrow> returnT \<lparr>tr_TransferID = tid, tr_JournalID = jid, tr_Duplicate = True\<rparr>
     | None \<Rightarrow>
         bindT (rowT (transfer_asset input) (App ErrRowMissing)) (\<lambda>assetID.
         bindT (check_transfer_accounts input) (\<lambda>_.
         bindT (LockAccountAsset ErrLockKey (ti_SourceAccountID input) assetID) (\<lambda>_.
         bindT (available_bigint (ti_SourceAccountID input) assetID) (\<lambda>available.
         bindT (ensureT (sint (ti_AmountAtomic input) \<le> available) (App (ErrText ''insufficient available balance''))) (\<lambda>_.
         bindT (insert_transfer input assetID) (\<lambda>tid.
         bindT (post_custody_journal (ti_IdempotencyKey input) ''internal_transfer'' tid
           (move_legs (ti_SourceAccountID input) (ti_DestinationAccountID input) assetID (sint (ti_AmountAtomic input)))) (\<lambda>jid.
         bindT (execT (\<lambda>s. s\<lparr>transfer_journals := transfer_journals s @ [(jid, tid)]\<rparr>)) (\<lambda>_.
         let metadata = [(''asset_symbol'', JString (ti_AssetSymbol input)), (''network'', JString (ti_Network input)),
           (''amount_atomic'', JInt (sint (ti_AmountAtomic input)))] in
         bindT (custody_audit (ti_SenderUserID input) ''transfer.posted'' tid [] metadata) (\<lambda>_.
         bindT (custody_outbox ''transfer.completed'' ''transfer'' tid
           ([(''transfer_id'', JString tid), (''sender_user_id'', JString (ti_SenderUserID input))] @ metadata)) (\<lambda>_.
         returnT \<lparr>tr_TransferID = tid, tr_JournalID = jid, tr_Duplicate = False\<rparr>)))))))))))"

definition CreateInternalTransfer :: "TransferInput \<Rightarrow> custody_db \<Rightarrow> (custody_failure + TransferResult) \<times> custody_db" where
  "CreateInternalTransfer input s =
     (if sint (ti_AmountAtomic input) \<le> 0 \<or> ti_IdempotencyKey input = []
        then (Inl (App (ErrText ''invalid transfer input'')), s)
      else transaction (CreateInternalTransfer_tx input) s)"

text \<open>\<open>transfers.Service.Create\<close>\<close>

definition Transfer_Create :: "go_env \<Rightarrow> string \<Rightarrow> TransferInput \<Rightarrow> custody_db \<Rightarrow> (custody_failure + TransferResult) \<times> custody_db" where
  "Transfer_Create env userID body s =
     (let input = body\<lparr>ti_SenderUserID := userID, ti_AssetSymbol := ToUpper (uni_upper env) (TrimSpace (ti_AssetSymbol body)),
        ti_Network := TrimSpace (ti_Network body)\<rparr> in
      if userID = [] \<or> ti_SourceAccountID input = [] \<or> ti_DestinationAccountID input = [] \<or>
         ti_SourceAccountID input = ti_DestinationAccountID input \<or> ti_AssetSymbol input = [] \<or> ti_Network input = [] \<or>
         sint (ti_AmountAtomic input) \<le> 0 \<or> length (ti_IdempotencyKey input) < 16 \<or> length (ti_IdempotencyKey input) > 255
        then (Inl (App ErrInvalidInput), s)
      else CreateInternalTransfer input s)"

section \<open>Crediting deposits\<close>

record DepositObservation =
  do_ProviderTransactionID :: string
  do_CustodyAssetID :: string
  do_DestinationAddress :: string
  do_DestinationTag :: string
  do_TransactionHash :: string
  do_BlockchainIndex :: string
  do_AmountAtomic :: string
  do_Confirmations :: int
  do_BlockHash :: string
  do_BlockHeight :: string
  do_Status :: string

definition deposit_at :: "string \<Rightarrow> string \<Rightarrow> custody_db \<Rightarrow> deposit_row option" where
  "deposit_at ptx index s = find (\<lambda>d. dp_provider_tx d = ptx \<and> dp_index d = index) (deposits s)"

definition funding_account :: "string \<Rightarrow> string \<Rightarrow> custody_db \<Rightarrow> (string \<times> asset_row) option" where
  "funding_account userID assetID s =
     (case (find (\<lambda>a. ac_user_id a = Some userID \<and> ac_kind a = ''funding'' \<and> ac_status a = ''active'') (accounts s), asset_by_id s assetID) of
        (Some a, Some x) \<Rightarrow> Some (ac_id a, x) | _ \<Rightarrow> None)"

definition credit_deposit :: "deposit_row \<Rightarrow> string \<Rightarrow> string custody_tx" where
  "credit_deposit d destination =
     bindT (clearing_account (dp_asset d)) (\<lambda>clearing.
     post_custody_journal (''deposit-credit-'' @ dp_id d) ''deposit_credit'' (dp_id d)
       (move_legs clearing destination (dp_asset d) (dp_amount d)))"

definition mark_credited :: "string \<Rightarrow> (deposit_row \<Rightarrow> bool) \<Rightarrow> unit custody_tx" where
  "mark_credited did p =
     execT (\<lambda>s. s\<lparr>deposits := update_where (\<lambda>d. dp_id d = did \<and> p d)
       (\<lambda>d. d\<lparr>dp_status := ''credited'', dp_risk := ''approved'', dp_credited_at := Some (pg_now s)\<rparr>) (deposits s)\<rparr>)"

definition credit_metadata :: "string \<Rightarrow> asset_row \<Rightarrow> deposit_row \<Rightarrow> (string \<times> json) list" where
  "credit_metadata reason x d =
     [(''reason'', JString reason), (''asset_symbol'', JString (as_symbol x)), (''network'', JString (as_network x)),
      (''amount_atomic'', JString (BigString (dp_amount d)))]"

definition autoCreditConfirmedDeposit :: "string \<Rightarrow> string \<Rightarrow> unit custody_tx" where
  "autoCreditConfirmedDeposit ptx index =
     bindT (rowT (deposit_at ptx index) (App ErrRowMissing)) (\<lambda>d.
     if dp_status d \<noteq> ''pending_risk_review'' \<or> dp_risk d \<noteq> ''not_started'' then returnT ()
     else
       bindT (rowT (funding_account (dp_user d) (dp_asset d)) (App ErrRowMissing)) (\<lambda>(destination, x).
       bindT (credit_deposit d destination) (\<lambda>_.
       bindT (mark_credited (dp_id d) (\<lambda>r. dp_status r = ''pending_risk_review'' \<and> dp_risk r = ''not_started'')) (\<lambda>_.
       let metadata = credit_metadata ''automatic chain-confirmation credit'' x d in
       bindT (custody_audit [] ''deposit.auto_credited'' (dp_id d) ''required blockchain confirmations reached'' metadata) (\<lambda>_.
       custody_outbox ''deposit.credited'' ''deposit'' (dp_id d) metadata)))))"

definition CreditApprovedDeposit :: "string \<Rightarrow> string \<Rightarrow> string \<Rightarrow> custody_db \<Rightarrow> (custody_failure + TransferResult) \<times> custody_db" where
  "CreditApprovedDeposit reviewerID depositID reason = transaction (
     bindT (queryT (\<lambda>s. has_role s reviewerID ''compliance'')) (\<lambda>allowed.
     bindT (ensureT allowed (App ErrDepositNotCreditable)) (\<lambda>_.
     bindT (rowT (\<lambda>s. find (\<lambda>d. dp_id d = depositID) (deposits s)) (App ErrDepositNotCreditable)) (\<lambda>d.
     bindT (ensureT (dp_status d = ''pending_risk_review'' \<and> dp_risk d \<in> {''not_started'', ''pending''}) (App ErrDepositNotCreditable)) (\<lambda>_.
     bindT (queryT (\<lambda>s. list_ex (\<lambda>k. ky_user k = dp_user d \<and> ky_status k = ''approved'') (kyc_profiles s))) (\<lambda>kycApproved.
     bindT (ensureT kycApproved (App ErrDepositNotCreditable)) (\<lambda>_.
     bindT (rowT (funding_account (dp_user d) (dp_asset d)) (App ErrDepositNotCreditable)) (\<lambda>(destination, x).
     bindT (credit_deposit d destination) (\<lambda>jid.
     bindT (queryT (\<lambda>s. length (filter (\<lambda>r. dp_id r = depositID \<and> dp_status r = ''pending_risk_review'') (deposits s)))) (\<lambda>affected.
     bindT (mark_credited depositID (\<lambda>r. dp_status r = ''pending_risk_review'')) (\<lambda>_.
     bindT (ensureT (affected = 1) (App ErrDepositNotCreditable)) (\<lambda>_.
     let metadata = credit_metadata reason x d in
     bindT (custody_audit reviewerID ''deposit.credited'' depositID reason metadata) (\<lambda>_.
     bindT (custody_outbox ''deposit.credited'' ''deposit'' depositID metadata) (\<lambda>_.
     returnT \<lparr>tr_TransferID = depositID, tr_JournalID = jid, tr_Duplicate = False\<rparr>))))))))))))))"

section \<open>Observing deposits\<close>

definition observed_route :: "(string \<Rightarrow> string) \<Rightarrow> DepositObservation \<Rightarrow> custody_db \<Rightarrow> (deposit_address_row \<times> int) option" where
  "observed_route pg_lower event s =
     (case concat (map (\<lambda>d. map (\<lambda>x. (d, xa_confirmations x)) (filter (\<lambda>x. xa_asset x = da_asset d \<and>
          xa_custody_id x = do_CustodyAssetID event \<and>
          list_ex (\<lambda>a. as_id a = xa_asset x \<and> as_status a = ''enabled'') (assets s)) (custody_assets s)))
        (filter (\<lambda>d. da_status d = ''active'' \<and> pg_lower (da_address d) = pg_lower (do_DestinationAddress event) \<and>
          da_tag d = do_DestinationTag event) (deposit_addresses s))) of
        [] \<Rightarrow> None | r # _ \<Rightarrow> Some r)"

definition upsert_deposit :: "DepositObservation \<Rightarrow> deposit_address_row \<Rightarrow> int \<Rightarrow> string \<Rightarrow> unit custody_tx" where
  "upsert_deposit event route required status =
     bindT (numeric_text (do_AmountAtomic event)) (\<lambda>amount.
     bindT (ensureT (0 < amount \<and> 0 \<le> do_Confirmations event \<and> 0 < required) check_violation) (\<lambda>_.
     bindT (queryT (deposit_at (do_ProviderTransactionID event) (do_BlockchainIndex event))) (\<lambda>existing.
     bindT gen_random_uuid (\<lambda>did.
     case existing of
       None \<Rightarrow>
         bindT (queryT (\<lambda>s. dp_id ` set (deposits s))) (\<lambda>ids.
         bindT (ensureT (did \<notin> ids) unique_violation) (\<lambda>_.
         execT (\<lambda>s. s\<lparr>deposits := deposits s @
           [\<lparr>dp_id = did, dp_user = da_user route, dp_asset = da_asset route, dp_address = da_id route, dp_wallet = da_wallet route,
             dp_provider_tx = do_ProviderTransactionID event, dp_hash = do_TransactionHash event,
             dp_index = do_BlockchainIndex event, dp_amount = amount, dp_confirmations = do_Confirmations event,
             dp_required = required, dp_status = status, dp_risk = ''not_started'', dp_block_hash = do_BlockHash event,
             dp_block_height = do_BlockHeight event, dp_credited_at = None\<rparr>]\<rparr>)))
     | Some _ \<Rightarrow>
         execT (\<lambda>s. s\<lparr>deposits := update_where
           (\<lambda>d. dp_provider_tx d = do_ProviderTransactionID event \<and> dp_index d = do_BlockchainIndex event)
           (\<lambda>d. d\<lparr>dp_confirmations := max (dp_confirmations d) (do_Confirmations event),
             dp_hash := (if do_TransactionHash event \<noteq> [] then do_TransactionHash event else dp_hash d),
             dp_block_hash := (if do_BlockHash event \<noteq> [] then do_BlockHash event else dp_block_hash d),
             dp_block_height := (if do_BlockHeight event \<noteq> [] then do_BlockHeight event else dp_block_height d),
             dp_status := (if dp_status d \<in> {''credited'', ''reorged'', ''rejected''} then dp_status d else status)\<rparr>)
           (deposits s)\<rparr>)))))"

definition observed_status :: "DepositObservation \<Rightarrow> int \<Rightarrow> string" where
  "observed_status event required =
     (if do_Status event = ''FAILED'' \<or> do_Status event = ''REJECTED'' then ''reorged''
      else if required \<le> do_Confirmations event then ''pending_risk_review'' else ''confirming'')"

definition announce_deposit :: "DepositObservation \<Rightarrow> string \<Rightarrow> string \<Rightarrow> (string \<times> string) option \<Rightarrow> unit custody_tx" where
  "announce_deposit event userID status existing =
     (let failed = (do_Status event = ''FAILED'' \<or> do_Status event = ''REJECTED'') in
      if existing = None \<or> (status = ''confirming'' \<and> snd (the existing) \<notin> {''credited'', ''reorged'', ''rejected''}) \<or> failed then
        (let eventType = (if failed then ''deposit.failed'' else if existing = None then ''deposit.submitted'' else ''deposit.confirming'');
             payload = [(''user_id'', JString userID), (''amount_atomic'', JString (do_AmountAtomic event)),
               (''confirmations'', JInt (do_Confirmations event))] in
         bindT (queryT (deposit_at (do_ProviderTransactionID event) (do_BlockchainIndex event))) (\<lambda>row.
         case row of None \<Rightarrow> returnT () | Some d \<Rightarrow> custody_outbox eventType ''deposit'' (dp_id d) payload))
      else returnT ())"

definition ApplyDepositObservation :: "(string \<Rightarrow> string) \<Rightarrow> DepositObservation \<Rightarrow> custody_db \<Rightarrow> (custody_failure + bool) \<times> custody_db" where
  "ApplyDepositObservation pg_lower event = transaction (
     bindT (queryT (observed_route pg_lower event)) (\<lambda>route.
     case route of
       None \<Rightarrow> returnT False
     | Some (addr, required) \<Rightarrow>
         bindT (queryT (\<lambda>s. map_option (\<lambda>d. (dp_id d, dp_status d)) (deposit_at (do_ProviderTransactionID event) (do_BlockchainIndex event) s))) (\<lambda>existing.
         let status = observed_status event required in
         bindT (upsert_deposit event addr required status) (\<lambda>_.
         bindT (announce_deposit event (da_user addr) status existing) (\<lambda>_.
         bindT (if status = ''pending_risk_review''
           then autoCreditConfirmedDeposit (do_ProviderTransactionID event) (do_BlockchainIndex event) else returnT ()) (\<lambda>_.
         returnT True))))))"

end
