(* ===== verification/Conversions.thy ===== *)
theory Conversions
  imports Complex_Main Withdrawals
begin

text \<open>
  Asset conversions: the quotes of internal/conversions/service.go and the policy, quote and
  settlement transactions of internal/datamanager/conversions.go. A quote is priced from a spot
  provider (a parameter: the bid and ask of a symbol, or nothing), stored for thirty seconds and
  settled against the exchange's own treasury accounts. \<open>big.Rat\<close> is \<open>rat\<close>; the syntax that
  \<open>Rat.SetString\<close> accepts is a parameter. Go times are nanoseconds, stored times microseconds.
\<close>

section \<open>Types\<close>

record ConversionPair =
  kp_FromAssetID :: string
  kp_ToAssetID :: string
  kp_FromSymbol :: string
  kp_ToSymbol :: string
  kp_FromNetwork :: string
  kp_ToNetwork :: string
  kp_FromDecimals :: int
  kp_ToDecimals :: int
  kp_MarketSymbol :: string
  kp_SpreadBPS :: int
  kp_FeeBPS :: int

record ConversionQuoteInput =
  qi_UserID :: string
  qi_SourceAccountID :: string
  qi_FromSymbol :: string
  qi_FromNetwork :: string
  qi_ToSymbol :: string
  qi_ToNetwork :: string
  qi_InputAmountAtomic :: string
  qi_OutputAmountAtomic :: string
  qi_FeeAmountAtomic :: string
  qi_Price :: string
  qi_Provider :: string
  qi_ExpiresAt :: int

record ConversionQuote =
  kq_ID :: string
  kq_SourceAccountID :: string
  kq_FromSymbol :: string
  kq_FromNetwork :: string
  kq_ToSymbol :: string
  kq_ToNetwork :: string
  kq_InputAmountAtomic :: string
  kq_OutputAmountAtomic :: string
  kq_FeeAmountAtomic :: string
  kq_Price :: string
  kq_Provider :: string
  kq_ExpiresAt :: int

record ConversionPairPolicyInput =
  pp_FromSymbol :: string
  pp_FromNetwork :: string
  pp_ToSymbol :: string
  pp_ToNetwork :: string
  pp_MarketSymbol :: string
  pp_SpreadBPS :: int
  pp_FeeBPS :: int
  pp_Enabled :: bool

record ConversionResult =
  kr_ConversionID :: string
  kr_JournalID :: string
  kr_Status :: string
  kr_Duplicate :: bool

record QuoteInput =
  nq_SourceAccountID :: string
  nq_FromAssetSymbol :: string
  nq_FromNetwork :: string
  nq_ToAssetSymbol :: string
  nq_ToNetwork :: string
  nq_AmountAtomic :: string

record ConversionHistoryItem =
  hi_ID :: string
  hi_FromAssetSymbol :: string
  hi_FromNetwork :: string
  hi_ToAssetSymbol :: string
  hi_ToNetwork :: string
  hi_InputAmountAtomic :: string
  hi_OutputAmountAtomic :: string
  hi_FeeAmountAtomic :: string
  hi_Status :: string
  hi_CreatedAt :: int

section \<open>Prices and amounts\<close>

fun Contains :: "string \<Rightarrow> string \<Rightarrow> bool" where
  "Contains [] sub = (sub = [])"
| "Contains (c # cs) sub = (HasPrefix (c # cs) sub \<or> Contains cs sub)"

text \<open>\<open>Rat.FloatString\<close>: rounded to the nearest, halves away from zero.\<close>

definition FloatString :: "rat \<Rightarrow> nat \<Rightarrow> string" where
  "FloatString x prec =
     (let (a, b) = quotient_of x; p = 10 ^ prec; q = \<bar>a\<bar> div b; r = (\<bar>a\<bar> mod b) * p;
          f = r div b + (if b \<le> 2 * (r mod b) then 1 else 0);
          carry = (if p \<le> f then 1 else 0) in
      (if a < 0 then ''-'' else []) @ BigString (q + carry) @ ''.'' @ pad0 prec (BigString (f - carry * p)))"

definition stable_symbol :: "string \<Rightarrow> bool" where
  "stable_symbol s \<longleftrightarrow> s \<in> {''USDC'', ''USDT'', ''USD''}"

definition buildMarketSymbol :: "go_env \<Rightarrow> string \<Rightarrow> string \<Rightarrow> string" where
  "buildMarketSymbol env fromSymbol toSymbol =
     (let f = ToUpper (uni_upper env) (TrimSpace fromSymbol); t = ToUpper (uni_upper env) (TrimSpace toSymbol) in
      if f = [] \<or> t = [] then []
      else if stable_symbol f then t @ f
      else f @ t)"

type_synonym spot_provider = "string \<Rightarrow> (string \<times> string) option"

definition conversionPrice :: "(string \<Rightarrow> rat option) \<Rightarrow> spot_provider \<Rightarrow> string \<Rightarrow> string \<Rightarrow> string \<Rightarrow> (string \<times> bool) option" where
  "conversionPrice rat_of spot fromSymbol toSymbol marketSymbol =
     (if Contains marketSymbol ''USDC'' \<or> Contains marketSymbol ''USDT'' \<or> Contains marketSymbol ''USD'' then
        (case spot marketSymbol of
           None \<Rightarrow> None
         | Some (bid, ask) \<Rightarrow>
             let sellBase = HasPrefix marketSymbol fromSymbol in Some (if sellBase then bid else ask, sellBase))
      else
        (case (spot (fromSymbol @ ''USDT''), spot (toSymbol @ ''USDT'')) of
           (Some (fromBid, _), Some (_, toAsk)) \<Rightarrow>
             (case (rat_of fromBid, rat_of toAsk) of
                (Some f, Some t) \<Rightarrow> if f \<le> 0 \<or> t \<le> 0 then None else Some (FloatString (f / t) 18, True)
              | _ \<Rightarrow> None)
         | _ \<Rightarrow> None))"

definition quotedAmounts :: "(string \<Rightarrow> rat option) \<Rightarrow> int \<Rightarrow> string \<Rightarrow> int \<Rightarrow> int \<Rightarrow> bool \<Rightarrow> int \<Rightarrow> int \<Rightarrow> custody_error + string \<times> string" where
  "quotedAmounts rat_of amount price fromDecimals toDecimals sellBase spreadBPS feeBPS =
     (if amount \<le> 0 \<or> fromDecimals < 0 \<or> toDecimals < 0 \<or> spreadBPS < 0 \<or> feeBPS < 0 then Inl ErrInvalidInput
      else case rat_of price of
        None \<Rightarrow> Inl ErrInvalidInput
      | Some p \<Rightarrow>
          if p \<le> 0 then Inl ErrInvalidInput
          else
            let r0 = of_int amount / of_int (10 ^ nat fromDecimals);
                r1 = (if sellBase then r0 * p * (of_int (10000 - spreadBPS) / 10000)
                      else r0 / p / (of_int (10000 + spreadBPS) / 10000));
                (num, denom) = quotient_of (r1 * of_int (10 ^ nat toDecimals));
                gross = num sdiv denom;
                fee = (gross * feeBPS) sdiv 10000;
                net = gross - fee in
            if net \<le> 0 then Inl ErrInvalidInput else Inr (BigString net, BigString fee))"

section \<open>Policy\<close>

definition first_enabled_asset :: "string \<Rightarrow> string \<Rightarrow> custody_db \<Rightarrow> string option" where
  "first_enabled_asset symbol network s =
     (case sort (map as_id (filter (\<lambda>a. as_symbol a = symbol \<and> as_network a = network \<and> as_status a = ''enabled'') (assets s))) of
        [] \<Rightarrow> None | a # _ \<Rightarrow> Some a)"

definition upsert_pair :: "conversion_pair_row \<Rightarrow> unit custody_tx" where
  "upsert_pair row =
     bindT (ensureT (cp_from row \<noteq> cp_to row \<and> 0 \<le> cp_spread row \<and> cp_spread row \<le> 1000 \<and> 0 \<le> cp_fee row \<and> cp_fee row \<le> 1000) check_violation) (\<lambda>_.
     execT (\<lambda>s. s\<lparr>conversion_pairs :=
       (if list_ex (\<lambda>r. cp_from r = cp_from row \<and> cp_to r = cp_to row) (conversion_pairs s)
        then update_where (\<lambda>r. cp_from r = cp_from row \<and> cp_to r = cp_to row) (\<lambda>_. row) (conversion_pairs s)
        else conversion_pairs s @ [row])\<rparr>))"

definition SetConversionPairPolicy_tx :: "string \<Rightarrow> ConversionPairPolicyInput \<Rightarrow> unit custody_tx" where
  "SetConversionPairPolicy_tx actorID input =
     bindT (queryT (\<lambda>s. has_role s actorID ''platform_administrator'')) (\<lambda>administrator.
     bindT (ensureT administrator (App ErrAdministratorRoleRequired)) (\<lambda>_.
     bindT (rowT (first_enabled_asset (pp_FromSymbol input) (pp_FromNetwork input)) (App ErrConversionPairUnavailable)) (\<lambda>fromID.
     bindT (rowT (first_enabled_asset (pp_ToSymbol input) (pp_ToNetwork input)) (App ErrConversionPairUnavailable)) (\<lambda>toID.
     let status = (if pp_Enabled input then ''enabled'' else ''disabled'');
         metadata = [(''from_asset_id'', JString fromID), (''to_asset_id'', JString toID), (''market_symbol'', JString (pp_MarketSymbol input)),
           (''spread_bps'', JInt (pp_SpreadBPS input)), (''fee_bps'', JInt (pp_FeeBPS input)), (''status'', JString status)] in
     bindT (upsert_pair \<lparr>cp_from = fromID, cp_to = toID, cp_market = pp_MarketSymbol input, cp_spread = pp_SpreadBPS input,
       cp_fee = pp_FeeBPS input, cp_status = status\<rparr>) (\<lambda>_.
     bindT (custody_audit actorID ''conversion_pair.configured'' (fromID @ '':'' @ toID) [] metadata) (\<lambda>_.
     custody_outbox ''conversion_pair.configured'' ''conversion_pair'' (fromID @ '':'' @ toID) metadata))))))"

definition SetConversionPairPolicy :: "string \<Rightarrow> ConversionPairPolicyInput \<Rightarrow> custody_db \<Rightarrow> (custody_failure + unit) \<times> custody_db" where
  "SetConversionPairPolicy actorID input s =
     (if actorID = [] \<or> pp_FromSymbol input = [] \<or> pp_FromNetwork input = [] \<or> pp_ToSymbol input = [] \<or> pp_ToNetwork input = [] \<or>
         (pp_FromSymbol input = pp_ToSymbol input \<and> pp_FromNetwork input = pp_ToNetwork input) \<or> pp_MarketSymbol input = [] \<or>
         pp_SpreadBPS input < 0 \<or> pp_SpreadBPS input > 1000 \<or> pp_FeeBPS input < 0 \<or> pp_FeeBPS input > 1000
        then (Inl (App (ErrText ''invalid conversion pair policy'')), s)
      else transaction (SetConversionPairPolicy_tx actorID input) s)"

definition SetConversionsEnabled_tx :: "string \<Rightarrow> bool \<Rightarrow> unit custody_tx" where
  "SetConversionsEnabled_tx actorID enabled =
     bindT (queryT (\<lambda>s. has_role s actorID ''platform_administrator'')) (\<lambda>administrator.
     bindT (ensureT administrator (App ErrAdministratorRoleRequired)) (\<lambda>_.
     bindT (execT (\<lambda>s. s\<lparr>operational_controls := update_where (\<lambda>r. fst r = ''conversions_enabled'')
       (\<lambda>r. (fst r, enabled)) (operational_controls s)\<rparr>)) (\<lambda>_.
     custody_audit actorID ''conversion.control_updated'' ''conversions_enabled'' [] [(''enabled'', JBool enabled)])))"

definition SetConversionsEnabled :: "string \<Rightarrow> bool \<Rightarrow> custody_db \<Rightarrow> (custody_failure + unit) \<times> custody_db" where
  "SetConversionsEnabled actorID enabled = transaction (SetConversionsEnabled_tx actorID enabled)"

section \<open>Quotes\<close>

definition default_spread :: int where "default_spread = 75"
definition default_fee :: int where "default_fee = 20"

definition pair_of :: "asset_row \<Rightarrow> asset_row \<Rightarrow> string \<Rightarrow> int \<Rightarrow> int \<Rightarrow> ConversionPair" where
  "pair_of fa ta market spread fee =
     \<lparr>kp_FromAssetID = as_id fa, kp_ToAssetID = as_id ta, kp_FromSymbol = as_symbol fa, kp_ToSymbol = as_symbol ta,
      kp_FromNetwork = as_network fa, kp_ToNetwork = as_network ta, kp_FromDecimals = as_decimals fa, kp_ToDecimals = as_decimals ta,
      kp_MarketSymbol = market, kp_SpreadBPS = spread, kp_FeeBPS = fee\<rparr>"

text \<open>The configured and enabled pair, and every pair of enabled assets with these symbols.\<close>

definition configured_pairs :: "string \<Rightarrow> string \<Rightarrow> string \<Rightarrow> string \<Rightarrow> custody_db \<Rightarrow> ConversionPair list" where
  "configured_pairs fromSymbol fromNetwork toSymbol toNetwork s =
     concat (map (\<lambda>r. concat (map (\<lambda>fa. map (\<lambda>ta. pair_of fa ta (cp_market r) (cp_spread r) (cp_fee r))
       (filter (\<lambda>ta. as_id ta = cp_to r \<and> as_symbol ta = toSymbol \<and> as_network ta = toNetwork \<and> as_status ta = ''enabled'') (assets s)))
       (filter (\<lambda>fa. as_id fa = cp_from r \<and> as_symbol fa = fromSymbol \<and> as_network fa = fromNetwork \<and> as_status fa = ''enabled'') (assets s))))
     (filter (\<lambda>r. cp_status r = ''enabled'') (conversion_pairs s)))"

definition default_pairs :: "go_env \<Rightarrow> string \<Rightarrow> string \<Rightarrow> string \<Rightarrow> string \<Rightarrow> custody_db \<Rightarrow> ConversionPair list" where
  "default_pairs env fromSymbol fromNetwork toSymbol toNetwork s =
     map (\<lambda>(fa, ta). pair_of fa ta (buildMarketSymbol env (as_symbol fa) (as_symbol ta)) default_spread default_fee)
       (sort_key (\<lambda>(fa, ta). (if as_network ta = toNetwork then 0 else 1 :: nat, as_network ta))
         (List.product (filter (\<lambda>fa. as_symbol fa = fromSymbol \<and> as_network fa = fromNetwork \<and> as_status fa = ''enabled'') (assets s))
           (filter (\<lambda>ta. as_symbol ta = toSymbol \<and> as_status ta = ''enabled'') (assets s))))"

definition ConversionsEnabled :: "custody_db \<Rightarrow> custody_failure + bool" where
  "ConversionsEnabled s = map_sum id fst (control_enabled ''conversions_enabled'' s)"

definition ConversionPair_lookup :: "go_env \<Rightarrow> string \<Rightarrow> string \<Rightarrow> string \<Rightarrow> string \<Rightarrow> custody_db \<Rightarrow> custody_failure + ConversionPair" where
  "ConversionPair_lookup env fromSymbol fromNetwork toSymbol toNetwork s =
     (if ConversionsEnabled s \<noteq> Inr True then Inl (App ErrConversionsDisabled)
      else case configured_pairs fromSymbol fromNetwork toSymbol toNetwork s of
        pair # _ \<Rightarrow> Inr pair
      | [] \<Rightarrow>
          (case default_pairs env fromSymbol fromNetwork toSymbol toNetwork s of
             pair # _ \<Rightarrow> Inr pair
           | [] \<Rightarrow> Inl (App ErrConversionPairUnavailable)))"

text \<open>A text stored in a \<open>NUMERIC(78,0)\<close> column.\<close>

definition numeric78 :: "string \<Rightarrow> int custody_tx" where
  "numeric78 t = bindT (numeric_text t) (\<lambda>n. bindT (ensureT (\<bar>n\<bar> < 10 ^ 78) (Pg ''22003'')) (\<lambda>_. returnT n))"

definition insert_quote :: "conversion_quote_row \<Rightarrow> string custody_tx" where
  "insert_quote row =
     bindT gen_random_uuid (\<lambda>qid.
     bindT (queryT (\<lambda>s. cq_id ` set (conversion_quotes s))) (\<lambda>ids.
     bindT (ensureT (qid \<notin> ids) unique_violation) (\<lambda>_.
     bindT (ensureT (0 < cq_input row \<and> 0 < cq_output row \<and> 0 \<le> cq_fee row) check_violation) (\<lambda>_.
     bindT (execT (\<lambda>s. s\<lparr>conversion_quotes := conversion_quotes s @ [row\<lparr>cq_id := qid\<rparr>]\<rparr>)) (\<lambda>_.
     returnT qid)))))"

text \<open>The rows that the \<open>INSERT ... SELECT\<close> of a quote produces.\<close>

definition quote_rows :: "ConversionQuoteInput \<Rightarrow> int \<Rightarrow> int \<Rightarrow> int \<Rightarrow> custody_db \<Rightarrow> conversion_quote_row list" where
  "quote_rows input amount output fee s =
     concat (map (\<lambda>a. concat (map (\<lambda>f. map (\<lambda>t.
         \<lparr>cq_id = [], cq_user = qi_UserID input, cq_source = ac_id a, cq_from = as_id f, cq_to = as_id t, cq_input = amount,
          cq_output = output, cq_fee = fee, cq_price = qi_Price input, cq_provider = qi_Provider input,
          cq_expires = qi_ExpiresAt input div 1000, cq_confirmed = None\<rparr>)
         (filter (\<lambda>t. as_symbol t = qi_ToSymbol input \<and> as_network t = qi_ToNetwork input \<and> as_status t = ''enabled'') (assets s)))
       (filter (\<lambda>f. as_symbol f = qi_FromSymbol input \<and> as_network f = qi_FromNetwork input \<and> as_status f = ''enabled'') (assets s))))
     (filter (\<lambda>a. ac_id a = qi_SourceAccountID input \<and> ac_user_id a = Some (qi_UserID input) \<and> ac_status a = ''active'') (accounts s)))"

definition CreateConversionQuote_tx :: "ConversionQuoteInput \<Rightarrow> string custody_tx" where
  "CreateConversionQuote_tx input =
     bindT (numeric78 (qi_InputAmountAtomic input)) (\<lambda>amount.
     bindT (numeric78 (qi_OutputAmountAtomic input)) (\<lambda>output.
     bindT (numeric78 (qi_FeeAmountAtomic input)) (\<lambda>fee.
     bindT (queryT (quote_rows input amount output fee)) (\<lambda>rows.
     bindT (mapT insert_quote rows) (\<lambda>ids.
     bindT (ensureT (ids \<noteq> []) (App ErrRowMissing)) (\<lambda>_.
     returnT (hd ids)))))))"

definition CreateConversionQuote :: "int \<Rightarrow> ConversionQuoteInput \<Rightarrow> custody_db \<Rightarrow> (custody_failure + ConversionQuote) \<times> custody_db" where
  "CreateConversionQuote now input s =
     (if qi_UserID input = [] \<or> qi_SourceAccountID input = [] \<or> qi_InputAmountAtomic input = [] \<or> qi_OutputAmountAtomic input = [] \<or>
         qi_FeeAmountAtomic input = [] \<or> qi_Price input = [] \<or> qi_Provider input = [] \<or> qi_ExpiresAt input \<le> now
        then (Inl (App (ErrText ''invalid conversion quote'')), s)
      else case transaction (CreateConversionQuote_tx input) s of
        (Inl e, t) \<Rightarrow> (Inl e, t)
      | (Inr qid, t) \<Rightarrow> (Inr \<lparr>kq_ID = qid, kq_SourceAccountID = qi_SourceAccountID input, kq_FromSymbol = qi_FromSymbol input,
          kq_FromNetwork = qi_FromNetwork input, kq_ToSymbol = qi_ToSymbol input, kq_ToNetwork = qi_ToNetwork input,
          kq_InputAmountAtomic = qi_InputAmountAtomic input, kq_OutputAmountAtomic = qi_OutputAmountAtomic input,
          kq_FeeAmountAtomic = qi_FeeAmountAtomic input, kq_Price = qi_Price input, kq_Provider = qi_Provider input,
          kq_ExpiresAt = qi_ExpiresAt input\<rparr>, t))"

text \<open>
  \<open>Service.Quote\<close>; \<open>now\<close> is the clock when the quote is priced and \<open>later\<close> when it is stored. A
  missing spot provider is \<open>None\<close>.
\<close>

definition trim_quote :: "go_env \<Rightarrow> QuoteInput \<Rightarrow> QuoteInput" where
  "trim_quote env i = i\<lparr>nq_SourceAccountID := TrimSpace (nq_SourceAccountID i),
     nq_FromAssetSymbol := ToUpper (uni_upper env) (TrimSpace (nq_FromAssetSymbol i)),
     nq_ToAssetSymbol := ToUpper (uni_upper env) (TrimSpace (nq_ToAssetSymbol i)),
     nq_FromNetwork := TrimSpace (nq_FromNetwork i), nq_ToNetwork := TrimSpace (nq_ToNetwork i)\<rparr>"

definition quote_input :: "string \<Rightarrow> QuoteInput \<Rightarrow> ConversionPair \<Rightarrow> string \<Rightarrow> string \<Rightarrow> string \<Rightarrow> int \<Rightarrow> ConversionQuoteInput" where
  "quote_input userID i pair out fee price now =
     \<lparr>qi_UserID = userID, qi_SourceAccountID = nq_SourceAccountID i, qi_FromSymbol = kp_FromSymbol pair, qi_FromNetwork = kp_FromNetwork pair,
      qi_ToSymbol = kp_ToSymbol pair, qi_ToNetwork = kp_ToNetwork pair, qi_InputAmountAtomic = nq_AmountAtomic i,
      qi_OutputAmountAtomic = out, qi_FeeAmountAtomic = fee, qi_Price = price, qi_Provider = ''bybit_public_spot'',
      qi_ExpiresAt = now + 30 * 10 ^ 9\<rparr>"

definition Conversion_Quote :: "go_env \<Rightarrow> (string \<Rightarrow> rat option) \<Rightarrow> spot_provider option \<Rightarrow> int \<Rightarrow> int \<Rightarrow> string \<Rightarrow> QuoteInput \<Rightarrow> custody_db \<Rightarrow>
    (custody_failure + ConversionQuote) \<times> custody_db" where
  "Conversion_Quote env rat_of market now later userID input s =
     (let i = trim_quote env input in
      case (market, SetString (nq_AmountAtomic i)) of
        (Some spot, Some amount) \<Rightarrow>
          if userID = [] \<or> nq_SourceAccountID i = [] \<or> nq_FromAssetSymbol i = [] \<or> nq_ToAssetSymbol i = [] \<or> nq_FromNetwork i = [] \<or>
             nq_ToNetwork i = [] \<or> amount \<le> 0 \<or> (nq_FromAssetSymbol i = nq_ToAssetSymbol i \<and> nq_FromNetwork i = nq_ToNetwork i)
            then (Inl (App ErrInvalidInput), s)
          else
            (case ConversionPair_lookup env (nq_FromAssetSymbol i) (nq_FromNetwork i) (nq_ToAssetSymbol i) (nq_ToNetwork i) s of
               Inl e \<Rightarrow> (Inl (if e = App ErrConversionsDisabled then e else App ErrQuoteUnavailable), s)
             | Inr pair \<Rightarrow>
                 (case conversionPrice rat_of spot (kp_FromSymbol pair) (kp_ToSymbol pair) (kp_MarketSymbol pair) of
                    None \<Rightarrow> (Inl (App ErrQuoteUnavailable), s)
                  | Some (price, sellBase) \<Rightarrow>
                      (case quotedAmounts rat_of amount price (kp_FromDecimals pair) (kp_ToDecimals pair) sellBase (kp_SpreadBPS pair) (kp_FeeBPS pair) of
                         Inl _ \<Rightarrow> (Inl (App ErrQuoteUnavailable), s)
                       | Inr (out, fee) \<Rightarrow> CreateConversionQuote later (quote_input userID i pair out fee price now) s)))
      | _ \<Rightarrow> (Inl (App ErrInvalidInput), s))"

section \<open>Settlement\<close>

definition conversion_legs :: "string \<Rightarrow> string \<Rightarrow> string \<Rightarrow> string \<Rightarrow> conversion_quote_row \<Rightarrow> posting_leg list" where
  "conversion_legs source treasuryFrom treasuryTo feeTo q =
     [\<lparr>l_account = source, l_asset = cq_from q, l_bucket = Available, l_direction = DebitSide, l_amount = cq_input q\<rparr>,
      \<lparr>l_account = treasuryFrom, l_asset = cq_from q, l_bucket = Available, l_direction = CreditSide, l_amount = cq_input q\<rparr>,
      \<lparr>l_account = treasuryTo, l_asset = cq_to q, l_bucket = Available, l_direction = DebitSide, l_amount = cq_output q + cq_fee q\<rparr>,
      \<lparr>l_account = source, l_asset = cq_to q, l_bucket = Available, l_direction = CreditSide, l_amount = cq_output q\<rparr>,
      \<lparr>l_account = feeTo, l_asset = cq_to q, l_bucket = Available, l_direction = CreditSide, l_amount = cq_fee q\<rparr>]"

definition pair_confirmable :: "custody_db \<Rightarrow> string \<Rightarrow> string \<Rightarrow> bool" where
  "pair_confirmable s fromID toID \<longleftrightarrow>
     list_ex (\<lambda>r. cp_from r = fromID \<and> cp_to r = toID \<and> cp_status r = ''enabled'') (conversion_pairs s) \<or>
     (list_ex (\<lambda>a. as_id a = fromID \<and> as_status a = ''enabled'') (assets s) \<and>
      list_ex (\<lambda>a. as_id a = toID \<and> as_status a = ''enabled'') (assets s))"

definition confirmable_quote :: "int \<Rightarrow> string \<Rightarrow> string \<Rightarrow> conversion_quote_row custody_tx" where
  "confirmable_quote now userID quoteID =
     bindT (rowT (\<lambda>s. find (\<lambda>q. cq_id q = quoteID \<and> cq_user q = userID) (conversion_quotes s)) (App ErrConversionQuoteNotConfirmable)) (\<lambda>q.
     bindT (ensureT (cq_confirmed q = None) (App ErrConversionQuoteNotConfirmable)) (\<lambda>_.
     bindT (ensureT (now < cq_expires q * 1000) (App ErrConversionQuoteExpired)) (\<lambda>_.
     bindT (queryT (\<lambda>s. pair_confirmable s (cq_from q) (cq_to q))) (\<lambda>pairEnabled.
     bindT (ensureT pairEnabled (App ErrConversionQuoteNotConfirmable)) (\<lambda>_.
     bindT (queryT (\<lambda>s. list_ex (\<lambda>a. ac_id a = cq_source q \<and> ac_user_id a = Some userID \<and> ac_status a = ''active'') (accounts s))) (\<lambda>sourceActive.
     bindT (ensureT sourceActive (App ErrConversionQuoteNotConfirmable)) (\<lambda>_.
     returnT q)))))))"

definition lock_conversion :: "(string \<times> string) list \<Rightarrow> unit custody_tx" where
  "lock_conversion locks = forT (\<lambda>(a, x). LockAccountAsset ErrLockKey a x) (sort_key (\<lambda>(a, x). AccountAssetLockKey a x) locks)"

definition insert_conversion :: "string \<Rightarrow> string \<Rightarrow> string \<Rightarrow> string custody_tx" where
  "insert_conversion quoteID userID key =
     bindT gen_random_uuid (\<lambda>cid.
     bindT (queryT conversions) (\<lambda>rows.
     bindT (ensureT (cid \<notin> cv_id ` set rows \<and> quoteID \<notin> cv_quote ` set rows \<and> key \<notin> cv_key ` set rows) unique_violation) (\<lambda>_.
     bindT (execT (\<lambda>s. s\<lparr>conversions := conversions s @ [\<lparr>cv_id = cid, cv_quote = quoteID, cv_user = userID, cv_key = key, cv_journal = None,
       cv_status = ''settled'', cv_created_at = pg_now s\<rparr>]\<rparr>)) (\<lambda>_.
     returnT cid))))"

definition settle_conversion :: "string \<Rightarrow> string \<Rightarrow> conversion_quote_row \<Rightarrow> ConversionResult custody_tx" where
  "settle_conversion userID key q =
     bindT (system_account (''conversion-treasury-'' @ cq_from q)) (\<lambda>treasuryFrom.
     bindT (system_account (''conversion-treasury-'' @ cq_to q)) (\<lambda>treasuryTo.
     bindT (system_account (''conversion-fees-'' @ cq_to q)) (\<lambda>feeTo.
     bindT (lock_conversion [(cq_source q, cq_from q), (treasuryFrom, cq_from q), (treasuryTo, cq_to q)]) (\<lambda>_.
     bindT (queryT (\<lambda>s. bucket_sum s (cq_source q) (cq_from q) Available)) (\<lambda>customerAvailable.
     bindT (queryT (\<lambda>s. bucket_sum s treasuryTo (cq_to q) Available)) (\<lambda>treasuryAvailable.
     bindT (ensureT (cq_input q \<le> customerAvailable \<and> cq_output q + cq_fee q \<le> treasuryAvailable) (App ErrConversionInsufficientBalance)) (\<lambda>_.
     bindT (insert_conversion (cq_id q) userID key) (\<lambda>cid.
     bindT (post_custody_journal key ''conversion_settlement'' cid (conversion_legs (cq_source q) treasuryFrom treasuryTo feeTo q)) (\<lambda>jid.
     bindT (execT (\<lambda>s. s\<lparr>conversion_quotes := update_where (\<lambda>r. cq_id r = cq_id q \<and> cq_confirmed r = None)
       (\<lambda>r. r\<lparr>cq_confirmed := Some (pg_now s)\<rparr>) (conversion_quotes s)\<rparr>)) (\<lambda>_.
     let metadata = [(''quote_id'', JString (cq_id q)), (''input_amount_atomic'', JString (BigString (cq_input q))),
       (''output_amount_atomic'', JString (BigString (cq_output q))), (''fee_amount_atomic'', JString (BigString (cq_fee q)))] in
     bindT (custody_audit userID ''conversion.settled'' cid [] metadata) (\<lambda>_.
     bindT (custody_outbox ''conversion.settled'' ''conversion'' cid metadata) (\<lambda>_.
     bindT (execT (\<lambda>s. s\<lparr>conversions := update_where (\<lambda>r. cv_id r = cid) (\<lambda>r. r\<lparr>cv_journal := Some jid\<rparr>) (conversions s)\<rparr>)) (\<lambda>_.
     returnT \<lparr>kr_ConversionID = cid, kr_JournalID = jid, kr_Status = ''settled'', kr_Duplicate = False\<rparr>)))))))))))))"

definition ConfirmConversion_tx :: "int \<Rightarrow> string \<Rightarrow> string \<Rightarrow> string \<Rightarrow> ConversionResult custody_tx" where
  "ConfirmConversion_tx now userID quoteID key =
     bindT (control_enabled ''conversions_enabled'') (\<lambda>enabled.
     bindT (ensureT enabled (App ErrConversionsDisabled)) (\<lambda>_.
     bindT (queryT (\<lambda>s. find (\<lambda>c. cv_key c = key) (conversions s))) (\<lambda>existing.
     case existing of
       Some c \<Rightarrow>
         (case cv_journal c of
            None \<Rightarrow> failT (App ErrScanNull)
          | Some jid \<Rightarrow> returnT \<lparr>kr_ConversionID = cv_id c, kr_JournalID = jid, kr_Status = cv_status c, kr_Duplicate = True\<rparr>)
     | None \<Rightarrow>
         bindT (confirmable_quote now userID quoteID) (\<lambda>q. settle_conversion userID key q))))"

definition ConfirmConversion :: "int \<Rightarrow> string \<Rightarrow> string \<Rightarrow> string \<Rightarrow> custody_db \<Rightarrow> (custody_failure + ConversionResult) \<times> custody_db" where
  "ConfirmConversion now userID quoteID key s =
     (if userID = [] \<or> quoteID = [] \<or> key = [] then (Inl (App ErrConversionQuoteNotConfirmable), s)
      else transaction (ConfirmConversion_tx now userID quoteID key) s)"

definition Conversion_Confirm :: "int \<Rightarrow> string \<Rightarrow> string \<Rightarrow> string \<Rightarrow> custody_db \<Rightarrow> (custody_failure + ConversionResult) \<times> custody_db" where
  "Conversion_Confirm now userID quoteID key s =
     (let quoteID' = TrimSpace quoteID; key' = TrimSpace key in
      if userID = [] \<or> quoteID' = [] \<or> length key' < 16 \<or> length key' > 255 then (Inl (App ErrInvalidInput), s)
      else ConfirmConversion now userID quoteID' key' s)"

section \<open>History\<close>

definition ConversionHistory :: "string \<Rightarrow> int \<Rightarrow> custody_db \<Rightarrow> ConversionHistoryItem list" where
  "ConversionHistory userID limit s =
     (let n = (if limit < 1 \<or> limit > 100 then 25 else nat limit) in
      take n (concat (map (\<lambda>c. concat (map (\<lambda>q. concat (map (\<lambda>f. map (\<lambda>t.
          \<lparr>hi_ID = cv_id c, hi_FromAssetSymbol = as_symbol f, hi_FromNetwork = as_network f, hi_ToAssetSymbol = as_symbol t,
           hi_ToNetwork = as_network t, hi_InputAmountAtomic = BigString (cq_input q), hi_OutputAmountAtomic = BigString (cq_output q),
           hi_FeeAmountAtomic = BigString (cq_fee q), hi_Status = cv_status c, hi_CreatedAt = cv_created_at c\<rparr>)
          (filter (\<lambda>t. as_id t = cq_to q) (assets s))) (filter (\<lambda>f. as_id f = cq_from q) (assets s))))
          (filter (\<lambda>q. cq_id q = cv_quote c) (conversion_quotes s))))
        (sort_key (\<lambda>c. - cv_created_at c) (filter (\<lambda>c. cv_user c = userID) (conversions s))))))"

definition Conversion_History :: "string \<Rightarrow> int \<Rightarrow> custody_db \<Rightarrow> custody_failure + ConversionHistoryItem list" where
  "Conversion_History userID limit s = (if userID = [] then Inl (App ErrInvalidInput) else Inr (ConversionHistory userID limit s))"

section \<open>The price of a conversion\<close>

text \<open>The exact value of an amount at a price, after the spread.\<close>

definition conversion_value :: "int \<Rightarrow> rat \<Rightarrow> int \<Rightarrow> int \<Rightarrow> bool \<Rightarrow> int \<Rightarrow> rat" where
  "conversion_value amount p fromDecimals toDecimals sellBase spreadBPS =
     of_int amount / 10 ^ nat fromDecimals * (if sellBase then p * (1 - of_int spreadBPS / 10000) else 1 / (p * (1 + of_int spreadBPS / 10000))) *
     10 ^ nat toDecimals"

lemma quotient_floor:
  assumes "quotient_of r = (n, d)" "0 \<le> r"
  shows "n sdiv d = \<lfloor>r\<rfloor>" "0 \<le> n sdiv d"
proof -
  have "0 < d" "r = of_int n / of_int d" using assms(1) by (auto intro: quotient_of_denom_pos quotient_of_div)
  moreover from this assms(2) have "0 \<le> n" by (simp add: zero_le_divide_iff)
  ultimately show "n sdiv d = \<lfloor>r\<rfloor>" "0 \<le> n sdiv d"
    by (simp_all add: sdiv_nonneg floor_divide_of_int_eq pos_imp_zdiv_nonneg_iff)
qed


text \<open>
  The side of the market is taken from the prefix of its symbol. For dollars into a dollar coin the
  prefix is the customer's asset although the coin is the base: the bid is used and multiplied.
\<close>

lemma usd_sold_as_base:
  "conversionPrice rat_of spot ''USD'' ''USDT'' ''USDTUSD'' = map_option (\<lambda>(bid, ask). (bid, True)) (spot ''USDTUSD'')"
  by (auto simp: conversionPrice_def HasPrefix_def split: option.splits)

definition demo_rat :: "string \<Rightarrow> rat option" where
  "demo_rat t = map_option of_int (SetString t)"


end
