(* ===== verification/Withdrawal_Machine.thy ===== *)
theory Withdrawal_Machine
  imports Withdrawal_Dispatch Deposits Conversions
begin

text \<open>
  The withdrawal life cycle as an abstract machine. Its state is what the properties speak about:
  the withdrawal rows, the held balances, the approvals, the dispatches and the withdrawals that
  were approved automatically. \<open>wstep\<close> lists the only changes to it that a call may make; the
  rest of the theory shows that every database transaction of the withdrawal, deposit and transfer
  code is such a change or leaves the state alone.
\<close>

section \<open>The abstract machine\<close>

record withdrawal_view =
  v_rows :: "withdrawal_row list"
  v_held :: "string \<Rightarrow> string \<Rightarrow> int"
  v_approvals :: "(string \<times> string \<times> string) list"
  v_sent :: "dispatch_row list"
  v_auto :: "string set"

definition view :: "custody_db \<Rightarrow> withdrawal_view" where
  "view s = \<lparr>v_rows = withdrawals s, v_held = (\<lambda>a x. bucket_sum s a x Held), v_approvals = withdrawal_approvals s,
     v_sent = withdrawal_dispatches s,
     v_auto = au_resource ` {a \<in> set (audit_events s). au_action a = ''withdrawal.auto_approved''}\<rparr>"

definition add_held :: "string \<Rightarrow> string \<Rightarrow> int \<Rightarrow> (string \<Rightarrow> string \<Rightarrow> int) \<Rightarrow> string \<Rightarrow> string \<Rightarrow> int" where
  "add_held a x n h = (\<lambda>a' x'. h a' x' + (if a' = a \<and> x' = x then n else 0))"

definition set_row :: "string \<Rightarrow> (withdrawal_row \<Rightarrow> withdrawal_row) \<Rightarrow> withdrawal_row list \<Rightarrow> withdrawal_row list" where
  "set_row wid f rows = update_where (\<lambda>w. wd_id w = wid) f rows"

definition approvers :: "withdrawal_view \<Rightarrow> string \<Rightarrow> string set" where
  "approvers v wid = {a. \<exists>r. (wid, a, r) \<in> set (v_approvals v)}"

inductive wstep :: "withdrawal_view \<Rightarrow> withdrawal_view \<Rightarrow> bool" where
  request: "wd_id w \<notin> wd_id ` set (v_rows v) \<Longrightarrow> wd_key w \<notin> wd_key ` set (v_rows v) \<Longrightarrow> 0 < wd_amount w \<Longrightarrow>
    wd_provider_tx w = None \<Longrightarrow> wd_status w = (if auto then ''approved'' else ''pending_approval'') \<Longrightarrow>
    wstep v (v\<lparr>v_rows := v_rows v @ [w], v_held := add_held (wd_account w) (wd_asset w) (wd_amount w) (v_held v),
      v_auto := (if auto then insert (wd_id w) (v_auto v) else v_auto v)\<rparr>)"
| approve: "w \<in> set (v_rows v) \<Longrightarrow> wd_status w = ''pending_approval'' \<Longrightarrow> a \<notin> approvers v (wd_id w) \<Longrightarrow>
    wstep v (v\<lparr>v_approvals := v_approvals v @ [(wd_id w, a, reason)]\<rparr>)"
| approve_last: "w \<in> set (v_rows v) \<Longrightarrow> wd_status w = ''pending_approval'' \<Longrightarrow> a \<notin> approvers v (wd_id w) \<Longrightarrow>
    approvers v (wd_id w) \<noteq> {} \<Longrightarrow>
    wstep v (v\<lparr>v_approvals := v_approvals v @ [(wd_id w, a, reason)],
      v_rows := set_row (wd_id w) (\<lambda>r. r\<lparr>wd_status := ''approved''\<rparr>) (v_rows v)\<rparr>)"
| cancel: "w \<in> set (v_rows v) \<Longrightarrow> wd_status w = ''pending_approval'' \<Longrightarrow>
    wstep v (v\<lparr>v_rows := set_row (wd_id w) (\<lambda>r. r\<lparr>wd_status := ''cancelled''\<rparr>) (v_rows v),
      v_held := add_held (wd_account w) (wd_asset w) (- wd_amount w) (v_held v)\<rparr>)"
| dispatch: "w \<in> set (v_rows v) \<Longrightarrow> wd_status w = ''approved'' \<Longrightarrow> wd_provider_tx w = None \<Longrightarrow>
    ds_withdrawal d = wd_id w \<Longrightarrow> ds_withdrawal d \<notin> ds_withdrawal ` set (v_sent v) \<Longrightarrow>
    wc_ID (ds_request d) = wd_id w \<Longrightarrow> wc_DestinationAddress (ds_request d) = wd_destination w \<Longrightarrow>
    wc_DestinationTag (ds_request d) = wd_tag w \<Longrightarrow> wc_AmountAtomic (ds_request d) = BigString (wd_amount w) \<Longrightarrow>
    wc_AssetID (ds_request d) = wd_asset w \<Longrightarrow>
    wstep v (v\<lparr>v_sent := v_sent v @ [d]\<rparr>)"
| submit: "w \<in> set (v_rows v) \<Longrightarrow> wd_status w = ''approved'' \<Longrightarrow> wd_provider_tx w = None \<Longrightarrow>
    Some ptx \<notin> wd_provider_tx ` set (v_rows v) \<Longrightarrow>
    wstep v (v\<lparr>v_rows := set_row (wd_id w) (\<lambda>r. r\<lparr>wd_status := ''submitted'', wd_provider_tx := Some ptx\<rparr>) (v_rows v)\<rparr>)"
| rehash: "w \<in> set (v_rows v) \<Longrightarrow>
    wstep v (v\<lparr>v_rows := set_row (wd_id w) (\<lambda>r. r\<lparr>wd_hash := h r\<rparr>) (v_rows v)\<rparr>)"
| outcome: "w \<in> set (v_rows v) \<Longrightarrow> wd_status w \<notin> {''completed'', ''failed'', ''cancelled''} \<Longrightarrow> wd_provider_tx w \<noteq> None \<Longrightarrow>
    new = ''completed'' \<or> new = ''failed'' \<Longrightarrow>
    wstep v (v\<lparr>v_rows := set_row (wd_id w) (\<lambda>r. r\<lparr>wd_status := new, wd_hash := h r\<rparr>) (v_rows v),
      v_held := add_held (wd_account w) (wd_asset w) (- wd_amount w) (v_held v)\<rparr>)"

inductive_cases wstepE: "wstep v v'"

text \<open>Well-formed views: withdrawal ids are unique.\<close>

definition ids_unique :: "withdrawal_view \<Rightarrow> bool" where
  "ids_unique v \<longleftrightarrow> distinct (map wd_id (v_rows v))"

lemma map_set_row [simp]: "(\<And>r. wd_id (f r) = wd_id r) \<Longrightarrow> map wd_id (set_row wid f rows) = map wd_id rows"
  by (auto simp: set_row_def intro: map_update_where)

lemma wstep_ids: "wstep v v' \<Longrightarrow> ids_unique v \<Longrightarrow> ids_unique v'"
  by (induction rule: wstep.induct) (auto simp: ids_unique_def)

section \<open>Simulation\<close>

text \<open>A transaction simulates the machine when, from unique ids, it performs a run of steps.\<close>

definition simulates :: "custody_db \<Rightarrow> custody_db \<Rightarrow> bool" where
  "simulates s t \<longleftrightarrow> (ids_unique (view s) \<longrightarrow> wstep\<^sup>*\<^sup>* (view s) (view t))"

lemma wrun_ids: "wstep\<^sup>*\<^sup>* v v' \<Longrightarrow> ids_unique v \<Longrightarrow> ids_unique v'"
  by (induction rule: rtranclp_induct) (auto intro: wstep_ids)

interpretation sim: tx_relation simulates
  by unfold_locales (auto simp: simulates_def dest: wrun_ids intro: rtranclp_trans)

lemma frame_view:
  assumes "withdrawals t = withdrawals s" "\<And>a x. bucket_sum t a x Held = bucket_sum s a x Held"
    "withdrawal_approvals t = withdrawal_approvals s" "withdrawal_dispatches t = withdrawal_dispatches s"
    "audit_events t = audit_events s"
  shows "view t = view s"
  using assms by (simp add: view_def)

lemma frame_sim: "view t = view s \<Longrightarrow> simulates s t"
  by (simp add: simulates_def)

lemma step_sim: "(ids_unique (view s) \<Longrightarrow> wstep (view s) (view t)) \<Longrightarrow> simulates s t"
  by (auto simp: simulates_def)

lemma audit_view: "act \<noteq> ''withdrawal.auto_approved'' \<Longrightarrow> custody_audit actor act res reason md s = Inr (u, t) \<Longrightarrow> view t = view s"
  by (auto simp: custody_audit_def tx_simps view_def bucket_sum_def intro: image_cong)

lemma plain_statements_view:
  "custody_outbox et aty aid pl s = Inr (u, t) \<Longrightarrow> view t = view s"
  "gen_random_uuid s = Inr (i, t) \<Longrightarrow> view t = view s"
  "advisory_lock k s = Inr (u, t) \<Longrightarrow> view t = view s"
  "LockAccountAsset e a x s = Inr (u, t) \<Longrightarrow> view t = view s"
  "system_account nm s = Inr (i, t) \<Longrightarrow> view t = view s"
  "clearing_account nm s = Inr (i, t) \<Longrightarrow> view t = view s"
  "promote_addresses usr s = Inr (u, t) \<Longrightarrow> view t = view s"
  "numeric_text txt s = Inr (n, t) \<Longrightarrow> view t = view s"
  "available_bigint a x s = Inr (n, t) \<Longrightarrow> view t = view s"
  "control_enabled k s = Inr (b, t) \<Longrightarrow> view t = view s"
  by (auto simp: custody_outbox_def append_outbox_def gen_random_uuid_def advisory_lock_def tx_simps system_account_def
      clearing_account_def promote_addresses_def numeric_text_def available_bigint_def control_enabled_def
      intro!: frame_view simp: bucket_sum_def split: option.splits)

lemma post_custody_journal_view:
  "post_custody_journal key rt rid legs s = Inr (j, t) \<Longrightarrow>
   view t = (view s)\<lparr>v_held := \<lambda>a x. v_held (view s) a x + leg_delta legs a x Held\<rparr>"
  using post_journal_bucket_sum [of key rt rid legs s j t] by (auto simp: post_journal_Inr view_def fun_eq_iff)

lemma post_withdrawal_journal_view:
  "post_withdrawal_journal key rt wid legs s = Inr (j, t) \<Longrightarrow>
   view t = (view s)\<lparr>v_held := \<lambda>a x. v_held (view s) a x + leg_delta legs a x Held\<rparr> \<and>
   list_all (\<lambda>l. 0 < l_amount l) legs"
  by (auto simp: post_withdrawal_journal_def tx_simps view_def bucket_sum_def fun_eq_iff post_journal_Inr leg_delta_def
      dest!: post_custody_journal_view)

text \<open>Statements that leave the machine's state alone.\<close>

definition same_view :: "custody_db \<Rightarrow> custody_db \<Rightarrow> bool" where
  "same_view s t \<longleftrightarrow> view t = view s"

interpretation same: tx_relation same_view
  by unfold_locales (auto simp: same_view_def)

lemma same_sim: "tx_respects same_view m \<Longrightarrow> tx_respects simulates m"
  by (auto simp: tx_respects_def same_view_def intro: frame_sim)

lemma same_viewD: "tx_respects same_view m \<Longrightarrow> m s = Inr (x, t) \<Longrightarrow> view t = view s"
  by (auto simp: tx_respects_def same_view_def)

lemma same_plain:
  "tx_respects same_view (custody_outbox et aty aid pl)" "tx_respects same_view gen_random_uuid"
  "tx_respects same_view (advisory_lock k)" "tx_respects same_view (LockAccountAsset e a x)"
  "tx_respects same_view (system_account nm)" "tx_respects same_view (clearing_account nm)"
  "tx_respects same_view (promote_addresses usr)" "tx_respects same_view (numeric_text txt)"
  "tx_respects same_view (available_bigint a x)" "tx_respects same_view (control_enabled k)"
  unfolding tx_respects_def same_view_def by (blast intro: plain_statements_view)+

lemma same_audit: "act \<noteq> ''withdrawal.auto_approved'' \<Longrightarrow> tx_respects same_view (custody_audit actor act res reason md)"
  unfolding tx_respects_def same_view_def by (blast intro: audit_view)

lemma same_exec:
  "(\<And>s. withdrawals (f s) = withdrawals s \<and> postings (f s) = postings s \<and> withdrawal_approvals (f s) = withdrawal_approvals s \<and>
    withdrawal_dispatches (f s) = withdrawal_dispatches s \<and> audit_events (f s) = audit_events s) \<Longrightarrow> tx_respects same_view (execT f)"
  by (rule same.exec) (simp add: same_view_def view_def bucket_sum_def)

section \<open>Requests\<close>

lemma entitlement_same: "tx_respects same_view (checkWithdrawalEntitlement usr aid n)"
  unfolding checkWithdrawalEntitlement_def
  by (auto intro!: same.bind same.pure same_plain split: option.splits)

lemma record_entitlement_view: "recordWithdrawalEntitlement ck wid usr aid n s = Inr (u, t) \<Longrightarrow> view t = view s"
  by (auto simp: recordWithdrawalEntitlement_def tx_simps numeric_text_def view_def bucket_sum_def split: if_splits option.splits)

lemma insert_withdrawal_view:
  assumes "insert_withdrawal input aid addr status s = Inr (wid, t)"
  shows "\<exists>w. view t = (view s)\<lparr>v_rows := v_rows (view s) @ [w]\<rparr> \<and> wd_id w = wid \<and> wd_id w \<notin> wd_id ` set (v_rows (view s)) \<and>
    wd_key w \<notin> wd_key ` set (v_rows (view s)) \<and> wd_account w = wi_SourceAccountID input \<and> wd_asset w = aid \<and>
    wd_amount w = sint (wi_AmountAtomic input) \<and> wd_provider_tx w = None \<and> wd_status w = status"
  using assms by (auto simp: insert_withdrawal_def tx_simps gen_random_uuid_def view_def bucket_sum_def)

lemma auto_audit_view:
  assumes "custody_audit actor ''withdrawal.auto_approved'' wid reason md s = Inr (u, t)"
  shows "view t = (view s)\<lparr>v_auto := insert wid (v_auto (view s))\<rparr>"
proof -
  have "{a. (a = b \<or> a \<in> A) \<and> P a} = insert b {a \<in> A. P a}" if "P b" for b A and P :: "audit_row \<Rightarrow> bool"
    using that by auto
  note this [of "\<lambda>a. au_action a = ''withdrawal.auto_approved''", simp]
  show ?thesis using assms by (simp add: custody_audit_def execT_simps view_def bucket_sum_def)
qed

lemma announce_withdrawal_view:
  assumes "announce_withdrawal input automatic wid s = Inr (u, t)"
  shows "view t = (view s)\<lparr>v_auto := (if automatic then insert wid (v_auto (view s)) else v_auto (view s))\<rparr>"
proof -
  define md where "md = [(''withdrawal_id'', JString wid), (''asset_symbol'', JString (wi_AssetSymbol input)),
    (''network'', JString (wi_Network input)), (''amount_atomic'', JInt (sint (wi_AmountAtomic input)))]"
  note run_def = announce_withdrawal_def Let_def md_def [symmetric]
  show ?thesis
  proof (cases automatic)
    case True
    from assms obtain u1 u2 u3 s1 s2 s3 where run: "custody_audit (wi_UserID input) ''withdrawal.requested'' wid [] md s = Inr (u1, s1)"
      "custody_outbox ''withdrawal.submitted'' ''withdrawal'' wid md s1 = Inr (u2, s2)"
      "custody_audit (wi_UserID input) ''withdrawal.auto_approved'' wid [] md s2 = Inr (u3, s3)"
      "custody_outbox ''withdrawal.approved'' ''withdrawal'' wid md s3 = Inr (u, t)"
      unfolding run_def if_P [OF True] bindT_Inr by blast
    have "view s3 = (view s2)\<lparr>v_auto := insert wid (v_auto (view s2))\<rparr>" using run(3) by (rule auto_audit_view)
    with True show ?thesis
      using audit_view [OF _ run(1)] plain_statements_view(1) [OF run(2)] plain_statements_view(1) [OF run(4)] by simp
  next
    case False
    from assms obtain u1 u2 s1 s2 where run: "custody_audit (wi_UserID input) ''withdrawal.requested'' wid [] md s = Inr (u1, s1)"
      "custody_outbox ''withdrawal.submitted'' ''withdrawal'' wid md s1 = Inr (u2, s2)"
      "custody_outbox ''withdrawal.under_review'' ''withdrawal'' wid md s2 = Inr (u, t)"
      unfolding run_def if_not_P [OF False] bindT_Inr by blast
    with False show ?thesis
      using audit_view [OF _ run(1)] plain_statements_view(1) [OF run(2)] plain_statements_view(1) [OF run(3)] by simp
  qed
qed

lemma add_held_hold: "(\<lambda>a' x'. h a' x' + leg_delta (hold_legs a x n) a' x' Held) = add_held a x n h"
  by (auto simp: balance_simps bump_def add_held_def fun_eq_iff)

lemma add_held_release: "(\<lambda>a' x'. h a' x' + leg_delta (release_legs a c x n) a' x' Held) = add_held a x (- n) h"
  by (auto simp: balance_simps bump_def add_held_def fun_eq_iff)

lemma admit_tail:
  assumes "bindT (insert_withdrawal input aid addr (if automatic then ''approved'' else ''pending_approval'')) (\<lambda>wid.
     bindT (post_withdrawal_journal (k wid) rt wid (hold_legs (wi_SourceAccountID input) aid (sint (wi_AmountAtomic input)))) (\<lambda>jid.
     bindT (recordWithdrawalEntitlement e wid usr aid n) (\<lambda>_.
     bindT (announce_withdrawal input automatic wid) (\<lambda>_. returnT (res wid jid))))) s = Inr (r, t)"
  shows "simulates s t"
proof (rule step_sim)
  from assms obtain wid s1 jid s2 s3 where run: "insert_withdrawal input aid addr (if automatic then ''approved'' else ''pending_approval'') s = Inr (wid, s1)"
    "post_withdrawal_journal (k wid) rt wid (hold_legs (wi_SourceAccountID input) aid (sint (wi_AmountAtomic input))) s1 = Inr (jid, s2)"
    "recordWithdrawalEntitlement e wid usr aid n s2 = Inr ((), s3)" "announce_withdrawal input automatic wid s3 = Inr ((), t)"
    by (auto simp: tx_simps)
  from insert_withdrawal_view [OF run(1)] obtain w where w: "view s1 = (view s)\<lparr>v_rows := v_rows (view s) @ [w]\<rparr>" "wd_id w = wid"
    "wd_id w \<notin> wd_id ` set (v_rows (view s))" "wd_key w \<notin> wd_key ` set (v_rows (view s))" "wd_account w = wi_SourceAccountID input"
    "wd_asset w = aid" "wd_amount w = sint (wi_AmountAtomic input)" "wd_provider_tx w = None"
    "wd_status w = (if automatic then ''approved'' else ''pending_approval'')" by blast
  have "view s2 = (view s1)\<lparr>v_held := add_held (wd_account w) (wd_asset w) (wd_amount w) (v_held (view s1))\<rparr>" "0 < wd_amount w"
    using post_withdrawal_journal_view [OF run(2)] w(5-7) by (simp_all only: add_held_hold) (simp add: hold_legs_def)
  with w(1,2) record_entitlement_view [OF run(3)] announce_withdrawal_view [OF run(4)] w(3-9)
  show "wstep (view s) (view t)" using wstep.request [of w "view s" automatic] by (cases automatic) simp_all
qed

lemma admit_withdrawal_sim: "tx_respects simulates (admit_withdrawal input automatic)"
  unfolding admit_withdrawal_def Let_def
  by ((rule sim.bind, (rule sim.pure | (rule same_sim, rule same_plain entitlement_same)))+, rule respectsI, erule admit_tail)

lemma RequestWithdrawal_sim: "tx_respects simulates (RequestWithdrawal_tx input)"
proof -
  have "tx_respects simulates (duplicate_withdrawal input w a)" for w a
    unfolding duplicate_withdrawal_def by (intro sim.bind sim.pure)
  then show ?thesis
    unfolding RequestWithdrawal_tx_def
    by (auto intro!: sim.bind sim.pure same_sim [OF same_plain(3)] same_sim [OF same_plain(10)] admit_withdrawal_sim split: option.splits)
qed

section \<open>Approval and cancellation\<close>

lemmas tx_steps = bindT_Inr rowT_simps ensureT_simps queryT_simps execT_simps returnT_simps prod.inject

lemma find_row: "find p (withdrawals s) = Some w \<Longrightarrow> w \<in> set (v_rows (view s)) \<and> p w"
  by (auto simp: view_def dest: find_SomeD)

lemma status_guard_row:
  assumes "ids_unique (view s)" "w \<in> set (withdrawals s)" "g w"
  shows "update_where (\<lambda>r. wd_id r = wd_id w \<and> g r) f (withdrawals s) = set_row (wd_id w) f (withdrawals s)"
proof -
  have "g r" if "r \<in> set (withdrawals s)" "wd_id r = wd_id w" for r
    using assms that by (auto simp: ids_unique_def view_def distinct_map dest: inj_onD)
  then show ?thesis by (auto simp: set_row_def update_where_def)
qed

lemma ApproveWithdrawal_sim:
  assumes "ApproveWithdrawal_tx approver wid reason s = Inr (r, t)"
  shows "simulates s t"
proof (rule step_sim)
  assume ids: "ids_unique (view s)"
  define s1 where "s1 = s\<lparr>withdrawal_approvals := withdrawal_approvals s @ [(wid, approver, reason)]\<rparr>"
  let ?n = "length (filter (\<lambda>(w, _). w = wid) (withdrawal_approvals s1))"
  from assms obtain w u2 s2 u3 s3 u4 where w: "withdrawal_by_id s wid = Some w" "wd_status w = ''pending_approval''"
    and new: "(wid, approver) \<notin> (\<lambda>(w, a, _). (w, a)) ` set (withdrawal_approvals s)"
    and run: "(if 2 \<le> ?n then set_withdrawal_status wid ''pending_approval'' ''approved'' else returnT ()) s1 = Inr (u2, s2)"
      "custody_audit approver ''withdrawal.approved'' wid [] [(''reason'', JString reason), (''approval_count'', JInt (int ?n))] s2 = Inr (u3, s3)"
      "(if (if 2 \<le> ?n then ''approved'' else ''pending_approval'') = ''approved'' then
          custody_outbox ''withdrawal.approved'' ''withdrawal'' wid [(''reason'', JString reason), (''approval_count'', JInt (int ?n))]
        else returnT ()) s3 = Inr (u4, t)"
    unfolding s1_def ApproveWithdrawal_tx_def Let_def control_enabled_def tx_steps by blast
  have row: "w \<in> set (v_rows (view s))" "wd_id w = wid" using w(1) by (auto simp: withdrawal_by_id_def dest: find_row)
  have fresh: "approver \<notin> approvers (view s) (wd_id w)" using new row by (force simp: approvers_def view_def image_iff)
  have t: "view t = view s2"
    using audit_view [OF _ run(2)] run(3) plain_statements_view(1) by (auto simp: tx_simps split: if_splits)
  have n: "2 \<le> ?n \<longleftrightarrow> approvers (view s) wid \<noteq> {}"
  proof -
    have "filter (\<lambda>(w, _). w = wid) (withdrawal_approvals s) = [] \<longleftrightarrow> approvers (view s) wid = {}"
      by (auto simp: approvers_def filter_empty_conv view_def)
    then show ?thesis by (cases "filter (\<lambda>(w, _). w = wid) (withdrawal_approvals s)") (auto simp: s1_def)
  qed
  show "wstep (view s) (view t)"
  proof (cases "approvers (view s) wid = {}")
    case True
    then have "view t = (view s)\<lparr>v_approvals := v_approvals (view s) @ [(wd_id w, approver, reason)]\<rparr>"
      using n t run(1) row by (simp add: tx_simps s1_def view_def bucket_sum_def)
    then show ?thesis using wstep.approve [OF row(1) w(2) fresh, of reason] by simp
  next
    case False
    then have "s2 = s1\<lparr>withdrawals := update_where (\<lambda>r. wd_id r = wd_id w \<and> wd_status r = ''pending_approval'')
        (\<lambda>r. r\<lparr>wd_status := ''approved''\<rparr>) (withdrawals s)\<rparr>"
      using n run(1) row by (simp add: tx_simps set_withdrawal_status_def s1_def)
    then have "view t = (view s)\<lparr>v_approvals := v_approvals (view s) @ [(wd_id w, approver, reason)],
        v_rows := set_row (wd_id w) (\<lambda>r. r\<lparr>wd_status := ''approved''\<rparr>) (v_rows (view s))\<rparr>"
      using t row status_guard_row [OF ids, of w "\<lambda>r. wd_status r = ''pending_approval''"] w(2)
      by (simp add: s1_def view_def bucket_sum_def)
    then show ?thesis using wstep.approve_last [OF row(1) w(2) fresh, of reason] False row by simp
  qed
qed

lemma CancelWithdrawal_sim:
  assumes "CancelWithdrawal_tx usr wid s = Inr (r, t)"
  shows "simulates s t"
proof (rule step_sim)
  assume ids: "ids_unique (view s)"
  from assms obtain w u1 s1 u2 s2 jid s3 u4 s4 u5 md where
    w: "find (\<lambda>w. wd_id w = wid \<and> wd_user w = usr) (withdrawals s) = Some w" "wd_status w = ''pending_approval''"
    and run: "LockAccountAsset ErrLockKey (wd_account w) (wd_asset w) s = Inr (u1, s1)"
      "set_withdrawal_status wid ''pending_approval'' ''cancelled'' s1 = Inr (u2, s2)"
      "post_withdrawal_journal (''withdrawal-cancel-'' @ wid) ''withdrawal_cancel'' wid
         (release_legs (wd_account w) (wd_account w) (wd_asset w) (wd_amount w)) s2 = Inr (jid, s3)"
      "custody_audit usr ''withdrawal.cancelled'' wid [] md s3 = Inr (u4, s4)"
      "custody_outbox ''withdrawal.cancelled'' ''withdrawal'' wid md s4 = Inr (u5, t)"
    unfolding CancelWithdrawal_tx_def Let_def tx_steps by blast
  have row: "w \<in> set (v_rows (view s))" "wd_id w = wid" using find_row [OF w(1)] by auto
  have s1: "withdrawals s1 = withdrawals s" using run(1) by (auto simp: tx_simps)
  have "view s2 = (view s)\<lparr>v_rows := set_row (wd_id w) (\<lambda>r. r\<lparr>wd_status := ''cancelled''\<rparr>) (v_rows (view s))\<rparr>"
    using run(2) plain_statements_view(4) [OF run(1)] s1 row w(2)
      status_guard_row [OF ids, of w "\<lambda>r. wd_status r = ''pending_approval''"]
    by (auto simp: set_withdrawal_status_def tx_simps view_def bucket_sum_def)
  then have "view t = (view s)\<lparr>v_rows := set_row (wd_id w) (\<lambda>r. r\<lparr>wd_status := ''cancelled''\<rparr>) (v_rows (view s)),
      v_held := add_held (wd_account w) (wd_asset w) (- wd_amount w) (v_held (view s))\<rparr>"
    using post_withdrawal_journal_view [OF run(3)] audit_view [OF _ run(4)] plain_statements_view(1) [OF run(5)]
    by (simp add: add_held_release)
  then show "wstep (view s) (view t)" using wstep.cancel [OF row(1) w(2)] by simp
qed

section \<open>Dispatch and custody outcomes\<close>

lemma custody_rows_shape:
  assumes "(v, f) \<in> set (custody_rows s provider w)"
  shows "wc_ID (f x) = wd_id w" "wc_DestinationAddress (f x) = wd_destination w" "wc_DestinationTag (f x) = wd_tag w"
    "wc_AmountAtomic (f x) = BigString (wd_amount w)" "wc_AssetID (f x) = wd_asset w"
  using assms by (auto simp: custody_rows_def)

lemma dispatch_row_shape:
  assumes "dispatch_row_of wid provider s = Some (item, acct)"
  obtains w where "w \<in> set (withdrawals s)" "wd_id w = wid" "wd_status w = ''approved''" "wd_provider_tx w = None" "wc_ID item = wid"
    "wc_DestinationAddress item = wd_destination w" "wc_DestinationTag item = wd_tag w"
    "wc_AmountAtomic item = BigString (wd_amount w)" "wc_AssetID item = wd_asset w" "acct = wd_account w" "wc_SourceVaultID item \<noteq> []"
proof -
  obtain w vs where w: "find (\<lambda>w. wd_id w = wid \<and> wd_status w = ''approved'' \<and> wd_provider_tx w = None) (withdrawals s) = Some w"
    and vs: "concat (map (\<lambda>(v, f). case v of None \<Rightarrow> [] | Some vault \<Rightarrow> if vault = [] then [] else [f vault]) (custody_rows s provider w)) = item # vs"
    and "acct = wd_account w"
    using assms by (auto simp: dispatch_row_of_def split: option.splits list.splits)
  have "item \<in> set (concat (map (\<lambda>(v, f). case v of None \<Rightarrow> [] | Some vault \<Rightarrow> if vault = [] then [] else [f vault]) (custody_rows s provider w)))"
    unfolding vs by simp
  then obtain v f where v: "(Some v, f) \<in> set (custody_rows s provider w)" "v \<noteq> []" "item = f v"
    by (auto split: option.splits if_splits)
  have "wc_SourceVaultID item = v" using v(1,3) by (auto simp: custody_rows_def)
  with v find_SomeD [OF w] custody_rows_shape [OF v(1), of v] \<open>acct = wd_account w\<close> show thesis
    by (intro that [of w]) auto
qed

lemma capacity_same:
  "tx_respects same_view (capacityRouteInTx rid)" "tx_respects same_view (lockCapacity p vlt xs)"
  "tx_respects same_view (openCapacity p vlt x)" "tx_respects same_view (capacity_amount raw)"
  unfolding capacityRouteInTx_def lockCapacity_def openCapacity_def capacity_amount_def
  by (auto intro!: same.bind same.pure same_plain same.for_each split: prod.splits)

lemma check_open_same: "tx_respects same_view (check_open p vlt r n1 n2 n3 n4)" "tx_respects same_view (check_freshness r c)"
  unfolding check_open_def check_freshness_def by (auto intro!: same.bind same.pure capacity_same)

lemma check_capacity_same: "tx_respects same_view (check_capacity p item c)"
  unfolding check_capacity_def by (intro same.bind same.pure capacity_same check_open_same)

lemma insert_dispatch_view:
  assumes "insert_dispatch p item e rid s = Inr (u, t)"
  shows "\<exists>d. view t = (view s)\<lparr>v_sent := v_sent (view s) @ [d]\<rparr> \<and> ds_withdrawal d = wc_ID item \<and> ds_request d = item \<and>
    wc_ID item \<notin> ds_withdrawal ` set (v_sent (view s))"
  using assms by (auto simp: insert_dispatch_def Let_def tx_simps dispatched_def view_def bucket_sum_def)

lemma insert_reservation_same: "tx_respects same_view (insert_reservation p item c r)"
  unfolding insert_reservation_def by (intro same.bind same.pure same_plain same_exec) simp

text \<open>The dispatch of an item whose row is approved and not yet acknowledged is one step.\<close>

lemma dispatch_withdrawal_sim:
  assumes "dispatch_withdrawal provider item acct e capacity s = Inr (r, t)"
    and "w \<in> set (v_rows (view s))" "wd_status w = ''approved''" "wd_provider_tx w = None" "wc_ID item = wd_id w"
    "wc_DestinationAddress item = wd_destination w" "wc_DestinationTag item = wd_tag w"
    "wc_AmountAtomic item = BigString (wd_amount w)" "wc_AssetID item = wd_asset w"
  shows "\<exists>d. wstep (view s) (view t) \<and> r \<and> view t = (view s)\<lparr>v_sent := v_sent (view s) @ [d]\<rparr> \<and> ds_withdrawal d = wc_ID item \<and>
    ds_request d = item"
proof -
  from assms(1) obtain u1 s1 n s2 route s3 u4 s4 u5 s5 u6 s6 u7 md where run:
    "LockAccountAsset ErrLockKey acct (wc_AssetID item) s = Inr (u1, s1)" "numeric_text (wc_AmountAtomic item) s1 = Inr (n, s2)"
    "(case capacity of None \<Rightarrow> returnT no_route | Some c \<Rightarrow> check_capacity provider item c) s2 = Inr (route, s3)"
    "insert_dispatch provider item e (case capacity of None \<Rightarrow> None | Some _ \<Rightarrow> Some (cr_RouteID route)) s3 = Inr (u4, s4)"
    "(case capacity of None \<Rightarrow> returnT () | Some c \<Rightarrow> insert_reservation provider item c route) s4 = Inr (u5, s5)"
    "custody_audit [] ''withdrawal.dispatch_started'' (wc_ID item) [] md s5 = Inr (u6, s6)"
    "custody_outbox ''withdrawal.dispatch_started'' ''withdrawal'' (wc_ID item) md s6 = Inr (u7, t)" "r = True"
    unfolding dispatch_withdrawal_def Let_def tx_steps by blast
  have "view s3 = view s"
    using plain_statements_view(4) [OF run(1)] plain_statements_view(8) [OF run(2)] same_viewD [OF check_capacity_same] run(3)
    by (cases capacity) (auto simp: tx_simps)
  moreover have "view t = view s4"
    using audit_view [OF _ run(6)] plain_statements_view(1) [OF run(7)] same_viewD [OF insert_reservation_same] run(5)
    by (cases capacity) (auto simp: tx_simps)
  ultimately obtain d where "view t = (view s)\<lparr>v_sent := v_sent (view s) @ [d]\<rparr>" "ds_withdrawal d = wc_ID item" "ds_request d = item"
    "wc_ID item \<notin> ds_withdrawal ` set (v_sent (view s))"
    using insert_dispatch_view [OF run(4)] by auto
  then show ?thesis using assms(2-9) run(8) wstep.dispatch [of w "view s" d] by auto
qed

lemma BeginWithdrawalDispatch_sim:
  assumes "BeginWithdrawalDispatch_tx provider expected capacity s = Inr (r, t)"
  shows "(\<exists>d. wstep (view s) (view t) \<and> r \<and> view t = (view s)\<lparr>v_sent := v_sent (view s) @ [d]\<rparr> \<and>
      ds_withdrawal d = wc_ID expected \<and> ds_request d = expected) \<or>
    view t = view s \<and> \<not> r"
proof -
  from assms obtain w :: withdrawal_row and e s1 where run: "checkWithdrawalEntitlement (wd_user w) (wd_asset w) 0 s = Inr (e, s1)"
    "claim_dispatch provider expected capacity e (dispatch_row_of (wc_ID expected) provider s1) s1 = Inr (r, t)"
    unfolding BeginWithdrawalDispatch_tx_def control_enabled_def tx_steps by blast
  have s1: "view s1 = view s" using same_viewD [OF entitlement_same run(1)] .
  consider (stay) "view t = view s1" "\<not> r"
    | (go) item acct where "dispatch_row_of (wc_ID expected) provider s1 = Some (item, acct)"
        "dispatch_withdrawal provider item acct e capacity s1 = Inr (r, t)" "item = expected"
    using run(2) by (auto simp: claim_dispatch_def tx_simps split: option.splits if_splits)
  then show ?thesis
  proof cases
    case go
    obtain x where "x \<in> set (withdrawals s1)" "wd_id x = wc_ID expected" "wd_status x = ''approved''" "wd_provider_tx x = None"
      "wc_ID item = wc_ID expected" "wc_DestinationAddress item = wd_destination x" "wc_DestinationTag item = wd_tag x"
      "wc_AmountAtomic item = BigString (wd_amount x)" "wc_AssetID item = wd_asset x"
      using dispatch_row_shape [OF go(1)] by metis
    then show ?thesis using dispatch_withdrawal_sim [OF go(2), of x] s1 go(3) by (auto simp: view_def)
  qed (simp add: s1)
qed

lemma MarkWithdrawalSubmitted_sim:
  assumes "MarkWithdrawalSubmitted_tx wid ptx s = Inr (r, t)"
  shows "simulates s t"
proof (cases "find (\<lambda>w. wd_id w = wid \<and> wd_status w = ''approved'' \<and> wd_provider_tx w = None) (withdrawals s)")
  case None
  then have "view t = view s" using assms by (auto simp: MarkWithdrawalSubmitted_tx_def tx_simps)
  then show ?thesis by (rule frame_sim)
next
  case (Some w)
  show ?thesis
  proof (rule step_sim)
    assume ids: "ids_unique (view s)"
    have row: "w \<in> set (v_rows (view s))" "wd_id w = wid" "wd_status w = ''approved''" "wd_provider_tx w = None"
      using find_row [OF Some] by auto
    from assms Some obtain u1 s1 u2 where new: "\<not> list_ex (\<lambda>w. wd_provider_tx w = Some ptx) (withdrawals s)"
      and run: "custody_audit [] ''withdrawal.submitted'' wid []
          [(''withdrawal_id'', JString wid), (''provider_transaction_id'', JString ptx)]
          (s\<lparr>withdrawals := update_where (\<lambda>w. wd_id w = wid \<and> wd_status w = ''approved'' \<and> wd_provider_tx w = None)
           (\<lambda>w. w\<lparr>wd_status := ''submitted'', wd_provider_tx := Some ptx\<rparr>) (withdrawals s)\<rparr>) = Inr (u1, s1)"
        "custody_outbox ''withdrawal.submitted'' ''withdrawal'' wid
          [(''withdrawal_id'', JString wid), (''provider_transaction_id'', JString ptx)] s1 = Inr (u2, t)"
      by (auto simp: MarkWithdrawalSubmitted_tx_def Let_def tx_simps)
    have "view t = (view s)\<lparr>v_rows := set_row (wd_id w) (\<lambda>w. w\<lparr>wd_status := ''submitted'', wd_provider_tx := Some ptx\<rparr>) (v_rows (view s))\<rparr>"
      using audit_view [OF _ run(1)] plain_statements_view(1) [OF run(2)] row
        status_guard_row [OF ids, of w "\<lambda>w. wd_status w = ''approved'' \<and> wd_provider_tx w = None"]
      by (simp add: view_def bucket_sum_def)
    moreover have "Some ptx \<notin> wd_provider_tx ` set (v_rows (view s))" using new by (auto simp: view_def list_ex_iff)
    ultimately show "wstep (view s) (view t)" using wstep.submit [OF row(1,3,4), of ptx] by simp
  qed
qed

lemma record_terminal_same: "tx_respects same_view (record_terminal wid oc ptx)"
  unfolding record_terminal_def by (auto intro!: same.bind same.pure same_exec)

lemma settle_withdrawal_view:
  assumes "settle_withdrawal w nxt s = Inr (j, t)"
  shows "view t = (view s)\<lparr>v_held := add_held (wd_account w) (wd_asset w) (- wd_amount w) (v_held (view s))\<rparr>"
  using assms
  by (auto simp: settle_withdrawal_def bindT_Inr add_held_release dest!: post_withdrawal_journal_view plain_statements_view(6) split: if_splits)

lemma set_custody_outcome_view:
  assumes "set_custody_outcome wid status hash s = Inr (u, t)"
  shows "view t = (view s)\<lparr>v_rows := set_row wid (\<lambda>w. w\<lparr>wd_status := (case status of None \<Rightarrow> wd_status w | Some new \<Rightarrow> new),
    wd_hash := (if hash \<noteq> [] then hash else wd_hash w)\<rparr>) (v_rows (view s))\<rparr>"
  using assms by (auto simp: set_custody_outcome_def execT_simps view_def bucket_sum_def set_row_def)

lemma RecordWithdrawalCustodyUpdate_sim:
  assumes "RecordWithdrawalCustodyUpdate_tx nxt input s = Inr (r, t)" "nxt \<in> {''completed'', ''failed'', ''submitted''}"
  shows "simulates s t"
proof (cases "find (\<lambda>w. wd_provider_tx w = Some (wu_ProviderTransactionID input)) (withdrawals s)")
  case None
  then have "view t = view s" using assms by (auto simp: RecordWithdrawalCustodyUpdate_tx_def tx_simps)
  then show ?thesis by (rule frame_sim)
next
  case (Some w)
  have row: "w \<in> set (v_rows (view s))" "wd_provider_tx w \<noteq> None" using find_row [OF Some] by auto
  define md where "md = [(''withdrawal_id'', JString (wd_id w)), (''provider_transaction_id'', JString (wu_ProviderTransactionID input)),
    (''transaction_hash'', JString (wu_TransactionHash input))]"
  consider (stay) "view t = view s"
    | (hash) u where "set_custody_outcome (wd_id w) None (wu_TransactionHash input) s = Inr (u, t)"
    | (settle) u1 s1 j s2 u3 s3 u4 s4 u5 act et oc where "wd_status w \<notin> {''completed'', ''failed'', ''cancelled''}" "nxt \<noteq> ''submitted''"
        "set_custody_outcome (wd_id w) (Some nxt) (wu_TransactionHash input) s = Inr (u1, s1)"
        "settle_withdrawal w nxt s1 = Inr (j, s2)" "record_terminal (wd_id w) oc (wu_ProviderTransactionID input) s2 = Inr (u3, s3)"
        "custody_audit [] act (wd_id w) [] md s3 = Inr (u4, s4)" "custody_outbox et ''withdrawal'' (wd_id w) md s4 = Inr (u5, t)"
        "act = (if nxt = ''failed'' then ''withdrawal.failed'' else ''withdrawal.completed'')"
    using assms(1) Some unfolding md_def
    by (auto simp: RecordWithdrawalCustodyUpdate_tx_def Let_def tx_simps split: if_splits)
  then show ?thesis
  proof cases
    case hash
    then show ?thesis
      using set_custody_outcome_view [OF hash] wstep.rehash [OF row(1)] by (intro step_sim) simp
  next
    case settle
    have "view t = (view s)\<lparr>v_rows := set_row (wd_id w) (\<lambda>r. r\<lparr>wd_status := nxt,
          wd_hash := (if wu_TransactionHash input \<noteq> [] then wu_TransactionHash input else wd_hash r)\<rparr>) (v_rows (view s)),
        v_held := add_held (wd_account w) (wd_asset w) (- wd_amount w) (v_held (view s))\<rparr>"
      using set_custody_outcome_view [OF settle(3)] settle_withdrawal_view [OF settle(4)] same_viewD [OF record_terminal_same settle(5)]
        audit_view [OF _ settle(6)] plain_statements_view(1) [OF settle(7)] settle(8) by simp
    then show ?thesis
      using settle(1,2) assms(2) row wstep.outcome [OF row(1) settle(1) row(2), of "nxt"] by (intro step_sim) auto
  qed (rule frame_sim)
qed

section \<open>Everything else leaves the machine alone\<close>

lemma move_legs_view: "post_custody_journal k rt rid (move_legs a c x n) s = Inr (j, t) \<Longrightarrow> view t = view s"
  using post_custody_journal_view [of k rt rid "move_legs a c x n" s j t] by (simp add: balance_simps bump_def)

lemma same_move: "tx_respects same_view (post_custody_journal k rt rid (move_legs a c x n))"
  unfolding tx_respects_def same_view_def by (blast intro: move_legs_view)

lemmas same_rules = same.bind same.pure same_plain same_audit same_exec same_move same.bind_lift

lemma reconciliation_same: "tx_respects same_view (RecordWithdrawalReconciliationObservation_tx env c ob)"
  unfolding RecordWithdrawalReconciliationObservation_tx_def by (auto intro!: same_rules)

lemma routes_same:
  "tx_respects same_view (ProposeCustodyWithdrawalRoute_tx hash actor ri)"
  "tx_respects same_view (ApproveCustodyWithdrawalRoute_tx actor req reason key)"
  unfolding ProposeCustodyWithdrawalRoute_tx_def ApproveCustodyWithdrawalRoute_tx_def insert_route_def insert_route_request_def
    requireCustodyRouteRole_def Let_def
  by (auto intro!: same_rules split: option.splits)

lemma transfer_same: "tx_respects same_view (CreateInternalTransfer_tx input)"
  unfolding CreateInternalTransfer_tx_def check_transfer_accounts_def insert_transfer_def Let_def
  by (auto intro!: same_rules split: option.splits prod.splits)

lemma credit_deposit_same: "tx_respects same_view (credit_deposit d a)"
  unfolding credit_deposit_def by (auto intro!: same_rules)

lemma deposit_statements_same:
  "tx_respects same_view (autoCreditConfirmedDeposit ptx idx)" "tx_respects same_view (upsert_deposit event route req st)"
  "tx_respects same_view (announce_deposit event usr st ex)"
  unfolding autoCreditConfirmedDeposit_def upsert_deposit_def announce_deposit_def mark_credited_def Let_def
  by (auto intro!: same_rules credit_deposit_same split: option.splits prod.splits)

text \<open>A conversion moves available balances only.\<close>

lemma conversion_delta [balance_simps]: "leg_delta (conversion_legs a tf tt ft q) a' x' Held = 0"
  by (simp add: leg_delta_def conversion_legs_def leg_at_def)

lemma conversion_post_same: "tx_respects same_view (post_custody_journal k rt rid (conversion_legs a tf tt ft q))"
  unfolding tx_respects_def same_view_def using post_custody_journal_view by (simp add: balance_simps)

lemma lock_conversion_same: "tx_respects same_view (lock_conversion ls)"
  unfolding lock_conversion_def by (auto intro!: same.for_each same_plain)

lemma conversions_same:
  "tx_respects same_view (SetConversionPairPolicy_tx actor pol)" "tx_respects same_view (SetConversionsEnabled_tx actor enabled)"
  "tx_respects same_view (CreateConversionQuote_tx qi)" "tx_respects same_view (ConfirmConversion_tx now usr qid key)"
  unfolding SetConversionPairPolicy_tx_def SetConversionsEnabled_tx_def CreateConversionQuote_tx_def ConfirmConversion_tx_def upsert_pair_def
    numeric78_def insert_quote_def confirmable_quote_def settle_conversion_def insert_conversion_def Let_def
  by (auto intro!: same_rules same.map_each conversion_post_same lock_conversion_same split: option.splits)

lemma upsert_address_same: "tx_respects same_view (upsert_address usr aid ad tg lb wl act)"
  unfolding upsert_address_def Let_def by (auto intro!: same_rules split: option.splits)

end
