(* ===== verification/Withdrawal_System.thy ===== *)
theory Withdrawal_System
  imports Withdrawal_Machine
begin

text \<open>
  Withdrawals, deposits, transfers and conversions as a transition system: every exported operation that can
  change the database is a step, with any arguments, and so is any change another service makes to
  tables this code does not write. Every step simulates the abstract withdrawal machine, from which
  the properties of a withdrawal's life follow.
\<close>

section \<open>Steps\<close>

text \<open>
  Other services create accounts and change their status; no statement of the repository deletes
  an account or changes its owner.
\<close>

definition foreign_change :: "custody_db \<Rightarrow> custody_db \<Rightarrow> bool" where
  "foreign_change s t \<longleftrightarrow>
     withdrawals t = withdrawals s \<and> withdrawal_journals t = withdrawal_journals s \<and> withdrawal_approvals t = withdrawal_approvals s \<and>
     withdrawal_dispatches t = withdrawal_dispatches s \<and> withdrawal_entitlement_checks t = withdrawal_entitlement_checks s \<and>
     custody_capacity_reservations t = custody_capacity_reservations s \<and>
     custody_capacity_terminal_events t = custody_capacity_terminal_events s \<and>
     custody_withdrawal_routes t = custody_withdrawal_routes s \<and>
     custody_withdrawal_route_requests t = custody_withdrawal_route_requests s \<and>
     custody_withdrawal_route_approvals t = custody_withdrawal_route_approvals s \<and>
     conversion_pairs t = conversion_pairs s \<and> conversion_quotes t = conversion_quotes s \<and> conversions t = conversions s \<and>
     deposits t = deposits s \<and> transfers t = transfers s \<and> transfer_journals t = transfer_journals s \<and>
     journals t = journals s \<and> postings t = postings s \<and> audit_events t = audit_events s \<and>
     (\<lambda>a. (ac_id a, ac_user_id a)) ` set (accounts s) \<subseteq> (\<lambda>a. (ac_id a, ac_user_id a)) ` set (accounts t)"

inductive custody_step :: "custody_db \<Rightarrow> custody_db \<Rightarrow> bool" where
  foreign: "foreign_change s t \<Longrightarrow> custody_step s t"
| request: "custody_step s (snd (Withdrawal_Request env policy usr body s))"
| cancel: "custody_step s (snd (Withdrawal_Cancel usr wid s))"
| approve: "custody_step s (snd (ApproveWithdrawal approver wid reason s))"
| kill_switch: "custody_step s (snd (SetWithdrawalsEnabled actor enabled s))"
| travel_rule: "custody_step s (snd (SaveWithdrawalTravelRule usr wid ciphertext s))"
| list_addresses: "custody_step s (snd (WithdrawalAddresses usr s))"
| add_address: "custody_step s (snd (Withdrawal_AddAddress env policy now usr ai cooldown s))"
| disable_address: "custody_step s (snd (Withdrawal_DisableAddress usr aid s))"
| propose_route: "custody_step s (snd (ProposeCustodyWithdrawalRoute env quote actor ri s))"
| approve_route: "custody_step s (snd (ApproveCustodyWithdrawalRoute actor req reason key s))"
| dispatch: "custody_step s (snd (BeginWithdrawalDispatch provider item capacity s))"
| submitted: "custody_step s (snd (MarkWithdrawalSubmitted wid ptx s))"
| update: "custody_step s (snd (RecordWithdrawalCustodyUpdate env wu s))"
| observe: "custody_step s (snd (RecordWithdrawalReconciliationObservation env cand ob s))"
| transfer: "custody_step s (snd (Transfer_Create env usr ti s))"
| deposit: "custody_step s (snd (ApplyDepositObservation pg_lower event s))"
| credit: "custody_step s (snd (CreditApprovedDeposit reviewer did reason s))"
| conversion_policy: "custody_step s (snd (SetConversionPairPolicy actor pol s))"
| conversion_switch: "custody_step s (snd (SetConversionsEnabled actor enabled s))"
| conversion_quote: "custody_step s (snd (Conversion_Quote env rat_of market now later usr nq s))"
| conversion_confirm: "custody_step s (snd (Conversion_Confirm now usr qid key s))"

inductive_cases custody_stepE: "custody_step s t"

text \<open>
  A relation that every transaction of the code respects is respected by every run. The
  assumptions are exactly the transactions the operations run after their input checks.
\<close>

locale custody_relation = tx_relation R for R :: "custody_db \<Rightarrow> custody_db \<Rightarrow> bool" +
  assumes foreign_R: "foreign_change s t \<Longrightarrow> R s t"
    and request_R: "tx_respects R (RequestWithdrawal_tx wi)"
    and cancel_R: "tx_respects R (CancelWithdrawal_tx usr wid)"
    and approve_R: "tx_respects R (ApproveWithdrawal_tx approver wid reason)"
    and route_R: "tx_respects R (ProposeCustodyWithdrawalRoute_tx hash actor ri)"
    and route_approval_R: "tx_respects R (ApproveCustodyWithdrawalRoute_tx actor req reason key)"
    and dispatch_R: "tx_respects R (BeginWithdrawalDispatch_tx provider item capacity)"
    and submitted_R: "tx_respects R (MarkWithdrawalSubmitted_tx wid ptx)"
    and update_R: "nxt \<in> {''completed'', ''failed'', ''submitted''} \<Longrightarrow> tx_respects R (RecordWithdrawalCustodyUpdate_tx nxt wu)"
    and observe_R: "tx_respects R (RecordWithdrawalReconciliationObservation_tx env cand ob)"
    and transfer_R: "tx_respects R (CreateInternalTransfer_tx ti)"
    and deposit_R: "R s (snd (ApplyDepositObservation pg_lower event s))"
    and credit_R: "R s (snd (CreditApprovedDeposit reviewer did reason s))"
    and switch_R: "R s (snd (SetWithdrawalsEnabled actor enabled s))"
    and travel_R: "R s (snd (SaveWithdrawalTravelRule usr wid ciphertext s))"
    and addresses_R: "R s (snd (WithdrawalAddresses usr s))"
    and address_R: "R s (snd (AddWithdrawalAddress now usr sm nw ad tg lb wl cd s))"
    and disable_R: "R s (snd (DisableWithdrawalAddress usr aid s))"
    and conversion_policy_R: "tx_respects R (SetConversionPairPolicy_tx actor pol)"
    and conversion_switch_R: "tx_respects R (SetConversionsEnabled_tx actor enabled)"
    and conversion_quote_R: "tx_respects R (CreateConversionQuote_tx qi)"
    and conversion_confirm_R: "tx_respects R (ConfirmConversion_tx now usr qid key)"
begin

lemma conversion_quote_step: "R s (snd (Conversion_Quote env rat_of market now later usr nq s))"
proof -
  have "R s (snd (CreateConversionQuote later qi s))" for qi
    using committed [OF conversion_quote_R, of s qi] by (auto simp: CreateConversionQuote_def R_refl split: prod.splits sum.splits)
  then show ?thesis by (auto simp: Conversion_Quote_def Let_def R_refl split: option.splits sum.splits)
qed

lemma step_R: "custody_step s t \<Longrightarrow> R s t"
proof (induction rule: custody_step.induct)
  case (update s env wu)
  show ?case
  proof (cases "custody_status env (wu_Status wu)")
    case None
    then show ?thesis by (simp add: RecordWithdrawalCustodyUpdate_def R_refl)
  next
    case (Some n)
    then have "n \<in> {''completed'', ''failed'', ''submitted''}" by (auto simp: custody_status_def Let_def split: if_splits)
    with Some show ?thesis by (simp add: RecordWithdrawalCustodyUpdate_def committed update_R)
  qed
next
  case (propose_route s env quote actor ri)
  show ?case
    by (auto simp: ProposeCustodyWithdrawalRoute_def R_refl intro: committed route_R split: sum.splits)
qed (auto simp: Withdrawal_Request_def RequestWithdrawal_def Withdrawal_Cancel_def CancelWithdrawal_def ApproveWithdrawal_def
    Withdrawal_AddAddress_def Withdrawal_DisableAddress_def ApproveCustodyWithdrawalRoute_def BeginWithdrawalDispatch_def
    MarkWithdrawalSubmitted_def RecordWithdrawalReconciliationObservation_def Transfer_Create_def CreateInternalTransfer_def
    SetConversionPairPolicy_def SetConversionsEnabled_def Conversion_Confirm_def ConfirmConversion_def Let_def R_refl
    intro: foreign_R conversion_policy_R conversion_switch_R conversion_quote_step conversion_confirm_R committed request_R cancel_R approve_R route_approval_R dispatch_R submitted_R observe_R transfer_R deposit_R
      credit_R switch_R travel_R addresses_R address_R disable_R)

lemma run_R: "custody_step\<^sup>*\<^sup>* s t \<Longrightarrow> R s t"
  by (induction rule: rtranclp_induct) (auto intro: R_refl R_trans step_R)

end

lemma same_committed: "tx_respects same_view m \<Longrightarrow> simulates s (snd (transaction m s))"
  by (rule sim.committed) (rule same_sim)

lemma inline_operations_sim:
  "simulates s (snd (ApplyDepositObservation pg_lower event s))" "simulates s (snd (CreditApprovedDeposit reviewer did reason s))"
  "simulates s (snd (SetWithdrawalsEnabled actor enabled s))" "simulates s (snd (SaveWithdrawalTravelRule usr wid ciphertext s))"
  "simulates s (snd (WithdrawalAddresses usr s))" "simulates s (snd (AddWithdrawalAddress now usr sm nw ad tg lb wl cd s))"
  "simulates s (snd (DisableWithdrawalAddress usr aid s))"
  unfolding ApplyDepositObservation_def CreditApprovedDeposit_def SetWithdrawalsEnabled_def SaveWithdrawalTravelRule_def
    WithdrawalAddresses_def AddWithdrawalAddress_def DisableWithdrawalAddress_def mark_credited_def Let_def
  by (rule same_committed; auto intro!: same_rules credit_deposit_same deposit_statements_same upsert_address_same split: option.splits prod.splits)+

interpretation machine: custody_relation simulates
proof (unfold_locales, goal_cases)
  case (1 s t)
  then show ?case by (intro frame_sim frame_view) (auto simp: foreign_change_def bucket_sum_def)
next
  case (7 provider item capacity)
  show ?case
    by (rule respectsI, drule BeginWithdrawalDispatch_sim) (auto intro: frame_sim step_sim)
qed (auto intro: RequestWithdrawal_sim CancelWithdrawal_sim ApproveWithdrawal_sim MarkWithdrawalSubmitted_sim
    RecordWithdrawalCustodyUpdate_sim same_sim routes_same reconciliation_same transfer_same conversions_same respectsI inline_operations_sim)

section \<open>Held balances\<close>

definition open_withdrawal :: "withdrawal_row \<Rightarrow> bool" where
  "open_withdrawal w \<longleftrightarrow> wd_status w \<notin> {''completed'', ''failed'', ''cancelled''}"

definition open_amount :: "string \<Rightarrow> string \<Rightarrow> withdrawal_row \<Rightarrow> int" where
  "open_amount a x w = (if wd_account w = a \<and> wd_asset w = x \<and> open_withdrawal w then wd_amount w else 0)"

definition open_withdrawals :: "custody_db \<Rightarrow> string \<Rightarrow> string \<Rightarrow> int" where
  "open_withdrawals s a x = (\<Sum>w\<leftarrow>withdrawals s. open_amount a x w)"

definition gap :: "withdrawal_view \<Rightarrow> string \<Rightarrow> string \<Rightarrow> int" where
  "gap v a x = v_held v a x - (\<Sum>w\<leftarrow>v_rows v. open_amount a x w)"

text \<open>Changing one row changes the sum of the open amounts by that row's difference.\<close>

lemma open_sum_set_row:
  assumes "ids_unique v" "w \<in> set (v_rows v)"
  shows "(\<Sum>r\<leftarrow>set_row (wd_id w) f (v_rows v). open_amount a x r) =
    (\<Sum>r\<leftarrow>v_rows v. open_amount a x r) - open_amount a x w + open_amount a x (f w)"
  using assms unfolding set_row_def ids_unique_def by (intro sum_update_where_unique) auto

lemma wstep_gap: "wstep v v' \<Longrightarrow> ids_unique v \<Longrightarrow> gap v' a x = gap v a x"
  by (induction rule: wstep.induct)
    ((simp add: gap_def open_sum_set_row add_held_def; simp add: open_amount_def open_withdrawal_def; (elim disjE; simp)?)+)

lemma wrun_gap: "wstep\<^sup>*\<^sup>* v v' \<Longrightarrow> ids_unique v \<Longrightarrow> gap v' a x = gap v a x"
proof (induction rule: rtranclp_induct)
  case (step v' v'')
  then show ?case using wrun_ids [OF step.hyps(1)] wstep_gap [OF step.hyps(2)] by simp
qed simp

section \<open>Dual control and life cycle\<close>

text \<open>A withdrawal past approval was approved automatically or by two people.\<close>

definition authorised :: "withdrawal_view \<Rightarrow> string \<Rightarrow> bool" where
  "authorised v wid \<longleftrightarrow> wid \<in> v_auto v \<or> (\<exists>a b. a \<noteq> b \<and> a \<in> approvers v wid \<and> b \<in> approvers v wid)"

text \<open>The provider's transaction id is present exactly in the states after submission.\<close>

definition life_ok :: "withdrawal_view \<Rightarrow> withdrawal_row \<Rightarrow> bool" where
  "life_ok v w \<longleftrightarrow>
     (if wd_provider_tx w = None then wd_status w \<in> {''pending_approval'', ''approved'', ''cancelled''}
      else wd_status w \<in> {''submitted'', ''completed'', ''failed''}) \<and>
     (wd_status w \<notin> {''pending_approval'', ''cancelled''} \<longrightarrow> authorised v (wd_id w))"

definition life_inv :: "withdrawal_view \<Rightarrow> bool" where
  "life_inv v \<longleftrightarrow> ids_unique v \<and> (\<forall>w \<in> set (v_rows v). life_ok v w)"

lemma approvers_append:
  "approvers (v\<lparr>v_approvals := v_approvals v @ [(wid, a, reason)], v_rows := rows\<rparr>) k =
     approvers v k \<union> (if k = wid then {a} else {})"
  "approvers (v\<lparr>v_approvals := v_approvals v @ [(wid, a, reason)]\<rparr>) k = approvers v k \<union> (if k = wid then {a} else {})"
  by (auto simp: approvers_def)

lemma approvers_cong: "v_approvals v' = v_approvals v \<Longrightarrow> approvers v' k = approvers v k"
  by (simp add: approvers_def)

lemma authorised_mono: "wstep v v' \<Longrightarrow> authorised v k \<Longrightarrow> authorised v' k"
  by (induction rule: wstep.induct) (auto simp: authorised_def approvers_def)

lemma set_row_set:
  "r \<in> set (set_row k f rows) \<longleftrightarrow> (\<exists>r0 \<in> set rows. r = (if wd_id r0 = k then f r0 else r0))"
  by (auto simp: set_row_def set_update_where)

lemma unique_row: "ids_unique v \<Longrightarrow> w \<in> set (v_rows v) \<Longrightarrow> r \<in> set (v_rows v) \<Longrightarrow> wd_id r = wd_id w \<Longrightarrow> r = w"
  by (auto simp: ids_unique_def distinct_map dest: inj_onD)

lemma life_ok_mono: "wstep v v' \<Longrightarrow> life_ok v w \<Longrightarrow> life_ok v' w"
  using authorised_mono by (auto simp: life_ok_def)

lemma set_row_life:
  assumes "ids_unique v" "w \<in> set (v_rows v)" "\<forall>r \<in> set (v_rows v). life_ok v' r" "life_ok v' (f w)"
  shows "\<forall>r \<in> set (set_row (wd_id w) f (v_rows v)). life_ok v' r"
  using assms(3,4) unique_row [OF assms(1,2)] by (fastforce simp: set_row_set)

lemma wstep_life: "wstep v v' \<Longrightarrow> life_inv v \<Longrightarrow> life_inv v'"
proof -
  assume step: "wstep v v'" and inv: "life_inv v"
  have ids: "ids_unique v" and old: "\<forall>r \<in> set (v_rows v). life_ok v' r"
    using inv life_ok_mono [OF step] by (auto simp: life_inv_def)
  have "\<forall>r \<in> set (v_rows v'). life_ok v' r"
    using step
  proof cases
    case (approve_last w a reason)
    obtain b where b: "b \<in> approvers v (wd_id w)" "b \<noteq> a" using approve_last(4,5) by blast
    then have "authorised v' (wd_id w)"
      unfolding approve_last(1) authorised_def approvers_append by (intro disjI2 exI [of _ a] exI [of _ b]) auto
    then have "life_ok v' (w\<lparr>wd_status := ''approved''\<rparr>)" using bspec [OF old approve_last(2)] approve_last(3) by (auto simp: life_ok_def split: if_splits)
    then show ?thesis using set_row_life [OF ids approve_last(2) old] by (simp add: approve_last(1))
  next
    case (cancel w)
    have "life_ok v' (w\<lparr>wd_status := ''cancelled''\<rparr>)" using bspec [OF old cancel(2)] cancel(3) by (auto simp: life_ok_def split: if_splits)
    then show ?thesis using set_row_life [OF ids cancel(2) old] by (simp add: cancel(1))
  next
    case (submit w ptx)
    have "life_ok v' (w\<lparr>wd_status := ''submitted'', wd_provider_tx := Some ptx\<rparr>)" using bspec [OF old submit(2)] submit(3) by (auto simp: life_ok_def split: if_splits)
    then show ?thesis using set_row_life [OF ids submit(2) old] by (simp add: submit(1))
  next
    case (rehash w h)
    have "life_ok v' (w\<lparr>wd_hash := h w\<rparr>)" using bspec [OF old rehash(2)] by (auto simp: life_ok_def split: if_splits)
    then show ?thesis using set_row_life [OF ids rehash(2) old, of "\<lambda>r. r\<lparr>wd_hash := h r\<rparr>"] by (simp add: rehash(1))
  next
    case (outcome w new h)
    have "authorised v' (wd_id w)" using bspec [OF old outcome(2)] outcome(3,4) by (simp add: life_ok_def split: if_splits)
    moreover have "wd_provider_tx w \<noteq> None" using outcome(4) .
    ultimately have "life_ok v' (w\<lparr>wd_status := new, wd_hash := h w\<rparr>)" using outcome(5) by (elim disjE) (simp_all add: life_ok_def)
    then show ?thesis using set_row_life [OF ids outcome(2) old, of "\<lambda>r. r\<lparr>wd_status := new, wd_hash := h r\<rparr>"] by (simp add: outcome(1))
  next
    case (request w auto)
    have "life_ok v' w"
      using request(5,6) by (cases auto) (simp_all add: life_ok_def request(1) authorised_def)
    then show ?thesis using old by (simp add: request(1))
  next
    case (approve w a reason)
    then show ?thesis using old by simp
  next
    case (dispatch w d)
    then show ?thesis using old by simp
  qed
  then show ?thesis using wstep_ids [OF step ids] by (simp add: life_inv_def)
qed

interpretation life: transition_system life_inv wstep life_inv
  by unfold_locales (auto intro: wstep_life)

text \<open>The terms of a withdrawal and the order of its states.\<close>

definition terms :: "withdrawal_row \<Rightarrow> string \<times> string \<times> string \<times> string \<times> string option \<times> string \<times> string \<times> int \<times> string \<times> int" where
  "terms w = (wd_id w, wd_user w, wd_account w, wd_asset w, wd_address_id w, wd_destination w, wd_tag w, wd_amount w, wd_key w, wd_created_at w)"

definition status_next :: "(string \<times> string) set" where
  "status_next = {(''pending_approval'', ''approved''), (''pending_approval'', ''cancelled''), (''approved'', ''submitted''),
     (''submitted'', ''completed''), (''submitted'', ''failed'')}"

definition continues :: "withdrawal_row \<Rightarrow> withdrawal_row \<Rightarrow> bool" where
  "continues w w' \<longleftrightarrow> terms w' = terms w \<and> (wd_status w, wd_status w') \<in> status_next\<^sup>* \<and>
     (wd_provider_tx w \<noteq> None \<longrightarrow> wd_provider_tx w' = wd_provider_tx w)"

lemma continues_refl [simp]: "continues w w"
  by (simp add: continues_def)

lemma continues_trans: "continues w w' \<Longrightarrow> continues w' w'' \<Longrightarrow> continues w w''"
  by (auto simp: continues_def intro: rtrancl_trans)

lemma continuesI:
  "terms w' = terms w \<Longrightarrow> (wd_status w, wd_status w') \<in> status_next \<Longrightarrow>
   wd_provider_tx w = None \<or> wd_provider_tx w' = wd_provider_tx w \<Longrightarrow> continues w w'"
  by (auto simp: continues_def)

lemma set_row_continues:
  assumes "ids_unique v" "w \<in> set (v_rows v)" "continues w (f w)" "r \<in> set (v_rows v)"
  shows "\<exists>r' \<in> set (set_row (wd_id w) f (v_rows v)). continues r r'"
proof (cases "wd_id r = wd_id w")
  case True
  then have "r = w" using unique_row [OF assms(1,2,4)] by simp
  then have "f w \<in> set (set_row (wd_id w) f (v_rows v))" using assms(2) by (auto simp: set_row_set)
  with assms(3) \<open>r = w\<close> show ?thesis by blast
next
  case False
  then have "r \<in> set (set_row (wd_id w) f (v_rows v))" using assms(4) by (auto simp: set_row_set)
  then show ?thesis using continues_refl by blast
qed

lemma wstep_continues:
  assumes "wstep v v'" "life_inv v" "r \<in> set (v_rows v)"
  shows "\<exists>r' \<in> set (v_rows v'). continues r r'"
proof -
  have ids: "ids_unique v" and ok: "\<forall>r \<in> set (v_rows v). life_ok v r" using assms(2) by (auto simp: life_inv_def)
  note move = set_row_continues [OF ids _ _ assms(3)]
  from assms(1) show ?thesis
  proof cases
    case (approve_last w a reason)
    have "continues w (w\<lparr>wd_status := ''approved''\<rparr>)" using approve_last(3) by (intro continuesI) (simp_all add: terms_def status_next_def)
    then show ?thesis using move [OF approve_last(2)] by (simp add: approve_last(1))
  next
    case (cancel w)
    have "continues w (w\<lparr>wd_status := ''cancelled''\<rparr>)" using cancel(3) by (intro continuesI) (simp_all add: terms_def status_next_def)
    then show ?thesis using move [OF cancel(2)] by (simp add: cancel(1))
  next
    case (submit w ptx)
    have "continues w (w\<lparr>wd_status := ''submitted'', wd_provider_tx := Some ptx\<rparr>)"
      using submit(3,4) by (intro continuesI) (simp_all add: terms_def status_next_def)
    then show ?thesis using move [OF submit(2)] by (simp add: submit(1))
  next
    case (rehash w h)
    have "continues w (w\<lparr>wd_hash := h w\<rparr>)" by (simp add: continues_def terms_def)
    then show ?thesis using move [OF rehash(2), of "\<lambda>r. r\<lparr>wd_hash := h r\<rparr>"] by (simp add: rehash(1))
  next
    case (outcome w new h)
    have "wd_status w = ''submitted''" using bspec [OF ok outcome(2)] outcome(3,4) by (simp add: life_ok_def split: if_splits)
    then have "continues w (w\<lparr>wd_status := new, wd_hash := h w\<rparr>)"
      using outcome(5) by (intro continuesI) (auto simp: terms_def status_next_def)
    then show ?thesis using move [OF outcome(2), of "\<lambda>r. r\<lparr>wd_status := new, wd_hash := h r\<rparr>"] by (simp add: outcome(1))
  qed (auto intro!: bexI [where x = r] simp: assms(3))
qed

lemma wrun_continues:
  "wstep\<^sup>*\<^sup>* v v' \<Longrightarrow> life_inv v \<Longrightarrow> r \<in> set (v_rows v) \<Longrightarrow> \<exists>r' \<in> set (v_rows v'). continues r r'"
proof (induction rule: rtranclp_induct)
  case (step v' v'')
  then obtain r' where "r' \<in> set (v_rows v')" "continues r r'" by blast
  moreover have "life_inv v'" using life.inv_run step.hyps(1) step.prems(1) by blast
  ultimately show ?case using wstep_continues [OF step.hyps(2)] continues_trans by blast
qed (use continues_refl in blast)

lemma final_status:
  assumes "(a, b) \<in> status_next\<^sup>*" "a \<in> {''completed'', ''failed'', ''cancelled''}"
  shows "b = a"
  using assms(1)
proof (cases rule: converse_rtranclE)
  case (step c)
  then show ?thesis using assms(2) by (auto simp: status_next_def)
qed simp

section \<open>An example\<close>

definition demo_custody :: custody_db where
  "demo_custody = \<lparr>
     users = [\<lparr>u_id = ''u1'', u_status = ''active''\<rparr>],
     accounts = [\<lparr>ac_id = ''a1'', ac_user_id = Some ''u1'', ac_kind = ''funding'', ac_name = ''main'', ac_status = ''active''\<rparr>],
     assets = [\<lparr>as_id = ''usdt'', as_symbol = ''USDT'', as_network = ''n'', as_decimals = 6, as_status = ''enabled''\<rparr>],
     user_roles = [(''op1'', ''treasury_approver''), (''op2'', ''treasury_approver'')],
     journals = [\<lparr>j_id = ''j0'', j_idempotency_key = ''deposit'', j_reference_type = ''deposit'', j_reference_id = ''d'', j_status = Posted\<rparr>,
                 \<lparr>j_id = ''j1'', j_idempotency_key = ''withdrawal-hold-w1'', j_reference_type = ''withdrawal_hold'', j_reference_id = ''w1'',
                  j_status = Posted\<rparr>],
     postings = map (posting_of ''j0'') (move_legs ''vault'' ''a1'' ''usdt'' 1000) @ map (posting_of ''j1'') (hold_legs ''a1'' ''usdt'' 300),
     outbox_events = [], audit_events = [], uuid_source = (\<lambda>n. CHR ''g'' # replicate n CHR ''0''), uuid_next = 0, pg_now = 100,
     locks_taken = [], operational_controls = [(''withdrawals_enabled'', True), (''automatic_withdrawals'', False)],
     test_money_ready = False, test_money_enabled = False, test_money_grants = [],
     custody_assets = [\<lparr>xa_asset = ''usdt'', xa_custody_id = ''USDT_T'', xa_confirmations = 2\<rparr>],
     kyc_profiles = [\<lparr>ky_user = ''u1'', ky_status = ''approved'', ky_expires_at = None\<rparr>],
     subaccounts = [], transfers = [], transfer_journals = [],
     custody_wallets = [\<lparr>wl_id = ''cw1'', wl_user = ''u1'', wl_provider = ''fb'', wl_vault = Some ''v1'', wl_status = ''active''\<rparr>],
     deposit_addresses = [], deposits = [], withdrawal_addresses = [],
     withdrawals = [\<lparr>wd_id = ''w1'', wd_user = ''u1'', wd_account = ''a1'', wd_asset = ''usdt'', wd_address_id = None,
       wd_destination = ''addr'', wd_tag = [], wd_amount = 300, wd_key = ''key'', wd_status = ''pending_approval'',
       wd_provider_tx = None, wd_hash = [], wd_created_at = 50\<rparr>],
     withdrawal_journals = [(''j1'', ''w1'')], withdrawal_approvals = [(''w1'', ''op1'', ''ok'')], withdrawal_travel_rules = [],
     withdrawal_entitlement_checks = [], withdrawal_dispatches = [], custody_withdrawal_routes = [],
     custody_withdrawal_route_requests = [], custody_withdrawal_route_approvals = [], custody_capacity_reservations = [],
     custody_capacity_terminal_events = [], withdrawal_reconciliation_observations = [],
     conversion_pairs = [], conversion_quotes = [], conversions = []\<rparr>"

definition demo_approved :: custody_db where
  "demo_approved = snd (ApproveWithdrawal ''op2'' ''w1'' ''ok'' demo_custody)"

definition demo_cancelled :: custody_db where
  "demo_cancelled = snd (Withdrawal_Cancel ''u1'' ''w1'' demo_custody)"

lemma demo_steps: "custody_step\<^sup>*\<^sup>* demo_custody demo_approved" "custody_step\<^sup>*\<^sup>* demo_custody demo_cancelled"
  unfolding demo_approved_def demo_cancelled_def by (rule r_into_rtranclp, rule custody_step.intros)+

lemma demo_life: "life_inv (view demo_custody)"
  by (simp add: life_inv_def life_ok_def ids_unique_def view_def demo_custody_def)

lemma demo_cancelled_eq: "demo_cancelled = snd (CancelWithdrawal ''u1'' ''w1'' demo_custody)"
proof -
  have "TrimSpace ''w1'' = ''w1''" "TrimSpace ''u1'' = ''u1''" by (rule TrimSpace_graphic, code_simp)+
  then show ?thesis by (simp add: demo_cancelled_def Withdrawal_Cancel_def)
qed

section \<open>Properties\<close>

text \<open>
  C24: the withdrawal code implements the withdrawal machine. Starting with unique withdrawal ids,
  whatever sequence of requests, approvals, cancellations, dispatches, acknowledgements, custody
  updates, deposits and transfers runs, the withdrawal rows, held balances, approvals and
  dispatches only ever change by the steps of \<open>wstep\<close>: a request that holds its amount, an
  approval by a new approver, a cancellation of a pending withdrawal, a first dispatch with the
  row's own destination and amount, an acknowledgement with a fresh transaction id and one final
  outcome that takes exactly the amount out of the held balance.
\<close>

theorem custody_refines_machine:
  assumes "ids_unique (view s)" "custody_step\<^sup>*\<^sup>* s t"
  shows "wstep\<^sup>*\<^sup>* (view s) (view t)"
  using machine.run_R [OF assms(2)] assms(1) by (simp add: simulates_def)

theorem custody_refines_machine_witness:
  "wstep\<^sup>*\<^sup>* (view demo_custody) (view demo_approved) \<and> v_rows (view demo_custody) \<noteq> v_rows (view demo_approved)"
proof -
  have "map wd_status (withdrawals demo_approved) \<noteq> map wd_status (withdrawals demo_custody)" by code_simp
  then show ?thesis
    using custody_refines_machine [OF _ demo_steps(1)] demo_life by (auto simp: life_inv_def view_def)
qed

lemma machine_run: "ids_unique (view s) \<Longrightarrow> custody_step\<^sup>*\<^sup>* s t \<Longrightarrow> wstep\<^sup>*\<^sup>* (view s) (view t)"
  using machine.run_R by (auto simp: simulates_def)

text \<open>
  C25: held money belongs to open withdrawals. In every run, for every account and asset, the held
  balance minus the amounts of the withdrawals that are neither completed nor failed nor cancelled
  stays what it was: no operation holds more than it records, releases twice, or leaves a closed
  withdrawal's money behind in the held bucket.
\<close>

theorem withdrawal_holds_accounted:
  assumes "ids_unique (view s)" "custody_step\<^sup>*\<^sup>* s t"
  shows "bucket_sum t a x Held - open_withdrawals t a x = bucket_sum s a x Held - open_withdrawals s a x"
  using wrun_gap [OF machine_run [OF assms] assms(1), of a x] by (simp add: gap_def view_def open_withdrawals_def)

theorem withdrawal_holds_accounted_witness:
  "bucket_sum demo_custody ''a1'' ''usdt'' Held = 300 \<and> bucket_sum demo_cancelled ''a1'' ''usdt'' Held = 0 \<and>
   open_withdrawals demo_cancelled ''a1'' ''usdt'' = 0"
proof -
  have "bucket_sum demo_custody ''a1'' ''usdt'' Held = 300" "open_withdrawals demo_custody ''a1'' ''usdt'' = 300" by code_simp+
  moreover have "open_withdrawals demo_cancelled ''a1'' ''usdt'' = 0" unfolding demo_cancelled_eq by code_simp
  ultimately show ?thesis
    using withdrawal_holds_accounted [OF _ demo_steps(2), of "''a1''" "''usdt''"] demo_life by (simp add: life_inv_def)
qed

text \<open>
  C26: dual control. In every run from a sound state, a withdrawal that is approved or further along
  (submitted, completed or failed) either was approved automatically when it was requested, which
  its audit trail records, or carries the recorded approvals of two different people.
\<close>

theorem withdrawals_are_authorised:
  assumes "life_inv (view s)" "custody_step\<^sup>*\<^sup>* s t" "w \<in> set (withdrawals t)"
    and "wd_status w \<notin> {''pending_approval'', ''cancelled''}"
  shows "(\<exists>e \<in> set (audit_events t). au_action e = ''withdrawal.auto_approved'' \<and> au_resource e = wd_id w) \<or>
    (\<exists>a b r1 r2. a \<noteq> b \<and> (wd_id w, a, r1) \<in> set (withdrawal_approvals t) \<and> (wd_id w, b, r2) \<in> set (withdrawal_approvals t))"
proof -
  have "life_inv (view t)" using life.inv_run [OF machine_run [OF _ assms(2)]] assms(1) by (simp add: life_inv_def)
  then have "authorised (view t) (wd_id w)" using assms(3,4) by (auto simp: life_inv_def life_ok_def view_def)
  then show ?thesis by (auto simp: authorised_def approvers_def view_def)
qed

theorem withdrawals_are_authorised_witness:
  "\<exists>w \<in> set (withdrawals demo_approved). wd_status w = ''approved'' \<and>
     (\<exists>a b r1 r2. a \<noteq> b \<and> (wd_id w, a, r1) \<in> set (withdrawal_approvals demo_approved) \<and> (wd_id w, b, r2) \<in> set (withdrawal_approvals demo_approved))"
proof -
  have st: "map wd_status (withdrawals demo_approved) = [''approved'']" by code_simp
  then obtain w where w: "w \<in> set (withdrawals demo_approved)" "wd_status w = ''approved''" by (cases "withdrawals demo_approved") auto
  moreover have "\<not> list_ex (\<lambda>e. au_action e = ''withdrawal.auto_approved'') (audit_events demo_approved)" by code_simp
  ultimately show ?thesis
    using withdrawals_are_authorised [OF demo_life demo_steps(1) w(1)] by (auto simp: list_ex_iff)
qed

text \<open>
  C27: the life of a withdrawal. In every run from a sound state each withdrawal keeps its owner,
  account, asset, destination, tag, amount, key and creation time; its status only moves forward
  (pending approval to approved or cancelled, approved to submitted, submitted to completed or
  failed), a completed, failed or cancelled withdrawal never changes status again, and an
  acknowledged provider transaction id is never replaced.
\<close>

theorem withdrawal_lifecycle:
  assumes "life_inv (view s)" "custody_step\<^sup>*\<^sup>* s t" "w \<in> set (withdrawals s)"
  shows "\<exists>w' \<in> set (withdrawals t). terms w' = terms w \<and> (wd_status w, wd_status w') \<in> status_next\<^sup>* \<and>
    (wd_status w \<in> {''completed'', ''failed'', ''cancelled''} \<longrightarrow> wd_status w' = wd_status w) \<and>
    (wd_provider_tx w \<noteq> None \<longrightarrow> wd_provider_tx w' = wd_provider_tx w)"
proof -
  have "wstep\<^sup>*\<^sup>* (view s) (view t)" using machine_run assms(1,2) by (simp add: life_inv_def)
  then obtain w' where w': "w' \<in> set (withdrawals t)" "continues w w'"
    using wrun_continues [of "view s" "view t" w] assms(1,3) by (auto simp: view_def)
  moreover have "wd_status w' = wd_status w" if "wd_status w \<in> {''completed'', ''failed'', ''cancelled''}"
    using final_status [OF _ that, of "wd_status w'"] w'(2) by (simp add: continues_def)
  ultimately show ?thesis by (auto simp: continues_def)
qed

theorem withdrawal_lifecycle_witness:
  "\<exists>w' \<in> set (withdrawals demo_approved). terms w' = terms (hd (withdrawals demo_custody)) \<and>
     (''pending_approval'', wd_status w') \<in> status_next\<^sup>*"
proof -
  have "hd (withdrawals demo_custody) \<in> set (withdrawals demo_custody)" "wd_status (hd (withdrawals demo_custody)) = ''pending_approval''"
    by (simp_all add: demo_custody_def)
  then show ?thesis using withdrawal_lifecycle [OF demo_life demo_steps(1), of "hd (withdrawals demo_custody)"] by auto
qed

end
