(* ===== verification/Withdrawal_Worker.thy ===== *)
theory Withdrawal_Worker
  imports Withdrawal_System
begin

text \<open>
  The withdrawal worker and the reconciler, internal/withdrawals/worker.go and reconciler.go. The
  custody provider is a parameter: its answers are functions of what it is asked (and, for
  \<open>CreateWithdrawal\<close>, of the calls made before), any of which may be an error. The world keeps
  the database, the requests a worker has claimed and not yet sent, and every
  \<open>CreateWithdrawal\<close> call. Workers run concurrently with each other and with every other
  operation: a claim, a call and an acknowledgement are separate steps, so a worker may also stop
  between any two of them.
\<close>

section \<open>Types\<close>

record WithdrawalRequest =
  wq_SourceVaultID :: string
  wq_AssetID :: string
  wq_Destination :: string
  wq_DestinationTag :: string
  wq_Amount :: string
  wq_ExternalID :: string

record VaultAssetBalance =
  vb_AssetID :: string
  vb_Available :: string
  vb_BlockHeight :: string
  vb_BlockHash :: string

record WithdrawalLookup =
  wl_Found :: bool
  wl_ProviderTransactionID :: string
  wl_ExternalID :: string
  wl_Status :: string
  wl_TransactionHash :: string

record WithdrawalObserver =
  ob_balance :: "string \<Rightarrow> string \<Rightarrow> custody_failure + VaultAssetBalance"
  ob_fee :: "WithdrawalRequest \<Rightarrow> custody_failure + string"
  ob_find :: "string \<Rightarrow> custody_failure + WithdrawalLookup"

record WithdrawalWorker =
  wk_providerID :: string
  wk_policy :: RoutePolicy
  wk_env :: go_env
  wk_create :: "WithdrawalRequest list \<Rightarrow> WithdrawalRequest \<Rightarrow> custody_failure + string"
  wk_observer :: "WithdrawalObserver option"

record worker_world =
  ww_db :: custody_db
  ww_claimed :: "WithdrawalRequest list"
  ww_calls :: "WithdrawalRequest list"

section \<open>Preparing an item\<close>

definition custody_request :: "WithdrawalForCustody \<Rightarrow> string \<Rightarrow> WithdrawalRequest" where
  "custody_request item amount =
     \<lparr>wq_SourceVaultID = wc_SourceVaultID item, wq_AssetID = wc_CustodyAssetID item, wq_Destination = wc_DestinationAddress item,
      wq_DestinationTag = wc_DestinationTag item, wq_Amount = amount, wq_ExternalID = wc_ID item\<rparr>"

definition observed_balance :: "WithdrawalObserver \<Rightarrow> string \<Rightarrow> string \<Rightarrow> custody_failure + VaultAssetBalance" where
  "observed_balance observer vault asset =
     bindE (ob_balance observer vault asset) (\<lambda>b.
     if vb_AssetID b \<noteq> asset then Inl (App ErrWithdrawalCapacityObservation) else Inr b)"

definition observed_atomic :: "string \<Rightarrow> int \<Rightarrow> custody_failure + string" where
  "observed_atomic amount decimals =
     (case ProviderAmountToAtomic amount decimals of Inl _ \<Rightarrow> Inl (App ErrWithdrawalCapacityObservation) | Inr a \<Rightarrow> Inr a)"

definition capacity_evidence :: "WithdrawalWorker \<Rightarrow> int \<Rightarrow> WithdrawalForCustody \<Rightarrow> WithdrawalRequest \<Rightarrow> CapacityRoute \<Rightarrow>
    custody_failure + WithdrawalCapacityEvidence option" where
  "capacity_evidence w observedAt item request route =
     (if \<not> cr_Required route then Inr None
      else case wk_observer w of
        None \<Rightarrow> Inl (App ErrWithdrawalCapacityObservation)
      | Some observer \<Rightarrow>
          bindE (observed_balance observer (wc_SourceVaultID item) (cr_ProviderAssetID route)) (\<lambda>assetBalance.
          bindE (if cr_FeeProviderAssetID route \<noteq> cr_ProviderAssetID route
            then observed_balance observer (wc_SourceVaultID item) (cr_FeeProviderAssetID route) else Inr assetBalance) (\<lambda>feeBalance.
          bindE (ob_fee observer request) (\<lambda>fee.
          bindE (observed_atomic (vb_Available assetBalance) (cr_AssetDecimals route)) (\<lambda>assetAvailable.
          bindE (observed_atomic (vb_Available feeBalance) (cr_FeeAssetDecimals route)) (\<lambda>feeAvailable.
          bindE (observed_atomic fee (cr_FeeAssetDecimals route)) (\<lambda>feeRequired.
          Inr (Some \<lparr>ce_RouteID = cr_RouteID route, ce_Environment = cr_Environment route, ce_ObservedAt = Some observedAt,
            ce_AssetAvailable = assetAvailable, ce_FeeAvailable = feeAvailable, ce_FeeRequired = feeRequired,
            ce_AssetBlockHeight = vb_BlockHeight assetBalance, ce_AssetBlockHash = vb_BlockHash assetBalance,
            ce_FeeBlockHeight = vb_BlockHeight feeBalance, ce_FeeBlockHash = vb_BlockHash feeBalance\<rparr>))))))))"

definition prepare_item :: "WithdrawalWorker \<Rightarrow> int \<Rightarrow> WithdrawalForCustody \<Rightarrow> custody_db \<Rightarrow>
    custody_failure + WithdrawalRequest \<times> WithdrawalCapacityEvidence option" where
  "prepare_item w now item s =
     (case policy_Validate (wk_env w) (wk_policy w) (wc_Network item) of
        Some e \<Rightarrow> Inl (App e)
      | None \<Rightarrow>
          (case AtomicToProviderAmount (wc_AmountAtomic item) (wc_AssetDecimals item) of
             Inl e \<Rightarrow> Inl (App e)
           | Inr amount \<Rightarrow>
               let request = custody_request item amount in
               bindE (WithdrawalCapacityRoute (wk_providerID w) (rp_Environment (wk_policy w)) item s) (\<lambda>route.
               bindE (capacity_evidence w now item request route) (\<lambda>evidence.
               Inr (request, evidence)))))"

section \<open>Claim, call, acknowledge\<close>

text \<open>\<open>Inr None\<close> is the \<open>continue\<close> of an item that was not claimed.\<close>

definition claim_item :: "WithdrawalWorker \<Rightarrow> int \<Rightarrow> WithdrawalForCustody \<Rightarrow> custody_db \<Rightarrow>
    (custody_failure + WithdrawalRequest option) \<times> custody_db" where
  "claim_item w now item s =
     (case prepare_item w now item s of
        Inl e \<Rightarrow> (Inl e, s)
      | Inr (request, evidence) \<Rightarrow>
          (case BeginWithdrawalDispatch (wk_providerID w) item evidence s of
             (Inl e, t) \<Rightarrow> (Inl e, t)
           | (Inr claimed, t) \<Rightarrow> (Inr (if claimed then Some request else None), t)))"

definition claim_world :: "WithdrawalWorker \<Rightarrow> int \<Rightarrow> WithdrawalForCustody \<Rightarrow> worker_world \<Rightarrow> (custody_failure + WithdrawalRequest option) \<times> worker_world" where
  "claim_world w now item W =
     (case claim_item w now item (ww_db W) of
        (r, t) \<Rightarrow> (r, W\<lparr>ww_db := t, ww_claimed := (case r of Inr (Some q) \<Rightarrow> q # ww_claimed W | _ \<Rightarrow> ww_claimed W)\<rparr>))"

definition call_world :: "WithdrawalWorker \<Rightarrow> WithdrawalRequest \<Rightarrow> worker_world \<Rightarrow> (custody_failure + string) \<times> worker_world" where
  "call_world w request W =
     (bindE (wk_create w (ww_calls W) request) (\<lambda>ptx.
        if ptx = [] then Inl (App (ErrText ''custody provider returned an empty withdrawal transaction ID'')) else Inr ptx),
      W\<lparr>ww_claimed := remove1 request (ww_claimed W), ww_calls := ww_calls W @ [request]\<rparr>)"

definition mark_world :: "string \<Rightarrow> string \<Rightarrow> worker_world \<Rightarrow> (custody_failure + unit) \<times> worker_world" where
  "mark_world wid ptx W = (case MarkWithdrawalSubmitted wid ptx (ww_db W) of (r, t) \<Rightarrow> (r, W\<lparr>ww_db := t\<rparr>))"

definition process_item :: "WithdrawalWorker \<Rightarrow> int \<Rightarrow> WithdrawalForCustody \<Rightarrow> worker_world \<Rightarrow> (custody_failure + bool) \<times> worker_world" where
  "process_item w now item W =
     (case claim_world w now item W of
        (Inl e, W1) \<Rightarrow> (Inl e, W1)
      | (Inr None, W1) \<Rightarrow> (Inr False, W1)
      | (Inr (Some request), W1) \<Rightarrow>
          (case call_world w request W1 of
             (Inl e, W2) \<Rightarrow> (Inl e, W2)
           | (Inr ptx, W2) \<Rightarrow>
               (case mark_world (wc_ID item) ptx W2 of
                  (Inl e, W3) \<Rightarrow> (Inl e, W3)
                | (Inr _, W3) \<Rightarrow> (Inr True, W3))))"

text \<open>The loop over the items: the number processed and the error that ended it, if any.\<close>

fun process_items :: "WithdrawalWorker \<Rightarrow> (nat \<Rightarrow> int) \<Rightarrow> WithdrawalForCustody list \<Rightarrow> nat \<Rightarrow> worker_world \<Rightarrow>
    (nat \<times> custody_failure option) \<times> worker_world" where
  "process_items w clock [] processed W = ((processed, None), W)"
| "process_items w clock (item # items) processed W =
     (case process_item w (clock (length items)) item W of
        (Inl e, W1) \<Rightarrow> ((processed, Some e), W1)
      | (Inr sent, W1) \<Rightarrow> process_items w clock items (if sent then Suc processed else processed) W1)"

definition Worker_RunOnce :: "WithdrawalWorker \<Rightarrow> (nat \<Rightarrow> int) \<Rightarrow> worker_world \<Rightarrow> (nat \<times> custody_failure option) \<times> worker_world" where
  "Worker_RunOnce w clock W =
     (if wk_providerID w = [] then ((0, Some (App (ErrText ''withdrawal worker is not configured''))), W)
      else case ApprovedWithdrawals (wk_providerID w) 25 (ww_db W) of
        Inl e \<Rightarrow> ((0, Some e), W)
      | Inr items \<Rightarrow> process_items w clock items 0 W)"

section \<open>The reconciler\<close>

definition observation_of :: "WithdrawalLookup \<Rightarrow> WithdrawalReconciliationObservation" where
  "observation_of l =
     \<lparr>wo_Found = wl_Found l, wo_ProviderTransactionID = wl_ProviderTransactionID l, wo_ExternalID = wl_ExternalID l,
      wo_Status = wl_Status l, wo_TransactionHash = wl_TransactionHash l\<rparr>"

definition record_observation :: "go_env \<Rightarrow> WithdrawalReconciliationCandidate \<Rightarrow> WithdrawalLookup \<Rightarrow> custody_db \<Rightarrow>
    (custody_failure + bool) \<times> custody_db" where
  "record_observation env candidate l s =
     (case RecordWithdrawalReconciliationObservation env candidate (observation_of l) s of
        (Inl e, t) \<Rightarrow> (Inl e, t)
      | (Inr recorded, t) \<Rightarrow>
          if \<not> recorded then (Inr False, t)
          else if wl_Found l then
            (case RecordWithdrawalCustodyUpdate env \<lparr>wu_ProviderTransactionID = wl_ProviderTransactionID l, wu_Status = wl_Status l,
                wu_TransactionHash = wl_TransactionHash l\<rparr> t of
               (Inl e, t') \<Rightarrow> (Inl e, t')
             | (Inr _, t') \<Rightarrow> (Inr True, t'))
          else (Inr True, t))"

definition reconcile_one :: "go_env \<Rightarrow> WithdrawalObserver \<Rightarrow> WithdrawalReconciliationCandidate \<Rightarrow> custody_db \<Rightarrow> (custody_failure + bool) \<times> custody_db" where
  "reconcile_one env observer candidate s =
     (case ob_find observer (rc_WithdrawalID candidate) of
        Inl e \<Rightarrow> (Inl e, s)
      | Inr l \<Rightarrow>
          if wl_ExternalID l \<noteq> rc_WithdrawalID candidate then (Inl (App ErrWithdrawalDispatchChanged), s)
          else if \<not> wl_Found l then record_observation env candidate l s
          else if wl_ProviderTransactionID l = [] \<or> wl_Status l = [] then (Inl (App ErrWithdrawalDispatchChanged), s)
          else case MarkWithdrawalSubmitted (rc_WithdrawalID candidate) (wl_ProviderTransactionID l) s of
            (Inl e, t) \<Rightarrow> (Inl e, t)
          | (Inr _, t) \<Rightarrow> record_observation env candidate l t)"

fun reconcile_all :: "go_env \<Rightarrow> WithdrawalObserver \<Rightarrow> WithdrawalReconciliationCandidate list \<Rightarrow> nat \<Rightarrow> custody_db \<Rightarrow>
    (nat \<times> custody_failure option) \<times> custody_db" where
  "reconcile_all env observer [] processed s = ((processed, None), s)"
| "reconcile_all env observer (c # cs) processed s =
     (case reconcile_one env observer c s of
        (Inl e, t) \<Rightarrow> ((processed, Some e), t)
      | (Inr recorded, t) \<Rightarrow> reconcile_all env observer cs (if recorded then Suc processed else processed) t)"

definition Reconciler_RunOnce :: "go_env \<Rightarrow> string \<Rightarrow> WithdrawalObserver \<Rightarrow> custody_db \<Rightarrow> (nat \<times> custody_failure option) \<times> custody_db" where
  "Reconciler_RunOnce env providerID observer s =
     (if providerID = [] then ((0, Some (App (ErrText ''withdrawal reconciler is not configured''))), s)
      else case WithdrawalReconciliationCandidates providerID 25 s of
        Inl e \<Rightarrow> ((0, Some e), s)
      | Inr candidates \<Rightarrow> reconcile_all env observer candidates 0 s)"

section \<open>The concurrent system\<close>

inductive world_step :: "worker_world \<Rightarrow> worker_world \<Rightarrow> bool" where
  database: "custody_step (ww_db W) t \<Longrightarrow> world_step W (W\<lparr>ww_db := t\<rparr>)"
| claim: "world_step W (snd (claim_world w now item W))"
| call: "request \<in> set (ww_claimed W) \<Longrightarrow> world_step W (snd (call_world w request W))"

inductive_cases world_stepE: "world_step W W'"

lemma mark_world_step: "world_step W (snd (mark_world wid ptx W))"
  using world_step.database [OF custody_step.submitted [of "ww_db W" wid ptx]]
  by (auto simp: mark_world_def split: prod.splits)

text \<open>One round of the worker, and one of the reconciler, is a run of the system.\<close>

lemma process_item_run: "world_step\<^sup>*\<^sup>* W (snd (process_item w now item W))"
proof -
  obtain r W1 where c: "claim_world w now item W = (r, W1)" by (cases "claim_world w now item W")
  then have W1: "world_step W W1" using world_step.claim [of W w now item] by simp
  show ?thesis
  proof (cases r)
    case (Inr q)
    show ?thesis
    proof (cases q)
      case (Some request)
      have "request \<in> set (ww_claimed W1)" using c Inr Some by (auto simp: claim_world_def split: prod.splits)
      then have W2: "world_step W1 (snd (call_world w request W1))" by (rule world_step.call)
      obtain x W2' where x: "call_world w request W1 = (x, W2')" by (cases "call_world w request W1")
      show ?thesis
      proof (cases x)
        case (Inr ptx)
        then show ?thesis
          using c \<open>r = Inr q\<close> Some x W1 W2 mark_world_step [of W2' "wc_ID item" ptx]
          by (auto simp: process_item_def split: prod.splits sum.splits intro: rtranclp.rtrancl_into_rtrancl)
      qed (use c \<open>r = Inr q\<close> Some x W1 W2 in \<open>auto simp: process_item_def intro: rtranclp.rtrancl_into_rtrancl\<close>)
    qed (use c Inr W1 in \<open>auto simp: process_item_def\<close>)
  qed (use c W1 in \<open>auto simp: process_item_def\<close>)
qed

lemma process_items_run: "world_step\<^sup>*\<^sup>* W (snd (process_items w clock items n W))"
proof (induction items arbitrary: n W)
  case (Cons item items)
  obtain r W1 where r: "process_item w (clock (length items)) item W = (r, W1)" by fastforce
  then have "world_step\<^sup>*\<^sup>* W W1" using process_item_run [of W w "clock (length items)" item] by simp
  then show ?case using Cons.IH r by (auto split: sum.splits intro: rtranclp_trans)
qed simp

lemma Worker_RunOnce_run: "world_step\<^sup>*\<^sup>* W (snd (Worker_RunOnce w clock W))"
  by (auto simp: Worker_RunOnce_def process_items_run split: sum.splits)

lemma record_observation_run: "custody_step\<^sup>*\<^sup>* s (snd (record_observation env c l s))"
proof -
  obtain r t where r: "RecordWithdrawalReconciliationObservation env c (observation_of l) s = (r, t)" by fastforce
  then have "custody_step s t" using custody_step.observe [of s env c "observation_of l"] by simp
  then show ?thesis
    using r custody_step.update [of t env]
    by (auto simp: record_observation_def split: sum.splits prod.splits intro: rtranclp.rtrancl_into_rtrancl)
      (metis (no_types, lifting) r_into_rtranclp rtranclp.rtrancl_into_rtrancl snd_conv)+
qed

lemma reconcile_one_run: "custody_step\<^sup>*\<^sup>* s (snd (reconcile_one env ob c s))"
proof -
  have mark: "custody_step\<^sup>*\<^sup>* s (snd (record_observation env c l t))"
    if "MarkWithdrawalSubmitted (rc_WithdrawalID c) ptx s = (r, t)" for l t r ptx
    using custody_step.submitted [of s "rc_WithdrawalID c" ptx] that record_observation_run [of t env c l]
    by (simp add: converse_rtranclp_into_rtranclp)
  have "custody_step s t" if "MarkWithdrawalSubmitted (rc_WithdrawalID c) ptx s = (r, t)" for t r ptx
    using custody_step.submitted [of s "rc_WithdrawalID c" ptx] that by simp
  then show ?thesis
    using mark record_observation_run by (auto simp: reconcile_one_def split: sum.splits prod.splits)
qed

lemma reconcile_all_run: "custody_step\<^sup>*\<^sup>* s (snd (reconcile_all env ob cs n s))"
proof (induction cs arbitrary: n s)
  case (Cons c cs)
  obtain r t where r: "reconcile_one env ob c s = (r, t)" by fastforce
  then have "custody_step\<^sup>*\<^sup>* s t" using reconcile_one_run [of s env ob c] by simp
  then show ?case using Cons.IH r by (auto split: sum.splits intro: rtranclp_trans)
qed simp

lemma Reconciler_RunOnce_run: "custody_step\<^sup>*\<^sup>* s (snd (Reconciler_RunOnce env p ob s))"
  by (auto simp: Reconciler_RunOnce_def reconcile_all_run split: sum.splits)

section \<open>What custody is asked\<close>

definition dispatch_matches :: "dispatch_row \<Rightarrow> withdrawal_row \<Rightarrow> bool" where
  "dispatch_matches d w \<longleftrightarrow> wd_id w = ds_withdrawal d \<and> wc_ID (ds_request d) = wd_id w \<and>
     wc_DestinationAddress (ds_request d) = wd_destination w \<and> wc_DestinationTag (ds_request d) = wd_tag w \<and>
     wc_AmountAtomic (ds_request d) = BigString (wd_amount w) \<and> wc_AssetID (ds_request d) = wd_asset w"

definition sent_inv :: "withdrawal_view \<Rightarrow> bool" where
  "sent_inv v \<longleftrightarrow> life_inv v \<and> distinct (map ds_withdrawal (v_sent v)) \<and>
     (\<forall>d \<in> set (v_sent v). \<exists>w \<in> set (v_rows v). dispatch_matches d w \<and> wd_status w \<notin> {''pending_approval'', ''cancelled''})"

lemma matches_continues: "dispatch_matches d w \<Longrightarrow> continues w w' \<Longrightarrow> dispatch_matches d w'"
  by (auto simp: dispatch_matches_def continues_def terms_def)

lemma forward_status:
  "(a, b) \<in> status_next\<^sup>* \<Longrightarrow> a \<notin> {''pending_approval'', ''cancelled''} \<Longrightarrow> b \<notin> {''pending_approval'', ''cancelled''}"
  by (induction rule: rtrancl_induct) (auto simp: status_next_def)

lemma wstep_sent: "wstep v v' \<Longrightarrow> v_sent v' = v_sent v \<or> (\<exists>d w. v_sent v' = v_sent v @ [d] \<and> v_rows v' = v_rows v \<and> w \<in> set (v_rows v) \<and>
    ds_withdrawal d \<notin> ds_withdrawal ` set (v_sent v) \<and> dispatch_matches d w \<and> wd_status w = ''approved'')"
  by (induction rule: wstep.induct) (auto simp: dispatch_matches_def)

lemma wstep_sent_inv:
  assumes "wstep v v'" "sent_inv v"
  shows "sent_inv v'"
proof -
  have life: "life_inv v" "life_inv v'" using assms wstep_life by (auto simp: sent_inv_def)
  have keep: "\<exists>w \<in> set (v_rows v'). dispatch_matches d w \<and> wd_status w \<notin> {''pending_approval'', ''cancelled''}" if "d \<in> set (v_sent v)" for d
  proof -
    have "\<exists>w \<in> set (v_rows v). dispatch_matches d w \<and> wd_status w \<notin> {''pending_approval'', ''cancelled''}"
      using assms(2) that unfolding sent_inv_def by blast
    then obtain w where w: "w \<in> set (v_rows v)" "dispatch_matches d w" "wd_status w \<notin> {''pending_approval'', ''cancelled''}" by blast
    obtain w' where w': "w' \<in> set (v_rows v')" "continues w w'" using wstep_continues [OF assms(1) life(1) w(1)] by blast
    have "wd_status w' \<notin> {''pending_approval'', ''cancelled''}"
      using forward_status [OF _ w(3), of "wd_status w'"] w'(2) by (simp add: continues_def)
    with w'(1) matches_continues [OF w(2) w'(2)] show ?thesis by blast
  qed
  from wstep_sent [OF assms(1)] show ?thesis
  proof (elim disjE exE conjE)
    assume "v_sent v' = v_sent v"
    then show ?thesis using keep assms(2) life(2) by (simp add: sent_inv_def)
  next
    fix d w
    assume new: "v_sent v' = v_sent v @ [d]" "v_rows v' = v_rows v" "w \<in> set (v_rows v)"
      "ds_withdrawal d \<notin> ds_withdrawal ` set (v_sent v)" "dispatch_matches d w" "wd_status w = ''approved''"
    have "\<exists>w \<in> set (v_rows v'). dispatch_matches d w \<and> wd_status w \<notin> {''pending_approval'', ''cancelled''}"
      using new(2,3,5,6) by (intro bexI [of _ w]) auto
    then show ?thesis using keep assms(2) life(2) new(1,4) by (auto simp: sent_inv_def)
  qed
qed

lemma wrun_sent: "wstep\<^sup>*\<^sup>* v v' \<Longrightarrow> sent_inv v \<Longrightarrow> sent_inv v' \<and> set (v_sent v) \<subseteq> set (v_sent v')"
proof (induction rule: rtranclp_induct)
  case (step v' v'')
  then show ?case using wstep_sent [OF step.hyps(2)] wstep_sent_inv [OF step.hyps(2)] by auto
qed simp

text \<open>A request to custody repeats a recorded dispatch, its amount written for the provider.\<close>

definition from_dispatch :: "custody_db \<Rightarrow> WithdrawalRequest \<Rightarrow> bool" where
  "from_dispatch s q \<longleftrightarrow> (\<exists>d \<in> set (withdrawal_dispatches s). ds_withdrawal d = wc_ID (ds_request d) \<and>
     (\<exists>amount. AtomicToProviderAmount (wc_AmountAtomic (ds_request d)) (wc_AssetDecimals (ds_request d)) = Inr amount \<and>
        q = custody_request (ds_request d) amount))"

definition world_inv :: "worker_world \<Rightarrow> bool" where
  "world_inv W \<longleftrightarrow> sent_inv (view (ww_db W)) \<and> distinct (map wq_ExternalID (ww_claimed W @ ww_calls W)) \<and>
     (\<forall>q \<in> set (ww_claimed W @ ww_calls W). from_dispatch (ww_db W) q)"

lemma from_dispatch_id: "from_dispatch s q \<Longrightarrow> dispatched s (wq_ExternalID q)"
  by (auto simp: from_dispatch_def custody_request_def dispatched_def intro: rev_image_eqI)

lemma from_dispatch_mono: "from_dispatch s q \<Longrightarrow> set (v_sent (view s)) \<subseteq> set (v_sent (view t)) \<Longrightarrow> from_dispatch t q"
  by (auto simp: from_dispatch_def view_def)

lemma prepare_item_request:
  assumes "prepare_item w now item s = Inr (q, ev)"
  shows "\<exists>amount. AtomicToProviderAmount (wc_AmountAtomic item) (wc_AssetDecimals item) = Inr amount \<and> q = custody_request item amount"
  using assms by (auto simp: prepare_item_def bindE_def Let_def split: option.splits sum.splits)

lemma Begin_cases:
  assumes "BeginWithdrawalDispatch p item ev s = (r, t)"
  shows "view t = view s \<and> r \<noteq> Inr True \<or>
    (\<exists>d. r = Inr True \<and> wstep (view s) (view t) \<and> view t = (view s)\<lparr>v_sent := v_sent (view s) @ [d]\<rparr> \<and>
       ds_withdrawal d = wc_ID item \<and> ds_request d = item)"
  using assms BeginWithdrawalDispatch_sim [of p item ev s]
  by (fastforce simp: BeginWithdrawalDispatch_def transaction_def split: if_splits sum.splits prod.splits)

lemma claim_inv:
  assumes "world_inv W"
  shows "world_inv (snd (claim_world w now item W))"
proof -
  obtain r t where rt: "claim_item w now item (ww_db W) = (r, t)" by (cases "claim_item w now item (ww_db W)")
  have old: "sent_inv (view (ww_db W))" using assms by (simp add: world_inv_def)
  consider (same) "view t = view (ww_db W)" "\<And>q. r \<noteq> Inr (Some q)"
    | (new) q d where "r = Inr (Some q)" "wstep (view (ww_db W)) (view t)"
        "view t = (view (ww_db W))\<lparr>v_sent := v_sent (view (ww_db W)) @ [d]\<rparr>" "ds_withdrawal d = wc_ID item" "ds_request d = item"
        "\<exists>amount. AtomicToProviderAmount (wc_AmountAtomic item) (wc_AssetDecimals item) = Inr amount \<and> q = custody_request item amount"
  proof (cases "prepare_item w now item (ww_db W)")
    case (Inl e)
    then show ?thesis using rt by (intro that(1)) (auto simp: claim_item_def)
  next
    case (Inr qe)
    obtain q ev where qe: "qe = (q, ev)" by (cases qe)
    obtain b u where b: "BeginWithdrawalDispatch (wk_providerID w) item ev (ww_db W) = (b, u)" by fastforce
    have ru: "u = t" "r = (case b of Inl e \<Rightarrow> Inl e | Inr c \<Rightarrow> Inr (if c then Some q else None))"
      using rt Inr qe b by (auto simp: claim_item_def split: sum.splits)
    from Begin_cases [OF b] show ?thesis
    proof (elim disjE exE conjE)
      assume "view u = view (ww_db W)" "b \<noteq> Inr True"
      then show ?thesis using ru by (intro that(1)) (auto split: sum.splits)
    next
      fix d assume "b = Inr True" "wstep (view (ww_db W)) (view u)" "view u = (view (ww_db W))\<lparr>v_sent := v_sent (view (ww_db W)) @ [d]\<rparr>"
        "ds_withdrawal d = wc_ID item" "ds_request d = item"
      then show ?thesis using ru prepare_item_request [OF Inr [unfolded qe]] by (intro that(2) [of q d]) auto
    qed
  qed
  then show ?thesis
  proof cases
    case same
    have "snd (claim_world w now item W) = W\<lparr>ww_db := t\<rparr>"
      using same(2) rt by (cases r) (auto simp: claim_world_def split: option.splits)
    then show ?thesis using assms same(1) from_dispatch_mono [of "ww_db W" _ t] by (auto simp: world_inv_def)
  next
    case new
    have W': "snd (claim_world w now item W) = W\<lparr>ww_db := t, ww_claimed := q # ww_claimed W\<rparr>"
      using new(1) rt by (simp add: claim_world_def)
    have sent: "sent_inv (view t)" using wstep_sent_inv [OF new(2) old] .
    have q: "from_dispatch t q" using new(3-6) unfolding from_dispatch_def by (intro bexI [of _ d]) (auto simp: view_def)
    have "wc_ID item \<notin> ds_withdrawal ` set (v_sent (view (ww_db W)))" using sent new(3,4) by (simp add: sent_inv_def)
    then have "\<not> dispatched (ww_db W) (wq_ExternalID q)"
      using new(6) by (auto simp: dispatched_def view_def custody_request_def)
    then have "wq_ExternalID q \<notin> wq_ExternalID ` set (ww_claimed W @ ww_calls W)"
      using assms from_dispatch_id by (force simp: world_inv_def)
    moreover have "\<forall>p \<in> set (ww_claimed W @ ww_calls W). from_dispatch t p"
      using assms from_dispatch_mono [of "ww_db W" _ t] new(3) by (auto simp: world_inv_def)
    ultimately show ?thesis using assms W' sent q by (auto simp: world_inv_def)
  qed
qed

lemma call_inv:
  assumes "world_inv W" "request \<in> set (ww_claimed W)"
  shows "world_inv (snd (call_world w request W))"
proof -
  obtain xs ys where split: "ww_claimed W = xs @ request # ys" "remove1 request (ww_claimed W) = xs @ ys"
    using assms(2) split_list_first [of request "ww_claimed W"] by (auto simp: remove1_append)
  have "distinct (map wq_ExternalID ((xs @ ys) @ ww_calls W @ [request]))" using assms(1) split(1) by (auto simp: world_inv_def)
  then show ?thesis using assms(1) split by (auto simp: world_inv_def call_world_def)
qed

lemma database_inv:
  assumes "world_inv W" "custody_step (ww_db W) t"
  shows "world_inv (W\<lparr>ww_db := t\<rparr>)"
proof -
  have inv: "sent_inv (view (ww_db W))" using assms(1) by (simp add: world_inv_def)
  then have "wstep\<^sup>*\<^sup>* (view (ww_db W)) (view t)"
    using machine_run [of "ww_db W" t] r_into_rtranclp [of custody_step, OF assms(2)] by (simp add: sent_inv_def life_inv_def)
  from wrun_sent [OF this inv] show ?thesis
    using assms(1) from_dispatch_mono [of "ww_db W" _ t] by (auto simp: world_inv_def)
qed

interpretation custody_world: transition_system world_inv world_step world_inv
proof (unfold_locales, goal_cases)
  case (2 W W')
  then show ?case by (cases rule: world_step.cases [OF 2(2)]) (auto intro: database_inv claim_inv call_inv)
qed simp

section \<open>An example round\<close>

definition demo_custody_worker :: WithdrawalWorker where
  "demo_custody_worker = \<lparr>wk_providerID = ''fb'',
     wk_policy = \<lparr>rp_Environment = ''staging'', rp_Mode = [], rp_SelfCustodyTestnetEnabled = False, rp_TestnetOnly = False\<rparr>,
     wk_env = plain_env, wk_create = (\<lambda>_ _. Inr ''tx1''), wk_observer = None\<rparr>"

definition demo_custody_world :: worker_world where
  "demo_custody_world = \<lparr>ww_db = demo_approved, ww_claimed = [], ww_calls = []\<rparr>"

lemma demo_custody_policy: "policy_Validate env (wk_policy demo_custody_worker) network = None"
  by (simp add: policy_Validate_def demo_custody_worker_def ToLower_def ascii_def)

definition demo_item :: WithdrawalForCustody where
  "demo_item = \<lparr>wc_ID = ''w1'', wc_UserID = ''u1'', wc_AssetID = ''usdt'', wc_SourceVaultID = ''v1'', wc_CustodyAssetID = ''USDT_T'',
     wc_Network = ''n'', wc_DestinationAddress = ''addr'', wc_DestinationTag = [], wc_AmountAtomic = ''300'', wc_AssetDecimals = 6\<rparr>"

lemma demo_prepare: "prepare_item demo_custody_worker now demo_item demo_approved = Inr (custody_request demo_item ''0.0003'', None)"
proof -
  have "AtomicToProviderAmount ''300'' 6 = Inr ''0.0003''" by code_simp
  moreover have "WithdrawalCapacityRoute ''fb'' ''staging'' demo_item demo_approved = Inr no_route" by code_simp
  moreover have "wk_providerID demo_custody_worker = ''fb''" "rp_Environment (wk_policy demo_custody_worker) = ''staging''" by (simp_all add: demo_custody_worker_def)
  ultimately show ?thesis
    by (simp add: prepare_item_def demo_custody_policy bindE_def capacity_evidence_def no_route_def demo_item_def)
qed

lemma demo_custody_claim: "fst (BeginWithdrawalDispatch ''fb'' demo_item None demo_approved) = Inr True"
  by code_simp

lemma demo_listed: "ApprovedWithdrawals ''fb'' 25 demo_approved = Inr [demo_item]"
  by code_simp

text \<open>The worker lists the approved withdrawal, claims it and calls custody once.\<close>

lemma demo_custody_round: "ww_calls (snd (Worker_RunOnce demo_custody_worker clock demo_custody_world)) = [custody_request demo_item ''0.0003'']"
proof -
  have [simp]: "wk_providerID demo_custody_worker = ''fb''" "wk_create demo_custody_worker = (\<lambda>_ _. Inr ''tx1'')" by (simp_all add: demo_custody_worker_def)
  have "process_item demo_custody_worker (clock 0) demo_item demo_custody_world = (r, W) \<Longrightarrow> ww_calls W = [custody_request demo_item ''0.0003'']" for r W
    using demo_custody_claim
    by (auto simp: process_item_def claim_world_def claim_item_def demo_custody_world_def demo_prepare call_world_def mark_world_def bindE_def
        split: prod.splits sum.splits)
  then show ?thesis
    by (auto simp: Worker_RunOnce_def demo_listed demo_custody_world_def split: prod.splits sum.splits)
qed

lemma demo_custody_sent: "sent_inv (view demo_approved)"
proof -
  have "life_inv (view demo_approved)"
    using life.inv_run [OF machine_run [OF _ demo_steps(1)]] demo_life by (simp add: life_inv_def)
  moreover have "withdrawal_dispatches demo_approved = []" by code_simp
  ultimately show ?thesis by (simp add: sent_inv_def view_def)
qed

lemma call_backed:
  assumes inv: "world_inv W'" and q: "q \<in> set (ww_calls W')"
  shows "\<exists>w \<in> set (withdrawals (ww_db W')). wd_id w = wq_ExternalID q \<and> wq_Destination q = wd_destination w \<and>
       wq_DestinationTag q = wd_tag w \<and> (\<exists>decimals. AtomicToProviderAmount (BigString (wd_amount w)) decimals = Inr (wq_Amount q)) \<and>
       wd_status w \<notin> {''pending_approval'', ''cancelled''} \<and> authorised (view (ww_db W')) (wd_id w)"
proof -
  have "from_dispatch (ww_db W') q" using inv q by (simp add: world_inv_def)
  then obtain d amount where d: "d \<in> set (withdrawal_dispatches (ww_db W'))"
    "AtomicToProviderAmount (wc_AmountAtomic (ds_request d)) (wc_AssetDecimals (ds_request d)) = Inr amount"
    "q = custody_request (ds_request d) amount"
    unfolding from_dispatch_def by blast
  have "\<exists>w \<in> set (v_rows (view (ww_db W'))). dispatch_matches d w \<and> wd_status w \<notin> {''pending_approval'', ''cancelled''}"
    using inv d(1) unfolding world_inv_def sent_inv_def by (simp add: view_def)
  then obtain w where w: "w \<in> set (withdrawals (ww_db W'))" "dispatch_matches d w" "wd_status w \<notin> {''pending_approval'', ''cancelled''}"
    by (auto simp: view_def)
  moreover have "authorised (view (ww_db W')) (wd_id w)"
    using inv w(1,3) by (auto simp: world_inv_def sent_inv_def life_inv_def life_ok_def view_def)
  ultimately show ?thesis using d by (intro bexI [of _ w]) (auto simp: dispatch_matches_def custody_request_def)
qed



end
