(* ===== verification/Ledger_Frame.thy ===== *)
theory Ledger_Frame
  imports Ledger_DB
begin

text \<open>
  What a service leaves alone: a ledger that only grows by journals of other kinds, tables that stay as
  they are, and assertions about transactions. Shared by the invariants of deposits, conversions and
  test money.
\<close>

section \<open>A ledger that only grows\<close>

definition owners_kept :: "'r ledger_db_scheme \<Rightarrow> 'r ledger_db_scheme \<Rightarrow> bool" where
  "owners_kept s t \<longleftrightarrow> (\<lambda>a. (ac_id a, ac_user_id a)) ` set (accounts s) \<subseteq> (\<lambda>a. (ac_id a, ac_user_id a)) ` set (accounts t)"

text \<open>The ledger only grows, and what is added is no part of an old journal.\<close>

definition ledger_grows :: "(journal_row \<Rightarrow> bool) \<Rightarrow> 'r ledger_db_scheme \<Rightarrow> 'r ledger_db_scheme \<Rightarrow> bool" where
  "ledger_grows p s t \<longleftrightarrow> (ledger_wf s \<longrightarrow> ledger_wf t \<and>
     (\<exists>js ps. journals t = journals s @ js \<and> (\<forall>j \<in> set js. p j) \<and> postings t = postings s @ ps \<and>
       (\<forall>r \<in> set ps. p_journal r \<notin> j_id ` set (journals s))))"

text \<open>The tables are unchanged, no account loses its owner and no journal of the kind is added.\<close>

definition keeps_tables :: "string \<Rightarrow> ('r ledger_db_scheme \<Rightarrow> 'x) \<Rightarrow> 'r ledger_db_scheme \<Rightarrow> 'r ledger_db_scheme \<Rightarrow> bool" where
  "keeps_tables kind tables s t \<longleftrightarrow> tables t = tables s \<and> owners_kept s t \<and> ledger_grows (\<lambda>j. j_reference_type j \<noteq> kind) s t"

lemma owners_kept_refl [simp]: "owners_kept s s"
  by (simp add: owners_kept_def)

lemma ledger_grows_same: "journals t = journals s \<Longrightarrow> postings t = postings s \<Longrightarrow> ledger_grows p s t"
  by (simp add: ledger_grows_def ledger_wf_def)

lemma ledger_grows_trans: "ledger_grows p s t \<Longrightarrow> ledger_grows p t u \<Longrightarrow> ledger_grows p s u"
  unfolding ledger_grows_def by fastforce

lemma owners_kept_trans: "owners_kept s t \<Longrightarrow> owners_kept t u \<Longrightarrow> owners_kept s u"
  unfolding owners_kept_def by (rule subset_trans)

lemma post_journal_grows:
  assumes "post_journal key rtype rid legs s = Inr (jid, t)"
  shows "ledger_grows (\<lambda>j. j = \<lparr>j_id = jid, j_idempotency_key = key, j_reference_type = rtype, j_reference_id = rid, j_status = Posted\<rparr>) s t"
  using assms post_journal_wf [OF assms] unfolding ledger_grows_def post_journal_Inr by auto

lemma respects_branch: "tx_respects R m \<Longrightarrow> tx_respects R n \<Longrightarrow> tx_respects R (if b then m else n)"
  by simp

lemma filter_none: "(\<forall>x \<in> set xs. \<not> p x) \<Longrightarrow> filter p xs = []"
  by simp

lemma set_update_unique:
  assumes "distinct (map k xs)" "d \<in> set xs" "p d"
  shows "r \<in> set (update_where (\<lambda>r. k r = k d \<and> p r) f xs) \<longleftrightarrow> r = f d \<or> r \<in> set xs \<and> k r \<noteq> k d"
proof -
  have "r = d" if "r \<in> set xs" "k r = k d" for r using assms(1,2) that by (auto simp: distinct_map dest: inj_onD)
  then show ?thesis using assms(2,3) unfolding set_update_where by metis
qed

lemma respects_query: "(\<And>s. tx_respects R (f (h s))) \<Longrightarrow> tx_respects R (bindT (queryT h) f)"
  by (auto simp: tx_respects_def tx_simps)

text \<open>The journals of the kind and the postings of every old journal stay as they are.\<close>

lemma keeps_tables_ledger:
  assumes "keeps_tables kind tables s t" "ledger_wf s"
  shows "ledger_wf t" "filter (\<lambda>j. j_reference_type j = kind \<and> q j) (journals t) = filter (\<lambda>j. j_reference_type j = kind \<and> q j) (journals s)"
    "i \<in> set (journals s) \<Longrightarrow> filter (\<lambda>p. p_journal p = j_id i) (postings t) = filter (\<lambda>p. p_journal p = j_id i) (postings s)"
    "j \<in> set (journals t) \<Longrightarrow> j_reference_type j = kind \<Longrightarrow> j \<in> set (journals s)"
proof -
  obtain js ps where t: "ledger_wf t" "journals t = journals s @ js" "\<forall>j \<in> set js. j_reference_type j \<noteq> kind"
    "postings t = postings s @ ps" "\<forall>r \<in> set ps. p_journal r \<notin> j_id ` set (journals s)"
    using assms by (auto simp: keeps_tables_def ledger_grows_def)
  show "ledger_wf t" by (rule t(1))
  show "filter (\<lambda>j. j_reference_type j = kind \<and> q j) (journals t) = filter (\<lambda>j. j_reference_type j = kind \<and> q j) (journals s)"
    using t(2,3) by (auto intro!: filter_none)
  show "filter (\<lambda>p. p_journal p = j_id i) (postings t) = filter (\<lambda>p. p_journal p = j_id i) (postings s)" if "i \<in> set (journals s)"
    using t(4,5) that by (auto intro!: filter_none)
  show "j \<in> set (journals s)" if "j \<in> set (journals t)" "j_reference_type j = kind"
    using t(2,3) that by auto
qed

section \<open>One journal of a kind\<close>

text \<open>Exactly one journal of the kind refers to the row, and its only postings are the legs.\<close>

definition posted_once :: "string \<Rightarrow> string \<Rightarrow> (journal_row \<Rightarrow> bool) \<Rightarrow> posting_leg list \<Rightarrow> 'r ledger_db_scheme \<Rightarrow> bool" where
  "posted_once kind rid q legs s \<longleftrightarrow>
     (\<exists>j. filter (\<lambda>j. j_reference_type j = kind \<and> j_reference_id j = rid) (journals s) = [j] \<and> q j \<and>
       filter (\<lambda>p. p_journal p = j_id j) (postings s) = map (posting_of (j_id j)) legs)"

lemma filter_single: "filter p xs = [x] \<Longrightarrow> x \<in> set xs \<and> p x"
proof -
  assume "filter p xs = [x]"
  then have "set (filter p xs) = {x}" by simp
  then show ?thesis by auto
qed

lemma posted_once_same: "journals t = journals s \<Longrightarrow> postings t = postings s \<Longrightarrow> posted_once kind rid q legs t = posted_once kind rid q legs s"
  by (simp add: posted_once_def)

lemma posted_once_keep:
  assumes "posted_once kind rid q legs s" "keeps_tables kind tables s t" "ledger_wf s"
  shows "posted_once kind rid q legs t"
proof -
  note ledger = keeps_tables_ledger [OF assms(2,3)]
  obtain j where j: "filter (\<lambda>j. j_reference_type j = kind \<and> j_reference_id j = rid) (journals s) = [j]" "q j"
    "filter (\<lambda>p. p_journal p = j_id j) (postings s) = map (posting_of (j_id j)) legs"
    using assms(1) by (auto simp: posted_once_def)
  have "j \<in> set (journals s)" using filter_single [OF j(1)] by simp
  then show ?thesis unfolding posted_once_def using j ledger(2) [of "\<lambda>j. j_reference_id j = rid"] ledger(3) by metis
qed

text \<open>Posting for a row without a journal of the kind: one journal for it, and the others keep theirs.\<close>

lemma post_journal_once:
  assumes post: "post_journal key kind rid legs s = Inr (jid, t)" and wf: "ledger_wf s"
    and new: "\<forall>j \<in> set (journals s). j_reference_type j = kind \<longrightarrow> j_reference_id j \<noteq> rid"
    and q: "q \<lparr>j_id = jid, j_idempotency_key = key, j_reference_type = kind, j_reference_id = rid, j_status = Posted\<rparr>"
  shows "posted_once kind rid q legs t"
    and "posted_once kind' rid' q' legs' s \<Longrightarrow> rid' \<noteq> rid \<Longrightarrow> posted_once kind' rid' q' legs' t"
proof -
  let ?j = "\<lparr>j_id = jid, j_idempotency_key = key, j_reference_type = kind, j_reference_id = rid, j_status = Posted\<rparr>"
  have t: "journals t = journals s @ [?j]" "postings t = postings s @ map (posting_of jid) legs" "jid \<notin> j_id ` set (journals s)"
    using post by (auto simp: post_journal_Inr)
  have "filter (\<lambda>p. p_journal p = jid) (postings s) = []" using wf t(3) by (intro filter_none) (auto simp: ledger_wf_def)
  moreover have "filter (\<lambda>j. j_reference_type j = kind \<and> j_reference_id j = rid) (journals s) = []" using new by (intro filter_none) auto
  ultimately show "posted_once kind rid q legs t" unfolding posted_once_def using q by (intro exI [of _ ?j]) (simp add: t(1,2))
  show "posted_once kind' rid' q' legs' t" if "posted_once kind' rid' q' legs' s" "rid' \<noteq> rid"
  proof -
    obtain j where j: "filter (\<lambda>j. j_reference_type j = kind' \<and> j_reference_id j = rid') (journals s) = [j]" "q' j"
      "filter (\<lambda>p. p_journal p = j_id j) (postings s) = map (posting_of (j_id j)) legs'"
      using \<open>posted_once kind' rid' q' legs' s\<close> by (auto simp: posted_once_def)
    have "j_id j \<noteq> jid" using filter_single [OF j(1)] t(3) by auto
    then have "filter (\<lambda>p. p_journal p = j_id j) (postings t) = map (posting_of (j_id j)) legs'" using j(3) t(2) by (auto intro!: filter_none)
    then show ?thesis unfolding posted_once_def using j(1,2) that(2) t(1) by (intro exI [of _ j]) simp
  qed
qed

section \<open>Assertions\<close>

text \<open>\<open>ends P m Q\<close>: from a state with \<open>P\<close>, if \<open>m\<close> succeeds, its result satisfies \<open>Q\<close>.\<close>

definition ends :: "('s \<Rightarrow> bool) \<Rightarrow> ('s, 'e, 'a) tx \<Rightarrow> ('a \<Rightarrow> 's \<Rightarrow> bool) \<Rightarrow> bool" where
  "ends p m q \<longleftrightarrow> (\<forall>s x t. p s \<longrightarrow> m s = Inr (x, t) \<longrightarrow> q x t)"

lemma ends_bind: "ends p m q \<Longrightarrow> (\<And>x. ends (q x) (f x) r) \<Longrightarrow> ends p (bindT m f) r"
  by (fastforce simp: ends_def bindT_Inr)

lemma ends_pure: "ends p (queryT h) (\<lambda>_. p)" "ends p (rowT g e) (\<lambda>_. p)" "ends p (ensureT b e) (\<lambda>_. p)"
  by (auto simp: ends_def tx_simps)

lemma ends_respects: "tx_respects R m \<Longrightarrow> transp R \<Longrightarrow> ends (\<lambda>s. R s0 s \<and> c) m (\<lambda>_ s. R s0 s \<and> c)"
  unfolding ends_def by (blast dest: respectsD transpD)

end
