(* ===== verification/Custody_Frame.thy ===== *)
theory Custody_Frame
  imports Withdrawal_System Ledger_Frame
begin

text \<open>
  What the operations leave alone. An invariant about one kind of journal and the tables behind it
  (deposits and their credits, conversions and their settlements) is untouched by every operation
  that posts other kinds of journals. The locale proves this once, for any such kind and tables.
\<close>

section \<open>The operations that keep a kind of journal and its tables\<close>

locale custody_frame =
  fixes kind :: string and tables :: "custody_db \<Rightarrow> 'x"
  assumes tables_cong: "\<And>s t. deposits t = deposits s \<Longrightarrow> conversion_quotes t = conversion_quotes s \<Longrightarrow> conversions t = conversions s \<Longrightarrow>
      tables t = tables s"
    and kind_other: "kind \<noteq> ''withdrawal_hold''" "kind \<noteq> ''withdrawal_cancel''" "kind \<noteq> ''withdrawal_settlement''" "kind \<noteq> ''withdrawal_release''"
      "kind \<noteq> ''internal_transfer''"
begin

sublocale idle: tx_relation "keeps_tables kind tables"
  by unfold_locales (auto simp: keeps_tables_def ledger_grows_same intro: ledger_grows_trans owners_kept_trans)

lemma idle_tables:
  "tables t = tables s \<Longrightarrow> accounts t = accounts s \<Longrightarrow> journals t = journals s \<Longrightarrow> postings t = postings s \<Longrightarrow> keeps_tables kind tables s t"
  by (simp add: keeps_tables_def owners_kept_def ledger_grows_same)

lemma idle_frame:
  "deposits t = deposits s \<Longrightarrow> conversion_quotes t = conversion_quotes s \<Longrightarrow> conversions t = conversions s \<Longrightarrow>
   accounts t = accounts s \<Longrightarrow> journals t = journals s \<Longrightarrow> postings t = postings s \<Longrightarrow> keeps_tables kind tables s t"
  by (rule idle_tables) (rule tables_cong)

lemma idle_exec:
  "(\<And>s. deposits (f s) = deposits s \<and> conversion_quotes (f s) = conversion_quotes s \<and> conversions (f s) = conversions s \<and>
    accounts (f s) = accounts s \<and> journals (f s) = journals s \<and> postings (f s) = postings s) \<Longrightarrow>
   tx_respects (keeps_tables kind tables) (execT f)"
  by (rule idle.exec) (auto intro: idle_frame)

lemma idle_exec_tables:
  "(\<And>s. tables (f s) = tables s \<and> accounts (f s) = accounts s \<and> journals (f s) = journals s \<and> postings (f s) = postings s) \<Longrightarrow>
   tx_respects (keeps_tables kind tables) (execT f)"
  by (rule idle.exec) (auto intro: idle_tables)

lemma idle_post: "rtype \<noteq> kind \<Longrightarrow> tx_respects (keeps_tables kind tables) (post_custody_journal key rtype rid legs)"
proof (rule respectsI)
  fix s jid t
  assume "rtype \<noteq> kind" and post: "(post_custody_journal key rtype rid legs :: string custody_tx) s = Inr (jid, t)"
  then show "keeps_tables kind tables s t"
    using post_journal_grows [OF post] by (auto simp: keeps_tables_def post_journal_Inr owners_kept_def ledger_grows_def intro: tables_cong)
qed

lemma idle_plain:
  "tx_respects (keeps_tables kind tables) (custody_outbox et aty aid pl)" "tx_respects (keeps_tables kind tables) gen_random_uuid"
  "tx_respects (keeps_tables kind tables) (advisory_lock k)" "tx_respects (keeps_tables kind tables) (LockAccountAsset e a x)"
  "tx_respects (keeps_tables kind tables) (promote_addresses usr)" "tx_respects (keeps_tables kind tables) (numeric_text txt)"
  "tx_respects (keeps_tables kind tables) (available_bigint a x)" "tx_respects (keeps_tables kind tables) (control_enabled k)"
  "tx_respects (keeps_tables kind tables) (custody_audit actor act res reason md)"
  unfolding tx_respects_def
  by (auto simp: custody_outbox_def append_outbox_def gen_random_uuid_def advisory_lock_def LockAccountAsset_def promote_addresses_def
      numeric_text_def available_bigint_def control_enabled_def custody_audit_def tx_simps intro!: idle_frame split: option.splits)

lemma idle_account: "tx_respects (keeps_tables kind tables) (system_account nm)" "tx_respects (keeps_tables kind tables) (clearing_account nm)"
proof -
  show *: "tx_respects (keeps_tables kind tables) (system_account nm)" for nm
    unfolding system_account_def
    by (auto intro!: idle.bind idle.pure idle_plain idle.exec tables_cong simp: keeps_tables_def owners_kept_def ledger_grows_same split: option.splits)
  show "tx_respects (keeps_tables kind tables) (clearing_account nm)" unfolding clearing_account_def by (rule *)
qed

lemma idle_withdrawal_journal: "rtype \<noteq> kind \<Longrightarrow> tx_respects (keeps_tables kind tables) (post_withdrawal_journal key rtype wid legs)"
  unfolding post_withdrawal_journal_def by (intro idle.bind idle.pure idle_post idle_exec) auto

lemmas idle_rules = idle.bind idle.pure idle.bind_lift idle_plain idle_exec idle_post idle_account idle_withdrawal_journal

lemma idle_parts:
  "tx_respects (keeps_tables kind tables) (checkWithdrawalEntitlement usr aid n)" "tx_respects (keeps_tables kind tables) (recordWithdrawalEntitlement ent wid usr aid n)"
  "tx_respects (keeps_tables kind tables) (announce_withdrawal wi auto wid)" "tx_respects (keeps_tables kind tables) (set_withdrawal_status wid old new)"
  "tx_respects (keeps_tables kind tables) (insert_withdrawal wi aid adr st)" "tx_respects (keeps_tables kind tables) (insert_dispatch provider item ent ro)"
  "tx_respects (keeps_tables kind tables) (insert_reservation provider item c route)" "tx_respects (keeps_tables kind tables) (set_custody_outcome wid status hash)"
  "tx_respects (keeps_tables kind tables) (record_terminal wid oc ptx)" "tx_respects (keeps_tables kind tables) (settle_withdrawal w nxt)"
  "tx_respects (keeps_tables kind tables) (capacityRouteInTx rid)" "tx_respects (keeps_tables kind tables) (lockCapacity provider vlt xs)"
  "tx_respects (keeps_tables kind tables) (openCapacity provider vlt x)" "tx_respects (keeps_tables kind tables) (capacity_amount raw)"
  unfolding checkWithdrawalEntitlement_def recordWithdrawalEntitlement_def announce_withdrawal_def set_withdrawal_status_def insert_withdrawal_def
    insert_dispatch_def insert_reservation_def set_custody_outcome_def record_terminal_def settle_withdrawal_def capacityRouteInTx_def
    lockCapacity_def openCapacity_def capacity_amount_def Let_def
  by (auto intro!: idle_rules idle.for_each simp: kind_other split: option.splits prod.splits)

lemma idle_capacity:
  "tx_respects (keeps_tables kind tables) (check_open provider vlt r n1 n2 n3 n4)" "tx_respects (keeps_tables kind tables) (check_freshness r c)"
  "tx_respects (keeps_tables kind tables) (check_capacity provider item c)"
proof -
  show *: "tx_respects (keeps_tables kind tables) (check_open provider vlt r n1 n2 n3 n4)" "tx_respects (keeps_tables kind tables) (check_freshness r c)"
    for provider vlt r n1 n2 n3 n4 c
    unfolding check_open_def check_freshness_def by (auto intro!: idle_rules idle_parts)
  show "tx_respects (keeps_tables kind tables) (check_capacity provider item c)"
    unfolding check_capacity_def by (intro idle.bind idle.pure idle_parts *)
qed

lemma idle_withdrawals:
  "tx_respects (keeps_tables kind tables) (RequestWithdrawal_tx wi)" "tx_respects (keeps_tables kind tables) (CancelWithdrawal_tx usr wid)"
  "tx_respects (keeps_tables kind tables) (ApproveWithdrawal_tx approver wid reason)"
  "tx_respects (keeps_tables kind tables) (MarkWithdrawalSubmitted_tx wid ptx)"
  "tx_respects (keeps_tables kind tables) (RecordWithdrawalCustodyUpdate_tx nxt wu)"
  unfolding RequestWithdrawal_tx_def admit_withdrawal_def duplicate_withdrawal_def CancelWithdrawal_tx_def ApproveWithdrawal_tx_def
    MarkWithdrawalSubmitted_tx_def RecordWithdrawalCustodyUpdate_tx_def Let_def
  by (auto intro!: idle_rules idle_parts respects_branch simp: kind_other split: option.splits prod.splits)

lemma idle_custody:
  "tx_respects (keeps_tables kind tables) (BeginWithdrawalDispatch_tx provider item capacity)"
  "tx_respects (keeps_tables kind tables) (RecordWithdrawalReconciliationObservation_tx env cand ob)"
  "tx_respects (keeps_tables kind tables) (ProposeCustodyWithdrawalRoute_tx hash actor ri)"
  "tx_respects (keeps_tables kind tables) (ApproveCustodyWithdrawalRoute_tx actor req reason key)"
  "tx_respects (keeps_tables kind tables) (CreateInternalTransfer_tx ti)"
  unfolding BeginWithdrawalDispatch_tx_def claim_dispatch_def dispatch_withdrawal_def RecordWithdrawalReconciliationObservation_tx_def
    ProposeCustodyWithdrawalRoute_tx_def ApproveCustodyWithdrawalRoute_tx_def insert_route_def insert_route_request_def
    requireCustodyRouteRole_def CreateInternalTransfer_tx_def check_transfer_accounts_def insert_transfer_def Let_def
  by (auto intro!: idle_rules idle_parts idle_capacity simp: kind_other split: option.splits prod.splits)

lemma idle_lock_conversion: "tx_respects (keeps_tables kind tables) (lock_conversion ls)"
  unfolding lock_conversion_def by (auto intro!: idle.for_each idle_plain)

lemma idle_inline:
  "keeps_tables kind tables s (snd (SetWithdrawalsEnabled actor enabled s))" "keeps_tables kind tables s (snd (SaveWithdrawalTravelRule usr wid ciphertext s))"
  "keeps_tables kind tables s (snd (WithdrawalAddresses usr s))" "keeps_tables kind tables s (snd (AddWithdrawalAddress now usr sm nw ad tg lb wl cd s))"
  "keeps_tables kind tables s (snd (DisableWithdrawalAddress usr aid s))"
  unfolding SetWithdrawalsEnabled_def SaveWithdrawalTravelRule_def WithdrawalAddresses_def AddWithdrawalAddress_def
    DisableWithdrawalAddress_def upsert_address_def Let_def
  by (rule idle.committed; auto intro!: idle_rules split: option.splits prod.splits)+

end

end
