(* ===== verification/Deposit_Credits.thy ===== *)
theory Deposit_Credits
  imports Custody_Frame
begin

text \<open>
  Deposits reach a customer's balance exactly once. The ledger and the deposit table are updated by
  several operations (automatic credit, reviewed credit, repeated chain observations); the invariant
  here ties every credited deposit to the one journal that credits it.
\<close>

section \<open>The invariant\<close>

definition credit_journal :: "string \<Rightarrow> journal_row \<Rightarrow> bool" where
  "credit_journal did j \<longleftrightarrow> j_reference_type j = ''deposit_credit'' \<and> j_reference_id j = did"

definition credited_once :: "custody_db \<Rightarrow> deposit_row \<Rightarrow> bool" where
  "credited_once s d \<longleftrightarrow>
     (\<exists>j clearing a. filter (credit_journal (dp_id d)) (journals s) = [j] \<and> a \<in> set (accounts s) \<and> ac_user_id a = Some (dp_user d) \<and>
       filter (\<lambda>p. p_journal p = j_id j) (postings s) = map (posting_of (j_id j)) (move_legs clearing (ac_id a) (dp_asset d) (dp_amount d)))"

definition credit_state :: "custody_db \<Rightarrow> deposit_row \<Rightarrow> bool" where
  "credit_state s d \<longleftrightarrow>
     (if dp_status d = ''credited'' then credited_once s d else filter (credit_journal (dp_id d)) (journals s) = [])"

definition credit_inv :: "custody_db \<Rightarrow> bool" where
  "credit_inv s \<longleftrightarrow> ledger_wf s \<and> distinct (map dp_id (deposits s)) \<and> (\<forall>d \<in> set (deposits s). credit_state s d) \<and>
     (\<forall>j \<in> set (journals s). j_reference_type j = ''deposit_credit'' \<longrightarrow> j_reference_id j \<in> dp_id ` set (deposits s))"

definition deposit_terms :: "deposit_row \<Rightarrow> string \<times> string \<times> string \<times> int" where
  "deposit_terms d = (dp_id d, dp_user d, dp_asset d, dp_amount d)"

definition deposits_kept :: "custody_db \<Rightarrow> custody_db \<Rightarrow> bool" where
  "deposits_kept s t \<longleftrightarrow> (\<forall>d \<in> set (deposits s). \<exists>d' \<in> set (deposits t). deposit_terms d' = deposit_terms d \<and>
     (dp_status d = ''credited'' \<longrightarrow> dp_status d' = ''credited''))"

definition credit_safe :: "custody_db \<Rightarrow> custody_db \<Rightarrow> bool" where
  "credit_safe s t \<longleftrightarrow> (credit_inv s \<longrightarrow> credit_inv t \<and> deposits_kept s t)"

lemma deposits_kept_refl: "deposits_kept s s"
  by (auto simp: deposits_kept_def)

lemma deposits_kept_trans: "deposits_kept s t \<Longrightarrow> deposits_kept t u \<Longrightarrow> deposits_kept s u"
  unfolding deposits_kept_def by metis

interpretation safe: tx_relation credit_safe
  by unfold_locales (auto simp: credit_safe_def deposits_kept_refl intro: deposits_kept_trans)

section \<open>Statements that credit nothing\<close>

abbreviation credits_nothing :: "custody_db \<Rightarrow> custody_db \<Rightarrow> bool" where
  "credits_nothing \<equiv> keeps_tables ''deposit_credit'' deposits"

interpretation crediting: custody_frame "''deposit_credit''" deposits
  by unfold_locales simp_all

lemmas credit_idle = crediting.idle_withdrawals crediting.idle_custody crediting.idle_inline

lemma idle_conversions:
  "tx_respects credits_nothing (SetConversionPairPolicy_tx actor pol)" "tx_respects credits_nothing (SetConversionsEnabled_tx actor enabled)"
  "tx_respects credits_nothing (CreateConversionQuote_tx qi)" "tx_respects credits_nothing (ConfirmConversion_tx now usr qid key)"
  unfolding SetConversionPairPolicy_tx_def SetConversionsEnabled_tx_def CreateConversionQuote_tx_def ConfirmConversion_tx_def upsert_pair_def
    numeric78_def insert_quote_def confirmable_quote_def settle_conversion_def insert_conversion_def Let_def
  by (auto intro!: crediting.idle_rules crediting.idle_exec_tables crediting.idle.map_each crediting.idle_lock_conversion split: option.splits)

text \<open>Such statements keep the invariant.\<close>

lemma credited_once_keep:
  assumes "credited_once s d" "filter (credit_journal (dp_id d)) (journals t) = filter (credit_journal (dp_id d)) (journals s)"
    and legs: "\<And>i. i \<in> set (journals s) \<Longrightarrow> filter (\<lambda>p. p_journal p = j_id i) (postings t) = filter (\<lambda>p. p_journal p = j_id i) (postings s)"
    and own: "owners_kept s t"
  shows "credited_once t d"
proof -
  obtain j clearing a where j: "filter (credit_journal (dp_id d)) (journals s) = [j]" "a \<in> set (accounts s)" "ac_user_id a = Some (dp_user d)"
    "filter (\<lambda>p. p_journal p = j_id j) (postings s) = map (posting_of (j_id j)) (move_legs clearing (ac_id a) (dp_asset d) (dp_amount d))"
    using assms(1) by (auto simp: credited_once_def)
  have "j \<in> set (journals s)" using j(1) by (metis (lifting) filter_eq_ConsD in_set_conv_decomp)
  moreover obtain a' where "a' \<in> set (accounts t)" "ac_id a' = ac_id a" "ac_user_id a' = ac_user_id a"
    using own j(2) by (force simp: owners_kept_def)
  ultimately show ?thesis unfolding credited_once_def assms(2) using j legs by metis
qed

lemma idle_keeps: "credits_nothing s t \<Longrightarrow> credit_safe s t"
proof -
  assume idle: "credits_nothing s t"
  have t: "deposits t = deposits s" "owners_kept s t" using idle by (simp_all add: keeps_tables_def)
  have "credit_inv t" if inv: "credit_inv s"
  proof -
    have "ledger_wf s" using inv by (simp add: credit_inv_def)
    note ledger = keeps_tables_ledger [OF idle this]
    have old: "filter (credit_journal did) (journals t) = filter (credit_journal did) (journals s)" for did
      using ledger(2) [of "\<lambda>j. j_reference_id j = did"] by (simp add: credit_journal_def [abs_def])
    have "credited_once t d" if "credited_once s d" for d
      using credited_once_keep [OF that old ledger(3) t(2)] .
    then have "\<forall>d \<in> set (deposits t). credit_state t d" using inv t(1) old by (auto simp: credit_inv_def credit_state_def)
    then show ?thesis using inv t(1) ledger(1,4) by (auto simp: credit_inv_def)
  qed
  then show ?thesis using t(1) by (auto simp: credit_safe_def deposits_kept_def)
qed

lemma idle_safe: "tx_respects credits_nothing m \<Longrightarrow> tx_respects credit_safe m"
  by (auto simp: tx_respects_def intro: idle_keeps)

section \<open>Crediting\<close>

text \<open>A row update that keeps the terms and the credited status.\<close>

lemma rewrite_deposits:
  assumes "\<And>d. deposit_terms (f d) = deposit_terms d" "\<And>d. dp_status (f d) = ''credited'' \<longleftrightarrow> dp_status d = ''credited''"
  shows "credit_safe s (s\<lparr>deposits := update_where p f (deposits s)\<rparr>)"
proof -
  let ?t = "s\<lparr>deposits := update_where p f (deposits s)\<rparr>"
  have ids: "dp_id (f d) = dp_id d" and same: "dp_user (f d) = dp_user d" "dp_asset (f d) = dp_asset d" "dp_amount (f d) = dp_amount d" for d
    using assms(1) [of d] by (auto simp: deposit_terms_def)
  have "credit_state ?t (f d) = credit_state s d" "credit_state ?t d = credit_state s d" for d
    using assms(2) by (simp_all add: credit_state_def credited_once_def ids same)
  moreover have "map dp_id (update_where p f (deposits s)) = map dp_id (deposits s)" by (rule map_update_where) (simp add: ids)
  moreover from this have "dp_id ` set (update_where p f (deposits s)) = dp_id ` set (deposits s)" by (metis set_map)
  ultimately have "credit_inv s \<Longrightarrow> credit_inv ?t" by (auto simp: credit_inv_def ledger_wf_def set_update_where)
  moreover have "deposits_kept s ?t"
    unfolding deposits_kept_def
  proof
    fix d
    assume "d \<in> set (deposits s)"
    then have "(if p d then f d else d) \<in> set (deposits ?t)" by (auto simp: set_update_where)
    then show "\<exists>d' \<in> set (deposits ?t). deposit_terms d' = deposit_terms d \<and> (dp_status d = ''credited'' \<longrightarrow> dp_status d' = ''credited'')"
      using assms by (intro bexI [of _ "if p d then f d else d"]) simp_all
  qed
  ultimately show ?thesis by (simp add: credit_safe_def)
qed

lemma append_deposit:
  assumes "dp_id d \<notin> dp_id ` set (deposits s)" "dp_status d \<noteq> ''credited''"
  shows "credit_safe s (s\<lparr>deposits := deposits s @ [d]\<rparr>)"
proof -
  let ?t = "s\<lparr>deposits := deposits s @ [d]\<rparr>"
  have "filter (credit_journal (dp_id d)) (journals s) = []" if "credit_inv s"
    using that assms(1) unfolding credit_inv_def credit_journal_def by (intro filter_none) metis
  moreover have "credit_state ?t r = credit_state s r" for r by (simp add: credit_state_def credited_once_def)
  ultimately have "credit_inv s \<Longrightarrow> credit_inv ?t"
    using assms by (auto simp: credit_inv_def ledger_wf_def credit_state_def [of s d])
  then show ?thesis by (auto simp: credit_safe_def deposits_kept_def)
qed

lemma upsert_safe: "status \<noteq> ''credited'' \<Longrightarrow> tx_respects credit_safe (upsert_deposit event route required status)"
  unfolding upsert_deposit_def
proof (intro safe.bind safe.pure idle_safe [OF crediting.idle_plain(6)] idle_safe [OF crediting.idle_plain(2)], split option.split, intro conjI allI impI, goal_cases)
  case (1 amount u existing did)
  then show ?case by (intro respectsI) (auto simp: tx_simps intro: append_deposit)
next
  case (2 amount u existing did r)
  then show ?case by (intro safe.exec rewrite_deposits) (auto simp: deposit_terms_def)
qed

text \<open>Posting the credit and marking the row are the two halves of one update.\<close>

lemma post_credit:
  assumes inv: "credit_inv s" and d: "d \<in> set (deposits s)" "dp_status d \<noteq> ''credited''"
    and funding: "funding_account (dp_user d) (dp_asset d) s = Some (dest, x)" and credit: "credit_deposit d dest s = Inr (jid, t)"
  shows "ledger_wf t" "deposits t = deposits s" "credited_once t d"
    "\<And>r. r \<in> set (deposits s) \<Longrightarrow> dp_id r \<noteq> dp_id d \<Longrightarrow> credit_state t r"
    "\<forall>i \<in> set (journals t). j_reference_type i = ''deposit_credit'' \<longrightarrow> j_reference_id i \<in> dp_id ` set (deposits t)"
proof -
  obtain clearing s0 where cl: "clearing_account (dp_asset d) s = Inr (clearing, s0)"
    "post_custody_journal (''deposit-credit-'' @ dp_id d) ''deposit_credit'' (dp_id d) (move_legs clearing dest (dp_asset d) (dp_amount d)) s0 = Inr (jid, t)"
    using credit by (auto simp: credit_deposit_def tx_simps)
  have "credits_nothing s s0" using crediting.idle_account(2) cl(1) by (rule respectsD)
  then have inv0: "credit_inv s0" and d0: "deposits s0 = deposits s" and own: "owners_kept s s0"
    using idle_keeps inv by (auto simp: credit_safe_def keeps_tables_def)
  show "ledger_wf t" using post_journal_wf [OF cl(2)] inv0 by (simp add: credit_inv_def)
  define j where "j = \<lparr>j_id = jid, j_idempotency_key = ''deposit-credit-'' @ dp_id d, j_reference_type = ''deposit_credit'', j_reference_id = dp_id d, j_status = Posted\<rparr>"
  have t: "journals t = journals s0 @ [j]" "postings t = postings s0 @ map (posting_of jid) (move_legs clearing dest (dp_asset d) (dp_amount d))"
    "accounts t = accounts s0" "deposits t = deposits s" and fresh: "jid \<notin> j_id ` set (journals s0)"
    using cl(2) d0 by (auto simp: post_journal_Inr j_def)
  show "deposits t = deposits s" by (rule t(4))
  have js: "filter (credit_journal did) (journals t) = filter (credit_journal did) (journals s0) @ (if did = dp_id d then [j] else [])" for did
    by (simp add: t(1) credit_journal_def [of did j]) (simp add: j_def)
  have none: "filter (credit_journal (dp_id d)) (journals s0) = []" using inv0 d d0 by (auto simp: credit_inv_def credit_state_def)
  have "filter (\<lambda>p. p_journal p = jid) (postings s0) = []"
    using inv0 fresh by (auto simp: credit_inv_def ledger_wf_def intro!: filter_none)
  then have legs: "filter (\<lambda>p. p_journal p = jid) (postings t) = map (posting_of jid) (move_legs clearing dest (dp_asset d) (dp_amount d))"
    by (simp add: t(2) move_legs_def)
  obtain a where "a \<in> set (accounts s)" "ac_id a = dest" "ac_user_id a = Some (dp_user d)"
    using funding by (auto simp: funding_account_def split: option.splits dest!: find_SomeD)
  then obtain a' where a': "a' \<in> set (accounts t)" "ac_id a' = dest" "ac_user_id a' = Some (dp_user d)"
    using own t(3) by (force simp: owners_kept_def)
  show "credited_once t d"
    unfolding credited_once_def using js [of "dp_id d"] none a' legs
    by (intro exI [of _ j] exI [of _ clearing] exI [of _ a']) (simp add: j_def)
  have ps: "filter (\<lambda>p. p_journal p = j_id i) (postings t) = filter (\<lambda>p. p_journal p = j_id i) (postings s0)" if "i \<in> set (journals s0)" for i
    using that fresh by (auto simp: t(2) intro!: filter_none)
  show "credit_state t r" if r: "r \<in> set (deposits s)" "dp_id r \<noteq> dp_id d" for r
  proof -
    have "credit_state s0 r" using inv0 r(1) d0 by (simp add: credit_inv_def)
    then show ?thesis using credited_once_keep [OF _ _ ps] js [of "dp_id r"] r(2) by (simp add: credit_state_def owners_kept_def t(3))
  qed
  show "\<forall>i \<in> set (journals t). j_reference_type i = ''deposit_credit'' \<longrightarrow> j_reference_id i \<in> dp_id ` set (deposits t)"
    using inv0 d(1) d0 by (auto simp: credit_inv_def t(1,4) j_def)
qed

lemma credit_and_mark:
  assumes inv: "credit_inv s" and d: "d \<in> set (deposits s)" "dp_status d \<noteq> ''credited''" "p d"
    and funding: "funding_account (dp_user d) (dp_asset d) s = Some (dest, x)"
    and credit: "credit_deposit d dest s = Inr (jid, s1)" and mark: "mark_credited (dp_id d) p s1 = Inr (u, t)"
  shows "credit_inv t \<and> deposits_kept s t"
proof -
  note posted = post_credit [OF inv d(1,2) funding credit]
  let ?f = "\<lambda>r. r\<lparr>dp_status := ''credited'', dp_risk := ''approved'', dp_credited_at := Some (pg_now s1)\<rparr>"
  have t: "t = s1\<lparr>deposits := update_where (\<lambda>r. dp_id r = dp_id d \<and> p r) ?f (deposits s)\<rparr>"
    using mark posted(2) by (simp add: mark_credited_def tx_simps)
  have dist: "distinct (map dp_id (deposits s))" using inv by (simp add: credit_inv_def)
  have ids: "map dp_id (deposits t) = map dp_id (deposits s)" unfolding t by (simp add: map_update_where)
  then have id_set: "dp_id ` set (deposits t) = dp_id ` set (deposits s)" by (metis set_map)
  have rows: "r \<in> set (deposits t) \<longleftrightarrow> r = ?f d \<or> r \<in> set (deposits s) \<and> dp_id r \<noteq> dp_id d" for r
    unfolding t using set_update_unique [OF dist d(1), of p r ?f] d(3) by simp
  have state: "credit_state t r = credit_state s1 r" for r by (simp add: t credit_state_def credited_once_def)
  have "credited_once s1 (?f d)" using posted(3) by (simp add: credited_once_def)
  then have "credit_state s1 (?f d)" by (simp add: credit_state_def)
  then have "\<forall>r \<in> set (deposits t). credit_state t r" unfolding state Ball_def rows using posted(4) by auto
  then have "credit_inv t"
    using posted(1,2,5) dist ids id_set by (simp add: credit_inv_def) (simp add: t ledger_wf_def)
  moreover have "deposits_kept s t"
    unfolding deposits_kept_def
  proof
    fix r
    assume r: "r \<in> set (deposits s)"
    show "\<exists>d' \<in> set (deposits t). deposit_terms d' = deposit_terms r \<and> (dp_status r = ''credited'' \<longrightarrow> dp_status d' = ''credited'')"
    proof (cases "dp_id r = dp_id d")
      case True
      then have "r = d" using dist d(1) r by (auto simp: distinct_map dest: inj_onD)
      then show ?thesis using rows [of "?f d"] by (intro bexI [of _ "?f d"]) (simp_all add: deposit_terms_def)
    next
      case False
      then show ?thesis using r rows by blast
    qed
  qed
  ultimately show ?thesis ..
qed

lemma auto_credit_safe: "tx_respects credit_safe (autoCreditConfirmedDeposit ptx idx)"
proof (rule respectsI)
  fix s u t
  assume run: "autoCreditConfirmedDeposit ptx idx s = Inr (u, t)"
  show "credit_safe s t"
  proof (cases "t = s")
    case True
    then show ?thesis by (simp add: safe.R_refl)
  next
    case False
    then obtain d dest x jid s1 s2 v s3 where step: "deposit_at ptx idx s = Some d" "dp_status d = ''pending_risk_review''" "dp_risk d = ''not_started''"
      "funding_account (dp_user d) (dp_asset d) s = Some (dest, x)" "credit_deposit d dest s = Inr (jid, s1)"
      "mark_credited (dp_id d) (\<lambda>r. dp_status r = ''pending_risk_review'' \<and> dp_risk r = ''not_started'') s1 = Inr (v, s2)"
      "custody_audit [] ''deposit.auto_credited'' (dp_id d) ''required blockchain confirmations reached''
         (credit_metadata ''automatic chain-confirmation credit'' x d) s2 = Inr (v, s3)"
      "custody_outbox ''deposit.credited'' ''deposit'' (dp_id d) (credit_metadata ''automatic chain-confirmation credit'' x d) s3 = Inr (u, t)"
      using run by (auto simp: autoCreditConfirmedDeposit_def Let_def tx_simps split: if_splits prod.splits)
    have "d \<in> set (deposits s)" using step(1) by (auto simp: deposit_at_def dest: find_SomeD)
    then have "credit_safe s s2" unfolding credit_safe_def using credit_and_mark [OF _ _ _ _ step(4,5,6)] step(2,3) by simp
    moreover note respectsD [OF idle_safe [OF crediting.idle_plain(9)] step(7)] respectsD [OF idle_safe [OF crediting.idle_plain(1)] step(8)]
    ultimately show ?thesis by (blast intro: safe.R_trans)
  qed
qed

lemma announce_idle: "tx_respects credits_nothing (announce_deposit event usr st ex)"
  unfolding announce_deposit_def Let_def by (auto intro!: crediting.idle_rules split: option.splits)

lemma ApplyDepositObservation_safe: "credit_safe s (snd (ApplyDepositObservation pg_lower event s))"
proof -
  have [simp]: "observed_status event required \<noteq> ''credited''" for required by (simp add: observed_status_def)
  show ?thesis
    unfolding ApplyDepositObservation_def Let_def
    by (rule safe.committed) (auto intro!: safe.bind safe.pure upsert_safe idle_safe [OF announce_idle] auto_credit_safe split: option.splits prod.splits)
qed

lemma CreditApprovedDeposit_safe: "credit_safe s (snd (CreditApprovedDeposit reviewer did reason s))"
proof (cases "CreditApprovedDeposit reviewer did reason s")
  case (Pair res t)
  show ?thesis
  proof (cases res)
    case (Inl e)
    have "t = s" using Pair unfolding Inl CreditApprovedDeposit_def transaction_Inl by (rule conjunct2)
    with Pair show ?thesis by (simp add: safe.R_refl)
  next
    case (Inr r)
    then obtain d dest x jid s1 s2 v s3 where step: "find (\<lambda>d. dp_id d = did) (deposits s) = Some d" "dp_status d = ''pending_risk_review''"
      "funding_account (dp_user d) (dp_asset d) s = Some (dest, x)" "credit_deposit d dest s = Inr (jid, s1)"
      "mark_credited did (\<lambda>r. dp_status r = ''pending_risk_review'') s1 = Inr (v, s2)"
      "custody_audit reviewer ''deposit.credited'' did reason (credit_metadata reason x d) s2 = Inr (v, s3)"
      "custody_outbox ''deposit.credited'' ''deposit'' did (credit_metadata reason x d) s3 = Inr (v, t)"
      using Pair by (auto simp: CreditApprovedDeposit_def transaction_Inr Let_def tx_simps split: prod.splits)
    have d: "d \<in> set (deposits s)" "dp_id d = did" using step(1) by (auto dest: find_SomeD)
    have "credit_safe s s2" unfolding credit_safe_def using credit_and_mark [OF _ d(1) _ _ step(3,4)] step(2,5) d(2) by simp
    moreover note respectsD [OF idle_safe [OF crediting.idle_plain(9)] step(6)] respectsD [OF idle_safe [OF crediting.idle_plain(1)] step(7)]
    ultimately show ?thesis using Pair by (simp, blast intro: safe.R_trans)
  qed
qed

section \<open>Every run\<close>

interpretation credits: custody_relation credit_safe
  by unfold_locales
    (auto simp: foreign_change_def keeps_tables_def owners_kept_def ledger_grows_same
      intro: idle_keeps idle_safe credit_idle idle_conversions ApplyDepositObservation_safe CreditApprovedDeposit_safe)


text \<open>
  C30: deposits are credited exactly once. Under any sequence of deposit, transfer, withdrawal and
  review operations, a deposit marked credited has exactly one crediting journal, posted, whose
  only postings move the deposit's amount from a clearing account to an account of the depositor;
  a deposit in any other state has none. No deposit is lost or changes its user, asset or amount,
  and a credited deposit stays credited, whatever the chain observations repeat.
\<close>

theorem deposits_credited_once:
  assumes "credit_inv s" "custody_step\<^sup>*\<^sup>* s t"
  shows "(\<forall>d \<in> set (deposits t).
      if dp_status d = ''credited'' then
        \<exists>j clearing a. filter (\<lambda>j. j_reference_type j = ''deposit_credit'' \<and> j_reference_id j = dp_id d) (journals t) = [j] \<and>
          j_status j = Posted \<and> a \<in> set (accounts t) \<and> ac_user_id a = Some (dp_user d) \<and>
          filter (\<lambda>p. p_journal p = j_id j) (postings t) = map (posting_of (j_id j)) (move_legs clearing (ac_id a) (dp_asset d) (dp_amount d))
      else filter (\<lambda>j. j_reference_type j = ''deposit_credit'' \<and> j_reference_id j = dp_id d) (journals t) = []) \<and>
    (\<forall>d \<in> set (deposits s). \<exists>d' \<in> set (deposits t).
      (dp_id d', dp_user d', dp_asset d', dp_amount d') = (dp_id d, dp_user d, dp_asset d, dp_amount d) \<and>
      (dp_status d = ''credited'' \<longrightarrow> dp_status d' = ''credited''))"
proof -
  have inv: "credit_inv t" "deposits_kept s t" using credits.run_R [OF assms(2)] assms(1) by (auto simp: credit_safe_def)
  have posted: "j_status j = Posted" if "filter q (journals t) = [j]" for q j
    using inv(1) that unfolding credit_inv_def ledger_wf_def by (metis (lifting) filter_eq_ConsD in_set_conv_decomp)
  have "credit_state t d" if "d \<in> set (deposits t)" for d using inv(1) that by (simp add: credit_inv_def)
  then show ?thesis
    using inv(2) posted unfolding credit_state_def credited_once_def credit_journal_def deposits_kept_def deposit_terms_def by meson
qed

text \<open>A deposit address, and the same confirmed observation delivered twice.\<close>

definition demo_address_book :: custody_db where
  "demo_address_book = demo_custody\<lparr>deposit_addresses := [\<lparr>da_id = ''da1'', da_user = ''u1'', da_asset = ''usdt'', da_wallet = ''cw1'',
     da_provider_id = None, da_address = ''0xab'', da_tag = [], da_status = ''active''\<rparr>]\<rparr>"

definition demo_observation :: DepositObservation where
  "demo_observation = \<lparr>do_ProviderTransactionID = ''ptx'', do_CustodyAssetID = ''USDT_T'', do_DestinationAddress = ''0xab'', do_DestinationTag = [],
     do_TransactionHash = ''h1'', do_BlockchainIndex = ''0'', do_AmountAtomic = ''700'', do_Confirmations = 3, do_BlockHash = ''b'',
     do_BlockHeight = ''9'', do_Status = ''COMPLETED''\<rparr>"

definition demo_deposited :: custody_db where
  "demo_deposited = snd (ApplyDepositObservation id demo_observation (snd (ApplyDepositObservation id demo_observation demo_address_book)))"

theorem deposits_credited_once_witness:
  "\<exists>d. deposits demo_deposited = [d] \<and> dp_status d = ''credited'' \<and> dp_amount d = 700 \<and>
     (\<exists>j. filter (\<lambda>j. j_reference_type j = ''deposit_credit'' \<and> j_reference_id j = dp_id d) (journals demo_deposited) = [j])"
proof -
  have "map (\<lambda>d. (dp_status d, dp_amount d)) (deposits demo_deposited) = [(''credited'', 700)]" by code_simp
  then obtain d where d: "deposits demo_deposited = [d]" "dp_status d = ''credited''" "dp_amount d = 700" by (cases "deposits demo_deposited") auto
  have "credit_inv demo_address_book"
    by (simp add: credit_inv_def ledger_wf_def demo_address_book_def demo_custody_def move_legs_def hold_legs_def)
  moreover have "custody_step\<^sup>*\<^sup>* demo_address_book demo_deposited"
    unfolding demo_deposited_def by (rule rtranclp_trans; rule r_into_rtranclp, rule custody_step.deposit)
  ultimately show ?thesis
    using deposits_credited_once [of demo_address_book demo_deposited] d by (intro exI [of _ d]) auto
qed

end
