(* ===== verification/Withdrawal_Limits.thy ===== *)
theory Withdrawal_Limits
  imports Withdrawal_Worker Deposit_Credits
begin

text \<open>
  The two limits on what leaves the exchange: custody capacity, checked when a withdrawal is
  dispatched against a fresh observation of the vault, and the deposit entitlement, checked when a
  withdrawal is admitted.
\<close>

section \<open>Capacity\<close>

lemma parseCapacityAtomic_text: "parseCapacityAtomic (BigString n) = Inr v \<Longrightarrow> v = n"
  by (auto simp: parseCapacityAtomic_def split: if_splits option.splits)

lemma parseCapacityAtomic_value: "parseCapacityAtomic raw = Inr v \<Longrightarrow> SetString raw = Some v \<and> 0 \<le> v"
  by (auto simp: parseCapacityAtomic_def split: if_splits option.splits)

lemma lock_frames [simp]:
  "newest_approval p (s\<lparr>locks_taken := l\<rparr>) = newest_approval p s"
  "open_obligations (s\<lparr>locks_taken := l\<rparr>) pr v x = open_obligations s pr v x"
  by (simp_all add: newest_approval_def open_obligations_def open_reservation_def cong: if_cong)

lemma locks_Inr: "(forT advisory_lock ks :: unit custody_tx) s = Inr (u, t) \<Longrightarrow> \<exists>l. t = s\<lparr>locks_taken := l\<rparr>"
proof (induction ks arbitrary: s)
  case Nil
  then show ?case by (intro exI [of _ "locks_taken s"]) (simp add: tx_simps)
next
  case (Cons k ks)
  then have "(forT advisory_lock ks :: unit custody_tx) (s\<lparr>locks_taken := locks_taken s @ [k]\<rparr>) = Inr (u, t)" by (auto simp: bindT_Inr advisory_lock_def [of k] execT_simps)
  from Cons.IH [OF this] show ?case by auto
qed

lemma lockCapacity_Inr: "lockCapacity p v xs s = Inr (u, t) \<Longrightarrow> \<exists>l. t = s\<lparr>locks_taken := l\<rparr>"
  unfolding lockCapacity_def by (rule locks_Inr)

lemma openCapacity_Inr: "openCapacity p v x s = Inr (n, t) \<Longrightarrow> t = s \<and> n = open_obligations s p v x"
  by (auto simp: openCapacity_def tx_simps dest: parseCapacityAtomic_text)

lemma capacityRouteInTx_Inr:
  assumes "capacityRouteInTx rid s = Inr (route, t)"
  shows "\<exists>r l. newest_approval (\<lambda>r. rt_id r = rid) s = Some (r, ''enable'') \<and> route = capacity_route False r \<and> t = s\<lparr>locks_taken := l\<rparr>"
  using assms by (auto simp: capacityRouteInTx_def tx_simps advisory_lock_def split: prod.splits)

lemma newest_approval_Some:
  assumes "newest_approval p s = Some (r, act)"
  shows "r \<in> set (custody_withdrawal_routes s) \<and> p r \<and>
    (\<exists>a \<in> set (custody_withdrawal_route_approvals s). \<exists>q \<in> set (custody_withdrawal_route_requests s).
       rr_id q = ra_request a \<and> rr_route q = rt_id r \<and> rr_action q = act)"
proof -
  define rows where "rows = sort_key fst
        (concat (map (\<lambda>a. concat (map (\<lambda>q. if rr_id q = ra_request a then
           map (\<lambda>r. ((ra_approved_at a, ra_request a), (r, rr_action q)))
             (filter (\<lambda>r. rt_id r = rr_route q \<and> p r) (custody_withdrawal_routes s)) else [])
           (custody_withdrawal_route_requests s))) (custody_withdrawal_route_approvals s)))"
  have "rows \<noteq> []" "snd (last rows) = (r, act)"
    using assms by (auto simp: newest_approval_def rows_def [symmetric] split: list.splits)
  then have "last rows \<in> set rows" "snd (last rows) = (r, act)" by auto
  then show ?thesis by (auto simp: rows_def split: if_splits) metis
qed

lemma capacity_amount_Inr: "capacity_amount raw s = Inr (n, t) \<Longrightarrow> t = s \<and> SetString raw = Some n \<and> 0 \<le> n"
  by (auto simp: capacity_amount_def tx_simps dest: parseCapacityAtomic_value split: sum.splits)

definition within_capacity :: "custody_db \<Rightarrow> string \<Rightarrow> string \<Rightarrow> CapacityRoute \<Rightarrow> int \<Rightarrow> int \<Rightarrow> int \<Rightarrow> int \<Rightarrow> bool" where
  "within_capacity s p v route amount avail fee favail \<longleftrightarrow>
     (if cr_ProviderAssetID route = cr_FeeProviderAssetID route
      then avail = favail \<and> open_obligations s p v (cr_ProviderAssetID route) + amount + fee \<le> avail
      else open_obligations s p v (cr_ProviderAssetID route) + amount \<le> avail \<and>
        open_obligations s p v (cr_FeeProviderAssetID route) + fee \<le> favail)"

lemma within_capacity_locks [simp]: "within_capacity (s\<lparr>locks_taken := l\<rparr>) = within_capacity s"
  by (simp add: within_capacity_def fun_eq_iff cong: if_cong)

lemma check_open_Inr:
  assumes "check_open p v route amount avail favail fee s = Inr (u, t)"
  shows "\<exists>l. t = s\<lparr>locks_taken := l\<rparr> \<and> within_capacity s p v route amount avail fee favail"
proof -
  from assms obtain u1 s1 n s2 where run: "lockCapacity p v [cr_ProviderAssetID route, cr_FeeProviderAssetID route] s = Inr (u1, s1)"
    "openCapacity p v (cr_ProviderAssetID route) s1 = Inr (n, s2)"
    "(if cr_ProviderAssetID route = cr_FeeProviderAssetID route then
       bindT (ensureT (avail = favail) (App ErrWithdrawalCapacityObservation)) (\<lambda>_.
       ensureT (n + amount + fee \<le> avail) (App ErrWithdrawalCustodyCapacity))
     else
       bindT (ensureT (n + amount \<le> avail) (App ErrWithdrawalCustodyCapacity)) (\<lambda>_.
       bindT (openCapacity p v (cr_FeeProviderAssetID route)) (\<lambda>feeOpen.
       ensureT (feeOpen + fee \<le> favail) (App ErrWithdrawalCustodyCapacity)))) s2 = Inr (u, t)"
    unfolding check_open_def bindT_Inr [of "lockCapacity _ _ _"] bindT_Inr [of "openCapacity p v (cr_ProviderAssetID route)"] by blast
  obtain l where s1: "s1 = s\<lparr>locks_taken := l\<rparr>" using lockCapacity_Inr [OF run(1)] by blast
  have n: "s2 = s1" "n = open_obligations s p v (cr_ProviderAssetID route)" using openCapacity_Inr [OF run(2)] s1 by simp_all
  show ?thesis
    using run(3) n s1 by (auto simp: within_capacity_def tx_simps split: if_splits dest!: openCapacity_Inr)
qed

lemma check_freshness_Inr:
  "check_freshness route c s = Inr (u, t) \<Longrightarrow> t = s \<and> (\<exists>tm. ce_ObservedAt c = Some tm \<and> tm \<le> pg_now s * 1000 + 10 ^ 9 \<and>
     pg_now s * 1000 - cr_MaxObservationAgeSeconds route * 10 ^ 9 \<le> tm)"
  by (auto simp: check_freshness_def tx_simps split: option.splits)

lemma check_capacity_Inr:
  assumes "check_capacity p item c s = Inr (route, t)"
  obtains r l amount avail fee favail tm where
    "newest_approval (\<lambda>r. rt_id r = ce_RouteID c) s = Some (r, ''enable'')" "route = capacity_route False r" "t = s\<lparr>locks_taken := l\<rparr>"
    "cr_ProviderAssetID route = wc_CustodyAssetID item" "ce_ObservedAt c = Some tm" "tm \<le> pg_now s * 1000 + 10 ^ 9"
    "pg_now s * 1000 - rt_max_age r * 10 ^ 9 \<le> tm"
    "SetString (wc_AmountAtomic item) = Some amount" "SetString (ce_AssetAvailable c) = Some avail"
    "SetString (ce_FeeAvailable c) = Some favail" "SetString (ce_FeeRequired c) = Some fee" "fee \<le> rt_max_fee r"
    "within_capacity s p (wc_SourceVaultID item) route amount avail fee favail"
proof -
  from assms obtain s1 u2 s2 amount s3 avail s4 favail s5 fee s6 maxFee s7 u where run:
    "capacityRouteInTx (ce_RouteID c) s = Inr (route, s1)" "cr_ProviderAssetID route = wc_CustodyAssetID item"
    "check_freshness route c s1 = Inr (u2, s2)"
    "capacity_amount (wc_AmountAtomic item) s2 = Inr (amount, s3)" "capacity_amount (ce_AssetAvailable c) s3 = Inr (avail, s4)"
    "capacity_amount (ce_FeeAvailable c) s4 = Inr (favail, s5)" "capacity_amount (ce_FeeRequired c) s5 = Inr (fee, s6)"
    "capacity_amount (cr_MaxFeeAtomic route) s6 = Inr (maxFee, s7)" "fee \<le> maxFee"
    "check_open p (wc_SourceVaultID item) route amount avail favail fee s7 = Inr (u, t)"
    unfolding check_capacity_def tx_steps by blast
  obtain r l where r: "newest_approval (\<lambda>r. rt_id r = ce_RouteID c) s = Some (r, ''enable'')" "route = capacity_route False r" "s1 = s\<lparr>locks_taken := l\<rparr>"
    using capacityRouteInTx_Inr [OF run(1)] by blast
  obtain tm where tm: "s2 = s1" "ce_ObservedAt c = Some tm" "tm \<le> pg_now s * 1000 + 10 ^ 9" "pg_now s * 1000 - rt_max_age r * 10 ^ 9 \<le> tm"
    using check_freshness_Inr [OF run(3)] r(2,3) by (auto simp: capacity_route_def)
  have s7: "s7 = s2" and vals: "SetString (wc_AmountAtomic item) = Some amount" "SetString (ce_AssetAvailable c) = Some avail"
    "SetString (ce_FeeAvailable c) = Some favail" "SetString (ce_FeeRequired c) = Some fee" "SetString (cr_MaxFeeAtomic route) = Some maxFee"
    using run(4-8) by (auto dest!: capacity_amount_Inr)
  obtain l2 where fin: "t = s\<lparr>locks_taken := l2\<rparr>" "within_capacity s p (wc_SourceVaultID item) route amount avail fee favail"
    using check_open_Inr [OF run(10)] s7 tm(1) r(3) by auto
  have "fee \<le> rt_max_fee r" using run(9) vals(5) r(2) by (simp add: capacity_route_def)
  then show thesis using that [OF r(1,2) fin(1) run(2) tm(2-4) vals(1-4) _ fin(2)] by blast
qed

text \<open>Statements that leave the capacity tables, the routes and the clock alone.\<close>

definition cap_same :: "custody_db \<Rightarrow> custody_db \<Rightarrow> bool" where
  "cap_same s t \<longleftrightarrow> custody_capacity_reservations t = custody_capacity_reservations s \<and>
     custody_capacity_terminal_events t = custody_capacity_terminal_events s \<and> pg_now t = pg_now s \<and>
     custody_withdrawal_routes t = custody_withdrawal_routes s \<and>
     custody_withdrawal_route_requests t = custody_withdrawal_route_requests s \<and>
     custody_withdrawal_route_approvals t = custody_withdrawal_route_approvals s"

interpretation cap: tx_relation cap_same
  by unfold_locales (auto simp: cap_same_def)

lemma cap_statements:
  "tx_respects cap_same (checkWithdrawalEntitlement usr aid n)" "tx_respects cap_same (LockAccountAsset e a x)"
  "tx_respects cap_same (numeric_text raw)" "tx_respects cap_same (insert_dispatch p item en rid)"
  "tx_respects cap_same (custody_audit actor act res reason md)" "tx_respects cap_same (custody_outbox et aty aid pl)"
  unfolding checkWithdrawalEntitlement_def LockAccountAsset_def advisory_lock_def numeric_text_def insert_dispatch_def custody_audit_def
    custody_outbox_def append_outbox_def Let_def
  by (auto intro!: cap.bind cap.pure cap.exec simp: cap_same_def split: option.splits)

lemma insert_reservation_Inr:
  assumes "insert_reservation p item c route s = Inr (u, t)"
  obtains r where "custody_capacity_reservations t = custody_capacity_reservations s @ [r]"
    "custody_capacity_terminal_events t = custody_capacity_terminal_events s"
    "rv_withdrawal r = wc_ID item" "rv_route r = ce_RouteID c" "rv_provider r = p" "rv_vault r = wc_SourceVaultID item"
    "rv_asset r = wc_CustodyAssetID item" "SetString (wc_AmountAtomic item) = Some (rv_amount r)"
    "SetString (ce_AssetAvailable c) = Some (rv_available r)" "rv_fee_asset r = cr_FeeProviderAssetID route"
    "SetString (ce_FeeRequired c) = Some (rv_fee r)" "SetString (ce_FeeAvailable c) = Some (rv_fee_available r)"
    "0 < rv_amount r" "0 \<le> rv_fee r" "\<forall>tm. ce_ObservedAt c = Some tm \<longrightarrow> rv_observed_at r = tm div 1000"
proof -
  from assms obtain am av fe fa where num: "SetString (wc_AmountAtomic item) = Some am" "SetString (ce_AssetAvailable c) = Some av"
    "SetString (ce_FeeRequired c) = Some fe" "SetString (ce_FeeAvailable c) = Some fa"
    by (auto simp: insert_reservation_def numeric_text_def bindT_Inr liftT_simps split: option.splits)
  define r where "r = \<lparr>rv_withdrawal = wc_ID item, rv_route = ce_RouteID c, rv_provider = p, rv_vault = wc_SourceVaultID item,
         rv_asset = wc_CustodyAssetID item, rv_amount = am, rv_available = av, rv_fee_asset = cr_FeeProviderAssetID route, rv_fee = fe,
         rv_fee_available = fa, rv_observed_at = (case ce_ObservedAt c of None \<Rightarrow> 0 | Some t \<Rightarrow> t div 1000),
         rv_asset_block_height = ce_AssetBlockHeight c, rv_asset_block_hash = ce_AssetBlockHash c,
         rv_fee_block_height = ce_FeeBlockHeight c, rv_fee_block_hash = ce_FeeBlockHash c, rv_created_at = pg_now s\<rparr>"
  have "t = s\<lparr>custody_capacity_reservations := custody_capacity_reservations s @ [r]\<rparr> \<and> 0 < am \<and> 0 \<le> fe"
    using assms num by (simp add: insert_reservation_def numeric_text_def tx_simps r_def)
  then show thesis using num by (intro that [of r]) (simp_all add: r_def)
qed

lemma open_obligations_insert:
  assumes "custody_capacity_reservations t = custody_capacity_reservations s @ [r]"
    "custody_capacity_terminal_events t = custody_capacity_terminal_events s" "0 \<le> rv_amount r" "0 \<le> rv_fee r"
  shows "open_obligations t p v x \<le> open_obligations s p v x + (if rv_asset r = x then rv_amount r else 0) + (if rv_fee_asset r = x then rv_fee r else 0)"
  using assms by (simp add: open_obligations_def open_reservation_def)

text \<open>What a successful dispatch with capacity evidence went through.\<close>

lemma dispatch_capacity_run:
  assumes "BeginWithdrawalDispatch p item (Some c) s = (Inr True, t)"
  obtains s2 s3 route u s4 s5 where "cap_same s s2" "check_capacity p item c s2 = Inr (route, s3)" "cap_same s3 s4"
    "insert_reservation p item c route s4 = Inr (u, s5)" "cap_same s5 t"
proof -
  have "BeginWithdrawalDispatch_tx p item (Some c) s = Inr (True, t)"
    using assms by (auto simp: BeginWithdrawalDispatch_def transaction_Inr split: if_splits)
  then obtain w :: withdrawal_row and e s1 where run: "checkWithdrawalEntitlement (wd_user w) (wd_asset w) 0 s = Inr (e, s1)"
    "claim_dispatch p item (Some c) e (dispatch_row_of (wc_ID item) p s1) s1 = Inr (True, t)"
    unfolding BeginWithdrawalDispatch_tx_def control_enabled_def tx_steps by blast
  obtain acct where "dispatch_withdrawal p item acct e (Some c) s1 = Inr (True, t)"
    using run(2) by (auto simp: claim_dispatch_def tx_simps split: option.splits if_splits)
  then obtain u1 s1' n s2 route s3 u4 s4 u5 s5 u6 s6 u7 md where d:
    "LockAccountAsset ErrLockKey acct (wc_AssetID item) s1 = Inr (u1, s1')" "numeric_text (wc_AmountAtomic item) s1' = Inr (n, s2)"
    "check_capacity p item c s2 = Inr (route, s3)" "insert_dispatch p item e (Some (cr_RouteID route)) s3 = Inr (u4, s4)"
    "insert_reservation p item c route s4 = Inr (u5, s5)"
    "custody_audit [] ''withdrawal.dispatch_started'' (wc_ID item) [] md s5 = Inr (u6, s6)"
    "custody_outbox ''withdrawal.dispatch_started'' ''withdrawal'' (wc_ID item) md s6 = Inr (u7, t)"
    unfolding dispatch_withdrawal_def Let_def tx_steps option.case by blast
  note same = respectsD [OF cap_statements(1) run(1)] respectsD [OF cap_statements(2) d(1)] respectsD [OF cap_statements(3) d(2)]
    respectsD [OF cap_statements(4) d(4)] respectsD [OF cap_statements(5) d(6)] respectsD [OF cap_statements(6) d(7)]
  have "cap_same s s2" "cap_same s5 t" using same by (auto simp: cap_same_def)
  with that d(3,5) same(4) show thesis by blast
qed

text \<open>
  C29: custody is never overbooked. When a dispatch is granted on a capacity observation, exactly one
  reservation is added, for this withdrawal and its full amount, under an approved and enabled
  route; the observation is not older than the route allows and not from the future (beyond one
  second); the network fee is within the route's maximum; and all obligations still open against
  the vault, the new one included, are covered by the observed balances, in the withdrawn asset
  and in the fee asset, whether or not these are the same.
\<close>

theorem dispatch_within_capacity:
  assumes "BeginWithdrawalDispatch provider item (Some c) s = (Inr True, t)"
  shows "\<exists>r route tm. custody_capacity_reservations t = custody_capacity_reservations s @ [r] \<and> rv_withdrawal r = wc_ID item \<and>
    SetString (wc_AmountAtomic item) = Some (rv_amount r) \<and> route \<in> set (custody_withdrawal_routes s) \<and> rt_id route = rv_route r \<and>
    (\<exists>a \<in> set (custody_withdrawal_route_approvals s). \<exists>q \<in> set (custody_withdrawal_route_requests s).
       rr_id q = ra_request a \<and> rr_route q = rt_id route \<and> rr_action q = ''enable'') \<and>
    ce_ObservedAt c = Some tm \<and> rv_observed_at r = tm div 1000 \<and> tm \<le> pg_now s * 1000 + 10 ^ 9 \<and>
    pg_now s * 1000 - rt_max_age route * 10 ^ 9 \<le> tm \<and> rv_fee r \<le> rt_max_fee route \<and>
    open_obligations t provider (rv_vault r) (rv_asset r) \<le> rv_available r \<and>
    open_obligations t provider (rv_vault r) (rv_fee_asset r) \<le> rv_fee_available r"
proof -
  obtain s2 s3 route u s4 s5 where run: "cap_same s s2" "check_capacity provider item c s2 = Inr (route, s3)" "cap_same s3 s4"
    "insert_reservation provider item c route s4 = Inr (u, s5)" "cap_same s5 t"
    using dispatch_capacity_run [OF assms] .
  obtain ro l amount avail fee favail tm where ch:
    "newest_approval (\<lambda>r. rt_id r = ce_RouteID c) s2 = Some (ro, ''enable'')" "route = capacity_route False ro" "s3 = s2\<lparr>locks_taken := l\<rparr>"
    "cr_ProviderAssetID route = wc_CustodyAssetID item" "ce_ObservedAt c = Some tm" "tm \<le> pg_now s2 * 1000 + 10 ^ 9"
    "pg_now s2 * 1000 - rt_max_age ro * 10 ^ 9 \<le> tm"
    "SetString (wc_AmountAtomic item) = Some amount" "SetString (ce_AssetAvailable c) = Some avail"
    "SetString (ce_FeeAvailable c) = Some favail" "SetString (ce_FeeRequired c) = Some fee" "fee \<le> rt_max_fee ro"
    "within_capacity s2 provider (wc_SourceVaultID item) route amount avail fee favail"
    using check_capacity_Inr [OF run(2)] .
  obtain r where r: "custody_capacity_reservations s5 = custody_capacity_reservations s4 @ [r]"
    "custody_capacity_terminal_events s5 = custody_capacity_terminal_events s4"
    "rv_withdrawal r = wc_ID item" "rv_route r = ce_RouteID c" "rv_provider r = provider" "rv_vault r = wc_SourceVaultID item"
    "rv_asset r = wc_CustodyAssetID item" "SetString (wc_AmountAtomic item) = Some (rv_amount r)"
    "SetString (ce_AssetAvailable c) = Some (rv_available r)" "rv_fee_asset r = cr_FeeProviderAssetID route"
    "SetString (ce_FeeRequired c) = Some (rv_fee r)" "SetString (ce_FeeAvailable c) = Some (rv_fee_available r)"
    "0 < rv_amount r" "0 \<le> rv_fee r" "\<forall>tm. ce_ObservedAt c = Some tm \<longrightarrow> rv_observed_at r = tm div 1000"
    using insert_reservation_Inr [OF run(4)] .
  have vals: "rv_amount r = amount" "rv_available r = avail" "rv_fee r = fee" "rv_fee_available r = favail"
    using r(8,9,11,12) ch(8-11) by simp_all
  have tabs: "custody_capacity_reservations t = custody_capacity_reservations s2 @ [r]"
    "custody_capacity_terminal_events t = custody_capacity_terminal_events s2"
    using run(3,5) r(1,2) ch(3) by (simp_all add: cap_same_def)
  note bound = open_obligations_insert [OF tabs, of provider "rv_vault r"]
  have "open_obligations t provider (rv_vault r) (rv_asset r) \<le> rv_available r"
    "open_obligations t provider (rv_vault r) (rv_fee_asset r) \<le> rv_fee_available r"
    using bound [of "rv_asset r"] bound [of "rv_fee_asset r"] ch(4,13) r(6,7,10,13,14) vals
    by (auto simp: within_capacity_def split: if_splits)
  note bounds = this
  have now: "pg_now s2 = pg_now s" "custody_withdrawal_routes s2 = custody_withdrawal_routes s"
    "custody_withdrawal_route_approvals s2 = custody_withdrawal_route_approvals s"
    "custody_withdrawal_route_requests s2 = custody_withdrawal_route_requests s"
    "custody_capacity_reservations s2 = custody_capacity_reservations s"
    using run(1) by (simp_all add: cap_same_def)
  note newest = newest_approval_Some [OF ch(1), unfolded now]
  note time = ch(6,7) [unfolded now]
  have fee: "rv_fee r \<le> rt_max_fee ro"
    using ch(12) vals(3) by simp
  show ?thesis
    using tabs(1) [unfolded now] r(3,8) r(15) [rule_format, OF ch(5)] ch(5) time fee bounds newest r(4)
    by (intro exI [of _ r] exI [of _ ro] exI [of _ tm]) metis
qed


definition demo_routed :: custody_db where
  "demo_routed = demo_approved\<lparr>
     custody_withdrawal_routes := [\<lparr>rt_id = ''r1'', rt_asset = ''usdt'', rt_provider = ''fb'', rt_environment = ''staging'', rt_network = ''n'',
       rt_provider_asset = ''USDT_T'', rt_decimals = 6, rt_fee_asset = ''GAS'', rt_fee_decimals = 18, rt_max_fee = 50, rt_max_age = 60,
       rt_created_by = ''op1''\<rparr>],
     custody_withdrawal_route_requests := [\<lparr>rr_id = ''q1'', rr_route = ''r1'', rr_action = ''enable'', rr_proposed_by = ''op1'',
       rr_reason = ''live'', rr_key = ''k1'', rr_hash = []\<rparr>],
     custody_withdrawal_route_approvals := [\<lparr>ra_request = ''q1'', ra_route = ''r1'', ra_proposed_by = ''op1'', ra_approved_by = ''op2'',
       ra_reason = ''ok'', ra_key = ''k2'', ra_approved_at = 90\<rparr>]\<rparr>"

definition demo_evidence :: WithdrawalCapacityEvidence where
  "demo_evidence = \<lparr>ce_RouteID = ''r1'', ce_Environment = ''staging'', ce_ObservedAt = Some 99000, ce_AssetAvailable = ''400'',
     ce_FeeAvailable = ''20'', ce_FeeRequired = ''15'', ce_AssetBlockHeight = ''7'', ce_AssetBlockHash = ''h'',
     ce_FeeBlockHeight = ''7'', ce_FeeBlockHash = ''h''\<rparr>"

definition demo_dispatched :: custody_db where
  "demo_dispatched = snd (BeginWithdrawalDispatch ''fb'' demo_item (Some demo_evidence) demo_routed)"

theorem dispatch_within_capacity_witness:
  "\<exists>r. custody_capacity_reservations demo_dispatched = [r] \<and> rv_amount r = 300 \<and>
     open_obligations demo_dispatched ''fb'' ''v1'' ''USDT_T'' \<le> rv_available r \<and> rv_fee r \<le> 50"
proof -
  have "fst (BeginWithdrawalDispatch ''fb'' demo_item (Some demo_evidence) demo_routed) = Inr True" by code_simp
  then have run: "BeginWithdrawalDispatch ''fb'' demo_item (Some demo_evidence) demo_routed = (Inr True, demo_dispatched)"
    by (simp add: demo_dispatched_def prod_eq_iff)
  have start: "custody_capacity_reservations demo_routed = []" by code_simp
  have rows: "map (\<lambda>r. (rv_vault r, rv_asset r, rv_amount r, rv_fee r)) (custody_capacity_reservations demo_dispatched) = [(''v1'', ''USDT_T'', 300, 15)]"
    by code_simp
  from dispatch_within_capacity [OF run] start obtain r where
    "custody_capacity_reservations demo_dispatched = [r]" "open_obligations demo_dispatched ''fb'' (rv_vault r) (rv_asset r) \<le> rv_available r" by auto
  with rows show ?thesis by (intro exI [of _ r]) auto
qed


section \<open>Entitlement\<close>

definition limits_on :: "custody_db \<Rightarrow> bool" where
  "limits_on s \<longleftrightarrow> test_money_ready s \<or> test_money_enabled s \<or> test_money_grants s \<noteq> []"

text \<open>Statements that leave the ledger, the deposits and the withdrawals alone.\<close>

definition books_same :: "custody_db \<Rightarrow> custody_db \<Rightarrow> bool" where
  "books_same s t \<longleftrightarrow> deposits t = deposits s \<and> accounts t = accounts s \<and> withdrawals t = withdrawals s \<and>
     withdrawal_journals t = withdrawal_journals s \<and> journals t = journals s \<and> postings t = postings s \<and>
     limits_on t = limits_on s"

interpretation books: tx_relation books_same
  by unfold_locales (auto simp: books_same_def)

lemma books_same_totals:
  assumes "books_same s t"
  shows "credited_deposits t = credited_deposits s" "committed_withdrawals t = committed_withdrawals s"
  using assms
  by (simp_all add: books_same_def fun_eq_iff credited_deposits_def committed_withdrawals_def deposit_backed_def journal_side_def
      account_of_user_def posted_withdrawal_journal_def)

lemma lock_totals [simp]:
  "credited_deposits (s\<lparr>locks_taken := l\<rparr>) = credited_deposits s" "committed_withdrawals (s\<lparr>locks_taken := l\<rparr>) = committed_withdrawals s"
  by (rule books_same_totals; simp add: books_same_def limits_on_def)+

lemma entitlement_books:
  "tx_respects books_same (LockAccountAsset e a x)" "tx_respects books_same (custody_audit actor act res reason md)"
  "tx_respects books_same (custody_outbox et aty aid pl)" "tx_respects books_same (advisory_lock k)"
  "tx_respects books_same (promote_addresses usr)" "tx_respects books_same (available_bigint a x)"
  "tx_respects books_same (control_enabled k)" "tx_respects books_same (numeric_text raw)"
  unfolding LockAccountAsset_def advisory_lock_def custody_audit_def custody_outbox_def append_outbox_def promote_addresses_def
    available_bigint_def control_enabled_def numeric_text_def
  by (auto intro!: books.bind books.pure books.exec simp: books_same_def limits_on_def split: option.splits)

lemma books_announcements:
  "tx_respects books_same (announce_withdrawal input automatic wid)" "tx_respects books_same (recordWithdrawalEntitlement e wid usr aid n)"
  "tx_respects books_same (checkWithdrawalEntitlement usr aid n)"
  unfolding announce_withdrawal_def recordWithdrawalEntitlement_def checkWithdrawalEntitlement_def Let_def
  by (auto intro!: books.bind books.pure entitlement_books books.exec simp: books_same_def limits_on_def split: option.splits)

lemma entitlement_limit:
  "checkWithdrawalEntitlement usr aid n s = Inr (e, t) \<Longrightarrow> limits_on s \<Longrightarrow>
   committed_withdrawals s usr aid + n \<le> credited_deposits s usr aid"
  by (auto simp: checkWithdrawalEntitlement_def limits_on_def tx_simps advisory_lock_def split: option.splits)

text \<open>A hold journal backs no deposit and releases no withdrawal.\<close>

lemma hold_journal_totals:
  assumes "post_withdrawal_journal key ''withdrawal_hold'' wid legs s = Inr (jid, t)"
  shows "credited_deposits t = credited_deposits s" "committed_withdrawals t = committed_withdrawals s"
proof -
  define j where "j = \<lparr>j_id = jid, j_idempotency_key = key, j_reference_type = ''withdrawal_hold'', j_reference_id = wid, j_status = Posted\<rparr>"
  have t: "jid \<notin> j_id ` set (journals s)" "journals t = journals s @ [j]" "postings t = postings s @ map (posting_of jid) legs"
    "withdrawal_journals t = withdrawal_journals s @ [(jid, wid)]" "deposits t = deposits s" "accounts t = accounts s" "withdrawals t = withdrawals s"
    using assms by (auto simp: post_withdrawal_journal_def tx_simps post_journal_Inr j_def)
  have side: "journal_side t (j_id i) dir q = journal_side s (j_id i) dir q"
    "list_all (\<lambda>p. p_journal p = j_id i \<longrightarrow> l_asset p = x) (postings t) = list_all (\<lambda>p. p_journal p = j_id i \<longrightarrow> l_asset p = x) (postings s)"
    if "i \<in> set (journals s)" for i dir q x
  proof -
    have "jid \<noteq> j_id i" using that t(1) by blast
    then have "filter (\<lambda>r. p_journal r = j_id i \<and> l_direction r = dir \<and> q r) (map (posting_of jid) legs) = []" "\<forall>l. p_journal (posting_of jid l) \<noteq> j_id i"
      by (simp_all add: filter_empty_conv)
    then show "journal_side t (j_id i) dir q = journal_side s (j_id i) dir q"
      "list_all (\<lambda>p. p_journal p = j_id i \<longrightarrow> l_asset p = x) (postings t) = list_all (\<lambda>p. p_journal p = j_id i \<longrightarrow> l_asset p = x) (postings s)"
      by (simp_all add: journal_side_def t(3) list_all_iff ball_Un)
  qed
  have owner: "account_of_user t = account_of_user s" by (simp add: fun_eq_iff account_of_user_def t(6))
  have "deposit_backed t d = deposit_backed s d" for d
    unfolding deposit_backed_def list_ex_iff t(2) owner by (simp add: side j_def cong: bex_cong)
  then show "credited_deposits t = credited_deposits s" by (simp add: fun_eq_iff credited_deposits_def t(5))
  have "posted_withdrawal_journal t w [''withdrawal_release'', ''withdrawal_cancel''] =
    posted_withdrawal_journal s w [''withdrawal_release'', ''withdrawal_cancel'']" for w
    using t(1) by (auto simp: posted_withdrawal_journal_def t(2,4) j_def list_ex_iff)
  then show "committed_withdrawals t = committed_withdrawals s" by (simp add: fun_eq_iff committed_withdrawals_def t(7))
qed

lemma insert_withdrawal_totals:
  assumes "insert_withdrawal input aid addr st s = Inr (wid, t)" "st \<in> {''approved'', ''pending_approval''}"
  obtains w where "withdrawals t = withdrawals s @ [w]" "wd_id w = wid" "wd_user w = wi_UserID input" "wd_asset w = aid"
    "wd_amount w = sint (wi_AmountAtomic input)" "credited_deposits t = credited_deposits s"
    "committed_withdrawals t (wi_UserID input) aid = committed_withdrawals s (wi_UserID input) aid + sint (wi_AmountAtomic input)"
proof -
  from assms(1) obtain w n where t: "t = s\<lparr>uuid_next := n, withdrawals := withdrawals s @ [w]\<rparr>" and w: "wd_id w = wid" "wd_user w = wi_UserID input"
    "wd_asset w = aid" "wd_amount w = sint (wi_AmountAtomic input)" "wd_status w = st"
    by (auto simp: insert_withdrawal_def gen_random_uuid_def tx_simps)
  have pj: "posted_withdrawal_journal t v rs = posted_withdrawal_journal s v rs" for v rs
    by (simp add: posted_withdrawal_journal_def t)
  have "credited_deposits t = credited_deposits s"
    by (simp add: fun_eq_iff credited_deposits_def deposit_backed_def journal_side_def account_of_user_def t)
  moreover have "committed_withdrawals t (wi_UserID input) aid = committed_withdrawals s (wi_UserID input) aid + sint (wi_AmountAtomic input)"
    unfolding committed_withdrawals_def pj using w assms(2) by (auto simp: t)
  ultimately show thesis using w by (intro that [of w]) (simp_all add: t)
qed

lemma ends_books: "tx_respects books_same m \<Longrightarrow> ends (\<lambda>s. books_same s0 s \<and> c) m (\<lambda>_ s. books_same s0 s \<and> c)"
  unfolding ends_def by (blast dest: respectsD intro: books.R_trans)

definition admitted :: "WithdrawalInput \<Rightarrow> custody_db \<Rightarrow> WithdrawalResult \<Rightarrow> custody_db \<Rightarrow> bool" where
  "admitted input s r t \<longleftrightarrow> (\<exists>w. withdrawals t = withdrawals s @ [w] \<and> wd_id w = wr_WithdrawalID r \<and> wd_user w = wi_UserID input \<and>
    wd_amount w = sint (wi_AmountAtomic input) \<and>
    committed_withdrawals t (wd_user w) (wd_asset w) \<le> credited_deposits t (wd_user w) (wd_asset w))"

lemma admit_entitlement:
  "ends (\<lambda>s. books_same s0 s \<and> limits_on s0) (checkWithdrawalEntitlement (wi_UserID input) aid (sint (wi_AmountAtomic input)))
     (\<lambda>_ s. books_same s0 s \<and> committed_withdrawals s0 (wi_UserID input) aid + sint (wi_AmountAtomic input) \<le> credited_deposits s0 (wi_UserID input) aid)"
  unfolding ends_def
proof (intro allI impI)
  fix s e t
  assume s: "books_same s0 s \<and> limits_on s0" and run: "checkWithdrawalEntitlement (wi_UserID input) aid (sint (wi_AmountAtomic input)) s = Inr (e, t)"
  have "books_same s0 t" using s respectsD [OF books_announcements(3) run] by (blast intro: books.R_trans)
  moreover have "limits_on s" using s by (simp add: books_same_def)
  ultimately show "books_same s0 t \<and> committed_withdrawals s0 (wi_UserID input) aid + sint (wi_AmountAtomic input) \<le> credited_deposits s0 (wi_UserID input) aid"
    using entitlement_limit [OF run] s books_same_totals [of s0 s] by simp
qed

lemma admit_record:
  "ends (\<lambda>s. books_same s0 s \<and> committed_withdrawals s0 (wi_UserID input) aid + sint (wi_AmountAtomic input) \<le> credited_deposits s0 (wi_UserID input) aid)
     (bindT (insert_withdrawal input aid addr (if automatic then ''approved'' else ''pending_approval'')) (\<lambda>wid.
      bindT (post_withdrawal_journal (''withdrawal-hold-'' @ wid) ''withdrawal_hold'' wid legs) (\<lambda>jid.
      bindT (recordWithdrawalEntitlement e wid usr aid n) (\<lambda>_.
      bindT (announce_withdrawal input automatic wid) (\<lambda>_.
      returnT \<lparr>wr_WithdrawalID = wid, wr_JournalID = jid, wr_Duplicate = False, wr_Status = st\<rparr>))))) (admitted input s0)"
  unfolding ends_def
proof (intro allI impI, goal_cases)
  case (1 s r t)
  then obtain wid s1 jid s2 s3 where run:
    "insert_withdrawal input aid addr (if automatic then ''approved'' else ''pending_approval'') s = Inr (wid, s1)"
    "post_withdrawal_journal (''withdrawal-hold-'' @ wid) ''withdrawal_hold'' wid legs s1 = Inr (jid, s2)"
    "recordWithdrawalEntitlement e wid usr aid n s2 = Inr ((), s3)" "announce_withdrawal input automatic wid s3 = Inr ((), t)" "wr_WithdrawalID r = wid"
    by (auto simp: tx_simps)
  obtain w where w: "withdrawals s1 = withdrawals s @ [w]" "wd_id w = wid" "wd_user w = wi_UserID input" "wd_asset w = aid"
    "wd_amount w = sint (wi_AmountAtomic input)" "credited_deposits s1 = credited_deposits s"
    "committed_withdrawals s1 (wi_UserID input) aid = committed_withdrawals s (wi_UserID input) aid + sint (wi_AmountAtomic input)"
    by (rule insert_withdrawal_totals [OF run(1)]) (simp split: if_splits)
  have "withdrawals s2 = withdrawals s1" using run(2) by (auto simp: post_withdrawal_journal_def tx_simps post_journal_Inr)
  moreover have same: "books_same s2 s3" "books_same s3 t" using respectsD [OF books_announcements(2) run(3)] respectsD [OF books_announcements(1) run(4)] .
  moreover from this have "withdrawals t = withdrawals s2" by (simp add: books_same_def)
  moreover have "withdrawals s = withdrawals s0" using 1(1) by (simp add: books_same_def)
  ultimately show "admitted input s0 r t"
    unfolding admitted_def using w run(5) 1(1) hold_journal_totals [OF run(2)] books_same_totals [OF same(1)] books_same_totals [OF same(2)] books_same_totals [of s0 s]
    by (intro exI [of _ w]) simp
qed

lemma admit_within_deposits: "ends (\<lambda>s. books_same s0 s \<and> limits_on s0) (admit_withdrawal input automatic) (admitted input s0)"
  unfolding admit_withdrawal_def Let_def
  by (rule ends_bind ends_pure ends_books entitlement_books admit_entitlement admit_record)+



definition demo_limited :: custody_db where
  "demo_limited = demo_deposited\<lparr>test_money_enabled := True\<rparr>"

definition demo_withdrawal_input :: WithdrawalInput where
  "demo_withdrawal_input = \<lparr>wi_UserID = ''u1'', wi_SourceAccountID = ''a1'', wi_AssetSymbol = ''USDT'', wi_Network = ''n'', wi_Address = ''addr'',
     wi_Tag = [], wi_AmountAtomic = 400, wi_IdempotencyKey = ''key2''\<rparr>"


end
