(* ===== verification/Transfer_Keys.thy ===== *)
theory Transfer_Keys
  imports Withdrawal_System
begin

text \<open>
  The journal keys of withdrawals and the idempotency keys of transfers share one unique column
  (\<open>journals.idempotency_key\<close>). \<open>CreateInternalTransfer\<close> writes the client's key there
  as it is, so a client can take the key that the settlement of a withdrawal needs.
\<close>

definition settlement_key :: "string \<Rightarrow> string" where
  "settlement_key wid = ''withdrawal-settlement-'' @ wid"

definition blocked :: "string \<Rightarrow> custody_db \<Rightarrow> bool" where
  "blocked wid s \<longleftrightarrow> settlement_key wid \<in> j_idempotency_key ` set (journals s) \<and>
     (\<forall>w \<in> set (withdrawals s). wd_id w = wid \<longrightarrow> wd_status w \<noteq> ''completed'')"

definition keeps_blocked :: "string \<Rightarrow> custody_db \<Rightarrow> custody_db \<Rightarrow> bool" where
  "keeps_blocked wid s t \<longleftrightarrow> (blocked wid s \<longrightarrow> blocked wid t)"

interpretation block: tx_relation "keeps_blocked wid" for wid
  by unfold_locales (auto simp: keeps_blocked_def)

section \<open>Statements\<close>

lemma block_frame:
  "journals t = journals s \<Longrightarrow> withdrawals t = withdrawals s \<Longrightarrow> keeps_blocked wid s t"
  by (simp add: keeps_blocked_def blocked_def)

lemma block_exec:
  "(\<And>s. journals (f s) = journals s \<and> withdrawals (f s) = withdrawals s) \<Longrightarrow> tx_respects (keeps_blocked wid) (execT f)"
  by (rule block.exec) (auto intro: block_frame)

lemma block_rows:
  assumes "\<forall>w. wd_id (f w) = wd_id w" "\<forall>w. p w \<longrightarrow> wd_id w = wid \<longrightarrow> wd_status (f w) = ''completed'' \<longrightarrow> wd_status w = ''completed''"
  shows "tx_respects (keeps_blocked wid) (execT (\<lambda>s. s\<lparr>withdrawals := update_where p f (withdrawals s)\<rparr>))"
proof (rule block.exec)
  fix s
  have "wd_status (if p w then f w else w) \<noteq> ''completed''"
    if "blocked wid s" "w \<in> set (withdrawals s)" "wd_id (if p w then f w else w) = wid" for w
    using that assms by (cases "p w") (auto simp: blocked_def)
  then show "keeps_blocked wid s (s\<lparr>withdrawals := update_where p f (withdrawals s)\<rparr>)"
    by (auto simp: keeps_blocked_def set_update_where) (auto simp: blocked_def set_update_where)
qed

lemma block_post: "tx_respects (keeps_blocked wid) (post_custody_journal key rtype rid legs)"
  by (rule respectsI) (auto simp: post_journal_Inr keeps_blocked_def blocked_def)

lemma block_plain:
  "tx_respects (keeps_blocked wid) (custody_outbox et aty aid pl)" "tx_respects (keeps_blocked wid) gen_random_uuid"
  "tx_respects (keeps_blocked wid) (advisory_lock k)" "tx_respects (keeps_blocked wid) (LockAccountAsset e a x)"
  "tx_respects (keeps_blocked wid) (promote_addresses usr)" "tx_respects (keeps_blocked wid) (numeric_text txt)"
  "tx_respects (keeps_blocked wid) (available_bigint a x)" "tx_respects (keeps_blocked wid) (control_enabled k)"
  "tx_respects (keeps_blocked wid) (custody_audit actor act res reason md)"
  unfolding tx_respects_def
  by (auto simp: custody_outbox_def append_outbox_def gen_random_uuid_def advisory_lock_def LockAccountAsset_def promote_addresses_def
      numeric_text_def available_bigint_def control_enabled_def custody_audit_def tx_simps intro!: block_frame split: option.splits)

lemma block_account: "tx_respects (keeps_blocked wid) (system_account nm)" "tx_respects (keeps_blocked wid) (clearing_account nm)"
  unfolding clearing_account_def system_account_def
  by (auto intro!: block.bind block.pure block_plain block_exec split: option.splits)

lemma block_withdrawal_journal: "tx_respects (keeps_blocked wid) (post_withdrawal_journal key rtype wid' legs)"
  unfolding post_withdrawal_journal_def by (intro block.bind block.pure block_post block_exec) auto

lemmas block_rules = block.bind block.pure block.bind_lift block_plain block_exec block_post block_account block_withdrawal_journal

lemma block_parts:
  "tx_respects (keeps_blocked wid) (checkWithdrawalEntitlement usr aid n)"
  "tx_respects (keeps_blocked wid) (recordWithdrawalEntitlement ent wid' usr aid n)"
  "tx_respects (keeps_blocked wid) (announce_withdrawal wi auto wid')" "tx_respects (keeps_blocked wid) (insert_dispatch provider item ent ro)"
  "tx_respects (keeps_blocked wid) (insert_reservation provider item c route)" "tx_respects (keeps_blocked wid) (record_terminal wid' oc ptx)"
  "tx_respects (keeps_blocked wid) (settle_withdrawal w nxt)" "tx_respects (keeps_blocked wid) (capacityRouteInTx rid)"
  "tx_respects (keeps_blocked wid) (lockCapacity provider vlt xs)" "tx_respects (keeps_blocked wid) (openCapacity provider vlt x)"
  "tx_respects (keeps_blocked wid) (capacity_amount raw)"
  unfolding checkWithdrawalEntitlement_def recordWithdrawalEntitlement_def announce_withdrawal_def insert_dispatch_def insert_reservation_def
    record_terminal_def settle_withdrawal_def capacityRouteInTx_def lockCapacity_def openCapacity_def capacity_amount_def Let_def
  by (auto intro!: block_rules block.for_each split: option.splits prod.splits)

lemma block_status: "new \<noteq> ''completed'' \<Longrightarrow> tx_respects (keeps_blocked wid) (set_withdrawal_status wid' old new)"
  unfolding set_withdrawal_status_def by (rule block_rows) auto

lemma block_insert: "st \<noteq> ''completed'' \<Longrightarrow> tx_respects (keeps_blocked wid) (insert_withdrawal wi aid adr st)"
  unfolding insert_withdrawal_def
  by (intro block.bind block.pure block_plain block.exec) (auto simp: keeps_blocked_def blocked_def)

lemma block_capacity: "tx_respects (keeps_blocked wid) (check_capacity provider item c)"
  unfolding check_capacity_def check_open_def check_freshness_def by (auto intro!: block.bind block.pure block_parts)

section \<open>Operations\<close>

lemma block_withdrawals:
  "tx_respects (keeps_blocked wid) (RequestWithdrawal_tx wi)" "tx_respects (keeps_blocked wid) (CancelWithdrawal_tx usr wid')"
  "tx_respects (keeps_blocked wid) (ApproveWithdrawal_tx approver wid' reason)"
  unfolding RequestWithdrawal_tx_def admit_withdrawal_def duplicate_withdrawal_def CancelWithdrawal_tx_def ApproveWithdrawal_tx_def Let_def
  by (auto intro!: block_rules block_parts block_status block_insert split: option.splits prod.splits)

lemma block_submitted: "tx_respects (keeps_blocked wid) (MarkWithdrawalSubmitted_tx wid' ptx)"
  unfolding MarkWithdrawalSubmitted_tx_def Let_def
  by (auto intro!: block.bind block.pure block_plain block_rows split: option.splits)

text \<open>The outcome \<open>completed\<close> needs the settlement key, which is taken.\<close>

lemma settle_needs_key:
  assumes "settle_withdrawal w ''completed'' s = Inr (jid, t)"
  shows "settlement_key (wd_id w) \<notin> j_idempotency_key ` set (journals s)"
proof -
  have "journals s1 = journals s" if "clearing_account x s = Inr (c, s1)" for x c s1
    using that by (auto simp: clearing_account_def system_account_def gen_random_uuid_def tx_simps split: option.splits)
  then show ?thesis
    using assms by (auto simp: settle_withdrawal_def post_withdrawal_journal_def tx_simps post_journal_Inr settlement_key_def)
qed

lemma block_outcome:
  "status \<noteq> Some ''completed'' \<or> wid' \<noteq> wid \<Longrightarrow> tx_respects (keeps_blocked wid) (set_custody_outcome wid' status hash)"
  unfolding set_custody_outcome_def by (rule block_rows) (auto split: option.splits)

lemma block_settlement:
  "tx_respects (keeps_blocked wid) (bindT (set_custody_outcome (wd_id w) (Some nxt) hash) (\<lambda>_. bindT (settle_withdrawal w nxt) k))"
  if "\<And>j. tx_respects (keeps_blocked wid) (k j)"
proof (cases "nxt = ''completed'' \<and> wd_id w = wid")
  case False
  then show ?thesis by (intro block.bind block_outcome block_parts that) auto
next
  case True
  show ?thesis
  proof (rule respectsI)
    fix s x t
    assume "bindT (set_custody_outcome (wd_id w) (Some nxt) hash) (\<lambda>_. bindT (settle_withdrawal w nxt) k) s = Inr (x, t)"
    then have "settlement_key wid \<notin> j_idempotency_key ` set (journals s)"
      using True by (auto simp: set_custody_outcome_def tx_simps dest!: settle_needs_key)
    then show "keeps_blocked wid s t" by (simp add: keeps_blocked_def blocked_def)
  qed
qed

lemma block_update: "tx_respects (keeps_blocked wid) (RecordWithdrawalCustodyUpdate_tx nxt wu)"
  unfolding RecordWithdrawalCustodyUpdate_tx_def Let_def
  by (intro block.bind block.pure, split option.split)
    (auto intro!: block_settlement block.pure block_rules block_parts block_outcome)

lemma block_custody:
  "tx_respects (keeps_blocked wid) (BeginWithdrawalDispatch_tx provider item capacity)"
  "tx_respects (keeps_blocked wid) (RecordWithdrawalReconciliationObservation_tx env cand ob)"
  "tx_respects (keeps_blocked wid) (ProposeCustodyWithdrawalRoute_tx hash actor ri)"
  "tx_respects (keeps_blocked wid) (ApproveCustodyWithdrawalRoute_tx actor req reason key)"
  "tx_respects (keeps_blocked wid) (CreateInternalTransfer_tx ti)"
  unfolding BeginWithdrawalDispatch_tx_def claim_dispatch_def dispatch_withdrawal_def RecordWithdrawalReconciliationObservation_tx_def
    ProposeCustodyWithdrawalRoute_tx_def ApproveCustodyWithdrawalRoute_tx_def insert_route_def insert_route_request_def
    requireCustodyRouteRole_def CreateInternalTransfer_tx_def check_transfer_accounts_def insert_transfer_def Let_def
  by (auto intro!: block_rules block_parts block_capacity split: option.splits prod.splits)

lemma block_lock_conversion: "tx_respects (keeps_blocked wid) (lock_conversion ls)"
  unfolding lock_conversion_def by (auto intro!: block.for_each block_plain)

lemma block_conversions:
  "tx_respects (keeps_blocked wid) (SetConversionPairPolicy_tx actor pol)" "tx_respects (keeps_blocked wid) (SetConversionsEnabled_tx actor enabled)"
  "tx_respects (keeps_blocked wid) (CreateConversionQuote_tx qi)" "tx_respects (keeps_blocked wid) (ConfirmConversion_tx now usr qid key)"
  unfolding SetConversionPairPolicy_tx_def SetConversionsEnabled_tx_def CreateConversionQuote_tx_def ConfirmConversion_tx_def upsert_pair_def
    numeric78_def insert_quote_def confirmable_quote_def settle_conversion_def insert_conversion_def Let_def
  by (auto intro!: block_rules block.map_each block_lock_conversion split: option.splits)

lemma block_inline:
  "keeps_blocked wid s (snd (ApplyDepositObservation pg_lower event s))" "keeps_blocked wid s (snd (CreditApprovedDeposit reviewer did reason s))"
  "keeps_blocked wid s (snd (SetWithdrawalsEnabled actor enabled s))" "keeps_blocked wid s (snd (SaveWithdrawalTravelRule usr wid' ciphertext s))"
  "keeps_blocked wid s (snd (WithdrawalAddresses usr s))" "keeps_blocked wid s (snd (AddWithdrawalAddress now usr sm nw ad tg lb wl cd s))"
  "keeps_blocked wid s (snd (DisableWithdrawalAddress usr aid s))"
  unfolding ApplyDepositObservation_def CreditApprovedDeposit_def SetWithdrawalsEnabled_def SaveWithdrawalTravelRule_def
    WithdrawalAddresses_def AddWithdrawalAddress_def DisableWithdrawalAddress_def upsert_address_def mark_credited_def upsert_deposit_def
    announce_deposit_def autoCreditConfirmedDeposit_def credit_deposit_def Let_def
  by (rule block.committed; auto intro!: block_rules split: option.splits prod.splits)+

interpretation blocking: custody_relation "keeps_blocked wid" for wid
  by unfold_locales
    (auto simp: foreign_change_def intro: block_frame block_inline block_withdrawals block_submitted block_update block_custody block_conversions)

lemma transfer_takes_key:
  assumes "CreateInternalTransfer_tx ti s = Inr (r, t)" "\<not> tr_Duplicate r"
  shows "ti_IdempotencyKey ti \<in> j_idempotency_key ` set (journals t) \<and> withdrawals t = withdrawals s"
proof
  show "withdrawals t = withdrawals s"
    using same_viewD [OF transfer_same assms(1)] by (simp add: view_def)
  show "ti_IdempotencyKey ti \<in> j_idempotency_key ` set (journals t)"
    using assms unfolding CreateInternalTransfer_tx_def Let_def
    by (auto simp: tx_simps post_journal_Inr custody_audit_def custody_outbox_def append_outbox_def gen_random_uuid_def split: option.splits prod.splits)
qed

text \<open>
  C31: a transfer can make a withdrawal impossible to complete. When a transfer is created with the
  idempotency key \<open>withdrawal-settlement-<id>\<close> (22 bytes and the id, well within the length the
  service accepts) before the withdrawal \<open>id\<close> has completed, no later sequence of operations,
  in particular no custody update, ever completes that withdrawal, although custody may have sent
  the money.
\<close>

theorem transfer_key_blocks_settlement:
  assumes "fst (Transfer_Create env usr ti s) = Inr r" "\<not> tr_Duplicate r" "ti_IdempotencyKey ti = ''withdrawal-settlement-'' @ wid"
    and "\<forall>w \<in> set (withdrawals s). wd_id w = wid \<longrightarrow> wd_status w \<noteq> ''completed''"
    and "custody_step\<^sup>*\<^sup>* (snd (Transfer_Create env usr ti s)) t"
  shows "\<forall>w \<in> set (withdrawals t). wd_id w = wid \<longrightarrow> wd_status w \<noteq> ''completed''"
proof -
  have "blocked wid (snd (Transfer_Create env usr ti s))"
    using assms(1-4) transfer_takes_key
    by (fastforce simp: Transfer_Create_def CreateInternalTransfer_def transaction_def Let_def blocked_def settlement_key_def
        split: if_splits sum.splits prod.splits)
  then show ?thesis using blocking.run_R [OF assms(5), of wid] by (simp add: keeps_blocked_def blocked_def)
qed


text \<open>A submitted withdrawal whose owner has a second account.\<close>

definition demo_submitted :: custody_db where
  "demo_submitted = demo_custody\<lparr>
     accounts := accounts demo_custody @ [\<lparr>ac_id = ''a2'', ac_user_id = Some ''u1'', ac_kind = ''uta'', ac_name = ''trade'', ac_status = ''active''\<rparr>],
     withdrawals := map (\<lambda>w. w\<lparr>wd_status := ''submitted'', wd_provider_tx := Some ''tx1''\<rparr>) (withdrawals demo_custody)\<rparr>"

definition demo_transfer :: TransferInput where
  "demo_transfer = \<lparr>ti_SenderUserID = ''u1'', ti_SourceAccountID = ''a1'', ti_DestinationAccountID = ''a2'', ti_AssetSymbol = ''USDT'',
     ti_Network = ''n'', ti_AmountAtomic = 1, ti_IdempotencyKey = ''withdrawal-settlement-w1''\<rparr>"

definition demo_update :: WithdrawalCustodyUpdate where
  "demo_update = \<lparr>wu_ProviderTransactionID = ''tx1'', wu_Status = ''COMPLETED'', wu_TransactionHash = ''h''\<rparr>"

lemma demo_transfer_call: "Transfer_Create plain_env ''u1'' demo_transfer s = CreateInternalTransfer demo_transfer s"
  by (simp add: Transfer_Create_def demo_transfer_def plain_env_def TrimSpace_graphic graphic_def ToUpper_def ascii_def upper_byte_def)

theorem transfer_key_blocks_settlement_witness:
  "\<exists>r. CreateInternalTransfer demo_transfer demo_submitted = (Inr r, snd (CreateInternalTransfer demo_transfer demo_submitted)) \<and>
     map wd_status (withdrawals (snd (RecordWithdrawalCustodyUpdate plain_env demo_update demo_submitted))) = [''completed''] \<and>
     (\<forall>w \<in> set (withdrawals (snd (RecordWithdrawalCustodyUpdate plain_env demo_update (snd (CreateInternalTransfer demo_transfer demo_submitted))))).
       wd_id w = ''w1'' \<longrightarrow> wd_status w \<noteq> ''completed'')"
proof -
  let ?s = "snd (CreateInternalTransfer demo_transfer demo_submitted)"
  have "case fst (CreateInternalTransfer demo_transfer demo_submitted) of Inr r \<Rightarrow> \<not> tr_Duplicate r | Inl e \<Rightarrow> False" by code_simp
  then obtain r where r: "fst (CreateInternalTransfer demo_transfer demo_submitted) = Inr r" "\<not> tr_Duplicate r" by (auto split: sum.splits)
  have unsettled: "\<forall>w \<in> set (withdrawals demo_submitted). wd_id w = ''w1'' \<longrightarrow> wd_status w \<noteq> ''completed''"
    by (simp add: demo_submitted_def demo_custody_def)
  have step: "custody_step\<^sup>*\<^sup>* ?s (snd (RecordWithdrawalCustodyUpdate plain_env demo_update ?s))"
    by (rule r_into_rtranclp, rule custody_step.update)
  have key: "ti_IdempotencyKey demo_transfer = ''withdrawal-settlement-'' @ ''w1''" by (simp add: demo_transfer_def)
  have status: "custody_status plain_env (wu_Status demo_update) = Some ''completed''"
    by (simp add: custody_status_def demo_update_def TrimSpace_graphic graphic_def ToUpper_def ascii_def upper_byte_def plain_env_def)
  have "map wd_status (withdrawals (snd (transaction (RecordWithdrawalCustodyUpdate_tx ''completed'' demo_update) demo_submitted))) = [''completed'']"
    by code_simp
  moreover note transfer_key_blocks_settlement [of plain_env "''u1''" demo_transfer demo_submitted, unfolded demo_transfer_call,
      OF r key unsettled step]
  ultimately show ?thesis
    using r(1) by (intro exI [of _ r]) (simp add: RecordWithdrawalCustodyUpdate_def status prod_eq_iff)
qed

end
