(* ===== verification/Conversion_Settlement.thy ===== *)
theory Conversion_Settlement
  imports Custody_Frame
begin

text \<open>
  Conversions settle once and exactly as quoted. The invariant ties every conversion to its quote and
  to the one journal that settles it; the operations that have nothing to do with conversions keep
  it by the locale \<open>custody_frame\<close>.
\<close>

section \<open>The invariant\<close>

definition settles :: "custody_db \<Rightarrow> conversion_row \<Rightarrow> conversion_quote_row \<Rightarrow> bool" where
  "settles s c q \<longleftrightarrow>
     (\<exists>tf tt ft. posted_once ''conversion_settlement'' (cv_id c) (\<lambda>j. cv_journal c = Some (j_id j) \<and> j_idempotency_key j = cv_key c)
       (conversion_legs (cq_source q) tf tt ft q) s)"

definition conversion_ok :: "custody_db \<Rightarrow> conversion_row \<Rightarrow> bool" where
  "conversion_ok s c \<longleftrightarrow> (\<exists>q \<in> set (conversion_quotes s). cq_id q = cv_quote c \<and> cq_user q = cv_user c \<and> cq_confirmed q \<noteq> None \<and> settles s c q)"

definition conversion_inv :: "custody_db \<Rightarrow> bool" where
  "conversion_inv s \<longleftrightarrow> ledger_wf s \<and> distinct (map cq_id (conversion_quotes s)) \<and> distinct (map cv_id (conversions s)) \<and>
     distinct (map cv_quote (conversions s)) \<and> (\<forall>c \<in> set (conversions s). conversion_ok s c) \<and>
     (\<forall>j \<in> set (journals s). j_reference_type j = ''conversion_settlement'' \<longrightarrow> j_reference_id j \<in> cv_id ` set (conversions s))"

text \<open>A quote keeps its terms; confirming it is the only change.\<close>

definition continues_quote :: "conversion_quote_row \<Rightarrow> conversion_quote_row \<Rightarrow> bool" where
  "continues_quote q q' \<longleftrightarrow> q'\<lparr>cq_confirmed := None\<rparr> = q\<lparr>cq_confirmed := None\<rparr> \<and> (cq_confirmed q \<noteq> None \<longrightarrow> q' = q)"

definition quotes_kept :: "custody_db \<Rightarrow> custody_db \<Rightarrow> bool" where
  "quotes_kept s t \<longleftrightarrow> (\<forall>q \<in> set (conversion_quotes s). \<exists>q' \<in> set (conversion_quotes t). continues_quote q q') \<and>
     set (conversions s) \<subseteq> set (conversions t)"

definition conversion_safe :: "custody_db \<Rightarrow> custody_db \<Rightarrow> bool" where
  "conversion_safe s t \<longleftrightarrow> (conversion_inv s \<longrightarrow> conversion_inv t \<and> quotes_kept s t)"

lemma continues_quote_refl: "continues_quote q q"
  by (simp add: continues_quote_def)

lemma continues_quote_trans: "continues_quote q q' \<Longrightarrow> continues_quote q' q'' \<Longrightarrow> continues_quote q q''"
  by (auto simp: continues_quote_def)

lemma quotes_kept_trans: "quotes_kept s t \<Longrightarrow> quotes_kept t u \<Longrightarrow> quotes_kept s u"
  unfolding quotes_kept_def by (meson continues_quote_trans subset_trans)

lemma quotes_kept_refl [simp]: "quotes_kept s s"
  unfolding quotes_kept_def by (blast intro: continues_quote_refl)

interpretation conv: tx_relation conversion_safe
  by unfold_locales (auto simp: conversion_safe_def intro: quotes_kept_trans)

section \<open>Operations without conversions\<close>

abbreviation conversion_tables :: "custody_db \<Rightarrow> conversion_quote_row list \<times> conversion_row list" where
  "conversion_tables s \<equiv> (conversion_quotes s, conversions s)"

abbreviation converts_nothing :: "custody_db \<Rightarrow> custody_db \<Rightarrow> bool" where
  "converts_nothing \<equiv> keeps_tables ''conversion_settlement'' conversion_tables"

interpretation converting: custody_frame "''conversion_settlement''" conversion_tables
  by unfold_locales simp_all

lemma idle_conversion: "converts_nothing s t \<Longrightarrow> conversion_safe s t"
proof -
  assume idle: "converts_nothing s t"
  have t: "conversion_quotes t = conversion_quotes s" "conversions t = conversions s" using idle by (simp_all add: keeps_tables_def)
  have "conversion_inv t" if inv: "conversion_inv s"
  proof -
    have wf: "ledger_wf s" using inv by (simp add: conversion_inv_def)
    note ledger = keeps_tables_ledger [OF idle wf]
    have "settles t c q" if "settles s c q" for c q using that posted_once_keep [OF _ idle wf] unfolding settles_def by blast
    then have "conversion_ok t c" if "conversion_ok s c" for c using that t(1) unfolding conversion_ok_def by metis
    then show ?thesis using inv t ledger(1,4) by (auto simp: conversion_inv_def)
  qed
  moreover have "quotes_kept s t" unfolding quotes_kept_def t by (blast intro: continues_quote_refl)
  ultimately show ?thesis by (simp add: conversion_safe_def)
qed

lemma idle_conversion_safe: "tx_respects converts_nothing m \<Longrightarrow> tx_respects conversion_safe m"
  by (auto simp: tx_respects_def intro: idle_conversion)

lemmas conversion_idle = converting.idle_withdrawals converting.idle_custody converting.idle_inline

lemma conversion_idle_deposits:
  "converts_nothing s (snd (ApplyDepositObservation pg_lower event s))" "converts_nothing s (snd (CreditApprovedDeposit reviewer did reason s))"
  unfolding ApplyDepositObservation_def CreditApprovedDeposit_def mark_credited_def upsert_deposit_def announce_deposit_def
    autoCreditConfirmedDeposit_def credit_deposit_def Let_def
  by (rule converting.idle.committed; auto intro!: converting.idle_rules converting.idle_exec_tables split: option.splits prod.splits)+

lemma conversion_idle_policy:
  "tx_respects converts_nothing (SetConversionPairPolicy_tx actor pol)" "tx_respects converts_nothing (SetConversionsEnabled_tx actor enabled)"
  unfolding SetConversionPairPolicy_tx_def SetConversionsEnabled_tx_def upsert_pair_def Let_def
  by (auto intro!: converting.idle_rules converting.idle_exec_tables)

section \<open>Quotes\<close>

lemma quote_safe: "tx_respects conversion_safe (insert_quote row)" if "cq_confirmed row = None"
proof (rule respectsI)
  fix s qid t
  assume "insert_quote row s = Inr (qid, t)"
  then have t: "t = s\<lparr>uuid_next := Suc (uuid_next s), conversion_quotes := conversion_quotes s @ [row\<lparr>cq_id := qid\<rparr>]\<rparr>" "qid \<notin> cq_id ` set (conversion_quotes s)"
    by (auto simp: insert_quote_def gen_random_uuid_def tx_simps)
  have "settles t c q = settles s c q" for c q by (simp add: settles_def posted_once_def t(1))
  then have "conversion_ok t c" if "conversion_ok s c" for c using that by (auto simp: conversion_ok_def t(1))
  then have "conversion_inv t" if "conversion_inv s" using that t by (auto simp: conversion_inv_def ledger_wf_def)
  moreover have "quotes_kept s t" unfolding quotes_kept_def t(1) by (auto intro: continues_quote_refl)
  ultimately show "conversion_safe s t" by (simp add: conversion_safe_def)
qed

lemma CreateConversionQuote_safe: "tx_respects conversion_safe (CreateConversionQuote_tx qi)"
proof -
  have "cq_confirmed row = None" if "row \<in> set (quote_rows qi a b c s)" for row a b c s
    using that unfolding quote_rows_def set_concat set_map 
    by (elim UnionE imageE, hypsubst, unfold set_concat set_map) (elim UnionE imageE, hypsubst, unfold set_map, elim imageE, simp)
  then have rows: "tx_respects conversion_safe (mapT insert_quote (quote_rows qi a b c s))" for a b c s
    by (intro conv.map_each quote_safe)
  show ?thesis
    unfolding CreateConversionQuote_tx_def numeric78_def
    by (intro conv.bind [OF idle_conversion_safe [OF converting.idle_plain(6)]] conv.bind conv.pure respects_query rows
        idle_conversion_safe [OF converting.idle_plain(6)])
qed

section \<open>Settlement\<close>

text \<open>What a successful settlement does to the tables.\<close>

lemma settle_conversion_run:
  assumes "settle_conversion usr key q s = Inr (r, t)"
  obtains s1 tf tt ft cid jid s2 s3 where "converts_nothing s s1" "insert_conversion (cq_id q) usr key s1 = Inr (cid, s2)"
    "post_custody_journal key ''conversion_settlement'' cid (conversion_legs (cq_source q) tf tt ft q) s2 = Inr (jid, s3)"
    "journals t = journals s3" "postings t = postings s3"
    "conversion_quotes t = update_where (\<lambda>x. cq_id x = cq_id q \<and> cq_confirmed x = None) (\<lambda>x. x\<lparr>cq_confirmed := Some (pg_now s3)\<rparr>) (conversion_quotes s3)"
    "conversions t = update_where (\<lambda>c. cv_id c = cid) (\<lambda>c. c\<lparr>cv_journal := Some jid\<rparr>) (conversions s3)"
proof -
  let ?locks = "\<lambda>tf tt. lock_conversion [(cq_source q, cq_from q), (tf, cq_from q), (tt, cq_to q)]"
  obtain tf s4 tt s5 ft s6 u s1 cid s2 jid s3 where pre: "system_account (''conversion-treasury-'' @ cq_from q) s = Inr (tf, s4)"
    "system_account (''conversion-treasury-'' @ cq_to q) s4 = Inr (tt, s5)" "system_account (''conversion-fees-'' @ cq_to q) s5 = Inr (ft, s6)"
    "?locks tf tt s6 = Inr (u, s1)"
    and settle: "insert_conversion (cq_id q) usr key s1 = Inr (cid, s2)"
    "post_custody_journal key ''conversion_settlement'' cid (conversion_legs (cq_source q) tf tt ft q) s2 = Inr (jid, s3)"
    and t: "journals t = journals s3" "postings t = postings s3"
    "conversion_quotes t = update_where (\<lambda>x. cq_id x = cq_id q \<and> cq_confirmed x = None) (\<lambda>x. x\<lparr>cq_confirmed := Some (pg_now s3)\<rparr>) (conversion_quotes s3)"
    "conversions t = update_where (\<lambda>c. cv_id c = cid) (\<lambda>c. c\<lparr>cv_journal := Some jid\<rparr>) (conversions s3)"
    using assms by (auto simp: settle_conversion_def Let_def tx_simps custody_audit_def custody_outbox_def append_outbox_def gen_random_uuid_def)
  have "converts_nothing s s1"
    using respectsD [OF converting.idle_account(1) pre(1)] respectsD [OF converting.idle_account(1) pre(2)]
      respectsD [OF converting.idle_account(1) pre(3)] respectsD [OF converting.idle_lock_conversion pre(4)]
    by (blast intro: converting.idle.R_trans)
  then show thesis using settle t by (rule that)
qed

text \<open>The settlement of an open quote, seen in the state where the conversion is inserted.\<close>

lemma settled_conversion:
  assumes inv: "conversion_inv s" and q: "q \<in> set (conversion_quotes s)" "cq_confirmed q = None" "cq_user q = usr"
    and ins: "insert_conversion (cq_id q) usr key s = Inr (cid, s2)"
    and post: "post_custody_journal key ''conversion_settlement'' cid (conversion_legs (cq_source q) tf tt ft q) s2 = Inr (jid, s3)"
    and t: "journals t = journals s3" "postings t = postings s3"
      "conversion_quotes t = update_where (\<lambda>x. cq_id x = cq_id q \<and> cq_confirmed x = None) (\<lambda>x. x\<lparr>cq_confirmed := Some (pg_now s3)\<rparr>) (conversion_quotes s3)"
      "conversions t = update_where (\<lambda>c. cv_id c = cid) (\<lambda>c. c\<lparr>cv_journal := Some jid\<rparr>) (conversions s3)"
  shows "conversion_inv t \<and> quotes_kept s t"
proof -
  define j where "j = \<lparr>j_id = jid, j_idempotency_key = key, j_reference_type = ''conversion_settlement'', j_reference_id = cid, j_status = Posted\<rparr>"
  define c where "c = \<lparr>cv_id = cid, cv_quote = cq_id q, cv_user = usr, cv_key = key, cv_journal = Some jid, cv_status = ''settled'', cv_created_at = pg_now s\<rparr>"
  let ?legs = "map (posting_of jid) (conversion_legs (cq_source q) tf tt ft q)"
  let ?q = "q\<lparr>cq_confirmed := Some (pg_now s3)\<rparr>"
  have new: "cid \<notin> cv_id ` set (conversions s)" "cq_id q \<notin> cv_quote ` set (conversions s)" "jid \<notin> j_id ` set (journals s)"
    and s3: "journals s3 = journals s @ [j]" "postings s3 = postings s @ ?legs" "conversion_quotes s3 = conversion_quotes s"
      "conversions s3 = conversions s @ [c\<lparr>cv_journal := None\<rparr>]"
    using ins post by (auto simp: insert_conversion_def gen_random_uuid_def tx_simps post_journal_Inr j_def c_def)
  have cs: "conversions t = conversions s @ [c]"
    using new(1) unfolding t(4) s3(4) by (auto simp: update_where_def c_def intro!: map_idI)
  have dist: "distinct (map cq_id (conversion_quotes s))" using inv by (simp add: conversion_inv_def)
  have quotes: "x \<in> set (conversion_quotes t) \<longleftrightarrow> x = ?q \<or> x \<in> set (conversion_quotes s) \<and> cq_id x \<noteq> cq_id q" for x
    unfolding t(3) s3(3) using set_update_unique [OF dist q(1), of "\<lambda>x. cq_confirmed x = None"] q(2) by simp
  have wf: "ledger_wf s" using inv by (simp add: conversion_inv_def)
  have s2: "journals s2 = journals s" "postings s2 = postings s" using ins by (auto simp: insert_conversion_def gen_random_uuid_def tx_simps)
  have wf2: "ledger_wf s2" using wf s2 by (simp add: ledger_wf_def)
  from post_journal_wf [OF post this] have wf_t: "ledger_wf t" using t(1,2) by (simp add: ledger_wf_def)
  have none: "\<forall>j \<in> set (journals s2). j_reference_type j = ''conversion_settlement'' \<longrightarrow> j_reference_id j \<noteq> cid"
    using inv new(1) unfolding conversion_inv_def s2(1) by metis
  note once = post_journal_once [OF post wf2 none] and same = posted_once_same [OF t(1,2)] and before = posted_once_same [OF s2]
  have "settles t c ?q"
    unfolding settles_def same using once(1) [of "\<lambda>j. cv_journal c = Some (j_id j) \<and> j_idempotency_key j = cv_key c"]
    by (intro exI [of _ tf] exI [of _ tt] exI [of _ ft]) (simp add: c_def conversion_legs_def)
  then have "conversion_ok t c" unfolding conversion_ok_def using quotes q(3) by (intro bexI [of _ ?q]) (simp_all add: c_def)
  moreover have "conversion_ok t c'" if c': "c' \<in> set (conversions s)" for c'
  proof -
    obtain q' where q': "q' \<in> set (conversion_quotes s)" "cq_id q' = cv_quote c'" "cq_user q' = cv_user c'" "cq_confirmed q' \<noteq> None" "settles s c' q'"
      using inv c' by (auto simp: conversion_inv_def conversion_ok_def)
    have other: "cv_quote c' \<noteq> cq_id q" "cv_id c' \<noteq> cid" using new(1,2) c' by (metis imageI)+
    have "settles t c' q'" using q'(5) once(2) [OF TrueI, of _ "cv_id c'"] other(2) unfolding settles_def same before by blast
    moreover have "q' \<in> set (conversion_quotes t)" using quotes q'(1,2) other(1) by simp
    ultimately show ?thesis using q'(2-4) unfolding conversion_ok_def by blast
  qed
  moreover have "distinct (map cq_id (conversion_quotes t))" using dist unfolding t(3) s3(3) by (simp add: map_update_where)
  ultimately have "conversion_inv t"
    using inv wf_t new(1,2) unfolding conversion_inv_def cs by (auto simp: c_def t(1) s3(1) j_def)
  moreover have "continues_quote q ?q" using q(2) by (simp add: continues_quote_def)
  moreover have "x = q" if "x \<in> set (conversion_quotes s)" "cq_id x = cq_id q" for x
    using dist q(1) that by (auto simp: distinct_map dest: inj_onD)
  ultimately have "conversion_inv t" "\<forall>x \<in> set (conversion_quotes s). \<exists>x' \<in> set (conversion_quotes t). continues_quote x x'"
    using quotes continues_quote_refl by metis+
  then show ?thesis unfolding quotes_kept_def cs by auto
qed

lemma settle_conversion_safe:
  assumes "q \<in> set (conversion_quotes s)" "cq_confirmed q = None" "cq_user q = usr" "settle_conversion usr key q s = Inr (r, t)"
  shows "conversion_safe s t"
proof -
  obtain s1 tf tt ft cid jid s2 s3 where run: "converts_nothing s s1" "insert_conversion (cq_id q) usr key s1 = Inr (cid, s2)"
    "post_custody_journal key ''conversion_settlement'' cid (conversion_legs (cq_source q) tf tt ft q) s2 = Inr (jid, s3)"
    "journals t = journals s3" "postings t = postings s3"
    "conversion_quotes t = update_where (\<lambda>x. cq_id x = cq_id q \<and> cq_confirmed x = None) (\<lambda>x. x\<lparr>cq_confirmed := Some (pg_now s3)\<rparr>) (conversion_quotes s3)"
    "conversions t = update_where (\<lambda>c. cv_id c = cid) (\<lambda>c. c\<lparr>cv_journal := Some jid\<rparr>) (conversions s3)"
    by (rule settle_conversion_run [OF assms(4)])
  have q: "q \<in> set (conversion_quotes s1)" using run(1) assms(1) by (simp add: keeps_tables_def)
  have "conversion_safe s1 t" unfolding conversion_safe_def using settled_conversion [OF _ q assms(2,3) run(2-)] by simp
  with idle_conversion [OF run(1)] show ?thesis by (rule conv.R_trans)
qed

lemma ConfirmConversion_safe: "tx_respects conversion_safe (ConfirmConversion_tx now usr qid key)"
proof (rule respectsI)
  fix s r t
  assume run: "ConfirmConversion_tx now usr qid key s = Inr (r, t)"
  show "conversion_safe s t"
  proof (cases "t = s")
    case True
    then show ?thesis by (simp add: conv.R_refl)
  next
    case False
    then obtain q where q: "find (\<lambda>q. cq_id q = qid \<and> cq_user q = usr) (conversion_quotes s) = Some q" "cq_confirmed q = None"
      "settle_conversion usr key q s = Inr (r, t)"
      using run by (auto simp: ConfirmConversion_tx_def control_enabled_def confirmable_quote_def tx_simps split: option.splits)
    then have "q \<in> set (conversion_quotes s)" "cq_user q = usr" by (auto dest: find_SomeD)
    then show ?thesis using settle_conversion_safe q(2,3) by blast
  qed
qed

interpretation conversion: custody_relation conversion_safe
  by unfold_locales
    (auto simp: foreign_change_def keeps_tables_def owners_kept_def ledger_grows_same
      intro: idle_conversion idle_conversion_safe conversion_idle conversion_idle_deposits conversion_idle_policy
        CreateConversionQuote_safe ConfirmConversion_safe)

section \<open>Properties\<close>


text \<open>A funded treasury and an open quote of 500 units for 40, with a fee of 2.\<close>

definition demo_conversion_quote :: conversion_quote_row where
  "demo_conversion_quote = \<lparr>cq_id = ''q1'', cq_user = ''u1'', cq_source = ''a1'', cq_from = ''usdt'', cq_to = ''btc'', cq_input = 500, cq_output = 40,
     cq_fee = 2, cq_price = ''12'', cq_provider = ''spot'', cq_expires = 200, cq_confirmed = None\<rparr>"

definition demo_exchange :: "conversion_quote_row \<Rightarrow> custody_db" where
  "demo_exchange q = demo_custody\<lparr>
     accounts := accounts demo_custody @ [\<lparr>ac_id = ''tb'', ac_user_id = None, ac_kind = ''system'', ac_name = ''conversion-treasury-btc'', ac_status = ''active''\<rparr>],
     assets := assets demo_custody @ [\<lparr>as_id = ''btc'', as_symbol = ''BTC'', as_network = ''n'', as_decimals = 8, as_status = ''enabled''\<rparr>],
     journals := journals demo_custody @ [\<lparr>j_id = ''j2'', j_idempotency_key = ''fund'', j_reference_type = ''treasury'', j_reference_id = ''f'', j_status = Posted\<rparr>],
     postings := postings demo_custody @ map (posting_of ''j2'') (move_legs ''vault'' ''tb'' ''btc'' 100),
     operational_controls := [(''conversions_enabled'', True)], conversion_quotes := [q]\<rparr>"

definition demo_converted :: custody_db where
  "demo_converted = snd (Conversion_Confirm 1000 ''u1'' ''q1'' ''conversion-key-0001'' (demo_exchange demo_conversion_quote))"

lemma demo_exchange_inv: "cq_confirmed q = None \<Longrightarrow> conversion_inv (demo_exchange q)"
  by (simp add: conversion_inv_def ledger_wf_def demo_exchange_def demo_custody_def move_legs_def hold_legs_def)

lemma demo_converted_eq: "demo_converted = snd (ConfirmConversion 1000 ''u1'' ''q1'' ''conversion-key-0001'' (demo_exchange demo_conversion_quote))"
proof -
  have "TrimSpace ''q1'' = ''q1''" "TrimSpace ''conversion-key-0001'' = ''conversion-key-0001''" by (rule TrimSpace_graphic, code_simp)+
  then show ?thesis by (simp add: demo_converted_def Conversion_Confirm_def)
qed


text \<open>
  C35: a quote without a fee can be issued but never settled. The ledger refuses postings of zero, so
  the confirmation of such a quote fails and is rolled back whatever the balances are: a pair with
  a fee of zero, or an amount so small that its fee rounds down to zero, cannot be converted.
\<close>

theorem zero_fee_never_settles:
  assumes "find (\<lambda>q. cq_id q = qid \<and> cq_user q = usr) (conversion_quotes s) = Some q" "cq_fee q = 0"
    "find (\<lambda>c. cv_key c = key) (conversions s) = None"
  shows "\<exists>e. ConfirmConversion now usr qid key s = (Inl e, s)"
proof -
  have no: "settle_conversion usr key q s' \<noteq> Inr (r, t)" for s' r t
  proof
    assume "settle_conversion usr key q s' = Inr (r, t)"
    then obtain cid jid s2 s3 tf tt ft where
      "post_custody_journal key ''conversion_settlement'' cid (conversion_legs (cq_source q) tf tt ft q) s2 = Inr (jid, s3)"
      by (rule settle_conversion_run)
    then show False using assms(2) by (simp add: post_journal_Inr conversion_legs_def)
  qed
  have "ConfirmConversion_tx now usr qid key s \<noteq> Inr (r, t)" for r t
    using assms no by (auto simp: ConfirmConversion_tx_def control_enabled_def confirmable_quote_def tx_simps)
  then have "\<exists>e. ConfirmConversion_tx now usr qid key s = Inl e" by (cases "ConfirmConversion_tx now usr qid key s") auto
  then show ?thesis by (auto simp: ConfirmConversion_def transaction_Inl)
qed

theorem zero_fee_never_settles_witness:
  "(\<exists>out. quotedAmounts demo_rat 4 ''100'' 0 0 True 75 20 = Inr (out, ''0'')) \<and>
   (\<exists>e. ConfirmConversion 1000 ''u1'' ''q1'' ''conversion-key-0001'' (demo_exchange (demo_conversion_quote\<lparr>cq_fee := 0\<rparr>)) = (Inl e, demo_exchange (demo_conversion_quote\<lparr>cq_fee := 0\<rparr>)))"
proof
  have "demo_rat ''100'' = Some 100" by (simp add: demo_rat_def) code_simp
  then show "\<exists>out. quotedAmounts demo_rat 4 ''100'' 0 0 True 75 20 = Inr (out, ''0'')"
    by (simp add: quotedAmounts_def quotient_of_number sdiv_nonneg BigString_def digits_of.simps digit_def char_numeral_eq)
  show "\<exists>e. ConfirmConversion 1000 ''u1'' ''q1'' ''conversion-key-0001'' (demo_exchange (demo_conversion_quote\<lparr>cq_fee := 0\<rparr>)) = (Inl e, demo_exchange (demo_conversion_quote\<lparr>cq_fee := 0\<rparr>))"
    by (rule zero_fee_never_settles [of _ _ _ "demo_conversion_quote\<lparr>cq_fee := 0\<rparr>"]) (simp_all add: demo_exchange_def demo_custody_def demo_conversion_quote_def)
qed

end
