(* ===== verification/Market_Data.thy ===== *)
theory Market_Data
  imports Go_Strings
begin

text \<open>
  Candles and order book snapshots: internal/marketdata/model.go, candles.go and snapshot.go. A Go
  time is its number of nanoseconds since 1970-01-01 UTC; of package \<open>time\<close> the code uses the
  calendar of \<open>Date\<close>, \<open>Year\<close>, \<open>Month\<close>, \<open>Day\<close>, \<open>Weekday\<close> and \<open>AddDate\<close>, and \<open>Truncate\<close>, which
  rounds down to a multiple counted from 0001-01-01. Amounts are decimal texts as in the source.
  The number of \<open>big.Int\<close> of a text without a number is a nil pointer: using it panics, which is
  \<open>Panic\<close> here.
\<close>

section \<open>The calendar of package time\<close>

definition day_ns :: int where "day_ns = 86400 * 10 ^ 9"
definition minute_ns :: int where "minute_ns = 60 * 10 ^ 9"

text \<open>1970-01-01 is day 719162 counted from 0001-01-01.\<close>

definition epoch_day :: int where "epoch_day = 719162"

definition day_number :: "int \<Rightarrow> int" where
  "day_number at = at div day_ns + epoch_day"

definition leap :: "int \<Rightarrow> bool" where
  "leap y \<longleftrightarrow> 4 dvd y \<and> (\<not> 100 dvd y \<or> 400 dvd y)"

definition year_start :: "int \<Rightarrow> int" where
  "year_start y = 365 * (y - 1) + (y - 1) div 4 - (y - 1) div 100 + (y - 1) div 400"

definition month_offset :: "bool \<Rightarrow> int \<Rightarrow> int" where
  "month_offset lp m =
     (if m \<le> 1 then 0 else if m = 2 then 31
      else (if lp then 1 else 0) +
        (if m = 3 then 59 else if m = 4 then 90 else if m = 5 then 120 else if m = 6 then 151 else if m = 7 then 181
         else if m = 8 then 212 else if m = 9 then 243 else if m = 10 then 273 else if m = 11 then 304 else if m = 12 then 334 else 365))"

definition Year :: "int \<Rightarrow> int" where
  "Year n = (let y = 400 * n div 146097 + 1 in if n < year_start y then y - 1 else if n < year_start (y + 1) then y else y + 1)"

definition Month :: "int \<Rightarrow> int" where
  "Month n =
     (let y = Year n; d = n - year_start y in
      if d < month_offset (leap y) 2 then 1 else if d < month_offset (leap y) 3 then 2 else if d < month_offset (leap y) 4 then 3
      else if d < month_offset (leap y) 5 then 4 else if d < month_offset (leap y) 6 then 5 else if d < month_offset (leap y) 7 then 6
      else if d < month_offset (leap y) 8 then 7 else if d < month_offset (leap y) 9 then 8 else if d < month_offset (leap y) 10 then 9
      else if d < month_offset (leap y) 11 then 10 else if d < month_offset (leap y) 12 then 11 else 12)"

definition month_start :: "int \<Rightarrow> int \<Rightarrow> int" where
  "month_start y m = year_start y + month_offset (leap y) m"

definition Day :: "int \<Rightarrow> int" where
  "Day n = n - month_start (Year n) (Month n) + 1"

definition Weekday :: "int \<Rightarrow> int" where
  "Weekday n = (n + 1) mod 7"

text \<open>\<open>time.Date\<close> at midnight and \<open>AddDate\<close>: months past December carry into the year, days are counted on.\<close>

definition Date :: "int \<Rightarrow> int \<Rightarrow> int \<Rightarrow> int" where
  "Date y m d = month_start (y + (m - 1) div 12) ((m - 1) mod 12 + 1) + d - 1"

definition AddDate :: "int \<Rightarrow> int \<Rightarrow> int \<Rightarrow> int \<Rightarrow> int" where
  "AddDate at years months days =
     (let n = day_number at in
      (Date (Year n + years) (Month n + months) (Day n + days) - epoch_day) * day_ns + at mod day_ns)"

definition Truncate :: "int \<Rightarrow> int \<Rightarrow> int" where
  "Truncate at d = at - (at + epoch_day * day_ns) mod d"

section \<open>Intervals and buckets\<close>

datatype market_error =
    ErrInvalidMarketEvent string
  | ErrMarketSequenceConflict
  | SequenceGapError string string u64 u64
  | ErrMarketText string
  | Panic

definition intervalDurations :: "(string \<times> int) list" where
  "intervalDurations =
     [(''1m'', minute_ns), (''5m'', 5 * minute_ns), (''15m'', 15 * minute_ns), (''1h'', 60 * minute_ns), (''4h'', 240 * minute_ns),
      (''1d'', day_ns), (''1w'', 7 * day_ns)]"

definition IntervalDuration :: "string \<Rightarrow> int option" where
  "IntervalDuration interval = (if interval = ''1M'' then Some 0 else map_of intervalDurations interval)"

definition BucketStart :: "int \<Rightarrow> string \<Rightarrow> market_error + int" where
  "BucketStart at interval =
     (if interval = ''1M'' then Inr ((Date (Year (day_number at)) (Month (day_number at)) 1 - epoch_day) * day_ns)
      else case map_of intervalDurations interval of
        None \<Rightarrow> Inl (ErrInvalidMarketEvent ''unsupported candle interval'')
      | Some duration \<Rightarrow>
          if interval = ''1w'' then
            let n = day_number at; dayStart = (Date (Year n) (Month n) (Day n) - epoch_day) * day_ns;
                mondayOffset = (Weekday (day_number dayStart) + 6) mod 7 in
            Inr (AddDate dayStart 0 0 (- mondayOffset))
          else Inr (Truncate at duration))"

definition BucketEnd :: "int \<Rightarrow> string \<Rightarrow> market_error + int" where
  "BucketEnd start interval =
     (if interval = ''1M'' then Inr (AddDate start 0 1 0)
      else case map_of intervalDurations interval of
        None \<Rightarrow> Inl (ErrInvalidMarketEvent ''unsupported candle interval'')
      | Some duration \<Rightarrow> Inr (start + duration))"

section \<open>Calendar facts\<close>

lemma div_step: "0 < k \<Longrightarrow> x div k = (x - 1) div k + (if k dvd x then 1 else 0)" for x k :: int
proof -
  assume "0 < k"
  have "(x - 1) div k = x div k - 1" if "k dvd x"
    using that \<open>0 < k\<close> by (auto elim!: dvdE simp: algebra_simps int_div_pos_eq [where q = "_ - 1" and r = "k - 1"])
  moreover have "(x - 1) div k = x div k" if "\<not> k dvd x"
  proof (rule int_div_pos_eq [where r = "x mod k - 1"])
    show "x - 1 = k * (x div k) + (x mod k - 1)" by simp
    show "0 \<le> x mod k - 1" using that \<open>0 < k\<close> by (smt (verit) dvd_eq_mod_eq_0 pos_mod_sign)
    show "x mod k - 1 < k" using \<open>0 < k\<close> by (smt (verit) pos_mod_bound)
  qed
  ultimately show ?thesis by simp
qed

lemma year_start_Suc: "year_start (y + 1) = year_start y + (if leap y then 366 else 365)"
proof -
  define a b c where "a = (y - 1) div 4" and "b = (y - 1) div 100" and "c = (y - 1) div 400"
  define p q r where "p \<longleftrightarrow> 4 dvd y" and "q \<longleftrightarrow> 100 dvd y" and "r \<longleftrightarrow> 400 dvd y"
  have pqr: "q \<Longrightarrow> p" "r \<Longrightarrow> q" unfolding p_def q_def r_def by (auto elim!: dvdE simp: dvd_def)
  have div: "y div 4 = a + (if p then 1 else 0)" "y div 100 = b + (if q then 1 else 0)" "y div 400 = c + (if r then 1 else 0)"
    unfolding a_def b_def c_def p_def q_def r_def by (rule div_step, simp)+
  have "year_start (y + 1) = 365 * y + y div 4 - y div 100 + y div 400" unfolding year_start_def by (simp only: add_diff_cancel)
  moreover have "year_start y = 365 * (y - 1) + a - b + c" unfolding year_start_def a_def b_def c_def ..
  moreover have "leap y \<longleftrightarrow> p \<and> (\<not> q \<or> r)" unfolding leap_def p_def q_def r_def ..
  ultimately show ?thesis unfolding div using pqr by (cases p; cases q; cases r) simp_all
qed

lemma year_start_less: "x < y \<Longrightarrow> year_start x < year_start y"
proof -
  have "year_start x < year_start (x + 1 + int n)" for n
    by (induction n) (use year_start_Suc [of x] year_start_Suc [of "x + 1 + int _"] in \<open>auto simp: algebra_simps split: if_splits\<close>)
  from this [of "nat (y - x - 1)"] show "x < y \<Longrightarrow> ?thesis" by simp
qed

lemma Year_contains: "year_start (Year n) \<le> n" "n < year_start (Year n + 1)"
proof -
  define q where "q = 400 * n div 146097"
  have q: "146097 * q \<le> 400 * n" "400 * n < 146097 * q + 146097"
    using pos_mod_bound [of 146097 "400 * n"] pos_mod_sign [of 146097 "400 * n"] mult_div_mod_eq [of 146097 "400 * n"]
    unfolding q_def by linarith+
  have below: "365 * x + a - b + c \<le> n" if "4 * a \<le> x" "x < 100 * b + 100" "400 * c \<le> x" "x = q - 1" for x a b c
    using q(1) that by linarith
  have above: "n < 365 * x + a - b + c" if "x < 4 * a + 4" "100 * b \<le> x" "x < 400 * c + 400" "x = q + 2" for x a b c
    using q(2) that by linarith
  have div_bounds: "k * (x div k) \<le> x" "x < k * (x div k) + k" if "0 < k" for x k :: int
    using that pos_mod_bound [of k x] pos_mod_sign [of k x] mult_div_mod_eq [of k x] by linarith+
  have "year_start q \<le> n" unfolding year_start_def by (rule below) (simp_all add: div_bounds)
  moreover have "n < year_start (q + 3)" unfolding year_start_def by (rule above) (simp_all add: div_bounds)
  ultimately show "year_start (Year n) \<le> n" "n < year_start (Year n + 1)"
    unfolding Year_def Let_def q_def [symmetric] by (auto simp: algebra_simps)
qed


lemma month_offset_numeral:
  "month_offset lp 1 = 0" "month_offset lp 2 = 31" "month_offset lp 3 = 59 + (if lp then 1 else 0)" "month_offset lp 4 = 90 + (if lp then 1 else 0)"
  "month_offset lp 5 = 120 + (if lp then 1 else 0)" "month_offset lp 6 = 151 + (if lp then 1 else 0)" "month_offset lp 7 = 181 + (if lp then 1 else 0)"
  "month_offset lp 8 = 212 + (if lp then 1 else 0)" "month_offset lp 9 = 243 + (if lp then 1 else 0)" "month_offset lp 10 = 273 + (if lp then 1 else 0)"
  "month_offset lp 11 = 304 + (if lp then 1 else 0)" "month_offset lp 12 = 334 + (if lp then 1 else 0)" "month_offset lp 13 = 365 + (if lp then 1 else 0)"
  by (simp_all add: month_offset_def)

lemma month_cases:
  assumes "1 \<le> m" "m \<le> 12"
  obtains "m = 1" | "m = 2" | "m = 3" | "m = 4" | "m = 5" | "m = 6" | "m = 7" | "m = 8" | "m = 9" | "m = 10" | "m = 11" | "m = (12 :: int)"
  using assms by atomize_elim arith

lemma month_start_13: "month_start y 13 = year_start (y + 1)" "month_start y 1 = year_start y"
  by (simp_all add: month_start_def month_offset_numeral year_start_Suc)

lemma month_offset_less: "1 \<le> m \<Longrightarrow> m \<le> 12 \<Longrightarrow> month_offset lp m < month_offset lp (m + 1)"
  by (erule (1) month_cases) (simp_all add: month_offset_numeral)

lemma Month_contains:
  "1 \<le> Month n" "Month n \<le> 12" "month_start (Year n) (Month n) \<le> n" "n < month_start (Year n) (Month n + 1)"
proof -
  have "0 \<le> n - year_start (Year n)" "n - year_start (Year n) < month_offset (leap (Year n)) 13"
    using Year_contains [of n] by (auto simp: month_offset_numeral year_start_Suc)
  then have "1 \<le> Month n \<and> Month n \<le> 12 \<and> month_offset (leap (Year n)) (Month n) \<le> n - year_start (Year n) \<and>
      n - year_start (Year n) < month_offset (leap (Year n)) (Month n + 1)"
    unfolding Month_def Let_def by (simp split: if_split) (simp add: month_offset_numeral)
  then show "1 \<le> Month n" "Month n \<le> 12" "month_start (Year n) (Month n) \<le> n" "n < month_start (Year n) (Month n + 1)"
    by (auto simp: month_start_def)
qed


lemma month_offset_mono: "1 \<le> i \<Longrightarrow> i \<le> j \<Longrightarrow> j \<le> 13 \<Longrightarrow> month_offset lp i \<le> month_offset lp j"
proof (induction "nat (j - i)" arbitrary: j)
  case 0
  then show ?case by simp
next
  case (Suc k)
  then have "month_offset lp i \<le> month_offset lp (j - 1)" by (intro Suc.hyps(1)) auto
  moreover have "1 < j" using Suc.hyps(2) Suc.prems by simp
  ultimately show ?case using month_offset_less [of "j - 1" lp] Suc.prems by simp
qed

text \<open>A day lies in exactly one month.\<close>

lemma month_unique:
  assumes "1 \<le> m" "m \<le> 12" "month_start y m \<le> n" "n < month_start y (m + 1)"
  shows "Year n = y" "Month n = m"
proof -
  have "year_start y \<le> n" "n < year_start (y + 1)"
    using assms month_offset_mono [of 1 m "leap y"] month_offset_mono [of "m + 1" 13 "leap y"] month_start_13 [of y]
    by (auto simp: month_start_def)
  then show y: "Year n = y"
    using Year_contains [of n] year_start_less [of "Year n + 1" y] year_start_less [of "y + 1" "Year n"] by (smt (verit))
  have "\<not> m < Month n" using Month_contains [of n] assms month_offset_mono [of "m + 1" "Month n" "leap y"] y by (auto simp: month_start_def)
  moreover have "\<not> Month n < m" using Month_contains [of n] assms month_offset_mono [of "Month n + 1" m "leap y"] y by (auto simp: month_start_def)
  ultimately show "Month n = m" by simp
qed

lemma Date_month: "1 \<le> m \<Longrightarrow> m \<le> 12 \<Longrightarrow> Date y m d = month_start y m + d - 1"
  by (simp add: Date_def)

lemma Date_next_month: "1 \<le> m \<Longrightarrow> m \<le> 12 \<Longrightarrow> Date y (m + 1) 1 = month_start y (m + 1)"
  using Date_month [of "m + 1" y 1] month_start_13 [of y] month_start_13 [of "y + 1"] by (cases "m = 12") (auto simp: Date_def)

lemma Date_of_day [simp]: "Date (Year n) (Month n) (Day n) = n"
  using Month_contains [of n] by (simp add: Date_month Day_def)

lemma day_number_midnight [simp]: "day_number ((n - epoch_day) * day_ns) = n" "(n * day_ns) mod day_ns = 0"
  by (simp_all add: day_number_def day_ns_def)

lemma day_number_bounds: "(day_number at - epoch_day) * day_ns \<le> at" "at < (day_number at + 1 - epoch_day) * day_ns"
  using pos_mod_bound [of day_ns at] pos_mod_sign [of day_ns at] mult_div_mod_eq [of day_ns at]
  by (auto simp: day_number_def day_ns_def algebra_simps)

lemma day_number_between: "(a - epoch_day) * day_ns \<le> at \<Longrightarrow> at < (b - epoch_day) * day_ns \<Longrightarrow> a \<le> day_number at \<and> day_number at < b"
proof -
  assume "(a - epoch_day) * day_ns \<le> at" "at < (b - epoch_day) * day_ns"
  with day_number_bounds [of at] have "(a - epoch_day) * day_ns < (day_number at + 1 - epoch_day) * day_ns"
    "(day_number at - epoch_day) * day_ns < (b - epoch_day) * day_ns" by linarith+
  then show ?thesis by (auto simp: mult_less_cancel_right day_ns_def)
qed

section \<open>Buckets partition time\<close>

lemma bucket_week: "BucketStart at ''1w'' = Inr ((day_number at - day_number at mod 7 - epoch_day) * day_ns)"
proof -
  define n where "n = day_number at"
  have week: "((n + 1) mod 7 + 6) mod 7 = n mod 7" by presburger
  have "AddDate ((n - epoch_day) * day_ns) 0 0 (- k) = (n - k - epoch_day) * day_ns" for k
    using Month_contains [of n] by (simp add: AddDate_def Date_month Day_def)
  then show ?thesis by (simp add: BucketStart_def intervalDurations_def Weekday_def week n_def [symmetric] Let_def)
qed

lemma bucket_month:
  "BucketStart at ''1M'' = Inr ((month_start (Year (day_number at)) (Month (day_number at)) - epoch_day) * day_ns)"
  "1 \<le> m \<Longrightarrow> m \<le> 12 \<Longrightarrow> BucketEnd ((month_start y m - epoch_day) * day_ns) ''1M'' = Inr ((month_start y (m + 1) - epoch_day) * day_ns)"
proof -
  show "BucketStart at ''1M'' = Inr ((month_start (Year (day_number at)) (Month (day_number at)) - epoch_day) * day_ns)"
    using Month_contains by (simp add: BucketStart_def Date_month)
  assume m: "1 \<le> m" "m \<le> 12"
  have "Year (month_start y m) = y" "Month (month_start y m) = m"
    using month_unique [of m y "month_start y m"] m month_offset_less [of m "leap y"] by (auto simp: month_start_def)
  then show "BucketEnd ((month_start y m - epoch_day) * day_ns) ''1M'' = Inr ((month_start y (m + 1) - epoch_day) * day_ns)"
    using m by (simp add: BucketEnd_def AddDate_def Day_def Date_next_month)
qed


lemma Truncate_bounds: "0 < d \<Longrightarrow> Truncate at d \<le> at" "0 < d \<Longrightarrow> at < Truncate at d + d"
  by (simp_all add: Truncate_def)

lemma Truncate_unique: "Truncate at d \<le> x \<Longrightarrow> x < Truncate at d + d \<Longrightarrow> Truncate x d = Truncate at d"
proof -
  assume x: "Truncate at d \<le> x" "x < Truncate at d + d"
  let ?k = "(at + epoch_day * day_ns) div d"
  have at: "Truncate at d + epoch_day * day_ns = d * ?k"
    using mult_div_mod_eq [of d "at + epoch_day * day_ns"] unfolding Truncate_def by linarith
  then have "x + epoch_day * day_ns = d * ?k + (x - Truncate at d)" by simp
  then have "(x + epoch_day * day_ns) mod d = (x - Truncate at d) mod d" by (metis mod_mult_self4)
  also have "\<dots> = x - Truncate at d" using x by simp
  finally show ?thesis by (simp add: Truncate_def)
qed

lemma midnight_le: "k \<le> l \<Longrightarrow> (k - epoch_day) * day_ns \<le> (l - epoch_day) * day_ns"
  by (simp add: day_ns_def)

lemma bucket_spec:
  assumes "IntervalDuration interval = Some d"
  obtains s e where "BucketStart at interval = Inr s" "BucketEnd s interval = Inr e" "s \<le> at" "at < e"
    "\<forall>x. s \<le> x \<and> x < e \<longrightarrow> BucketStart x interval = Inr s"
proof -
  consider (month) "interval = ''1M''" | (week) "interval = ''1w''" "d = 7 * day_ns"
    | (other) "interval \<noteq> ''1M''" "interval \<noteq> ''1w''" "map_of intervalDurations interval = Some d" "0 < d"
    using assms by (auto simp: IntervalDuration_def intervalDurations_def minute_ns_def day_ns_def split: if_splits)
  then show thesis
  proof cases
    case month
    let ?n = "day_number at"
    let ?y = "Year ?n" and ?m = "Month ?n"
    have m: "1 \<le> ?m" "?m \<le> 12" "month_start ?y ?m \<le> ?n" "?n + 1 \<le> month_start ?y (?m + 1)" using Month_contains [of ?n] by auto
    have same: "BucketStart x ''1M'' = Inr ((month_start ?y ?m - epoch_day) * day_ns)"
      if "(month_start ?y ?m - epoch_day) * day_ns \<le> x" "x < (month_start ?y (?m + 1) - epoch_day) * day_ns" for x
      using month_unique [OF m(1,2)] day_number_between [OF that] unfolding bucket_month(1) by (elim conjE) metis
    show thesis
    proof (rule that, unfold month)
      show "BucketStart at ''1M'' = Inr ((month_start ?y ?m - epoch_day) * day_ns)" by (rule bucket_month)
      show "BucketEnd ((month_start ?y ?m - epoch_day) * day_ns) ''1M'' = Inr ((month_start ?y (?m + 1) - epoch_day) * day_ns)"
        using m by (intro bucket_month)
      show "(month_start ?y ?m - epoch_day) * day_ns \<le> at" using midnight_le [OF m(3)] day_number_bounds(1) [of at] by linarith
      show "at < (month_start ?y (?m + 1) - epoch_day) * day_ns" using midnight_le [OF m(4)] day_number_bounds(2) [of at] by linarith
      show "\<forall>x. (month_start ?y ?m - epoch_day) * day_ns \<le> x \<and> x < (month_start ?y (?m + 1) - epoch_day) * day_ns \<longrightarrow>
        BucketStart x ''1M'' = Inr ((month_start ?y ?m - epoch_day) * day_ns)"
        using same by blast
    qed
  next
    case week
    define n where "n = day_number at"
    define r where "r = n mod 7"
    have r: "0 \<le> r" "r < 7" by (simp_all add: r_def)
    have mono: "(n - r - epoch_day) * day_ns \<le> (n - epoch_day) * day_ns" "(n + 1 - epoch_day) * day_ns \<le> (n - r + 7 - epoch_day) * day_ns"
      using r by (auto intro!: midnight_le)
    have same: "k - k mod 7 = n - r" if "n - r \<le> k" "k < n - r + 7" for k
      using that unfolding r_def by presburger
    show thesis
    proof (rule that, unfold week)
      show "BucketStart at ''1w'' = Inr ((n - r - epoch_day) * day_ns)" by (simp add: bucket_week n_def r_def)
      show "BucketEnd ((n - r - epoch_day) * day_ns) ''1w'' = Inr ((n - r + 7 - epoch_day) * day_ns)"
        by (simp add: BucketEnd_def intervalDurations_def algebra_simps)
      show "(n - r - epoch_day) * day_ns \<le> at" using mono(1) day_number_bounds(1) [of at] unfolding n_def by linarith
      show "at < (n - r + 7 - epoch_day) * day_ns" using mono(2) day_number_bounds(2) [of at] unfolding n_def by linarith
      show "\<forall>x. (n - r - epoch_day) * day_ns \<le> x \<and> x < (n - r + 7 - epoch_day) * day_ns \<longrightarrow> BucketStart x ''1w'' = Inr ((n - r - epoch_day) * day_ns)"
        unfolding bucket_week using day_number_between same by metis
    qed
  next
    case other
    then have start: "BucketStart x interval = Inr (Truncate x d)" for x by (simp add: BucketStart_def)
    have ends: "BucketEnd (Truncate at d) interval = Inr (Truncate at d + d)" using other by (simp add: BucketEnd_def)
    show thesis
      by (rule that [OF start ends Truncate_bounds [OF other(4)]], unfold start) (blast intro: Truncate_unique)
  qed
qed

lemma bucket_mono:
  assumes "IntervalDuration interval = Some d" "BucketStart x interval = Inr s" "BucketStart y interval = Inr t" "x \<le> y"
  shows "s \<le> t"
proof (rule ccontr)
  assume "\<not> s \<le> t"
  obtain s' e where x: "BucketStart x interval = Inr s'" "BucketEnd s' interval = Inr e" "s' \<le> x" "x < e"
    "\<forall>z. s' \<le> z \<and> z < e \<longrightarrow> BucketStart z interval = Inr s'" by (rule bucket_spec [OF assms(1), of x])
  obtain t' f where y: "BucketStart y interval = Inr t'" "BucketEnd t' interval = Inr f" "t' \<le> y" "y < f"
    "\<forall>z. t' \<le> z \<and> z < f \<longrightarrow> BucketStart z interval = Inr t'" by (rule bucket_spec [OF assms(1), of y])
  have "BucketStart s interval = Inr s" "BucketStart s interval = Inr t"
    using x(1,3,4) x(5) [rule_format, of s] y(1,3,4) y(5) [rule_format, of s] assms(2-4) \<open>\<not> s \<le> t\<close> by auto
  then show False using \<open>\<not> s \<le> t\<close> by simp
qed

text \<open>
  The candle intervals partition time. For each supported interval every instant lies in the
  bucket that \<open>BucketStart\<close> and \<open>BucketEnd\<close> give it, and every instant of that bucket is given the
  same bucket: minutes, hours and days, weeks from Monday and calendar months with leap years.
\<close>

theorem buckets_partition_time:
  assumes "IntervalDuration interval = Some d"
  shows "\<exists>s e. BucketStart at interval = Inr s \<and> BucketEnd s interval = Inr e \<and> s \<le> at \<and> at < e \<and>
    (\<forall>x. s \<le> x \<and> x < e \<longrightarrow> BucketStart x interval = Inr s)"
  by (rule bucket_spec [OF assms, of at]) blast

text \<open>2024-02-29 12:00:00 lies in the February of a leap year.\<close>

theorem buckets_partition_time_witness:
  "BucketStart (1709208000 * 10 ^ 9) ''1M'' = Inr (1706745600 * 10 ^ 9) \<and>
   BucketEnd (1706745600 * 10 ^ 9) ''1M'' = Inr (1709251200 * 10 ^ 9) \<and>
   BucketStart (1706745600 * 10 ^ 9 + 29 * 86400 * 10 ^ 9 - 1) ''1M'' = Inr (1706745600 * 10 ^ 9)"
proof -
  have start: "BucketStart (1709208000 * 10 ^ 9) ''1M'' = Inr (1706745600 * 10 ^ 9)" by code_simp
  have ends: "BucketEnd (1706745600 * 10 ^ 9) ''1M'' = Inr (1709251200 * 10 ^ 9)" by code_simp
  have "IntervalDuration ''1M'' = Some 0" by (simp add: IntervalDuration_def)
  from buckets_partition_time [OF this, of "1709208000 * 10 ^ 9"] start ends show ?thesis by auto
qed

end
