(* ===== verification/Candles.thy ===== *)
theory Candles
  imports Market_Data "HOL-Library.Sublist" "HOL-Library.Signed_Division"
begin

text \<open>
  Trades and candles: the operations of internal/marketdata/model.go and candles.go. The filling of
  gaps is a loop without a bound in the source and is defined so that it might not return; that it
  does is proved. \<open>sort.Slice\<close> leaves the order of equal elements open; the model sorts stably and
  the claims are about minutes with different opening times.
\<close>

section \<open>Trades\<close>

record MarketTrade =
  mt_Pair :: string
  mt_SequenceID :: u64
  mt_Timestamp :: int
  mt_PriceAtomic :: string
  mt_QuantityAtomic :: string
  mt_QuoteAtomic :: string
  mt_Side :: string
  mt_PayloadHash :: string

record Candle =
  cd_Pair :: string
  cd_Interval :: string
  cd_OpenTime :: int
  cd_CloseTime :: int
  cd_Open :: string
  cd_High :: string
  cd_Low :: string
  cd_Close :: string
  cd_Volume :: string
  cd_QuoteVolume :: string
  cd_TradeCount :: u64
  cd_SequenceID :: u64

definition pair_char :: "char \<Rightarrow> bool" where
  "pair_char c \<longleftrightarrow> \<not> ((c < CHR ''A'' \<or> c > CHR ''Z'') \<and> (c < CHR ''0'' \<or> c > CHR ''9''))"

definition ValidatePair :: "(string \<Rightarrow> string) \<Rightarrow> string \<Rightarrow> market_error option" where
  "ValidatePair uni pair =
     (let p = TrimSpace pair in
      if p = [] \<or> length p > 20 \<or> p \<noteq> ToUpper uni p \<or> \<not> list_all pair_char p then Some (ErrInvalidMarketEvent ''invalid pair'') else None)"

definition positiveAtomic :: "string \<Rightarrow> bool" where
  "positiveAtomic value = (case SetString value of None \<Rightarrow> False | Some n \<Rightarrow> 0 < n)"

definition zero_timestamp :: int where
  "zero_timestamp = - epoch_day * day_ns"

definition validateTrade :: "(string \<Rightarrow> string) \<Rightarrow> MarketTrade \<Rightarrow> market_error option" where
  "validateTrade uni trade =
     (if ValidatePair uni (mt_Pair trade) \<noteq> None \<or> mt_SequenceID trade = 0 \<or> mt_Timestamp trade = zero_timestamp \<or>
         \<not> positiveAtomic (mt_PriceAtomic trade) \<or> \<not> positiveAtomic (mt_QuantityAtomic trade) \<or> \<not> positiveAtomic (mt_QuoteAtomic trade)
        then Some (ErrInvalidMarketEvent ''invalid trade'')
      else if mt_Side trade \<noteq> ''BUY'' \<and> mt_Side trade \<noteq> ''SELL'' then Some (ErrInvalidMarketEvent ''invalid trade side'')
      else None)"

text \<open>\<open>Cmp\<close> compares two nil pointers as equal and dereferences any other.\<close>

definition compareAtomic :: "string \<Rightarrow> string \<Rightarrow> market_error + int" where
  "compareAtomic left right =
     (case (SetString left, SetString right) of
        (Some a, Some b) \<Rightarrow> Inr (sgn (a - b))
      | (None, None) \<Rightarrow> Inr 0
      | _ \<Rightarrow> Inl Panic)"

definition addAtomic :: "string \<Rightarrow> string \<Rightarrow> market_error + string" where
  "addAtomic left right =
     (case (SetString left, SetString right) of (Some a, Some b) \<Rightarrow> Inr (BigString (a + b)) | _ \<Rightarrow> Inl Panic)"

definition tickerChanges :: "string \<Rightarrow> string \<Rightarrow> string \<times> string" where
  "tickerChanges lastPrice openingPrice =
     (case (SetString lastPrice, SetString openingPrice) of
        (Some l, Some opening) \<Rightarrow>
          if opening \<le> 0 then (''0'', ''0'') else (BigString (l - opening), BigString (((l - opening) * 10000) sdiv opening))
      | _ \<Rightarrow> (''0'', ''0''))"

section \<open>Candles\<close>

definition NewMinuteCandle :: "(string \<Rightarrow> string) \<Rightarrow> MarketTrade \<Rightarrow> market_error + Candle" where
  "NewMinuteCandle uni trade =
     (case validateTrade uni trade of
        Some e \<Rightarrow> Inl e
      | None \<Rightarrow>
          (case BucketStart (mt_Timestamp trade) ''1m'' of
             Inl e \<Rightarrow> Inl e
           | Inr start \<Rightarrow> Inr \<lparr>cd_Pair = mt_Pair trade, cd_Interval = ''1m'', cd_OpenTime = start, cd_CloseTime = start + minute_ns,
               cd_Open = mt_PriceAtomic trade, cd_High = mt_PriceAtomic trade, cd_Low = mt_PriceAtomic trade, cd_Close = mt_PriceAtomic trade,
               cd_Volume = mt_QuantityAtomic trade, cd_QuoteVolume = mt_QuoteAtomic trade, cd_TradeCount = 1,
               cd_SequenceID = mt_SequenceID trade\<rparr>))"

definition Candle_Add :: "(string \<Rightarrow> string) \<Rightarrow> Candle \<Rightarrow> MarketTrade \<Rightarrow> market_error + Candle" where
  "Candle_Add uni candle trade =
     (case validateTrade uni trade of
        Some e \<Rightarrow> Inl e
      | None \<Rightarrow>
          if cd_Pair candle \<noteq> mt_Pair trade \<or> \<not> mt_Timestamp trade < cd_CloseTime candle \<or> mt_Timestamp trade < cd_OpenTime candle \<or>
             mt_SequenceID trade \<le> cd_SequenceID candle
            then Inl (ErrInvalidMarketEvent ''trade does not continue candle'')
          else
            bindE (compareAtomic (mt_PriceAtomic trade) (cd_High candle)) (\<lambda>high.
            bindE (compareAtomic (mt_PriceAtomic trade) (cd_Low candle)) (\<lambda>low.
            bindE (addAtomic (cd_Volume candle) (mt_QuantityAtomic trade)) (\<lambda>volume.
            bindE (addAtomic (cd_QuoteVolume candle) (mt_QuoteAtomic trade)) (\<lambda>quote.
            Inr (candle\<lparr>cd_High := if high > 0 then mt_PriceAtomic trade else cd_High candle,
              cd_Low := if low < 0 then mt_PriceAtomic trade else cd_Low candle, cd_Close := mt_PriceAtomic trade,
              cd_Volume := volume, cd_QuoteVolume := quote, cd_TradeCount := cd_TradeCount candle + 1,
              cd_SequenceID := mt_SequenceID trade\<rparr>))))))"

definition merge_candle :: "Candle \<Rightarrow> Candle \<Rightarrow> market_error + Candle" where
  "merge_candle current minute =
     bindE (compareAtomic (cd_High minute) (cd_High current)) (\<lambda>high.
     bindE (compareAtomic (cd_Low minute) (cd_Low current)) (\<lambda>low.
     bindE (addAtomic (cd_Volume current) (cd_Volume minute)) (\<lambda>volume.
     bindE (addAtomic (cd_QuoteVolume current) (cd_QuoteVolume minute)) (\<lambda>quote.
     Inr (current\<lparr>cd_High := if high > 0 then cd_High minute else cd_High current, cd_Low := if low < 0 then cd_Low minute else cd_Low current,
       cd_Close := cd_Close minute, cd_Volume := volume, cd_QuoteVolume := quote, cd_TradeCount := cd_TradeCount current + cd_TradeCount minute,
       cd_SequenceID := if cd_SequenceID minute > cd_SequenceID current then cd_SequenceID minute else cd_SequenceID current\<rparr>)))))"

fun aggregate :: "string \<Rightarrow> Candle list \<Rightarrow> Candle list \<Rightarrow> market_error + Candle list" where
  "aggregate interval result [] = Inr result"
| "aggregate interval result (minute # minutes) =
     bindE (BucketStart (cd_OpenTime minute) interval) (\<lambda>start.
     let stop = (case BucketEnd start interval of Inr e \<Rightarrow> e | Inl _ \<Rightarrow> zero_timestamp) in
     if result = [] \<or> cd_OpenTime (last result) \<noteq> start
       then aggregate interval (result @ [minute\<lparr>cd_Interval := interval, cd_OpenTime := start, cd_CloseTime := stop\<rparr>]) minutes
     else bindE (merge_candle (last result) minute) (\<lambda>current. aggregate interval (butlast result @ [current]) minutes))"

definition AggregateCandles :: "Candle list \<Rightarrow> string \<Rightarrow> market_error + Candle list" where
  "AggregateCandles minutes interval =
     (if IntervalDuration interval = None then Inl (ErrInvalidMarketEvent ''unsupported candle interval'')
      else if interval = ''1m'' then Inr minutes
      else aggregate interval [] (sort_key cd_OpenTime minutes))"

definition gap_candle :: "Candle \<Rightarrow> int \<Rightarrow> Candle" where
  "gap_candle previous open_time =
     \<lparr>cd_Pair = cd_Pair previous, cd_Interval = ''1m'', cd_OpenTime = open_time, cd_CloseTime = open_time + minute_ns, cd_Open = cd_Close previous,
      cd_High = cd_Close previous, cd_Low = cd_Close previous, cd_Close = cd_Close previous, cd_Volume = ''0'', cd_QuoteVolume = ''0'',
      cd_TradeCount = 0, cd_SequenceID = cd_SequenceID previous\<rparr>"

partial_function (option) fill_gap :: "int \<Rightarrow> int \<Rightarrow> Candle \<Rightarrow> Candle list \<Rightarrow> Candle list option" where
  "fill_gap next_open open_time previous filled =
     (if open_time < next_open
      then fill_gap next_open (open_time + minute_ns) (gap_candle previous open_time) (filled @ [gap_candle previous open_time])
      else Some filled)"

declare fill_gap.simps [code]

fun fill_gaps :: "Candle list \<Rightarrow> Candle list \<Rightarrow> Candle list option" where
  "fill_gaps filled [] = Some filled"
| "fill_gaps filled (candle # candles) =
     (case fill_gap (cd_OpenTime candle) (cd_OpenTime (last filled) + minute_ns) (last filled) filled of
        None \<Rightarrow> None
      | Some filled' \<Rightarrow> fill_gaps (filled' @ [candle]) candles)"

definition FillMinuteGaps :: "Candle list \<Rightarrow> Candle list option" where
  "FillMinuteGaps candles = (case candles of first # second # rest \<Rightarrow> fill_gaps [first] (second # rest) | _ \<Rightarrow> Some candles)"


section \<open>Filling gaps\<close>

fun gaps :: "nat \<Rightarrow> Candle \<Rightarrow> int \<Rightarrow> Candle list" where
  "gaps 0 previous open_time = []"
| "gaps (Suc k) previous open_time = gap_candle previous open_time # gaps k (gap_candle previous open_time) (open_time + minute_ns)"

text \<open>The loop returns: it adds the minutes before the next candle.\<close>

lemma fill_gap_returns:
  "\<exists>k. fill_gap nx op p f = Some (f @ gaps k p op) \<and> nx \<le> op + int k * minute_ns \<and> (k = 0 \<or> op + (int k - 1) * minute_ns < nx)"
proof (induction "nat (nx - op)" arbitrary: op p f rule: less_induct)
  case less
  show ?case
  proof (cases "op < nx")
    case True
    have "0 < minute_ns" by (simp add: minute_ns_def)
    with True have "nat (nx - (op + minute_ns)) < nat (nx - op)" by simp
    from less [OF this, of "gap_candle p op" "f @ [gap_candle p op]"] obtain k where
      "fill_gap nx (op + minute_ns) (gap_candle p op) (f @ [gap_candle p op]) = Some (f @ gaps (Suc k) p op)"
      "nx \<le> op + minute_ns + int k * minute_ns" "k = 0 \<or> op + minute_ns + (int k - 1) * minute_ns < nx" by auto
    with True show ?thesis by (intro exI [of _ "Suc k"]) (auto simp: fill_gap.simps [of nx op] algebra_simps)
  next
    case False
    then show ?thesis by (intro exI [of _ 0]) (simp add: fill_gap.simps [of nx op])
  qed
qed

text \<open>A candle follows another if it opens one minute later and is given or carries the last price without trades.\<close>

definition follows_candle :: "Candle set \<Rightarrow> Candle \<Rightarrow> Candle \<Rightarrow> bool" where
  "follows_candle given a b \<longleftrightarrow> cd_OpenTime b = cd_OpenTime a + minute_ns \<and> (b \<in> given \<or> b = gap_candle a (cd_OpenTime b))"

definition aligned :: "Candle list \<Rightarrow> bool" where
  "aligned cs \<longleftrightarrow> successively (\<lambda>a b. cd_OpenTime a < cd_OpenTime b \<and> minute_ns dvd cd_OpenTime b - cd_OpenTime a) cs"

lemma gap_candle_open [simp]: "cd_OpenTime (gap_candle p op) = op"
  by (simp add: gap_candle_def)

lemma gaps_follow:
  "successively (follows_candle given) (p # gaps k p (cd_OpenTime p + minute_ns))"
  "cd_OpenTime (last (p # gaps k p (cd_OpenTime p + minute_ns))) = cd_OpenTime p + int k * minute_ns"
proof (induction k arbitrary: p)
  case (Suc k)
  case 1
  show ?case using Suc(1) [of "gap_candle p (cd_OpenTime p + minute_ns)"] by (simp add: follows_candle_def)
next
  case (Suc k)
  case 2
  show ?case using Suc(2) [of "gap_candle p (cd_OpenTime p + minute_ns)"] by (simp add: algebra_simps)
qed simp_all

lemma fill_gaps_returns:
  assumes "filled \<noteq> []"
  shows "\<exists>res. fill_gaps filled cs = Some (filled @ res) \<and> subseq cs res \<and>
    (aligned (last filled # cs) \<longrightarrow> successively (follows_candle (set cs)) (last filled # res) \<and> last (last filled # res) = last (last filled # cs))"
  using assms
proof (induction cs arbitrary: filled)
  case (Cons c cs)
  let ?p = "last filled"
  obtain k where k: "fill_gap (cd_OpenTime c) (cd_OpenTime ?p + minute_ns) ?p filled = Some (filled @ gaps k ?p (cd_OpenTime ?p + minute_ns))"
    "cd_OpenTime c \<le> cd_OpenTime ?p + minute_ns + int k * minute_ns" "k = 0 \<or> cd_OpenTime ?p + minute_ns + (int k - 1) * minute_ns < cd_OpenTime c"
    using fill_gap_returns by blast
  let ?gs = "gaps k ?p (cd_OpenTime ?p + minute_ns)"
  from Cons.IH [of "(filled @ ?gs) @ [c]"] obtain res where res: "fill_gaps ((filled @ ?gs) @ [c]) cs = Some (filled @ ?gs @ c # res)" "subseq cs res"
    "aligned (c # cs) \<longrightarrow> successively (follows_candle (set cs)) (c # res) \<and> last (c # res) = last (c # cs)" by auto
  have "successively (follows_candle (set (c # cs))) (?p # ?gs @ c # res) \<and> last (?p # ?gs @ c # res) = last (?p # c # cs)" if al: "aligned (?p # c # cs)"
  proof -
    have tail: "successively (follows_candle (set (c # cs))) (c # res)" "last (c # res) = last (c # cs)"
      using res(3) al by (auto simp: aligned_def follows_candle_def elim!: successively_mono)
    obtain j where j: "cd_OpenTime c = cd_OpenTime ?p + minute_ns * j" "0 < j"
      using al by (auto simp: aligned_def algebra_simps minute_ns_def elim!: dvdE)
    have "j = int k + 1" using k(2,3) j by (auto simp: minute_ns_def)
    then have "follows_candle (set (c # cs)) (last (?p # ?gs)) c" using gaps_follow(2) [of ?p k] j by (simp add: follows_candle_def algebra_simps)
    with gaps_follow(1) [of "set (c # cs)" ?p k] tail have "successively (follows_candle (set (c # cs))) ((?p # ?gs) @ c # res)"
      by (subst successively_append_iff) auto
    with tail show ?thesis by simp
  qed
  moreover have "subseq (c # cs) (?gs @ c # res)" using res(2) by (simp add: list_emb_append2 subseq_Cons2)
  ultimately show ?case using k(1) res(1) by (intro exI [of _ "?gs @ c # res"]) simp
qed simp



definition demo_candle :: "int \<Rightarrow> string \<Rightarrow> Candle" where
  "demo_candle minute price =
     \<lparr>cd_Pair = ''BTCUSDT'', cd_Interval = ''1m'', cd_OpenTime = minute * minute_ns, cd_CloseTime = (minute + 1) * minute_ns, cd_Open = price,
      cd_High = price, cd_Low = price, cd_Close = price, cd_Volume = ''5'', cd_QuoteVolume = ''50'', cd_TradeCount = 2, cd_SequenceID = of_int minute\<rparr>"


section \<open>Aggregation\<close>

text \<open>
  The reference: the candle of a bucket opens with its first minute, closes with its last, has their
  extremes as high and low and their sums as volumes and count.
\<close>

definition amount :: "string \<Rightarrow> int" where
  "amount t = the (SetString t)"

definition candle_texts :: "Candle \<Rightarrow> bool" where
  "candle_texts c \<longleftrightarrow> SetString (cd_High c) \<noteq> None \<and> SetString (cd_Low c) \<noteq> None \<and> SetString (cd_Volume c) \<noteq> None \<and> SetString (cd_QuoteVolume c) \<noteq> None"

definition summarises :: "string \<Rightarrow> Candle \<Rightarrow> Candle list \<Rightarrow> bool" where
  "summarises interval c ms \<longleftrightarrow> ms \<noteq> [] \<and> cd_Interval c = interval \<and> BucketEnd (cd_OpenTime c) interval = Inr (cd_CloseTime c) \<and>
     cd_Pair c = cd_Pair (hd ms) \<and> cd_Open c = cd_Open (hd ms) \<and> cd_Close c = cd_Close (last ms) \<and>
     SetString (cd_High c) = Some (Max ((amount \<circ> cd_High) ` set ms)) \<and> SetString (cd_Low c) = Some (Min ((amount \<circ> cd_Low) ` set ms)) \<and>
     SetString (cd_Volume c) = Some (sum_list (map (amount \<circ> cd_Volume) ms)) \<and>
     SetString (cd_QuoteVolume c) = Some (sum_list (map (amount \<circ> cd_QuoteVolume) ms)) \<and>
     cd_TradeCount c = sum_list (map cd_TradeCount ms) \<and> cd_SequenceID c = Max (cd_SequenceID ` set ms)"

lemma summarises_one:
  "candle_texts m \<Longrightarrow> BucketEnd s interval = Inr e \<Longrightarrow> summarises interval (m\<lparr>cd_Interval := interval, cd_OpenTime := s, cd_CloseTime := e\<rparr>) [m]"
  by (auto simp: summarises_def candle_texts_def amount_def)

lemma merge_summarises:
  assumes "summarises interval c ms" "candle_texts m"
  obtains c' where "merge_candle c m = Inr c'" "summarises interval c' (ms @ [m])" "cd_OpenTime c' = cd_OpenTime c"
proof -
  have ms: "ms \<noteq> []" using assms(1) by (simp add: summarises_def)
  obtain h l v q where m: "SetString (cd_High m) = Some h" "SetString (cd_Low m) = Some l" "SetString (cd_Volume m) = Some v" "SetString (cd_QuoteVolume m) = Some q"
    using assms(2) by (auto simp: candle_texts_def)
  have am: "amount (cd_High m) = h" "amount (cd_Low m) = l" "amount (cd_Volume m) = v" "amount (cd_QuoteVolume m) = q" using m by (simp_all add: amount_def)
  define H L where "H = Max ((amount \<circ> cd_High) ` set ms)" and "L = Min ((amount \<circ> cd_Low) ` set ms)"
  define S where "S = Max (cd_SequenceID ` set ms)"
  note c = assms(1) [unfolded summarises_def, folded H_def L_def S_def]
  define c' where "c' = c\<lparr>cd_High := if H < h then cd_High m else cd_High c, cd_Low := if l < L then cd_Low m else cd_Low c, cd_Close := cd_Close m,
    cd_Volume := BigString (sum_list (map (amount \<circ> cd_Volume) ms) + v), cd_QuoteVolume := BigString (sum_list (map (amount \<circ> cd_QuoteVolume) ms) + q),
    cd_TradeCount := cd_TradeCount c + cd_TradeCount m, cd_SequenceID := if S < cd_SequenceID m then cd_SequenceID m else S\<rparr>"
  have merge: "merge_candle c m = Inr c'"
    using c m by (simp add: merge_candle_def compareAtomic_def addAtomic_def bindE_def c'_def)
  have "Max ((amount \<circ> cd_High) ` set (ms @ [m])) = max h H" "Min ((amount \<circ> cd_Low) ` set (ms @ [m])) = min l L"
    "Max (cd_SequenceID ` set (ms @ [m])) = max (cd_SequenceID m) S"
    using ms am by (simp_all add: H_def L_def S_def)
  then have "summarises interval c' (ms @ [m])"
    unfolding summarises_def using c m am ms by (auto simp: c'_def max_def min_def)
  with merge show thesis by (intro that [of c']) (simp_all add: c'_def)
qed


definition bucket_minutes :: "string \<Rightarrow> Candle list \<Rightarrow> int \<Rightarrow> Candle list" where
  "bucket_minutes interval ms start = filter (\<lambda>m. BucketStart (cd_OpenTime m) interval = Inr start) ms"

definition aggregated :: "string \<Rightarrow> Candle list \<Rightarrow> Candle list \<Rightarrow> bool" where
  "aggregated interval ms rs \<longleftrightarrow> sorted_wrt (<) (map cd_OpenTime rs) \<and> (\<forall>r \<in> set rs. summarises interval r (bucket_minutes interval ms (cd_OpenTime r))) \<and>
     (\<forall>m \<in> set ms. \<exists>r \<in> set rs. BucketStart (cd_OpenTime m) interval = Inr (cd_OpenTime r))"

lemma aggregated_Nil: "aggregated interval [] []"
  by (simp add: aggregated_def)

text \<open>One more minute at the end of the list.\<close>

lemma aggregated_bound:
  assumes "IntervalDuration interval = Some d" "aggregated interval ms rs" "\<forall>x \<in> set ms. cd_OpenTime x \<le> cd_OpenTime m"
    "BucketStart (cd_OpenTime m) interval = Inr s" "r \<in> set rs"
  shows "cd_OpenTime r \<le> s"
proof -
  have "bucket_minutes interval ms (cd_OpenTime r) \<noteq> []" using assms(2,5) by (auto simp: aggregated_def summarises_def)
  then obtain x where "x \<in> set ms" "BucketStart (cd_OpenTime x) interval = Inr (cd_OpenTime r)" by (auto simp: bucket_minutes_def filter_empty_conv)
  then show ?thesis using bucket_mono [OF assms(1) _ assms(4)] assms(3) by blast
qed

lemma aggregated_new:
  assumes "aggregated interval ms rs" "\<forall>r \<in> set rs. cd_OpenTime r < s" "BucketStart (cd_OpenTime m) interval = Inr s" "BucketEnd s interval = Inr e" "candle_texts m"
  shows "aggregated interval (ms @ [m]) (rs @ [m\<lparr>cd_Interval := interval, cd_OpenTime := s, cd_CloseTime := e\<rparr>])"
proof -
  have "bucket_minutes interval ms s = []"
    using assms(1,2) by (fastforce simp: aggregated_def bucket_minutes_def filter_empty_conv)
  then have "bucket_minutes interval (ms @ [m]) s = [m]" using assms(3) by (simp add: bucket_minutes_def)
  moreover have "bucket_minutes interval (ms @ [m]) (cd_OpenTime r) = bucket_minutes interval ms (cd_OpenTime r)" if "r \<in> set rs" for r
    using assms(2,3) that by (auto simp: bucket_minutes_def)
  ultimately show ?thesis
    using assms(1,2,3) summarises_one [OF assms(5,4)] by (auto simp: aggregated_def sorted_wrt_append)
qed

lemma aggregated_merge:
  assumes "aggregated interval ms (rs @ [c])" "BucketStart (cd_OpenTime m) interval = Inr (cd_OpenTime c)" "candle_texts m"
  obtains c' where "merge_candle c m = Inr c'" "aggregated interval (ms @ [m]) (rs @ [c'])"
proof -
  have c: "summarises interval c (bucket_minutes interval ms (cd_OpenTime c))" using assms(1) by (simp add: aggregated_def)
  obtain c' where c': "merge_candle c m = Inr c'" "summarises interval c' (bucket_minutes interval ms (cd_OpenTime c) @ [m])" "cd_OpenTime c' = cd_OpenTime c"
    by (rule merge_summarises [OF c assms(3)])
  have "bucket_minutes interval (ms @ [m]) (cd_OpenTime c) = bucket_minutes interval ms (cd_OpenTime c) @ [m]" using assms(2) by (simp add: bucket_minutes_def)
  moreover have "bucket_minutes interval (ms @ [m]) (cd_OpenTime r) = bucket_minutes interval ms (cd_OpenTime r)" if "r \<in> set rs" for r
    using assms(1,2) that by (auto simp: bucket_minutes_def aggregated_def sorted_wrt_append)
  ultimately have "aggregated interval (ms @ [m]) (rs @ [c'])"
    using assms(1,2) c'(2,3) by (auto simp: aggregated_def sorted_wrt_append)
  with c'(1) show thesis by (rule that)
qed

lemma aggregate_correct:
  assumes "IntervalDuration interval = Some d" "aggregated interval done_ms rs" "sorted (map cd_OpenTime (done_ms @ ms))" "\<forall>m \<in> set ms. candle_texts m"
  shows "\<exists>rs'. aggregate interval rs ms = Inr rs' \<and> aggregated interval (done_ms @ ms) rs'"
  using assms
proof (induction ms arbitrary: done_ms rs)
  case (Cons m ms)
  obtain s e where b: "BucketStart (cd_OpenTime m) interval = Inr s" "BucketEnd s interval = Inr e" by (rule bucket_spec [OF Cons.prems(1), of "cd_OpenTime m"])
  have before: "\<forall>x \<in> set done_ms. cd_OpenTime x \<le> cd_OpenTime m" using Cons.prems(3) by (auto simp: sorted_append)
  have le: "cd_OpenTime r \<le> s" if "r \<in> set rs" for r using aggregated_bound [OF Cons.prems(1,2) before b(1) that] .
  have rest: "sorted (map cd_OpenTime ((done_ms @ [m]) @ ms))" "\<forall>m \<in> set ms. candle_texts m" "candle_texts m" using Cons.prems(3,4) by auto
  show ?case
  proof (cases "rs = [] \<or> cd_OpenTime (last rs) \<noteq> s")
    case True
    have "cd_OpenTime r < s" if r: "r \<in> set rs" for r
    proof -
      have "cd_OpenTime r \<le> cd_OpenTime (last rs)"
        using Cons.prems(2) r by (cases rs rule: rev_cases) (auto simp: aggregated_def sorted_wrt_append)
      moreover have "cd_OpenTime (last rs) < s" using True le [of "last rs"] r by (cases rs) auto
      ultimately show ?thesis by simp
    qed
    then have "aggregated interval (done_ms @ [m]) (rs @ [m\<lparr>cd_Interval := interval, cd_OpenTime := s, cd_CloseTime := e\<rparr>])"
      using aggregated_new [OF Cons.prems(2) _ b rest(3)] by blast
    from Cons.IH [OF Cons.prems(1) this rest(1,2)] show ?thesis using True b by (simp add: bindE_def)
  next
    case False
    then obtain rs0 c where rs: "rs = rs0 @ [c]" "cd_OpenTime c = s" by (cases rs rule: rev_cases) auto
    obtain c' where c': "merge_candle c m = Inr c'" "aggregated interval (done_ms @ [m]) (rs0 @ [c'])"
      using aggregated_merge [OF Cons.prems(2) [unfolded rs(1)] _ rest(3)] b(1) rs(2) by blast
    from Cons.IH [OF Cons.prems(1) c'(2) rest(1,2)] show ?thesis using False b c'(1) rs by (simp add: bindE_def)
  qed
qed simp

text \<open>
  C38: the candles of an interval summarise the minutes. For readable minutes with different opening
  times, \<open>AggregateCandles\<close> returns one candle per bucket that has minutes, in increasing order; each
  opens with the first minute of its bucket, closes with the last, has the extremes as high and low,
  the exact sums of the volumes and of the trade counts and the greatest sequence number.
\<close>

theorem AggregateCandles_summarises:
  assumes "IntervalDuration interval = Some d" "interval \<noteq> ''1m''" "\<forall>m \<in> set minutes. candle_texts m" "distinct (map cd_OpenTime minutes)"
  shows "\<exists>rs. AggregateCandles minutes interval = Inr rs \<and> sorted_wrt (<) (map cd_OpenTime rs) \<and>
    Inr ` cd_OpenTime ` set rs = (\<lambda>m. BucketStart (cd_OpenTime m) interval) ` set minutes \<and>
    (\<forall>r \<in> set rs. summarises interval r (bucket_minutes interval (sort_key cd_OpenTime minutes) (cd_OpenTime r)))"
proof -
  let ?ms = "sort_key cd_OpenTime minutes"
  obtain rs where rs: "aggregate interval [] ?ms = Inr rs" "aggregated interval ?ms rs"
    using aggregate_correct [OF assms(1) aggregated_Nil, of ?ms] assms(3) by auto
  have "\<exists>m \<in> set minutes. BucketStart (cd_OpenTime m) interval = Inr (cd_OpenTime r)" if "r \<in> set rs" for r
  proof -
    have "bucket_minutes interval ?ms (cd_OpenTime r) \<noteq> []" using rs(2) that by (auto simp: aggregated_def summarises_def)
    then show ?thesis by (auto simp: bucket_minutes_def filter_empty_conv)
  qed
  moreover have "\<exists>r \<in> set rs. BucketStart (cd_OpenTime m) interval = Inr (cd_OpenTime r)" if "m \<in> set minutes" for m
    using rs(2) that by (simp add: aggregated_def)
  ultimately have "Inr ` cd_OpenTime ` set rs = (\<lambda>m. BucketStart (cd_OpenTime m) interval) ` set minutes" by force
  with rs assms(1,2) show ?thesis by (intro exI [of _ rs]) (simp add: AggregateCandles_def aggregated_def)
qed

theorem AggregateCandles_summarises_witness:
  "\<exists>rs. AggregateCandles [demo_candle 6 ''7'', demo_candle 1 ''9'', demo_candle 4 ''8''] ''5m'' = Inr rs \<and>
     map cd_OpenTime rs = [0, 5 * minute_ns] \<and> map (\<lambda>r. SetString (cd_Volume r)) rs = [Some 10, Some 5]"
proof -
  let ?ms = "[demo_candle 6 ''7'', demo_candle 1 ''9'', demo_candle 4 ''8'']"
  have "IntervalDuration ''5m'' = Some (5 * minute_ns)" by (simp add: IntervalDuration_def intervalDurations_def)
  moreover have "\<forall>m \<in> set ?ms. candle_texts m" by code_simp
  moreover have "distinct (map cd_OpenTime ?ms)" by (simp add: demo_candle_def minute_ns_def)
  ultimately obtain rs where rs: "AggregateCandles ?ms ''5m'' = Inr rs"
    using AggregateCandles_summarises [of "''5m''" "5 * minute_ns" ?ms] by auto
  moreover have "map_sum id (map (\<lambda>r. (cd_OpenTime r, SetString (cd_Volume r)))) (AggregateCandles ?ms ''5m'') = Inr [(0, Some 10), (5 * minute_ns, Some 5)]"
    by code_simp
  ultimately show ?thesis by auto
qed

end
