(* ===== verification/Order_Book.thy ===== *)
theory Order_Book
  imports Protocol
begin

text \<open>
  Order book snapshots, internal/marketdata/snapshot.go. The generated FlatBuffers code is a
  parameter: what the builder calls of \<open>EncodeOrderBookSnapshot\<close> write and what the accessors of
  \<open>DecodeOrderBookSnapshot\<close> read from a message, where \<open>None\<close> is a panic and a level whose accessor
  answers false is a \<open>None\<close> in its list.
\<close>

section \<open>Snapshots\<close>

record OrderBookLevel =
  ol_Price :: u64
  ol_Quantity :: u64
  ol_OrderCount :: u32

record OrderBookSnapshot =
  os_SequenceID :: u64
  os_TimestampNS :: u64
  os_Pair :: string
  os_Bids :: "OrderBookLevel list"
  os_Asks :: "OrderBookLevel list"

record PublicOrderBookSnapshot =
  op_SequenceID :: u64
  op_TimestampNS :: u64
  op_Pair :: string
  op_Bids :: "string list list"
  op_Asks :: "string list list"

definition MaxSnapshotDepth :: nat where "MaxSnapshotDepth = 1000"
definition maxSnapshotMessageSize :: nat where "maxSnapshotMessageSize = 8388608"

definition publicLevels :: "OrderBookLevel list \<Rightarrow> string list list" where
  "publicLevels levels = map (\<lambda>l. [FormatUint (ol_Price l), FormatUint (ol_Quantity l), FormatUint (ucast (ol_OrderCount l))]) levels"

definition Public :: "OrderBookSnapshot \<Rightarrow> PublicOrderBookSnapshot" where
  "Public snapshot = \<lparr>op_SequenceID = os_SequenceID snapshot, op_TimestampNS = os_TimestampNS snapshot, op_Pair = os_Pair snapshot,
     op_Bids = publicLevels (os_Bids snapshot), op_Asks = publicLevels (os_Asks snapshot)\<rparr>"

definition positive_level :: "OrderBookLevel \<Rightarrow> bool" where
  "positive_level l \<longleftrightarrow> \<not> (ol_Price l = 0 \<or> ol_Quantity l = 0 \<or> ol_OrderCount l = 0)"

text \<open>The loops over neighbouring levels.\<close>

fun neighbours :: "(OrderBookLevel \<Rightarrow> OrderBookLevel \<Rightarrow> bool) \<Rightarrow> OrderBookLevel list \<Rightarrow> bool" where
  "neighbours bad (a # b # ls) = (\<not> bad a b \<and> neighbours bad (b # ls))"
| "neighbours bad _ = True"

definition Snapshot_Validate :: "OrderBookSnapshot \<Rightarrow> string option" where
  "Snapshot_Validate snapshot =
     (if os_SequenceID snapshot = 0 then Some ''order book sequence_id must be positive''
      else if os_Pair snapshot = [] \<or> length (os_Pair snapshot) > 20 then Some ''order book pair is invalid''
      else if length (os_Bids snapshot) > MaxSnapshotDepth \<or> length (os_Asks snapshot) > MaxSnapshotDepth then Some ''order book exceeds maximum depth 1000''
      else if \<not> list_all (list_all positive_level) [os_Bids snapshot, os_Asks snapshot]
        then Some ''order book levels require positive price, quantity, and order count''
      else if \<not> neighbours (\<lambda>a b. ol_Price a \<le> ol_Price b) (os_Bids snapshot) then Some ''order book bids must be strictly descending''
      else if \<not> neighbours (\<lambda>a b. ol_Price a \<ge> ol_Price b) (os_Asks snapshot) then Some ''order book asks must be strictly ascending''
      else if os_Bids snapshot \<noteq> [] \<and> os_Asks snapshot \<noteq> [] \<and> ol_Price (hd (os_Bids snapshot)) \<ge> ol_Price (hd (os_Asks snapshot))
        then Some ''order book snapshot is crossed''
      else None)"

record book_wire =
  bw_write :: "OrderBookSnapshot \<Rightarrow> string"
  bw_read :: "string \<Rightarrow> (u64 \<times> u64 \<times> string \<times> OrderBookLevel option list \<times> OrderBookLevel option list) option"

definition EncodeOrderBookSnapshot :: "book_wire \<Rightarrow> OrderBookSnapshot \<Rightarrow> string + string" where
  "EncodeOrderBookSnapshot w snapshot = (case Snapshot_Validate snapshot of Some e \<Rightarrow> Inl e | None \<Rightarrow> Inr (bw_write w snapshot))"

fun readLevels :: "OrderBookLevel option list \<Rightarrow> OrderBookLevel list" where
  "readLevels [] = []"
| "readLevels (None # ls) = readLevels ls"
| "readLevels (Some l # ls) = l # readLevels ls"

definition DecodeOrderBookSnapshot :: "book_wire \<Rightarrow> string \<Rightarrow> string + OrderBookSnapshot" where
  "DecodeOrderBookSnapshot w data =
     (if length data < 4 then Inl ''order book message is too short''
      else if length data > maxSnapshotMessageSize then Inl ''order book message exceeds 8388608 bytes''
      else case bw_read w data of
        None \<Rightarrow> Inl ''malformed order book message''
      | Some (sequence, timestamp, pair, bids, asks) \<Rightarrow>
          let snapshot = \<lparr>os_SequenceID = sequence, os_TimestampNS = timestamp, os_Pair = pair, os_Bids = readLevels bids, os_Asks = readLevels asks\<rparr> in
          (case Snapshot_Validate snapshot of Some e \<Rightarrow> Inl e | None \<Rightarrow> Inr snapshot))"

section \<open>Properties\<close>

lemma neighbours_sorted: "transp (\<lambda>a b. \<not> bad a b) \<Longrightarrow> neighbours bad ls \<longleftrightarrow> sorted_wrt (\<lambda>a b. \<not> bad a b) ls"
proof (induction bad ls rule: neighbours.induct)
  case (1 bad a b ls)
  then show ?case by (auto dest: transpD)
qed simp_all

text \<open>What a well-formed book is: bounded, positive, strictly ordered on both sides and not crossed anywhere.\<close>

definition proper_book :: "OrderBookSnapshot \<Rightarrow> bool" where
  "proper_book s \<longleftrightarrow> os_SequenceID s \<noteq> 0 \<and> os_Pair s \<noteq> [] \<and> length (os_Pair s) \<le> 20 \<and> length (os_Bids s) \<le> 1000 \<and> length (os_Asks s) \<le> 1000 \<and>
     (\<forall>l \<in> set (os_Bids s) \<union> set (os_Asks s). 0 < ol_Price l \<and> 0 < ol_Quantity l \<and> 0 < ol_OrderCount l) \<and>
     sorted_wrt (>) (map ol_Price (os_Bids s)) \<and> sorted_wrt (<) (map ol_Price (os_Asks s)) \<and>
     (\<forall>b \<in> set (os_Bids s). \<forall>a \<in> set (os_Asks s). ol_Price b < ol_Price a)"

lemma Validate_proper: "Snapshot_Validate s = None \<longleftrightarrow> proper_book s"
proof -
  have bids: "neighbours (\<lambda>a b. ol_Price a \<le> ol_Price b) (os_Bids s) \<longleftrightarrow> sorted_wrt (>) (map ol_Price (os_Bids s))"
    by (subst neighbours_sorted) (auto simp: transp_def not_le sorted_wrt_map)
  have asks: "neighbours (\<lambda>a b. ol_Price a \<ge> ol_Price b) (os_Asks s) \<longleftrightarrow> sorted_wrt (<) (map ol_Price (os_Asks s))"
    by (subst neighbours_sorted) (auto simp: transp_def not_le sorted_wrt_map)
  have "(os_Bids s \<noteq> [] \<and> os_Asks s \<noteq> [] \<longrightarrow> ol_Price (hd (os_Bids s)) < ol_Price (hd (os_Asks s))) \<longleftrightarrow>
      (\<forall>b \<in> set (os_Bids s). \<forall>a \<in> set (os_Asks s). ol_Price b < ol_Price a)"
    if "sorted_wrt (>) (map ol_Price (os_Bids s))" "sorted_wrt (<) (map ol_Price (os_Asks s))"
    using that by (cases "os_Bids s"; cases "os_Asks s") (auto, (metis less_trans)+)
  then show ?thesis
    unfolding Snapshot_Validate_def proper_book_def bids asks
    by (auto simp: MaxSnapshotDepth_def positive_level_def list_all_iff word_gt_0 not_le not_less split: if_splits) (meson hd_in_set leD)
qed

text \<open>
  The documented behaviour of FlatBuffers: a finished message has at least four bytes and reads back
  as what was written.
\<close>

definition book_wire_ok :: "book_wire \<Rightarrow> bool" where
  "book_wire_ok w \<longleftrightarrow> (\<forall>s. 4 \<le> length (bw_write w s) \<and>
     bw_read w (bw_write w s) = Some (os_SequenceID s, os_TimestampNS s, os_Pair s, map Some (os_Bids s), map Some (os_Asks s)))"

lemma readLevels_Some [simp]: "readLevels (map Some ls) = ls"
  by (induction ls) auto

lemma decode_written:
  assumes "book_wire_ok w" "proper_book s" "length (bw_write w s) \<le> maxSnapshotMessageSize"
  shows "DecodeOrderBookSnapshot w (bw_write w s) = Inr s"
proof -
  have "Snapshot_Validate s = None" using assms(2) by (simp add: Validate_proper)
  moreover have "\<not> length (bw_write w s) < 4"
    "bw_read w (bw_write w s) = Some (os_SequenceID s, os_TimestampNS s, os_Pair s, map Some (os_Bids s), map Some (os_Asks s))"
    using assms(1) by (simp_all add: book_wire_ok_def not_less)
  ultimately show ?thesis using assms(3) by (cases s) (simp add: DecodeOrderBookSnapshot_def Let_def)
qed

text \<open>
  Order books survive the wire and only well-formed ones pass it. Whatever the bytes are, a
  decoded snapshot has a positive sequence number, at most 1000 positive levels a side, strictly
  falling bids, strictly rising asks and no bid at or above any ask; and every such snapshot is
  encoded, and decoded back to itself if the message is within the size limit.
\<close>

theorem order_book_roundtrip:
  assumes "book_wire_ok w"
  shows "(DecodeOrderBookSnapshot w data = Inr s' \<longrightarrow> proper_book s') \<and> (EncodeOrderBookSnapshot w s = Inr (bw_write w s) \<longleftrightarrow> proper_book s) \<and>
    (proper_book s \<and> length (bw_write w s) \<le> maxSnapshotMessageSize \<longrightarrow> DecodeOrderBookSnapshot w (bw_write w s) = Inr s)"
proof (intro conjI impI)
  show "proper_book s'" if "DecodeOrderBookSnapshot w data = Inr s'"
    using that by (auto simp: DecodeOrderBookSnapshot_def Let_def Validate_proper [symmetric] split: if_splits option.splits)
  show "EncodeOrderBookSnapshot w s = Inr (bw_write w s) \<longleftrightarrow> proper_book s"
    by (auto simp: EncodeOrderBookSnapshot_def Validate_proper [symmetric] split: option.splits)
  show "DecodeOrderBookSnapshot w (bw_write w s) = Inr s" if "proper_book s \<and> length (bw_write w s) \<le> maxSnapshotMessageSize"
    using decode_written [OF assms] that by blast
qed

text \<open>A text encoding that satisfies the laws, to evaluate the model on.\<close>

definition level_fields :: "OrderBookLevel \<Rightarrow> string list" where
  "level_fields l = [FormatUint (ol_Price l), FormatUint (ol_Quantity l), FormatUint (ucast (ol_OrderCount l))]"

fun levels_of :: "string list \<Rightarrow> OrderBookLevel list" where
  "levels_of (p # q # n # fs) = \<lparr>ol_Price = text_u64 p, ol_Quantity = text_u64 q, ol_OrderCount = ucast (text_u64 n)\<rparr> # levels_of fs"
| "levels_of _ = []"

definition side_text :: "OrderBookLevel list \<Rightarrow> string" where
  "side_text ls = fields_text (replicate (length ls) CHR ''x'' # concat (map level_fields ls))"

definition side_of :: "string \<Rightarrow> OrderBookLevel list" where
  "side_of s = levels_of (tl (Protocol.fields (1 + 3 * length (hd (Protocol.fields 1 s))) s))"

definition text_book_wire :: book_wire where
  "text_book_wire = \<lparr>
     bw_write = (\<lambda>s. fields_text [FormatUint (os_SequenceID s), FormatUint (os_TimestampNS s), os_Pair s, side_text (os_Bids s), side_text (os_Asks s)]),
     bw_read = (\<lambda>m. case Protocol.fields 5 m of [q, t, p, bids, asks] \<Rightarrow> Some (text_u64 q, text_u64 t, p, map Some (side_of bids), map Some (side_of asks)) | _ \<Rightarrow> None)\<rparr>"

lemma ucast_u32 [simp]: "ucast (ucast (n :: u32) :: u64) = n"
  by (rule bit_word_eqI) (auto simp: bit_ucast_iff)

lemma levels_of_fields [simp]: "levels_of (concat (map level_fields ls)) = ls" "length (concat (map level_fields ls)) = 3 * length ls"
  by (induction ls) (auto simp: level_fields_def)

lemma side_of_text [simp]: "side_of (side_text ls) = ls"
proof -
  have "hd (Protocol.fields 1 (side_text ls)) = replicate (length ls) CHR ''x''" by (simp add: side_text_def fields_text_def)
  moreover have "Protocol.fields (1 + 3 * length ls) (side_text ls) = replicate (length ls) CHR ''x'' # concat (map level_fields ls)"
    unfolding side_text_def by (rule fields_fields_text_all) simp
  ultimately show ?thesis by (simp only: side_of_def length_replicate list.sel levels_of_fields)
qed

lemma text_book_wire_ok: "book_wire_ok text_book_wire"
  unfolding book_wire_ok_def
proof (intro allI conjI)
  fix s :: OrderBookSnapshot
  show "4 \<le> length (bw_write text_book_wire s)" by (simp add: text_book_wire_def fields_text_def quoted_def)
  show "bw_read text_book_wire (bw_write text_book_wire s) =
    Some (os_SequenceID s, os_TimestampNS s, os_Pair s, map Some (os_Bids s), map Some (os_Asks s))"
    by (simp add: text_book_wire_def del: Protocol.fields.simps)
qed

definition demo_book :: OrderBookSnapshot where
  "demo_book = \<lparr>os_SequenceID = 7, os_TimestampNS = 1, os_Pair = ''BTCUSDT'',
     os_Bids = [\<lparr>ol_Price = 99, ol_Quantity = 5, ol_OrderCount = 1\<rparr>, \<lparr>ol_Price = 98, ol_Quantity = 4, ol_OrderCount = 2\<rparr>],
     os_Asks = [\<lparr>ol_Price = 101, ol_Quantity = 3, ol_OrderCount = 1\<rparr>]\<rparr>"

lemma demo_book_proper: "proper_book demo_book" "length (bw_write text_book_wire demo_book) \<le> maxSnapshotMessageSize"
proof -
  show "proper_book demo_book" by (simp add: Validate_proper [symmetric]) code_simp
  show "length (bw_write text_book_wire demo_book) \<le> maxSnapshotMessageSize"
    by (simp add: text_book_wire_def demo_book_def side_text_def fields_text_def quoted_def level_fields_def FormatUint_def digits_of.simps maxSnapshotMessageSize_def)
qed

theorem order_book_roundtrip_witness:
  "proper_book demo_book \<and> DecodeOrderBookSnapshot text_book_wire (bw_write text_book_wire demo_book) = Inr demo_book"
  using order_book_roundtrip [OF text_book_wire_ok, of "[]" demo_book demo_book] demo_book_proper by simp

end
