(* ===== verification/Market_Store.thy ===== *)
theory Market_Store
  imports Candles Order_Book Market_Maker "HOL-Library.Product_Lexorder"
begin

text \<open>
  The market data store, internal/marketdata/postgres.go. Trades of the engine arrive with a sequence
  number per pair; the store accepts them in order, keeps them and maintains the minute candles with
  an upsert. A gap is recorded and committed although the call reports an error, so the claim returns
  its error as a value. The trading tables (pairs and orders) are read, never written; the time
  columns of the market maker's control and configuration, which its own model does not keep, are
  parameters of the reference status. Stored times are microseconds.
\<close>

section \<open>Tables\<close>

record stream_row =
  ms_pair :: string
  ms_stream :: string
  ms_last :: int
  ms_mode :: string

record candle_row =
  ck_pair :: string
  ck_open_time :: int
  ck_open :: int
  ck_high :: int
  ck_low :: int
  ck_close :: int
  ck_volume :: int
  ck_quote_volume :: int
  ck_count :: int
  ck_last :: int

record trade_event_row =
  me_pair :: string
  me_sequence :: int
  me_at :: int
  me_price :: int
  me_quantity :: int
  me_quote :: int
  me_side :: string
  me_hash :: string

record market_tables =
  market_stream_sequences :: "stream_row list"
  market_candles_1m :: "candle_row list"
  market_trade_events :: "trade_event_row list"

type_synonym market_failure = "market_error failure"
type_synonym 'a market_tx = "(market_tables, market_failure, 'a) tx"

section \<open>Sequences\<close>

definition stream_of :: "string \<Rightarrow> string \<Rightarrow> stream_row \<Rightarrow> bool" where
  "stream_of pair stream r \<longleftrightarrow> ms_pair r = pair \<and> ms_stream r = stream"

definition insert_stream :: "trading_db \<Rightarrow> stream_row \<Rightarrow> unit market_tx" where
  "insert_stream db row =
     bindT (ensureT (ms_pair row \<in> pr_symbol ` set (trading_pairs db)) foreign_key_violation) (\<lambda>_.
     execT (\<lambda>s. s\<lparr>market_stream_sequences := market_stream_sequences s @ [row]\<rparr>))"

definition set_stream :: "string \<Rightarrow> string \<Rightarrow> (stream_row \<Rightarrow> stream_row) \<Rightarrow> unit market_tx" where
  "set_stream pair stream f = execT (\<lambda>s. s\<lparr>market_stream_sequences := update_where (stream_of pair stream) f (market_stream_sequences s)\<rparr>)"

text \<open>The result is accepted and duplicate, or the error of a gap that has been committed.\<close>

definition claimSequence :: "trading_db \<Rightarrow> string \<Rightarrow> string \<Rightarrow> u64 \<Rightarrow> bool \<Rightarrow> (market_failure + bool \<times> bool) market_tx" where
  "claimSequence db pair stream sequence allowInitialAny =
     bindT (queryT (\<lambda>s. find (stream_of pair stream) (market_stream_sequences s))) (\<lambda>found.
     case found of
       None \<Rightarrow>
         if allowInitialAny \<or> sequence = 1 then
           bindT (insert_stream db \<lparr>ms_pair = pair, ms_stream = stream, ms_last = uint sequence, ms_mode = ''active''\<rparr>) (\<lambda>_. returnT (Inr (True, False)))
         else
           bindT (insert_stream db \<lparr>ms_pair = pair, ms_stream = stream, ms_last = 0, ms_mode = ''replay_required''\<rparr>) (\<lambda>_.
           returnT (Inl (App (SequenceGapError pair stream 1 sequence))))
     | Some r \<Rightarrow>
         bindT (ensureT (0 \<le> ms_last r \<and> ms_last r < 2 ^ 64) (App (ErrMarketText ''invalid market sequence''))) (\<lambda>_.
         let lastSequence = (of_int (ms_last r) :: u64) in
         if sequence \<le> lastSequence then returnT (Inr (False, True))
         else if sequence \<noteq> lastSequence + 1 then
           bindT (set_stream pair stream (\<lambda>r. r\<lparr>ms_mode := ''replay_required''\<rparr>)) (\<lambda>_.
           returnT (Inl (App (SequenceGapError pair stream (lastSequence + 1) sequence))))
         else
           bindT (set_stream pair stream (\<lambda>r. r\<lparr>ms_last := uint sequence, ms_mode := ''active''\<rparr>)) (\<lambda>_. returnT (Inr (True, False)))))"

definition ClaimOrderBookSequence :: "trading_db \<Rightarrow> string \<Rightarrow> u64 \<Rightarrow> market_tables \<Rightarrow> (market_failure + bool \<times> bool) \<times> market_tables" where
  "ClaimOrderBookSequence db pair sequence s =
     (case transaction (claimSequence db pair ''orderbook'' sequence True) s of (Inl e, t) \<Rightarrow> (Inl e, t) | (Inr x, t) \<Rightarrow> (x, t))"

section \<open>Trades and candles\<close>

definition insert_event :: "trading_db \<Rightarrow> trade_event_row \<Rightarrow> unit market_tx" where
  "insert_event db row =
     bindT (ensureT (me_price row < 10 ^ 20 \<and> me_quantity row < 10 ^ 20 \<and> me_quote row < 10 ^ 78) (Pg ''22003'')) (\<lambda>_.
     bindT (ensureT (0 < me_sequence row \<and> 0 < me_price row \<and> 0 < me_quantity row \<and> 0 < me_quote row \<and> me_side row \<in> {''BUY'', ''SELL''} \<and>
       length (me_hash row) = 32) check_violation) (\<lambda>_.
     bindT (queryT (\<lambda>s. (\<lambda>e. (me_pair e, me_sequence e)) ` set (market_trade_events s))) (\<lambda>keys.
     bindT (ensureT ((me_pair row, me_sequence row) \<notin> keys) unique_violation) (\<lambda>_.
     bindT (ensureT (me_pair row \<in> pr_symbol ` set (trading_pairs db)) foreign_key_violation) (\<lambda>_.
     execT (\<lambda>s. s\<lparr>market_trade_events := market_trade_events s @ [row]\<rparr>))))))"

definition candle_checks :: "candle_row \<Rightarrow> unit market_tx" where
  "candle_checks c =
     bindT (ensureT (ck_open c < 10 ^ 20 \<and> ck_high c < 10 ^ 20 \<and> ck_low c < 10 ^ 20 \<and> ck_close c < 10 ^ 20 \<and> ck_volume c < 10 ^ 78 \<and>
       ck_quote_volume c < 10 ^ 78 \<and> ck_count c < 2 ^ 63) (Pg ''22003'')) (\<lambda>_.
     ensureT (0 < ck_open c \<and> 0 < ck_high c \<and> 0 < ck_low c \<and> 0 < ck_close c \<and> 0 \<le> ck_volume c \<and> 0 \<le> ck_quote_volume c \<and> 0 \<le> ck_count c \<and>
       0 < ck_last c \<and> 60000000 dvd ck_open_time c \<and> ck_open c \<le> ck_high c \<and> ck_close c \<le> ck_high c \<and> ck_low c \<le> ck_open c \<and>
       ck_low c \<le> ck_close c) check_violation)"

definition candle_key :: "string \<Rightarrow> int \<Rightarrow> candle_row \<Rightarrow> bool" where
  "candle_key pair open_time c \<longleftrightarrow> ck_pair c = pair \<and> ck_open_time c = open_time"

definition merge_row :: "candle_row \<Rightarrow> candle_row \<Rightarrow> candle_row" where
  "merge_row excluded c = c\<lparr>ck_high := max (ck_high c) (ck_high excluded), ck_low := min (ck_low c) (ck_low excluded), ck_close := ck_close excluded,
     ck_volume := ck_volume c + ck_volume excluded, ck_quote_volume := ck_quote_volume c + ck_quote_volume excluded,
     ck_count := ck_count c + 1, ck_last := ck_last excluded\<rparr>"

definition upsert_candle :: "trading_db \<Rightarrow> candle_row \<Rightarrow> candle_row market_tx" where
  "upsert_candle db row =
     bindT (candle_checks row) (\<lambda>_.
     bindT (queryT (\<lambda>s. find (candle_key (ck_pair row) (ck_open_time row)) (market_candles_1m s))) (\<lambda>found.
     case found of
       None \<Rightarrow>
         bindT (ensureT (ck_pair row \<in> pr_symbol ` set (trading_pairs db)) foreign_key_violation) (\<lambda>_.
         bindT (execT (\<lambda>s. s\<lparr>market_candles_1m := market_candles_1m s @ [row]\<rparr>)) (\<lambda>_. returnT row))
     | Some c \<Rightarrow>
         bindT (candle_checks (merge_row row c)) (\<lambda>_.
         bindT (execT (\<lambda>s. s\<lparr>market_candles_1m := update_where (candle_key (ck_pair row) (ck_open_time row)) (merge_row row) (market_candles_1m s)\<rparr>)) (\<lambda>_.
         returnT (merge_row row c)))))"

definition zero_candle :: Candle where
  "zero_candle = \<lparr>cd_Pair = [], cd_Interval = [], cd_OpenTime = zero_timestamp, cd_CloseTime = zero_timestamp, cd_Open = [], cd_High = [], cd_Low = [],
     cd_Close = [], cd_Volume = [], cd_QuoteVolume = [], cd_TradeCount = 0, cd_SequenceID = 0\<rparr>"

definition candle_of_row :: "string \<Rightarrow> candle_row \<Rightarrow> Candle" where
  "candle_of_row pair c = \<lparr>cd_Pair = pair, cd_Interval = ''1m'', cd_OpenTime = ck_open_time c * 1000, cd_CloseTime = ck_open_time c * 1000 + minute_ns,
     cd_Open = BigString (ck_open c), cd_High = BigString (ck_high c), cd_Low = BigString (ck_low c), cd_Close = BigString (ck_close c),
     cd_Volume = BigString (ck_volume c), cd_QuoteVolume = BigString (ck_quote_volume c), cd_TradeCount = of_int (ck_count c),
     cd_SequenceID = of_int (ck_last c)\<rparr>"

text \<open>The rows written for a trade; its texts have been validated.\<close>

definition event_row :: "MarketTrade \<Rightarrow> trade_event_row" where
  "event_row trade = \<lparr>me_pair = mt_Pair trade, me_sequence = uint (mt_SequenceID trade), me_at = mt_Timestamp trade div 1000,
     me_price = amount (mt_PriceAtomic trade), me_quantity = amount (mt_QuantityAtomic trade), me_quote = amount (mt_QuoteAtomic trade),
     me_side = mt_Side trade, me_hash = mt_PayloadHash trade\<rparr>"

definition minute_row :: "MarketTrade \<Rightarrow> int \<Rightarrow> candle_row" where
  "minute_row trade open_time = \<lparr>ck_pair = mt_Pair trade, ck_open_time = open_time div 1000, ck_open = amount (mt_PriceAtomic trade),
     ck_high = amount (mt_PriceAtomic trade), ck_low = amount (mt_PriceAtomic trade), ck_close = amount (mt_PriceAtomic trade),
     ck_volume = amount (mt_QuantityAtomic trade), ck_quote_volume = amount (mt_QuoteAtomic trade), ck_count = 1, ck_last = uint (mt_SequenceID trade)\<rparr>"

definition duplicate_trade :: "MarketTrade \<Rightarrow> (market_failure + Candle \<times> bool) market_tx" where
  "duplicate_trade trade =
     bindT (queryT (\<lambda>s. find (\<lambda>e. me_pair e = mt_Pair trade \<and> me_sequence e = uint (mt_SequenceID trade)) (market_trade_events s))) (\<lambda>stored.
     case stored of
       None \<Rightarrow> returnT (Inr (zero_candle, True))
     | Some e \<Rightarrow>
         bindT (ensureT (me_hash e = mt_PayloadHash trade) (App ErrMarketSequenceConflict)) (\<lambda>_. returnT (Inr (zero_candle, True))))"

definition record_trade :: "(string \<Rightarrow> string) \<Rightarrow> trading_db \<Rightarrow> MarketTrade \<Rightarrow> (market_failure + Candle \<times> bool) market_tx" where
  "record_trade uni db trade =
     bindT (insert_event db (event_row trade)) (\<lambda>_.
     let open_time = (case NewMinuteCandle uni trade of Inr minute \<Rightarrow> cd_OpenTime minute | Inl _ \<Rightarrow> zero_timestamp) in
     bindT (upsert_candle db (minute_row trade open_time)) (\<lambda>c.
     returnT (Inr (candle_of_row (mt_Pair trade) c, False))))"

definition ApplyTrade_tx :: "(string \<Rightarrow> string) \<Rightarrow> trading_db \<Rightarrow> MarketTrade \<Rightarrow> (market_failure + Candle \<times> bool) market_tx" where
  "ApplyTrade_tx uni db trade =
     bindT (claimSequence db (mt_Pair trade) ''trades'' (mt_SequenceID trade) False) (\<lambda>claim.
     case claim of
       Inl e \<Rightarrow> returnT (Inl e)
     | Inr (accepted, duplicate) \<Rightarrow>
         if duplicate then duplicate_trade trade
         else if \<not> accepted then returnT (Inr (zero_candle, False))
         else record_trade uni db trade)"

definition ApplyTrade :: "(string \<Rightarrow> string) \<Rightarrow> trading_db \<Rightarrow> MarketTrade \<Rightarrow> market_tables \<Rightarrow> (market_failure + Candle \<times> bool) \<times> market_tables" where
  "ApplyTrade uni db trade s =
     (case validateTrade uni trade of
        Some e \<Rightarrow> (Inl (App e), s)
      | None \<Rightarrow> (case transaction (ApplyTrade_tx uni db trade) s of (Inl e, t) \<Rightarrow> (Inl e, t) | (Inr x, t) \<Rightarrow> (x, t)))"

section \<open>Reads\<close>

record Market =
  mk_Pair :: string
  mk_BaseAsset :: string
  mk_QuoteAsset :: string
  mk_PriceScale :: int
  mk_QuantityScale :: int
  mk_Status :: string

record Ticker =
  tk_Pair :: string
  tk_SequenceID :: u64
  tk_LastPrice :: string
  tk_High24H :: string
  tk_Low24H :: string
  tk_Volume24H :: string
  tk_QuoteVolume24H :: string
  tk_Change24H :: string
  tk_ChangeBPS24H :: string
  tk_ReferencePrice :: string
  tk_ReferenceObservedAt :: "int option"
  tk_ReferenceStatus :: string

definition Markets :: "trading_db \<Rightarrow> Market list" where
  "Markets db =
     sort_key mk_Pair (concat (map (\<lambda>p. concat (map (\<lambda>b. map (\<lambda>q.
         \<lparr>mk_Pair = pr_symbol p, mk_BaseAsset = as_symbol b, mk_QuoteAsset = as_symbol q, mk_PriceScale = pr_price_scale p,
          mk_QuantityScale = pr_quantity_scale p, mk_Status = pr_status p\<rparr>)
         (filter (\<lambda>q. as_id q = pr_quote p) (assets db))) (filter (\<lambda>b. as_id b = pr_base p) (assets db))))
       (filter (\<lambda>p. pr_status p \<noteq> ''disabled'') (trading_pairs db))))"

definition PairExists :: "trading_db \<Rightarrow> string \<Rightarrow> bool" where
  "PairExists db pair = list_ex (\<lambda>p. pr_symbol p = pair \<and> pr_status p \<noteq> ''disabled'') (trading_pairs db)"

definition TakerSide :: "trading_db \<Rightarrow> string \<Rightarrow> market_failure + string" where
  "TakerSide db orderID =
     (case find (\<lambda>d. od_id d = orderID) (orders db) of None \<Rightarrow> Inl (App (ErrMarketText ''no rows in result set'')) | Some d \<Rightarrow> Inr (od_side d))"

text \<open>\<open>sequence_id::text\<close> read back as an unsigned 64-bit number.\<close>

definition stored_sequence :: "string \<Rightarrow> int \<Rightarrow> market_failure + u64" where
  "stored_sequence what n = (if 0 \<le> n \<and> n < 2 ^ 64 then Inr (of_int n) else Inl (App (ErrMarketText what)))"

fun mapE :: "('a \<Rightarrow> 'e + 'b) \<Rightarrow> 'a list \<Rightarrow> 'e + 'b list" where
  "mapE f [] = Inr []"
| "mapE f (x # xs) = bindE (f x) (\<lambda>y. bindE (mapE f xs) (\<lambda>ys. Inr (y # ys)))"

definition trade_of_row :: "string \<Rightarrow> trade_event_row \<Rightarrow> market_failure + MarketTrade" where
  "trade_of_row pair e =
     bindE (stored_sequence ''invalid stored trade sequence'' (me_sequence e)) (\<lambda>sequence.
     Inr \<lparr>mt_Pair = pair, mt_SequenceID = sequence, mt_Timestamp = me_at e * 1000, mt_PriceAtomic = BigString (me_price e),
       mt_QuantityAtomic = BigString (me_quantity e), mt_QuoteAtomic = BigString (me_quote e), mt_Side = me_side e, mt_PayloadHash = replicate 32 (char_of (0 :: nat))\<rparr>)"

definition RecentTrades :: "string \<Rightarrow> nat \<Rightarrow> market_tables \<Rightarrow> market_failure + MarketTrade list" where
  "RecentTrades pair limit s =
     mapE (trade_of_row pair) (take limit (sort_key (\<lambda>e. (- me_at e, - me_sequence e)) (filter (\<lambda>e. me_pair e = pair) (market_trade_events s))))"

definition MinuteCandles :: "string \<Rightarrow> int \<Rightarrow> nat \<Rightarrow> market_tables \<Rightarrow> market_failure + Candle list" where
  "MinuteCandles pair before limit s =
     bindE (mapE (\<lambda>c. bindE (stored_sequence ''invalid stored candle sequence'' (ck_last c)) (\<lambda>_. Inr (candle_of_row pair c)))
       (take limit (sort_key (\<lambda>c. - ck_open_time c) (filter (\<lambda>c. ck_pair c = pair \<and> ck_open_time c < before div 1000) (market_candles_1m s)))))
       (\<lambda>reversed. Inr (rev reversed))"

text \<open>The statistics of a pair since a time, with zeros where there are no trades.\<close>

definition ticker_stats :: "string \<Rightarrow> int \<Rightarrow> market_tables \<Rightarrow> int \<times> int \<times> int \<times> int \<times> int \<times> int \<times> int" where
  "ticker_stats pair since s =
     (let es = filter (\<lambda>e. me_pair e = pair \<and> since \<le> me_at e) (market_trade_events s);
          ordered = sort_key (\<lambda>e. (me_at e, me_sequence e)) es in
      if es = [] then (0, 0, 0, 0, 0, 0, 0)
      else (me_price (last ordered), Max (me_price ` set es), Min (me_price ` set es), sum_list (map me_quantity es), sum_list (map me_quote es),
        me_price (hd ordered), Max (me_sequence ` set es)))"

definition plain_ticker :: "string \<Rightarrow> int \<Rightarrow> market_tables \<Rightarrow> market_failure + Ticker" where
  "plain_ticker pair now s =
     (case ticker_stats pair ((now - day_ns) div 1000) s of
        (lastPrice, high, low, volume, quote, first, sequence) \<Rightarrow>
          bindE (stored_sequence ''invalid ticker sequence'' sequence) (\<lambda>sequenceID.
          let (change, bps) = tickerChanges (BigString lastPrice) (BigString first) in
          Inr \<lparr>tk_Pair = pair, tk_SequenceID = sequenceID, tk_LastPrice = BigString lastPrice, tk_High24H = BigString high, tk_Low24H = BigString low,
            tk_Volume24H = BigString volume, tk_QuoteVolume24H = BigString quote, tk_Change24H = change, tk_ChangeBPS24H = bps,
            tk_ReferencePrice = [], tk_ReferenceObservedAt = None, tk_ReferenceStatus = []\<rparr>))"

definition reference_status :: "mm_tables \<Rightarrow> int \<Rightarrow> (string \<Rightarrow> int) \<Rightarrow> int \<Rightarrow> mm_config_row \<Rightarrow> mm_risk_row \<Rightarrow> string" where
  "reference_status mm controlUpdated configUpdated now p r =
     (let c = market_maker_control mm in
      if \<not> mo_enabled c \<or> \<not> mg_enabled p then ''disabled''
      else if mo_kill_switch c then ''stopped''
      else if mr_updated_at r < max controlUpdated (configUpdated (mg_pair p)) then ''unavailable''
      else if mr_updated_at r > now \<or> mr_updated_at r < now - mg_stale_after_seconds p * 1000000 then ''stale''
      else if mr_last_decision r \<notin> {''dry_run'', ''quoting'', ''duplicate_cycle''} \<or> mr_last_reference r = None then ''unavailable''
      else ''fresh'')"

definition attach_reference :: "mm_tables \<Rightarrow> int \<Rightarrow> (string \<Rightarrow> int) \<Rightarrow> int \<Rightarrow> mm_config_row \<Rightarrow> mm_risk_row \<Rightarrow> Ticker \<Rightarrow> Ticker" where
  "attach_reference mm controlUpdated configUpdated now p r t =
     (let status = reference_status mm controlUpdated configUpdated now p r in
      if status = ''fresh'' then
        (case mr_last_reference r of
           Some price \<Rightarrow>
             if positiveAtomic (BigString price)
             then t\<lparr>tk_ReferenceStatus := status, tk_ReferencePrice := BigString price, tk_ReferenceObservedAt := Some (mr_updated_at r * 1000)\<rparr>
             else t\<lparr>tk_ReferenceStatus := ''unavailable''\<rparr>
         | None \<Rightarrow> t\<lparr>tk_ReferenceStatus := ''unavailable''\<rparr>)
      else t\<lparr>tk_ReferenceStatus := status\<rparr>)"

definition attachReferences :: "mm_tables \<Rightarrow> int \<Rightarrow> (string \<Rightarrow> int) \<Rightarrow> int \<Rightarrow> Ticker list \<Rightarrow> Ticker list" where
  "attachReferences mm controlUpdated configUpdated now tickers =
     foldl (\<lambda>ts (r, p). update_where (\<lambda>t. tk_Pair t = mr_pair r) (attach_reference mm controlUpdated configUpdated (now div 1000) p r) ts)
       (map (\<lambda>t. t\<lparr>tk_ReferencePrice := ''0'', tk_ReferenceStatus := ''unavailable''\<rparr>) tickers)
       (filter (\<lambda>(r, p). mg_pair p = mr_pair r \<and> mr_pair r \<in> tk_Pair ` set tickers)
         (List.product (market_maker_risk_state mm) (market_maker_configs mm)))"

definition Ticker_of :: "mm_tables \<Rightarrow> int \<Rightarrow> (string \<Rightarrow> int) \<Rightarrow> string \<Rightarrow> int \<Rightarrow> market_tables \<Rightarrow> market_failure + Ticker" where
  "Ticker_of mm controlUpdated configUpdated pair now s =
     bindE (plain_ticker pair now s) (\<lambda>ticker. Inr (hd (attachReferences mm controlUpdated configUpdated now [ticker])))"

definition Tickers :: "trading_db \<Rightarrow> mm_tables \<Rightarrow> int \<Rightarrow> (string \<Rightarrow> int) \<Rightarrow> int \<Rightarrow> market_tables \<Rightarrow> market_failure + Ticker list" where
  "Tickers db mm controlUpdated configUpdated now s =
     bindE (mapE (\<lambda>pair. plain_ticker pair now s) (sort (map pr_symbol (filter (\<lambda>p. pr_status p \<noteq> ''disabled'') (trading_pairs db)))))
       (\<lambda>tickers. Inr (attachReferences mm controlUpdated configUpdated now tickers))"

end
