(* ===== verification/Market_Ticks.thy ===== *)
theory Market_Ticks
  imports Market_Store Trading_System
begin

text \<open>
  The stored candles are the candles of the stored trades. The invariant compares the table that the
  upsert maintains trade by trade with a definition that looks at all trades of a minute at once.
\<close>

section \<open>The reference\<close>

definition minute_of :: "int \<Rightarrow> int" where
  "minute_of at = at div 60000000 * 60000000"

definition minute_events :: "string \<Rightarrow> int \<Rightarrow> market_tables \<Rightarrow> trade_event_row list" where
  "minute_events p t s = filter (\<lambda>e. me_pair e = p \<and> minute_of (me_at e) = t) (market_trade_events s)"

definition candle_of :: "string \<Rightarrow> int \<Rightarrow> trade_event_row list \<Rightarrow> candle_row" where
  "candle_of p t es = \<lparr>ck_pair = p, ck_open_time = t, ck_open = me_price (hd es), ck_high = Max (me_price ` set es), ck_low = Min (me_price ` set es),
     ck_close = me_price (last es), ck_volume = sum_list (map me_quantity es), ck_quote_volume = sum_list (map me_quote es),
     ck_count = int (length es), ck_last = me_sequence (last es)\<rparr>"

definition candles_match :: "market_tables \<Rightarrow> bool" where
  "candles_match s \<longleftrightarrow> (\<forall>p t. filter (candle_key p t) (market_candles_1m s) =
     (if minute_events p t s = [] then [] else [candle_of p t (minute_events p t s)]))"

definition trades_last :: "string \<Rightarrow> market_tables \<Rightarrow> int" where
  "trades_last p s = (case find (stream_of p ''trades'') (market_stream_sequences s) of None \<Rightarrow> 0 | Some r \<Rightarrow> ms_last r)"

definition trades_gapless :: "market_tables \<Rightarrow> bool" where
  "trades_gapless s \<longleftrightarrow> (\<forall>p. map me_sequence (filter (\<lambda>e. me_pair e = p) (market_trade_events s)) = [1..trades_last p s])"

definition market_inv :: "market_tables \<Rightarrow> bool" where
  "market_inv s \<longleftrightarrow> distinct (map (\<lambda>r. (ms_pair r, ms_stream r)) (market_stream_sequences s)) \<and> (\<forall>r \<in> set (market_stream_sequences s). 0 \<le> ms_last r) \<and>
     trades_gapless s \<and> candles_match s"

text \<open>Every transaction of the market data store; the trading tables may be different each time.\<close>

inductive market_step :: "market_tables \<Rightarrow> market_tables \<Rightarrow> bool" where
  trade: "market_step s (snd (ApplyTrade uni db trade s))"
| book: "market_step s (snd (ClaimOrderBookSequence db pair sequence s))"

definition market_safe :: "market_tables \<Rightarrow> market_tables \<Rightarrow> bool" where
  "market_safe s t \<longleftrightarrow> (market_inv s \<longrightarrow> market_inv t \<and> (\<exists>es. market_trade_events t = market_trade_events s @ es))"

interpretation market: tx_relation market_safe
  by unfold_locales (auto simp: market_safe_def)

section \<open>Sequences\<close>

lemma find_stream_update:
  assumes "\<And>r. ms_pair (f r) = ms_pair r \<and> ms_stream (f r) = ms_stream r"
  shows "find (stream_of p st) (update_where (stream_of p' st') f rows) =
    (if p = p' \<and> st = st' then map_option f (find (stream_of p st) rows) else find (stream_of p st) rows)"
  using assms by (induction rows) (auto simp: stream_of_def)

lemma next_sequence:
  assumes "0 \<le> n" "n < 2 ^ 64" "\<not> sequence \<le> (of_int n :: u64)" "sequence = of_int n + 1"
  shows "uint sequence = n + 1"
proof -
  have n: "uint (of_int n :: u64) = n" using assms(1,2) by (simp add: unsigned_of_int take_bit_int_eq_self)
  have "of_int n \<le> (of_int n + 1 :: u64)" using assms(3,4) by simp
  then show ?thesis using uint_plus_simple [of "of_int n :: u64" 1] n assms(4) by simp
qed

text \<open>What a claim does: nothing, a new row, a mark for a gap or the next number.\<close>

lemma claim_cases:
  assumes "claimSequence db pair stream sequence allow s = Inr (res, t)"
  obtains (new) "find (stream_of pair stream) (market_stream_sequences s) = None" "allow \<or> sequence = 1" "res = Inr (True, False)"
      "t = s\<lparr>market_stream_sequences := market_stream_sequences s @ [\<lparr>ms_pair = pair, ms_stream = stream, ms_last = uint sequence, ms_mode = ''active''\<rparr>]\<rparr>"
    | (new_gap) e where "find (stream_of pair stream) (market_stream_sequences s) = None" "res = Inl e"
      "t = s\<lparr>market_stream_sequences := market_stream_sequences s @ [\<lparr>ms_pair = pair, ms_stream = stream, ms_last = 0, ms_mode = ''replay_required''\<rparr>]\<rparr>"
    | (same) "res = Inr (False, True)" "t = s"
    | (gap) e where "res = Inl e"
      "t = s\<lparr>market_stream_sequences := update_where (stream_of pair stream) (\<lambda>r. r\<lparr>ms_mode := ''replay_required''\<rparr>) (market_stream_sequences s)\<rparr>"
    | (following) r where "find (stream_of pair stream) (market_stream_sequences s) = Some r" "uint sequence = ms_last r + 1" "res = Inr (True, False)"
      "t = s\<lparr>market_stream_sequences := update_where (stream_of pair stream) (\<lambda>r. r\<lparr>ms_last := uint sequence, ms_mode := ''active''\<rparr>) (market_stream_sequences s)\<rparr>"
proof (cases "find (stream_of pair stream) (market_stream_sequences s)")
  case None
  then show thesis using assms new new_gap by (auto simp: claimSequence_def insert_stream_def tx_simps split: if_splits)
next
  case (Some r)
  then have bounds: "0 \<le> ms_last r" "ms_last r < 2 ^ 64" using assms by (auto simp: claimSequence_def tx_simps)
  consider "sequence \<le> of_int (ms_last r)" | "\<not> sequence \<le> of_int (ms_last r)" "sequence \<noteq> of_int (ms_last r) + 1"
    | "\<not> sequence \<le> of_int (ms_last r)" "sequence = of_int (ms_last r) + 1" by blast
  then show thesis
  proof cases
    case 1
    then show thesis using assms Some bounds same by (auto simp: claimSequence_def tx_simps)
  next
    case 2
    then show thesis using assms Some bounds gap by (auto simp: claimSequence_def set_stream_def tx_simps)
  next
    case 3
    then show thesis
      using assms Some bounds following [OF Some next_sequence [OF bounds 3]] by (auto simp: claimSequence_def set_stream_def tx_simps)
  qed
qed

text \<open>
  A claim changes nothing but the row of its stream; the number it accepts for the trades of a pair is
  the next one.
\<close>

lemma claim_tables:
  assumes "claimSequence db pair stream sequence allow s = Inr (res, t)" "market_inv s"
  shows "market_trade_events t = market_trade_events s" "market_candles_1m t = market_candles_1m s"
    "distinct (map (\<lambda>r. (ms_pair r, ms_stream r)) (market_stream_sequences t))" "\<forall>r \<in> set (market_stream_sequences t). 0 \<le> ms_last r"
proof -
  have keys: "map (\<lambda>r. (ms_pair r, ms_stream r)) (update_where p f rows) = map (\<lambda>r. (ms_pair r, ms_stream r)) rows"
    if "\<And>r. ms_pair (f r) = ms_pair r \<and> ms_stream (f r) = ms_stream r" for p f rows
    by (rule map_update_where) (simp add: that)
  have fresh: "(pair, stream) \<notin> (\<lambda>r. (ms_pair r, ms_stream r)) ` set (market_stream_sequences s)"
    if "find (stream_of pair stream) (market_stream_sequences s) = None"
    using that by (auto simp: find_None_iff stream_of_def)
  have inv: "distinct (map (\<lambda>r. (ms_pair r, ms_stream r)) (market_stream_sequences s))" "\<forall>r \<in> set (market_stream_sequences s). 0 \<le> ms_last r"
    using assms(2) by (simp_all add: market_inv_def)
  from assms(1) show "market_trade_events t = market_trade_events s" "market_candles_1m t = market_candles_1m s" by (cases rule: claim_cases, simp_all)+
  from assms(1) show "distinct (map (\<lambda>r. (ms_pair r, ms_stream r)) (market_stream_sequences t))"
    using inv fresh by (cases rule: claim_cases) (simp_all add: keys)
  from assms(1) show "\<forall>r \<in> set (market_stream_sequences t). 0 \<le> ms_last r"
    using inv by (cases rule: claim_cases) (auto simp: set_update_where dest!: find_SomeD)
qed

lemma claim_last:
  assumes "claimSequence db pair stream sequence allow s = Inr (res, t)"
  shows "stream \<noteq> ''trades'' \<or> res \<noteq> Inr (True, False) \<Longrightarrow> trades_last p t = trades_last p s"
    "stream = ''trades'' \<Longrightarrow> \<not> allow \<Longrightarrow> res = Inr (True, False) \<Longrightarrow>
      uint sequence = trades_last pair s + 1 \<and> trades_last p t = (if p = pair then uint sequence else trades_last p s)"
proof -
  show "trades_last p t = trades_last p s" if "stream \<noteq> ''trades'' \<or> res \<noteq> Inr (True, False)"
    using assms that
    by (cases rule: claim_cases) (auto simp: trades_last_def find_append find_stream_update, auto simp: stream_of_def split: option.splits)
  show "uint sequence = trades_last pair s + 1 \<and> trades_last p t = (if p = pair then uint sequence else trades_last p s)"
    if "stream = ''trades''" "\<not> allow" "res = Inr (True, False)"
    using assms that
    by (cases rule: claim_cases) (auto simp: trades_last_def find_append find_stream_update, auto simp: stream_of_def split: option.splits)
qed


section \<open>Candles\<close>

lemma filter_update_same: "(\<And>r. k (f r) = k r) \<Longrightarrow> filter k (update_where k f rows) = map f (filter k rows)"
  by (induction rows) auto

lemma filter_update_other: "(\<And>r. q r \<Longrightarrow> \<not> k r) \<Longrightarrow> (\<And>r. q (f r) = q r) \<Longrightarrow> filter q (update_where k f rows) = filter q rows"
  by (induction rows) auto

lemma find_filter: "find k xs = (case filter k xs of [] \<Rightarrow> None | x # _ \<Rightarrow> Some x)"
  by (induction xs) auto

lemma minute_start: "Truncate at minute_ns div 1000 = minute_of (at div 1000)"
proof -
  have "(at + epoch_day * day_ns) mod minute_ns = at mod minute_ns"
  proof -
    have "epoch_day * day_ns = 1035593280 * minute_ns" by (simp add: epoch_day_def day_ns_def minute_ns_def)
    then show ?thesis by simp
  qed
  then have "Truncate at minute_ns = 60000000 * (at div minute_ns) * 1000"
    by (simp add: Truncate_def minute_ns_def minus_mod_eq_mult_div)
  moreover have "at div minute_ns = at div 1000 div 60000000" by (simp add: zdiv_zmult2_eq [symmetric] minute_ns_def)
  ultimately show ?thesis by (simp add: minute_of_def)
qed

lemma new_minute: "validateTrade uni trade = None \<Longrightarrow> \<exists>minute. NewMinuteCandle uni trade = Inr minute \<and> cd_OpenTime minute = Truncate (mt_Timestamp trade) minute_ns"
  by (simp add: NewMinuteCandle_def BucketStart_def intervalDurations_def)

lemma merge_candle_row:
  "es \<noteq> [] \<Longrightarrow> me_price e = ck_close row \<Longrightarrow> ck_high row = ck_close row \<Longrightarrow> ck_low row = ck_close row \<Longrightarrow> me_quantity e = ck_volume row \<Longrightarrow>
   me_quote e = ck_quote_volume row \<Longrightarrow> me_sequence e = ck_last row \<Longrightarrow> merge_row row (candle_of p t es) = candle_of p t (es @ [e])"
  by (simp add: merge_row_def candle_of_def max.commute min.commute)

lemma upsert_matches:
  assumes match: "candles_match s" and s: "market_candles_1m s1 = market_candles_1m s" "market_trade_events s1 = market_trade_events s @ [e]"
    and row: "ck_pair row = me_pair e" "ck_open_time row = minute_of (me_at e)" "row = candle_of (me_pair e) (minute_of (me_at e)) [e]"
    and run: "upsert_candle db row s1 = Inr (c, t)"
  shows "candles_match t" "market_trade_events t = market_trade_events s1" "market_stream_sequences t = market_stream_sequences s1"
proof -
  let ?p = "me_pair e" and ?m = "minute_of (me_at e)"
  show t: "market_trade_events t = market_trade_events s1" "market_stream_sequences t = market_stream_sequences s1"
    using run by (auto simp: upsert_candle_def candle_checks_def tx_simps split: option.splits)
  have events: "minute_events p m t = minute_events p m s @ (if p = ?p \<and> m = ?m then [e] else [])" for p m
    by (auto simp: minute_events_def t s)
  have old: "filter (candle_key p m) (market_candles_1m s) = (if minute_events p m s = [] then [] else [candle_of p m (minute_events p m s)])" for p m
    using match by (simp add: candles_match_def)
  have key: "candle_key ?p ?m (merge_row row x) = candle_key ?p ?m x" "candle_key p m (merge_row row x) = candle_key p m x" for p m x
    by (simp_all add: candle_key_def merge_row_def)
  have "filter (candle_key p m) (market_candles_1m t) = (if minute_events p m t = [] then [] else [candle_of p m (minute_events p m t)])" for p m
  proof (cases "find (candle_key ?p ?m) (market_candles_1m s)")
    case None
    then have "market_candles_1m t = market_candles_1m s @ [row]" "minute_events ?p ?m s = []"
      using run s(1) old [of ?p ?m] unfolding find_filter by (auto simp: upsert_candle_def candle_checks_def tx_simps row(1,2) find_filter split: if_splits)
    then show ?thesis using old [of p m] row(3) by (auto simp: events candle_key_def candle_of_def)
  next
    case (Some x)
    then have "market_candles_1m t = update_where (candle_key ?p ?m) (merge_row row) (market_candles_1m s)"
      using run s(1) by (auto simp: upsert_candle_def candle_checks_def tx_simps row(1,2))
    moreover have "minute_events ?p ?m s \<noteq> []" using Some old [of ?p ?m] by (auto simp: find_filter split: if_splits)
    moreover from this have "merge_row row (candle_of ?p ?m (minute_events ?p ?m s)) = candle_of ?p ?m (minute_events ?p ?m s @ [e])"
      by (rule merge_candle_row) (simp_all add: row(3) candle_of_def)
    ultimately show ?thesis
      using old [of p m] filter_update_same [of "candle_key ?p ?m" "merge_row row" "market_candles_1m s"]
        filter_update_other [of "candle_key p m" "candle_key ?p ?m" "merge_row row" "market_candles_1m s"]
      by (auto simp: events key) (auto simp: candle_key_def)
  qed
  then show "candles_match t" by (simp add: candles_match_def)
qed

lemma record_trade_matches:
  assumes "record_trade uni db trade s = Inr (res, t)" "validateTrade uni trade = None" "candles_match s"
  shows "candles_match t" "market_trade_events t = market_trade_events s @ [event_row trade]" "market_stream_sequences t = market_stream_sequences s"
proof -
  obtain minute where minute: "NewMinuteCandle uni trade = Inr minute" "cd_OpenTime minute = Truncate (mt_Timestamp trade) minute_ns"
    using new_minute [OF assms(2)] by blast
  let ?row = "minute_row trade (cd_OpenTime minute)"
  obtain u s1 c where run: "insert_event db (event_row trade) s = Inr (u, s1)" "upsert_candle db ?row s1 = Inr (c, t)"
    using assms(1) minute(1) by (auto simp: record_trade_def tx_simps)
  have s1: "market_candles_1m s1 = market_candles_1m s" "market_trade_events s1 = market_trade_events s @ [event_row trade]"
    "market_stream_sequences s1 = market_stream_sequences s"
    using run(1) by (auto simp: insert_event_def tx_simps)
  have row: "ck_pair ?row = me_pair (event_row trade)" "ck_open_time ?row = minute_of (me_at (event_row trade))"
    "?row = candle_of (me_pair (event_row trade)) (minute_of (me_at (event_row trade))) [event_row trade]"
    by (simp_all add: minute_row_def event_row_def candle_of_def minute(2) minute_start)
  note up = upsert_matches [OF assms(3) s1(1,2) row run(2)]
  show "candles_match t" "market_trade_events t = market_trade_events s @ [event_row trade]" "market_stream_sequences t = market_stream_sequences s"
    using up s1 by simp_all
qed


section \<open>Every run\<close>

lemma market_claim_inv:
  assumes "claimSequence db pair stream sequence allow s = Inr (res, t)" "market_inv s" "stream \<noteq> ''trades'' \<or> res \<noteq> Inr (True, False)"
  shows "market_inv t"
  using claim_tables [OF assms(1,2)] claim_last(1) [OF assms(1,3)] assms(2)
  by (simp add: market_inv_def trades_gapless_def candles_match_def minute_events_def)

lemma trades_last_nonneg: "market_inv s \<Longrightarrow> 0 \<le> trades_last p s"
  by (auto simp: market_inv_def trades_last_def split: option.splits dest: find_SomeD)

lemma record_inv:
  assumes inv: "market_inv s" and claim: "claimSequence db (mt_Pair trade) ''trades'' (mt_SequenceID trade) False s = Inr (Inr (True, False), s1)"
    and rec: "record_trade uni db trade s1 = Inr (res, t)" and valid: "validateTrade uni trade = None"
  shows "market_inv t \<and> market_trade_events t = market_trade_events s @ [event_row trade]"
proof -
  note tables = claim_tables [OF claim inv]
  have match: "candles_match s1" using inv tables(1,2) by (simp add: market_inv_def candles_match_def minute_events_def)
  note recorded = record_trade_matches [OF rec valid match]
  have last: "uint (mt_SequenceID trade) = trades_last (mt_Pair trade) s + 1"
    "trades_last p s1 = (if p = mt_Pair trade then uint (mt_SequenceID trade) else trades_last p s)" for p
    using claim_last(2) [OF claim] by simp_all
  have "trades_last p t = trades_last p s1" for p by (simp add: trades_last_def recorded(3))
  then have "trades_gapless t"
    using inv last trades_last_nonneg [OF inv, of "mt_Pair trade"]
    by (auto simp: trades_gapless_def market_inv_def recorded(2) tables(1) event_row_def upto_rec2)
  then show ?thesis using recorded tables by (simp add: market_inv_def)
qed

lemma ApplyTrade_safe: "market_safe s (snd (ApplyTrade uni db trade s))"
proof (cases "validateTrade uni trade = None")
  case True
  have "tx_respects market_safe (ApplyTrade_tx uni db trade)"
  proof (rule respectsI)
    fix s res t
    assume run: "ApplyTrade_tx uni db trade s = Inr (res, t)"
    then obtain claim s1 where claim: "claimSequence db (mt_Pair trade) ''trades'' (mt_SequenceID trade) False s = Inr (claim, s1)"
      and rest: "(case claim of Inl e \<Rightarrow> returnT (Inl e) | Inr (accepted, duplicate) \<Rightarrow>
         if duplicate then duplicate_trade trade else if \<not> accepted then returnT (Inr (zero_candle, False)) else record_trade uni db trade) s1 = Inr (res, t)"
      by (auto simp: ApplyTrade_tx_def tx_simps)
    show "market_safe s t"
    proof (cases "claim = Inr (True, False)")
      case accepted: True
      with claim rest show ?thesis unfolding market_safe_def using record_inv True by auto
    next
      case False
      then have "t = s1" using rest by (auto simp: duplicate_trade_def tx_simps split: sum.splits prod.splits if_splits option.splits)
      moreover have "market_inv s \<Longrightarrow> market_inv s1 \<and> market_trade_events s1 = market_trade_events s"
        using market_claim_inv [OF claim] claim_tables(1) [OF claim] False by simp
      ultimately show ?thesis by (auto simp: market_safe_def)
    qed
  qed
  from market.committed [OF this, of s] show ?thesis
    using True by (auto simp: ApplyTrade_def split: prod.splits sum.splits)
qed (auto simp: ApplyTrade_def market.R_refl)

lemma ClaimOrderBookSequence_safe: "market_safe s (snd (ClaimOrderBookSequence db pair sequence s))"
proof -
  have "tx_respects market_safe (claimSequence db pair ''orderbook'' sequence True)"
    by (rule respectsI) (auto simp: market_safe_def claim_tables(1) intro: market_claim_inv)
  from market.committed [OF this, of s] show ?thesis by (auto simp: ClaimOrderBookSequence_def split: prod.splits sum.splits)
qed

lemma market_run: "market_step\<^sup>*\<^sup>* s t \<Longrightarrow> market_safe s t"
proof (induction rule: rtranclp_induct)
  case base
  show ?case by (rule market.R_refl)
next
  case (step t u)
  from step.hyps(2) have "market_safe t u" by cases (simp_all add: ApplyTrade_safe ClaimOrderBookSequence_safe)
  with step.IH show ?case by (rule market.R_trans)
qed

text \<open>
  C37: the stored candles are exactly the candles of the stored trades. Under any sequence of trades,
  duplicates, gaps and order book snapshots, a pair's trades are recorded with the sequence numbers
  1, 2, 3 and so on, none is ever removed or changed, and for each pair and minute there is one
  candle if trades fell into that minute and none otherwise; it has the first and last price in
  sequence order, the highest and lowest price, the sums of the volumes, the number of trades and the
  last sequence number.
\<close>

theorem candles_match_trades:
  assumes "market_inv s" "market_step\<^sup>*\<^sup>* s t"
  shows "(\<forall>p. map me_sequence (filter (\<lambda>e. me_pair e = p) (market_trade_events t)) = [1..trades_last p t]) \<and>
    (\<forall>p m. filter (\<lambda>c. ck_pair c = p \<and> ck_open_time c = m) (market_candles_1m t) =
      (case filter (\<lambda>e. me_pair e = p \<and> me_at e div 60000000 * 60000000 = m) (market_trade_events t) of
         [] \<Rightarrow> [] | e # es \<Rightarrow> [candle_of p m (e # es)])) \<and>
    (\<exists>es. market_trade_events t = market_trade_events s @ es)"
proof -
  have inv: "market_inv t" "\<exists>es. market_trade_events t = market_trade_events s @ es" using market_run [OF assms(2)] assms(1) by (auto simp: market_safe_def)
  then have "candles_match t" "trades_gapless t" by (simp_all add: market_inv_def)
  with inv(2) show ?thesis
    by (auto simp: candles_match_def trades_gapless_def minute_events_def minute_of_def candle_key_def [abs_def] split: list.splits)
qed


text \<open>Two trades of one minute and a third that skips a number.\<close>

definition demo_tick :: "u64 \<Rightarrow> string \<Rightarrow> MarketTrade" where
  "demo_tick sequence price = \<lparr>mt_Pair = ''BTCUSDT'', mt_SequenceID = sequence, mt_Timestamp = 61 * 10 ^ 9, mt_PriceAtomic = price,
     mt_QuantityAtomic = ''5'', mt_QuoteAtomic = ''50'', mt_Side = ''BUY'', mt_PayloadHash = replicate 32 CHR ''h''\<rparr>"

definition no_market :: market_tables where
  "no_market = \<lparr>market_stream_sequences = [], market_candles_1m = [], market_trade_events = []\<rparr>"

definition demo_ticks :: market_tables where
  "demo_ticks = snd (ApplyTrade id demo_db (demo_tick 4 ''9'') (snd (ApplyTrade id demo_db (demo_tick 2 ''12'') (snd (ApplyTrade id demo_db (demo_tick 1 ''10'') no_market)))))"

lemma demo_pair_valid: "ValidatePair id ''BTCUSDT'' = None"
proof -
  have "TrimSpace ''BTCUSDT'' = ''BTCUSDT''" by (rule TrimSpace_graphic) code_simp
  then show ?thesis by (simp add: ValidatePair_def) code_simp
qed

lemma demo_tick_valid: "sequence \<noteq> 0 \<Longrightarrow> positiveAtomic price \<Longrightarrow> validateTrade id (demo_tick sequence price) = None"
proof -
  have "positiveAtomic ''5''" "positiveAtomic ''50''" by code_simp+
  then show "sequence \<noteq> 0 \<Longrightarrow> positiveAtomic price \<Longrightarrow> ?thesis"
    by (simp add: validateTrade_def demo_tick_def demo_pair_valid zero_timestamp_def epoch_day_def day_ns_def)
qed


lemma demo_minute:
  "sequence \<noteq> 0 \<Longrightarrow> positiveAtomic price \<Longrightarrow> \<exists>minute. NewMinuteCandle id (demo_tick sequence price) = Inr minute \<and> cd_OpenTime minute = 60 * 10 ^ 9"
proof -
  assume "sequence \<noteq> 0" "positiveAtomic price"
  from new_minute [OF demo_tick_valid [OF this]] show ?thesis
    by (simp add: demo_tick_def Truncate_def epoch_day_def day_ns_def minute_ns_def)
qed

lemma demo_prices: "amount ''10'' = 10" "amount ''12'' = 12" "amount ''5'' = 5" "amount ''50'' = 50"
  "positiveAtomic ''10''" "positiveAtomic ''12''" "positiveAtomic ''9''"
  by code_simp+

lemma demo_pairs: "pr_symbol ` set (trading_pairs demo_db) = {''BTCUSDT''}"
  by (simp add: demo_db_def)

lemma demo_apply:
  assumes "sequence \<noteq> 0" "positiveAtomic price"
  shows "ApplyTrade id demo_db (demo_tick sequence price) s =
    (case transaction (ApplyTrade_tx id demo_db (demo_tick sequence price)) s of (Inl e, t) \<Rightarrow> (Inl e, t) | (Inr x, t) \<Rightarrow> (x, t))"
  by (simp add: ApplyTrade_def demo_tick_valid [OF assms])

lemma demo_record:
  assumes "sequence \<noteq> 0" "positiveAtomic price"
  shows "record_trade id demo_db (demo_tick sequence price) = bindT (insert_event demo_db (event_row (demo_tick sequence price))) (\<lambda>_.
     bindT (upsert_candle demo_db (minute_row (demo_tick sequence price) (60 * 10 ^ 9))) (\<lambda>c. returnT (Inr (candle_of_row ''BTCUSDT'' c, False))))"
proof -
  obtain minute where "NewMinuteCandle id (demo_tick sequence price) = Inr minute" "cd_OpenTime minute = 60 * 10 ^ 9" using demo_minute [OF assms] by blast
  moreover have "mt_Pair (demo_tick sequence price) = ''BTCUSDT''" by (simp add: demo_tick_def)
  ultimately show ?thesis by (simp add: record_trade_def)
qed

lemma demo_tick_fields:
  "mt_Pair (demo_tick q p) = ''BTCUSDT''" "mt_SequenceID (demo_tick q p) = q" "mt_Timestamp (demo_tick q p) = 61000000000" "mt_PriceAtomic (demo_tick q p) = p"
  "mt_QuantityAtomic (demo_tick q p) = ''5''" "mt_QuoteAtomic (demo_tick q p) = ''50''" "mt_Side (demo_tick q p) = ''BUY''"
  "mt_PayloadHash (demo_tick q p) = replicate 32 CHR ''h''"
  by (simp_all add: demo_tick_def)

lemma demo_words: "\<not> (2 :: u64) \<le> 1" "\<not> (4 :: u64) \<le> 2"
  by (simp_all add: word_le_def)

lemmas demo_run_simps = demo_words demo_apply demo_prices demo_record ApplyTrade_tx_def claimSequence_def insert_stream_def set_stream_def stream_of_def insert_event_def
  upsert_candle_def candle_checks_def candle_key_def event_row_def minute_row_def merge_row_def demo_tick_fields demo_pairs transaction_def bindT_def queryT_def ensureT_def
  execT_def returnT_def Let_def

lemma run_trade: "market_step\<^sup>*\<^sup>* s t \<Longrightarrow> market_step\<^sup>*\<^sup>* s (snd (ApplyTrade uni db trade t))"
  by (erule rtranclp.rtrancl_into_rtrancl) (rule market_step.trade)

theorem candles_match_trades_witness:
  "map me_sequence (market_trade_events demo_ticks) = [1, 2] \<and>
   filter (\<lambda>c. ck_pair c = ''BTCUSDT'' \<and> ck_open_time c = 60000000) (market_candles_1m demo_ticks) =
     [candle_of ''BTCUSDT'' 60000000 (market_trade_events demo_ticks)]"
proof -
  have "map (\<lambda>e. (me_pair e, me_sequence e, me_at e)) (market_trade_events demo_ticks) = [(''BTCUSDT'', 1, 61000000), (''BTCUSDT'', 2, 61000000)]"
    by (simp add: demo_ticks_def no_market_def demo_run_simps)
  then obtain a b where ab: "market_trade_events demo_ticks = [a, b]" "me_pair a = ''BTCUSDT''" "me_pair b = ''BTCUSDT''" "me_at a = 61000000" "me_at b = 61000000"
    "me_sequence a = 1" "me_sequence b = 2" by auto
  have "market_inv no_market"
    by (simp add: market_inv_def no_market_def trades_gapless_def trades_last_def candles_match_def minute_events_def)
  moreover have "market_step\<^sup>*\<^sup>* no_market demo_ticks"
    unfolding demo_ticks_def by (intro run_trade rtranclp.rtrancl_refl)
  ultimately show ?thesis using candles_match_trades [of no_market demo_ticks] ab by auto
qed

end
