(* ===== verification/Market_Consumer.thy ===== *)
theory Market_Consumer
  imports Market_Ticks
begin

text \<open>
  The market data consumer, internal/marketdata/consumer.go, and the messages of realtime.go. The
  state is the store's tables, the cached order books, the messages published so far, the calls made
  to the cache and the replays requested. The cache and the replay requester are other processes:
  which calls to them fail is a parameter. The body of a message is kept as the value that is
  marshalled to JSON.
\<close>

section \<open>Messages\<close>

datatype message_data = NoData | BookData PublicOrderBookSnapshot | TradeData MarketTrade | TickerData Ticker | CandleData Candle

record RealtimeMessage =
  rm_Type :: string
  rm_Channel :: string
  rm_Pair :: string
  rm_SequenceID :: u64
  rm_Data :: message_data

definition zero_message :: RealtimeMessage where
  "zero_message = \<lparr>rm_Type = [], rm_Channel = [], rm_Pair = [], rm_SequenceID = 0, rm_Data = NoData\<rparr>"

definition NewRealtimeMessage :: "(string \<Rightarrow> string) \<Rightarrow> string \<Rightarrow> string \<Rightarrow> string \<Rightarrow> u64 \<Rightarrow> message_data \<Rightarrow> RealtimeMessage \<times> market_error option" where
  "NewRealtimeMessage uni messageType channel pair sequence value =
     (if messageType = [] \<or> channel = [] \<or> ValidatePair uni pair \<noteq> None \<or> sequence = 0
      then (zero_message, Some (ErrInvalidMarketEvent ''realtime envelope''))
      else (\<lparr>rm_Type = messageType, rm_Channel = channel, rm_Pair = pair, rm_SequenceID = sequence, rm_Data = value\<rparr>, None))"

section \<open>The consumer\<close>

record market_consumer =
  cs_env :: go_env
  cs_wire :: wire
  cs_books :: book_wire
  cs_db :: trading_db
  cs_maker :: mm_tables
  cs_control_updated :: int
  cs_config_updated :: "string \<Rightarrow> int"
  cs_now :: int
  cs_cache_fails :: "nat \<Rightarrow> string option"
  cs_replay :: "(string \<Rightarrow> u64 \<Rightarrow> string option) option"

record market_world =
  kw_tables :: market_tables
  kw_books :: "(string \<times> OrderBookSnapshot) list"
  kw_messages :: "RealtimeMessage list"
  kw_calls :: nat
  kw_replays :: "(string \<times> u64) list"

definition SaveOrderBook :: "market_consumer \<Rightarrow> OrderBookSnapshot \<Rightarrow> market_world \<Rightarrow> market_failure option \<times> market_world" where
  "SaveOrderBook cs snapshot w =
     (case Snapshot_Validate snapshot of
        Some e \<Rightarrow> (Some (App (ErrMarketText e)), w)
      | None \<Rightarrow>
          (case cs_cache_fails cs (kw_calls w) of
             Some e \<Rightarrow> (Some (App (ErrMarketText e)), w\<lparr>kw_calls := Suc (kw_calls w)\<rparr>)
           | None \<Rightarrow> (None, w\<lparr>kw_calls := Suc (kw_calls w), kw_books := (os_Pair snapshot, snapshot) # kw_books w\<rparr>)))"

definition Publish :: "market_consumer \<Rightarrow> RealtimeMessage \<Rightarrow> market_world \<Rightarrow> market_failure option \<times> market_world" where
  "Publish cs message w =
     (case cs_cache_fails cs (kw_calls w) of
        Some e \<Rightarrow> (Some (App (ErrMarketText e)), w\<lparr>kw_calls := Suc (kw_calls w)\<rparr>)
      | None \<Rightarrow> (None, w\<lparr>kw_calls := Suc (kw_calls w), kw_messages := kw_messages w @ [message]\<rparr>))"

definition handleGap :: "market_consumer \<Rightarrow> market_failure \<Rightarrow> market_world \<Rightarrow> market_failure option \<times> market_world" where
  "handleGap cs err w =
     (case (err, cs_replay cs) of
        (App (SequenceGapError pair stream expected received), Some request) \<Rightarrow>
          (case request pair expected of
             Some e \<Rightarrow> (Some (App (ErrMarketText (''market replay request: '' @ e))), w\<lparr>kw_replays := kw_replays w @ [(pair, expected)]\<rparr>)
           | None \<Rightarrow> (Some err, w\<lparr>kw_replays := kw_replays w @ [(pair, expected)]\<rparr>))
      | _ \<Rightarrow> (Some err, w))"

definition processOrderBook :: "market_consumer \<Rightarrow> string \<Rightarrow> market_world \<Rightarrow> market_failure option \<times> market_world" where
  "processOrderBook cs payload w =
     (case DecodeOrderBookSnapshot (cs_books cs) payload of
        Inl e \<Rightarrow> (Some (App (ErrMarketText e)), w)
      | Inr snapshot \<Rightarrow>
          (case ClaimOrderBookSequence (cs_db cs) (os_Pair snapshot) (os_SequenceID snapshot) (kw_tables w) of
             (Inl e, t) \<Rightarrow> handleGap cs e (w\<lparr>kw_tables := t\<rparr>)
           | (Inr (accepted, duplicate), t) \<Rightarrow>
               if \<not> accepted \<or> duplicate then (None, w\<lparr>kw_tables := t\<rparr>)
               else case SaveOrderBook cs snapshot (w\<lparr>kw_tables := t\<rparr>) of
                 (Some e, w') \<Rightarrow> (Some e, w')
               | (None, w') \<Rightarrow>
                   Publish cs (fst (NewRealtimeMessage (uni_upper (cs_env cs)) ''l2update'' (''orderbook.'' @ os_Pair snapshot) (os_Pair snapshot)
                     (os_SequenceID snapshot) (BookData (Public snapshot)))) w'))"

definition trade_of_event :: "market_consumer \<Rightarrow> TradeEvent \<Rightarrow> string \<Rightarrow> int \<Rightarrow> string \<Rightarrow> MarketTrade" where
  "trade_of_event cs event side quote payload =
     \<lparr>mt_Pair = te_Pair event, mt_SequenceID = te_SequenceID event, mt_Timestamp = uint (te_TimestampNS event), mt_PriceAtomic = FormatUint (te_Price event),
      mt_QuantityAtomic = FormatUint (te_Quantity event), mt_QuoteAtomic = BigString quote, mt_Side = ToUpper (uni_upper (cs_env cs)) side,
      mt_PayloadHash = sha256 (cs_env cs) payload\<rparr>"

definition announce_trade :: "market_consumer \<Rightarrow> MarketTrade \<Rightarrow> Candle \<Rightarrow> market_world \<Rightarrow> market_failure option \<times> market_world" where
  "announce_trade cs trade candle w =
     (let pair = mt_Pair trade; sequence = mt_SequenceID trade; new = NewRealtimeMessage (uni_upper (cs_env cs)) in
      case Publish cs (fst (new ''trade'' (''trades.'' @ pair) pair sequence (TradeData trade))) w of
        (Some e, w1) \<Rightarrow> (Some e, w1)
      | (None, w1) \<Rightarrow>
          (case Ticker_of (cs_maker cs) (cs_control_updated cs) (cs_config_updated cs) pair (cs_now cs) (kw_tables w1) of
             Inl e \<Rightarrow> (Some e, w1)
           | Inr ticker \<Rightarrow>
               (case Publish cs (fst (new ''ticker'' (''ticker.'' @ pair) pair sequence (TickerData ticker))) w1 of
                  (Some e, w2) \<Rightarrow> (Some e, w2)
                | (None, w2) \<Rightarrow> Publish cs (fst (new ''kline'' (''klines.'' @ pair @ ''.1m'') pair sequence (CandleData candle))) w2)))"

definition processTrade :: "market_consumer \<Rightarrow> string \<Rightarrow> market_world \<Rightarrow> market_failure option \<times> market_world" where
  "processTrade cs payload w =
     (case DecodeTradeEvent (cs_wire cs) payload of
        Inl e \<Rightarrow> (Some (App (ErrMarketText e)), w)
      | Inr event \<Rightarrow>
          if uint (te_TimestampNS event) > 2 ^ 63 - 1 then (Some (App (ErrInvalidMarketEvent ''trade timestamp exceeds Unix nanosecond range'')), w)
          else case TakerSide (cs_db cs) (te_TakerOrderID event) of
            Inl e \<Rightarrow> (Some e, w)
          | Inr side \<Rightarrow>
              (case QuoteAmount (te_Price event) (te_Quantity event) of
                 Inl e \<Rightarrow> (Some (App (ErrMarketText ''invalid settlement'')), w)
               | Inr quote \<Rightarrow>
                   let trade = trade_of_event cs event side quote payload in
                   (case ApplyTrade (uni_upper (cs_env cs)) (cs_db cs) trade (kw_tables w) of
                      (Inl e, t) \<Rightarrow> handleGap cs e (w\<lparr>kw_tables := t\<rparr>)
                    | (Inr (candle, duplicate), t) \<Rightarrow>
                        if duplicate then (None, w\<lparr>kw_tables := t\<rparr>) else announce_trade cs trade candle (w\<lparr>kw_tables := t\<rparr>))))"

definition TopicOrderBook :: string where "TopicOrderBook = ''order_book''"

definition Market_Process :: "market_consumer \<Rightarrow> string \<Rightarrow> string \<Rightarrow> market_world \<Rightarrow> market_failure option \<times> market_world" where
  "Market_Process cs topic payload w =
     (if topic = TopicOrderBook then processOrderBook cs payload w
      else if topic = TopicTrade then processTrade cs payload w
      else (None, w))"

text \<open>The loop of \<open>Run\<close> over what has been received so far; a sequence gap does not stop it.\<close>

definition is_market_gap :: "market_failure \<Rightarrow> bool" where
  "is_market_gap e = (case e of App (SequenceGapError _ _ _ _) \<Rightarrow> True | _ \<Rightarrow> False)"

fun market_loop :: "(market_consumer \<times> string \<times> string) list \<Rightarrow> market_world \<Rightarrow> market_failure option \<times> market_world" where
  "market_loop [] w = (None, w)"
| "market_loop ((cs, topic, payload) # rest) w =
     (case Market_Process cs topic payload w of
        (None, w') \<Rightarrow> market_loop rest w'
      | (Some e, w') \<Rightarrow> if is_market_gap e then market_loop rest w' else (Some e, w'))"

section \<open>Messages are in order\<close>

definition stream_last :: "string \<Rightarrow> string \<Rightarrow> market_tables \<Rightarrow> int" where
  "stream_last st p s = (case find (stream_of p st) (market_stream_sequences s) of None \<Rightarrow> 0 | Some r \<Rightarrow> ms_last r)"

definition sent :: "string \<Rightarrow> string \<Rightarrow> market_world \<Rightarrow> RealtimeMessage list" where
  "sent ty p w = filter (\<lambda>m. rm_Type m = ty \<and> rm_Pair m = p) (kw_messages w)"

definition upto_sequence :: "int \<Rightarrow> RealtimeMessage list \<Rightarrow> bool" where
  "upto_sequence n ms \<longleftrightarrow> sorted_wrt (<) (map rm_SequenceID ms) \<and> (\<forall>m \<in> set ms. uint (rm_SequenceID m) \<le> n)"

definition message_kinds :: "(string \<times> string) list" where
  "message_kinds = [(''l2update'', ''orderbook''), (''trade'', ''trades''), (''ticker'', ''trades''), (''kline'', ''trades'')]"

definition consumer_inv :: "market_world \<Rightarrow> bool" where
  "consumer_inv w \<longleftrightarrow> market_inv (kw_tables w) \<and> (\<forall>(ty, st) \<in> set message_kinds. \<forall>p. upto_sequence (stream_last st p (kw_tables w)) (sent ty p w))"

lemma upto_mono: "upto_sequence m ms \<Longrightarrow> m \<le> n \<Longrightarrow> upto_sequence n ms"
  by (auto simp: upto_sequence_def)

lemma upto_snoc: "upto_sequence (n - 1) ms \<Longrightarrow> uint (rm_SequenceID m) = n \<Longrightarrow> upto_sequence n (ms @ [m])"
  by (auto simp: upto_sequence_def sorted_wrt_append word_less_def)

lemma claim_advances:
  assumes "claimSequence db pair st sequence allow s = Inr (res, t)" "market_inv s"
  shows "stream_last st' p s \<le> stream_last st' p t"
    "res = Inr (True, False) \<Longrightarrow> sequence \<noteq> 0 \<Longrightarrow> stream_last st pair s < uint sequence \<and> stream_last st pair t = uint sequence"
proof -
  have nonneg: "0 \<le> ms_last r" if "find q (market_stream_sequences s) = Some r" for q r
    using assms(2) that by (auto simp: market_inv_def dest!: find_SomeD)
  from assms(1) show "stream_last st' p s \<le> stream_last st' p t"
    by (cases rule: claim_cases) (auto simp: stream_last_def find_append find_stream_update, auto simp: stream_of_def split: option.splits)
  have pos: "0 < uint sequence" if "sequence \<noteq> 0" using that unsigned_eq_0_iff [of sequence] uint_ge_0 [of sequence] by (smt (verit))
  from assms(1) show "stream_last st pair s < uint sequence \<and> stream_last st pair t = uint sequence" if "res = Inr (True, False)" "sequence \<noteq> 0"
    using that pos nonneg
    by (cases rule: claim_cases) (auto simp: stream_last_def find_append find_stream_update, auto simp: stream_of_def split: option.splits)
qed

text \<open>Publishing a message whose number has just been claimed.\<close>

lemma publish_inv:
  assumes inv: "consumer_inv w" and kind: "(ty, st) \<in> set message_kinds" and fresh: "upto_sequence (uint q - 1) (sent ty p w)"
    and claimed: "stream_last st p (kw_tables w) = uint q"
    and run: "Publish cs (fst (NewRealtimeMessage uni ty ch p q d)) w = (r, w')"
  shows "consumer_inv w'" "kw_tables w' = kw_tables w" "ty' \<noteq> ty \<Longrightarrow> ty' \<noteq> [] \<Longrightarrow> sent ty' p' w' = sent ty' p' w" "\<exists>ms. kw_messages w' = kw_messages w @ ms"
proof -
  let ?m = "fst (NewRealtimeMessage uni ty ch p q d)"
  have m: "?m = zero_message \<or> rm_Type ?m = ty \<and> rm_Pair ?m = p \<and> rm_SequenceID ?m = q" by (simp add: NewRealtimeMessage_def)
  have w': "kw_tables w' = kw_tables w" "kw_messages w' = kw_messages w \<or> kw_messages w' = kw_messages w @ [?m]"
    using run by (auto simp: Publish_def split: option.splits)
  show "kw_tables w' = kw_tables w" by (rule w'(1))
  show "\<exists>ms. kw_messages w' = kw_messages w @ ms" using w'(2) by auto
  show other: "sent ty' p' w' = sent ty' p' w" if "ty' \<noteq> ty" "ty' \<noteq> []" for ty' p'
    using w'(2) m that by (auto simp: sent_def zero_message_def)
  have "upto_sequence (stream_last st' p' (kw_tables w)) (sent ty' p' w')" if "(ty', st') \<in> set message_kinds" for ty' st' p'
  proof -
    have old: "upto_sequence (stream_last st' p' (kw_tables w)) (sent ty' p' w)" "ty' \<noteq> []" using inv that by (auto simp: consumer_inv_def message_kinds_def)
    show ?thesis
    proof (cases "ty' = ty \<and> p' = p")
      case True
      then have "st' = st" using kind that by (auto simp: message_kinds_def)
      have "sent ty p w' = sent ty p w \<or> sent ty p w' = sent ty p w @ [?m] \<and> rm_SequenceID ?m = q"
        using w'(2) m old(2) True by (auto simp: sent_def zero_message_def)
      then show ?thesis using old(1) True \<open>st' = st\<close> claimed upto_snoc [OF fresh, of ?m] by auto
    next
      case False
      then have "sent ty' p' w' = sent ty' p' w" using w'(2) m old(2) by (auto simp: sent_def zero_message_def)
      with old(1) show ?thesis by simp
    qed
  qed
  then show "consumer_inv w'" using inv by (auto simp: consumer_inv_def w'(1))
qed

lemma consumer_inv_claim:
  assumes "consumer_inv w" "\<And>st p. stream_last st p (kw_tables w) \<le> stream_last st p t" "market_inv t"
  shows "consumer_inv (w\<lparr>kw_tables := t\<rparr>)"
  using assms by (fastforce simp: consumer_inv_def sent_def intro: upto_mono)

definition consumes :: "market_world \<Rightarrow> market_world \<Rightarrow> bool" where
  "consumes w w' \<longleftrightarrow> (consumer_inv w \<longrightarrow> consumer_inv w' \<and> market_step\<^sup>*\<^sup>* (kw_tables w) (kw_tables w') \<and> (\<exists>ms. kw_messages w' = kw_messages w @ ms))"

lemma handleGap_world: "handleGap cs e w = (r, w') \<Longrightarrow> kw_tables w' = kw_tables w \<and> kw_messages w' = kw_messages w"
  by (auto simp: handleGap_def split: failure.splits market_error.splits option.splits)

lemma SaveOrderBook_world: "SaveOrderBook cs s w = (r, w') \<Longrightarrow> kw_tables w' = kw_tables w \<and> kw_messages w' = kw_messages w"
  by (auto simp: SaveOrderBook_def split: option.splits)

lemma same_world: "kw_tables w' = kw_tables w \<Longrightarrow> kw_messages w' = kw_messages w \<Longrightarrow> consumer_inv w' = consumer_inv w \<and> sent ty p w' = sent ty p w"
  by (simp add: consumer_inv_def sent_def)

text \<open>After an accepted claim every kind of message of its stream is one number behind.\<close>

lemma claimed_behind:
  assumes "consumer_inv w" "(ty, st) \<in> set message_kinds" "stream_last st p (kw_tables w) < uint q"
  shows "upto_sequence (uint q - 1) (sent ty p w)"
proof -
  have "upto_sequence (stream_last st p (kw_tables w)) (sent ty p w)" using assms(1,2) by (fastforce simp: consumer_inv_def)
  then show ?thesis by (rule upto_mono) (use assms(3) in simp)
qed

lemma book_claim:
  assumes "ClaimOrderBookSequence db pair q s = (res, t)" "market_inv s"
  shows "market_step\<^sup>*\<^sup>* s t" "market_inv t" "stream_last st p s \<le> stream_last st p t"
    "res = Inr (True, False) \<Longrightarrow> q \<noteq> 0 \<Longrightarrow> stream_last ''orderbook'' pair s < uint q \<and> stream_last ''orderbook'' pair t = uint q"
proof -
  show "market_step\<^sup>*\<^sup>* s t" using market_step.book [of s db pair q] assms(1) by (metis r_into_rtranclp snd_conv)
  show "market_inv t" using ClaimOrderBookSequence_safe [of s db pair q] assms by (simp add: market_safe_def)
  have "t = s \<and> (\<exists>e. res = Inl e) \<or> claimSequence db pair ''orderbook'' q True s = Inr (res, t)"
    using assms(1) by (auto simp: ClaimOrderBookSequence_def transaction_Inl transaction_Inr split: prod.splits sum.splits)
  then show "stream_last st p s \<le> stream_last st p t"
    "res = Inr (True, False) \<Longrightarrow> q \<noteq> 0 \<Longrightarrow> stream_last ''orderbook'' pair s < uint q \<and> stream_last ''orderbook'' pair t = uint q"
    using claim_advances [OF _ assms(2)] by auto
qed

lemma trade_claim:
  assumes "ApplyTrade uni db trade s = (res, t)" "market_inv s"
  shows "market_step\<^sup>*\<^sup>* s t" "market_inv t" "stream_last st p s \<le> stream_last st p t"
    "res = Inr (candle, False) \<Longrightarrow> stream_last ''trades'' (mt_Pair trade) s < uint (mt_SequenceID trade) \<and>
      stream_last ''trades'' (mt_Pair trade) t = uint (mt_SequenceID trade)"
proof -
  show "market_step\<^sup>*\<^sup>* s t" using market_step.trade [of s uni db trade] assms(1) by (metis r_into_rtranclp snd_conv)
  show inv_t: "market_inv t" using ApplyTrade_safe [of s uni db trade] assms by (simp add: market_safe_def)
  have "t = s \<and> (\<exists>e. res = Inl e) \<or> ApplyTrade_tx uni db trade s = Inr (res, t) \<and> validateTrade uni trade = None"
    using assms(1) by (auto simp: ApplyTrade_def transaction_Inl transaction_Inr split: prod.splits sum.splits option.splits)
  moreover have "stream_last st p s \<le> stream_last st p t \<and> (\<forall>c. res = Inr (c, False) \<longrightarrow>
      stream_last ''trades'' (mt_Pair trade) s < uint (mt_SequenceID trade) \<and> stream_last ''trades'' (mt_Pair trade) t = uint (mt_SequenceID trade))"
    if run: "ApplyTrade_tx uni db trade s = Inr (res, t)" and valid: "validateTrade uni trade = None" for st p
  proof -
    obtain claim s1 where claim: "claimSequence db (mt_Pair trade) ''trades'' (mt_SequenceID trade) False s = Inr (claim, s1)"
      and rest: "(case claim of Inl e \<Rightarrow> returnT (Inl e) | Inr (accepted, duplicate) \<Rightarrow>
         if duplicate then duplicate_trade trade else if \<not> accepted then returnT (Inr (zero_candle, False)) else record_trade uni db trade) s1 = Inr (res, t)"
      using run by (auto simp: ApplyTrade_tx_def tx_simps)
    have "mt_SequenceID trade \<noteq> 0" using valid by (auto simp: validateTrade_def split: if_splits)
    note adv = claim_advances [OF claim assms(2)]
    have "candles_match s1" using assms(2) claim_tables [OF claim assms(2)] by (simp add: market_inv_def candles_match_def minute_events_def)
    then have streams: "market_stream_sequences t = market_stream_sequences s1"
      using rest record_trade_matches(3) [OF _ valid]
      by (auto simp: duplicate_trade_def tx_simps split: sum.splits prod.splits if_splits option.splits)
    have "claim = Inr (True, False)" if "res = Inr (c, False)" for c
      using claim rest that by (cases rule: claim_cases) (auto simp: duplicate_trade_def tx_simps split: option.splits)
    then show ?thesis using adv \<open>mt_SequenceID trade \<noteq> 0\<close> by (auto simp: stream_last_def streams)
  qed
  ultimately show "stream_last st p s \<le> stream_last st p t"
    "res = Inr (candle, False) \<Longrightarrow> stream_last ''trades'' (mt_Pair trade) s < uint (mt_SequenceID trade) \<and>
      stream_last ''trades'' (mt_Pair trade) t = uint (mt_SequenceID trade)"
    by auto
qed

lemma processOrderBook_consumes: "consumes w (snd (processOrderBook cs payload w))"
proof (cases "processOrderBook cs payload w")
  case (Pair r w')
  have "consumer_inv w' \<and> market_step\<^sup>*\<^sup>* (kw_tables w) (kw_tables w') \<and> (\<exists>ms. kw_messages w' = kw_messages w @ ms)" if inv: "consumer_inv w"
  proof (cases "DecodeOrderBookSnapshot (cs_books cs) payload")
    case (Inl e)
    then show ?thesis using Pair inv by (simp add: processOrderBook_def)
  next
    case (Inr book)
    have positive: "os_SequenceID book \<noteq> 0"
      using Inr by (auto simp: DecodeOrderBookSnapshot_def Let_def Snapshot_Validate_def split: if_splits option.splits)
    obtain res t where claim: "ClaimOrderBookSequence (cs_db cs) (os_Pair book) (os_SequenceID book) (kw_tables w) = (res, t)" by fastforce
    have "market_inv (kw_tables w)" using inv by (simp add: consumer_inv_def)
    note t = book_claim [OF claim this]
    let ?w = "w\<lparr>kw_tables := t\<rparr>"
    have w: "consumer_inv ?w" by (rule consumer_inv_claim [OF inv t(3,2)])
    show ?thesis
    proof (cases "kw_tables w' = t \<and> kw_messages w' = kw_messages w")
      case True
      then show ?thesis using same_world [of w' ?w] w t(1) by simp
    next
      case False
      then obtain w1 where accepted: "res = Inr (True, False)" and w1: "SaveOrderBook cs book ?w = (None, w1)"
        "Publish cs (fst (NewRealtimeMessage (uni_upper (cs_env cs)) ''l2update'' (''orderbook.'' @ os_Pair book) (os_Pair book) (os_SequenceID book) (BookData (Public book)))) w1 = (r, w')"
        using Pair claim Inr
        by (auto simp: processOrderBook_def dest!: handleGap_world SaveOrderBook_world split: sum.splits prod.splits if_splits option.splits)
      note last = t(4) [OF accepted positive]
      have same: "kw_tables w1 = t" "kw_messages w1 = kw_messages w" "consumer_inv w1" "sent ty p w1 = sent ty p w" for ty p
        using SaveOrderBook_world [OF w1(1)] same_world [of w1 ?w] w by (auto simp: sent_def)
      have kind: "(''l2update'', ''orderbook'') \<in> set message_kinds" by (simp add: message_kinds_def)
      have "upto_sequence (uint (os_SequenceID book) - 1) (sent ''l2update'' (os_Pair book) w1)"
        unfolding same(4) using last by (intro claimed_behind [OF inv kind]) simp
      from publish_inv [OF same(3) kind this _ w1(2)] last same t(1) show ?thesis by simp
    qed
  qed
  with Pair show ?thesis by (simp add: consumes_def)
qed


lemma announce_consumes:
  assumes inv: "consumer_inv w" and claimed: "stream_last ''trades'' (mt_Pair trade) (kw_tables w) = uint (mt_SequenceID trade)"
    and behind: "\<And>ty. ty \<in> {''trade'', ''ticker'', ''kline''} \<Longrightarrow> upto_sequence (uint (mt_SequenceID trade) - 1) (sent ty (mt_Pair trade) w)"
    and run: "announce_trade cs trade candle w = (r, w')"
  shows "consumer_inv w' \<and> kw_tables w' = kw_tables w \<and> (\<exists>ms. kw_messages w' = kw_messages w @ ms)"
proof -
  let ?p = "mt_Pair trade" and ?q = "mt_SequenceID trade"
  let ?new = "\<lambda>ty ch d. fst (NewRealtimeMessage (uni_upper (cs_env cs)) ty ch ?p ?q d)"
  have kinds: "(''trade'', ''trades'') \<in> set message_kinds" "(''ticker'', ''trades'') \<in> set message_kinds" "(''kline'', ''trades'') \<in> set message_kinds"
    by (simp_all add: message_kinds_def)
  obtain r1 w1 where 1: "Publish cs (?new ''trade'' (''trades.'' @ ?p) (TradeData trade)) w = (r1, w1)" by fastforce
  note p1 = publish_inv [OF inv kinds(1) behind [of "''trade''", simplified] claimed 1]
  show ?thesis
  proof (cases "w' = w1")
    case True
    with p1 show ?thesis by simp
  next
    case False
    then obtain ticker r2 w2 where 2: "Publish cs (?new ''ticker'' (''ticker.'' @ ?p) (TickerData ticker)) w1 = (r2, w2)" and rest: "w' = w2 \<or>
        (\<exists>r3. Publish cs (?new ''kline'' (''klines.'' @ ?p @ ''.1m'') (CandleData candle)) w2 = (r3, w'))"
      using run 1 by (auto simp: announce_trade_def Let_def split: prod.splits option.splits sum.splits)
    have "upto_sequence (uint ?q - 1) (sent ''ticker'' ?p w1)" using behind [of "''ticker''"] p1(3) by simp
    note p2 = publish_inv [OF p1(1) kinds(2) this _ 2]
    have claimed1: "stream_last ''trades'' ?p (kw_tables w1) = uint ?q" using claimed p1(2) by simp
    show ?thesis
    proof (cases "w' = w2")
      case True
      then show ?thesis using p2 [OF claimed1] p1 by auto
    next
      case False
      then obtain r3 where 3: "Publish cs (?new ''kline'' (''klines.'' @ ?p @ ''.1m'') (CandleData candle)) w2 = (r3, w')" using rest by blast
      have "upto_sequence (uint ?q - 1) (sent ''kline'' ?p w2)" using behind [of "''kline''"] p1(3) p2(3) [OF claimed1] by simp
      note p3 = publish_inv [OF p2(1) [OF claimed1] kinds(3) this _ 3]
      have "stream_last ''trades'' ?p (kw_tables w2) = uint ?q" using claimed1 p2(2) [OF claimed1] by simp
      from p3 [OF this] p2 [OF claimed1] p1 show ?thesis by auto
    qed
  qed
qed

lemma processTrade_consumes: "consumes w (snd (processTrade cs payload w))"
proof (cases "processTrade cs payload w")
  case (Pair r w')
  have "consumer_inv w' \<and> market_step\<^sup>*\<^sup>* (kw_tables w) (kw_tables w') \<and> (\<exists>ms. kw_messages w' = kw_messages w @ ms)" if inv: "consumer_inv w"
  proof (cases "w' = w")
    case True
    then show ?thesis using inv by simp
  next
    case False
    then obtain trade res t where claim: "ApplyTrade (uni_upper (cs_env cs)) (cs_db cs) trade (kw_tables w) = (res, t)"
      and rest: "(case res of Inl e \<Rightarrow> handleGap cs e (w\<lparr>kw_tables := t\<rparr>)
        | Inr (candle, duplicate) \<Rightarrow> if duplicate then (None, w\<lparr>kw_tables := t\<rparr>) else announce_trade cs trade candle (w\<lparr>kw_tables := t\<rparr>)) = (r, w')"
      using Pair by (auto simp: processTrade_def Let_def split: sum.splits prod.splits if_splits)
    have "market_inv (kw_tables w)" using inv by (simp add: consumer_inv_def)
    note t = trade_claim [OF claim this]
    let ?w = "w\<lparr>kw_tables := t\<rparr>"
    have w: "consumer_inv ?w" by (rule consumer_inv_claim [OF inv t(3,2)])
    show ?thesis
    proof (cases "\<exists>candle. res = Inr (candle, False)")
      case True
      then obtain candle where accepted: "res = Inr (candle, False)" by blast
      note last = t(4) [OF accepted]
      have "upto_sequence (uint (mt_SequenceID trade) - 1) (sent ty (mt_Pair trade) ?w)" if "ty \<in> {''trade'', ''ticker'', ''kline''}" for ty
        using claimed_behind [OF inv, of ty "''trades''" "mt_Pair trade"] last that by (auto simp: message_kinds_def sent_def)
      from announce_consumes [OF w _ this] rest accepted last t(1) show ?thesis by auto
    next
      case False
      then have "kw_tables w' = t \<and> kw_messages w' = kw_messages w"
        using rest by (auto dest!: handleGap_world split: sum.splits prod.splits if_splits)
      then show ?thesis using same_world [of w' ?w] w t(1) by simp
    qed
  qed
  with Pair show ?thesis by (simp add: consumes_def)
qed

lemma consumes_trans: "consumes u v \<Longrightarrow> consumes v w \<Longrightarrow> consumes u w"
  by (force simp: consumes_def)

lemma market_loop_consumes: "consumes w (snd (market_loop events w))"
proof (induction events w rule: market_loop.induct)
  case (1 w)
  show ?case by (simp add: consumes_def)
next
  case (2 cs topic payload rest w)
  obtain r w' where run: "Market_Process cs topic payload w = (r, w')" by fastforce
  have "consumes w (snd (Market_Process cs topic payload w))"
    by (simp add: Market_Process_def processOrderBook_consumes processTrade_consumes) (simp add: consumes_def)
  then have "consumes w w'" using run by simp
  then show ?case using 2 run consumes_trans by (cases r) auto
qed

text \<open>
  C40: the consumer publishes in order and exactly once. Whatever messages arrive, with repetitions,
  gaps, failing cache calls and failing replay requests, the tables only change by the store's own
  steps, nothing published is taken back, and for each pair the order book updates, trades, tickers
  and candles published have strictly increasing sequence numbers.
\<close>

theorem market_messages_in_order:
  assumes "consumer_inv w" "market_loop events w = (r, w')"
  shows "market_step\<^sup>*\<^sup>* (kw_tables w) (kw_tables w') \<and> (\<exists>ms. kw_messages w' = kw_messages w @ ms) \<and>
    (\<forall>ty \<in> {''l2update'', ''trade'', ''ticker'', ''kline''}. \<forall>p.
      sorted_wrt (<) (map rm_SequenceID (filter (\<lambda>m. rm_Type m = ty \<and> rm_Pair m = p) (kw_messages w'))))"
proof -
  have "consumer_inv w'" and run: "market_step\<^sup>*\<^sup>* (kw_tables w) (kw_tables w')" "\<exists>ms. kw_messages w' = kw_messages w @ ms"
    using market_loop_consumes [of w events] assms by (auto simp: consumes_def)
  then have "sorted_wrt (<) (map rm_SequenceID (sent ty p w'))" if "ty \<in> {''l2update'', ''trade'', ''ticker'', ''kline''}" for ty p
    using that by (auto simp: consumer_inv_def message_kinds_def upto_sequence_def)
  then show ?thesis using run by (simp add: sent_def)
qed

text \<open>The same order book delivered twice.\<close>

definition demo_consumer :: market_consumer where
  "demo_consumer = \<lparr>cs_env = \<lparr>uni_upper = id, uni_lower = id, sha256 = id\<rparr>, cs_wire = text_wire, cs_books = text_book_wire, cs_db = demo_db,
     cs_maker = \<lparr>market_maker_control = \<lparr>mo_enabled = False, mo_dry_run = True, mo_kill_switch = False, mo_user = None, mo_account = None\<rparr>,
       market_maker_configs = [], market_maker_risk_state = [], market_maker_command_log = []\<rparr>,
     cs_control_updated = 0, cs_config_updated = (\<lambda>_. 0), cs_now = 0, cs_cache_fails = (\<lambda>_. None), cs_replay = None\<rparr>"

definition demo_market_world :: market_world where
  "demo_market_world = \<lparr>kw_tables = no_market, kw_books = [], kw_messages = [], kw_calls = 0, kw_replays = []\<rparr>"

definition demo_deliveries :: "(market_consumer \<times> string \<times> string) list" where
  "demo_deliveries = replicate 2 (demo_consumer, ''order_book'', bw_write text_book_wire demo_book)"

definition demo_claimed :: market_tables where
  "demo_claimed = no_market\<lparr>market_stream_sequences := [\<lparr>ms_pair = ''BTCUSDT'', ms_stream = ''orderbook'', ms_last = 7, ms_mode = ''active''\<rparr>]\<rparr>"

definition demo_published :: market_world where
  "demo_published = demo_market_world\<lparr>kw_tables := demo_claimed, kw_books := [(''BTCUSDT'', demo_book)], kw_calls := 2,
     kw_messages := [\<lparr>rm_Type = ''l2update'', rm_Channel = ''orderbook.BTCUSDT'', rm_Pair = ''BTCUSDT'', rm_SequenceID = 7, rm_Data = BookData (Public demo_book)\<rparr>]\<rparr>"

lemma demo_claims:
  "ClaimOrderBookSequence demo_db ''BTCUSDT'' 7 no_market = (Inr (True, False), demo_claimed)"
  "ClaimOrderBookSequence demo_db ''BTCUSDT'' 7 demo_claimed = (Inr (False, True), demo_claimed)"
  by (simp_all add: ClaimOrderBookSequence_def claimSequence_def insert_stream_def stream_of_def no_market_def demo_claimed_def demo_pairs
      transaction_def bindT_def queryT_def ensureT_def execT_def returnT_def)

lemma demo_process:
  "Market_Process demo_consumer ''order_book'' (bw_write text_book_wire demo_book) demo_market_world = (None, demo_published)"
  "Market_Process demo_consumer ''order_book'' (bw_write text_book_wire demo_book) demo_published = (None, demo_published)"
proof -
  have decode: "DecodeOrderBookSnapshot (cs_books demo_consumer) (bw_write text_book_wire demo_book) = Inr demo_book"
    using decode_written [OF text_book_wire_ok demo_book_proper] by (simp add: demo_consumer_def)
  have valid: "Snapshot_Validate demo_book = None" using demo_book_proper(1) by (simp add: Validate_proper)
  have cs: "cs_db demo_consumer = demo_db" "cs_cache_fails demo_consumer n = None" "uni_upper (cs_env demo_consumer) = id" for n by (simp_all add: demo_consumer_def)
  have book: "os_Pair demo_book = ''BTCUSDT''" "os_SequenceID demo_book = 7" by (simp_all add: demo_book_def)
  have tables: "kw_tables demo_market_world = no_market" "kw_tables demo_published = demo_claimed" by (simp_all add: demo_market_world_def demo_published_def)
  show "Market_Process demo_consumer ''order_book'' (bw_write text_book_wire demo_book) demo_market_world = (None, demo_published)"
    unfolding Market_Process_def TopicOrderBook_def processOrderBook_def decode
    by (simp add: tables cs book demo_claims SaveOrderBook_def valid Publish_def NewRealtimeMessage_def demo_pair_valid)
      (simp add: demo_published_def demo_market_world_def)
  show "Market_Process demo_consumer ''order_book'' (bw_write text_book_wire demo_book) demo_published = (None, demo_published)"
    unfolding Market_Process_def TopicOrderBook_def processOrderBook_def decode
    by (simp add: tables cs book demo_claims)
qed

lemma demo_delivered: "market_loop demo_deliveries demo_market_world = (None, demo_published)"
  by (simp add: demo_deliveries_def numeral_2_eq_2 demo_process)

theorem market_messages_in_order_witness:
  "\<exists>ms. kw_messages (snd (market_loop demo_deliveries demo_market_world)) = kw_messages demo_market_world @ ms \<and> map rm_SequenceID ms = [7]"
proof -
  have "consumer_inv demo_market_world"
    by (auto simp: consumer_inv_def demo_market_world_def market_inv_def no_market_def trades_gapless_def trades_last_def candles_match_def minute_events_def
        sent_def upto_sequence_def)
  from market_messages_in_order [OF this, of demo_deliveries "fst (market_loop demo_deliveries demo_market_world)" "snd (market_loop demo_deliveries demo_market_world)"]
  show ?thesis by (simp add: demo_delivered) (simp add: demo_published_def demo_market_world_def)
qed

end
