(* ===== verification/Test_Money.thy ===== *)
theory Test_Money
  imports Market_Quote Ledger_Frame
begin

text \<open>
  Test money, internal/testmoney: policy.go, references.go, service.go, postgres.go and configure.go. In the
  staging environment an operator proposes and another approves a grant of an internal asset to a
  tester; its value in USDT is taken from two venues and counts against a limit per tester and a
  global limit. A policy is stored as JSON and read back; the table keeps the value. The SHA-256 of
  a marshalled input, PostgreSQL's \<open>lower\<close> and \<open>upper\<close> and the answers of the venues are parameters.
  The goroutines of the venues answer in any order; their venues are different and the answers are
  sorted, so the model asks them one after the other. A Go map is a list of pairs.
\<close>

section \<open>Policy\<close>

datatype testmoney_error = TErrDisabled | TErrInput | TErrRole | TErrChecker | TErrRecipient | TErrConflict | TErrLimit | TErrReference
  | TErrNoRows | TErrLock | TPanic

definition TesterLimitUSDTAtomic :: string where "TesterLimitUSDTAtomic = ''1000000000000''"

record AssetPolicy =
  ap_Network :: string
  ap_Decimals :: int

record Policy =
  po_GlobalLimitUSDTAtomic :: string
  po_MaxAgeSeconds :: int
  po_MaxDivergenceBPS :: int
  po_Assets :: "(string \<times> AssetPolicy) list"

record Observation =
  obs_Venue :: string
  obs_PriceUSDTAtomic :: string
  obs_ObservedAt :: int

definition atomic_amount :: "string \<Rightarrow> bool \<Rightarrow> testmoney_error + int" where
  "atomic_amount s zero =
     (if s = [] \<or> length s > 78 \<or> (length s > 1 \<and> hd s = CHR ''0'') then Inl TErrInput
      else if \<not> list_all is_digit s then Inl TErrInput
      else case SetString s of
        None \<Rightarrow> Inl TErrInput
      | Some n \<Rightarrow> if \<not> zero \<and> n = 0 then Inl TErrInput else Inr n)"

definition asset_policy_ok :: "string \<times> AssetPolicy \<Rightarrow> bool" where
  "asset_policy_ok = (\<lambda>(i, a). i \<noteq> [] \<and> 0 \<le> ap_Decimals a \<and> ap_Decimals a \<le> 36 \<and>
     ap_Network a \<in> {''internal_spot'', ''ethereum_sepolia'', ''bitcoin_testnet4''})"

definition Policy_Validate :: "Policy \<Rightarrow> testmoney_error option" where
  "Policy_Validate p =
     (case atomic_amount (po_GlobalLimitUSDTAtomic p) False of
        Inl e \<Rightarrow> Some e
      | Inr _ \<Rightarrow>
          if po_MaxAgeSeconds p < 1 \<or> po_MaxAgeSeconds p > 300 \<or> po_MaxDivergenceBPS p < 1 \<or> po_MaxDivergenceBPS p > 10000 \<or> po_Assets p = []
            then Some TErrInput
          else if \<not> list_all asset_policy_ok (po_Assets p) then Some TErrInput
          else None)"

text \<open>One observation of the loop of \<open>Value\<close>: its venue is new, it is fresh and its price is readable.\<close>

definition observed_price :: "go_env \<Rightarrow> Policy \<Rightarrow> int \<Rightarrow> string list \<Rightarrow> Observation \<Rightarrow> testmoney_error + string \<times> int" where
  "observed_price env p now venues ob =
     (let venue = ToLower (uni_lower env) (TrimSpace (obs_Venue ob)) in
      if venue = [] \<or> venue \<in> set venues \<or> obs_ObservedAt ob = zero_time \<or> obs_ObservedAt ob > now \<or>
         time_sub now (obs_ObservedAt ob) > po_MaxAgeSeconds p * 10 ^ 9
        then Inl TErrReference
      else case atomic_amount (obs_PriceUSDTAtomic ob) False of Inl _ \<Rightarrow> Inl TErrReference | Inr n \<Rightarrow> Inr (venue, n))"

definition Policy_Value :: "go_env \<Rightarrow> Policy \<Rightarrow> string \<Rightarrow> string \<Rightarrow> Observation list \<Rightarrow> int \<Rightarrow> testmoney_error + string" where
  "Policy_Value env p assetID amount observations now =
     (case Policy_Validate p of
        Some e \<Rightarrow> Inl e
      | None \<Rightarrow>
          (case map_of (po_Assets p) assetID of
             None \<Rightarrow> Inl TErrInput
           | Some a \<Rightarrow>
               bindE (atomic_amount amount False) (\<lambda>qty.
               if now = zero_time then Inl TErrReference
               else case observations of
                 [first, second] \<Rightarrow>
                   bindE (observed_price env p now [] first) (\<lambda>(venue, v0).
                   bindE (observed_price env p now [venue] second) (\<lambda>(_, v1).
                   let low = min v0 v1; high = max v0 v1 in
                   if (high - low) * 10000 > low * po_MaxDivergenceBPS p then Inl TErrReference
                   else Inr (BigString (ceilDiv (qty * ceilDiv (low + high) 2) (10 ^ nat (ap_Decimals a))))))
               | _ \<Rightarrow> Inl TErrReference)))"

definition CheckQuota :: "Policy \<Rightarrow> string \<Rightarrow> string \<Rightarrow> string \<Rightarrow> testmoney_error option" where
  "CheckQuota p val userUsed globalUsed =
     (case Policy_Validate p of
        Some e \<Rightarrow> Some e
      | None \<Rightarrow>
          (case bindE (atomic_amount val False) (\<lambda>v.
             bindE (atomic_amount userUsed True) (\<lambda>u.
             bindE (atomic_amount globalUsed True) (\<lambda>g.
             bindE (atomic_amount TesterLimitUSDTAtomic False) (\<lambda>limit.
             bindE (atomic_amount (po_GlobalLimitUSDTAtomic p) False) (\<lambda>global.
             if u + v > limit \<or> g + v > global then Inl TErrLimit else Inr ()))))) of
             Inl e \<Rightarrow> Some e
           | Inr _ \<Rightarrow> None))"

section \<open>Reference prices\<close>

record venue_ticker =
  vt_Symbol :: string
  vt_Bid :: string
  vt_Ask :: string
  vt_ObservedAt :: int

type_synonym venue_provider = "string \<Rightarrow> venue_ticker option"

definition decimalPriceToUSDTAtomic :: "string \<Rightarrow> testmoney_error + int" where
  "decimalPriceToUSDTAtomic value =
     (if value = [] \<or> TrimSpace value \<noteq> value \<or> HasPrefix value ''+'' \<or> HasPrefix value ''-'' then Inl TErrReference
      else
        let parts = Split (CHR ''.'') value; fraction = (if length parts = 2 then parts ! 1 else []) in
        if length parts > 2 \<or> hd parts = [] \<or> (length parts = 2 \<and> parts ! 1 = []) then Inl TErrReference
        else if \<not> list_all (list_all is_digit) parts then Inl TErrReference
        else if length fraction > 36 \<or> length (hd parts) + length fraction > 78 then Inl TErrReference
        else
          let digits = dropWhile (\<lambda>c. c = CHR ''0'') (hd parts @ fraction) in
          if digits = [] then Inr 0
          else case SetString digits of
            None \<Rightarrow> Inl TErrReference
          | Some n \<Rightarrow>
              let m = (if length fraction < 8 then n * 10 ^ (8 - length fraction)
                       else if length fraction > 8 then ceilDiv n (10 ^ (length fraction - 8)) else n) in
              if length (BigString m) > 78 then Inl TErrReference else Inr m)"

text \<open>The configured venues: named, with a provider, each name once.\<close>

fun configured_venues :: "go_env \<Rightarrow> string list \<Rightarrow> (string \<times> venue_provider option) list \<Rightarrow> (string \<times> venue_provider) list" where
  "configured_venues env seen [] = []"
| "configured_venues env seen ((raw, provider) # rest) =
     (let name = ToLower (uni_lower env) (TrimSpace raw) in
      case provider of
        None \<Rightarrow> configured_venues env seen rest
      | Some p \<Rightarrow>
          if name = [] \<or> name \<in> set seen then configured_venues env seen rest
          else (name, p) # configured_venues env (name # seen) rest)"

definition venue_observation :: "string \<Rightarrow> string \<times> venue_provider \<Rightarrow> Observation option" where
  "venue_observation symbol v =
     (case snd v (symbol @ ''USDT'') of
        None \<Rightarrow> None
      | Some ticker \<Rightarrow>
          if vt_Symbol ticker \<noteq> symbol @ ''USDT'' \<or> vt_ObservedAt ticker = zero_time then None
          else case (decimalPriceToUSDTAtomic (vt_Bid ticker), decimalPriceToUSDTAtomic (vt_Ask ticker)) of
            (Inr bid, Inr ask) \<Rightarrow>
              if bid \<le> 0 \<or> ask < bid then None
              else Some \<lparr>obs_Venue = fst v, obs_PriceUSDTAtomic = BigString (ceilDiv (bid + ask) 2), obs_ObservedAt = vt_ObservedAt ticker\<rparr>
          | _ \<Rightarrow> None)"

definition Observations :: "go_env \<Rightarrow> (string \<Rightarrow> (string \<times> string) option) \<Rightarrow> (string \<times> venue_provider option) list \<Rightarrow> string \<Rightarrow>
    testmoney_error + Observation list" where
  "Observations env lookup providers assetID =
     (case lookup assetID of
        None \<Rightarrow> Inl TErrReference
      | Some (raw, network) \<Rightarrow>
          let symbol = ToUpper (uni_upper env) (TrimSpace raw) in
          if symbol = [] \<or> symbol = ''USDT'' \<or> network \<noteq> ''internal_spot'' then Inl TErrReference
          else
            let observations = List.map_filter (venue_observation symbol) (configured_venues env [] providers) in
            if length observations < 2 then Inl TErrReference
            else Inr (take 2 (sort_key obs_Venue observations)))"

section \<open>Tables\<close>

text \<open>
  The tables of migrations 000068 and 000069. The rows of policies, requests and grants can be
  inserted only: a trigger refuses updates and deletes. The single row of \<open>test_money_control\<close>
  is four fields of the state. \<open>user_emails\<close> is the column \<open>users.email\<close>.
\<close>

record tm_request_row =
  tr_id :: string
  tr_proposed_by :: string
  tr_recipient :: string
  tr_account :: string
  tr_asset :: string
  tr_amount :: int
  tr_reason :: string
  tr_policy :: string
  tr_key :: string
  tr_hash :: string

record tm_grant_row =
  tg_request :: string
  tg_approved_by :: string
  tg_key :: string
  tg_journal :: string
  tg_value :: int
  tg_evidence :: "Observation list"

record testmoney_db = ledger_db +
  user_emails :: "(string \<times> string) list"
  tm_policies :: "(string \<times> Policy) list"
  tm_enabled :: bool
  tm_limits_ready :: bool
  tm_environment :: string
  tm_policy :: "string option"
  tm_recipients :: "(string \<times> bool) list"
  tm_requests :: "tm_request_row list"
  tm_grants :: "tm_grant_row list"

type_synonym 'a testmoney_tx = "(testmoney_db, testmoney_error failure, 'a) tx"

section \<open>Statements of postgres.go\<close>

record Input =
  in_RecipientID :: string
  in_AccountID :: string
  in_AssetID :: string
  in_AmountAtomic :: string
  in_Reason :: string
  in_IdempotencyKey :: string

record Request =
  rq_ID :: string
  rq_ProposedBy :: string
  rq_PolicyID :: string
  rq_Input :: Input

record Grant =
  gr_RequestID :: string
  gr_JournalID :: string
  gr_ValueUSDTAtomic :: string

text \<open>A Go error or nothing, as a statement.\<close>

definition check_result :: "testmoney_error option \<Rightarrow> unit testmoney_tx" where
  "check_result r = (case r of None \<Rightarrow> returnT () | Some e \<Rightarrow> failT (App e))"

definition empty_policy :: Policy where
  "empty_policy = \<lparr>po_GlobalLimitUSDTAtomic = [], po_MaxAgeSeconds = 0, po_MaxDivergenceBPS = 0, po_Assets = []\<rparr>"

definition loadPolicy :: "(string \<times> Policy) testmoney_tx" where
  "loadPolicy =
     bindT (queryT (\<lambda>s. (tm_enabled s \<and> tm_limits_ready s, tm_environment s, tm_policy s))) (\<lambda>(enabled, environment, policy).
     case policy of
       None \<Rightarrow> failT (App TErrDisabled)
     | Some ident \<Rightarrow>
         bindT (ensureT (enabled \<and> environment = ''staging'' \<and> ident \<noteq> []) (App TErrDisabled)) (\<lambda>_.
         bindT (queryT (\<lambda>s. case map_of (tm_policies s) ident of None \<Rightarrow> empty_policy | Some p \<Rightarrow> p)) (\<lambda>p.
         bindT (check_result (Policy_Validate p)) (\<lambda>_.
         returnT (ident, p)))))"

definition active_user :: "'r ledger_db_scheme \<Rightarrow> string \<Rightarrow> bool" where
  "active_user s ident \<longleftrightarrow> (\<exists>u \<in> set (users s). u_id u = ident \<and> u_status u = ''active'')"

definition role :: "string \<Rightarrow> string \<Rightarrow> unit testmoney_tx" where
  "role actor wanted =
     bindT (queryT (\<lambda>s. active_user s actor \<and> (actor, wanted) \<in> set (user_roles s))) (\<lambda>found.
     ensureT found (App TErrRole))"

definition eligible :: "Policy \<Rightarrow> Input \<Rightarrow> unit testmoney_tx" where
  "eligible p i =
     (case map_of (po_Assets p) (in_AssetID i) of
        None \<Rightarrow> failT (App TErrInput)
      | Some ap \<Rightarrow>
          bindT (queryT (\<lambda>s.
            (\<exists>a \<in> set (accounts s). ac_id a = in_AccountID i \<and> ac_user_id a = Some (in_RecipientID i) \<and> ac_status a = ''active'' \<and>
               ac_kind a \<in> {''funding'', ''uta''}) \<and>
            active_user s (in_RecipientID i) \<and> (in_RecipientID i, True) \<in> set (tm_recipients s) \<and>
            (\<exists>x \<in> set (assets s). as_id x = in_AssetID i \<and> as_status x = ''enabled'' \<and> as_network x = ap_Network ap \<and> as_decimals x = ap_Decimals ap))) (\<lambda>found.
          ensureT found (App TErrRecipient)))"

definition request_of :: "tm_request_row \<Rightarrow> Request" where
  "request_of r = \<lparr>rq_ID = tr_id r, rq_ProposedBy = tr_proposed_by r, rq_PolicyID = tr_policy r,
     rq_Input = \<lparr>in_RecipientID = tr_recipient r, in_AccountID = tr_account r, in_AssetID = tr_asset r,
       in_AmountAtomic = BigString (tr_amount r), in_Reason = tr_reason r, in_IdempotencyKey = tr_key r\<rparr>\<rparr>"

definition loadRequest :: "string \<Rightarrow> Request testmoney_tx" where
  "loadRequest ident = bindT (rowT (\<lambda>s. find (\<lambda>r. tr_id r = ident) (tm_requests s)) (App TErrInput)) (\<lambda>r. returnT (request_of r))"

definition input_json :: "Input \<Rightarrow> json" where
  "input_json i = JObject [(''RecipientID'', JString (in_RecipientID i)), (''AccountID'', JString (in_AccountID i)), (''AssetID'', JString (in_AssetID i)),
     (''AmountAtomic'', JString (in_AmountAtomic i)), (''Reason'', JString (in_Reason i)), (''IdempotencyKey'', JString (in_IdempotencyKey i))]"

definition request_json :: "Request \<Rightarrow> (string \<times> json) list" where
  "request_json r = [(''ID'', JString (rq_ID r)), (''ProposedBy'', JString (rq_ProposedBy r)), (''PolicyID'', JString (rq_PolicyID r)),
     (''Input'', input_json (rq_Input r))]"

definition grant_json :: "Grant \<Rightarrow> (string \<times> json) list" where
  "grant_json g = [(''RequestID'', JString (gr_RequestID g)), (''JournalID'', JString (gr_JournalID g)), (''ValueUSDTAtomic'', JString (gr_ValueUSDTAtomic g))]"

definition record_event :: "string \<Rightarrow> string \<Rightarrow> string \<Rightarrow> string \<Rightarrow> (string \<times> json) list \<Rightarrow> unit testmoney_tx" where
  "record_event actor action ident reason payload =
     bindT (execT (\<lambda>s. s\<lparr>audit_events := audit_events s @
       [\<lparr>au_actor = actor, au_action = action, au_resource = ident, au_reason = reason, au_metadata = payload\<rparr>]\<rparr>)) (\<lambda>_.
     append_outbox action ''test_money_request'' ident payload)"

definition issuance_account :: "string \<Rightarrow> string testmoney_tx" where
  "issuance_account name =
     bindT (queryT (\<lambda>s. find (\<lambda>a. ac_kind a = ''system'' \<and> ac_name a = name) (accounts s))) (\<lambda>found.
     bindT (case found of
         Some _ \<Rightarrow> returnT ()
       | None \<Rightarrow>
           bindT gen_random_uuid (\<lambda>ident.
           bindT (queryT accounts) (\<lambda>rows.
           bindT (ensureT (ident \<notin> ac_id ` set rows) unique_violation) (\<lambda>_.
           execT (\<lambda>s. s\<lparr>accounts := accounts s @
             [\<lparr>ac_id = ident, ac_user_id = None, ac_kind = ''system'', ac_name = name, ac_status = ''frozen''\<rparr>]\<rparr>))))) (\<lambda>_.
     bindT (rowT (\<lambda>s. find (\<lambda>a. ac_kind a = ''system'' \<and> ac_name a = name \<and> ac_user_id a = None \<and> ac_status a = ''frozen'') (accounts s))
       (App TErrNoRows)) (\<lambda>a.
     returnT (ac_id a))))"

definition issuance_legs :: "string \<Rightarrow> string \<Rightarrow> string \<Rightarrow> int \<Rightarrow> posting_leg list" where
  "issuance_legs counterpart account asset n =
     [\<lparr>l_account = counterpart, l_asset = asset, l_bucket = Available, l_direction = DebitSide, l_amount = n\<rparr>,
      \<lparr>l_account = account, l_asset = asset, l_bucket = Available, l_direction = CreditSide, l_amount = n\<rparr>]"

text \<open>\<open>$4::numeric\<close>: the text of a number; a text that is none is error 22P02.\<close>

definition numeric_cast :: "string \<Rightarrow> int testmoney_tx" where
  "numeric_cast txt = (case SetString txt of None \<Rightarrow> failT (Pg ''22P02'') | Some n \<Rightarrow> returnT n)"

text \<open>\<open>CHECK (length(c) BETWEEN m AND n)\<close> counts characters, \<open>len\<close> in Go counts bytes.\<close>

definition char_length :: "string \<Rightarrow> nat" where
  "char_length txt = length (filter (\<lambda>c. \<not> (128 \<le> byte c \<and> byte c < 192)) txt)"

definition insert_grant :: "tm_grant_row \<Rightarrow> unit testmoney_tx" where
  "insert_grant g =
     bindT (ensureT (1 \<le> char_length (tg_key g) \<and> char_length (tg_key g) \<le> 255 \<and> 0 < tg_value g) check_violation) (\<lambda>_.
     bindT (queryT tm_grants) (\<lambda>rows.
     bindT (ensureT (tg_request g \<notin> tg_request ` set rows \<and> tg_journal g \<notin> tg_journal ` set rows \<and>
         (tg_approved_by g, tg_key g) \<notin> (\<lambda>r. (tg_approved_by r, tg_key r)) ` set rows) unique_violation) (\<lambda>_.
     execT (\<lambda>s. s\<lparr>tm_grants := tm_grants s @ [g]\<rparr>))))"

definition postGrant :: "Request \<Rightarrow> string \<Rightarrow> string \<Rightarrow> string \<Rightarrow> Observation list \<Rightarrow> Grant testmoney_tx" where
  "postGrant r actor key val observations =
     (let i = rq_Input r in
      bindT (issuance_account (''test-money-issuance-'' @ in_AssetID i)) (\<lambda>counterpart.
      bindT (forT (\<lambda>(a, x). LockAccountAsset TErrLock a x) (map (\<lambda>a. (a, in_AssetID i)) (sort [counterpart, in_AccountID i]))) (\<lambda>_.
      bindT (numeric_cast (in_AmountAtomic i)) (\<lambda>amount.
      bindT (post_journal (''test-money:'' @ rq_ID r) ''test_money_issuance'' (rq_ID r)
        (issuance_legs counterpart (in_AccountID i) (in_AssetID i) amount)) (\<lambda>jid.
      bindT (numeric_cast val) (\<lambda>worth.
      bindT (insert_grant \<lparr>tg_request = rq_ID r, tg_approved_by = actor, tg_key = key, tg_journal = jid, tg_value = worth, tg_evidence = observations\<rparr>) (\<lambda>_.
      let grant = \<lparr>gr_RequestID = rq_ID r, gr_JournalID = jid, gr_ValueUSDTAtomic = val\<rparr> in
      bindT (record_event actor ''test_money.issued'' (rq_ID r) (in_Reason i) (grant_json grant)) (\<lambda>_.
      returnT grant))))))))"

section \<open>Proposing and approving, service.go\<close>

text \<open>The environment of the service: \<open>s.environment\<close>, whether there is a pool, and the reference source, if any.\<close>

record testmoney_service =
  ts_environment :: string
  ts_pool :: bool
  ts_references :: "(string \<Rightarrow> testmoney_error + Observation list) option"

definition begin_service :: "testmoney_service \<Rightarrow> 'a testmoney_tx \<Rightarrow> testmoney_db \<Rightarrow> (testmoney_error failure + 'a) \<times> testmoney_db" where
  "begin_service sv body s = (if ts_environment sv \<noteq> ''staging'' \<or> \<not> ts_pool sv then (Inl (App TErrDisabled), s) else transaction body s)"

definition validKey :: "string \<Rightarrow> bool" where
  "validKey key \<longleftrightarrow> length key > 0 \<and> length key \<le> 255 \<and> TrimSpace key = key"

definition insert_request :: "tm_request_row \<Rightarrow> string testmoney_tx" where
  "insert_request r =
     bindT gen_random_uuid (\<lambda>ident.
     bindT (ensureT (0 < tr_amount r \<and> 8 \<le> char_length (tr_reason r) \<and> char_length (tr_reason r) \<le> 1000 \<and>
         1 \<le> char_length (tr_key r) \<and> char_length (tr_key r) \<le> 255) check_violation) (\<lambda>_.
     bindT (queryT tm_requests) (\<lambda>rows.
     bindT (ensureT (ident \<notin> tr_id ` set rows \<and> (tr_proposed_by r, tr_key r) \<notin> (\<lambda>x. (tr_proposed_by x, tr_key x)) ` set rows) unique_violation) (\<lambda>_.
     bindT (execT (\<lambda>s. s\<lparr>tm_requests := tm_requests s @ [r\<lparr>tr_id := ident\<rparr>]\<rparr>)) (\<lambda>_.
     returnT ident)))))"

definition Propose_tx :: "(json \<Rightarrow> string) \<Rightarrow> string \<Rightarrow> Input \<Rightarrow> Request testmoney_tx" where
  "Propose_tx json_hash actor i =
     bindT loadPolicy (\<lambda>(policyID, policy).
     bindT (role actor ''treasury_operator'') (\<lambda>_.
     let hash = json_hash (input_json i) in
     bindT (queryT (\<lambda>s. find (\<lambda>r. tr_proposed_by r = actor \<and> tr_key r = in_IdempotencyKey i) (tm_requests s))) (\<lambda>old.
     case old of
       Some r \<Rightarrow>
         bindT (ensureT (tr_hash r = hash) (App TErrConflict)) (\<lambda>_.
         loadRequest (tr_id r))
     | None \<Rightarrow>
         bindT (eligible policy i) (\<lambda>_.
         bindT (numeric_cast (in_AmountAtomic i)) (\<lambda>amount.
         bindT (insert_request \<lparr>tr_id = [], tr_proposed_by = actor, tr_recipient = in_RecipientID i, tr_account = in_AccountID i, tr_asset = in_AssetID i,
           tr_amount = amount, tr_reason = in_Reason i, tr_policy = policyID, tr_key = in_IdempotencyKey i, tr_hash = hash\<rparr>) (\<lambda>ident.
         let r = \<lparr>rq_ID = ident, rq_ProposedBy = actor, rq_PolicyID = policyID, rq_Input = i\<rparr> in
         bindT (record_event actor ''test_money.proposed'' ident (in_Reason i) (request_json r)) (\<lambda>_.
         returnT r)))))))"

definition Propose :: "(json \<Rightarrow> string) \<Rightarrow> testmoney_service \<Rightarrow> string \<Rightarrow> Input \<Rightarrow> testmoney_db \<Rightarrow> (testmoney_error failure + Request) \<times> testmoney_db" where
  "Propose json_hash sv actor i s =
     (if actor = [] \<or> in_RecipientID i = [] \<or> in_AccountID i = [] \<or> in_AssetID i = [] \<or> length (TrimSpace (in_Reason i)) < 8 \<or>
         length (in_Reason i) > 1000 \<or> \<not> validKey (in_IdempotencyKey i)
        then (Inl (App TErrInput), s)
      else case atomic_amount (in_AmountAtomic i) False of
        Inl e \<Rightarrow> (Inl (App e), s)
      | Inr _ \<Rightarrow> begin_service sv (Propose_tx json_hash actor i) s)"

text \<open>\<open>SELECT COALESCE(SUM(g.value_usdt_atomic) FILTER(WHERE r.recipient_id=$1),0), COALESCE(SUM(g.value_usdt_atomic),0)
  FROM test_money_grants g JOIN test_money_requests r ON r.id=g.request_id\<close>.\<close>

definition joined_grants :: "testmoney_db \<Rightarrow> (tm_grant_row \<times> tm_request_row) list" where
  "joined_grants s = [(g, r). g \<leftarrow> tm_grants s, r \<leftarrow> tm_requests s, tr_id r = tg_request g]"

definition used_by :: "testmoney_db \<Rightarrow> string \<Rightarrow> int" where
  "used_by s recipient = sum_list (map (\<lambda>(g, r). tg_value g) (filter (\<lambda>(g, r). tr_recipient r = recipient) (joined_grants s)))"

definition used_total :: "testmoney_db \<Rightarrow> int" where
  "used_total s = sum_list (map (\<lambda>(g, r). tg_value g) (joined_grants s))"

definition issue_grant :: "go_env \<Rightarrow> testmoney_service \<Rightarrow> int \<Rightarrow> string \<Rightarrow> string \<Rightarrow> Request \<Rightarrow> string \<times> Policy \<Rightarrow> Grant testmoney_tx" where
  "issue_grant env sv now actor key request = (\<lambda>(policyID, policy).
     let i = rq_Input request in
     bindT (queryT (\<lambda>s. rq_ID request \<in> tg_request ` set (tm_grants s))) (\<lambda>present.
     bindT (ensureT (\<not> present) (App TErrConflict)) (\<lambda>_.
     bindT (ensureT (rq_PolicyID request = policyID) (App TErrConflict)) (\<lambda>_.
     bindT (role (rq_ProposedBy request) ''treasury_operator'') (\<lambda>_.
     bindT (eligible policy i) (\<lambda>_.
     case ts_references sv of
       None \<Rightarrow> failT (App TErrReference)
     | Some observe \<Rightarrow>
         bindT (liftT (map_sum App id (observe (in_AssetID i)))) (\<lambda>observations.
         bindT (liftT (map_sum App id (Policy_Value env policy (in_AssetID i) (in_AmountAtomic i) observations now))) (\<lambda>val.
         bindT (queryT (\<lambda>s. (used_by s (in_RecipientID i), used_total s))) (\<lambda>(userUsed, globalUsed).
         bindT (check_result (CheckQuota policy val (BigString userUsed) (BigString globalUsed))) (\<lambda>_.
         postGrant request actor key val observations))))))))))"

definition Approve_tx :: "go_env \<Rightarrow> testmoney_service \<Rightarrow> int \<Rightarrow> string \<Rightarrow> string \<Rightarrow> string \<Rightarrow> Grant testmoney_tx" where
  "Approve_tx env sv now actor requestID key =
     bindT loadPolicy (\<lambda>policy.
     bindT (role actor ''treasury_approver'') (\<lambda>_.
     bindT (loadRequest requestID) (\<lambda>request.
     bindT (ensureT (actor \<noteq> rq_ProposedBy request) (App TErrChecker)) (\<lambda>_.
     bindT (queryT (\<lambda>s. find (\<lambda>g. tg_approved_by g = actor \<and> tg_key g = key) (tm_grants s))) (\<lambda>old.
     case old of
       Some g \<Rightarrow>
         bindT (ensureT (tg_request g = requestID) (App TErrConflict)) (\<lambda>_.
         returnT \<lparr>gr_RequestID = tg_request g, gr_JournalID = tg_journal g, gr_ValueUSDTAtomic = BigString (tg_value g)\<rparr>)
     | None \<Rightarrow> issue_grant env sv now actor key request policy)))))"

definition Approve :: "go_env \<Rightarrow> testmoney_service \<Rightarrow> int \<Rightarrow> string \<Rightarrow> string \<Rightarrow> string \<Rightarrow> testmoney_db \<Rightarrow> (testmoney_error failure + Grant) \<times> testmoney_db" where
  "Approve env sv now actor requestID key s =
     (if actor = [] \<or> requestID = [] \<or> \<not> validKey key then (Inl (App TErrInput), s)
      else begin_service sv (Approve_tx env sv now actor requestID key) s)"

section \<open>Configuring the pilot, configure.go\<close>

record PilotConfigInput =
  pi_OperatorEmail :: string
  pi_ApproverEmail :: string
  pi_RecipientEmails :: "string list"
  pi_AssetSymbols :: "string list"
  pi_Reason :: string
  pi_IdempotencyKey :: string

record PilotConfigResult =
  pr_PolicyID :: string
  pr_OperatorID :: string
  pr_ApproverID :: string
  pr_Recipients :: "(string \<times> string) list"
  pr_Assets :: "(string \<times> string) list"
  pr_EnabledAssets :: "string list"
  pr_GlobalLimit :: string

fun normalize_list :: "(string \<Rightarrow> string) \<Rightarrow> string list \<Rightarrow> string list \<Rightarrow> string list" where
  "normalize_list f seen [] = []"
| "normalize_list f seen (raw # rest) =
     (let value = f (TrimSpace raw) in
      if value = [] \<or> value \<in> set seen then normalize_list f seen rest else value # normalize_list f (value # seen) rest)"

definition normalizePilotList :: "go_env \<Rightarrow> string list \<Rightarrow> bool \<Rightarrow> string list" where
  "normalizePilotList env values email = sort (normalize_list (if email then ToLower (uni_lower env) else ToUpper (uni_upper env)) [] values)"

text \<open>The columns and functions of PostgreSQL: the first active user of an email, and the two case mappings.\<close>

record pg_text =
  pg_lower_text :: "string \<Rightarrow> string"
  pg_upper_text :: "string \<Rightarrow> string"

definition email_user :: "pg_text \<Rightarrow> string \<Rightarrow> (string \<Rightarrow> bool) \<Rightarrow> testmoney_db \<Rightarrow> string option" where
  "email_user pg email ok s = map_option fst (find (\<lambda>(u, e). pg_lower_text pg e = pg_lower_text pg email \<and> active_user s u \<and> ok u) (user_emails s))"

definition pilotActor :: "pg_text \<Rightarrow> string \<Rightarrow> string \<Rightarrow> string testmoney_tx" where
  "pilotActor pg email wantedRole =
     bindT (queryT user_roles) (\<lambda>roles.
     rowT (email_user pg email (\<lambda>u. (u, wantedRole) \<in> set roles)) (App TErrRole))"

definition pilot_recipient :: "pg_text \<Rightarrow> string \<Rightarrow> (string \<times> string) testmoney_tx" where
  "pilot_recipient pg email = bindT (rowT (email_user pg email (\<lambda>_. True)) (App TErrRecipient)) (\<lambda>ident. returnT (email, ident))"

definition pilot_asset :: "pg_text \<Rightarrow> string \<Rightarrow> (string \<times> asset_row) testmoney_tx" where
  "pilot_asset pg symbol =
     bindT (rowT (\<lambda>s. find (\<lambda>x. pg_upper_text pg (as_symbol x) = pg_upper_text pg symbol \<and> as_network x = ''internal_spot'') (assets s)) (App TErrInput))
       (\<lambda>x. returnT (symbol, x))"

definition strings_json :: "(string \<times> string) list \<Rightarrow> json" where
  "strings_json kvs = JObject (map (\<lambda>(k, v). (k, JString v)) kvs)"

definition pilot_input_json :: "PilotConfigInput \<Rightarrow> json" where
  "pilot_input_json i = JObject [(''OperatorEmail'', JString (pi_OperatorEmail i)), (''ApproverEmail'', JString (pi_ApproverEmail i)),
     (''RecipientEmails'', JList (map JString (pi_RecipientEmails i))), (''AssetSymbols'', JList (map JString (pi_AssetSymbols i))),
     (''Reason'', JString (pi_Reason i)), (''IdempotencyKey'', JString (pi_IdempotencyKey i))]"

definition pilot_result_json :: "PilotConfigResult \<Rightarrow> json" where
  "pilot_result_json r = JObject [(''policy_id'', JString (pr_PolicyID r)), (''operator_id'', JString (pr_OperatorID r)), (''approver_id'', JString (pr_ApproverID r)),
     (''recipients'', strings_json (pr_Recipients r)), (''assets'', strings_json (pr_Assets r)), (''enabled_assets'', JList (map JString (pr_EnabledAssets r))),
     (''global_limit_usdt_atomic'', JString (pr_GlobalLimit r))]"

text \<open>\<open>json.Unmarshal\<close> into a result that already holds values: a missing key keeps the field, a map is merged.\<close>

definition json_text :: "json \<Rightarrow> string option" where
  "json_text j = (case j of JString v \<Rightarrow> Some v | _ \<Rightarrow> None)"

definition read_text :: "(string \<times> json) list \<Rightarrow> string \<Rightarrow> string \<Rightarrow> string option" where
  "read_text members key old = (case map_of members key of None \<Rightarrow> Some old | Some j \<Rightarrow> json_text j)"

definition read_texts :: "(string \<times> json) list \<Rightarrow> string \<Rightarrow> string list \<Rightarrow> string list option" where
  "read_texts members key old =
     (case map_of members key of
        None \<Rightarrow> Some old
      | Some (JList js) \<Rightarrow> if list_all (\<lambda>j. json_text j \<noteq> None) js then Some (List.map_filter json_text js) else None
      | Some _ \<Rightarrow> None)"

definition merge_map :: "(string \<times> string) list \<Rightarrow> (string \<times> string) list \<Rightarrow> (string \<times> string) list" where
  "merge_map old new = new @ filter (\<lambda>(k, _). k \<notin> fst ` set new) old"

definition read_map :: "(string \<times> json) list \<Rightarrow> string \<Rightarrow> (string \<times> string) list \<Rightarrow> (string \<times> string) list option" where
  "read_map members key old =
     (case map_of members key of
        None \<Rightarrow> Some old
      | Some (JObject kvs) \<Rightarrow>
          if list_all (\<lambda>(_, j). json_text j \<noteq> None) kvs
            then Some (merge_map old (List.map_filter (\<lambda>(k, j). map_option (Pair k) (json_text j)) kvs)) else None
      | Some _ \<Rightarrow> None)"

definition unmarshal_pilot :: "json \<Rightarrow> PilotConfigResult \<Rightarrow> PilotConfigResult option" where
  "unmarshal_pilot j old =
     (case j of
        JObject members \<Rightarrow>
          Option.bind (read_text members ''policy_id'' (pr_PolicyID old)) (\<lambda>policy.
          Option.bind (read_text members ''operator_id'' (pr_OperatorID old)) (\<lambda>operator.
          Option.bind (read_text members ''approver_id'' (pr_ApproverID old)) (\<lambda>approver.
          Option.bind (read_map members ''recipients'' (pr_Recipients old)) (\<lambda>recipients.
          Option.bind (read_map members ''assets'' (pr_Assets old)) (\<lambda>assets.
          Option.bind (read_texts members ''enabled_assets'' (pr_EnabledAssets old)) (\<lambda>enabled.
          Option.bind (read_text members ''global_limit_usdt_atomic'' (pr_GlobalLimit old)) (\<lambda>limit.
          Some \<lparr>pr_PolicyID = policy, pr_OperatorID = operator, pr_ApproverID = approver, pr_Recipients = recipients, pr_Assets = assets,
            pr_EnabledAssets = enabled, pr_GlobalLimit = limit\<rparr>)))))))
      | _ \<Rightarrow> None)"

definition enable_asset :: "string \<Rightarrow> unit testmoney_tx" where
  "enable_asset ident = execT (\<lambda>s. s\<lparr>assets := update_where (\<lambda>x. as_id x = ident \<and> as_network x = ''internal_spot'') (\<lambda>x. x\<lparr>as_status := ''enabled''\<rparr>) (assets s)\<rparr>)"

definition insert_policy :: "Policy \<Rightarrow> string testmoney_tx" where
  "insert_policy p =
     bindT gen_random_uuid (\<lambda>ident.
     bindT (queryT tm_policies) (\<lambda>rows.
     bindT (ensureT (ident \<notin> fst ` set rows) unique_violation) (\<lambda>_.
     bindT (execT (\<lambda>s. s\<lparr>tm_policies := tm_policies s @ [(ident, p)]\<rparr>)) (\<lambda>_.
     returnT ident))))"

definition enable_recipient :: "string \<Rightarrow> unit testmoney_tx" where
  "enable_recipient user = execT (\<lambda>s. s\<lparr>tm_recipients :=
     (if user \<in> fst ` set (tm_recipients s) then map (\<lambda>(u, e). (u, if u = user then True else e)) (tm_recipients s)
      else tm_recipients s @ [(user, True)])\<rparr>)"

text \<open>The lookups of the operation: who acts, who receives, which assets; then the policy they give.\<close>

definition pilot_result :: "pg_text \<Rightarrow> PilotConfigInput \<Rightarrow> (PilotConfigResult \<times> Policy) testmoney_tx" where
  "pilot_result pg i =
     bindT (pilotActor pg (pi_OperatorEmail i) ''treasury_operator'') (\<lambda>operator.
     bindT (pilotActor pg (pi_ApproverEmail i) ''treasury_approver'') (\<lambda>approver.
     bindT (ensureT (operator \<noteq> approver) (App TErrChecker)) (\<lambda>_.
     bindT (mapT (pilot_recipient pg) (pi_RecipientEmails i)) (\<lambda>recipients.
     bindT (rowT (\<lambda>_. SetString TesterLimitUSDTAtomic) (App TPanic)) (\<lambda>tester.
     bindT (mapT (pilot_asset pg) (pi_AssetSymbols i)) (\<lambda>rows.
     let limit = BigString (tester * int (length recipients));
         policy = \<lparr>po_GlobalLimitUSDTAtomic = limit, po_MaxAgeSeconds = 30, po_MaxDivergenceBPS = 100,
           po_Assets = remdups (map (\<lambda>(_, x). (as_id x, \<lparr>ap_Network = as_network x, ap_Decimals = as_decimals x\<rparr>)) rows)\<rparr> in
     bindT (check_result (Policy_Validate policy)) (\<lambda>_.
     returnT (\<lparr>pr_PolicyID = [], pr_OperatorID = operator, pr_ApproverID = approver, pr_Recipients = recipients,
       pr_Assets = map (\<lambda>(symbol, x). (symbol, as_id x)) rows, pr_EnabledAssets = map fst rows, pr_GlobalLimit = limit\<rparr>, policy))))))))"

definition apply_pilot :: "PilotConfigInput \<Rightarrow> string \<Rightarrow> PilotConfigResult \<Rightarrow> Policy \<Rightarrow> PilotConfigResult testmoney_tx" where
  "apply_pilot i hash r policy =
     bindT (forT enable_asset (map snd (pr_Assets r))) (\<lambda>_.
     bindT (insert_policy policy) (\<lambda>policyID.
     bindT (forT enable_recipient (map snd (pr_Recipients r))) (\<lambda>_.
     bindT (execT (\<lambda>s. s\<lparr>tm_enabled := True, tm_limits_ready := True, tm_environment := ''staging'', tm_policy := Some policyID\<rparr>)) (\<lambda>_.
     let r' = r\<lparr>pr_PolicyID := policyID\<rparr>;
         metadata = [(''idempotency_key'', JString (pi_IdempotencyKey i)), (''request_hash'', JString hash), (''approver_id'', JString (pr_ApproverID r)),
           (''result'', pilot_result_json r')] in
     bindT (execT (\<lambda>s. s\<lparr>audit_events := audit_events s @
       [\<lparr>au_actor = pr_OperatorID r, au_action = ''test_money.pilot_configured'', au_resource = policyID, au_reason = pi_Reason i, au_metadata = metadata\<rparr>]\<rparr>)) (\<lambda>_.
     bindT (append_outbox ''test_money.pilot_configured'' ''test_money_policy'' policyID metadata) (\<lambda>_.
     returnT r'))))))"

text \<open>The hash is stored as hexadecimal text; \<open>json_hash\<close> stands for either form.\<close>

definition ConfigurePilot_tx :: "(json \<Rightarrow> string) \<Rightarrow> pg_text \<Rightarrow> PilotConfigInput \<Rightarrow> PilotConfigResult testmoney_tx" where
  "ConfigurePilot_tx json_hash pg i =
     bindT (advisory_lock ''staging-test-money-pilot'') (\<lambda>_.
     bindT (pilot_result pg i) (\<lambda>(r, policy).
     let hash = json_hash (JObject [(''Input'', pilot_input_json i), (''Result'', pilot_result_json r)]) in
     bindT (queryT (\<lambda>s. find (\<lambda>a. au_actor a = pr_OperatorID r \<and> au_action a = ''test_money.pilot_configured'' \<and>
         map_of (au_metadata a) ''idempotency_key'' = Some (JString (pi_IdempotencyKey i))) (audit_events s))) (\<lambda>prior.
     case prior of
       Some a \<Rightarrow>
         bindT (ensureT (map_of (au_metadata a) ''request_hash'' = Some (JString hash)) (App TErrConflict)) (\<lambda>_.
         rowT (\<lambda>_. Option.bind (map_of (au_metadata a) ''result'') (\<lambda>j. unmarshal_pilot j r)) (App TErrConflict))
     | None \<Rightarrow> apply_pilot i hash r policy)))"

definition ConfigurePilot :: "go_env \<Rightarrow> (json \<Rightarrow> string) \<Rightarrow> pg_text \<Rightarrow> testmoney_service \<Rightarrow> PilotConfigInput \<Rightarrow> testmoney_db \<Rightarrow>
    (testmoney_error failure + PilotConfigResult) \<times> testmoney_db" where
  "ConfigurePilot env json_hash pg sv raw s =
     (let i = raw\<lparr>pi_OperatorEmail := ToLower (uni_lower env) (TrimSpace (pi_OperatorEmail raw)),
            pi_ApproverEmail := ToLower (uni_lower env) (TrimSpace (pi_ApproverEmail raw)),
            pi_RecipientEmails := normalizePilotList env (pi_RecipientEmails raw) True,
            pi_AssetSymbols := normalizePilotList env (pi_AssetSymbols raw) False\<rparr> in
      if pi_OperatorEmail i = [] \<or> pi_ApproverEmail i = [] \<or> pi_OperatorEmail i = pi_ApproverEmail i \<or> pi_RecipientEmails i = [] \<or>
         pi_AssetSymbols i = [] \<or> length (TrimSpace (pi_Reason i)) < 8 \<or> length (pi_Reason i) > 1000 \<or> \<not> validKey (pi_IdempotencyKey i)
        then (Inl (App TErrInput), s)
      else begin_service sv (ConfigurePilot_tx json_hash pg i) s)"

end
