(* ===== verification/Test_Money_Limits.thy ===== *)
theory Test_Money_Limits
  imports Test_Money
begin

text \<open>
  Test money stays within its limits. The invariant ties every grant to its request, to an approver
  other than the proposer and to the one journal that issues it, and bounds what a tester and
  all testers together have received.
\<close>

section \<open>The invariant\<close>

abbreviation issuance :: string where "issuance \<equiv> ''test_money_issuance''"

definition issues :: "testmoney_db \<Rightarrow> tm_grant_row \<Rightarrow> tm_request_row \<Rightarrow> bool" where
  "issues s g r \<longleftrightarrow> tr_id r = tg_request g \<and> tr_proposed_by r \<noteq> tg_approved_by g \<and> 0 < tg_value g \<and>
     (\<exists>c. posted_once issuance (tg_request g) (\<lambda>j. j_id j = tg_journal g) (issuance_legs c (tr_account r) (tr_asset r) (tr_amount r)) s)"

definition within_global :: "testmoney_db \<Rightarrow> bool" where
  "within_global s \<longleftrightarrow> tm_grants s = [] \<or> (\<exists>(i, p) \<in> set (tm_policies s). \<exists>n. SetString (po_GlobalLimitUSDTAtomic p) = Some n \<and> used_total s \<le> n)"

definition grants_inv :: "testmoney_db \<Rightarrow> bool" where
  "grants_inv s \<longleftrightarrow> ledger_wf s \<and> distinct (map tr_id (tm_requests s)) \<and> distinct (map tg_request (tm_grants s)) \<and>
     (\<forall>g \<in> set (tm_grants s). \<exists>r \<in> set (tm_requests s). issues s g r) \<and>
     (\<forall>j \<in> set (journals s). j_reference_type j = issuance \<longrightarrow> j_reference_id j \<in> tg_request ` set (tm_grants s)) \<and>
     (\<forall>u. used_by s u \<le> 10 ^ 12) \<and> within_global s"

text \<open>Requests, grants and policies are history: what is there stays there.\<close>

definition history_kept :: "testmoney_db \<Rightarrow> testmoney_db \<Rightarrow> bool" where
  "history_kept s t \<longleftrightarrow> set (tm_policies s) \<subseteq> set (tm_policies t) \<and> set (tm_requests s) \<subseteq> set (tm_requests t) \<and> set (tm_grants s) \<subseteq> set (tm_grants t)"

definition grants_safe :: "testmoney_db \<Rightarrow> testmoney_db \<Rightarrow> bool" where
  "grants_safe s t \<longleftrightarrow> (grants_inv s \<longrightarrow> grants_inv t \<and> history_kept s t)"

lemma history_kept_refl [simp]: "history_kept s s"
  by (simp add: history_kept_def)

lemma history_kept_trans: "history_kept s t \<Longrightarrow> history_kept t u \<Longrightarrow> history_kept s u"
  by (auto simp: history_kept_def)

interpretation granting: tx_relation grants_safe
  by unfold_locales (auto simp: grants_safe_def intro: history_kept_trans)

lemma joined_grants_cong: "tm_grants t = tm_grants s \<Longrightarrow> tm_requests t = tm_requests s \<Longrightarrow> joined_grants t = joined_grants s"
  by (simp add: joined_grants_def)

section \<open>Statements without grants\<close>

abbreviation money_tables :: "testmoney_db \<Rightarrow> (string \<times> Policy) list \<times> tm_request_row list \<times> tm_grant_row list" where
  "money_tables s \<equiv> (tm_policies s, tm_requests s, tm_grants s)"

abbreviation issues_nothing :: "testmoney_db \<Rightarrow> testmoney_db \<Rightarrow> bool" where
  "issues_nothing \<equiv> keeps_tables issuance money_tables"

interpretation issuing: tx_relation issues_nothing
  by unfold_locales (auto simp: keeps_tables_def ledger_grows_same intro: ledger_grows_trans owners_kept_trans)

lemma idle_grants: "issues_nothing s t \<Longrightarrow> grants_safe s t"
proof -
  assume idle: "issues_nothing s t"
  have t: "tm_policies t = tm_policies s" "tm_requests t = tm_requests s" "tm_grants t = tm_grants s" using idle by (simp_all add: keeps_tables_def)
  have "grants_inv t" if inv: "grants_inv s"
  proof -
    have wf: "ledger_wf s" using inv by (simp add: grants_inv_def)
    note ledger = keeps_tables_ledger [OF idle wf]
    have "issues t g r" if "issues s g r" for g r using that posted_once_keep [OF _ idle wf] unfolding issues_def by blast
    then have "\<forall>g \<in> set (tm_grants t). \<exists>r \<in> set (tm_requests t). issues t g r" using inv unfolding grants_inv_def t by blast
    then show ?thesis using inv t ledger(1,4)
      by (auto simp: grants_inv_def used_by_def within_global_def used_total_def joined_grants_cong [OF t(3,2)])
  qed
  then show ?thesis by (simp add: grants_safe_def history_kept_def t)
qed

lemma idle_grants_safe: "tx_respects issues_nothing m \<Longrightarrow> tx_respects grants_safe m"
  by (auto simp: tx_respects_def intro: idle_grants)

lemma money_exec:
  "(\<And>s. tm_policies (f s) = tm_policies s \<and> tm_requests (f s) = tm_requests s \<and> tm_grants (f s) = tm_grants s \<and>
     owners_kept s (f s) \<and> journals (f s) = journals s \<and> postings (f s) = postings s) \<Longrightarrow> tx_respects issues_nothing (execT f)"
  by (rule issuing.exec) (auto simp: keeps_tables_def ledger_grows_same)

lemma money_basic:
  "tx_respects issues_nothing gen_random_uuid" "tx_respects issues_nothing (advisory_lock k)" "tx_respects issues_nothing (LockAccountAsset e a x)"
  "tx_respects issues_nothing (append_outbox et aty aid pl)" "tx_respects issues_nothing (check_result res)" "tx_respects issues_nothing (numeric_cast txt)"
  unfolding tx_respects_def
  by (auto simp: gen_random_uuid_def advisory_lock_def LockAccountAsset_def append_outbox_def check_result_def numeric_cast_def tx_simps
      keeps_tables_def owners_kept_def ledger_grows_same split: option.splits)

lemmas money_rules = issuing.bind issuing.pure issuing.for_each issuing.map_each money_exec money_basic

lemma money_reads:
  "tx_respects issues_nothing loadPolicy" "tx_respects issues_nothing (role actor wanted)" "tx_respects issues_nothing (eligible p i)"
  "tx_respects issues_nothing (loadRequest rid)" "tx_respects issues_nothing (record_event actor act ident reason payload)"
  "tx_respects issues_nothing (issuance_account nm)" "tx_respects issues_nothing (pilot_result pg pin)"
  unfolding loadPolicy_def role_def eligible_def loadRequest_def record_event_def issuance_account_def pilot_result_def pilotActor_def
    pilot_recipient_def pilot_asset_def Let_def
  by (auto intro!: money_rules simp: owners_kept_def split: option.splits prod.splits)

lemma money_pilot: "tx_respects issues_nothing (enable_asset x)" "tx_respects issues_nothing (enable_recipient u)"
  unfolding enable_asset_def enable_recipient_def by (auto intro!: money_exec simp: owners_kept_def)

lemmas money_safe_rules = granting.bind granting.pure granting.for_each money_reads [THEN idle_grants_safe] money_pilot [THEN idle_grants_safe] money_basic [THEN idle_grants_safe]

section \<open>Proposals and policies\<close>

lemma joined_new_request:
  assumes "tm_requests t = tm_requests s @ [r]" "tm_grants t = tm_grants s" "tr_id r \<notin> tg_request ` set (tm_grants s)"
  shows "joined_grants t = joined_grants s"
proof -
  have "[(g, r). g \<leftarrow> gs, r \<leftarrow> tm_requests s @ [r], tr_id r = tg_request g] = [(g, r). g \<leftarrow> gs, r \<leftarrow> tm_requests s, tr_id r = tg_request g]"
    if "tr_id r \<notin> tg_request ` set gs" for gs
    using that by (induction gs) auto
  then show ?thesis unfolding joined_grants_def assms(1,2) using assms(3) by blast
qed

lemma insert_request_safe: "tx_respects grants_safe (insert_request r)"
proof (rule respectsI)
  fix s ident t
  assume "insert_request r s = Inr (ident, t)"
  then have t: "t = s\<lparr>uuid_next := Suc (uuid_next s), tm_requests := tm_requests s @ [r\<lparr>tr_id := ident\<rparr>]\<rparr>" "ident \<notin> tr_id ` set (tm_requests s)"
    by (auto simp: insert_request_def gen_random_uuid_def tx_simps)
  have "grants_inv t" if inv: "grants_inv s"
  proof -
    have "ident \<notin> tg_request ` set (tm_grants s)" using inv t(2) unfolding grants_inv_def issues_def by force
    then have sums: "joined_grants t = joined_grants s" by (intro joined_new_request [where r = "r\<lparr>tr_id := ident\<rparr>"]) (simp_all add: t(1))
    have "issues t g x = issues s g x" for g x by (simp add: issues_def posted_once_def t(1))
    then have "\<forall>g \<in> set (tm_grants t). \<exists>x \<in> set (tm_requests t). issues t g x" using inv unfolding grants_inv_def by (auto simp: t(1))
    then show ?thesis using inv t(2) unfolding grants_inv_def within_global_def used_by_def used_total_def sums by (auto simp: t(1) ledger_wf_def)
  qed
  then show "grants_safe s t" by (auto simp: grants_safe_def history_kept_def t(1))
qed

lemma insert_policy_safe: "tx_respects grants_safe (insert_policy p)"
proof (rule respectsI)
  fix s ident t
  assume "insert_policy p s = Inr (ident, t)"
  then have t: "t = s\<lparr>uuid_next := Suc (uuid_next s), tm_policies := tm_policies s @ [(ident, p)]\<rparr>"
    by (auto simp: insert_policy_def gen_random_uuid_def tx_simps)
  have sums: "joined_grants t = joined_grants s" by (rule joined_grants_cong) (simp_all add: t)
  have "issues t g x = issues s g x" for g x by (simp add: issues_def posted_once_def t)
  then have "grants_inv t" if "grants_inv s"
    using that unfolding grants_inv_def within_global_def used_by_def used_total_def sums by (auto simp: t ledger_wf_def)
  then show "grants_safe s t" by (auto simp: grants_safe_def history_kept_def t)
qed

lemma Propose_safe: "grants_safe s (snd (Propose json_hash sv actor i s))"
proof -
  have "tx_respects grants_safe (Propose_tx json_hash actor i)"
    unfolding Propose_tx_def Let_def by (auto intro!: money_safe_rules insert_request_safe split: option.splits prod.splits)
  then show ?thesis by (auto simp: Propose_def begin_service_def granting.R_refl intro: granting.committed split: sum.splits)
qed

lemma ConfigurePilot_safe: "grants_safe s (snd (ConfigurePilot env json_hash pg sv raw s))"
proof -
  have control: "tx_respects grants_safe (execT (\<lambda>s. s\<lparr>tm_enabled := True, tm_limits_ready := True, tm_environment := ''staging'', tm_policy := Some x\<rparr>))"
    and audit: "tx_respects grants_safe (execT (\<lambda>s. s\<lparr>audit_events := audit_events s @ [row]\<rparr>))" for x row
    by (auto intro!: idle_grants_safe money_exec simp: owners_kept_def)
  have "tx_respects grants_safe (ConfigurePilot_tx json_hash pg i)" for i
    unfolding ConfigurePilot_tx_def apply_pilot_def Let_def
    by (auto intro!: money_safe_rules insert_policy_safe control audit split: option.splits prod.splits)
  then show ?thesis by (auto simp: ConfigurePilot_def Let_def begin_service_def granting.R_refl intro: granting.committed)
qed

section \<open>Grants\<close>

lemma atomic_amount_Inr: "atomic_amount txt z = Inr n \<Longrightarrow> SetString txt = Some n"
  by (auto simp: atomic_amount_def split: if_splits option.splits)

lemma tester_limit: "atomic_amount TesterLimitUSDTAtomic False = Inr (10 ^ 12)"
  by (simp add: atomic_amount_def TesterLimitUSDTAtomic_def SetString_def all_digits_def is_digit_def digits_val_def digit_val_def)

lemma CheckQuota_within:
  assumes "CheckQuota p val (BigString u) (BigString g) = None"
  obtains v lim where "SetString val = Some v" "u + v \<le> 10 ^ 12" "SetString (po_GlobalLimitUSDTAtomic p) = Some lim" "g + v \<le> lim"
proof -
  have tester: "atomic_amount TesterLimitUSDTAtomic False = Inr (10 ^ 12)" by (rule tester_limit)
  obtain v u' g' lim where "atomic_amount val False = Inr v" "atomic_amount (BigString u) True = Inr u'" "atomic_amount (BigString g) True = Inr g'"
    "atomic_amount (po_GlobalLimitUSDTAtomic p) False = Inr lim" "u' + v \<le> 10 ^ 12" "g' + v \<le> lim"
    using assms by (auto simp: CheckQuota_def bindE_def tester split: option.splits sum.splits if_splits)
  moreover from this have "u' = u" "g' = g" using atomic_amount_Inr [of "BigString u" True u'] atomic_amount_Inr [of "BigString g" True g'] by simp_all
  ultimately show thesis using that [of v lim] atomic_amount_Inr by simp
qed

lemma loadPolicy_Inr: "loadPolicy s = Inr ((pid, p), t) \<Longrightarrow> t = s \<and> (pid, p) \<in> set (tm_policies s)"
proof -
  have "Policy_Validate empty_policy \<noteq> None" by (simp add: Policy_Validate_def empty_policy_def atomic_amount_def)
  then show "loadPolicy s = Inr ((pid, p), t) \<Longrightarrow> t = s \<and> (pid, p) \<in> set (tm_policies s)"
    by (auto simp: loadPolicy_def check_result_def tx_simps split: option.splits dest: map_of_SomeD)
qed

lemma joined_new_grant:
  assumes "tm_grants t = tm_grants s @ [g]" "tm_requests t = tm_requests s" "distinct (map tr_id (tm_requests s))" "r \<in> set (tm_requests s)" "tr_id r = tg_request g"
  shows "joined_grants t = joined_grants s @ [(g, r)]"
proof -
  have "filter (\<lambda>x. tr_id x = tr_id r) rows = [r]" if "distinct (map tr_id rows)" "r \<in> set rows" for rows
    using that by (induction rows) (auto simp: image_iff intro!: filter_none)
  moreover have "[(g, x). x \<leftarrow> rows, tr_id x = tg_request g] = map (Pair g) (filter (\<lambda>x. tr_id x = tr_id r) rows)" for rows
    by (induction rows) (auto simp: assms(5))
  ultimately have "[(g, x). x \<leftarrow> tm_requests s, tr_id x = tg_request g] = [(g, r)]" using assms(3,4) by (metis list.simps(8,9))
  then show ?thesis unfolding joined_grants_def assms(1,2) by simp
qed

text \<open>The grant of a request that has none, within the quota.\<close>

lemma grant_posted:
  assumes inv: "grants_inv s" and r: "r \<in> set (tm_requests s)" "tr_id r \<notin> tg_request ` set (tm_grants s)" "tr_proposed_by r \<noteq> actor"
    and post: "post_journal key' issuance (tr_id r) (issuance_legs c (tr_account r) (tr_asset r) (tr_amount r)) s = Inr (jid, s2)"
    and t: "t = s2\<lparr>tm_grants := tm_grants s2 @ [g]\<rparr>" and g: "tg_request g = tr_id r" "tg_approved_by g = actor" "tg_journal g = jid" "0 < tg_value g"
    and user: "used_by s (tr_recipient r) + tg_value g \<le> 10 ^ 12"
    and global: "(pid, p) \<in> set (tm_policies s)" "SetString (po_GlobalLimitUSDTAtomic p) = Some lim" "used_total s + tg_value g \<le> lim"
  shows "grants_inv t \<and> history_kept s t"
proof -
  have wf: "ledger_wf s" using inv by (simp add: grants_inv_def)
  have new: "\<forall>j \<in> set (journals s). j_reference_type j = issuance \<longrightarrow> j_reference_id j \<noteq> tr_id r"
    using inv r(2) unfolding grants_inv_def by metis
  have once: "posted_once issuance (tr_id r) (\<lambda>j. j_id j = jid) (issuance_legs c (tr_account r) (tr_asset r) (tr_amount r)) s2"
    by (rule post_journal_once(1) [OF post wf new]) simp
  have other: "posted_once kind rid q legs s \<Longrightarrow> rid \<noteq> tr_id r \<Longrightarrow> posted_once kind rid q legs s2" for kind rid q legs
    by (rule post_journal_once(2) [OF post wf new TrueI])
  have tables: "tm_grants t = tm_grants s @ [g]" "tm_requests t = tm_requests s" "tm_policies t = tm_policies s" "postings t = postings s2" "journals t = journals s2"
    and js: "journals s2 = journals s @ [\<lparr>j_id = jid, j_idempotency_key = key', j_reference_type = issuance, j_reference_id = tr_id r, j_status = Posted\<rparr>]"
    using post by (auto simp: t post_journal_Inr)
  have joined: "joined_grants t = joined_grants s @ [(g, r)]"
    using inv r(1) g(1) by (intro joined_new_grant tables(1,2)) (simp_all add: grants_inv_def)
  have once_t: "posted_once kind rid q legs t = posted_once kind rid q legs s2" for kind rid q legs by (rule posted_once_same [OF tables(5,4)])
  have "issues t g r" unfolding issues_def once_t g using r(3) g(4) once by auto
  moreover have "\<exists>r \<in> set (tm_requests s). issues t g' r" if g': "g' \<in> set (tm_grants s)" for g'
  proof -
    obtain r' where "r' \<in> set (tm_requests s)" "issues s g' r'" using inv g' by (auto simp: grants_inv_def)
    moreover have "tg_request g' \<noteq> tr_id r" using r(2) g' by (metis image_eqI)
    ultimately show ?thesis unfolding issues_def once_t by (blast intro: other)
  qed
  ultimately have "\<forall>g \<in> set (tm_grants t). \<exists>r \<in> set (tm_requests t). issues t g r"
    using r(1) unfolding tables(1,2) by auto
  moreover have "ledger_wf t" using post_journal_wf [OF post wf] tables(4,5) by (simp add: ledger_wf_def)
  moreover have "used_by t u \<le> 10 ^ 12" for u
    using inv user by (cases "u = tr_recipient r") (simp_all add: used_by_def joined grants_inv_def)
  moreover have "within_global t"
    unfolding within_global_def tables using global by (auto simp: used_total_def joined intro!: bexI [of _ "(pid, p)"])
  moreover have "distinct (map tg_request (tm_grants t))" using inv r(2) g(1) by (simp add: tables grants_inv_def)
  moreover have "\<forall>j \<in> set (journals t). j_reference_type j = issuance \<longrightarrow> j_reference_id j \<in> tg_request ` set (tm_grants t)"
    using inv g(1) unfolding tables js grants_inv_def by auto
  ultimately have "grants_inv t" using inv by (simp add: grants_inv_def tables(2))
  then show ?thesis by (auto simp: history_kept_def tables)
qed

lemma numeric_cast_Inr: "numeric_cast txt s = Inr (n, t) \<longleftrightarrow> SetString txt = Some n \<and> t = s"
  by (auto simp: numeric_cast_def tx_simps split: option.splits)

lemma insert_grant_Inr: "insert_grant g s = Inr (u, t) \<Longrightarrow> 0 < tg_value g \<and> t = s\<lparr>tm_grants := tm_grants s @ [g]\<rparr>"
  by (auto simp: insert_grant_def tx_simps)

lemma postGrant_run:
  assumes "postGrant (request_of r) actor key val obs s = Inr (gr, t)"
  obtains s1 c jid s2 n g where "issues_nothing s s1"
    "(post_journal (''test-money:'' @ tr_id r) issuance (tr_id r) (issuance_legs c (tr_account r) (tr_asset r) (tr_amount r)) :: string testmoney_tx) s1 = Inr (jid, s2)"
    "SetString val = Some n" "0 < n" "tg_request g = tr_id r" "tg_approved_by g = actor" "tg_journal g = jid" "tg_value g = n"
    "issues_nothing (s2\<lparr>tm_grants := tm_grants s2 @ [g]\<rparr>) t"
proof -
  let ?i = "rq_Input (request_of r)"
  let ?g = "\<lambda>jid n. \<lparr>tg_request = rq_ID (request_of r), tg_approved_by = actor, tg_key = key, tg_journal = jid, tg_value = n, tg_evidence = obs\<rparr>"
  let ?gr = "\<lambda>jid. \<lparr>gr_RequestID = rq_ID (request_of r), gr_JournalID = jid, gr_ValueUSDTAtomic = val\<rparr>"
  obtain c s0 u1 s1 a s1' jid s2 n s2' u2 s3 u3 s4 where pre: "issuance_account (''test-money-issuance-'' @ in_AssetID ?i) s = Inr (c, s0)"
    "(forT (\<lambda>(a, x). LockAccountAsset TErrLock a x) (map (\<lambda>a. (a, in_AssetID ?i)) (sort [c, in_AccountID ?i])) :: unit testmoney_tx) s0 = Inr (u1, s1)"
    and run: "numeric_cast (in_AmountAtomic ?i) s1 = Inr (a, s1')"
    "(post_journal (''test-money:'' @ rq_ID (request_of r)) issuance (rq_ID (request_of r)) (issuance_legs c (in_AccountID ?i) (in_AssetID ?i) a) :: string testmoney_tx) s1' = Inr (jid, s2)"
    "numeric_cast val s2 = Inr (n, s2')" "insert_grant (?g jid n) s2' = Inr (u2, s3)"
    and recd: "record_event actor ''test_money.issued'' (rq_ID (request_of r)) (in_Reason ?i) (grant_json (?gr jid)) s3 = Inr (u3, s4)" "(returnT (?gr jid) :: Grant testmoney_tx) s4 = Inr (gr, t)"
    using assms unfolding postGrant_def Let_def bindT_Inr by (elim exE conjE) (rule that)
  have locks: "issues_nothing s0 s1" by (rule respectsD [OF issuing.for_each pre(2)]) (simp add: money_basic split: prod.splits)
  have "issues_nothing s s1" using respectsD [OF money_reads(6) pre(1)] locks by (rule issuing.R_trans)
  moreover have "issues_nothing s3 t" using respectsD [OF money_reads(5) recd(1)] recd(2) by (simp add: returnT_simps)
  ultimately show thesis using run by (intro that [of s1 c jid s2 n "?g jid n"]) (auto simp: request_of_def numeric_cast_Inr dest!: insert_grant_Inr)
qed

lemma issue_grant_safe:
  assumes "issue_grant env sv now actor key (request_of r) (pid, p) s = Inr (gr, t)" "r \<in> set (tm_requests s)" "tr_proposed_by r \<noteq> actor" "(pid, p) \<in> set (tm_policies s)"
  shows "grants_safe s t"
proof -
  obtain val obs where open_r: "tr_id r \<notin> tg_request ` set (tm_grants s)"
    and quota: "CheckQuota p val (BigString (used_by s (tr_recipient r))) (BigString (used_total s)) = None"
    and post: "postGrant (request_of r) actor key val obs s = Inr (gr, t)"
    using assms(1) by (auto simp: issue_grant_def role_def eligible_def check_result_def Let_def tx_simps request_of_def split: option.splits)
  obtain s1 c jid s2 n g where run: "issues_nothing s s1"
    "(post_journal (''test-money:'' @ tr_id r) issuance (tr_id r) (issuance_legs c (tr_account r) (tr_asset r) (tr_amount r)) :: string testmoney_tx) s1 = Inr (jid, s2)"
    "SetString val = Some n" "0 < n" "tg_request g = tr_id r" "tg_approved_by g = actor" "tg_journal g = jid" "tg_value g = n"
    "issues_nothing (s2\<lparr>tm_grants := tm_grants s2 @ [g]\<rparr>) t"
    by (rule postGrant_run [OF post])
  have tables: "tm_policies s1 = tm_policies s" "tm_requests s1 = tm_requests s" "tm_grants s1 = tm_grants s" using run(1) by (simp_all add: keeps_tables_def)
  have sums: "used_by s1 u = used_by s u" "used_total s1 = used_total s" for u
    by (simp_all add: used_by_def used_total_def joined_grants_cong [OF tables(3,2)])
  obtain lim where lim: "SetString (po_GlobalLimitUSDTAtomic p) = Some lim" "used_total s1 + tg_value g \<le> lim"
    and user: "used_by s1 (tr_recipient r) + tg_value g \<le> 10 ^ 12"
    using CheckQuota_within [OF quota] run(3,8) by (metis option.inject sums)
  have "grants_safe s1 (s2\<lparr>tm_grants := tm_grants s2 @ [g]\<rparr>)"
    unfolding grants_safe_def
    using grant_posted [OF _ _ _ assms(3) run(2) refl run(5-7) _ user _ lim] assms(2,4) open_r run(4,8) tables by simp
  with idle_grants [OF run(1)] idle_grants [OF run(9)] show ?thesis by (blast intro: granting.R_trans)
qed

lemma Approve_safe: "grants_safe s (snd (Approve env sv now actor requestID key s))"
proof -
  have "grants_safe s t" if run: "Approve_tx env sv now actor requestID key s = Inr (gr, t)" for s gr t
  proof (cases "t = s")
    case True
    then show ?thesis by (simp add: granting.R_refl)
  next
    case False
    then obtain pid p r where policy: "loadPolicy s = Inr ((pid, p), s)" and r: "find (\<lambda>r. tr_id r = requestID) (tm_requests s) = Some r"
      "tr_proposed_by r \<noteq> actor" and issue: "issue_grant env sv now actor key (request_of r) (pid, p) s = Inr (gr, t)"
      using run loadPolicy_Inr by (fastforce simp: Approve_tx_def role_def loadRequest_def tx_simps request_of_def split: option.splits)
    show ?thesis using issue_grant_safe [OF issue _ r(2)] loadPolicy_Inr [OF policy] r(1) by (auto dest: find_SomeD)
  qed
  then have "tx_respects grants_safe (Approve_tx env sv now actor requestID key)" by (auto simp: tx_respects_def)
  then show ?thesis by (auto simp: Approve_def begin_service_def granting.R_refl intro: granting.committed)
qed

section \<open>The system\<close>

text \<open>
  Proposals, approvals and configurations of any callers, in any order, with any answers of the venues; in between,
  anything else the platform does, which leaves the append-only tables of test money alone and
  posts journals of other kinds.
\<close>

inductive testmoney_step :: "testmoney_db \<Rightarrow> testmoney_db \<Rightarrow> bool" where
  propose: "testmoney_step s (snd (Propose json_hash sv actor i s))"
| approve: "testmoney_step s (snd (Approve env sv now actor requestID key s))"
| configure: "testmoney_step s (snd (ConfigurePilot env json_hash pg sv raw s))"
| elsewhere: "issues_nothing s t \<Longrightarrow> testmoney_step s t"

lemma testmoney_run: "testmoney_step\<^sup>*\<^sup>* s t \<Longrightarrow> grants_safe s t"
proof (induction rule: rtranclp_induct)
  case base
  show ?case by (rule granting.R_refl)
next
  case (step t u)
  have "grants_safe t u" using step(2) by cases (auto intro: Propose_safe Approve_safe ConfigurePilot_safe idle_grants)
  with step(3) show ?case by (rule granting.R_trans)
qed

text \<open>A pilot of one tester and one asset, with an open request for five units.\<close>

definition demo_policy :: Policy where
  "demo_policy = \<lparr>po_GlobalLimitUSDTAtomic = ''1000'', po_MaxAgeSeconds = 30, po_MaxDivergenceBPS = 100,
     po_Assets = [(''x'', \<lparr>ap_Network = ''internal_spot'', ap_Decimals = 0\<rparr>)]\<rparr>"

definition demo_request :: tm_request_row where
  "demo_request = \<lparr>tr_id = ''r1'', tr_proposed_by = ''op'', tr_recipient = ''u1'', tr_account = ''a1'', tr_asset = ''x'', tr_amount = 5,
     tr_reason = ''pilot tester'', tr_policy = ''p1'', tr_key = ''k1'', tr_hash = ''h''\<rparr>"

definition demo_money :: testmoney_db where
  "demo_money = \<lparr>users = [\<lparr>u_id = ''op'', u_status = ''active''\<rparr>, \<lparr>u_id = ''ap'', u_status = ''active''\<rparr>, \<lparr>u_id = ''u1'', u_status = ''active''\<rparr>],
     accounts = [\<lparr>ac_id = ''a1'', ac_user_id = Some ''u1'', ac_kind = ''funding'', ac_name = ''main'', ac_status = ''active''\<rparr>],
     assets = [\<lparr>as_id = ''x'', as_symbol = ''X'', as_network = ''internal_spot'', as_decimals = 0, as_status = ''enabled''\<rparr>],
     user_roles = [(''op'', ''treasury_operator''), (''ap'', ''treasury_approver'')], journals = [], postings = [], outbox_events = [], audit_events = [],
     uuid_source = (\<lambda>n. CHR ''g'' # BigString (int n)), uuid_next = 0, pg_now = 0, locks_taken = [],
     user_emails = [], tm_policies = [(''p1'', demo_policy)], tm_enabled = True, tm_limits_ready = True, tm_environment = ''staging'', tm_policy = Some ''p1'',
     tm_recipients = [(''u1'', True)], tm_requests = [demo_request], tm_grants = []\<rparr>"

definition demo_prices :: "Observation list" where
  "demo_prices = [\<lparr>obs_Venue = ''a'', obs_PriceUSDTAtomic = ''100'', obs_ObservedAt = 5\<rparr>, \<lparr>obs_Venue = ''b'', obs_PriceUSDTAtomic = ''100'', obs_ObservedAt = 5\<rparr>]"

definition demo_desk :: testmoney_service where
  "demo_desk = \<lparr>ts_environment = ''staging'', ts_pool = True, ts_references = Some (\<lambda>_. Inr demo_prices)\<rparr>"

definition demo_issued :: "go_env \<Rightarrow> testmoney_db" where
  "demo_issued env = snd (Approve env demo_desk 6 ''ap'' ''r1'' ''k2'' demo_money)"

lemma demo_numbers: "atomic_amount ''500'' False = Inr 500" "atomic_amount ''1000'' False = Inr 1000" "atomic_amount ''0'' True = Inr 0" "SetString ''500'' = Some 500"
  by code_simp+

lemma demo_valid: "Policy_Validate demo_policy = None"
  by code_simp

lemma demo_quota: "CheckQuota demo_policy ''500'' ''0'' ''0'' = None"
  by (simp add: CheckQuota_def demo_valid bindE_def demo_numbers tester_limit) (simp add: demo_policy_def demo_numbers)

lemma demo_venues: "ToLower f (TrimSpace ''a'') = ''a''" "ToLower f (TrimSpace ''b'') = ''b''"
  by code_simp+

lemma demo_worth: "Policy_Value env demo_policy ''x'' ''5'' demo_prices 6 = Inr ''500''"
  by code_simp

lemma demo_money_inv: "grants_inv demo_money"
  by (simp add: grants_inv_def demo_money_def ledger_wf_def within_global_def used_by_def joined_grants_def)

lemma demo_key: "validKey ''k2''"
proof -
  have "TrimSpace ''k2'' = ''k2''" by (rule TrimSpace_graphic) code_simp
  then show ?thesis by (simp add: validKey_def)
qed

lemma demo_texts: "BigString 0 = ''0''" "BigString 5 = ''5''"
  by code_simp+

lemma demo_issued_grants: "map (\<lambda>g. (tg_request g, tg_approved_by g, tg_value g)) (tm_grants (demo_issued env)) = [(''r1'', ''ap'', 500)]"
proof -
  have request: "request_of demo_request = \<lparr>rq_ID = ''r1'', rq_ProposedBy = ''op'', rq_PolicyID = ''p1'',
      rq_Input = \<lparr>in_RecipientID = ''u1'', in_AccountID = ''a1'', in_AssetID = ''x'', in_AmountAtomic = ''5'', in_Reason = ''pilot tester'', in_IdempotencyKey = ''k1''\<rparr>\<rparr>"
    by (simp add: request_of_def demo_request_def demo_texts)
  have five: "SetString ''5'' = Some 5" by code_simp
  have used: "used_by demo_money u = 0" "used_total demo_money = 0" for u by (simp_all add: used_by_def used_total_def joined_grants_def demo_money_def)
  have load: "loadPolicy demo_money = Inr ((''p1'', demo_policy), demo_money)"
    by (simp add: loadPolicy_def tx_defs check_result_def demo_valid demo_money_def)
  have found: "loadRequest ''r1'' demo_money = Inr (request_of demo_request, demo_money)"
    by (simp add: loadRequest_def tx_defs demo_money_def) (simp add: demo_request_def)
  have roles: "role ''ap'' ''treasury_approver'' demo_money = Inr ((), demo_money)" "role ''op'' ''treasury_operator'' demo_money = Inr ((), demo_money)"
    by (simp_all add: role_def tx_defs active_user_def demo_money_def)
  have ok: "eligible demo_policy (rq_Input (request_of demo_request)) demo_money = Inr ((), demo_money)"
    by (simp add: request eligible_def tx_defs active_user_def demo_money_def demo_policy_def)
  let ?post = "postGrant (request_of demo_request) ''ap'' ''k2'' ''500'' demo_prices demo_money"
  have issue: "issue_grant env demo_desk 6 ''ap'' ''k2'' (request_of demo_request) (''p1'', demo_policy) demo_money = ?post"
    using roles ok demo_worth demo_quota
    by (simp add: issue_grant_def request Let_def bindT_def queryT_def ensureT_def returnT_def liftT_def demo_desk_def used demo_texts check_result_def)
      (simp add: demo_money_def)
  have run: "Approve_tx env demo_desk 6 ''ap'' ''r1'' ''k2'' demo_money = ?post"
    using load roles found issue by (simp add: Approve_tx_def bindT_def queryT_def ensureT_def returnT_def request) (simp add: demo_money_def)
  have "\<exists>gr t. ?post = Inr (gr, t) \<and> map (\<lambda>g. (tg_request g, tg_approved_by g, tg_value g)) (tm_grants t) = [(''r1'', ''ap'', 500)]"
    by (simp add: request postGrant_def Let_def issuance_account_def tx_defs demo_money_def gen_random_uuid_def LockAccountAsset_def advisory_lock_def
        numeric_cast_def five demo_numbers post_journal_def insert_journal_def insert_posting_def issuance_legs_def insert_grant_def char_length_def
        record_event_def append_outbox_def)
  then show ?thesis using run by (auto simp: demo_issued_def Approve_def demo_key begin_service_def demo_desk_def transaction_def)
qed

section \<open>Property\<close>

text \<open>
  C36: test money stays within its limits and needs two people. Under any sequence of proposals, approvals,
  pilot configurations and other activity of the platform, the grants of a tester add up to at most
  10000 USDT and all grants together to at most the global limit of one of the policies; every
  grant belongs to a request proposed by somebody other than its approver and has exactly one issuance journal,
  which moves the requested amount of the asset from the issuance account to the account of the request; there is
  no issuance journal without a grant; and policies, requests and grants are never changed or lost.
\<close>

theorem test_money_within_limits:
  assumes "grants_inv s" "testmoney_step\<^sup>*\<^sup>* s t"
  shows "(\<forall>u. used_by t u \<le> 10 ^ 12) \<and>
    (tm_grants t = [] \<or> (\<exists>(i, p) \<in> set (tm_policies t). \<exists>n. SetString (po_GlobalLimitUSDTAtomic p) = Some n \<and> used_total t \<le> n)) \<and>
    (\<forall>g \<in> set (tm_grants t). \<exists>r \<in> set (tm_requests t). tr_id r = tg_request g \<and> tr_proposed_by r \<noteq> tg_approved_by g \<and>
      (\<exists>j c. filter (\<lambda>j. j_reference_type j = ''test_money_issuance'' \<and> j_reference_id j = tg_request g) (journals t) = [j] \<and> j_id j = tg_journal g \<and>
        filter (\<lambda>p. p_journal p = j_id j) (postings t) = map (posting_of (j_id j)) (issuance_legs c (tr_account r) (tr_asset r) (tr_amount r)))) \<and>
    (\<forall>j \<in> set (journals t). j_reference_type j = ''test_money_issuance'' \<longrightarrow> j_reference_id j \<in> tg_request ` set (tm_grants t)) \<and>
    distinct (map tg_request (tm_grants t)) \<and> history_kept s t"
proof -
  have inv: "grants_inv t" "history_kept s t" using testmoney_run [OF assms(2)] assms(1) by (auto simp: grants_safe_def)
  then have "within_global t" "\<forall>g \<in> set (tm_grants t). \<exists>r \<in> set (tm_requests t). issues t g r" by (simp_all add: grants_inv_def)
  then show ?thesis using inv unfolding grants_inv_def within_global_def issues_def posted_once_def by meson
qed

theorem test_money_within_limits_witness:
  "grants_inv demo_money \<and> (\<exists>g j. tm_grants (demo_issued plain_env) = [g] \<and> tg_value g = 500 \<and>
     filter (\<lambda>j. j_reference_type j = ''test_money_issuance'' \<and> j_reference_id j = ''r1'') (journals (demo_issued plain_env)) = [j])"
proof -
  obtain g where g: "tm_grants (demo_issued plain_env) = [g]" "tg_request g = ''r1''" "tg_value g = 500"
    using demo_issued_grants [of plain_env] by (cases "tm_grants (demo_issued plain_env)") auto
  have "testmoney_step\<^sup>*\<^sup>* demo_money (demo_issued plain_env)" unfolding demo_issued_def by (rule r_into_rtranclp, rule testmoney_step.approve)
  then show ?thesis using test_money_within_limits [OF demo_money_inv] g demo_money_inv by fastforce
qed

end
