(* ===== verification/Spec2Isabelle.thy ===== *)
theory Spec2Isabelle
  imports Service_Refinement Settlement_Delivery P2P_Retry Market_Maker_System Withdrawal_Limits Transfer_Keys Conversion_Settlement
  Market_Consumer Test_Money_Limits
begin

text \<open>
  Limiance: a verification library for the backend of a digital-asset exchange.

  \<^bold>\<open>The program.\<close> The backend (Go, \<open>src/internal\<close> and \<open>src/cmd\<close>) is a set of services over one
  PostgreSQL database. Every balance is a sum of postings of double-entry journals
  (\<open>internal/ledger\<close>); no service stores a balance. The trading service
  (\<open>internal/trading\<close>) checks an order, reserves its money by moving it into the \<open>held\<close> bucket of
  the account, sends a FlatBuffers command to the matching engine (a C++ process) and records the
  engine's answers; the settlement consumer receives the engine's trades in sequence and moves the
  money. The market maker (\<open>internal/marketmaker\<close>) forms quotes from external feeds and
  trades through the same service. Peer-to-peer trades (\<open>internal/p2p\<close>) hold the
  seller's asset in escrow. Deposits, internal transfers and withdrawals
  (\<open>internal/datamanager\<close>, \<open>internal/transfers\<close>, \<open>internal/withdrawals\<close>,
  \<open>internal/custody\<close>) connect the ledger with an external custody provider. Conversions
  (\<open>internal/conversions\<close>) quote one asset against another and settle with the exchange's treasury.
  The market data consumer (\<open>internal/marketdata\<close>) turns the engine's trades and order books into
  candles, tickers and published messages.

  \<^bold>\<open>How it is modelled.\<close> The database is a record whose fields are tables (lists of rows);
  \<open>ledger_db\<close> holds the tables every service uses and \<open>trading_db\<close>, the P2P tables and
  \<open>custody_db\<close> extend it. A database transaction is a state transformer that may fail
  (theory \<open>Prelude\<close>): a failing statement or an early return gives \<open>Inl\<close> and leaves the
  database as it was. Primary keys, unique keys, foreign keys and checks that a statement can run
  into are guards with their SQLSTATE. Every Go method that opens a transaction appears as a
  transaction body (\<open>..._tx\<close>) and as the function that commits it. Transactions run one after the
  other: settlement asks PostgreSQL for serializable isolation, the other stores lock the rows and
  advisory keys they depend on, and interleavings inside transactions are not modelled. Whether
  PostgreSQL aborts a settlement (40001), which the code retries, is a parameter. Failures of the
  connection to the database are not modelled. Machine integers keep
  their width (\<open>i64\<close>, \<open>u64\<close>, \<open>i16\<close> words), \<open>big.Int\<close> and \<open>NUMERIC\<close> are \<open>int\<close>,
  Go strings are byte strings, database times are microseconds, Go times nanoseconds. Go maps
  whose order matters are lists in any order.

  \<^bold>\<open>Parameters.\<close> Code outside the repository is an argument: the generated FlatBuffers
  accessors, the matching engine, the custody provider, price feeds, the clock, random bytes and
  UUIDs, SHA-256, Unicode case tables beyond ASCII, JSON quoting, PostgreSQL's \<open>lower\<close>, the
  fee resolver, the message cache. Hypotheses about them are stated in the theorems that need them.

  \<^bold>\<open>Theories.\<close>
  \<^item> \<open>Prelude\<close>, \<open>Go_Strings\<close>, \<open>Decimal_Text\<close>: transactions, relations that
    transactions respect (locale \<open>tx_relation\<close>), invariants of transition systems (locale
    \<open>transition_system\<close>), the string functions of Go, decimal text.
  \<^item> \<open>Ledger\<close>, \<open>Ledger_DB\<close>: \<open>Journal.Validate\<close> of \<open>ledger.go\<close>, lock keys, the ledger tables,
    balances and their preservation (locale \<open>ledger_account\<close>); totals that wrap around. C1.
  \<^item> \<open>Amounts\<close>, \<open>Trade_Amounts\<close>: ceiling divisions, notional, fee, reservation. C3.
  \<^item> \<open>Orders\<close>, \<open>Protocol\<close>: order normalisation and fingerprint (\<open>order.go\<close>, \<open>service.go\<close>), engine
    messages (\<open>protocol/\<close>). C2, C4.
  \<^item> \<open>Trading_DB\<close>, \<open>Order_Store\<close>, \<open>Settlement_Store\<close>: the stores of
    \<open>trading/postgres\<close>, every method.
  \<^item> \<open>Trading_Safety\<close>, \<open>Trading_System\<close>, \<open>Hold_Accounting\<close>, \<open>Hold_System\<close>, \<open>Order_Lifecycle\<close>,
    \<open>Settlement_Sequence\<close>: what every sequence of store calls keeps: funds, holds, the life of an
    order, the sequence of trades. C5 to C9.
  \<^item> \<open>Trading_Service\<close>, \<open>Service_Refinement\<close>, \<open>Settlement_Delivery\<close>: the service and the settlement
    consumer over the store; service runs are store runs; retries, redelivery, gaps and replay.
    C10 to C13, C19.
  \<^item> \<open>P2P\<close>, \<open>P2P_Store\<close>, \<open>P2P_Escrow\<close>, \<open>P2P_System\<close>, \<open>P2P_Retry\<close>: the P2P service and
    store, the abstract escrow machine they refine, accounting, life cycle, dual control, retries.
    C14 to C18.
  \<^item> \<open>Market_Quote\<close>, \<open>Market_Maker\<close>, \<open>Market_Maker_System\<close>: reference price and quote, the quoting
    cycle, its limits and its refinement of trading. C20 to C23.
  \<^item> \<open>Custody_DB\<close>, \<open>Custody_Amounts\<close>, \<open>Withdrawals\<close>, \<open>Withdrawal_Capacity\<close>, \<open>Withdrawal_Dispatch\<close>,
    \<open>Deposits\<close>: tables and transactions of \<open>datamanager/manager.go\<close>, \<open>withdrawal_*.go\<close>,
    \<open>transfers/service.go\<close>, \<open>withdrawals/service.go\<close>. C24.
  \<^item> \<open>Withdrawal_Machine\<close>, \<open>Withdrawal_System\<close>: the abstract life of withdrawals and the proof that
    every operation follows it (locale \<open>custody_relation\<close>). C25 to C28.
  \<^item> \<open>Withdrawal_Worker\<close>: the worker and the reconciler of \<open>internal/withdrawals\<close>; custody is called
    once per withdrawal. C29.
  \<^item> \<open>Withdrawal_Limits\<close>: custody capacity at dispatch, deposit entitlement at admission. C30, C33.
  \<^item> \<open>Custody_Frame\<close>, \<open>Deposit_Credits\<close>, \<open>Transfer_Keys\<close>: which operations leave a kind of journal and
    its tables alone (locale \<open>custody_frame\<close>); every deposit is credited once; journal keys of
    withdrawals can be taken by transfers. C31, C32.
  \<^item> \<open>Conversions\<close>, \<open>Conversion_Settlement\<close>: \<open>conversions/service.go\<close> and \<open>datamanager/conversions.go\<close>;
    exact quotes, one settlement per quote, quotes that cannot settle. C34 to C36.
  \<^item> \<open>Market_Data\<close>, \<open>Candles\<close>, \<open>Order_Book\<close>: \<open>marketdata/model.go\<close>, \<open>candles.go\<close> and \<open>snapshot.go\<close>: the
    intervals partition time, aggregation and gap filling, order books on the wire. C38, C39.
  \<^item> \<open>Market_Store\<close>, \<open>Market_Ticks\<close>, \<open>Market_Consumer\<close>: \<open>marketdata/postgres.go\<close> and \<open>consumer.go\<close>; stored
    candles are the candles of the stored trades, messages are published in order. C37, C40.

  \<^bold>\<open>Bounds and fuel.\<close> Loops over lists are structural recursions and the receive loop of the
  two consumers run over the list of received messages. The gap filling of candles is a
  \<open>partial_function\<close> and proved to return. The retry loop of settlement is
  bounded by the code (three attempts). No definition uses fuel.

  \<^bold>\<open>Not modelled.\<close> HTTP handlers, cookies, JSON decoding; authentication, KYC and notification
  providers (cryptography and remote services); signing and transport of the custody client;
  configuration, metrics, command-line tools; the HTTP clients of the price feeds; the generated wire
  code and the C++ engine. Test money and the fee schedule service are not part of the library.
  Reading methods that only page through rows are modelled where a modelled caller uses them.
\<close>

end
